(* ===== verification/Prelude.thy ===== *)
theory Prelude
  imports Main "HOL-Library.Word" "HOL-Library.List_Lexorder" "HOL-Library.Char_ord"
begin

text \<open>
  Shared vocabulary of the middleWHERE development: the machine integers and byte strings of
  the Rust sources, the conversions between text and bytes, the big- and little-endian
  encodings of the standard library, and the collections of simplification rules the component
  theories add to.

  A Rust \<open>String\<close>/\<open>&str\<close> is a \<^typ>\<open>string\<close> whose characters are the
  bytes of its UTF-8 encoding (so \<open>len()\<close> is \<^const>\<open>length\<close>, and the ordering
  of \<open>BTreeMap\<close> keys is the lexicographic one); a Rust \<open>[u8]\<close> is a list of 8-bit
  words.
\<close>

unbundle bit_operations_syntax

type_synonym u8 = "8 word"
type_synonym u16 = "16 word"
type_synonym u32 = "32 word"
type_synonym u64 = "64 word"
type_synonym bytes = "u8 list"
type_synonym name = string

named_theorems wire_simps \<open>definitions of wire encoders, unfolded to evaluate packets\<close>
named_theorems len_simps \<open>lengths of encoded fields\<close>

section \<open>Text and bytes\<close>

definition char_byte :: "char \<Rightarrow> u8" where
  "char_byte c = word_of_nat (of_char c)"

definition byte_char :: "u8 \<Rightarrow> char" where
  "byte_char b = char_of (unat b)"

definition as_bytes :: "string \<Rightarrow> bytes" where
  "as_bytes s = map char_byte s"

definition of_bytes :: "bytes \<Rightarrow> string" where
  "of_bytes b = map byte_char b"

lemma byte_char_char_byte [simp]: "byte_char (char_byte c) = c"
  by (simp add: byte_char_def char_byte_def unat_of_nat)

lemma char_byte_byte_char [simp]: "char_byte (byte_char b) = b"
proof -
  have "of_char (char_of (unat b)) = unat b mod 256" by simp
  moreover have "unat b < 256" using unsigned_less [of b] by simp
  ultimately show ?thesis by (simp add: byte_char_def char_byte_def)
qed

lemma of_bytes_as_bytes [simp]: "of_bytes (as_bytes s) = s"
  by (simp add: of_bytes_def as_bytes_def comp_def)

lemma as_bytes_of_bytes [simp]: "as_bytes (of_bytes b) = b"
  by (simp add: of_bytes_def as_bytes_def comp_def)

lemma as_bytes_simps [simp]:
  "as_bytes [] = []"
  "as_bytes (c # s) = char_byte c # as_bytes s"
  "as_bytes (s @ t) = as_bytes s @ as_bytes t"
  "length (as_bytes s) = length s"
  by (simp_all add: as_bytes_def)

lemma of_bytes_simps [simp]:
  "of_bytes [] = []"
  "of_bytes (x # b) = byte_char x # of_bytes b"
  "of_bytes (b @ d) = of_bytes b @ of_bytes d"
  "length (of_bytes b) = length b"
  by (simp_all add: of_bytes_def)

lemma as_bytes_inject [simp]: "as_bytes s = as_bytes t \<longleftrightarrow> s = t"
  by (metis of_bytes_as_bytes)

lemma char_byte_inject [simp]: "char_byte c = char_byte d \<longleftrightarrow> c = d"
  by (metis byte_char_char_byte)

section \<open>Endian encodings of the standard library\<close>

definition be16 :: "u16 \<Rightarrow> bytes" where
  "be16 w = [ucast (drop_bit 8 w), ucast w]"

definition from_be16 :: "u8 \<Rightarrow> u8 \<Rightarrow> u16" where
  "from_be16 a b = push_bit 8 (ucast a) OR ucast b"

definition be32 :: "u32 \<Rightarrow> bytes" where
  "be32 w = [ucast (drop_bit 24 w), ucast (drop_bit 16 w), ucast (drop_bit 8 w), ucast w]"

definition from_be32 :: "u8 \<Rightarrow> u8 \<Rightarrow> u8 \<Rightarrow> u8 \<Rightarrow> u32" where
  "from_be32 a b c d =
     push_bit 24 (ucast a) OR push_bit 16 (ucast b) OR push_bit 8 (ucast c) OR ucast d"

definition from_be64 :: "bytes \<Rightarrow> u64" where
  "from_be64 bs = foldl (\<lambda>acc x. push_bit 8 acc OR ucast x) 0 bs"

definition le16 :: "u16 \<Rightarrow> bytes" where
  "le16 w = rev (be16 w)"

definition from_le16 :: "u8 \<Rightarrow> u8 \<Rightarrow> u16" where
  "from_le16 a b = from_be16 b a"

definition le32 :: "u32 \<Rightarrow> bytes" where
  "le32 w = rev (be32 w)"

definition from_le32 :: "u8 \<Rightarrow> u8 \<Rightarrow> u8 \<Rightarrow> u8 \<Rightarrow> u32" where
  "from_le32 a b c d = from_be32 d c b a"

definition le64 :: "u64 \<Rightarrow> bytes" where
  "le64 w = map (\<lambda>i. ucast (drop_bit (8 * i) w)) [0..<8]"

lemmas [wire_simps] =
  be16_def be32_def le16_def le32_def from_be16_def from_be32_def from_le16_def from_le32_def

lemma length_endian [simp, len_simps]:
  "length (be16 w) = 2" "length (be32 v) = 4" "length (le16 w) = 2" "length (le32 v) = 4"
  "length (le64 x) = 8"
  by (simp_all add: be16_def be32_def le16_def le32_def le64_def)

lemma from_be16_be16: "from_be16 (ucast (drop_bit 8 w)) (ucast w) = (w :: u16)"
  unfolding from_be16_def
proof (rule bit_word_eqI)
  fix n assume "n < LENGTH(16)"
  then show "bit (push_bit 8 (ucast (ucast (drop_bit 8 w) :: u8)) OR ucast (ucast w :: u8) :: u16) n
      = bit w n"
    by (cases "n < 8") (auto simp: bit_simps)
qed

lemma from_be32_be32:
  "from_be32 (ucast (drop_bit 24 w)) (ucast (drop_bit 16 w)) (ucast (drop_bit 8 w)) (ucast w)
     = (w :: u32)"
  unfolding from_be32_def
proof (rule bit_word_eqI)
  fix n assume n: "n < LENGTH(32)"
  consider "n < 8" | "8 \<le> n" "n < 16" | "16 \<le> n" "n < 24" | "24 \<le> n" "n < 32"
    using n by (auto simp: not_less intro: that) (metis not_less)
  then show "bit (push_bit 24 (ucast (ucast (drop_bit 24 w) :: u8))
      OR push_bit 16 (ucast (ucast (drop_bit 16 w) :: u8))
      OR push_bit 8 (ucast (ucast (drop_bit 8 w) :: u8)) OR ucast (ucast w :: u8) :: u32) n
      = bit w n"
    by cases (auto simp: bit_simps dest: bit_imp_le_length)
qed

lemma be16_inverse: "be16 w = [a, b] \<Longrightarrow> from_be16 a b = w"
  by (auto simp: be16_def from_be16_be16)

lemma be32_inverse: "be32 w = [a, b, c, d] \<Longrightarrow> from_be32 a b c d = w"
  by (auto simp: be32_def from_be32_be32)

lemma be16_cons: obtains a b where "be16 w = [a, b]" "from_be16 a b = w"
  by (metis be16_def from_be16_be16)

lemma be32_cons: obtains a b c d where "be32 w = [a, b, c, d]" "from_be32 a b c d = w"
  by (metis be32_def from_be32_be32)

lemma le16_cons: obtains a b where "le16 w = [a, b]" "from_le16 a b = w"
proof -
  have "le16 w = [ucast w, ucast (drop_bit 8 w)]" by (simp add: le16_def be16_def)
  moreover have "from_le16 (ucast w) (ucast (drop_bit 8 w)) = w"
    by (simp add: from_le16_def from_be16_be16)
  ultimately show thesis by (rule that)
qed

lemma le32_cons: obtains a b c d where "le32 w = [a, b, c, d]" "from_le32 a b c d = w"
proof -
  have "le32 w = [ucast w, ucast (drop_bit 8 w), ucast (drop_bit 16 w), ucast (drop_bit 24 w)]"
    by (simp add: le32_def be32_def)
  moreover have "from_le32 (ucast w) (ucast (drop_bit 8 w)) (ucast (drop_bit 16 w))
      (ucast (drop_bit 24 w)) = w"
    by (simp add: from_le32_def from_be32_be32)
  ultimately show thesis by (rule that)
qed

text \<open>\<open>usize as i32\<close> keeps the low 32 bits; for a length below \<open>2 ^ 31\<close> the cast is exact.\<close>

lemma sint_of_nat_small: "n < 2 ^ 31 \<Longrightarrow> sint (word_of_nat n :: u32) = int n"
  by (simp add: signed_of_nat signed_take_bit_int_eq_self)

lemma unat_of_nat_small: "n < 2 ^ 32 \<Longrightarrow> unat (word_of_nat n :: u32) = n"
  by (simp add: unat_of_nat)

section \<open>Text helpers of the standard library\<close>

definition char_between :: "char \<Rightarrow> char \<Rightarrow> char \<Rightarrow> bool" where
  "char_between lo hi c \<longleftrightarrow> lo \<le> c \<and> c \<le> hi"

definition is_digit :: "char \<Rightarrow> bool" where
  "is_digit c \<longleftrightarrow> char_between (CHR ''0'') (CHR ''9'') c"

definition is_alpha :: "char \<Rightarrow> bool" where
  "is_alpha c \<longleftrightarrow> char_between (CHR ''A'') (CHR ''Z'') c \<or> char_between (CHR ''a'') (CHR ''z'') c"

definition is_alnum :: "char \<Rightarrow> bool" where
  "is_alnum c \<longleftrightarrow> is_alpha c \<or> is_digit c"

text \<open>\<open>to_ascii_lowercase\<close> and \<open>to_ascii_uppercase\<close>: only the ASCII letters change.\<close>

definition lower_char :: "char \<Rightarrow> char" where
  "lower_char c = (if char_between (CHR ''A'') (CHR ''Z'') c then char_of (of_char c + 32 :: nat) else c)"

definition upper_char :: "char \<Rightarrow> char" where
  "upper_char c = (if char_between (CHR ''a'') (CHR ''z'') c then char_of (of_char c - 32 :: nat) else c)"

definition ascii_lower :: "string \<Rightarrow> string" where
  "ascii_lower s = map lower_char s"

definition ascii_upper :: "string \<Rightarrow> string" where
  "ascii_upper s = map upper_char s"

text \<open>Decimal rendering of a natural number and of an integer, as \<open>to_string\<close> gives it.\<close>

fun show_nat :: "nat \<Rightarrow> string" where
  "show_nat n =
     (if n < 10 then [char_of (48 + n)] else show_nat (n div 10) @ [char_of (48 + n mod 10)])"

declare show_nat.simps [simp del]

definition show_int :: "int \<Rightarrow> string" where
  "show_int i = (if i < 0 then CHR ''-'' # show_nat (nat (- i)) else show_nat (nat i))"

definition contains_sub :: "string \<Rightarrow> string \<Rightarrow> bool" where
  "contains_sub pat s \<longleftrightarrow> (\<exists>k \<in> set [0..<Suc (length s)]. take (length pat) (drop k s) = pat)"

definition starts_with :: "'a list \<Rightarrow> 'a list \<Rightarrow> bool" where
  "starts_with pre s \<longleftrightarrow> take (length pre) s = pre"

lemma starts_with_Nil [simp]: "starts_with [] s"
  by (simp add: starts_with_def)

lemma starts_with_append [simp]: "starts_with p (p @ s)"
  by (simp add: starts_with_def)

lemma contains_sub_iff: "contains_sub pat s \<longleftrightarrow> (\<exists>u v. s = u @ pat @ v)"
proof
  assume "contains_sub pat s"
  then obtain k where "take (length pat) (drop k s) = pat" by (auto simp: contains_sub_def)
  then have "s = take k s @ pat @ drop (length pat) (drop k s)"
    by (metis append_take_drop_id)
  then show "\<exists>u v. s = u @ pat @ v" by blast
next
  assume "\<exists>u v. s = u @ pat @ v"
  then obtain u v where s: "s = u @ pat @ v" by blast
  then have "length u \<in> set [0..<Suc (length s)]" by auto
  then show "contains_sub pat s"
    unfolding contains_sub_def using s by (intro bexI [of _ "length u"]) auto
qed

lemma show_nat_digits: "c \<in> set (show_nat n) \<Longrightarrow> is_digit c"
proof (induction n rule: show_nat.induct)
  case (1 n)
  have d: "is_digit (char_of (48 + k))" if "k < 10" for k :: nat
    using that by (auto simp: is_digit_def char_between_def less_eq_char_def)
  show ?case
  proof (cases "n < 10")
    case True
    then show ?thesis using "1.prems" d by (subst (asm) show_nat.simps) auto
  next
    case False
    then have "c \<in> set (show_nat (n div 10)) \<or> c = char_of (48 + n mod 10)"
      using "1.prems" by (subst (asm) show_nat.simps) auto
    then show ?thesis using "1.IH" [OF False] d [of "n mod 10"] by auto
  qed
qed

lemma show_nat_nonempty [simp]: "show_nat n \<noteq> []"
  by (subst show_nat.simps) simp

section \<open>Trimming\<close>

text \<open>The UTF-8 encodings of the characters of Unicode's \<open>White_Space\<close> property, which
  \<open>str::trim\<close> removes from both ends.\<close>

definition ws_chars :: "string list" where
  "ws_chars =
     map (\<lambda>n. [char_of (n :: nat)]) [9, 10, 11, 12, 13, 32] @
     map (map (char_of :: nat \<Rightarrow> char))
       ([[0xC2, 0x85], [0xC2, 0xA0], [0xE1, 0x9A, 0x80], [0xE2, 0x80, 0xA8], [0xE2, 0x80, 0xA9],
         [0xE2, 0x80, 0xAF], [0xE2, 0x81, 0x9F], [0xE3, 0x80, 0x80]] @
        map (\<lambda>k. [0xE2, 0x80, k]) [0x80, 0x81, 0x82, 0x83, 0x84, 0x85, 0x86, 0x87, 0x88, 0x89, 0x8A])"

function trim_front :: "string list \<Rightarrow> string \<Rightarrow> string" where
  "trim_front ws s =
     (case find (\<lambda>w. w \<noteq> [] \<and> starts_with w s) ws of
        None \<Rightarrow> s
      | Some w \<Rightarrow> trim_front ws (drop (length w) s))"
  by pat_completeness auto
termination
  by (relation "measure (length \<circ> snd)")
    (auto simp: find_Some_iff starts_with_def, metis diff_less length_greater_0_conv take_Nil)

declare trim_front.simps [simp del]

definition trim_start :: "string \<Rightarrow> string" where
  "trim_start s = trim_front ws_chars s"

definition trim_end :: "string \<Rightarrow> string" where
  "trim_end s = rev (trim_front (map rev ws_chars) (rev s))"

definition trim :: "string \<Rightarrow> string" where
  "trim s = trim_end (trim_start s)"

end
