(* ===== verification/BTree_Map.thy ===== *)
theory BTree_Map
  imports Prelude
begin

text \<open>
  \<open>std::collections::BTreeMap\<close>, the container of every table of the configuration: a
  finite map whose iteration is in ascending key order. The type is the strictly sorted
  association lists, so two maps are equal exactly when they hold the same bindings, and every
  iteration of the sources (\<open>iter\<close>, \<open>keys\<close>, \<open>values\<close>) is a traversal of
  \<open>bt_entries\<close>.

  The interface the components rely on is the locale \<open>ordered_map\<close>; what they need of it
  is proved once there and used through the interpretation \<open>bt\<close>.
\<close>

section \<open>Sorted association lists\<close>

definition strict_keys :: "('k::linorder \<times> 'v) list \<Rightarrow> bool" where
  "strict_keys xs \<longleftrightarrow> sorted_wrt (<) (map fst xs)"

fun al_insert :: "'k::linorder \<Rightarrow> 'v \<Rightarrow> ('k \<times> 'v) list \<Rightarrow> ('k \<times> 'v) list" where
  "al_insert k v [] = [(k, v)]"
| "al_insert k v ((a, b) # xs) =
     (if k < a then (k, v) # (a, b) # xs
      else if k = a then (k, v) # xs
      else (a, b) # al_insert k v xs)"

fun al_remove :: "'k::linorder \<Rightarrow> ('k \<times> 'v) list \<Rightarrow> ('k \<times> 'v) list" where
  "al_remove k [] = []"
| "al_remove k ((a, b) # xs) = (if k = a then xs else (a, b) # al_remove k xs)"

lemma strict_keys_Nil [simp]: "strict_keys []"
  by (simp add: strict_keys_def)

lemma strict_keys_Cons [simp]:
  "strict_keys ((k, v) # xs) \<longleftrightarrow> (\<forall>(a, b) \<in> set xs. k < a) \<and> strict_keys xs"
  by (auto simp: strict_keys_def)

lemma set_al_insert: "fst ` set (al_insert k v xs) = insert k (fst ` set xs)"
  by (induction k v xs rule: al_insert.induct) auto

lemma set_al_insert_sub: "p \<in> set (al_insert k v xs) \<Longrightarrow> p = (k, v) \<or> p \<in> set xs"
  by (induction k v xs rule: al_insert.induct) (auto split: if_splits)

lemma set_al_remove_sub: "p \<in> set (al_remove k xs) \<Longrightarrow> p \<in> set xs"
  by (induction k xs rule: al_remove.induct) (auto split: if_splits)

lemma strict_keys_al_insert: "strict_keys xs \<Longrightarrow> strict_keys (al_insert k v xs)"
  by (induction k v xs rule: al_insert.induct)
    (force dest: set_al_insert_sub simp: split_beta)+

lemma strict_keys_al_remove: "strict_keys xs \<Longrightarrow> strict_keys (al_remove k xs)"
  by (induction k xs rule: al_remove.induct) (auto dest: set_al_remove_sub)

lemma map_of_None_strict:
  fixes k :: "'k::linorder"
  shows "\<forall>(a, b) \<in> set xs. k < a \<Longrightarrow> map_of xs k = None"
  by (auto simp: map_of_eq_None_iff)

lemma map_of_al_insert: "strict_keys xs \<Longrightarrow> map_of (al_insert k v xs) = (map_of xs)(k \<mapsto> v)"
  by (induction k v xs rule: al_insert.induct) (auto simp: fun_eq_iff)

lemma map_of_al_remove: "strict_keys xs \<Longrightarrow> map_of (al_remove k xs) = (map_of xs)(k := None)"
  by (induction k xs rule: al_remove.induct) (auto simp: fun_eq_iff map_of_None_strict)

lemma strict_keys_distinct: "strict_keys xs \<Longrightarrow> distinct (map fst xs)"
  by (simp add: strict_keys_def strict_sorted_iff)

lemma strict_keys_ext:
  "strict_keys xs \<Longrightarrow> strict_keys ys \<Longrightarrow> map_of xs = map_of ys \<Longrightarrow> xs = ys"
proof (induction xs arbitrary: ys)
  case Nil
  then show ?case by (cases ys) (auto simp: fun_eq_iff split: if_splits)
next
  case (Cons p xs)
  obtain k v where p: "p = (k, v)" by fastforce
  have mk: "map_of ys k = Some v" using Cons.prems(3) p by (metis map_of_Cons_code(2))
  then obtain a b zs where ys: "ys = (a, b) # zs" by (cases ys) auto
  have "k = a"
  proof (rule antisym)
    have "map_of (p # xs) a = Some b" using Cons.prems(3) ys by (metis map_of_Cons_code(2))
    then have "(a, b) \<in> set (p # xs)" by (rule map_of_SomeD)
    then show "k \<le> a" using Cons.prems(1) p by auto
    have "(k, v) \<in> set ys" using mk by (rule map_of_SomeD)
    then show "a \<le> k" using Cons.prems(2) ys by auto
  qed
  moreover have "v = b" using mk ys \<open>k = a\<close> by simp
  moreover have "map_of xs = map_of zs"
  proof
    fix x
    have "map_of xs k = None" "map_of zs k = None"
      using Cons.prems(1,2) p ys \<open>k = a\<close> by (auto intro: map_of_None_strict)
    then show "map_of xs x = map_of zs x"
      using fun_cong [OF Cons.prems(3), of x] p ys \<open>k = a\<close> by (auto split: if_splits)
  qed
  ultimately show ?case using Cons.IH [of zs] Cons.prems p ys by simp
qed

section \<open>The container\<close>

typedef (overloaded) ('k::linorder, 'v) btree = "{xs :: ('k \<times> 'v) list. strict_keys xs}"
  morphisms bt_entries Btree
  by (rule exI [of _ "[]"]) simp

setup_lifting type_definition_btree

lift_definition bt_empty :: "('k::linorder, 'v) btree" is "[]" by simp

lift_definition bt_get :: "('k::linorder, 'v) btree \<Rightarrow> 'k \<Rightarrow> 'v option" is map_of .

lift_definition bt_insert :: "'k::linorder \<Rightarrow> 'v \<Rightarrow> ('k, 'v) btree \<Rightarrow> ('k, 'v) btree" is al_insert
  by (rule strict_keys_al_insert)

lift_definition bt_remove :: "'k::linorder \<Rightarrow> ('k, 'v) btree \<Rightarrow> ('k, 'v) btree" is al_remove
  by (rule strict_keys_al_remove)

text \<open>\<open>values_mut\<close>: every value rewritten in place, the keys unchanged.\<close>

lift_definition bt_map_values :: "('v \<Rightarrow> 'w) \<Rightarrow> ('k::linorder, 'v) btree \<Rightarrow> ('k, 'w) btree"
  is "\<lambda>f. map (\<lambda>(k, v). (k, f v))"
  by (simp add: strict_keys_def comp_def split_beta)

definition bt_contains :: "('k::linorder, 'v) btree \<Rightarrow> 'k \<Rightarrow> bool" where
  "bt_contains m k \<longleftrightarrow> bt_get m k \<noteq> None"

definition bt_keys :: "('k::linorder, 'v) btree \<Rightarrow> 'k list" where
  "bt_keys m = map fst (bt_entries m)"

definition bt_values :: "('k::linorder, 'v) btree \<Rightarrow> 'v list" where
  "bt_values m = map snd (bt_entries m)"

text \<open>\<open>extend\<close> inserts the bindings of the other map one by one.\<close>

definition bt_extend :: "('k::linorder, 'v) btree \<Rightarrow> ('k, 'v) btree \<Rightarrow> ('k, 'v) btree" where
  "bt_extend m m' = foldl (\<lambda>acc (k, v). bt_insert k v acc) m (bt_entries m')"

instantiation btree :: (linorder, equal) equal
begin

definition equal_btree :: "('a, 'b) btree \<Rightarrow> ('a, 'b) btree \<Rightarrow> bool" where
  "equal_btree m m' \<longleftrightarrow> bt_entries m = bt_entries m'"

instance by standard (simp add: equal_btree_def bt_entries_inject)

end

instantiation btree :: (linorder, type) size
begin

definition size_btree :: "('a, 'b) btree \<Rightarrow> nat" where
  "size_btree m = length (bt_entries m)"

instance ..

end

lemma bt_entries_simps [simp]:
  "bt_entries bt_empty = []"
  "bt_entries (bt_insert k v m) = al_insert k v (bt_entries m)"
  "bt_entries (bt_remove k m) = al_remove k (bt_entries m)"
  "bt_entries (bt_map_values f m) = map (\<lambda>(k, v). (k, f v)) (bt_entries m)"
  by (transfer, simp)+

lemma strict_keys_entries [simp]: "strict_keys (bt_entries m)"
  using bt_entries by blast

lemma bt_get_entries: "bt_get m = map_of (bt_entries m)"
  by transfer simp

section \<open>The interface of an ordered map\<close>

locale ordered_map =
  fixes empty :: "'m"
    and update :: "'k::linorder \<Rightarrow> 'v \<Rightarrow> 'm \<Rightarrow> 'm"
    and delete :: "'k \<Rightarrow> 'm \<Rightarrow> 'm"
    and lookup :: "'m \<Rightarrow> 'k \<Rightarrow> 'v option"
    and entries :: "'m \<Rightarrow> ('k \<times> 'v) list"
  assumes lookup_empty: "lookup empty k = None"
    and lookup_update: "lookup (update k v m) = (lookup m)(k \<mapsto> v)"
    and lookup_delete: "lookup (delete k m) = (lookup m)(k := None)"
    and lookup_entries: "lookup m k = map_of (entries m) k"
    and entries_sorted: "sorted_wrt (<) (map fst (entries m))"
begin

lemma entries_distinct: "distinct (map fst (entries m))"
  using entries_sorted [of m] by (simp add: strict_sorted_iff)

lemma in_entries: "(k, v) \<in> set (entries m) \<longleftrightarrow> lookup m k = Some v"
  by (simp add: lookup_entries entries_distinct)

lemma entries_empty: "entries empty = []"
proof (rule ccontr)
  assume "entries empty \<noteq> []"
  then obtain k v where "(k, v) \<in> set (entries empty)" by (cases "entries empty") auto
  then show False by (simp add: in_entries lookup_empty)
qed

lemma lookup_update_same [simp]: "lookup (update k v m) k = Some v"
  by (simp add: lookup_update)

lemma lookup_update_other: "k \<noteq> k' \<Longrightarrow> lookup (update k v m) k' = lookup m k'"
  by (simp add: lookup_update)

lemma filter_entries_Nil:
  "filter P (entries m) = [] \<longleftrightarrow> (\<forall>k v. lookup m k = Some v \<longrightarrow> \<not> P (k, v))"
  by (auto simp: filter_empty_conv in_entries [symmetric])

lemma values_update: "snd ` set (entries (update k v m)) \<subseteq> insert v (snd ` set (entries m))"
proof
  fix w assume "w \<in> snd ` set (entries (update k v m))"
  then obtain a where "(a, w) \<in> set (entries (update k v m))" by force
  then have "(a, w) = (k, v) \<or> (a, w) \<in> set (entries m)"
    by (auto simp: in_entries lookup_update split: if_splits)
  then show "w \<in> insert v (snd ` set (entries m))" by force
qed

lemma lookup_fold_update:
  "lookup (foldl (\<lambda>acc (k, v). update k v acc) m xs) = lookup m ++ map_of (rev xs)"
proof (induction xs arbitrary: m)
  case Nil
  then show ?case by simp
next
  case (Cons p xs)
  then show ?case by (cases p) (simp add: lookup_update map_add_upd_left map_add_def fun_eq_iff
      split: option.split)
qed

end

interpretation bt: ordered_map bt_empty bt_insert bt_remove bt_get bt_entries
proof unfold_locales
  fix k :: 'a and v :: 'b and m :: "('a, 'b) btree"
  show "bt_get bt_empty k = (None :: 'b option)" by transfer simp
  show "bt_get (bt_insert k v m) = (bt_get m)(k \<mapsto> v)"
    by transfer (simp add: map_of_al_insert)
  show "bt_get (bt_remove k m) = (bt_get m)(k := None)"
    by transfer (simp add: map_of_al_remove)
  show "bt_get m k = map_of (bt_entries m) k" by (simp add: bt_get_entries)
  show "sorted_wrt (<) (map fst (bt_entries m))"
    using strict_keys_entries [of m] by (simp add: strict_keys_def)
qed

lemmas bt_lookup [simp] = bt.lookup_empty bt.lookup_update bt.lookup_delete

lemma bt_ext: "(\<And>k. bt_get m k = bt_get m' k) \<Longrightarrow> m = m'"
  by (metis bt_entries_inject bt_get_entries ext strict_keys_entries strict_keys_ext)

lemma bt_contains_simps [simp]:
  "bt_contains bt_empty k \<longleftrightarrow> False"
  "bt_contains (bt_insert k' v m) k \<longleftrightarrow> k = k' \<or> bt_contains m k"
  "bt_contains (bt_remove k' m) k \<longleftrightarrow> k \<noteq> k' \<and> bt_contains m k"
  by (auto simp: bt_contains_def)

lemma bt_containsD: "bt_contains m k \<Longrightarrow> \<exists>v. bt_get m k = Some v"
  by (auto simp: bt_contains_def)

lemma in_bt_keys: "k \<in> set (bt_keys m) \<longleftrightarrow> bt_contains m k"
  by (force simp: bt_keys_def bt_contains_def bt.in_entries [symmetric] bt_get_entries
      map_of_eq_None_iff)

lemma in_bt_values: "v \<in> set (bt_values m) \<longleftrightarrow> (\<exists>k. bt_get m k = Some v)"
  by (force simp: bt_values_def bt.in_entries [symmetric])

lemma bt_get_map_values [simp]: "bt_get (bt_map_values f m) k = map_option f (bt_get m k)"
  by (transfer) (simp add: map_of_map split_beta map_of_map [symmetric] comp_def)

lemma bt_get_extend: "bt_get (bt_extend m m') = bt_get m ++ bt_get m'"
proof -
  have "map_of (rev (bt_entries m')) = map_of (bt_entries m')"
    using bt.entries_distinct [of m'] by (simp add: map_of_inject_set rev_map [symmetric])
  then show ?thesis
    by (simp add: bt_extend_def bt.lookup_fold_update bt_get_entries [of m'])
qed

lemma size_insert_new: "\<not> bt_contains m k \<Longrightarrow> size (bt_insert k v m) = Suc (size m)"
proof -
  have "map_of xs k = None \<Longrightarrow> length (al_insert k v xs) = Suc (length xs)" for xs
    by (induction k v xs rule: al_insert.induct) (auto split: if_splits)
  then show "\<not> bt_contains m k \<Longrightarrow> ?thesis"
    by (simp add: size_btree_def bt_contains_def bt_get_entries)
qed

end
