(* ===== verification/Config.thy ===== *)
theory Config
  imports BTree_Map
begin

text \<open>
  \<open>crates/mw-core/src/config.rs\<close>: the configuration schema (bastions, credentials and
  environments, three tables that refer to each other by name), the validation every save runs,
  and the migration of older sealed payloads.

  \<open>SecretStr\<close> and \<open>SecretBytes\<close> only add zeroing on drop, so they are plain text and
  bytes here. The CBOR value type is the public enum of \<open>ciborium\<close>; its typed
  deserialisation is the argument \<open>deserialized\<close> of \<open>migrate\<close>.
\<close>

section \<open>The schema\<close>

definition CURRENT_SCHEMA_VERSION :: u32 where
  "CURRENT_SCHEMA_VERSION = 2"

datatype engine_kind = MySql | Postgres | MsSql

fun default_port :: "engine_kind \<Rightarrow> u16" where
  "default_port MySql = 3306"
| "default_port Postgres = 5432"
| "default_port MsSql = 1433"

datatype bastion_auth =
    PasswordAuth string
  | KeyAuth bytes "string option"

record host_key_fingerprint =
  algo :: string
  sha256_b64 :: string

record bastion =
  host :: string
  port :: u16
  ssh_user :: string
  auth :: bastion_auth
  pinned_host_keys :: "host_key_fingerprint list"

record credential =
  backend_user :: string
  backend_password :: string

datatype client_auth_kind =
    NativePassword bytes
  | PgCleartext bytes

datatype policy = ReadOnly | ReadWrite | Custom (allow_dml: bool) (allow_ddl: bool) (allow_admin: bool)

record pool_settings =
  max_size :: u32
  idle_timeout_secs :: u32

definition default_pool :: pool_settings where
  "default_pool = \<lparr>max_size = 16, idle_timeout_secs = 300\<rparr>"

record env =
  backend_host :: string
  backend_port :: u16
  default_database :: "string option"
  env_bastion :: "name option"
  env_credential :: name
  env_policy :: policy
  client_auth :: client_auth_kind
  listen_port :: u16
  pool :: pool_settings
  engine :: engine_kind

record config =
  schema_version :: u32
  bastions :: "(name, bastion) btree"
  credentials :: "(name, credential) btree"
  envs :: "(name, env) btree"

definition default_config :: config where
  "default_config =
     \<lparr>schema_version = CURRENT_SCHEMA_VERSION, bastions = bt_empty, credentials = bt_empty,
      envs = bt_empty\<rparr>"

datatype config_error =
    UnknownBastion name
  | UnknownCredential name
  | DuplicateListenPort u16 name name
  | UnsupportedSchema u32
  | EngineAuthMismatch name engine_kind
  | MigrateFailed string

section \<open>Validation\<close>

fun auth_ok :: "engine_kind \<Rightarrow> client_auth_kind \<Rightarrow> bool" where
  "auth_ok MySql (NativePassword _) = True"
| "auth_ok Postgres (PgCleartext _) = True"
| "auth_ok MsSql _ = True"
| "auth_ok _ _ = False"

definition unresolved_bastion :: "config \<Rightarrow> env \<Rightarrow> name option" where
  "unresolved_bastion c e =
     (case env_bastion e of
        Some b \<Rightarrow> if bt_contains (bastions c) b then None else Some b
      | None \<Rightarrow> None)"

text \<open>The loop over the environments, in name order, with the ports seen so far.\<close>

fun validate_envs ::
  "config \<Rightarrow> (u16, name) btree \<Rightarrow> (name \<times> env) list \<Rightarrow> config_error + unit" where
  "validate_envs c seen [] = Inr ()"
| "validate_envs c seen ((env_name, e) # rest) =
     (case unresolved_bastion c e of
        Some b \<Rightarrow> Inl (UnknownBastion b)
      | None \<Rightarrow>
          if \<not> bt_contains (credentials c) (env_credential e)
          then Inl (UnknownCredential (env_credential e))
          else if \<not> auth_ok (engine e) (client_auth e)
          then Inl (EngineAuthMismatch env_name (engine e))
          else (case bt_get seen (listen_port e) of
                  Some prev \<Rightarrow> Inl (DuplicateListenPort (listen_port e) prev env_name)
                | None \<Rightarrow> validate_envs c (bt_insert (listen_port e) env_name seen) rest))"

definition validate :: "config \<Rightarrow> config_error + unit" where
  "validate c =
     (if schema_version c \<noteq> CURRENT_SCHEMA_VERSION
      then Inl (UnsupportedSchema (schema_version c))
      else validate_envs c bt_empty (bt_entries (envs c)))"

text \<open>What a valid configuration promises to the daemon, independent of the loop.\<close>

definition env_refs_ok :: "config \<Rightarrow> env \<Rightarrow> bool" where
  "env_refs_ok c e \<longleftrightarrow>
     (\<forall>b. env_bastion e = Some b \<longrightarrow> bt_contains (bastions c) b) \<and>
     bt_contains (credentials c) (env_credential e) \<and>
     auth_ok (engine e) (client_auth e)"

definition ports_unique :: "config \<Rightarrow> bool" where
  "ports_unique c \<longleftrightarrow>
     (\<forall>n n' e e'. bt_get (envs c) n = Some e \<longrightarrow> bt_get (envs c) n' = Some e' \<longrightarrow>
        listen_port e = listen_port e' \<longrightarrow> n = n')"

definition wf_config :: "config \<Rightarrow> bool" where
  "wf_config c \<longleftrightarrow>
     schema_version c = CURRENT_SCHEMA_VERSION \<and>
     (\<forall>n e. bt_get (envs c) n = Some e \<longrightarrow> env_refs_ok c e) \<and>
     ports_unique c"

lemma unresolved_bastion_None:
  "unresolved_bastion c e = None \<longleftrightarrow> (\<forall>b. env_bastion e = Some b \<longrightarrow> bt_contains (bastions c) b)"
  by (auto simp: unresolved_bastion_def split: option.splits if_splits)

lemma validate_envs_ok_iff:
  "validate_envs c seen xs = Inr () \<longleftrightarrow>
     (\<forall>(n, e) \<in> set xs. env_refs_ok c e \<and> \<not> bt_contains seen (listen_port e)) \<and>
     distinct (map (\<lambda>(n, e). listen_port e) xs)"
proof (induction c seen xs rule: validate_envs.induct)
  case (1 c seen)
  then show ?case by simp
next
  case (2 c seen n e rest)
  show ?case
  proof (cases "unresolved_bastion c e = None \<and> bt_contains (credentials c) (env_credential e)
      \<and> auth_ok (engine e) (client_auth e) \<and> bt_get seen (listen_port e) = None")
    case True
    have refs: "env_refs_ok c e"
      using True by (simp add: env_refs_ok_def unresolved_bastion_None [symmetric])
    have "validate_envs c seen ((n, e) # rest)
        = validate_envs c (bt_insert (listen_port e) n seen) rest"
      using True by simp
    then show ?thesis
      using "2.IH" True refs by (auto simp: bt_contains_def split_beta image_iff split: if_splits)
  next
    case False
    then have "\<not> (env_refs_ok c e \<and> \<not> bt_contains seen (listen_port e))"
      by (auto simp: env_refs_ok_def unresolved_bastion_None bt_contains_def)
    moreover have "validate_envs c seen ((n, e) # rest) \<noteq> Inr ()"
      using False by (auto split: option.splits)
    ultimately show ?thesis by auto
  qed
qed

lemma distinct_ports_iff:
  "distinct (map (\<lambda>(n, e). listen_port e) (bt_entries (envs c))) \<longleftrightarrow> ports_unique c"
proof -
  have d: "distinct (bt_entries (envs c))"
    using bt.entries_distinct [of "envs c"] by (simp add: distinct_map)
  have k: "inj_on fst (set (bt_entries (envs c)))"
    using bt.entries_distinct [of "envs c"] by (simp add: distinct_map)
  show ?thesis
    unfolding distinct_map ports_unique_def using d k
    by (auto simp: inj_on_def bt.in_entries [symmetric]) (metis fst_conv prod.inject)+
qed

lemma validate_iff_wf: "validate c = Inr () \<longleftrightarrow> wf_config c"
  by (auto simp: validate_def wf_config_def validate_envs_ok_iff distinct_ports_iff
      bt.in_entries)

lemma wf_default_config [simp]: "wf_config default_config"
  by (simp add: wf_config_def default_config_def ports_unique_def)

text \<open>What the reported duplicate is: two different environments of that port, in name order.\<close>

lemma validate_envs_duplicate:
  assumes "validate_envs c seen xs = Inl (DuplicateListenPort p a b)"
  shows "\<exists>ys e zs. xs = ys @ (b, e) # zs \<and> listen_port e = p \<and>
    (bt_get seen p = Some a \<or> (\<exists>e'. (a, e') \<in> set ys \<and> listen_port e' = p))"
  using assms
proof (induction c seen xs rule: validate_envs.induct)
  case (1 c seen)
  then show ?case by simp
next
  case (2 c seen n e rest)
  show ?case
  proof (cases "bt_get seen (listen_port e)")
    case (Some prev)
    then have "p = listen_port e \<and> a = prev \<and> b = n"
      using "2.prems" by (auto split: option.splits if_splits)
    then show ?thesis using Some by (intro exI [of _ "[]"] exI [of _ e] exI [of _ rest]) simp
  next
    case None
    then have step: "unresolved_bastion c e = None" "bt_contains (credentials c) (env_credential e)"
      "auth_ok (engine e) (client_auth e)"
      "validate_envs c (bt_insert (listen_port e) n seen) rest = Inl (DuplicateListenPort p a b)"
      using "2.prems" by (auto split: option.splits if_splits)
    from "2.IH" [OF step(1) _ _ None step(4)] step(2,3) obtain ys e' zs where
      r: "rest = ys @ (b, e') # zs" "listen_port e' = p" and
      w: "bt_get (bt_insert (listen_port e) n seen) p = Some a \<or>
        (\<exists>e''. (a, e'') \<in> set ys \<and> listen_port e'' = p)"
      by blast
    show ?thesis
      using r w by (intro exI [of _ "(n, e) # ys"] exI [of _ e'] exI [of _ zs])
        (auto split: if_splits)
  qed
qed

section \<open>Migration\<close>

text \<open>The public constructors of \<open>ciborium::Value\<close>; a float is its 64 bits.\<close>

datatype cbor =
    CInteger int
  | CBytes bytes
  | CFloat u64
  | CText string
  | CBool bool
  | CNull
  | CTag u64 cbor
  | CArray "cbor list"
  | CMap "(cbor \<times> cbor) list"

fun as_integer :: "cbor \<Rightarrow> int option" where
  "as_integer (CInteger n) = Some n"
| "as_integer _ = None"

definition u32_try_from :: "int \<Rightarrow> u32 option" where
  "u32_try_from n = (if 0 \<le> n \<and> n < 2 ^ 32 then Some (word_of_int n) else None)"

fun schema_version_entry :: "(cbor \<times> cbor) list \<Rightarrow> u32 option" where
  "schema_version_entry [] = None"
| "schema_version_entry ((k, val) # rest) =
     (if k = CText ''schema_version'' then Option.bind (as_integer val) u32_try_from
      else schema_version_entry rest)"

fun schema_version_of :: "cbor \<Rightarrow> u32 option" where
  "schema_version_of (CMap m) = schema_version_entry m"
| "schema_version_of _ = None"

fun set_schema_version_entry :: "(cbor \<times> cbor) list \<Rightarrow> u32 \<Rightarrow> (cbor \<times> cbor) list" where
  "set_schema_version_entry [] ver = [(CText ''schema_version'', CInteger (uint ver))]"
| "set_schema_version_entry ((k, val) # rest) ver =
     (if k = CText ''schema_version'' then (k, CInteger (uint ver)) # rest
      else (k, val) # set_schema_version_entry rest ver)"

fun set_schema_version :: "cbor \<Rightarrow> u32 \<Rightarrow> cbor" where
  "set_schema_version (CMap m) ver = CMap (set_schema_version_entry m ver)"
| "set_schema_version v ver = v"

definition migrate :: "(cbor \<Rightarrow> string + config) \<Rightarrow> cbor \<Rightarrow> config_error + config" where
  "migrate deserialized v =
     (let sv = (case schema_version_of v of Some n \<Rightarrow> n | None \<Rightarrow> 1);
          finish = (\<lambda>w. case deserialized w of
                          Inl e \<Rightarrow> Inl (MigrateFailed e)
                        | Inr c \<Rightarrow> Inr c)
      in if sv = 1 then finish (set_schema_version v CURRENT_SCHEMA_VERSION)
         else if sv = CURRENT_SCHEMA_VERSION then finish v
         else Inl (UnsupportedSchema sv))"

lemma u32_try_from_uint [simp]: "u32_try_from (uint (w :: u32)) = Some w"
  using uint_bounded [of w] by (simp add: u32_try_from_def)

lemma schema_version_set_entry [simp]:
  "schema_version_entry (set_schema_version_entry m ver) = Some ver"
  by (induction m ver rule: set_schema_version_entry.induct) auto

lemma schema_version_set:
  "schema_version_of (set_schema_version v ver) =
     (case v of CMap _ \<Rightarrow> Some ver | _ \<Rightarrow> None)"
  by (cases v) auto

lemma set_schema_version_keys:
  "k \<noteq> CText ''schema_version'' \<Longrightarrow>
   map_of (set_schema_version_entry m ver) k = map_of m k"
  by (induction m ver rule: set_schema_version_entry.induct) auto

section \<open>Properties\<close>

text \<open>
  C22 (validation). \<open>Config::validate\<close> accepts a configuration exactly when the schema version
  is current, every bastion and credential reference of every environment resolves, every
  environment's authentication material fits its engine, and no two environments share a port.
\<close>

theorem validate_accepts_iff_well_formed: "validate c = Inr () \<longleftrightarrow> wf_config c"
  by (rule validate_iff_wf)

text \<open>
  Duplicate ports. When validation reports a duplicate listen port, the two names it reports are
  environments of the configuration, in ascending order, and both listen on the reported port.
\<close>

theorem validate_duplicate_port:
  assumes "validate c = Inl (DuplicateListenPort p a b)"
  shows "a < b \<and> (\<exists>e. bt_get (envs c) a = Some e \<and> listen_port e = p) \<and>
    (\<exists>e. bt_get (envs c) b = Some e \<and> listen_port e = p)"
proof -
  have "validate_envs c bt_empty (bt_entries (envs c)) = Inl (DuplicateListenPort p a b)"
    using assms by (simp add: validate_def split: if_splits)
  from validate_envs_duplicate [OF this] obtain ys e zs e' where
    s: "bt_entries (envs c) = ys @ (b, e) # zs" "listen_port e = p" "(a, e') \<in> set ys"
    "listen_port e' = p" by auto
  have "sorted_wrt (<) (map fst (ys @ (b, e) # zs))" using bt.entries_sorted s(1) by metis
  then have "a < b" using s(3) by (auto simp: sorted_wrt_append)
  moreover have "(b, e) \<in> set (bt_entries (envs c))" "(a, e') \<in> set (bt_entries (envs c))"
    using s by auto
  ultimately show ?thesis using s(2,4) by (auto simp: bt.in_entries)
qed

definition sample_env :: "u16 \<Rightarrow> env" where
  "sample_env p =
     \<lparr>backend_host = ''db'', backend_port = 3306, default_database = None, env_bastion = None,
      env_credential = ''c'', env_policy = ReadOnly, client_auth = NativePassword [],
      listen_port = p, pool = default_pool, engine = MySql\<rparr>"

definition sample_config :: "(name \<times> env) list \<Rightarrow> config" where
  "sample_config es =
     \<lparr>schema_version = 2, bastions = bt_empty,
      credentials = bt_insert ''c'' \<lparr>backend_user = ''u'', backend_password = ''p''\<rparr> bt_empty,
      envs = foldl (\<lambda>m (k, v). bt_insert k v m) bt_empty es\<rparr>"

lemmas sample_defs = sample_config_def sample_env_def default_pool_def CURRENT_SCHEMA_VERSION_def

theorem validate_duplicate_port_witness:
  "validate (sample_config [(''a'', sample_env 6033), (''b'', sample_env 6033)])
     = Inl (DuplicateListenPort 6033 ''a'' ''b'') \<and> (''a'' :: string) < ''b''"
proof -
  have v: "validate (sample_config [(''a'', sample_env 6033), (''b'', sample_env 6033)])
      = Inl (DuplicateListenPort 6033 ''a'' ''b'')"
    by (simp add: validate_def sample_defs unresolved_bastion_def)
  then show ?thesis using validate_duplicate_port [OF v] by simp
qed

text \<open>
  Migration. A payload of an older schema (version 1, or none) is read after its version is
  raised to the current one; a payload of the current version is read as it is; any other version is
  refused without being read. Given that the typed reader returns the version it read, every
  configuration that comes out carries the current version.
\<close>

theorem migrate_current_version:
  assumes reader: "\<And>v c. des v = Inr c \<Longrightarrow> schema_version_of v = Some (schema_version c)"
    and "migrate des v = Inr c"
  shows "schema_version c = CURRENT_SCHEMA_VERSION \<and>
    (schema_version_of v = None \<or> schema_version_of v = Some 1 \<or>
     schema_version_of v = Some CURRENT_SCHEMA_VERSION)"
proof (cases "schema_version_of v")
  case None
  then have "des (set_schema_version v CURRENT_SCHEMA_VERSION) = Inr c"
    using assms(2) by (auto simp: migrate_def Let_def split: sum.splits)
  then show ?thesis
    using reader [of "set_schema_version v CURRENT_SCHEMA_VERSION" c] None
    by (auto simp: schema_version_set split: cbor.splits)
next
  case (Some n)
  then have "n = 1 \<and> des (set_schema_version v CURRENT_SCHEMA_VERSION) = Inr c \<or>
      n = CURRENT_SCHEMA_VERSION \<and> des v = Inr c"
    using assms(2) by (auto simp: migrate_def Let_def split: sum.splits if_splits)
  then show ?thesis
    using reader [of "set_schema_version v CURRENT_SCHEMA_VERSION" c] reader [of v c] Some
    by (auto simp: schema_version_set split: cbor.splits)
qed

text \<open>A reader of the version alone, for the instance below.\<close>

definition version_reader :: "cbor \<Rightarrow> string + config" where
  "version_reader v =
     (case schema_version_of v of
        Some n \<Rightarrow> Inr (default_config\<lparr>schema_version := n\<rparr>)
      | None \<Rightarrow> Inl ''missing field'')"

theorem migrate_current_version_witness:
  "migrate version_reader (CMap [(CText ''schema_version'', CInteger 1)]) = Inr default_config \<and>
   schema_version default_config = CURRENT_SCHEMA_VERSION"
proof -
  have m: "migrate version_reader (CMap [(CText ''schema_version'', CInteger 1)])
      = Inr default_config"
    by (simp add: migrate_def version_reader_def u32_try_from_def CURRENT_SCHEMA_VERSION_def
        default_config_def)
  have r: "schema_version_of v = Some (schema_version c)" if "version_reader v = Inr c" for v c
    using that by (auto simp: version_reader_def split: option.splits)
  show ?thesis using migrate_current_version [OF r m] m by simp
qed

end
