(* ===== verification/Stream_Codec.thy ===== *)
theory Stream_Codec
  imports Prelude
begin

text \<open>
  The interface of a self-delimiting encoding: a reader that, given an encoded value followed by
  anything, returns the value and what follows. Every wire format of the proxy provides it; the
  facts proved here once (unique readability, reading back a whole sequence) are used through the
  interpretations in the theories of the formats.
\<close>

fun decode_many :: "(bytes \<Rightarrow> ('a \<times> bytes) option) \<Rightarrow> nat \<Rightarrow> bytes \<Rightarrow> ('a list \<times> bytes) option" where
  "decode_many dec 0 inp = Some ([], inp)"
| "decode_many dec (Suc n) inp =
     (case dec inp of
        None \<Rightarrow> None
      | Some (x, rest) \<Rightarrow>
          (case decode_many dec n rest of
             None \<Rightarrow> None
           | Some (xs, rest') \<Rightarrow> Some (x # xs, rest')))"

locale stream_codec =
  fixes valid :: "'a \<Rightarrow> bool"
    and encode :: "'a \<Rightarrow> bytes"
    and decode :: "bytes \<Rightarrow> ('a \<times> bytes) option"
  assumes decode_encode: "valid x \<Longrightarrow> decode (encode x @ rest) = Some (x, rest)"
begin

lemma unique_reading:
  "valid x \<Longrightarrow> valid y \<Longrightarrow> encode x @ r = encode y @ s \<Longrightarrow> x = y \<and> r = s"
  by (metis decode_encode option.inject prod.inject)

lemma encode_inject: "valid x \<Longrightarrow> valid y \<Longrightarrow> encode x = encode y \<longleftrightarrow> x = y"
  using unique_reading [of x y "[]" "[]"] by auto

lemma not_prefix: "valid x \<Longrightarrow> valid y \<Longrightarrow> encode x @ r = encode y \<Longrightarrow> r = []"
  using unique_reading [of x y r "[]"] by simp

lemma decode_sequence:
  "\<forall>x \<in> set xs. valid x \<Longrightarrow>
   decode_many decode (length xs) (concat (map encode xs) @ rest) = Some (xs, rest)"
  by (induction xs) (simp_all add: decode_encode)

end

text \<open>Two formats one after the other.\<close>

definition seq_encode :: "('a \<Rightarrow> bytes) \<Rightarrow> ('b \<Rightarrow> bytes) \<Rightarrow> 'a \<times> 'b \<Rightarrow> bytes" where
  "seq_encode e f = (\<lambda>(x, y). e x @ f y)"

definition seq_decode ::
  "(bytes \<Rightarrow> ('a \<times> bytes) option) \<Rightarrow> (bytes \<Rightarrow> ('b \<times> bytes) option) \<Rightarrow>
   bytes \<Rightarrow> (('a \<times> 'b) \<times> bytes) option" where
  "seq_decode d d' inp =
     (case d inp of
        None \<Rightarrow> None
      | Some (x, rest) \<Rightarrow>
          (case d' rest of None \<Rightarrow> None | Some (y, rest') \<Rightarrow> Some ((x, y), rest')))"

locale codec_pair =
  fst_codec: stream_codec valid encode decode + snd_codec: stream_codec valid' encode' decode'
  for valid :: "'a \<Rightarrow> bool" and encode :: "'a \<Rightarrow> bytes" and decode :: "bytes \<Rightarrow> ('a \<times> bytes) option"
    and valid' :: "'b \<Rightarrow> bool" and encode' :: "'b \<Rightarrow> bytes"
    and decode' :: "bytes \<Rightarrow> ('b \<times> bytes) option"

sublocale codec_pair \<subseteq>
  stream_codec "\<lambda>(x, y). valid x \<and> valid' y" "seq_encode encode encode'" "seq_decode decode decode'"
  by unfold_locales
    (auto simp: seq_encode_def seq_decode_def fst_codec.decode_encode snd_codec.decode_encode)

end
