(* ===== verification/Seal.thy ===== *)
theory Seal
  imports Config Stream_Codec
begin

text \<open>
  \<open>crates/mw-core/src/seal.rs\<close>: the sealed form of the configuration, a fixed header followed
  by the AEAD ciphertext of its CBOR encoding. Argon2id, ChaCha20-Poly1305 and the CBOR crate are
  the fields of the record \<open>seal_ops\<close>; the salt and the nonce, drawn from \<open>OsRng\<close>,
  are arguments of \<open>seal\<close>.
\<close>

definition MAGIC :: bytes where
  "MAGIC = as_bytes ''SQLPSEAL''"

definition V1 :: u8 where "V1 = 1"

definition VERSION :: u8 where "VERSION = 2"

definition SALT_LEN :: nat where "SALT_LEN = 16"

definition NONCE_LEN :: nat where "NONCE_LEN = 12"

definition KEY_LEN :: nat where "KEY_LEN = 32"

definition AAD :: bytes where
  "AAD = as_bytes ''middlewhere.seal.v1''"

definition HEADER :: nat where
  "HEADER = 8 + 1 + SALT_LEN + NONCE_LEN"

datatype seal_error =
    EncryptFailed
  | DecryptFailed
  | BadFormat string
  | KdfFailed string
  | SealCborEncode string
  | SealCborDecode string
  | SealMigrate config_error

record seal_ops =
  argon2 :: "bytes \<Rightarrow> bytes \<Rightarrow> string + bytes"
  aead_encrypt :: "bytes \<Rightarrow> bytes \<Rightarrow> bytes \<Rightarrow> bytes \<Rightarrow> bytes option"
  aead_decrypt :: "bytes \<Rightarrow> bytes \<Rightarrow> bytes \<Rightarrow> bytes \<Rightarrow> bytes option"
  config_to_cbor :: "config \<Rightarrow> string + bytes"
  cbor_of_bytes :: "bytes \<Rightarrow> string + cbor"
  config_of_cbor :: "cbor \<Rightarrow> string + config"

definition derive_key :: "seal_ops \<Rightarrow> bytes \<Rightarrow> string \<Rightarrow> bytes \<Rightarrow> seal_error + bytes" where
  "derive_key ops master passphrase salt =
     (let ikm = master @ as_bytes passphrase
      in case argon2 ops ikm salt of Inl e \<Rightarrow> Inl (KdfFailed e) | Inr k \<Rightarrow> Inr k)"

definition seal ::
  "seal_ops \<Rightarrow> bytes \<Rightarrow> bytes \<Rightarrow> config \<Rightarrow> bytes \<Rightarrow> string \<Rightarrow> seal_error + bytes" where
  "seal ops salt nonce cfg master passphrase =
     (case config_to_cbor ops cfg of
        Inl e \<Rightarrow> Inl (SealCborEncode e)
      | Inr plaintext \<Rightarrow>
     (case derive_key ops master passphrase salt of
        Inl e \<Rightarrow> Inl e
      | Inr derived \<Rightarrow>
     (case aead_encrypt ops derived nonce AAD plaintext of
        None \<Rightarrow> Inl EncryptFailed
      | Some ct \<Rightarrow> Inr (MAGIC @ [VERSION] @ salt @ nonce @ ct))))"

definition unseal :: "seal_ops \<Rightarrow> bytes \<Rightarrow> bytes \<Rightarrow> string \<Rightarrow> seal_error + config" where
  "unseal ops blob master passphrase =
     (if length blob < HEADER + 16 then Inl (BadFormat ''blob too short'')
      else if take 8 blob \<noteq> MAGIC then Inl (BadFormat ''bad magic'')
      else if blob ! 8 \<noteq> V1 \<and> blob ! 8 \<noteq> VERSION then Inl (BadFormat ''unknown version'')
      else
        (let salt = take SALT_LEN (drop 9 blob);
             nonce = take NONCE_LEN (drop (9 + SALT_LEN) blob);
             ct = drop HEADER blob
         in case derive_key ops master passphrase salt of
              Inl e \<Rightarrow> Inl e
            | Inr derived \<Rightarrow>
         (case aead_decrypt ops derived nonce AAD ct of
              None \<Rightarrow> Inl DecryptFailed
            | Some plaintext \<Rightarrow>
         (case cbor_of_bytes ops plaintext of
              Inl e \<Rightarrow> Inl (SealCborDecode e)
            | Inr v \<Rightarrow>
         (case migrate (config_of_cbor ops) v of
              Inl e \<Rightarrow> Inl (SealMigrate e)
            | Inr cfg \<Rightarrow> Inr cfg)))))"

section \<open>What the code relies on of the cryptographic and CBOR crates\<close>

text \<open>Decryption under the same key, nonce and associated data undoes encryption.\<close>

definition aead_correct :: "seal_ops \<Rightarrow> bool" where
  "aead_correct ops \<longleftrightarrow>
     (\<forall>k n a m ct. aead_encrypt ops k n a m = Some ct \<longrightarrow>
        aead_decrypt ops k n a ct = Some m \<and> length ct = length m + 16)"

text \<open>The derived serialisation writes a map with the schema version as a field, and reads it back.\<close>

definition config_cbor_correct :: "seal_ops \<Rightarrow> bool" where
  "config_cbor_correct ops \<longleftrightarrow>
     (\<forall>c b. config_to_cbor ops c = Inr b \<longrightarrow>
        (\<exists>v. cbor_of_bytes ops b = Inr v \<and> config_of_cbor ops v = Inr c \<and>
             schema_version_of v = Some (schema_version c)))"

definition crypto_laws :: "seal_ops \<Rightarrow> bool" where
  "crypto_laws ops \<longleftrightarrow> aead_correct ops \<and> config_cbor_correct ops"

lemma CURRENT_neq_1: "CURRENT_SCHEMA_VERSION \<noteq> 1"
  by (simp add: CURRENT_SCHEMA_VERSION_def)

lemma migrate_current:
  "schema_version_of v = Some CURRENT_SCHEMA_VERSION \<Longrightarrow> des v = Inr c \<Longrightarrow> migrate des v = Inr c"
  using CURRENT_neq_1 by (simp add: migrate_def Let_def)

lemma length_MAGIC: "length MAGIC = 8"
  by (simp add: MAGIC_def)

lemma seal_layout:
  assumes "seal ops salt nonce cfg master pp = Inr blob"
  obtains ct where "blob = MAGIC @ [VERSION] @ salt @ nonce @ ct"
  using assms by (auto simp: seal_def split: sum.splits option.splits)

lemma unseal_header:
  assumes "length salt = SALT_LEN" and "length nonce = NONCE_LEN" and "16 \<le> length ct"
    and "ver = V1 \<or> ver = VERSION"
  shows "unseal ops (MAGIC @ [ver] @ salt @ nonce @ ct) master pp =
     (case derive_key ops master pp salt of
        Inl e \<Rightarrow> Inl e
      | Inr derived \<Rightarrow>
     (case aead_decrypt ops derived nonce AAD ct of
        None \<Rightarrow> Inl DecryptFailed
      | Some plaintext \<Rightarrow>
     (case cbor_of_bytes ops plaintext of
        Inl e \<Rightarrow> Inl (SealCborDecode e)
      | Inr v \<Rightarrow>
     (case migrate (config_of_cbor ops) v of
        Inl e \<Rightarrow> Inl (SealMigrate e)
      | Inr cfg \<Rightarrow> Inr cfg))))"
proof -
  let ?blob = "MAGIC @ [ver] @ salt @ nonce @ ct"
  have "take 8 ?blob = MAGIC" "?blob ! 8 = ver" "drop 9 ?blob = salt @ nonce @ ct"
    "drop (9 + SALT_LEN) ?blob = nonce @ ct" "drop HEADER ?blob = ct"
    "\<not> length ?blob < HEADER + 16"
    using assms length_MAGIC
    by (simp_all add: nth_append HEADER_def SALT_LEN_def NONCE_LEN_def)
  then show ?thesis
    using assms by (auto simp: unseal_def Let_def)
qed

lemma unseal_seal:
  assumes laws: "crypto_laws ops" and "length salt = SALT_LEN" and "length nonce = NONCE_LEN"
    and sv: "schema_version cfg = CURRENT_SCHEMA_VERSION"
    and sealed: "seal ops salt nonce cfg master pp = Inr blob"
  shows "unseal ops blob master pp = Inr cfg"
proof -
  obtain pt k ct where s: "config_to_cbor ops cfg = Inr pt" "derive_key ops master pp salt = Inr k"
    "aead_encrypt ops k nonce AAD pt = Some ct" "blob = MAGIC @ [VERSION] @ salt @ nonce @ ct"
    using sealed by (auto simp: seal_def split: sum.splits option.splits)
  have dec: "aead_decrypt ops k nonce AAD ct = Some pt" "length ct = length pt + 16"
    using laws s(3) by (auto simp: crypto_laws_def aead_correct_def)
  obtain v where v: "cbor_of_bytes ops pt = Inr v" "config_of_cbor ops v = Inr cfg"
    "schema_version_of v = Some CURRENT_SCHEMA_VERSION"
    using laws s(1) sv unfolding crypto_laws_def config_cbor_correct_def by metis
  show ?thesis
    unfolding s(4) using assms(2,3) dec(2)
    by (subst unseal_header) (simp_all add: s(2) dec(1) v(1) migrate_current [OF v(3), of "config_of_cbor ops", OF v(2)])
qed

text \<open>Only blobs whose tag verifies are ever decoded, and only for the version bytes 1 and 2.\<close>

lemma unseal_authentic:
  assumes "unseal ops blob master pp = Inr cfg"
  obtains k plaintext where
    "HEADER + 16 \<le> length blob" "take 8 blob = MAGIC" "blob ! 8 \<in> {V1, VERSION}"
    "derive_key ops master pp (take SALT_LEN (drop 9 blob)) = Inr k"
    "aead_decrypt ops k (take NONCE_LEN (drop (9 + SALT_LEN) blob)) AAD (drop HEADER blob)
       = Some plaintext"
  using assms
  by (auto simp: unseal_def Let_def not_less split: if_splits sum.splits option.splits)

section \<open>The seal is undone, and only by the key\<close>

text \<open>
  C28 (seal round trip). Unsealing under the same master key and passphrase returns the sealed
  configuration, for any salt and nonce of the lengths the code draws.
\<close>

theorem unseal_of_seal:
  assumes "crypto_laws ops" and "length salt = SALT_LEN" and "length nonce = NONCE_LEN"
    and "schema_version cfg = CURRENT_SCHEMA_VERSION"
    and "seal ops salt nonce cfg master pp = Inr blob"
  shows "unseal ops blob master pp = Inr cfg"
  by (rule unseal_seal [OF assms])

text \<open>Ciphers and codecs for the instances: the tag is 16 zero bytes, and one configuration has an
  encoding.\<close>

definition plain_ops :: seal_ops where
  "plain_ops =
     \<lparr>argon2 = (\<lambda>ikm salt. Inr ikm),
      aead_encrypt = (\<lambda>k n a m. Some (m @ replicate 16 0)),
      aead_decrypt = (\<lambda>k n a ct. if 16 \<le> length ct then Some (take (length ct - 16) ct) else None),
      config_to_cbor = (\<lambda>c. if c = default_config then Inr [] else Inl ''unsupported''),
      cbor_of_bytes = (\<lambda>b. Inr (CMap [(CText ''schema_version'', CInteger 2)])),
      config_of_cbor = (\<lambda>v. Inr default_config)\<rparr>"

lemma plain_ops_laws: "crypto_laws plain_ops"
  by (simp add: crypto_laws_def aead_correct_def config_cbor_correct_def plain_ops_def
      default_config_def CURRENT_SCHEMA_VERSION_def u32_try_from_def)

lemma seal_plain_ops:
  "seal plain_ops salt nonce default_config master pp
     = Inr (MAGIC @ [VERSION] @ salt @ nonce @ replicate 16 0)"
  by (simp add: seal_def derive_key_def plain_ops_def)

theorem unseal_of_seal_witness:
  "unseal plain_ops (MAGIC @ [VERSION] @ replicate 16 7 @ replicate 12 9 @ replicate 16 0)
     (replicate 32 1) [] = Inr default_config"
  by (rule unseal_of_seal [OF plain_ops_laws _ _ _ seal_plain_ops])
    (simp_all add: SALT_LEN_def NONCE_LEN_def default_config_def)

text \<open>
  Unsealing is authenticated: A blob that unseals has the magic number, a known version byte and
  a full header, and its ciphertext verifies under the key derived from the master key, the passphrase
  and the salt in the header.
\<close>

theorem unseal_only_authentic:
  assumes "unseal ops blob master pp = Inr cfg"
  shows "\<exists>k plaintext. HEADER + 16 \<le> length blob \<and> take 8 blob = MAGIC \<and>
    blob ! 8 \<in> {V1, VERSION} \<and>
    derive_key ops master pp (take SALT_LEN (drop 9 blob)) = Inr k \<and>
    aead_decrypt ops k (take NONCE_LEN (drop (9 + SALT_LEN) blob)) AAD (drop HEADER blob)
      = Some plaintext"
  using assms by (rule unseal_authentic) blast

theorem unseal_only_authentic_witness:
  "\<exists>k plaintext. aead_decrypt plain_ops k (replicate 12 9) AAD (replicate 16 0) = Some plaintext"
proof -
  let ?blob = "MAGIC @ [VERSION] @ replicate 16 7 @ replicate 12 9 @ replicate 16 0"
  have "unseal plain_ops ?blob (replicate 32 1) [] = Inr default_config"
    by (rule unseal_seal [OF plain_ops_laws _ _ _ seal_plain_ops])
      (simp_all add: SALT_LEN_def NONCE_LEN_def default_config_def)
  from unseal_only_authentic [OF this] show ?thesis
    by (auto simp: plain_ops_def)
qed

end
