(* ===== verification/Keyring.thy ===== *)
theory Keyring
  imports Seal
begin

text \<open>
  \<open>crates/mw-core/src/keyring.rs\<close> and the keystore choice of \<open>state.rs\<close>: the master
  key in the operating system's secret store, hex encoded, or raw in a file. Both stores are maps;
  the hex codec is an argument.
\<close>

type_synonym files = "string \<Rightarrow> bytes option"

record disk =
  fs_files :: files
  keychain :: "string \<times> string \<Rightarrow> string option"

record hex_codec =
  hex_encode :: "bytes \<Rightarrow> string"
  hex_decode :: "string \<Rightarrow> string + bytes"

datatype keyring_error =
    KeyNotFound
  | BadLength nat
  | BadHex string

datatype keystore_choice =
    OsKeystore string string
  | FileKeystore string

definition DEFAULT_SERVICE :: string where "DEFAULT_SERVICE = ''middlewhere''"

definition DEFAULT_ACCOUNT :: string where "DEFAULT_ACCOUNT = ''default''"

definition FILE_MASTER_KEY_NAME :: string where "FILE_MASTER_KEY_NAME = ''master.key''"

definition path_join :: "string \<Rightarrow> string \<Rightarrow> string" where
  "path_join dir nm = dir @ ''/'' @ nm"

definition default_os :: keystore_choice where
  "default_os = OsKeystore DEFAULT_SERVICE DEFAULT_ACCOUNT"

definition default_file :: "string \<Rightarrow> keystore_choice" where
  "default_file state_dir = FileKeystore (path_join state_dir FILE_MASTER_KEY_NAME)"

definition key_of_raw :: "bytes \<Rightarrow> keyring_error + bytes" where
  "key_of_raw raw = (if length raw = KEY_LEN then Inr raw else Inl (BadLength (length raw)))"

definition os_load :: "hex_codec \<Rightarrow> string \<Rightarrow> string \<Rightarrow> disk \<Rightarrow> keyring_error + bytes" where
  "os_load hx service account d =
     (case keychain d (service, account) of
        None \<Rightarrow> Inl KeyNotFound
      | Some encoded \<Rightarrow>
          (case hex_decode hx (trim encoded) of
             Inl e \<Rightarrow> Inl (BadHex e)
           | Inr raw \<Rightarrow> key_of_raw raw))"

definition os_store :: "hex_codec \<Rightarrow> string \<Rightarrow> string \<Rightarrow> bytes \<Rightarrow> disk \<Rightarrow> disk" where
  "os_store hx service account key d =
     d\<lparr>keychain := (keychain d)((service, account) \<mapsto> hex_encode hx key)\<rparr>"

definition os_delete :: "string \<Rightarrow> string \<Rightarrow> disk \<Rightarrow> (keyring_error + unit) \<times> disk" where
  "os_delete service account d =
     (case keychain d (service, account) of
        None \<Rightarrow> (Inl KeyNotFound, d)
      | Some _ \<Rightarrow> (Inr (), d\<lparr>keychain := (keychain d)((service, account) := None)\<rparr>))"

definition file_load :: "string \<Rightarrow> disk \<Rightarrow> keyring_error + bytes" where
  "file_load path d =
     (case fs_files d path of None \<Rightarrow> Inl KeyNotFound | Some raw \<Rightarrow> key_of_raw raw)"

definition file_store :: "string \<Rightarrow> bytes \<Rightarrow> disk \<Rightarrow> disk" where
  "file_store path key d = d\<lparr>fs_files := (fs_files d)(path \<mapsto> key)\<rparr>"

definition file_delete :: "string \<Rightarrow> disk \<Rightarrow> (keyring_error + unit) \<times> disk" where
  "file_delete path d =
     (case fs_files d path of
        None \<Rightarrow> (Inl KeyNotFound, d)
      | Some _ \<Rightarrow> (Inr (), d\<lparr>fs_files := (fs_files d)(path := None)\<rparr>))"

fun keystore_load :: "hex_codec \<Rightarrow> keystore_choice \<Rightarrow> disk \<Rightarrow> keyring_error + bytes" where
  "keystore_load hx (OsKeystore s a) d = os_load hx s a d"
| "keystore_load hx (FileKeystore p) d = file_load p d"

fun keystore_store :: "hex_codec \<Rightarrow> keystore_choice \<Rightarrow> bytes \<Rightarrow> disk \<Rightarrow> disk" where
  "keystore_store hx (OsKeystore s a) key d = os_store hx s a key d"
| "keystore_store hx (FileKeystore p) key d = file_store p key d"

text \<open>\<open>KeystoreChoice::delete\<close>: a key that is already gone is a success.\<close>

fun keystore_delete :: "keystore_choice \<Rightarrow> disk \<Rightarrow> (keyring_error + unit) \<times> disk" where
  "keystore_delete ks d =
     (case (case ks of OsKeystore s a \<Rightarrow> os_delete s a d | FileKeystore p \<Rightarrow> file_delete p d) of
        (Inr u, d') \<Rightarrow> (Inr (), d')
      | (Inl KeyNotFound, d') \<Rightarrow> (Inr (), d')
      | (Inl e, d') \<Rightarrow> (Inl e, d'))"

text \<open>Hex digits survive trimming and decode back.\<close>

definition hex_laws :: "hex_codec \<Rightarrow> bool" where
  "hex_laws hx \<longleftrightarrow> (\<forall>b. hex_decode hx (trim (hex_encode hx b)) = Inr b)"

section \<open>The interface of a key store\<close>

locale key_store =
  fixes ok :: "'w \<Rightarrow> bool"
    and load_key :: "'w \<Rightarrow> disk \<Rightarrow> keyring_error + bytes"
    and store_key :: "'w \<Rightarrow> bytes \<Rightarrow> disk \<Rightarrow> disk"
    and delete_key :: "'w \<Rightarrow> disk \<Rightarrow> (keyring_error + unit) \<times> disk"
  assumes load_store: "ok w \<Longrightarrow> length key = KEY_LEN \<Longrightarrow> load_key w (store_key w key d) = Inr key"
    and delete_gone: "delete_key w d = (r, d') \<Longrightarrow> r = Inr () \<and> load_key w d' = Inl KeyNotFound"
    and load_length: "load_key w d = Inr key \<Longrightarrow> length key = KEY_LEN"
begin

lemma store_store:
  "ok w \<Longrightarrow> length k = KEY_LEN \<Longrightarrow> length k' = KEY_LEN \<Longrightarrow>
   load_key w (store_key w k' (store_key w k d)) = Inr k'"
  by (simp add: load_store)

lemma delete_idempotent:
  "fst (delete_key w (snd (delete_key w d))) = Inr ()"
  using delete_gone [of w "snd (delete_key w d)"] by (metis prod.collapse)

lemma store_delete_load:
  "load_key w (snd (delete_key w (store_key w k d))) = Inl KeyNotFound"
  using delete_gone [of w "store_key w k d"] by (metis prod.collapse)

end

lemma key_of_raw_Inr [simp]: "key_of_raw raw = Inr k \<longleftrightarrow> raw = k \<and> length k = KEY_LEN"
  by (auto simp: key_of_raw_def)

lemma key_of_raw_Inl [simp]: "key_of_raw raw \<noteq> Inl KeyNotFound"
  by (simp add: key_of_raw_def)

interpretation keystore: key_store
  "\<lambda>(hx, ks). hex_laws hx" "\<lambda>(hx, ks). keystore_load hx ks" "\<lambda>(hx, ks). keystore_store hx ks"
  "\<lambda>(hx, ks). keystore_delete ks"
proof unfold_locales
  fix w :: "hex_codec \<times> keystore_choice" and key d
  obtain hx ks where w: "w = (hx, ks)" by (cases w)
  show "(case w of (hx, ks) \<Rightarrow> keystore_load hx ks)
      ((case w of (hx, ks) \<Rightarrow> keystore_store hx ks) key d) = Inr key"
    if "case w of (hx, ks) \<Rightarrow> hex_laws hx" "length key = KEY_LEN"
    using that w by (cases ks)
      (auto simp: os_load_def os_store_def file_load_def file_store_def hex_laws_def)
  show "length key = KEY_LEN" if "(case w of (hx, ks) \<Rightarrow> keystore_load hx ks) d = Inr key"
    using that w by (cases ks) (auto simp: os_load_def file_load_def split: option.splits sum.splits)
next
  fix w :: "hex_codec \<times> keystore_choice" and d d' r
  obtain hx ks where w: "w = (hx, ks)" by (cases w)
  show "r = Inr () \<and> (case w of (hx, ks) \<Rightarrow> keystore_load hx ks) d' = Inl KeyNotFound"
    if "(case w of (hx, ks) \<Rightarrow> keystore_delete ks) d = (r, d')"
    using that w by (cases ks)
      (auto simp: os_load_def file_load_def os_delete_def file_delete_def split: option.splits)
qed

end
