(* ===== verification/State_Dir.thy ===== *)
theory State_Dir
  imports Keyring
begin

text \<open>
  \<open>crates/mw-core/src/state.rs\<close>: the sealed configuration on disk. A save is a sequence of
  file operations; \<open>run_ops\<close> runs it under an arbitrary pattern of failing operations, and a
  crash after any operation is a prefix of the sequence. The sealing operations, the keystore and
  the random bytes are collected in the record \<open>state_env\<close>.
\<close>

definition CONFIG_FILE_NAME :: string where "CONFIG_FILE_NAME = ''config.sealed''"

definition CONFIG_BACKUP_NAME :: string where "CONFIG_BACKUP_NAME = ''config.sealed.bak''"

definition CONFIG_TMP_NAME :: string where "CONFIG_TMP_NAME = ''config.sealed.tmp''"

record state_env =
  se_seal :: seal_ops
  se_hex :: hex_codec
  se_keystore :: keystore_choice
  se_dir :: string
  se_salt :: bytes
  se_nonce :: bytes

definition sealed_path :: "state_env \<Rightarrow> string" where
  "sealed_path env = path_join (se_dir env) CONFIG_FILE_NAME"

definition backup_path :: "state_env \<Rightarrow> string" where
  "backup_path env = path_join (se_dir env) CONFIG_BACKUP_NAME"

definition tmp_path :: "state_env \<Rightarrow> string" where
  "tmp_path env = path_join (se_dir env) CONFIG_TMP_NAME"

lemma paths_distinct [simp]:
  "sealed_path env \<noteq> backup_path env" "sealed_path env \<noteq> tmp_path env"
  "backup_path env \<noteq> tmp_path env" "backup_path env \<noteq> sealed_path env"
  "tmp_path env \<noteq> sealed_path env" "tmp_path env \<noteq> backup_path env"
  by (simp_all add: sealed_path_def backup_path_def tmp_path_def path_join_def
      CONFIG_FILE_NAME_def CONFIG_BACKUP_NAME_def CONFIG_TMP_NAME_def)

section \<open>File operations that may fail\<close>

datatype fs_op =
    CreateDirs
  | RemoveIgnored string
  | RenameFile string string
  | OpenTruncate string
  | WriteAll string bytes
  | SyncAll string

datatype io_error = IoFailed fs_op

text \<open>One operation: whether it succeeded, and the files afterwards. A failing write may have
  written any prefix; every other failing operation leaves the files alone.\<close>

fun apply_op :: "nat option \<Rightarrow> fs_op \<Rightarrow> files \<Rightarrow> bool \<times> files" where
  "apply_op (Some n) (WriteAll p b) fs = (False, fs(p \<mapsto> take n b))"
| "apply_op (Some n) (RemoveIgnored p) fs = (True, fs)"
| "apply_op (Some n) _ fs = (False, fs)"
| "apply_op None CreateDirs fs = (True, fs)"
| "apply_op None (RemoveIgnored p) fs = (True, fs(p := None))"
| "apply_op None (RenameFile a b) fs =
     (case fs a of None \<Rightarrow> (False, fs) | Some c \<Rightarrow> (True, (fs(b \<mapsto> c))(a := None)))"
| "apply_op None (OpenTruncate p) fs = (True, fs(p \<mapsto> []))"
| "apply_op None (WriteAll p b) fs = (True, fs(p \<mapsto> b))"
| "apply_op None (SyncAll p) fs = (True, fs)"

text \<open>\<open>fault i\<close> is the outcome of the i-th operation: \<open>None\<close> succeeds.\<close>

type_synonym fault = "nat \<Rightarrow> nat option"

fun run_ops :: "fault \<Rightarrow> nat \<Rightarrow> fs_op list \<Rightarrow> files \<Rightarrow> (io_error + unit) \<times> files" where
  "run_ops fault i [] fs = (Inr (), fs)"
| "run_ops fault i (op # ops) fs =
     (case apply_op (fault i) op fs of
        (False, fs') \<Rightarrow> (Inl (IoFailed op), fs')
      | (True, fs') \<Rightarrow> run_ops fault (Suc i) ops fs')"

definition no_fault :: fault where
  "no_fault i = None"

definition write_atomic_ops :: "state_env \<Rightarrow> string \<Rightarrow> bytes \<Rightarrow> fs_op list" where
  "write_atomic_ops env path b =
     (let tmp = tmp_path env
      in [CreateDirs, OpenTruncate tmp, WriteAll tmp b, SyncAll tmp, RenameFile tmp path])"

text \<open>The rotation is only attempted when the sealed file exists.\<close>

definition save_ops :: "state_env \<Rightarrow> bytes \<Rightarrow> files \<Rightarrow> fs_op list" where
  "save_ops env blob fs =
     (if fs (sealed_path env) \<noteq> None
      then [RemoveIgnored (backup_path env), RenameFile (sealed_path env) (backup_path env)]
      else []) @ write_atomic_ops env (sealed_path env) blob"

section \<open>Load, save, mutate\<close>

datatype 'e state_error =
    ReadFailed string
  | KeystoreFailed keyring_error
  | SealFailed seal_error
  | InvalidConfig config_error
  | AlreadyExists string
  | IoError io_error
  | MutateFailed 'e

definition load_config :: "state_env \<Rightarrow> disk \<Rightarrow> 'e state_error + config" where
  "load_config env d =
     (case fs_files d (sealed_path env) of
        None \<Rightarrow> Inl (ReadFailed (sealed_path env))
      | Some blob \<Rightarrow>
     (case keystore_load (se_hex env) (se_keystore env) d of
        Inl e \<Rightarrow> Inl (KeystoreFailed e)
      | Inr key \<Rightarrow>
     (case unseal (se_seal env) blob key [] of
        Inl e \<Rightarrow> Inl (SealFailed e)
      | Inr cfg \<Rightarrow>
     (case validate cfg of
        Inl e \<Rightarrow> Inl (InvalidConfig e)
      | Inr _ \<Rightarrow> Inr cfg))))"

definition save_config ::
  "state_env \<Rightarrow> fault \<Rightarrow> config \<Rightarrow> disk \<Rightarrow> ('e state_error + unit) \<times> disk" where
  "save_config env fault cfg d =
     (case validate cfg of
        Inl e \<Rightarrow> (Inl (InvalidConfig e), d)
      | Inr _ \<Rightarrow>
     (case keystore_load (se_hex env) (se_keystore env) d of
        Inl e \<Rightarrow> (Inl (KeystoreFailed e), d)
      | Inr key \<Rightarrow>
     (case seal (se_seal env) (se_salt env) (se_nonce env) cfg key [] of
        Inl e \<Rightarrow> (Inl (SealFailed e), d)
      | Inr blob \<Rightarrow>
     (case run_ops fault 0 (save_ops env blob (fs_files d)) (fs_files d) of
        (Inl e, fs') \<Rightarrow> (Inl (IoError e), d\<lparr>fs_files := fs'\<rparr>)
      | (Inr _, fs') \<Rightarrow> (Inr (), d\<lparr>fs_files := fs'\<rparr>)))))"

definition with_config ::
  "state_env \<Rightarrow> fault \<Rightarrow> (config \<Rightarrow> 'e + 'r \<times> config) \<Rightarrow> disk \<Rightarrow> ('e state_error + 'r) \<times> disk" where
  "with_config env fault mutate d =
     (case load_config env d of
        Inl e \<Rightarrow> (Inl e, d)
      | Inr cfg \<Rightarrow>
     (case mutate cfg of
        Inl e \<Rightarrow> (Inl (MutateFailed e), d)
      | Inr (out, cfg') \<Rightarrow>
     (case save_config env fault cfg' d of
        (Inl e, d') \<Rightarrow> (Inl e, d')
      | (Inr _, d') \<Rightarrow> (Inr out, d'))))"

text \<open>First-time setup: the fresh master key is an argument.\<close>

definition init_state ::
  "state_env \<Rightarrow> fault \<Rightarrow> bytes \<Rightarrow> disk \<Rightarrow> ('e state_error + unit) \<times> disk" where
  "init_state env fault key d =
     (if fs_files d (sealed_path env) \<noteq> None then (Inl (AlreadyExists (sealed_path env)), d)
      else
        (let d1 = keystore_store (se_hex env) (se_keystore env) key d
         in case seal (se_seal env) (se_salt env) (se_nonce env) default_config key [] of
              Inl e \<Rightarrow> (Inl (SealFailed e), d1)
            | Inr blob \<Rightarrow>
                (case run_ops fault 0 (write_atomic_ops env (sealed_path env) blob) (fs_files d1) of
                   (Inl e, fs') \<Rightarrow> (Inl (IoError e), d1\<lparr>fs_files := fs'\<rparr>)
                 | (Inr _, fs') \<Rightarrow> (Inr (), d1\<lparr>fs_files := fs'\<rparr>))))"

section \<open>What a save leaves on disk\<close>

lemma run_ops_append:
  "run_ops fault i (xs @ ys) fs =
     (case run_ops fault i xs fs of
        (Inl e, fs') \<Rightarrow> (Inl e, fs')
      | (Inr _, fs') \<Rightarrow> run_ops fault (i + length xs) ys fs')"
  by (induction xs arbitrary: i fs) (auto split: prod.splits bool.splits sum.splits)

fun touched :: "fs_op \<Rightarrow> string set" where
  "touched (RemoveIgnored p) = {p}"
| "touched (RenameFile a b) = {a, b}"
| "touched (OpenTruncate p) = {p}"
| "touched (WriteAll p b) = {p}"
| "touched _ = {}"

lemma apply_op_untouched: "apply_op o' op fs = (r, fs') \<Longrightarrow> p \<notin> touched op \<Longrightarrow> fs' p = fs p"
  by (cases o'; cases op) (auto split: option.splits)

lemma run_ops_untouched:
  "run_ops fault i ops fs = (r, fs') \<Longrightarrow> \<forall>op \<in> set ops. p \<notin> touched op \<Longrightarrow> fs' p = fs p"
proof (induction fault i ops fs rule: run_ops.induct)
  case (1 fault i fs)
  then show ?case by simp
next
  case (2 fault i op ops fs)
  obtain ok fs1 where a: "apply_op (fault i) op fs = (ok, fs1)" by fastforce
  have "fs1 p = fs p" using apply_op_untouched [OF a] "2.prems"(2) by simp
  then show ?case using "2.IH" [OF a [symmetric]] "2.prems" a by (cases ok) auto
qed

definition write_tmp_ops :: "state_env \<Rightarrow> bytes \<Rightarrow> fs_op list" where
  "write_tmp_ops env b =
     [CreateDirs, OpenTruncate (tmp_path env), WriteAll (tmp_path env) b, SyncAll (tmp_path env)]"

lemma write_atomic_split:
  "write_atomic_ops env path b = write_tmp_ops env b @ [RenameFile (tmp_path env) path]"
  by (simp add: write_atomic_ops_def write_tmp_ops_def Let_def)

lemma write_tmp_ok:
  assumes "run_ops fault i (write_tmp_ops env b) fs = (Inr u, fs')"
  shows "fs' = fs(tmp_path env \<mapsto> b)"
  using assms
  by (cases "fault i"; cases "fault (Suc i)"; cases "fault (Suc (Suc i))";
      cases "fault (Suc (Suc (Suc i)))") (auto simp: write_tmp_ops_def)

lemma write_tmp_untouched:
  "p \<noteq> tmp_path env \<Longrightarrow> \<forall>op \<in> set (write_tmp_ops env b). p \<notin> touched op"
  by (simp add: write_tmp_ops_def)

lemma ball_set_take: "\<forall>x \<in> set xs. P x \<Longrightarrow> \<forall>x \<in> set (take k xs). P x"
  by (auto dest: in_set_takeD)

lemma write_atomic_ok:
  assumes "run_ops fault i (write_atomic_ops env (sealed_path env) b) fs = (Inr u, fs')"
  shows "fs' = (fs(sealed_path env \<mapsto> b))(tmp_path env := None)"
proof -
  obtain v fs1 where w: "run_ops fault i (write_tmp_ops env b) fs = (Inr v, fs1)"
    "run_ops fault (i + length (write_tmp_ops env b)) [RenameFile (tmp_path env) (sealed_path env)] fs1
       = (Inr u, fs')"
    using assms by (auto simp: write_atomic_split run_ops_append split: prod.splits sum.splits)
  show ?thesis
    using w(2) write_tmp_ok [OF w(1)]
    by (cases "fault (i + length (write_tmp_ops env b))") (auto simp: fun_eq_iff)
qed

lemma write_atomic_interrupted:
  assumes "run_ops fault i (take k (write_atomic_ops env (sealed_path env) b)) fs = (r, fs')"
  shows "fs' (backup_path env) = fs (backup_path env)"
    and "fs' (sealed_path env) = fs (sealed_path env) \<or> fs' (sealed_path env) = Some b"
proof -
  let ?w = "write_tmp_ops env b" and ?rn = "RenameFile (tmp_path env) (sealed_path env)"
  have tk: "take k (write_atomic_ops env (sealed_path env) b) = take k ?w \<or>
      take k (write_atomic_ops env (sealed_path env) b) = ?w @ [?rn]"
    by (cases "k - length ?w") (auto simp: write_atomic_split)
  have "fs' (backup_path env) = fs (backup_path env) \<and>
      (fs' (sealed_path env) = fs (sealed_path env) \<or> fs' (sealed_path env) = Some b)"
    using tk
  proof
    assume "take k (write_atomic_ops env (sealed_path env) b) = take k ?w"
    then show ?thesis
      using assms run_ops_untouched ball_set_take [OF write_tmp_untouched] paths_distinct by metis
  next
    assume whole: "take k (write_atomic_ops env (sealed_path env) b) = ?w @ [?rn]"
    obtain q fs1 where w: "run_ops fault i ?w fs = (q, fs1)" by fastforce
    have keep: "fs1 p = fs p" if "p \<noteq> tmp_path env" for p
      using run_ops_untouched [OF w write_tmp_untouched [OF that]] .
    show ?thesis
    proof (cases q)
      case (Inl e)
      then show ?thesis using assms whole w keep by (simp add: run_ops_append)
    next
      case (Inr u)
      then have "run_ops fault (i + length ?w) [?rn] fs1 = (r, fs')"
        using assms whole w by (simp add: run_ops_append)
      then show ?thesis
        using keep write_tmp_ok [OF w [unfolded Inr]]
        by (cases "fault (i + length ?w)") (auto split: option.splits)
    qed
  qed
  then show "fs' (backup_path env) = fs (backup_path env)"
    and "fs' (sealed_path env) = fs (sealed_path env) \<or> fs' (sealed_path env) = Some b"
    by blast+
qed

text \<open>Whatever fails, and wherever the machine stops, the previous sealed file survives under its own
  name or as the backup; and the name never holds a torn file.\<close>

lemma save_interrupted:
  assumes "fs (sealed_path env) = Some old"
    and "run_ops fault 0 (take k (save_ops env blob fs)) fs = (r, fs')"
  shows "fs' (sealed_path env) = Some old \<or>
    fs' (backup_path env) = Some old \<and> fs' (sealed_path env) \<in> {None, Some blob}"
proof -
  let ?rot = "[RemoveIgnored (backup_path env), RenameFile (sealed_path env) (backup_path env)]"
  let ?wa = "write_atomic_ops env (sealed_path env) blob"
  have "save_ops env blob fs = ?rot @ ?wa" using assms(1) by (simp add: save_ops_def)
  then have ops: "take k (save_ops env blob fs) = take k ?rot @ take (k - 2) ?wa"
    by (simp only: take_append) (simp add: numeral_2_eq_2)
  consider "k = 0" | "k = 1" | "2 \<le> k" by linarith
  then show ?thesis
  proof cases
    case 3
    then have rot: "take k ?rot = ?rot" by simp
    show ?thesis
    proof (cases "fault 1")
      case None
      let ?fs1 = "(((if fault 0 = None then fs(backup_path env := None) else fs)
          (backup_path env \<mapsto> old))(sealed_path env := None))"
      have r1: "run_ops fault 0 ?rot fs = (Inr (), ?fs1)"
        using None assms(1) by (cases "fault 0") simp_all
      then have w: "run_ops fault 2 (take (k - 2) ?wa) ?fs1 = (r, fs')"
        using assms(2) unfolding ops rot run_ops_append r1 by (simp add: numeral_2_eq_2)
      show ?thesis
        using write_atomic_interrupted [OF w] by auto
    next
      case (Some n)
      have "run_ops fault 0 ?rot fs =
          (Inl (IoFailed (RenameFile (sealed_path env) (backup_path env))),
           if fault 0 = None then fs(backup_path env := None) else fs)"
        using Some assms(1) by (cases "fault 0") simp_all
      then show ?thesis
        using assms unfolding ops rot run_ops_append by (auto split: if_splits)
    qed
  qed (use assms ops in \<open>cases "fault 0"; auto\<close>)+
qed

section \<open>Saving and loading\<close>

text \<open>The keystore's file is not one of the three configuration files, and the random values have
  the lengths the code draws.\<close>

definition keystore_elsewhere :: "state_env \<Rightarrow> bool" where
  "keystore_elsewhere env \<longleftrightarrow>
     (\<forall>p. se_keystore env = FileKeystore p \<longrightarrow>
        p \<noteq> sealed_path env \<and> p \<noteq> backup_path env \<and> p \<noteq> tmp_path env)"

definition state_env_ok :: "state_env \<Rightarrow> bool" where
  "state_env_ok env \<longleftrightarrow>
     crypto_laws (se_seal env) \<and> keystore_elsewhere env \<and>
     length (se_salt env) = SALT_LEN \<and> length (se_nonce env) = NONCE_LEN"

lemma keystore_load_files:
  assumes "keystore_elsewhere env"
    and "\<And>p. p \<notin> {sealed_path env, backup_path env, tmp_path env} \<Longrightarrow> fs' p = fs_files d p"
  shows "keystore_load hx (se_keystore env) (d\<lparr>fs_files := fs'\<rparr>) = keystore_load hx (se_keystore env) d"
  using assms by (cases "se_keystore env") (auto simp: os_load_def file_load_def keystore_elsewhere_def)

lemma save_ops_ok:
  assumes "run_ops fault 0 (save_ops env blob fs) fs = (Inr u, fs')"
  shows "fs' (sealed_path env) = Some blob"
    and "p \<notin> {sealed_path env, backup_path env, tmp_path env} \<Longrightarrow> fs' p = fs p"
proof -
  let ?wa = "write_atomic_ops env (sealed_path env) blob"
  obtain i fs1 where w: "run_ops fault i ?wa fs1 = (Inr u, fs')"
    using assms by (auto simp: save_ops_def run_ops_append split: if_splits prod.splits sum.splits)
  show "fs' (sealed_path env) = Some blob"
    using write_atomic_ok [OF w] by simp
  show "fs' p = fs p" if "p \<notin> {sealed_path env, backup_path env, tmp_path env}"
    using that by (intro run_ops_untouched [OF assms])
      (auto simp: save_ops_def write_atomic_ops_def Let_def)
qed

lemma save_then_load:
  assumes env: "state_env_ok env" and saved: "save_config env fault cfg d = (Inr u, d')"
  shows "load_config env d' = Inr cfg"
proof -
  obtain w key blob fs' where s: "validate cfg = Inr w"
    "keystore_load (se_hex env) (se_keystore env) d = Inr key"
    "seal (se_seal env) (se_salt env) (se_nonce env) cfg key [] = Inr blob"
    "run_ops fault 0 (save_ops env blob (fs_files d)) (fs_files d) = (Inr (), fs')"
    "d' = d\<lparr>fs_files := fs'\<rparr>"
    using saved by (auto simp: save_config_def split: sum.splits prod.splits)
  have "keystore_load (se_hex env) (se_keystore env) d' = Inr key"
    using keystore_load_files [of env fs' d] env save_ops_ok(2) [OF s(4)] s(2,5)
    by (simp add: state_env_ok_def)
  moreover have "unseal (se_seal env) blob key [] = Inr cfg"
    using env s(1,3) by (intro unseal_seal) (auto simp: state_env_ok_def validate_iff_wf wf_config_def)
  ultimately show ?thesis
    using s(1,5) save_ops_ok(1) [OF s(4)] by (simp add: load_config_def)
qed

lemma load_config_valid: "load_config env d = Inr cfg \<Longrightarrow> wf_config cfg"
  by (auto simp: load_config_def validate_iff_wf [symmetric] split: option.splits sum.splits)

lemma save_config_valid: "save_config env fault cfg d = (Inr u, d') \<Longrightarrow> wf_config cfg"
  by (auto simp: save_config_def validate_iff_wf [symmetric] split: sum.splits)

lemma with_config_ok:
  fixes mutate :: "config \<Rightarrow> 'e + 'r \<times> config"
  assumes "with_config env fault mutate d = (Inr out, d')"
  obtains cfg cfg' u where "load_config env d = (Inr cfg :: 'e state_error + config)"
    "mutate cfg = Inr (out, cfg')"
    "save_config env fault cfg' d = (Inr u :: 'e state_error + unit, d')"
  using assms by (auto simp: with_config_def split: sum.splits prod.splits)

lemma with_config_error_disk:
  assumes "with_config env fault mutate d = (Inl e, d')" and "\<And>i. e \<noteq> IoError i"
  shows "d' = d"
  using assms by (auto simp: with_config_def save_config_def split: sum.splits prod.splits)

section \<open>The interface of a configuration store\<close>

locale config_store =
  fixes ok :: "'s \<Rightarrow> bool"
    and load :: "'s \<Rightarrow> disk \<Rightarrow> 'e + config"
    and save :: "'s \<Rightarrow> config \<Rightarrow> disk \<Rightarrow> ('e + unit) \<times> disk"
  assumes load_saved: "ok s \<Longrightarrow> save s c d = (Inr u, d') \<Longrightarrow> load s d' = Inr c"
    and loaded_valid: "load s d = Inr c \<Longrightarrow> wf_config c"
begin

lemma saved_valid: "ok s \<Longrightarrow> save s c d = (Inr u, d') \<Longrightarrow> wf_config c"
  using load_saved loaded_valid by blast

lemma last_save_wins:
  "ok s \<Longrightarrow> save s c d = (Inr u, d') \<Longrightarrow> save s c' d' = (Inr u', d'') \<Longrightarrow> load s d'' = Inr c'"
  by (rule load_saved)

lemma save_separates:
  "ok s \<Longrightarrow> save s c d = (Inr u, d1) \<Longrightarrow> save s c' d = (Inr u', d1) \<Longrightarrow> c = c'"
  using load_saved by (metis sum.inject(2))

end

interpretation sealed_store: config_store
  "\<lambda>(env, fault). state_env_ok env" "\<lambda>(env, fault). load_config env"
  "\<lambda>(env, fault). save_config env fault"
  by unfold_locales (auto intro: save_then_load load_config_valid)

section \<open>Choosing the state directory\<close>

text \<open>The environment the choice reads: the two default directories, and which files exist.\<close>

record target_env =
  system_dir :: string
  legacy_dir :: string
  path_exists :: "string \<Rightarrow> bool"

definition should_use_legacy_user_dir :: "string \<Rightarrow> bool \<Rightarrow> string \<Rightarrow> bool \<Rightarrow> bool" where
  "should_use_legacy_user_dir system system_has_config legacy legacy_has_config \<longleftrightarrow>
     legacy \<noteq> system \<and> \<not> system_has_config \<and> legacy_has_config"

definition resolve_target ::
  "target_env \<Rightarrow> string option \<Rightarrow> bool \<Rightarrow> bool \<Rightarrow> bool \<Rightarrow> string \<times> keystore_choice" where
  "resolve_target te state_dir user file_keystore allow_legacy_fallback =
     (let system = system_dir te; legacy = legacy_dir te in
      if state_dir = None \<and> \<not> user \<and>
         should_use_legacy_user_dir system (path_exists te (path_join system CONFIG_FILE_NAME))
           legacy (path_exists te (path_join legacy CONFIG_FILE_NAME)) \<and>
         allow_legacy_fallback
      then (legacy,
            if path_exists te (path_join legacy FILE_MASTER_KEY_NAME)
            then default_file legacy else default_os)
      else
        (let dir = (case state_dir of
                      Some d \<Rightarrow> d
                    | None \<Rightarrow> if user then legacy else system);
             ks = (if user \<and> \<not> file_keystore then default_os else default_file dir)
         in (dir, ks)))"

definition resolve_cli_target ::
  "target_env \<Rightarrow> string option \<Rightarrow> bool \<Rightarrow> bool \<Rightarrow> string \<times> keystore_choice" where
  "resolve_cli_target te state_dir user file_keystore =
     resolve_target te state_dir user file_keystore True"

definition resolve_service_install_target ::
  "target_env \<Rightarrow> string option \<Rightarrow> bool \<Rightarrow> bool \<Rightarrow> string \<times> keystore_choice" where
  "resolve_service_install_target te state_dir user file_keystore =
     resolve_target te state_dir user file_keystore False"

text \<open>\<open>env_flag\<close> on the value of the environment variable.\<close>

definition env_flag :: "string option \<Rightarrow> bool" where
  "env_flag v =
     (case v of
        Some s \<Rightarrow> ascii_lower (trim s) \<in> {''1'', ''true'', ''yes'', ''on''}
      | None \<Rightarrow> False)"

section \<open>What the store promises\<close>

text \<open>
  C14 (mutations are durable). A mutation that reports success has been applied to the configuration
  that was on disk, and reading the state directory back gives its result, a well-formed configuration;
  so no later reader sees another configuration than the caller was told of.
\<close>

theorem mutation_durable:
  fixes mutate :: "config \<Rightarrow> 'e + 'r \<times> config"
  assumes "state_env_ok env" and "with_config env fault mutate d = (Inr out, d')"
  shows "\<exists>cfg cfg'. (load_config env d :: 'e state_error + config) = Inr cfg \<and>
    mutate cfg = Inr (out, cfg') \<and> wf_config cfg' \<and>
    (load_config env d' :: 'e state_error + config) = Inr cfg'"
proof -
  from assms(2) obtain cfg cfg' u where s: "load_config env d = (Inr cfg :: 'e state_error + config)"
    "mutate cfg = Inr (out, cfg')" "save_config env fault cfg' d = (Inr u :: 'e state_error + unit, d')"
    by (rule with_config_ok)
  then show ?thesis
    using save_then_load [OF assms(1) s(3)] save_config_valid [OF s(3)] by blast
qed

text \<open>A state directory for the instances: the key in a file, one sealed configuration.\<close>

definition sample_state :: state_env where
  "sample_state =
     \<lparr>se_seal = plain_ops,
      se_hex = \<lparr>hex_encode = (\<lambda>b. []), hex_decode = (\<lambda>s. Inl ''unused'')\<rparr>,
      se_keystore = FileKeystore ''/k'', se_dir = ''/s'',
      se_salt = replicate 16 7, se_nonce = replicate 12 9\<rparr>"

definition sample_blob :: bytes where
  "sample_blob = MAGIC @ [VERSION] @ replicate 16 7 @ replicate 12 9 @ replicate 16 0"

definition sample_disk :: disk where
  "sample_disk =
     \<lparr>fs_files = [''/k'' \<mapsto> replicate 32 1, ''/s/config.sealed'' \<mapsto> sample_blob],
      keychain = (\<lambda>_. None)\<rparr>"

lemma sample_paths:
  "sealed_path sample_state = ''/s/config.sealed''"
  "backup_path sample_state = ''/s/config.sealed.bak''"
  "tmp_path sample_state = ''/s/config.sealed.tmp''"
  by (simp_all add: sealed_path_def backup_path_def tmp_path_def path_join_def sample_state_def
      CONFIG_FILE_NAME_def CONFIG_BACKUP_NAME_def CONFIG_TMP_NAME_def)

lemma sample_state_ok: "state_env_ok sample_state"
  unfolding state_env_ok_def keystore_elsewhere_def sample_paths
  by (simp add: sample_state_def plain_ops_laws SALT_LEN_def NONCE_LEN_def)

lemma sample_key: "keystore_load hx (FileKeystore ''/k'') sample_disk = Inr (replicate 32 1)"
  by (simp add: file_load_def sample_disk_def key_of_raw_def KEY_LEN_def)

lemma sample_load: "load_config sample_state sample_disk = Inr default_config"
proof -
  have "unseal plain_ops sample_blob (replicate 32 1) [] = Inr default_config"
    unfolding sample_blob_def
    by (rule unseal_seal [OF plain_ops_laws _ _ _ seal_plain_ops])
      (simp_all add: SALT_LEN_def NONCE_LEN_def default_config_def)
  moreover have "validate default_config = Inr ()" by (simp add: validate_iff_wf)
  moreover have "fs_files sample_disk ''/s/config.sealed'' = Some sample_blob"
    by (simp add: sample_disk_def)
  moreover have "se_keystore sample_state = FileKeystore ''/k''" "se_seal sample_state = plain_ops"
    by (simp_all add: sample_state_def)
  ultimately show ?thesis
    by (simp only: load_config_def sample_paths sample_key option.case sum.case)
qed

lemma sample_save: "\<exists>d'. save_config sample_state no_fault default_config sample_disk = (Inr (), d')"
proof -
  have "validate default_config = Inr ()" by (simp add: validate_iff_wf)
  moreover have "se_keystore sample_state = FileKeystore ''/k''" "se_seal sample_state = plain_ops"
    by (simp_all add: sample_state_def)
  moreover have "\<exists>fs'. run_ops no_fault 0 (save_ops sample_state b (fs_files sample_disk))
      (fs_files sample_disk) = (Inr (), fs')" for b
    unfolding save_ops_def write_atomic_ops_def sample_paths
    by (simp add: no_fault_def sample_disk_def Let_def)
  ultimately show ?thesis
    by (simp add: save_config_def sample_key seal_plain_ops del: keystore_load.simps
        split: prod.splits sum.splits) (metis prod.inject sum.distinct(1) old.unit.exhaust)
qed

theorem mutation_durable_witness:
  "\<exists>d'. with_config sample_state no_fault (\<lambda>c. Inr (True, c) :: unit + bool \<times> config) sample_disk
       = (Inr True, d') \<and>
     (load_config sample_state d' :: unit state_error + config) = Inr default_config"
proof -
  obtain d' where "save_config sample_state no_fault default_config sample_disk
      = (Inr () :: unit state_error + unit, d')"
    using sample_save by blast
  then have w: "with_config sample_state no_fault (\<lambda>c. Inr (True, c) :: unit + bool \<times> config)
      sample_disk = (Inr True, d')"
    by (simp add: with_config_def sample_load)
  show ?thesis using mutation_durable [OF sample_state_ok w] w by (auto simp: sample_load)
qed

text \<open>
  Refused mutations leave no trace. A mutation that fails for any other reason than a failing
  file operation, because the state does not load, the transform refuses, the result is invalid or does
  not seal, leaves the disk as it was.
\<close>

theorem refused_mutation_keeps_disk:
  assumes "with_config env fault mutate d = (Inl e, d')" and "\<And>i. e \<noteq> IoError i"
  shows "d' = d"
  by (rule with_config_error_disk [OF assms])

theorem refused_mutation_keeps_disk_witness:
  "snd (with_config sample_state no_fault (\<lambda>c. Inl ''refused'' :: string + unit \<times> config)
     sample_disk) = sample_disk"
proof -
  have "with_config sample_state no_fault
      (\<lambda>c. Inl ''refused'' :: string + unit \<times> config) sample_disk
      = (Inl (MutateFailed ''refused''), sample_disk)"
    by (simp add: with_config_def sample_load)
  from refused_mutation_keeps_disk [OF this] show ?thesis
    using \<open>with_config _ _ _ _ = _\<close> by simp
qed

text \<open>
  C15 (a save survives any interruption). Whatever file operation of a save fails, and after however
  many of them the machine stops, the previous sealed configuration is still on disk, under its own
  name or as the backup, and its own name holds it, nothing, or the complete new blob: never a torn
  file.
\<close>

theorem save_survives_interruption:
  assumes "fs (sealed_path env) = Some old"
    and "run_ops fault 0 (take k (save_ops env blob fs)) fs = (r, fs')"
  shows "fs' (sealed_path env) = Some old \<or>
    fs' (backup_path env) = Some old \<and> fs' (sealed_path env) \<in> {None, Some blob}"
  by (rule save_interrupted [OF assms])

theorem save_survives_interruption_witness:
  "\<exists>fs'. snd (run_ops no_fault 0 (take 4 (save_ops sample_state [2] [''/s/config.sealed'' \<mapsto> [1]]))
       [''/s/config.sealed'' \<mapsto> [1]]) = fs' \<and>
     (fs' ''/s/config.sealed'' = Some [1] \<or> fs' ''/s/config.sealed.bak'' = Some [1])"
  using save_survives_interruption [of "[''/s/config.sealed'' \<mapsto> [1]]" sample_state "[1]" no_fault 4
      "[2]", OF _ surjective_pairing]
  by (auto simp: sample_paths)

text \<open>
  A failed write leaves no sealed file. The save renames the sealed file to the backup before it
  writes the new one; when the write of the temporary file then fails, the state directory is left
  without a sealed file, and the next load fails, until someone restores the backup by hand.
\<close>

theorem failed_write_leaves_no_config:
  assumes "fs_files d (sealed_path env) = Some old" and "validate cfg = Inr ()"
    and "keystore_load (se_hex env) (se_keystore env) d = Inr key"
    and "seal (se_seal env) (se_salt env) (se_nonce env) cfg key [] = Inr blob"
  shows "\<exists>op d'. save_config env (\<lambda>i. if i = 4 then Some n else None) cfg d = (Inl (IoError op), d') \<and>
    load_config env d' = Inl (ReadFailed (sealed_path env)) \<and>
    fs_files d' (backup_path env) = Some old"
  using assms
  by (simp add: save_config_def save_ops_def write_atomic_ops_def load_config_def Let_def
      numeral_eq_Suc)

theorem failed_write_leaves_no_config_witness:
  "\<exists>op d'. save_config sample_state (\<lambda>i. if i = 4 then Some 0 else None) default_config sample_disk
       = (Inl (IoError op), d') \<and>
     load_config sample_state d' = Inl (ReadFailed ''/s/config.sealed'') \<and>
     fs_files d' ''/s/config.sealed.bak'' = Some sample_blob"
  unfolding sample_paths [symmetric]
proof (rule failed_write_leaves_no_config)
  show "fs_files sample_disk (sealed_path sample_state) = Some sample_blob"
    unfolding sample_paths by (simp add: sample_disk_def)
  show "validate default_config = Inr ()" by (simp add: validate_iff_wf)
  show "keystore_load (se_hex sample_state) (se_keystore sample_state) sample_disk
      = Inr (replicate 32 1)"
    using sample_key by (simp add: sample_state_def)
  show "seal (se_seal sample_state) (se_salt sample_state) (se_nonce sample_state) default_config
      (replicate 32 1) [] = Inr (MAGIC @ [VERSION] @ se_salt sample_state @ se_nonce sample_state
        @ replicate 16 0)"
    using seal_plain_ops by (simp add: sample_state_def)
qed

end
