(* ===== verification/Utf8.thy ===== *)
theory Utf8
  imports Prelude
begin

text \<open>
  The parts of the standard library's UTF-8 handling the sources use: \<open>String::from_utf8_lossy\<close>
  (maximal valid prefixes, U+FFFD for every maximal invalid sequence), \<open>str::chars\<close> and
  \<open>is_char_boundary\<close>, which a slice of a \<open>str\<close> panics without.
\<close>

definition cont :: "u8 \<Rightarrow> bool" where
  "cont b \<longleftrightarrow> b AND 0xC0 = 0x80"

definition byte_in :: "u8 \<Rightarrow> u8 \<Rightarrow> u8 \<Rightarrow> bool" where
  "byte_in lo hi b \<longleftrightarrow> lo \<le> b \<and> b \<le> hi"

text \<open>The byte at an index, zero past the end, as the decoder's \<open>safe_get\<close>.\<close>

definition safe_get :: "bytes \<Rightarrow> nat \<Rightarrow> u8" where
  "safe_get bs i = (if i < length bs then bs ! i else 0)"

definition second_ok :: "u8 \<Rightarrow> u8 \<Rightarrow> bool" where
  "second_ok b n \<longleftrightarrow>
     (if b = 0xE0 then byte_in 0xA0 0xBF n
      else if b = 0xED then byte_in 0x80 0x9F n
      else if b = 0xF0 then byte_in 0x90 0xBF n
      else if b = 0xF4 then byte_in 0x80 0x8F n
      else byte_in 0x80 0xBF n)"

text \<open>One decoding step at the front of a non-empty list: whether a character was read, and how many
  bytes it, or the invalid sequence, takes.\<close>

definition utf8_step :: "bytes \<Rightarrow> bool \<times> nat" where
  "utf8_step bs =
     (let b = safe_get bs 0 in
      if b < 0x80 then (True, 1)
      else if byte_in 0xC2 0xDF b then (if cont (safe_get bs 1) then (True, 2) else (False, 1))
      else if byte_in 0xE0 0xEF b then
        (if \<not> second_ok b (safe_get bs 1) then (False, 1)
         else if \<not> cont (safe_get bs 2) then (False, 2)
         else (True, 3))
      else if byte_in 0xF0 0xF4 b then
        (if \<not> second_ok b (safe_get bs 1) then (False, 1)
         else if \<not> cont (safe_get bs 2) then (False, 2)
         else if \<not> cont (safe_get bs 3) then (False, 3)
         else (True, 4))
      else (False, 1))"

definition replacement :: bytes where
  "replacement = [0xEF, 0xBF, 0xBD]"

lemma utf8_step_pos [simp]: "0 < snd (utf8_step bs)"
  by (simp add: utf8_step_def Let_def)

function utf8_lossy :: "bytes \<Rightarrow> bytes" where
  "utf8_lossy bs =
     (if bs = [] then []
      else case utf8_step bs of
             (valid, n) \<Rightarrow> (if valid then take n bs else replacement) @ utf8_lossy (drop n bs))"
  by pat_completeness auto
termination
proof (relation "measure length")
  fix bs :: bytes and v n
  assume "bs \<noteq> []" "(v, n) = utf8_step bs"
  then show "(drop n bs, bs) \<in> measure length"
    using utf8_step_pos [of bs] by (cases "utf8_step bs") auto
qed simp

declare utf8_lossy.simps [simp del]

definition from_utf8_lossy :: "bytes \<Rightarrow> string" where
  "from_utf8_lossy bs = of_bytes (utf8_lossy bs)"

function valid_utf8 :: "bytes \<Rightarrow> bool" where
  "valid_utf8 bs =
     (if bs = [] then True
      else case utf8_step bs of
             (valid, n) \<Rightarrow> if valid then valid_utf8 (drop n bs) else False)"
  by pat_completeness auto
termination
proof (relation "measure length")
  fix bs :: bytes and v n
  assume "bs \<noteq> []" "(v, n) = utf8_step bs"
  then show "(drop n bs, bs) \<in> measure length"
    using utf8_step_pos [of bs] by (cases "utf8_step bs") auto
qed simp

declare valid_utf8.simps [simp del]

lemma utf8_lossy_Nil [simp]: "utf8_lossy [] = []"
  by (simp add: utf8_lossy.simps)

lemma valid_utf8_Nil [simp]: "valid_utf8 []"
  by (simp add: valid_utf8.simps)

text \<open>On valid input the lossy decoding is the identity.\<close>

lemma utf8_lossy_valid: "valid_utf8 bs \<Longrightarrow> utf8_lossy bs = bs"
proof (induction bs rule: valid_utf8.induct)
  case (1 bs)
  show ?case
  proof (cases "bs = []")
    case False
    obtain n where st: "utf8_step bs = (True, n)" and v: "valid_utf8 (drop n bs)"
      using "1.prems" [unfolded valid_utf8.simps [of bs]] False
      by (auto split: prod.splits if_splits)
    have "utf8_lossy (drop n bs) = drop n bs" using "1.IH" [OF False _ _ v] st by simp
    then show ?thesis using False st by (subst utf8_lossy.simps) simp
  qed simp
qed

lemma ascii_step: "b < 0x80 \<Longrightarrow> utf8_step (b # bs) = (True, 1)"
  by (simp add: utf8_step_def safe_get_def)

lemma valid_utf8_ascii: "\<forall>b \<in> set bs. b < 0x80 \<Longrightarrow> valid_utf8 bs"
proof (induction bs)
  case (Cons b bs)
  then show ?case by (subst valid_utf8.simps) (simp add: ascii_step)
qed simp

lemma from_utf8_lossy_ascii: "\<forall>b \<in> set bs. b < 0x80 \<Longrightarrow> from_utf8_lossy bs = of_bytes bs"
  by (simp add: from_utf8_lossy_def utf8_lossy_valid valid_utf8_ascii)

definition utf8_text :: "string \<Rightarrow> bool" where
  "utf8_text s \<longleftrightarrow> valid_utf8 (as_bytes s)"

lemma from_utf8_lossy_as_bytes: "utf8_text s \<Longrightarrow> from_utf8_lossy (as_bytes s) = s"
  by (simp add: from_utf8_lossy_def utf8_text_def utf8_lossy_valid)

section \<open>Characters of a string\<close>

definition is_cont_char :: "char \<Rightarrow> bool" where
  "is_cont_char c \<longleftrightarrow> cont (char_byte c)"

definition is_char_boundary :: "string \<Rightarrow> nat \<Rightarrow> bool" where
  "is_char_boundary s i \<longleftrightarrow>
     i = 0 \<or> i = length s \<or> i < length s \<and> \<not> is_cont_char (s ! i)"

text \<open>\<open>&s[..n]\<close>: \<open>None\<close> is the panic off a character boundary or past the end.\<close>

definition slice_to :: "string \<Rightarrow> nat \<Rightarrow> string option" where
  "slice_to s n = (if is_char_boundary s n then Some (take n s) else None)"

text \<open>The first characters: a lead byte with the continuation bytes that follow it.\<close>

fun take_chars :: "nat \<Rightarrow> string \<Rightarrow> string" where
  "take_chars n [] = []"
| "take_chars 0 s = []"
| "take_chars (Suc n) (c # s) =
     c # takeWhile is_cont_char s @ take_chars n (dropWhile is_cont_char s)"

lemma take_chars_prefix: "\<exists>t. s = take_chars n s @ t"
proof (induction n s rule: take_chars.induct)
  case (3 n c s)
  then obtain t where "dropWhile is_cont_char s = take_chars n (dropWhile is_cont_char s) @ t"
    by blast
  then show ?case
    by (intro exI [of _ t]) (metis append.assoc append_Cons take_chars.simps(3) takeWhile_dropWhile_id)
qed auto

lemma is_char_boundary_0 [simp]: "is_char_boundary s 0"
  by (simp add: is_char_boundary_def)

end
