(* ===== verification/Audit_Log.thy ===== *)
theory Audit_Log
  imports Utf8
begin

text \<open>
  \<open>crates/mw-core/src/audit.rs\<close>: the records of the audit log. SHA-256, the time stamp and
  the measured duration are arguments.
\<close>

datatype audit_decision = AuditAllow | AuditDeny | AuditError

record audit_event =
  ae_ts :: string
  ae_env :: name
  ae_client_user :: string
  ae_stmt_hash :: string
  ae_stmt_first_64 :: string
  ae_decision :: audit_decision
  ae_deny_reason :: "string option"
  ae_rows :: "u64 option"
  ae_duration_ms :: u64

definition hex_digit :: "nat \<Rightarrow> char" where
  "hex_digit n = ''0123456789abcdef'' ! n"

definition hex2 :: "u8 \<Rightarrow> string" where
  "hex2 b = [hex_digit (unat b div 16), hex_digit (unat b mod 16)]"

definition hash_stmt :: "(bytes \<Rightarrow> bytes) \<Rightarrow> string \<Rightarrow> string" where
  "hash_stmt sha256 sql = ''sha256:'' @ concat (map hex2 (sha256 (as_bytes sql)))"

definition first_64 :: "string \<Rightarrow> string" where
  "first_64 sql = take_chars 64 sql"

record audit_env =
  au_sha256 :: "bytes \<Rightarrow> bytes"
  au_now :: string
  au_elapsed :: u64

definition audit_event_new ::
  "audit_env \<Rightarrow> name \<Rightarrow> string \<Rightarrow> string \<Rightarrow> audit_decision \<Rightarrow> string option \<Rightarrow> u64 option
     \<Rightarrow> audit_event" where
  "audit_event_new au env user sql dec reason rows =
     \<lparr>ae_ts = au_now au, ae_env = env, ae_client_user = user,
      ae_stmt_hash = hash_stmt (au_sha256 au) sql, ae_stmt_first_64 = first_64 sql,
      ae_decision = dec, ae_deny_reason = reason, ae_rows = rows,
      ae_duration_ms = au_elapsed au\<rparr>"

record admin_event =
  ad_ts :: string
  ad_kind :: string
  ad_action :: string
  ad_target :: string
  ad_peer_uid :: "u32 option"
  ad_peer_gid :: "u32 option"
  ad_peer_user :: string
  ad_decision :: audit_decision
  ad_error :: "string option"

definition admin_event_new ::
  "string \<Rightarrow> string \<Rightarrow> string \<Rightarrow> u32 option \<Rightarrow> u32 option \<Rightarrow> string \<Rightarrow> audit_decision
     \<Rightarrow> string option \<Rightarrow> admin_event" where
  "admin_event_new now action target uid gid user dec err =
     \<lparr>ad_ts = now, ad_kind = ''admin'', ad_action = action, ad_target = target,
      ad_peer_uid = uid, ad_peer_gid = gid, ad_peer_user = user, ad_decision = dec,
      ad_error = err\<rparr>"

lemma first_64_prefix: "\<exists>t. sql = first_64 sql @ t"
  by (simp add: first_64_def take_chars_prefix)

lemma length_hash_stmt: "length (sha256 (as_bytes sql)) = 32 \<Longrightarrow> length (hash_stmt sha256 sql) = 71"
proof -
  have "length (concat (map hex2 bs)) = 2 * length bs" for bs
    by (induction bs) (simp_all add: hex2_def)
  then show "length (sha256 (as_bytes sql)) = 32 \<Longrightarrow> ?thesis"
    by (simp add: hash_stmt_def)
qed

end
