(* ===== verification/Token.thy ===== *)
theory Token
  imports Prelude
begin

text \<open>
  \<open>crates/mw-core/src/token.rs\<close>: the client tokens of the proxy and the verification of the
  two client authentication schemes. The random bytes are an argument (\<open>OsRng\<close>), and so are
  the digests SHA-1 and SHA-256, of which only the digest length is ever assumed.
\<close>

section \<open>Token generation\<close>

definition TOKEN_RAND_BYTES :: nat where
  "TOKEN_RAND_BYTES = 32"

definition ALPHABET :: string where
  "ALPHABET = ''ABCDEFGHIJKLMNOPQRSTUVWXYZabcdefghijklmnopqrstuvwxyz0123456789_-''"

definition alphabet_at :: "u32 \<Rightarrow> nat \<Rightarrow> char" where
  "alphabet_at n k = ALPHABET ! unat (drop_bit k n AND 0x3F)"

fun token_chars :: "bytes \<Rightarrow> string" where
  "token_chars (a # b # c # rest) =
     (let n = push_bit 16 (ucast a) OR push_bit 8 (ucast b) OR ucast c
      in alphabet_at n 18 # alphabet_at n 12 # alphabet_at n 6 # alphabet_at n 0 # token_chars rest)"
| "token_chars [a, b] =
     (let n = push_bit 16 (ucast a) OR push_bit 8 (ucast b)
      in [alphabet_at n 18, alphabet_at n 12, alphabet_at n 6])"
| "token_chars [a] =
     (let n = push_bit 16 (ucast a) in [alphabet_at n 18, alphabet_at n 12])"
| "token_chars [] = []"

definition generate_token :: "bytes \<Rightarrow> string" where
  "generate_token raw = token_chars raw"

lemma ALPHABET_facts: "length ALPHABET = 64" "distinct ALPHABET"
  by (simp_all add: ALPHABET_def)

lemma sextet_less: "unat ((x :: u32) AND 0x3F) < 64"
proof -
  have "x AND 0x3F = take_bit 6 x"
    by (simp add: take_bit_eq_mask mask_eq_exp_minus_1)
  then have "unat (x AND 0x3F) = take_bit 6 (unat x)" by (simp add: unsigned_take_bit_eq)
  then show ?thesis using take_bit_nat_less_exp [of 6 "unat x"] by simp
qed

lemma mask_6: "mask 6 = (0x3F :: u32)"
  by (simp add: mask_eq_exp_minus_1)

lemma alphabet_at_in: "alphabet_at n k \<in> set ALPHABET"
  unfolding alphabet_at_def using sextet_less ALPHABET_facts(1) by (intro nth_mem) simp

lemma alphabet_at_eq:
  assumes "alphabet_at n k = alphabet_at m k" and "k \<le> i" "i < k + 6"
  shows "bit n i = bit m i"
proof -
  have "unat (drop_bit k n AND 0x3F) = unat (drop_bit k m AND 0x3F)"
    using assms(1) ALPHABET_facts sextet_less
    by (simp add: alphabet_at_def nth_eq_iff_index_eq)
  then have eq: "drop_bit k n AND mask 6 = drop_bit k m AND mask 6"
    by (metis (no_types, lifting) mask_6 word_unat_eq_iff)
  have "bit (drop_bit k n AND mask 6) (i - k) = bit (drop_bit k m AND mask 6) (i - k)"
    by (simp only: eq)
  moreover have "i - k < 6" using assms by simp
  ultimately show ?thesis using assms(2) by (cases "i < 32")
      (auto simp: bit_simps dest: bit_imp_le_length)
qed

lemma set_token_chars: "set (token_chars raw) \<subseteq> set ALPHABET"
  by (induction raw rule: token_chars.induct) (auto simp: Let_def alphabet_at_in)

lemma length_token_chars: "length (token_chars raw) = (length raw * 8 + 5) div 6"
  by (induction raw rule: token_chars.induct) (simp_all add: Let_def)

lemma pack3_inject:
  fixes a b c a' b' c' :: u8
  defines "n \<equiv> push_bit 16 (ucast a) OR push_bit 8 (ucast b) OR ucast c :: u32"
    and "m \<equiv> push_bit 16 (ucast a') OR push_bit 8 (ucast b') OR ucast c' :: u32"
  assumes eq: "\<And>i. lo \<le> i \<Longrightarrow> i < 24 \<Longrightarrow> bit n i = bit m i"
  shows "lo \<le> 16 \<Longrightarrow> a = a'" "lo \<le> 8 \<Longrightarrow> b = b'" "lo = 0 \<Longrightarrow> c = c'"
proof -
  show "a = a'" if "lo \<le> 16"
  proof (rule bit_word_eqI)
    fix i assume "i < LENGTH(8)"
    then show "bit a i = bit a' i"
      using eq [of "16 + i"] that unfolding n_def m_def
      by (auto simp: bit_simps dest: bit_imp_le_length)
  qed
  show "b = b'" if "lo \<le> 8"
  proof (rule bit_word_eqI)
    fix i assume "i < LENGTH(8)"
    then show "bit b i = bit b' i"
      using eq [of "8 + i"] that unfolding n_def m_def
      by (auto simp: bit_simps dest: bit_imp_le_length)
  qed
  show "c = c'" if "lo = 0"
  proof (rule bit_word_eqI)
    fix i assume "i < LENGTH(8)"
    then show "bit c i = bit c' i"
      using eq [of i] that unfolding n_def m_def
      by (auto simp: bit_simps dest: bit_imp_le_length)
  qed
qed

lemma token_chars_inject:
  "length xs = length ys \<Longrightarrow> token_chars xs = token_chars ys \<Longrightarrow> xs = ys"
proof (induction xs arbitrary: ys rule: token_chars.induct)
  case (1 a b c rest)
  then obtain a' b' c' rest' where ys: "ys = a' # b' # c' # rest'"
    by (auto simp: length_Suc_conv Suc_length_conv)
  let ?n = "push_bit 16 (ucast a) OR push_bit 8 (ucast b) OR ucast c :: u32"
  let ?m = "push_bit 16 (ucast a') OR push_bit 8 (ucast b') OR ucast c' :: u32"
  have eqs: "alphabet_at ?n 18 = alphabet_at ?m 18" "alphabet_at ?n 12 = alphabet_at ?m 12"
    "alphabet_at ?n 6 = alphabet_at ?m 6" "alphabet_at ?n 0 = alphabet_at ?m 0"
    "token_chars rest = token_chars rest'"
    using "1.prems"(2) ys by (simp_all add: Let_def)
  have bits: "bit ?n i = bit ?m i" if "0 \<le> i" "i < 24" for i
  proof -
    consider "18 \<le> i" | "12 \<le> i" "i < 18" | "6 \<le> i" "i < 12" | "i < 6" using that by linarith
    then show ?thesis
      using that eqs(1-4) alphabet_at_eq [of ?n 18 ?m i] alphabet_at_eq [of ?n 12 ?m i]
        alphabet_at_eq [of ?n 6 ?m i] alphabet_at_eq [of ?n 0 ?m i]
      by cases simp_all
  qed
  have "a = a'" "b = b'" "c = c'" using pack3_inject [of 0 a b c a' b' c'] bits by simp_all
  moreover have "rest = rest'" using "1.IH" eqs(5) "1.prems"(1) ys by simp
  ultimately show ?case using ys by simp
next
  case (2 a b)
  then obtain a' b' where ys: "ys = [a', b']" by (auto simp: length_Suc_conv Suc_length_conv)
  let ?n = "push_bit 16 (ucast a) OR push_bit 8 (ucast b) OR ucast (0 :: u8) :: u32"
  let ?m = "push_bit 16 (ucast a') OR push_bit 8 (ucast b') OR ucast (0 :: u8) :: u32"
  have eqs: "alphabet_at ?n 18 = alphabet_at ?m 18" "alphabet_at ?n 12 = alphabet_at ?m 12"
    "alphabet_at ?n 6 = alphabet_at ?m 6"
    using "2.prems"(2) ys by (simp_all add: Let_def)
  have bits: "bit ?n i = bit ?m i" if "6 \<le> i" "i < 24" for i
  proof -
    consider "18 \<le> i" | "12 \<le> i" "i < 18" | "6 \<le> i" "i < 12" using \<open>6 \<le> i\<close> by linarith
    then show ?thesis
      using that eqs alphabet_at_eq [of ?n 18 ?m i] alphabet_at_eq [of ?n 12 ?m i]
        alphabet_at_eq [of ?n 6 ?m i]
      by cases simp_all
  qed
  show ?case using pack3_inject(1,2) [of 6 a b 0 a' b' 0] bits ys by simp
next
  case (3 a)
  then obtain a' where ys: "ys = [a']" by (auto simp: length_Suc_conv Suc_length_conv)
  let ?n = "push_bit 16 (ucast a) OR push_bit 8 (ucast (0 :: u8)) OR ucast (0 :: u8) :: u32"
  let ?m = "push_bit 16 (ucast a') OR push_bit 8 (ucast (0 :: u8)) OR ucast (0 :: u8) :: u32"
  have eqs: "alphabet_at ?n 18 = alphabet_at ?m 18" "alphabet_at ?n 12 = alphabet_at ?m 12"
    using "3.prems"(2) ys by (simp_all add: Let_def)
  have bits: "bit ?n i = bit ?m i" if "12 \<le> i" "i < 24" for i
  proof -
    consider "18 \<le> i" | "12 \<le> i" "i < 18" using \<open>12 \<le> i\<close> by linarith
    then show ?thesis
      using that eqs alphabet_at_eq [of ?n 18 ?m i] alphabet_at_eq [of ?n 12 ?m i] by cases simp_all
  qed
  show ?case using pack3_inject(1) [of 12 a 0 0 a' 0 0] bits ys by simp
next
  case 4
  then show ?case by simp
qed

section \<open>Client authentication\<close>

text \<open>Element-wise exclusive or of the first twenty bytes, the loop both directions share.\<close>

definition xor20 :: "bytes \<Rightarrow> bytes \<Rightarrow> bytes" where
  "xor20 a b = map (\<lambda>i. a ! i XOR b ! i) [0..<20]"

definition double_sha1 :: "(bytes \<Rightarrow> bytes) \<Rightarrow> bytes \<Rightarrow> bytes" where
  "double_sha1 sha1 password = sha1 (sha1 password)"

definition verify_native_response ::
  "(bytes \<Rightarrow> bytes) \<Rightarrow> bytes \<Rightarrow> bytes \<Rightarrow> bytes \<Rightarrow> bool" where
  "verify_native_response sha1 scramble client_response stored_double_sha1 =
     (if length client_response \<noteq> 20 then False
      else let inner = sha1 (scramble @ stored_double_sha1);
               recovered_sha1_pw = xor20 client_response inner
           in sha1 recovered_sha1_pw = stored_double_sha1)"

definition verify_pg_cleartext :: "(bytes \<Rightarrow> bytes) \<Rightarrow> bytes \<Rightarrow> bytes \<Rightarrow> bool" where
  "verify_pg_cleartext sha256 presented stored_sha256 \<longleftrightarrow> sha256 presented = stored_sha256"

definition native_response :: "(bytes \<Rightarrow> bytes) \<Rightarrow> bytes \<Rightarrow> bytes \<Rightarrow> bytes" where
  "native_response sha1 password scramble =
     (let sha1_pw = sha1 password;
          sha1_sha1_pw = sha1 sha1_pw;
          inner = sha1 (scramble @ sha1_sha1_pw)
      in xor20 sha1_pw inner)"

lemma length_xor20 [simp]: "length (xor20 a b) = 20"
  by (simp add: xor20_def)

lemma xor20_cancel: "length a = 20 \<Longrightarrow> xor20 (xor20 a b) b = a"
  by (rule nth_equalityI) (simp_all add: xor20_def xor.assoc)

lemma native_response_accepted:
  "(\<And>x. length (sha1 x) = 20) \<Longrightarrow>
   verify_native_response sha1 scramble (native_response sha1 pw scramble) (double_sha1 sha1 pw)"
  by (simp add: verify_native_response_def native_response_def double_sha1_def Let_def xor20_cancel)

lemma native_accept_iff:
  "verify_native_response sha1 scramble resp stored \<longleftrightarrow>
     (\<exists>h. length h = 20 \<and> sha1 h = stored \<and> resp = xor20 h (sha1 (scramble @ stored)))"
proof
  assume "verify_native_response sha1 scramble resp stored"
  then have "length resp = 20" "sha1 (xor20 resp (sha1 (scramble @ stored))) = stored"
    by (auto simp: verify_native_response_def Let_def split: if_splits)
  then show "\<exists>h. length h = 20 \<and> sha1 h = stored \<and> resp = xor20 h (sha1 (scramble @ stored))"
    by (intro exI [of _ "xor20 resp (sha1 (scramble @ stored))"]) (simp add: xor20_cancel)
next
  assume "\<exists>h. length h = 20 \<and> sha1 h = stored \<and> resp = xor20 h (sha1 (scramble @ stored))"
  then show "verify_native_response sha1 scramble resp stored"
    by (auto simp: verify_native_response_def Let_def xor20_cancel)
qed

section \<open>Tokens and their verifiers\<close>

text \<open>
  Token shape. A token minted from the 32 random bytes the code draws is 43 characters of the
  URL-safe alphabet, and two different draws never give the same token, so a token carries all 256
  bits of the draw.
\<close>

theorem token_shape:
  assumes "length raw = TOKEN_RAND_BYTES" and "length raw' = TOKEN_RAND_BYTES"
  shows "length (generate_token raw) = 43 \<and> set (generate_token raw) \<subseteq> set ALPHABET \<and>
    (generate_token raw = generate_token raw' \<longleftrightarrow> raw = raw')"
  using assms set_token_chars [of raw] token_chars_inject [of raw raw']
  by (auto simp: generate_token_def length_token_chars TOKEN_RAND_BYTES_def)

theorem token_shape_witness:
  "length (generate_token (replicate 32 0xA5)) = 43 \<and>
   generate_token (replicate 32 0xA5) \<noteq> generate_token (replicate 32 0xA4)"
  using token_shape [of "replicate 32 0xA5" "replicate 32 0xA4"]
  by (simp add: TOKEN_RAND_BYTES_def)

text \<open>
  Native password. The server accepts a response to its scramble exactly when the response is
  the mask of a 20-byte preimage of the stored digest: knowing the stored double hash alone is not
  enough, and no response of another length passes.
\<close>

theorem native_response_accepted_iff:
  "verify_native_response sha1 scramble resp stored \<longleftrightarrow>
     (\<exists>h. length h = 20 \<and> sha1 h = stored \<and> resp = xor20 h (sha1 (scramble @ stored)))"
  by (rule native_accept_iff)

end
