(* ===== verification/Mutate.thy ===== *)
theory Mutate
  imports Config Token
begin

text \<open>
  \<open>crates/mw-core/src/mutate.rs\<close>: the configuration transforms shared by the command line and
  the daemon. Each Rust function takes \<open>&mut Config\<close> and writes to it only after its last
  check, so a transform is a function from a configuration to an error or the new configuration.
  The random bytes of a fresh token are the argument \<open>raw\<close>, the digests the arguments
  \<open>sha1\<close> and \<open>sha256\<close>.
\<close>

datatype mutate_error =
    BastionExists name
  | BastionNotFound name
  | BastionReferenced name "name list"
  | CredentialExists name
  | CredentialNotFound name
  | CredentialReferenced name "name list"
  | EngineNotImplemented
  | EnvExists name
  | EnvNotFound name
  | PortInUse u16
  | NoFreePort
  | BastionInTarget name
  | CredentialInTarget name
  | EnvInTarget name
  | ImportPortCollision u16

section \<open>Bastions\<close>

datatype bastion_auth_input =
    PasswordInput string
  | KeyInput (pem: bytes) (passphrase: "string option")

record bastion_add_args =
  ba_name :: name
  ba_host :: string
  ba_port :: u16
  ba_ssh_user :: string
  ba_auth :: bastion_auth_input
  ba_fingerprint :: "host_key_fingerprint option"

fun bastion_auth_of :: "bastion_auth_input \<Rightarrow> bastion_auth" where
  "bastion_auth_of (PasswordInput p) = PasswordAuth p"
| "bastion_auth_of (KeyInput pm pp) = KeyAuth pm pp"

definition add_bastion :: "bastion_add_args \<Rightarrow> config \<Rightarrow> mutate_error + config" where
  "add_bastion args cfg =
     (if bt_contains (bastions cfg) (ba_name args) then Inl (BastionExists (ba_name args))
      else Inr (cfg\<lparr>bastions := bt_insert (ba_name args)
             \<lparr>host = ba_host args, port = ba_port args, ssh_user = ba_ssh_user args,
              auth = bastion_auth_of (ba_auth args),
              pinned_host_keys = (case ba_fingerprint args of Some f \<Rightarrow> [f] | None \<Rightarrow> [])\<rparr>
             (bastions cfg)\<rparr>))"

definition set_fingerprint ::
  "name \<Rightarrow> host_key_fingerprint \<Rightarrow> config \<Rightarrow> mutate_error + config" where
  "set_fingerprint nm fp cfg =
     (case bt_get (bastions cfg) nm of
        None \<Rightarrow> Inl (BastionNotFound nm)
      | Some b \<Rightarrow> Inr (cfg\<lparr>bastions := bt_insert nm (b\<lparr>pinned_host_keys := [fp]\<rparr>) (bastions cfg)\<rparr>))"

definition rm_bastion :: "name \<Rightarrow> config \<Rightarrow> mutate_error + config" where
  "rm_bastion nm cfg =
     (let users = map fst (filter (\<lambda>(n, e). env_bastion e = Some nm) (bt_entries (envs cfg)))
      in if users \<noteq> [] then Inl (BastionReferenced nm users)
         else if \<not> bt_contains (bastions cfg) nm then Inl (BastionNotFound nm)
         else Inr (cfg\<lparr>bastions := bt_remove nm (bastions cfg)\<rparr>))"

section \<open>Credentials\<close>

definition add_cred :: "name \<Rightarrow> string \<Rightarrow> string \<Rightarrow> config \<Rightarrow> mutate_error + config" where
  "add_cred nm user password cfg =
     (if bt_contains (credentials cfg) nm then Inl (CredentialExists nm)
      else Inr (cfg\<lparr>credentials :=
             bt_insert nm \<lparr>backend_user = user, backend_password = password\<rparr> (credentials cfg)\<rparr>))"

definition rotate_cred :: "name \<Rightarrow> string \<Rightarrow> config \<Rightarrow> mutate_error + config" where
  "rotate_cred nm new_password cfg =
     (case bt_get (credentials cfg) nm of
        None \<Rightarrow> Inl (CredentialNotFound nm)
      | Some cred \<Rightarrow> Inr (cfg\<lparr>credentials :=
             bt_insert nm (cred\<lparr>backend_password := new_password\<rparr>) (credentials cfg)\<rparr>))"

definition rm_cred :: "name \<Rightarrow> config \<Rightarrow> mutate_error + config" where
  "rm_cred nm cfg =
     (let users = map fst (filter (\<lambda>(n, e). env_credential e = nm) (bt_entries (envs cfg)))
      in if users \<noteq> [] then Inl (CredentialReferenced nm users)
         else if \<not> bt_contains (credentials cfg) nm then Inl (CredentialNotFound nm)
         else Inr (cfg\<lparr>credentials := bt_remove nm (credentials cfg)\<rparr>))"

section \<open>Environments and tokens\<close>

record new_env_output =
  out_token :: string
  out_listen_port :: u16
  out_engine :: engine_kind
  out_database :: "string option"

record env_add_args =
  ea_name :: name
  ea_backend_host :: string
  ea_backend_port :: u16
  ea_default_database :: "string option"
  ea_bastion :: "name option"
  ea_credential :: name
  ea_policy :: policy
  ea_listen_port :: "u16 option"
  ea_max_pool :: "u32 option"
  ea_engine :: engine_kind

definition CLIENT_PORT_BASE :: nat where
  "CLIENT_PORT_BASE = 6033"

definition CLIENT_PORT_END :: nat where
  "CLIENT_PORT_END = 6064"

definition used_ports :: "config \<Rightarrow> u16 set" where
  "used_ports cfg = set (map listen_port (bt_values (envs cfg)))"

definition pick_free_port :: "config \<Rightarrow> u16 option" where
  "pick_free_port cfg =
     find (\<lambda>p. p \<notin> used_ports cfg) (map word_of_nat [CLIENT_PORT_BASE..<Suc CLIENT_PORT_END])"

fun client_auth_for ::
  "(bytes \<Rightarrow> bytes) \<Rightarrow> (bytes \<Rightarrow> bytes) \<Rightarrow> engine_kind \<Rightarrow> string \<Rightarrow> client_auth_kind" where
  "client_auth_for sha1 sha256 Postgres token = PgCleartext (sha256 (as_bytes token))"
| "client_auth_for sha1 sha256 MySql token = NativePassword (double_sha1 sha1 (as_bytes token))"
| "client_auth_for sha1 sha256 MsSql token = NativePassword (double_sha1 sha1 (as_bytes token))"

definition missing_bastion :: "config \<Rightarrow> name option \<Rightarrow> name option" where
  "missing_bastion cfg ob =
     (case ob of Some b \<Rightarrow> if bt_contains (bastions cfg) b then None else Some b | None \<Rightarrow> None)"

definition choose_port :: "config \<Rightarrow> u16 option \<Rightarrow> mutate_error + u16" where
  "choose_port cfg requested =
     (case requested of
        Some p \<Rightarrow> if p \<in> used_ports cfg then Inl (PortInUse p) else Inr p
      | None \<Rightarrow> (case pick_free_port cfg of None \<Rightarrow> Inl NoFreePort | Some p \<Rightarrow> Inr p))"

definition new_env ::
  "(bytes \<Rightarrow> bytes) \<Rightarrow> (bytes \<Rightarrow> bytes) \<Rightarrow> env_add_args \<Rightarrow> u16 \<Rightarrow> string \<Rightarrow> env" where
  "new_env sha1 sha256 args p token =
     \<lparr>backend_host = ea_backend_host args, backend_port = ea_backend_port args,
      default_database = ea_default_database args, env_bastion = ea_bastion args,
      env_credential = ea_credential args, env_policy = ea_policy args,
      client_auth = client_auth_for sha1 sha256 (ea_engine args) token,
      listen_port = p,
      pool = (case ea_max_pool args of
                Some n \<Rightarrow> default_pool\<lparr>max_size := n\<rparr> | None \<Rightarrow> default_pool),
      engine = ea_engine args\<rparr>"

definition add_env ::
  "(bytes \<Rightarrow> bytes) \<Rightarrow> (bytes \<Rightarrow> bytes) \<Rightarrow> bytes \<Rightarrow> env_add_args \<Rightarrow> config
     \<Rightarrow> mutate_error + new_env_output \<times> config" where
  "add_env sha1 sha256 raw args cfg =
     (if ea_engine args = MsSql then Inl EngineNotImplemented
      else if bt_contains (envs cfg) (ea_name args) then Inl (EnvExists (ea_name args))
      else if \<not> bt_contains (credentials cfg) (ea_credential args)
      then Inl (CredentialNotFound (ea_credential args))
      else case missing_bastion cfg (ea_bastion args) of
        Some b \<Rightarrow> Inl (BastionNotFound b)
      | None \<Rightarrow>
          (case choose_port cfg (ea_listen_port args) of
             Inl e \<Rightarrow> Inl e
           | Inr p \<Rightarrow>
               (let token = generate_token raw
                in Inr (\<lparr>out_token = token, out_listen_port = p, out_engine = ea_engine args,
                         out_database = ea_default_database args\<rparr>,
                        cfg\<lparr>envs := bt_insert (ea_name args) (new_env sha1 sha256 args p token)
                                      (envs cfg)\<rparr>))))"

definition rm_env :: "name \<Rightarrow> config \<Rightarrow> mutate_error + config" where
  "rm_env nm cfg =
     (if \<not> bt_contains (envs cfg) nm then Inl (EnvNotFound nm)
      else Inr (cfg\<lparr>envs := bt_remove nm (envs cfg)\<rparr>))"

definition grant_env ::
  "(bytes \<Rightarrow> bytes) \<Rightarrow> (bytes \<Rightarrow> bytes) \<Rightarrow> bytes \<Rightarrow> name \<Rightarrow> config
     \<Rightarrow> mutate_error + new_env_output \<times> config" where
  "grant_env sha1 sha256 raw nm cfg =
     (let token = generate_token raw
      in case bt_get (envs cfg) nm of
           None \<Rightarrow> Inl (EnvNotFound nm)
         | Some e \<Rightarrow>
             Inr (\<lparr>out_token = token, out_listen_port = listen_port e, out_engine = engine e,
                   out_database = default_database e\<rparr>,
                  cfg\<lparr>envs := bt_insert nm
                         (e\<lparr>client_auth := client_auth_for sha1 sha256 (engine e) token\<rparr>)
                         (envs cfg)\<rparr>))"

section \<open>Policy\<close>

datatype policy_target = TargetReadOnly | TargetReadWrite

fun target_policy :: "policy_target \<Rightarrow> policy" where
  "target_policy TargetReadOnly = ReadOnly"
| "target_policy TargetReadWrite = ReadWrite"

definition set_policy :: "name \<Rightarrow> policy_target \<Rightarrow> config \<Rightarrow> mutate_error + config" where
  "set_policy nm target cfg =
     (case bt_get (envs cfg) nm of
        None \<Rightarrow> Inl (EnvNotFound nm)
      | Some e \<Rightarrow>
          Inr (cfg\<lparr>envs := bt_insert nm (e\<lparr>env_policy := target_policy target\<rparr>) (envs cfg)\<rparr>))"

section \<open>Import\<close>

definition merge_import :: "config \<Rightarrow> config \<Rightarrow> mutate_error + config" where
  "merge_import existing fragment =
     (case find (bt_contains (bastions existing)) (bt_keys (bastions fragment)) of
        Some n \<Rightarrow> Inl (BastionInTarget n)
      | None \<Rightarrow>
     (case find (bt_contains (credentials existing)) (bt_keys (credentials fragment)) of
        Some n \<Rightarrow> Inl (CredentialInTarget n)
      | None \<Rightarrow>
     (case find (bt_contains (envs existing)) (bt_keys (envs fragment)) of
        Some n \<Rightarrow> Inl (EnvInTarget n)
      | None \<Rightarrow>
     (case find (\<lambda>e. listen_port e \<in> used_ports existing) (bt_values (envs fragment)) of
        Some e \<Rightarrow> Inl (ImportPortCollision (listen_port e))
      | None \<Rightarrow>
          Inr (existing\<lparr>bastions := bt_extend (bastions existing) (bastions fragment),
                 credentials := bt_extend (credentials existing) (credentials fragment),
                 envs := bt_extend (envs existing) (envs fragment)\<rparr>)))))"

section \<open>Well-formedness is preserved\<close>

lemma in_used_ports: "p \<in> used_ports c \<longleftrightarrow> (\<exists>n e. bt_get (envs c) n = Some e \<and> listen_port e = p)"
  by (force simp: used_ports_def in_bt_values image_iff)

lemma wf_config_mono:
  assumes "wf_config c" and "schema_version c' = schema_version c" and "envs c' = envs c"
    and "\<And>n e b. bt_get (envs c) n = Some e \<Longrightarrow> env_bastion e = Some b \<Longrightarrow>
          bt_contains (bastions c) b \<Longrightarrow> bt_contains (bastions c') b"
    and "\<And>n e. bt_get (envs c) n = Some e \<Longrightarrow> bt_contains (credentials c) (env_credential e) \<Longrightarrow>
          bt_contains (credentials c') (env_credential e)"
  shows "wf_config c'"
  using assms unfolding wf_config_def env_refs_ok_def ports_unique_def by metis

lemma env_refs_ok_envs [simp]: "env_refs_ok (c\<lparr>envs := es\<rparr>) e = env_refs_ok c e"
  by (simp add: env_refs_ok_def)

lemma wf_config_put_env:
  assumes "wf_config c" and "env_refs_ok c e"
    and "\<And>n' e'. n' \<noteq> n \<Longrightarrow> bt_get (envs c) n' = Some e' \<Longrightarrow> listen_port e' \<noteq> listen_port e"
  shows "wf_config (c\<lparr>envs := bt_insert n e (envs c)\<rparr>)"
  using assms unfolding wf_config_def ports_unique_def by (auto split: if_splits) metis+

lemma wf_config_replace_env:
  assumes "wf_config c" and "bt_get (envs c) n = Some e" and "env_refs_ok c e'"
    and "listen_port e' = listen_port e"
  shows "wf_config (c\<lparr>envs := bt_insert n e' (envs c)\<rparr>)"
  using assms by (intro wf_config_put_env) (auto simp: wf_config_def ports_unique_def)

lemma wf_config_modify_env:
  assumes "wf_config c" and "bt_get (envs c) n = Some e" and "env_bastion e' = env_bastion e"
    and "env_credential e' = env_credential e" and "auth_ok (engine e') (client_auth e')"
    and "listen_port e' = listen_port e"
  shows "wf_config (c\<lparr>envs := bt_insert n e' (envs c)\<rparr>)"
proof -
  have "env_refs_ok c e" using assms(1,2) by (simp add: wf_config_def)
  then show ?thesis using assms by (intro wf_config_replace_env) (auto simp: env_refs_ok_def)
qed

lemma wf_config_env: "wf_config c \<Longrightarrow> bt_get (envs c) n = Some e \<Longrightarrow> env_refs_ok c e"
  by (auto simp: wf_config_def)

lemma auth_ok_client_auth_for [simp]: "auth_ok k (client_auth_for sha1 sha256 k tok)"
  by (cases k) simp_all

lemma filter_entries_fst_Nil:
  "map fst (filter P (bt_entries m)) = [] \<longleftrightarrow> (\<forall>k v. bt_get m k = Some v \<longrightarrow> \<not> P (k, v))"
  by (simp add: bt.filter_entries_Nil)

lemma wf_add_bastion: "wf_config c \<Longrightarrow> add_bastion args c = Inr c' \<Longrightarrow> wf_config c'"
  by (auto simp: add_bastion_def split: if_splits elim!: wf_config_mono)

lemma wf_set_fingerprint: "wf_config c \<Longrightarrow> set_fingerprint nm fp c = Inr c' \<Longrightarrow> wf_config c'"
  by (auto simp: set_fingerprint_def split: option.splits elim!: wf_config_mono)

lemma wf_rm_bastion: "wf_config c \<Longrightarrow> rm_bastion nm c = Inr c' \<Longrightarrow> wf_config c'"
  by (auto simp: rm_bastion_def Let_def bt.filter_entries_Nil split: if_splits elim!: wf_config_mono)

lemma wf_add_cred: "wf_config c \<Longrightarrow> add_cred nm u p c = Inr c' \<Longrightarrow> wf_config c'"
  by (auto simp: add_cred_def split: if_splits elim!: wf_config_mono)

lemma wf_rotate_cred: "wf_config c \<Longrightarrow> rotate_cred nm p c = Inr c' \<Longrightarrow> wf_config c'"
  by (auto simp: rotate_cred_def split: option.splits elim!: wf_config_mono)

lemma wf_rm_cred: "wf_config c \<Longrightarrow> rm_cred nm c = Inr c' \<Longrightarrow> wf_config c'"
  by (auto simp: rm_cred_def Let_def bt.filter_entries_Nil split: if_splits elim!: wf_config_mono)

lemma find_SomeD: "find P xs = Some x \<Longrightarrow> x \<in> set xs \<and> P x"
  by (auto simp: find_Some_iff)

lemma choose_port_fresh: "choose_port c r = Inr p \<Longrightarrow> p \<notin> used_ports c"
  by (auto simp: choose_port_def pick_free_port_def split: option.splits if_splits
      dest: find_SomeD)

lemma add_env_cases:
  assumes "add_env sha1 sha256 raw args c = Inr (out, c')"
  obtains p where
    "ea_engine args \<noteq> MsSql" "\<not> bt_contains (envs c) (ea_name args)"
    "bt_contains (credentials c) (ea_credential args)"
    "missing_bastion c (ea_bastion args) = None" "choose_port c (ea_listen_port args) = Inr p"
    "c' = c\<lparr>envs := bt_insert (ea_name args) (new_env sha1 sha256 args p (generate_token raw))
              (envs c)\<rparr>"
    "out = \<lparr>out_token = generate_token raw, out_listen_port = p, out_engine = ea_engine args,
            out_database = ea_default_database args\<rparr>"
  using assms unfolding add_env_def Let_def
  by (auto split: if_splits option.splits sum.splits)

lemma wf_add_env:
  assumes "wf_config c" and "add_env sha1 sha256 raw args c = Inr (out, c')"
  shows "wf_config c'"
proof -
  from assms(2) obtain p where a: "bt_contains (credentials c) (ea_credential args)"
    "missing_bastion c (ea_bastion args) = None" "choose_port c (ea_listen_port args) = Inr p"
    "c' = c\<lparr>envs := bt_insert (ea_name args) (new_env sha1 sha256 args p (generate_token raw))
              (envs c)\<rparr>"
    by (rule add_env_cases) blast
  have "env_refs_ok c (new_env sha1 sha256 args p (generate_token raw))"
    using a(1,2) by (auto simp: env_refs_ok_def new_env_def missing_bastion_def
        split: option.splits if_splits)
  moreover have "listen_port e' \<noteq> p" if "bt_get (envs c) n' = Some e'" for n' e'
    using choose_port_fresh [OF a(3)] that by (auto simp: in_used_ports)
  ultimately show ?thesis
    unfolding a(4) by (intro wf_config_put_env [OF assms(1)]) (auto simp: new_env_def)
qed

lemma wf_rm_env: "wf_config c \<Longrightarrow> rm_env nm c = Inr c' \<Longrightarrow> wf_config c'"
  by (auto simp: rm_env_def wf_config_def ports_unique_def split: if_splits)

lemma wf_grant_env: "wf_config c \<Longrightarrow> grant_env sha1 sha256 raw nm c = Inr (out, c') \<Longrightarrow> wf_config c'"
  by (auto simp: grant_env_def Let_def split: option.splits intro!: wf_config_modify_env)

lemma wf_set_policy:
  assumes "wf_config c" and "set_policy nm t c = Inr c'"
  shows "wf_config c'"
proof -
  obtain e where e: "bt_get (envs c) nm = Some e"
    "c' = c\<lparr>envs := bt_insert nm (e\<lparr>env_policy := target_policy t\<rparr>) (envs c)\<rparr>"
    using assms(2) by (auto simp: set_policy_def split: option.splits)
  have "auth_ok (engine e) (client_auth e)"
    using wf_config_env [OF assms(1) e(1)] by (simp add: env_refs_ok_def)
  then show ?thesis unfolding e(2) by (intro wf_config_modify_env [OF assms(1) e(1)]) simp_all
qed

section \<open>The import merge\<close>

lemma find_None_keys: "find P (bt_keys m) = None \<longleftrightarrow> (\<forall>k. bt_contains m k \<longrightarrow> \<not> P k)"
  by (auto simp: find_None_iff in_bt_keys)

lemma find_None_values: "find P (bt_values m) = None \<longleftrightarrow> (\<forall>k v. bt_get m k = Some v \<longrightarrow> \<not> P v)"
  by (auto simp: find_None_iff in_bt_values)

lemma merge_import_ok_iff:
  "(\<exists>c'. merge_import c f = Inr c') \<longleftrightarrow>
     (\<forall>n. \<not> (bt_contains (bastions c) n \<and> bt_contains (bastions f) n)) \<and>
     (\<forall>n. \<not> (bt_contains (credentials c) n \<and> bt_contains (credentials f) n)) \<and>
     (\<forall>n. \<not> (bt_contains (envs c) n \<and> bt_contains (envs f) n)) \<and>
     used_ports c \<inter> used_ports f = {}"
proof -
  have p: "used_ports c \<inter> used_ports f = {} \<longleftrightarrow>
      (\<forall>k v. bt_get (envs f) k = Some v \<longrightarrow> listen_port v \<notin> used_ports c)"
    by (simp add: disjoint_iff in_used_ports) blast
  have "(\<exists>c'. merge_import c f = Inr c') \<longleftrightarrow>
      find (bt_contains (bastions c)) (bt_keys (bastions f)) = None \<and>
      find (bt_contains (credentials c)) (bt_keys (credentials f)) = None \<and>
      find (bt_contains (envs c)) (bt_keys (envs f)) = None \<and>
      find (\<lambda>e. listen_port e \<in> used_ports c) (bt_values (envs f)) = None"
    by (simp add: merge_import_def split: option.splits)
  then show ?thesis
    unfolding p find_None_keys find_None_values by blast
qed

lemma merge_import_result:
  "merge_import c f = Inr c' \<Longrightarrow>
   c' = c\<lparr>bastions := bt_extend (bastions c) (bastions f),
          credentials := bt_extend (credentials c) (credentials f),
          envs := bt_extend (envs c) (envs f)\<rparr>"
  by (auto simp: merge_import_def split: option.splits)

lemma bt_contains_extend [simp]:
  "bt_contains (bt_extend m m') k \<longleftrightarrow> bt_contains m k \<or> bt_contains m' k"
  by (auto simp: bt_contains_def bt_get_extend map_add_def split: option.splits)

lemma bt_get_extend_disjoint:
  "(\<And>n. \<not> (bt_contains m n \<and> bt_contains m' n)) \<Longrightarrow>
   bt_get (bt_extend m m') k = Some v \<longleftrightarrow> bt_get m k = Some v \<or> bt_get m' k = Some v"
  by (auto simp: bt_contains_def bt_get_extend map_add_def split: option.splits)
    (metis option.distinct(1))

lemma merge_ports_unique:
  assumes "merge_import c f = Inr c'" and "ports_unique c"
  shows "ports_unique c' \<longleftrightarrow> ports_unique f"
proof -
  have dis: "\<And>n. \<not> (bt_contains (envs c) n \<and> bt_contains (envs f) n)"
    "used_ports c \<inter> used_ports f = {}"
    using assms(1) merge_import_ok_iff [of c f] by auto
  have get: "bt_get (envs c') n = Some e \<longleftrightarrow> bt_get (envs c) n = Some e \<or> bt_get (envs f) n = Some e"
    for n e
    using merge_import_result [OF assms(1)] bt_get_extend_disjoint [OF dis(1)] by simp
  have sep: "listen_port e \<noteq> listen_port e'"
    if "bt_get (envs c) n = Some e" "bt_get (envs f) n' = Some e'" for n n' e e'
  proof
    assume eq: "listen_port e = listen_port e'"
    have "listen_port e \<in> used_ports c" using that(1) by (auto simp: in_used_ports)
    moreover have "listen_port e \<in> used_ports f" using that(2) eq by (auto simp: in_used_ports)
    ultimately show False using dis(2) by auto
  qed
  show ?thesis
  proof
    assume "ports_unique c'"
    then show "ports_unique f" unfolding ports_unique_def get by blast
  next
    assume u: "ports_unique f"
    show "ports_unique c'"
      unfolding ports_unique_def get
      using u assms(2) sep unfolding ports_unique_def by metis
  qed
qed

lemma wf_merge_import:
  assumes "wf_config c" and "wf_config f" and "merge_import c f = Inr c'"
  shows "wf_config c'"
proof -
  have dis: "\<And>n. \<not> (bt_contains (envs c) n \<and> bt_contains (envs f) n)"
    using assms(3) merge_import_ok_iff [of c f] by auto
  note r = merge_import_result [OF assms(3)]
  have "ports_unique c'"
    using merge_ports_unique [OF assms(3)] assms(1,2) by (simp add: wf_config_def)
  moreover have "env_refs_ok c' e" if "bt_get (envs c') n = Some e" for n e
    using that r bt_get_extend_disjoint [OF dis, of n e] wf_config_env [OF assms(1), of n e]
      wf_config_env [OF assms(2), of n e]
    by (auto simp: env_refs_ok_def)
  ultimately show ?thesis using r assms(1) by (simp add: wf_config_def)
qed

section \<open>What each transform promises\<close>

lemma missing_bastion_None:
  "missing_bastion c ob = None \<longleftrightarrow> (\<nexists>b. ob = Some b \<and> \<not> bt_contains (bastions c) b)"
  by (auto simp: missing_bastion_def split: option.splits)

lemma pick_free_port_None:
  "pick_free_port c = None \<longleftrightarrow> word_of_nat ` {CLIENT_PORT_BASE..CLIENT_PORT_END} \<subseteq> used_ports c"
  by (auto simp: pick_free_port_def find_None_iff atLeastLessThanSuc_atLeastAtMost [symmetric]
      simp del: upt_Suc)

lemma find_least:
  assumes "find P (map f [a..<b]) = Some p"
  shows "\<exists>k. a \<le> k \<and> k < b \<and> p = f k \<and> P p \<and> (\<forall>j. a \<le> j \<and> j < k \<longrightarrow> \<not> P (f j))"
proof -
  obtain i where i: "i < b - a" "p = f (a + i)" "P p" "\<And>j. j < i \<Longrightarrow> \<not> P (f (a + j))"
    using assms by (auto simp: find_Some_iff)
  have "\<not> P (f j)" if "a \<le> j" "j < a + i" for j
    using i(4) [of "j - a"] that by simp
  then show ?thesis using i by (intro exI [of _ "a + i"]) simp
qed

lemma add_env_Inr_iff:
  "(\<exists>r. add_env sha1 sha256 raw args c = Inr r) \<longleftrightarrow>
     ea_engine args \<noteq> MsSql \<and> \<not> bt_contains (envs c) (ea_name args) \<and>
     bt_contains (credentials c) (ea_credential args) \<and>
     missing_bastion c (ea_bastion args) = None \<and>
     (case ea_listen_port args of
        Some p \<Rightarrow> p \<notin> used_ports c | None \<Rightarrow> pick_free_port c \<noteq> None)"
  by (auto simp: add_env_def choose_port_def Let_def split: option.splits)

text \<open>
  Adding an environment. \<open>env add\<close> succeeds exactly when the engine is implemented, the
  name is new, the credential and the bastion exist and a port is available: the requested one, or,
  when none is requested, one of 6033 to 6064.
\<close>

theorem add_env_succeeds_iff:
  "(\<exists>r. add_env sha1 sha256 raw args c = Inr r) \<longleftrightarrow>
     ea_engine args \<noteq> MsSql \<and> \<not> bt_contains (envs c) (ea_name args) \<and>
     bt_contains (credentials c) (ea_credential args) \<and>
     (\<nexists>b. ea_bastion args = Some b \<and> \<not> bt_contains (bastions c) b) \<and>
     (case ea_listen_port args of
        Some p \<Rightarrow> p \<notin> used_ports c
      | None \<Rightarrow> \<not> word_of_nat ` {CLIENT_PORT_BASE..CLIENT_PORT_END} \<subseteq> used_ports c)"
  unfolding missing_bastion_None [symmetric] pick_free_port_None [symmetric]
  by (rule add_env_Inr_iff)

text \<open>
  The new environment. A successful \<open>env add\<close> gives a port no environment uses, the
  least free one of the range when none was requested, and changes the configuration at the new name
  only, where the entry stores the verifier of the token that is returned.
\<close>

theorem add_env_result:
  assumes "add_env sha1 sha256 raw args c = Inr (out, c')"
  shows "out_listen_port out \<notin> used_ports c \<and>
    (case ea_listen_port args of
       Some p \<Rightarrow> out_listen_port out = p
     | None \<Rightarrow> (\<exists>k. CLIENT_PORT_BASE \<le> k \<and> k \<le> CLIENT_PORT_END \<and>
         out_listen_port out = word_of_nat k \<and>
         (\<forall>j. CLIENT_PORT_BASE \<le> j \<and> j < k \<longrightarrow> word_of_nat j \<in> used_ports c))) \<and>
    bt_get (envs c') = (bt_get (envs c))(ea_name args \<mapsto>
      new_env sha1 sha256 args (out_listen_port out) (out_token out)) \<and>
    bastions c' = bastions c \<and> credentials c' = credentials c"
proof -
  from assms obtain p where a: "choose_port c (ea_listen_port args) = Inr p"
    "c' = c\<lparr>envs := bt_insert (ea_name args) (new_env sha1 sha256 args p (generate_token raw))
              (envs c)\<rparr>"
    "out = \<lparr>out_token = generate_token raw, out_listen_port = p, out_engine = ea_engine args,
            out_database = ea_default_database args\<rparr>"
    by (rule add_env_cases) blast
  have least: "\<exists>k. CLIENT_PORT_BASE \<le> k \<and> k \<le> CLIENT_PORT_END \<and> p = word_of_nat k \<and>
      (\<forall>j. CLIENT_PORT_BASE \<le> j \<and> j < k \<longrightarrow> word_of_nat j \<in> used_ports c)"
    if "ea_listen_port args = None"
    using a(1) that find_least [of "\<lambda>p. p \<notin> used_ports c" word_of_nat CLIENT_PORT_BASE
        "Suc CLIENT_PORT_END" p]
    by (auto simp: choose_port_def pick_free_port_def less_Suc_eq_le split: option.splits
        simp del: upt_Suc)
  show ?thesis
    using choose_port_fresh [OF a(1)] least a
    by (auto simp: choose_port_def fun_eq_iff split: option.splits if_splits)
qed

definition sample_args :: env_add_args where
  "sample_args =
     \<lparr>ea_name = ''dev'', ea_backend_host = ''db'', ea_backend_port = 3306,
      ea_default_database = None, ea_bastion = None, ea_credential = ''c'', ea_policy = ReadOnly,
      ea_listen_port = None, ea_max_pool = None, ea_engine = MySql\<rparr>"

lemma used_ports_sample: "used_ports (sample_config [(''a'', sample_env 6033)]) = {6033}"
  by (auto simp: in_used_ports sample_config_def sample_env_def split: if_splits)

theorem add_env_result_witness:
  "\<exists>out c'. add_env (\<lambda>b. b) (\<lambda>b. b) [] sample_args (sample_config [(''a'', sample_env 6033)])
       = Inr (out, c') \<and> out_listen_port out \<noteq> 6033 \<and>
     bt_get (envs c') ''dev'' = Some (new_env (\<lambda>b. b) (\<lambda>b. b) sample_args (out_listen_port out)
       (out_token out))"
proof -
  let ?c = "sample_config [(''a'', sample_env 6033)]"
  have "(6034 :: u16) \<in> word_of_nat ` {CLIENT_PORT_BASE..CLIENT_PORT_END}"
    by (rule image_eqI [of _ _ 6034]) (simp_all add: CLIENT_PORT_BASE_def CLIENT_PORT_END_def)
  then have "\<exists>r. add_env (\<lambda>b. b) (\<lambda>b. b) [] sample_args ?c = Inr r"
    unfolding add_env_Inr_iff missing_bastion_None pick_free_port_None used_ports_sample
    by (auto simp: sample_args_def sample_config_def)
  then obtain out c' where r: "add_env (\<lambda>b. b) (\<lambda>b. b) [] sample_args ?c = Inr (out, c')" by auto
  show ?thesis using add_env_result [OF r] unfolding used_ports_sample
    by (intro exI [of _ out] exI [of _ c'] conjI r) (simp_all add: sample_args_def)
qed

text \<open>
  Removal keeps references. A bastion or a credential is removed exactly when it exists and no
  environment names it; nothing else of the configuration changes.
\<close>

theorem removal_keeps_references:
  "(rm_bastion nm c = Inr c' \<longleftrightarrow>
      bt_contains (bastions c) nm \<and>
      (\<nexists>n e. bt_get (envs c) n = Some e \<and> env_bastion e = Some nm) \<and>
      c' = c\<lparr>bastions := bt_remove nm (bastions c)\<rparr>) \<and>
   (rm_cred nm c = Inr c' \<longleftrightarrow>
      bt_contains (credentials c) nm \<and>
      (\<nexists>n e. bt_get (envs c) n = Some e \<and> env_credential e = nm) \<and>
      c' = c\<lparr>credentials := bt_remove nm (credentials c)\<rparr>)"
  by (auto simp: rm_bastion_def rm_cred_def Let_def bt.filter_entries_Nil)

text \<open>
  Import is disjoint. \<open>import\<close> merges a fragment exactly when no bastion, credential,
  environment or listening port of it is in the target already. Ports that collide inside the fragment
  are left to the validation of the merged configuration, which refuses it exactly in that case when
  the target's ports were unique.
\<close>

theorem import_accepts_iff_disjoint:
  "(\<exists>c'. merge_import c f = Inr c') \<longleftrightarrow>
     (\<nexists>n. bt_contains (bastions c) n \<and> bt_contains (bastions f) n) \<and>
     (\<nexists>n. bt_contains (credentials c) n \<and> bt_contains (credentials f) n) \<and>
     (\<nexists>n. bt_contains (envs c) n \<and> bt_contains (envs f) n) \<and>
     used_ports c \<inter> used_ports f = {}"
  unfolding merge_import_ok_iff by blast

end
