(* ===== verification/Control_Frame.thy ===== *)
theory Control_Frame
  imports Mutate Stream_Codec
begin

text \<open>
  \<open>crates/mw-core/src/control.rs\<close>: the requests and responses of the control channel and
  their framing, a four-byte big-endian length followed by a CBOR body. The CBOR encoder and
  decoder are arguments.
\<close>

definition PROTOCOL_VERSION :: u16 where
  "PROTOCOL_VERSION = 1"

definition MAX_FRAME :: nat where
  "MAX_FRAME = 8 * 1024 * 1024"

section \<open>Requests and responses\<close>

record bastion_input_dto =
  bi_name :: name
  bi_host :: string
  bi_port :: u16
  bi_ssh_user :: string
  bi_auth :: bastion_auth_input
  bi_fingerprint :: "host_key_fingerprint option"

record env_input_dto =
  ei_name :: name
  ei_backend_host :: string
  ei_backend_port :: "u16 option"
  ei_engine :: engine_kind
  ei_database :: "string option"
  ei_bastion :: "name option"
  ei_credential :: name
  ei_policy :: policy
  ei_listen_port :: "u16 option"
  ei_max_pool :: "u32 option"

record cred_input_dto =
  ci_name :: name
  ci_backend_user :: string
  ci_password :: string

datatype request =
    Hello u16
  | AddBastion bastion_input_dto
  | RmBastion name
  | SetFingerprint name host_key_fingerprint
  | AddCred cred_input_dto
  | RotateCred name string
  | RmCred name
  | AddEnv env_input_dto
  | RmEnv name
  | GrantEnv name
  | SetPolicy name policy_target bool
  | Import config
  | ListBastions
  | ListCreds
  | ListEnvs
  | AuditTail nat
  | Probe "name option" bool

record new_env_output_dto =
  dto_token :: string
  dto_listen_port :: u16
  dto_engine :: engine_kind
  dto_database :: "string option"
  dto_note :: "string option"

definition new_env_dto :: "new_env_output \<Rightarrow> new_env_output_dto" where
  "new_env_dto out =
     \<lparr>dto_token = out_token out, dto_listen_port = out_listen_port out,
      dto_engine = out_engine out, dto_database = out_database out, dto_note = None\<rparr>"

record probe_result_dto =
  pr_env :: name
  pr_ok :: bool
  pr_supported :: bool
  pr_reason :: string

datatype response =
    ROk
  | RToken new_env_output_dto
  | RRows "string list"
  | RAuditLines "string list"
  | RProbeResults "probe_result_dto list"
  | RDenied string
  | RError string

definition runtime_dir_for :: "string \<Rightarrow> string option" where
  "runtime_dir_for os =
     (if os = ''linux'' then Some ''/run/middlewhere''
      else if os = ''macos'' then Some ''/var/run/middlewhere''
      else None)"

section \<open>Frames\<close>

datatype frame_error =
    CborEncode string
  | FrameTooLarge nat
  | ReadFrameLength
  | ReadFrameBody
  | CborDecode string

definition write_frame :: "('a \<Rightarrow> string + bytes) \<Rightarrow> 'a \<Rightarrow> frame_error + bytes" where
  "write_frame enc msg =
     (case enc msg of
        Inl e \<Rightarrow> Inl (CborEncode e)
      | Inr body \<Rightarrow>
          if length body > MAX_FRAME then Inl (FrameTooLarge (length body))
          else (let len = (word_of_nat (length body) :: u32) in Inr (be32 len @ body)))"

text \<open>The reader on the bytes the peer sends: an error, or the body and the unread input.\<close>

definition read_body :: "bytes \<Rightarrow> frame_error + bytes \<times> bytes" where
  "read_body inp =
     (case inp of
        a # b # c # d # rest \<Rightarrow>
          (let len = unat (from_be32 a b c d)
           in if len > MAX_FRAME then Inl (FrameTooLarge len)
              else if length rest < len then Inl ReadFrameBody
              else Inr (take len rest, drop len rest))
      | _ \<Rightarrow> Inl ReadFrameLength)"

definition read_frame :: "(bytes \<Rightarrow> string + 'a) \<Rightarrow> bytes \<Rightarrow> frame_error + 'a \<times> bytes" where
  "read_frame dec inp =
     (case read_body inp of
        Inl e \<Rightarrow> Inl e
      | Inr (body, rest) \<Rightarrow>
          (case dec body of Inl e \<Rightarrow> Inl (CborDecode e) | Inr msg \<Rightarrow> Inr (msg, rest)))"

definition frame_bytes :: "bytes \<Rightarrow> bytes" where
  "frame_bytes body = be32 (word_of_nat (length body)) @ body"

definition read_body_opt :: "bytes \<Rightarrow> (bytes \<times> bytes) option" where
  "read_body_opt inp = (case read_body inp of Inl _ \<Rightarrow> None | Inr r \<Rightarrow> Some r)"

lemma read_body_frame_bytes:
  assumes "length body \<le> MAX_FRAME"
  shows "read_body (frame_bytes body @ rest) = Inr (body, rest)"
proof -
  have u: "unat (word_of_nat (length body) :: u32) = length body"
    using assms by (intro unat_of_nat_small) (simp add: MAX_FRAME_def)
  obtain a b c d where "be32 (word_of_nat (length body)) = [a, b, c, d]"
    "from_be32 a b c d = word_of_nat (length body)" by (rule be32_cons)
  then show ?thesis using assms u by (simp add: read_body_def frame_bytes_def Let_def)
qed

interpretation control_frame: stream_codec "\<lambda>b. length b \<le> MAX_FRAME" frame_bytes read_body_opt
  by unfold_locales (simp add: read_body_opt_def read_body_frame_bytes)

lemma write_frame_Inr:
  "write_frame enc msg = Inr b \<longleftrightarrow>
     (\<exists>body. enc msg = Inr body \<and> length body \<le> MAX_FRAME \<and> b = frame_bytes body)"
  by (auto simp: write_frame_def frame_bytes_def Let_def split: sum.splits)

text \<open>What the code relies on of the CBOR crate: a value that encodes decodes to itself.\<close>

definition cbor_roundtrip :: "('a \<Rightarrow> string + bytes) \<Rightarrow> (bytes \<Rightarrow> string + 'a) \<Rightarrow> bool" where
  "cbor_roundtrip enc dec \<longleftrightarrow> (\<forall>x b. enc x = Inr b \<longrightarrow> dec b = Inr x)"

lemma read_write_frame:
  "cbor_roundtrip enc dec \<Longrightarrow> write_frame enc msg = Inr b \<Longrightarrow>
   read_frame dec (b @ rest) = Inr (msg, rest)"
  by (auto simp: write_frame_Inr read_frame_def read_body_frame_bytes cbor_roundtrip_def)

lemma read_body_bound:
  "read_body inp = Inr (body, rest) \<Longrightarrow>
   length body \<le> MAX_FRAME \<and> length inp = 4 + length body + length rest"
  by (auto simp: read_body_def Let_def split: list.splits if_splits)

section \<open>What the control framing promises\<close>

text \<open>
  Control frames. A message the writer accepts is read back by the peer, with the bytes of the
  next frame untouched; the writer refuses exactly the messages whose body is over 8 MiB.
\<close>

theorem control_frame_roundtrip:
  assumes "cbor_roundtrip enc dec" and "enc m = Inr body"
  shows "(case write_frame enc m of
       Inr b \<Rightarrow> length body \<le> MAX_FRAME \<and> read_frame dec (b @ rest) = Inr (m, rest)
     | Inl e \<Rightarrow> MAX_FRAME < length body \<and> e = FrameTooLarge (length body))"
proof (cases "write_frame enc m")
  case (Inl e)
  then show ?thesis using assms by (auto simp: write_frame_def Let_def split: if_splits)
next
  case (Inr b)
  have "length body \<le> MAX_FRAME" using Inr assms(2) by (auto simp: write_frame_Inr)
  then show ?thesis using read_write_frame [OF assms(1) Inr] by (simp add: Inr)
qed

theorem control_frame_roundtrip_witness:
  "(case write_frame Inr (as_bytes ''hello'') of
       Inr b \<Rightarrow> read_frame Inr (b @ [1]) = Inr (as_bytes ''hello'', [1])
     | Inl e \<Rightarrow> False)"
  using control_frame_roundtrip [of Inr Inr "as_bytes ''hello''" "as_bytes ''hello''" "[1]"]
  by (simp add: cbor_roundtrip_def MAX_FRAME_def split: sum.splits)

text \<open>
  Bounded reads: Whatever bytes a peer sends, a frame is accepted only when its body is at most
  8 MiB and complete, and exactly the header and the body are consumed.
\<close>

theorem control_frame_bounded:
  assumes "read_body inp = Inr (body, rest)"
  shows "length body \<le> MAX_FRAME \<and> inp = take 4 inp @ body @ rest \<and> length inp = 4 + length body + length rest"
  using assms by (auto simp: read_body_def Let_def split: list.splits if_splits)

theorem control_frame_bounded_witness:
  "read_body [0, 0, 0, 1, 42, 43] = Inr ([42], [43]) \<and> [0, 0, 0, 1, 42, 43 :: u8] = [0, 0, 0, 1] @ [42] @ [43]"
proof -
  have "read_body [0, 0, 0, 1, 42, 43] = Inr ([42], [43])"
    by (simp add: read_body_def from_be32_def MAX_FRAME_def)
  from this control_frame_bounded [OF this] show ?thesis by simp
qed

end
