(* ===== verification/Peer_Auth.thy ===== *)
theory Peer_Auth
  imports Audit_Log Control_Frame Keyring
begin

text \<open>
  \<open>crates/mwsqld/src/control/peercred.rs\<close> and the Unix side of the control socket,
  \<open>control/unix.rs\<close>: who may drive the control channel, where its socket lives and with which
  permissions. The system calls are arguments: what \<open>SO_PEERCRED\<close>, \<open>getpwuid\<close> and
  \<open>getgrnam\<close> return, and what the file system holds at a path. \<open>dbg\<close> is Rust's
  debug rendering of a string, used in one message.
\<close>

definition SERVICE_NAME :: string where "SERVICE_NAME = ''mwsqld''"

definition ADMIN_GROUP :: string where "ADMIN_GROUP = ''middlewhere-admins''"

section \<open>The decision\<close>

record peer_identity =
  peer_uid :: "u32 option"
  peer_gid :: "u32 option"
  peer_user :: string

definition default_peer :: peer_identity where
  "default_peer = \<lparr>peer_uid = None, peer_gid = None, peer_user = []\<rparr>"

datatype auth_decision = AuthAllow | AuthDeny string

record group_info =
  grp_gid :: u32
  grp_members :: "string list"

record unix_peer =
  up_uid :: u32
  up_primary_gid :: u32
  up_user :: string

definition authorize_unix :: "(string \<Rightarrow> string) \<Rightarrow> unix_peer \<Rightarrow> group_info \<Rightarrow> auth_decision" where
  "authorize_unix dbg peer admins =
     (if up_uid peer = 0 then AuthAllow
      else if up_primary_gid peer = grp_gid admins then AuthAllow
      else if list_ex (\<lambda>m. m = up_user peer) (grp_members admins) then AuthAllow
      else AuthDeny (''uid '' @ show_nat (unat (up_uid peer)) @ '' (user '' @ dbg (up_user peer) @
        '') is not root and not a member of the middlewhere-admins group (gid '' @
        show_nat (unat (grp_gid admins)) @ '')''))"

definition authorize_windows :: "bool \<Rightarrow> bool \<Rightarrow> auth_decision" where
  "authorize_windows is_admins_member is_builtin_admin =
     (if is_admins_member \<or> is_builtin_admin then AuthAllow
      else AuthDeny (''client token is not a member of middlewhere-admins or BUILTIN'' @ [CHR 0x5C] @
        ''Administrators''))"

record unix_facts =
  uf_creds :: "(u32 \<times> u32) option"
  uf_user :: "u32 \<Rightarrow> (string \<times> u32) option"
  uf_group :: "string \<Rightarrow> group_info option"

definition resolve_peer :: "(string \<Rightarrow> string) \<Rightarrow> unix_facts \<Rightarrow> auth_decision \<times> peer_identity" where
  "resolve_peer dbg uf =
     (case uf_creds uf of
        None \<Rightarrow> (AuthDeny ''could not read peer credentials'', default_peer)
      | Some (uid, gid) \<Rightarrow>
          (let peer = \<lparr>peer_uid = Some uid, peer_gid = Some gid, peer_user = []\<rparr>
           in case uf_user uf uid of
                None \<Rightarrow>
                  (AuthDeny (''could not resolve uid '' @ show_nat (unat uid) @ '' to a user''), peer)
              | Some (user, primary_gid) \<Rightarrow>
                  (let peer' = peer\<lparr>peer_user := user\<rparr>
                   in case uf_group uf ADMIN_GROUP of
                        None \<Rightarrow>
                          (AuthDeny (''group '' @ ADMIN_GROUP @ '' not found; refusing''), peer')
                      | Some admins \<Rightarrow>
                          (authorize_unix dbg
                             \<lparr>up_uid = uid, up_primary_gid = primary_gid, up_user = user\<rparr> admins,
                           peer'))))"

text \<open>A peer the operating system vouches for as root or as a member of the admins group.\<close>

definition is_admin :: "unix_facts \<Rightarrow> bool" where
  "is_admin uf \<longleftrightarrow>
     (\<exists>uid gid user pgid admins. uf_creds uf = Some (uid, gid) \<and> uf_user uf uid = Some (user, pgid) \<and>
        uf_group uf ADMIN_GROUP = Some admins \<and>
        (uid = 0 \<or> pgid = grp_gid admins \<or> user \<in> set (grp_members admins)))"

lemma authorize_unix_iff:
  "authorize_unix dbg peer admins = AuthAllow \<longleftrightarrow>
     up_uid peer = 0 \<or> up_primary_gid peer = grp_gid admins \<or> up_user peer \<in> set (grp_members admins)"
  by (auto simp: authorize_unix_def list_ex_iff)

text \<open>
  Only administrators. A peer of the control socket is authorised exactly when its credentials can
  be read, its uid is that of a known user, the admins group exists, and it is root, has the group as
  its primary one or is listed as a member; every lookup that fails refuses it.
\<close>

theorem resolve_peer_fail_closed:
  "fst (resolve_peer dbg uf) = AuthAllow \<longleftrightarrow> is_admin uf"
  by (auto simp: resolve_peer_def is_admin_def authorize_unix_iff Let_def split: option.splits)

section \<open>The socket\<close>

text \<open>\<open>choose_socket\<close>: the path, and the runtime directory whose group has to be opened.\<close>

definition choose_socket :: "string option \<Rightarrow> bool \<Rightarrow> string \<Rightarrow> string \<Rightarrow> string \<times> string option" where
  "choose_socket runtime runtime_usable state_dir svc =
     (case runtime of
        Some dir \<Rightarrow>
          if runtime_usable then (path_join dir (svc @ ''.sock''), Some dir)
          else (path_join state_dir ''control.sock'', None)
      | None \<Rightarrow> (path_join state_dir ''control.sock'', None))"

definition resolve_socket :: "string \<Rightarrow> (string \<Rightarrow> bool) \<Rightarrow> string \<Rightarrow> string \<Rightarrow> string \<times> string option" where
  "resolve_socket os usable_dir state_dir svc =
     (let candidate = runtime_dir_for os;
          usable = (case candidate of Some d \<Rightarrow> usable_dir d | None \<Rightarrow> False)
      in choose_socket candidate usable state_dir svc)"

text \<open>The permission changes on a path: its mode and, when it was changed, its group.\<close>

datatype file_kind = SocketNode | DirNode | OtherNode

datatype perm_op = SetMode string nat | ChangeGroup string u32 | Unlink string | Bind string

datatype socket_error = UnlinkFailed | NotASocket | LstatFailed | BindSocketFailed

record socket_facts =
  sf_lstat :: "string \<Rightarrow> (bool + file_kind)"
  sf_unlink :: bool
  sf_bind :: bool
  sf_chown :: bool
  sf_group :: "group_info option"

text \<open>\<open>Inl True\<close> of \<open>sf_lstat\<close> is the error \<open>NotFound\<close>. The mode 0660 is 432,
  0600 is 384, 0710 is 456.\<close>

definition apply_socket_perms :: "socket_facts \<Rightarrow> string \<Rightarrow> perm_op list" where
  "apply_socket_perms sf p =
     (case sf_group sf of
        Some g \<Rightarrow>
          [SetMode p 432] @
          (if sf_chown sf then [ChangeGroup p (grp_gid g)] else [SetMode p 384])
      | None \<Rightarrow> [SetMode p 384])"

definition bind_control_socket :: "socket_facts \<Rightarrow> string \<Rightarrow> (socket_error + unit) \<times> perm_op list" where
  "bind_control_socket sf p =
     (let go = (\<lambda>pre. if sf_bind sf then (Inr (), pre @ [Bind p] @ apply_socket_perms sf p)
                     else (Inl BindSocketFailed, pre))
      in case sf_lstat sf p of
           Inr SocketNode \<Rightarrow> if sf_unlink sf then go [Unlink p] else (Inl UnlinkFailed, [])
         | Inr _ \<Rightarrow> (Inl NotASocket, [])
         | Inl True \<Rightarrow> go []
         | Inl False \<Rightarrow> (Inl LstatFailed, []))"

definition secure_runtime_dir :: "socket_facts \<Rightarrow> string \<Rightarrow> perm_op list" where
  "secure_runtime_dir sf dir =
     (case sf_lstat sf dir of
        Inr DirNode \<Rightarrow>
          (case sf_group sf of
             None \<Rightarrow> []
           | Some g \<Rightarrow>
               if sf_chown sf then [ChangeGroup dir (grp_gid g), SetMode dir 456] else [])
      | _ \<Rightarrow> [])"

text \<open>What a group other than the owner's can do with a path after these changes: the last mode set,
  and whether the group was handed to the admins.\<close>

fun group_open :: "perm_op list \<Rightarrow> bool" where
  "group_open [] = False"
| "group_open (SetMode p m # ops) =
     (if \<exists>q n. SetMode q n \<in> set ops then group_open ops else m div 8 mod 8 \<noteq> 0)"
| "group_open (_ # ops) = group_open ops"

text \<open>
  The socket is never opened to others. Whatever the system answers, no change to the socket or to
  its directory grants anything to others than owner and group; a group permission stays only with the
  group handed to the resolved admins; nothing but a stale socket is unlinked; and the state
  directory, used when there is no runtime directory, is never widened.
\<close>

theorem socket_never_world_open:
  "(\<nexists>p m. SetMode p m \<in> set (snd (bind_control_socket sf path) @ secure_runtime_dir sf dir) \<and> m mod 8 \<noteq> 0) \<and>
   (\<nexists>ops. ops \<in> {snd (bind_control_socket sf path), secure_runtime_dir sf dir} \<and> group_open ops \<and>
      (\<nexists>g p. sf_group sf = Some g \<and> ChangeGroup p (grp_gid g) \<in> set ops)) \<and>
   (\<nexists>p. Unlink p \<in> set (snd (bind_control_socket sf path)) \<and> sf_lstat sf p \<noteq> Inr SocketNode) \<and>
   (\<nexists>d. snd (resolve_socket os usable state_dir svc) = Some d \<and> runtime_dir_for os \<noteq> Some d)"
  by (auto simp: bind_control_socket_def apply_socket_perms_def secure_runtime_dir_def Let_def
      resolve_socket_def choose_socket_def
      split: option.splits sum.splits file_kind.splits bool.splits if_splits)

end
