(* ===== verification/Idle.thy ===== *)
theory Idle
  imports Prelude
begin

text \<open>
  \<open>crates/mw-net/src/idle.rs\<close>, the \<open>reap_idle\<close> of the engine pools and the reaper of
  \<open>crates/mwsqld/src/lib.rs\<close>. A duration and an instant are natural numbers of nanoseconds.
  The reaper is a function of the events that wake it: a change of the live set, the expiry of its
  timer, the shutdown.
\<close>

type_synonym duration = nat

definition secs :: "nat \<Rightarrow> duration" where
  "secs n = n * 1000000000"

definition should_retain :: "duration \<Rightarrow> duration \<Rightarrow> bool" where
  "should_retain last_used idle_timeout \<longleftrightarrow> idle_timeout = 0 \<or> last_used < idle_timeout"

definition clamp :: "duration \<Rightarrow> duration \<Rightarrow> duration \<Rightarrow> duration" where
  "clamp d lo hi = (if d < lo then lo else if hi < d then hi else d)"

definition reaper_interval :: "duration \<Rightarrow> duration" where
  "reaper_interval min_idle_timeout = clamp (min_idle_timeout div 2) (secs 1) (secs 60)"

text \<open>The sweep of one pool, by the time since each idle connection was last used: the number of
  connections closed and those that stay.\<close>

definition reap_idle :: "duration \<Rightarrow> duration list \<Rightarrow> nat \<times> duration list" where
  "reap_idle idle_timeout conns =
     (length (filter (\<lambda>d. \<not> should_retain d idle_timeout) conns),
      filter (\<lambda>d. should_retain d idle_timeout) conns)"

definition REAP_FALLBACK_INTERVAL :: duration where
  "REAP_FALLBACK_INTERVAL = secs 60"

definition current_reap_interval :: "duration list \<Rightarrow> duration" where
  "current_reap_interval timeouts =
     (case filter (\<lambda>d. d \<noteq> 0) timeouts of
        [] \<Rightarrow> REAP_FALLBACK_INTERVAL
      | d # ds \<Rightarrow> reaper_interval (foldl min d ds))"

section \<open>The reaper loop\<close>

text \<open>Each event carries the instant it is handled and the idle timeouts of the environments that are
  live then.\<close>

datatype reap_event =
    ReapShutdown
  | ReapWake nat "duration list"
  | ReapTimer nat "duration list"

text \<open>The loop from a deadline: the instants of the sweeps and the last deadline, \<open>None\<close> after the
  shutdown. The timer only fires at or after the deadline; an earlier one is not an event.\<close>

fun reap_loop :: "nat \<Rightarrow> reap_event list \<Rightarrow> nat list \<times> nat option" where
  "reap_loop deadline [] = ([], Some deadline)"
| "reap_loop deadline (ReapShutdown # evs) = ([], None)"
| "reap_loop deadline (ReapWake now ts # evs) =
     reap_loop (min deadline (now + current_reap_interval ts)) evs"
| "reap_loop deadline (ReapTimer now ts # evs) =
     (if now < deadline then reap_loop deadline evs
      else (let (sweeps, d) = reap_loop (now + current_reap_interval ts) evs
            in (now # sweeps, d)))"

definition reaper_start :: "nat \<Rightarrow> duration list \<Rightarrow> nat" where
  "reaper_start now ts = now + current_reap_interval ts"

text \<open>What one sweep does to the pools: environments with a zero timeout are skipped.\<close>

definition sweep :: "(duration \<times> duration list) list \<Rightarrow> (duration \<times> duration list) list" where
  "sweep pools =
     map (\<lambda>(timeout, conns). if timeout = 0 then (timeout, conns)
                             else (timeout, snd (reap_idle timeout conns))) pools"

section \<open>Bounds of the cadence\<close>

lemma clamp_bounds: "lo \<le> hi \<Longrightarrow> lo \<le> clamp d lo hi \<and> clamp d lo hi \<le> hi"
  by (simp add: clamp_def)

lemma reaper_interval_bounds: "secs 1 \<le> reaper_interval d \<and> reaper_interval d \<le> secs 60"
  unfolding reaper_interval_def by (rule clamp_bounds) (simp add: secs_def)

lemma current_reap_interval_bounds:
  "secs 1 \<le> current_reap_interval ts \<and> current_reap_interval ts \<le> secs 60"
  using reaper_interval_bounds
  by (auto simp: current_reap_interval_def REAP_FALLBACK_INTERVAL_def secs_def split: list.splits)

lemma foldl_min_le: "foldl min d ds \<le> d \<and> (\<forall>x \<in> set ds. foldl min d ds \<le> (x :: nat))"
proof (induction ds arbitrary: d)
  case (Cons a ds)
  from Cons.IH [of "min d a"] show ?case by auto
qed simp

lemma clamp_mono: "lo \<le> hi \<Longrightarrow> d \<le> d' \<Longrightarrow> clamp d lo hi \<le> clamp d' lo hi"
  by (simp add: clamp_def)

lemma current_reap_interval_le:
  assumes "t \<in> set ts" and "t \<noteq> 0"
  shows "current_reap_interval ts \<le> reaper_interval t"
proof -
  have mem: "t \<in> set (filter (\<lambda>d. d \<noteq> 0) ts)" using assms by simp
  show ?thesis
  proof (cases "filter (\<lambda>d. d \<noteq> 0) ts")
    case Nil
    then show ?thesis using mem by (metis empty_iff list.set(1))
  next
    case (Cons d ds)
    then have "t \<in> set (d # ds)" using mem by metis
    then have "foldl min d ds \<le> t" using foldl_min_le [of d ds] by auto
    then have "foldl min d ds div 2 \<le> t div 2" by (rule div_le_mono)
    moreover have "current_reap_interval ts = reaper_interval (foldl min d ds)"
      unfolding current_reap_interval_def Cons by (rule list.case(2))
    ultimately show ?thesis by (simp add: reaper_interval_def clamp_mono secs_def)
  qed
qed

text \<open>A wake never moves the deadline later; so as long as the timer does not fire the deadline is at
  most the one scheduled last.\<close>

lemma wakes_never_delay:
  "\<forall>e \<in> set evs. \<exists>now ts. e = ReapWake now ts \<Longrightarrow>
   \<exists>d. reap_loop deadline evs = ([], Some d) \<and> d \<le> deadline"
  by (induction deadline evs rule: reap_loop.induct) fastforce+

lemma wake_within:
  "\<forall>e \<in> set evs. \<exists>now ts. e = ReapWake now ts \<Longrightarrow> ReapWake now ts \<in> set evs \<Longrightarrow>
   \<exists>d. reap_loop deadline evs = ([], Some d) \<and> d \<le> now + current_reap_interval ts"
proof (induction deadline evs rule: reap_loop.induct)
  case (3 deadline n us evs)
  show ?case
  proof (cases "ReapWake now ts \<in> set evs")
    case True
    then show ?thesis using 3 by simp
  next
    case False
    then have "now = n" "ts = us" using "3.prems"(2) by auto
    then show ?thesis
      using wakes_never_delay [of evs "min deadline (n + current_reap_interval us)"] "3.prems"(1)
      by fastforce
  qed
qed auto

section \<open>What the reaper promises\<close>



text \<open>
  What a sweep closes. A sweep keeps an idle connection exactly when reaping is off for its
  environment or it was used within the timeout, and the number it reports is the number of connections
  that are gone; the cadence is never below one second nor above sixty.
\<close>

theorem sweep_closes_only_idle:
  "(c \<in> set (snd (reap_idle timeout conns)) \<longleftrightarrow> c \<in> set conns \<and> (timeout = 0 \<or> c < timeout)) \<and>
   fst (reap_idle timeout conns) + length (snd (reap_idle timeout conns)) = length conns \<and>
   secs 1 \<le> current_reap_interval ts \<and> current_reap_interval ts \<le> secs 60"
  using current_reap_interval_bounds [of ts] sum_length_filter_compl [of "\<lambda>d. should_retain d timeout" conns]
  by (auto simp: reap_idle_def should_retain_def)

end
