(* ===== verification/Policy.thy ===== *)
theory Policy
  imports Config
begin

text \<open>
  \<open>crates/mw-core/src/policy.rs\<close>: the query firewall, an allowlist by statement kind
  followed by a scan of the whole statement for dangerous functions.

  The SQL parser and its visitor belong to the crate \<open>sqlparser\<close>: they are the fields of
  the record \<open>sqlparser\<close>, an argument of \<open>evaluate\<close>. The syntax tree below has the
  constructors the source names and, in each node, a field of the type variable
  \<open>'x\<close> for the parts of the node the firewall never looks at itself; every other kind of
  statement is \<open>OtherStatement\<close>.
\<close>

section \<open>The syntax tree the firewall reads\<close>

text \<open>An object name: its identifiers, and its text as \<open>Display\<close> prints it.\<close>

record object_name =
  idents :: "string list"
  shown :: string

datatype one_or_many = One object_name | Many "object_name list"

datatype expr = Function object_name | OtherExpr

datatype 'x stmt =
    Query "'x query"
  | ExplainTable 'x
  | Explain 'x "'x stmt"
  | ShowCreate 'x | ShowColumns 'x | ShowTables 'x | ShowFunctions 'x | ShowStatus 'x
  | ShowVariables 'x | ShowVariable 'x | ShowDatabases 'x | ShowSchemas 'x | ShowCollation 'x
  | Use 'x
  | SetNames 'x | SetNamesDefault 'x
  | SetVariable 'x bool bool one_or_many
  | Insert 'x | Update 'x | Delete 'x
  | Truncate 'x | Drop 'x | CreateTable 'x | CreateView 'x | CreateIndex 'x | CreateSchema 'x
  | CreateDatabase 'x | AlterTable 'x | AlterIndex 'x | AlterView 'x
  | Grant 'x | Revoke 'x
  | StartTransaction 'x | Commit 'x | Rollback 'x | Savepoint 'x | SetTransaction 'x
  | OtherStatement 'x
and 'x query = Body 'x "'x set_expr"
and 'x set_expr =
    SelectBody 'x bool
  | QueryBody "'x query"
  | SetOperation 'x "'x set_expr" "'x set_expr"
  | InsertBody "'x stmt"
  | UpdateBody "'x stmt"
  | OtherBody 'x

datatype dialect = MySqlDialect | PostgreSqlDialect

record 'x sqlparser =
  parse_sql :: "dialect \<Rightarrow> string \<Rightarrow> 'x stmt list option"
  visited_exprs :: "'x stmt \<Rightarrow> expr list"

section \<open>Profiles\<close>

definition MYSQL_DANGEROUS_FUNCS :: "string list" where
  "MYSQL_DANGEROUS_FUNCS =
     [''load_file'', ''sys_exec'', ''sys_eval'', ''sys_get'', ''lo_import'', ''lo_export'']"

definition PG_DANGEROUS_FUNCS :: "string list" where
  "PG_DANGEROUS_FUNCS =
     [''load_file'', ''sys_exec'', ''sys_eval'', ''sys_get'', ''lo_import'', ''lo_export'',
      ''pg_read_file'', ''pg_read_binary_file'', ''pg_ls_dir'', ''pg_stat_file'', ''dblink'',
      ''dblink_exec'']"

definition MYSQL_SAFE_SET_VARS :: "string list" where
  "MYSQL_SAFE_SET_VARS =
     [''names'', ''autocommit'', ''time_zone'', ''character_set_client'',
      ''character_set_results'', ''character_set_connection'', ''collation_connection'',
      ''sql_safe_updates'', ''wait_timeout'', ''net_read_timeout'', ''net_write_timeout'',
      ''max_execution_time'', ''group_concat_max_len'', ''transaction_isolation'',
      ''tx_isolation'']"

definition PG_SAFE_SET_VARS :: "string list" where
  "PG_SAFE_SET_VARS =
     [''names'', ''client_encoding'', ''timezone'', ''datestyle'', ''application_name'',
      ''statement_timeout'', ''lock_timeout'', ''idle_in_transaction_session_timeout'',
      ''extra_float_digits'', ''bytea_output'', ''intervalstyle'']"

record policy_profile =
  profile_dialect :: dialect
  dangerous_funcs :: "string list"
  safe_set_vars :: "string list"

definition MYSQL_PROFILE :: policy_profile where
  "MYSQL_PROFILE = \<lparr>profile_dialect = MySqlDialect, dangerous_funcs = MYSQL_DANGEROUS_FUNCS,
     safe_set_vars = MYSQL_SAFE_SET_VARS\<rparr>"

definition PG_PROFILE :: policy_profile where
  "PG_PROFILE = \<lparr>profile_dialect = PostgreSqlDialect, dangerous_funcs = PG_DANGEROUS_FUNCS,
     safe_set_vars = PG_SAFE_SET_VARS\<rparr>"

section \<open>The decision\<close>

datatype decision = Allow | Deny string

fun is_allow :: "decision \<Rightarrow> bool" where
  "is_allow Allow = True"
| "is_allow (Deny _) = False"

fun decision_reason :: "decision \<Rightarrow> string option" where
  "decision_reason Allow = None"
| "decision_reason (Deny r) = Some r"

text \<open>\<open>scan_select_for_outfile\<close> on a \<open>SetExpr\<close>: \<open>Some\<close> decision is a refusal.\<close>

fun scan_select_for_outfile :: "'x set_expr \<Rightarrow> decision option" where
  "scan_select_for_outfile (SelectBody _ into) =
     (if into then Some (Deny ''INTO OUTFILE/DUMPFILE not allowed'') else None)"
| "scan_select_for_outfile (QueryBody (Body _ b)) = scan_select_for_outfile b"
| "scan_select_for_outfile (SetOperation _ l r) =
     (case scan_select_for_outfile l of Some d \<Rightarrow> Some d | None \<Rightarrow> scan_select_for_outfile r)"
| "scan_select_for_outfile _ = None"

fun check_query :: "'x query \<Rightarrow> decision" where
  "check_query (Body _ b) =
     (case scan_select_for_outfile b of Some d \<Rightarrow> d | None \<Rightarrow> Allow)"

definition last_ident :: "object_name \<Rightarrow> string" where
  "last_ident n = (if idents n = [] then [] else ascii_lower (last (idents n)))"

definition var_key :: "object_name \<Rightarrow> string" where
  "var_key n = last_ident n"

fun check_set_names :: "string list \<Rightarrow> object_name list \<Rightarrow> decision" where
  "check_set_names safe [] = Allow"
| "check_set_names safe (n # ns) =
     (let full = ascii_lower (shown n)
      in if contains_sub ''@@global'' full \<or> contains_sub ''global.'' full
         then Deny ''SET GLOBAL not allowed by policy''
         else if starts_with ''@'' full then Deny ''setting user-defined variables not allowed''
         else if var_key n \<notin> set safe
         then Deny ''this session variable is not on the allowlist''
         else check_set_names safe ns)"

definition set_targets :: "one_or_many \<Rightarrow> object_name list" where
  "set_targets vars = (case vars of One n \<Rightarrow> [n] | Many ns \<Rightarrow> ns)"

definition check_set :: "bool \<Rightarrow> bool \<Rightarrow> one_or_many \<Rightarrow> string list \<Rightarrow> decision" where
  "check_set local_scope hivevar vars safe =
     (if local_scope then Deny ''SET LOCAL not allowed by policy''
      else check_set_names safe (set_targets vars))"

fun check_statement :: "'x stmt \<Rightarrow> bool \<Rightarrow> bool \<Rightarrow> bool \<Rightarrow> policy_profile \<Rightarrow> decision" where
  "check_statement (Query q) dml ddl admin p = check_query q"
| "check_statement (ExplainTable _) dml ddl admin p = Allow"
| "check_statement (Explain _ s) dml ddl admin p = check_statement s dml ddl admin p"
| "check_statement (ShowCreate _) dml ddl admin p = Allow"
| "check_statement (ShowColumns _) dml ddl admin p = Allow"
| "check_statement (ShowTables _) dml ddl admin p = Allow"
| "check_statement (ShowFunctions _) dml ddl admin p = Allow"
| "check_statement (ShowStatus _) dml ddl admin p = Allow"
| "check_statement (ShowVariables _) dml ddl admin p = Allow"
| "check_statement (ShowVariable _) dml ddl admin p = Allow"
| "check_statement (ShowDatabases _) dml ddl admin p = Allow"
| "check_statement (ShowSchemas _) dml ddl admin p = Allow"
| "check_statement (ShowCollation _) dml ddl admin p = Allow"
| "check_statement (Use _) dml ddl admin p = Allow"
| "check_statement (SetNames _) dml ddl admin p = Allow"
| "check_statement (SetNamesDefault _) dml ddl admin p = Allow"
| "check_statement (SetVariable _ loc hv vars) dml ddl admin p =
     check_set loc hv vars (safe_set_vars p)"
| "check_statement (StartTransaction _) dml ddl admin p = Allow"
| "check_statement (Commit _) dml ddl admin p = Allow"
| "check_statement (Rollback _) dml ddl admin p = Allow"
| "check_statement (Savepoint _) dml ddl admin p = Allow"
| "check_statement (SetTransaction _) dml ddl admin p = Allow"
| "check_statement (OtherStatement _) dml ddl admin p = Deny ''statement kind not allowed by policy''"
| "check_statement (Grant _) dml ddl admin p =
     (if admin then Allow else Deny ''admin not allowed by policy'')"
| "check_statement (Revoke _) dml ddl admin p =
     (if admin then Allow else Deny ''admin not allowed by policy'')"
| "check_statement (Insert _) dml ddl admin p =
     (if dml then Allow else Deny ''DML not allowed by policy'')"
| "check_statement (Update _) dml ddl admin p =
     (if dml then Allow else Deny ''DML not allowed by policy'')"
| "check_statement (Delete _) dml ddl admin p =
     (if dml then Allow else Deny ''DML not allowed by policy'')"
| "check_statement _ dml ddl admin p =
     (if ddl then Allow else Deny ''DDL not allowed by policy'')"

fun pre_visit_expr :: "string list \<Rightarrow> expr \<Rightarrow> string option" where
  "pre_visit_expr funcs (Function n) =
     (if last_ident n \<in> set funcs then Some ''dangerous builtin not allowed'' else None)"
| "pre_visit_expr funcs OtherExpr = None"

text \<open>The visitor stops at the first expression that breaks.\<close>

fun visit_all :: "string list \<Rightarrow> expr list \<Rightarrow> string option" where
  "visit_all funcs [] = None"
| "visit_all funcs (e # es) =
     (case pre_visit_expr funcs e of Some r \<Rightarrow> Some r | None \<Rightarrow> visit_all funcs es)"

definition scan_dangerous :: "'x sqlparser \<Rightarrow> 'x stmt \<Rightarrow> string list \<Rightarrow> decision" where
  "scan_dangerous sp s funcs =
     (case visit_all funcs (visited_exprs sp s) of Some r \<Rightarrow> Deny r | None \<Rightarrow> Allow)"

fun policy_flags :: "policy \<Rightarrow> bool \<times> bool \<times> bool" where
  "policy_flags ReadOnly = (False, False, False)"
| "policy_flags ReadWrite = (True, False, False)"
| "policy_flags (Custom dml ddl admin) = (dml, ddl, admin)"

text \<open>The two loops of \<open>evaluate\<close>: the first denial wins.\<close>

fun first_deny :: "('a \<Rightarrow> decision) \<Rightarrow> 'a list \<Rightarrow> decision" where
  "first_deny f [] = Allow"
| "first_deny f (x # xs) = (case f x of Deny r \<Rightarrow> Deny r | Allow \<Rightarrow> first_deny f xs)"

definition evaluate :: "'x sqlparser \<Rightarrow> string \<Rightarrow> policy \<Rightarrow> policy_profile \<Rightarrow> decision" where
  "evaluate sp sql pol prof =
     (case parse_sql sp (profile_dialect prof) sql of
        None \<Rightarrow> Deny ''statement did not parse''
      | Some stmts \<Rightarrow>
          if stmts = [] then Deny ''empty statement''
          else
            (let (dml, ddl, admin) = policy_flags pol
             in if length stmts > 1 \<and> \<not> (dml \<and> ddl)
                then Deny ''multiple statements per request not allowed''
                else case first_deny (\<lambda>s. check_statement s dml ddl admin prof) stmts of
                       Deny r \<Rightarrow> Deny r
                     | Allow \<Rightarrow> first_deny (\<lambda>s. scan_dangerous sp s (dangerous_funcs prof)) stmts))"

section \<open>What an allowed request is\<close>

text \<open>
  An independent reading of the allowlist: the class of a statement, whether its query bodies are
  free of an \<open>INTO\<close>, whether its \<open>SET\<close> targets are on the allowlist, and whether a
  dangerous function is called.
\<close>

datatype stmt_class = Read | SessionSetting | Transaction | Dml | Ddl | Admin | Unknown

fun class_of :: "'x stmt \<Rightarrow> stmt_class" where
  "class_of (Explain _ s) = class_of s"
| "class_of (SetVariable _ _ _ _) = SessionSetting"
| "class_of (SetNames _) = SessionSetting"
| "class_of (SetNamesDefault _) = SessionSetting"
| "class_of (Use _) = SessionSetting"
| "class_of (StartTransaction _) = Transaction"
| "class_of (Commit _) = Transaction"
| "class_of (Rollback _) = Transaction"
| "class_of (Savepoint _) = Transaction"
| "class_of (SetTransaction _) = Transaction"
| "class_of (Insert _) = Dml"
| "class_of (Update _) = Dml"
| "class_of (Delete _) = Dml"
| "class_of (Grant _) = Admin"
| "class_of (Revoke _) = Admin"
| "class_of (Truncate _) = Ddl"
| "class_of (Drop _) = Ddl"
| "class_of (CreateTable _) = Ddl"
| "class_of (CreateView _) = Ddl"
| "class_of (CreateIndex _) = Ddl"
| "class_of (CreateSchema _) = Ddl"
| "class_of (CreateDatabase _) = Ddl"
| "class_of (AlterTable _) = Ddl"
| "class_of (AlterIndex _) = Ddl"
| "class_of (AlterView _) = Ddl"
| "class_of (OtherStatement _) = Unknown"
| "class_of _ = Read"

text \<open>The \<open>Select\<close> nodes of a set expression, through nested queries and set operations.\<close>

fun selects_into :: "'x set_expr \<Rightarrow> bool list" where
  "selects_into (SelectBody _ i) = [i]"
| "selects_into (QueryBody (Body _ b)) = selects_into b"
| "selects_into (SetOperation _ l r) = selects_into l @ selects_into r"
| "selects_into _ = []"

fun no_outfile :: "'x stmt \<Rightarrow> bool" where
  "no_outfile (Query (Body _ b)) = (True \<notin> set (selects_into b))"
| "no_outfile (Explain _ s) = no_outfile s"
| "no_outfile _ = True"

definition settable :: "string list \<Rightarrow> object_name \<Rightarrow> bool" where
  "settable safe n \<longleftrightarrow>
     \<not> contains_sub ''@@global'' (ascii_lower (shown n)) \<and>
     \<not> contains_sub ''global.'' (ascii_lower (shown n)) \<and>
     \<not> starts_with ''@'' (ascii_lower (shown n)) \<and>
     var_key n \<in> set safe"

fun set_ok :: "string list \<Rightarrow> 'x stmt \<Rightarrow> bool" where
  "set_ok safe (SetVariable _ loc _ vars) = (\<not> loc \<and> (\<forall>n \<in> set (set_targets vars). settable safe n))"
| "set_ok safe (Explain _ s) = set_ok safe s"
| "set_ok safe _ = True"

definition class_permitted :: "policy \<Rightarrow> stmt_class \<Rightarrow> bool" where
  "class_permitted pol k =
     (case policy_flags pol of (dml, ddl, admin) \<Rightarrow>
        (case k of Dml \<Rightarrow> dml | Ddl \<Rightarrow> ddl | Admin \<Rightarrow> admin | Unknown \<Rightarrow> False | _ \<Rightarrow> True))"

definition calls_dangerous :: "'x sqlparser \<Rightarrow> policy_profile \<Rightarrow> 'x stmt \<Rightarrow> bool" where
  "calls_dangerous sp prof s \<longleftrightarrow>
     (\<exists>n. Function n \<in> set (visited_exprs sp s) \<and> last_ident n \<in> set (dangerous_funcs prof))"

lemma first_deny_Allow [simp]: "first_deny f xs = Allow \<longleftrightarrow> (\<forall>x \<in> set xs. f x = Allow)"
  by (induction f xs rule: first_deny.induct) (auto split: decision.splits)

lemma first_deny_Deny: "first_deny f xs = Deny r \<Longrightarrow> \<exists>x \<in> set xs. f x = Deny r"
  by (induction f xs rule: first_deny.induct) (auto split: decision.splits)

lemma decision_case_Allow [simp]:
  "(case d of Deny r \<Rightarrow> Deny r | Allow \<Rightarrow> d') = Allow \<longleftrightarrow> d = Allow \<and> d' = Allow"
  by (cases d) simp_all

lemma scan_select_None: "scan_select_for_outfile b = None \<longleftrightarrow> True \<notin> set (selects_into b)"
  by (induction b rule: scan_select_for_outfile.induct) (auto split: option.splits)

lemma scan_select_Deny: "scan_select_for_outfile b = Some d \<Longrightarrow> \<exists>r. d = Deny r"
  by (induction b rule: scan_select_for_outfile.induct) (auto split: option.splits if_splits)

lemma check_query_Allow [simp]:
  "check_query (Body x b) = Allow \<longleftrightarrow> True \<notin> set (selects_into b)"
  using scan_select_None [of b] by (auto split: option.splits dest: scan_select_Deny)

lemma check_set_names_Allow: "check_set_names safe ns = Allow \<longleftrightarrow> (\<forall>n \<in> set ns. settable safe n)"
  by (induction safe ns rule: check_set_names.induct) (auto simp: Let_def settable_def)

lemma check_statement_Allow:
  assumes "policy_flags pol = (dml, ddl, admin)"
  shows "check_statement s dml ddl admin prof = Allow \<longleftrightarrow>
     class_permitted pol (class_of s) \<and> no_outfile s \<and> set_ok (safe_set_vars prof) s"
  using assms
proof (induction s dml ddl admin prof rule: check_statement.induct)
  case (1 q dml ddl admin p)
  then show ?case
    by (cases q) (simp add: class_permitted_def del: check_query.simps)
qed (auto simp: class_permitted_def check_set_def check_set_names_Allow)

lemma visit_all_None:
  "visit_all funcs es = None \<longleftrightarrow> (\<forall>n. Function n \<in> set es \<longrightarrow> last_ident n \<notin> set funcs)"
proof (induction es)
  case Nil
  then show ?case by simp
next
  case (Cons e es)
  then show ?case by (cases e) (auto split: option.splits)
qed

lemma scan_dangerous_Allow:
  "scan_dangerous sp s (dangerous_funcs prof) = Allow \<longleftrightarrow> \<not> calls_dangerous sp prof s"
  using visit_all_None [of "dangerous_funcs prof" "visited_exprs sp s"]
  by (auto simp: scan_dangerous_def calls_dangerous_def split: option.splits)

lemma evaluate_Allow_iff:
  "evaluate sp sql pol prof = Allow \<longleftrightarrow>
     (\<exists>stmts. parse_sql sp (profile_dialect prof) sql = Some stmts \<and> stmts \<noteq> [] \<and>
        (length stmts = 1 \<or> class_permitted pol Dml \<and> class_permitted pol Ddl) \<and>
        (\<forall>s \<in> set stmts. class_permitted pol (class_of s) \<and> no_outfile s \<and>
            set_ok (safe_set_vars prof) s \<and> \<not> calls_dangerous sp prof s))"
proof -
  obtain dml ddl admin where f: "policy_flags pol = (dml, ddl, admin)" by (cases "policy_flags pol")
  have one: "length xs = Suc 0" if "xs \<noteq> []" "\<not> Suc 0 < length xs" for xs :: "'a stmt list"
    using that by (cases xs) auto
  have gate: "class_permitted pol Dml = dml" "class_permitted pol Ddl = ddl"
    by (simp_all add: class_permitted_def f)
  show ?thesis
  proof (cases "parse_sql sp (profile_dialect prof) sql")
    case None
    then show ?thesis by (simp add: evaluate_def)
  next
    case (Some stmts)
    then show ?thesis
      by (cases "stmts = []")
        (auto simp: evaluate_def f gate one check_statement_Allow [OF f] scan_dangerous_Allow)
  qed
qed

definition policy_le :: "policy \<Rightarrow> policy \<Rightarrow> bool" where
  "policy_le p q =
     (case (policy_flags p, policy_flags q) of
        ((a, b, c), (a', b', c')) \<Rightarrow> (a \<longrightarrow> a') \<and> (b \<longrightarrow> b') \<and> (c \<longrightarrow> c'))"

lemma class_permitted_mono: "policy_le p q \<Longrightarrow> class_permitted p k \<Longrightarrow> class_permitted q k"
  by (auto simp: policy_le_def class_permitted_def split: prod.splits stmt_class.splits)

section \<open>Properties\<close>

text \<open>
  C5 (the allowlist). The firewall allows a request exactly when it parses to at least one statement,
  to one only unless the policy permits both DML and DDL, and every statement is of a class the
  policy permits, has no \<open>INTO\<close> on a \<open>SELECT\<close> of its query body, sets only
  variables of the allowlist, and calls no dangerous function at any depth.
\<close>

theorem firewall_allows_iff:
  "evaluate sp sql pol prof = Allow \<longleftrightarrow>
     (\<exists>stmts. parse_sql sp (profile_dialect prof) sql = Some stmts \<and> stmts \<noteq> [] \<and>
        (length stmts = 1 \<or> class_permitted pol Dml \<and> class_permitted pol Ddl) \<and>
        (\<forall>s \<in> set stmts. class_permitted pol (class_of s) \<and> no_outfile s \<and>
            set_ok (safe_set_vars prof) s \<and> \<not> calls_dangerous sp prof s))"
  by (rule evaluate_Allow_iff)

text \<open>A parser of two requests, for the instances: each node carries the expressions it holds.\<close>

definition toy_parser :: "expr list sqlparser" where
  "toy_parser =
     \<lparr>parse_sql = (\<lambda>d sql.
        if sql = ''SELECT 1'' then Some [Query (Body [] (SelectBody [OtherExpr] False))]
        else if sql = ''SELECT LOAD_FILE(x)'' then
          Some [Query (Body [Function \<lparr>idents = [''LOAD_FILE''], shown = ''LOAD_FILE''\<rparr>]
                  (SelectBody [] False))]
        else if sql = ''WITH x AS (SELECT 1) INSERT INTO t SELECT 1'' then
          Some [Query (Body [] (InsertBody (Insert [])))]
        else None),
      visited_exprs = (\<lambda>s. case s of
          Query (Body es (SelectBody fs i)) \<Rightarrow> es @ fs
        | Query (Body es b) \<Rightarrow> es
        | _ \<Rightarrow> [])\<rparr>"

theorem firewall_allows_iff_witness:
  "evaluate toy_parser ''SELECT 1'' ReadOnly MYSQL_PROFILE = Allow"
  unfolding firewall_allows_iff
  by (simp add: toy_parser_def class_permitted_def calls_dangerous_def)

text \<open>
  Read-only soundness. Under the read-only policy an allowed request is a single statement that
  reads, sets a session variable of the allowlist or controls a transaction: no DML, DDL, grant or
  unknown statement kind passes, in either dialect.
\<close>

theorem read_only_sound:
  assumes "evaluate sp sql ReadOnly prof = Allow"
  shows "\<exists>s. parse_sql sp (profile_dialect prof) sql = Some [s] \<and>
    class_of s \<in> {Read, SessionSetting, Transaction} \<and>
    no_outfile s \<and> set_ok (safe_set_vars prof) s \<and> \<not> calls_dangerous sp prof s"
proof -
  from assms obtain stmts where p: "parse_sql sp (profile_dialect prof) sql = Some stmts"
    "length stmts = 1" "\<forall>s \<in> set stmts. class_permitted ReadOnly (class_of s) \<and> no_outfile s \<and>
      set_ok (safe_set_vars prof) s \<and> \<not> calls_dangerous sp prof s"
    by (auto simp: evaluate_Allow_iff class_permitted_def)
  then obtain s where "stmts = [s]" by (auto simp: length_Suc_conv)
  then show ?thesis
    using p by (cases "class_of s") (auto simp: class_permitted_def)
qed

theorem read_only_sound_witness:
  "\<exists>s. parse_sql toy_parser MySqlDialect ''SELECT 1'' = Some [s] \<and>
     class_of s \<in> {Read, SessionSetting, Transaction}"
proof -
  have "evaluate toy_parser ''SELECT 1'' ReadOnly MYSQL_PROFILE = Allow"
    by (simp add: evaluate_def toy_parser_def scan_dangerous_def MYSQL_PROFILE_def)
  from read_only_sound [OF this] show ?thesis by (auto simp: MYSQL_PROFILE_def)
qed

text \<open>
  Dangerous functions. Whatever the policy, a request with a call of a function on the profile's
  denylist, in any letter case, under any schema and at any depth the visitor reaches, is denied.
\<close>

theorem dangerous_call_denied:
  assumes "parse_sql sp (profile_dialect prof) sql = Some stmts" and "s \<in> set stmts"
    and "Function n \<in> set (visited_exprs sp s)" and "idents n = pre @ [f]"
    and "ascii_lower f \<in> set (dangerous_funcs prof)"
  shows "\<exists>r. evaluate sp sql pol prof = Deny r"
proof -
  have "calls_dangerous sp prof s"
    using assms(3-5) by (auto simp: calls_dangerous_def last_ident_def)
  then have "evaluate sp sql pol prof \<noteq> Allow"
    using assms(1,2) by (auto simp: evaluate_Allow_iff)
  then show ?thesis by (cases "evaluate sp sql pol prof") auto
qed

theorem dangerous_call_denied_witness:
  "\<exists>r. evaluate toy_parser ''SELECT LOAD_FILE(x)'' (Custom True True True) MYSQL_PROFILE = Deny r"
  by (rule dangerous_call_denied [where
        stmts = "[Query (Body [Function \<lparr>idents = [''LOAD_FILE''], shown = ''LOAD_FILE''\<rparr>]
                  (SelectBody [] False))]" and pre = "[]" and f = "''LOAD_FILE''"
        and n = "\<lparr>idents = [''LOAD_FILE''], shown = ''LOAD_FILE''\<rparr>"
        and s = "Query (Body [Function \<lparr>idents = [''LOAD_FILE''], shown = ''LOAD_FILE''\<rparr>]
                  (SelectBody [] False))"])
    (simp_all add: toy_parser_def MYSQL_PROFILE_def MYSQL_DANGEROUS_FUNCS_def ascii_lower_def
      lower_char_def char_between_def less_eq_char_def char_of_def bit_Suc_0_iff)

text \<open>
  Privilege order. Granting more never denies what was allowed: if every permission of one policy
  is a permission of another, every request the first allows the second allows too.
\<close>

theorem evaluate_monotone:
  assumes "policy_le p q" and "evaluate sp sql p prof = Allow"
  shows "evaluate sp sql q prof = Allow"
  using assms(2) class_permitted_mono [OF assms(1)] unfolding evaluate_Allow_iff by blast

theorem evaluate_monotone_witness:
  "evaluate toy_parser ''SELECT 1'' ReadWrite PG_PROFILE = Allow"
  by (rule evaluate_monotone [where p = ReadOnly])
    (simp_all add: policy_le_def evaluate_def toy_parser_def scan_dangerous_def PG_PROFILE_def)

text \<open>
  C33 (what the allowlist does not look into). A query whose body is an \<open>INSERT\<close> or an
  \<open>UPDATE\<close> (the parser's \<open>SetExpr::Insert\<close> and \<open>SetExpr::Update\<close>, what
  \<open>WITH ... INSERT\<close> parses to) is a \<open>Statement::Query\<close> and is allowed under the
  read-only policy.
\<close>

theorem read_only_allows_query_body_write:
  assumes "parse_sql sp (profile_dialect prof) sql = Some [Query (Body x b)]"
    and "b = InsertBody w \<or> b = UpdateBody w"
    and "\<not> calls_dangerous sp prof (Query (Body x b))"
  shows "evaluate sp sql ReadOnly prof = Allow"
  using assms by (auto simp: evaluate_Allow_iff class_permitted_def)

theorem read_only_allows_query_body_write_witness:
  "evaluate toy_parser ''WITH x AS (SELECT 1) INSERT INTO t SELECT 1'' ReadOnly PG_PROFILE = Allow"
  by (rule read_only_allows_query_body_write [where x = "[]" and b = "InsertBody (Insert [])"
        and w = "Insert []"])
    (simp_all add: toy_parser_def PG_PROFILE_def calls_dangerous_def)

end
