(* ===== verification/Firewall_Gate.thy ===== *)
theory Firewall_Gate
  imports Policy
begin

text \<open>
  The contract both engines owe the firewall, as an interface: a session yields a trace of events,
  some of which hand a statement to the backend, and every statement handed over was allowed by the
  session's policy under the engine's profile.
\<close>

locale gated_session =
  fixes trace :: "'c \<Rightarrow> 'e list"
    and handed :: "'e \<Rightarrow> string option"
    and parser_of :: "'c \<Rightarrow> 'x sqlparser"
    and policy_of :: "'c \<Rightarrow> policy"
    and profile :: policy_profile
  assumes gate: "e \<in> set (trace c) \<Longrightarrow> handed e = Some q \<Longrightarrow>
      evaluate (parser_of c) q (policy_of c) profile = Allow"
begin

lemma denied_never_handed:
  "evaluate (parser_of c) q (policy_of c) profile = Deny r \<Longrightarrow>
   Some q \<notin> handed ` set (trace c)"
  using gate by fastforce

lemma read_only_trace:
  assumes "policy_of c = ReadOnly" and "e \<in> set (trace c)" and "handed e = Some q"
  shows "\<exists>s. parse_sql (parser_of c) (profile_dialect profile) q = Some [s] \<and>
    class_of s \<in> {Read, SessionSetting, Transaction} \<and> no_outfile s \<and>
    \<not> calls_dangerous (parser_of c) profile s"
proof -
  have "evaluate (parser_of c) q ReadOnly profile = Allow" using gate assms by metis
  then obtain stmts where p: "parse_sql (parser_of c) (profile_dialect profile) q = Some stmts"
    "length stmts = 1" "\<forall>s \<in> set stmts. class_permitted ReadOnly (class_of s) \<and> no_outfile s \<and>
      \<not> calls_dangerous (parser_of c) profile s"
    by (auto simp: evaluate_Allow_iff class_permitted_def)
  then obtain s where "stmts = [s]" by (auto simp: length_Suc_conv)
  then show ?thesis using p by (cases "class_of s") (auto simp: class_permitted_def)
qed

end

end
