(* ===== verification/Framing.thy ===== *)
theory Framing
  imports Stream_Codec
begin

text \<open>
  \<open>crates/mw-net/src/framing.rs\<close>: MySQL packet framing, the sequence counter, the
  length-encoded integers and the NUL-terminated strings.

  A reader is the list of the bytes the peer sends before it closes, so a short read is the end of
  the list. \<open>usize\<close> is 64 bits.
\<close>

definition MAX_PAYLOAD :: nat where
  "MAX_PAYLOAD = 2 ^ 24 - 1"

datatype framing_error =
    OutOfOrder u8 u8
  | PayloadTooLarge nat
  | UnexpectedEof string
  | MultiPacket

section \<open>Sequence counter\<close>

definition seq_next :: "u8 \<Rightarrow> u8 \<times> u8" where
  "seq_next s = (s, s + 1)"

definition seq_expect :: "u8 \<Rightarrow> u8 \<Rightarrow> (framing_error + unit) \<times> u8" where
  "seq_expect s got = (if got \<noteq> s then (Inl (OutOfOrder got s), s) else (Inr (), s + 1))"

section \<open>Three-byte little-endian integers\<close>

definition le24 :: "u64 \<Rightarrow> bytes" where
  "le24 v = [ucast v, ucast (drop_bit 8 v), ucast (drop_bit 16 v)]"

definition from_le24 :: "u8 \<Rightarrow> u8 \<Rightarrow> u8 \<Rightarrow> u64" where
  "from_le24 a b c = ucast a OR push_bit 8 (ucast b) OR push_bit 16 (ucast c)"

lemma bit_of_small:
  fixes v :: "'a::len word"
  assumes "v < 2 ^ k" and "unat (2 ^ k :: 'a word) = 2 ^ k" and "k \<le> n"
  shows "\<not> bit v n"
proof
  assume b: "bit v n"
  have "unat v < 2 ^ k" using assms(1,2) by (metis word_less_nat_alt)
  then have "unat v < 2 ^ n" using assms(3)
    by (meson less_le_trans one_le_numeral power_increasing)
  then have "\<not> bit (unat v) n" by (simp add: bit_iff_odd)
  then show False using b by (simp add: bit_unsigned_iff)
qed

lemma from_le24_le24:
  assumes "v < 2 ^ 24"
  shows "from_le24 (ucast v) (ucast (drop_bit 8 v)) (ucast (drop_bit 16 v)) = v"
  unfolding from_le24_def
proof (rule bit_word_eqI)
  fix n assume n: "n < LENGTH(64)"
  have hi: "\<not> bit v n" if "24 \<le> n" using bit_of_small [OF assms _ that] by simp
  consider "n < 8" | "8 \<le> n" "n < 16" | "16 \<le> n" "n < 24" | "24 \<le> n" using n by linarith
  then show "bit (ucast (ucast v :: u8) OR push_bit 8 (ucast (ucast (drop_bit 8 v) :: u8))
      OR push_bit 16 (ucast (ucast (drop_bit 16 v) :: u8)) :: u64) n = bit v n"
    by cases (use hi n in \<open>auto simp: bit_simps dest: bit_imp_le_length\<close>)
qed

lemma le24_cons:
  assumes "v < 2 ^ 24"
  obtains a b c where "le24 v = [a, b, c]" "from_le24 a b c = v"
  using from_le24_le24 [OF assms] by (metis le24_def)

lemma length_le24 [simp, len_simps]: "length (le24 v) = 3"
  by (simp add: le24_def)

section \<open>Packets\<close>

definition write_packet :: "u8 \<Rightarrow> bytes \<Rightarrow> (framing_error + bytes) \<times> u8" where
  "write_packet s payload =
     (if length payload \<ge> MAX_PAYLOAD then (Inl (PayloadTooLarge (length payload)), s)
      else let (v, s') = seq_next s
           in (Inr (le24 (word_of_nat (length payload)) @ [v] @ payload), s'))"

text \<open>The reader returns the payload and the unread input, and the counter, which an accepted
  header advances even when the payload is then refused.\<close>

definition read_packet :: "u8 \<Rightarrow> bytes \<Rightarrow> (framing_error + bytes \<times> bytes) \<times> u8" where
  "read_packet s inp =
     (case inp of
        h0 # h1 # h2 # h3 # rest \<Rightarrow>
          (let len = unat (from_le24 h0 h1 h2)
           in case seq_expect s h3 of
                (Inl e, s') \<Rightarrow> (Inl e, s')
              | (Inr _, s') \<Rightarrow>
                  if len = MAX_PAYLOAD then (Inl MultiPacket, s')
                  else if length rest < len then (Inl (UnexpectedEof ''packet payload''), s')
                  else (Inr (take len rest, drop len rest), s'))
      | _ \<Rightarrow> (Inl (UnexpectedEof ''packet header''), s))"

definition packet_bytes :: "u8 \<Rightarrow> bytes \<Rightarrow> bytes" where
  "packet_bytes s payload = le24 (word_of_nat (length payload)) @ [s] @ payload"

lemma write_packet_ok:
  "length payload < MAX_PAYLOAD \<Longrightarrow> write_packet s payload = (Inr (packet_bytes s payload), s + 1)"
  by (simp add: write_packet_def packet_bytes_def seq_next_def)

lemma read_packet_bytes:
  assumes "length payload < MAX_PAYLOAD"
  shows "read_packet s (packet_bytes s payload @ rest) = (Inr (payload, rest), s + 1)"
proof -
  have u: "unat (word_of_nat (length payload) :: u64) = length payload"
    using assms by (simp add: unat_of_nat MAX_PAYLOAD_def)
  then have "(word_of_nat (length payload) :: u64) < 2 ^ 24"
    using assms by (simp add: word_less_nat_alt MAX_PAYLOAD_def)
  then obtain a b c where abc: "le24 (word_of_nat (length payload)) = [a, b, c]"
    "from_le24 a b c = word_of_nat (length payload)"
    by (rule le24_cons)
  then show ?thesis
    using assms u by (simp add: read_packet_def packet_bytes_def seq_expect_def Let_def)
qed

definition read_packet_at :: "u8 \<Rightarrow> bytes \<Rightarrow> (bytes \<times> bytes) option" where
  "read_packet_at s inp = (case fst (read_packet s inp) of Inl _ \<Rightarrow> None | Inr r \<Rightarrow> Some r)"

interpretation mysql_packet: stream_codec
  "\<lambda>p. length p < MAX_PAYLOAD" "packet_bytes s" "read_packet_at s" for s :: u8
  by unfold_locales (simp add: read_packet_at_def read_packet_bytes)

text \<open>A session writes packets with one counter and the peer reads them with its own.\<close>

fun write_packets :: "u8 \<Rightarrow> bytes list \<Rightarrow> (framing_error + bytes) \<times> u8" where
  "write_packets s [] = (Inr [], s)"
| "write_packets s (p # ps) =
     (case write_packet s p of
        (Inl e, s') \<Rightarrow> (Inl e, s')
      | (Inr b, s') \<Rightarrow>
          (case write_packets s' ps of
             (Inl e, s'') \<Rightarrow> (Inl e, s'')
           | (Inr bs, s'') \<Rightarrow> (Inr (b @ bs), s'')))"

fun read_packets :: "nat \<Rightarrow> u8 \<Rightarrow> bytes \<Rightarrow> (framing_error + bytes list \<times> bytes) \<times> u8" where
  "read_packets 0 s inp = (Inr ([], inp), s)"
| "read_packets (Suc n) s inp =
     (case read_packet s inp of
        (Inl e, s') \<Rightarrow> (Inl e, s')
      | (Inr (p, rest), s') \<Rightarrow>
          (case read_packets n s' rest of
             (Inl e, s'') \<Rightarrow> (Inl e, s'')
           | (Inr (ps, rest'), s'') \<Rightarrow> (Inr (p # ps, rest'), s'')))"

lemma read_write_packets:
  "write_packets s ps = (Inr bs, s') \<Longrightarrow>
   read_packets (length ps) s (bs @ rest) = (Inr (ps, rest), s')"
proof (induction ps arbitrary: s bs)
  case Nil
  then show ?case by simp
next
  case (Cons p ps)
  show ?case
  proof (cases "length p < MAX_PAYLOAD")
    case True
    then obtain bs' where b: "write_packets (s + 1) ps = (Inr bs', s')" "bs = packet_bytes s p @ bs'"
      using Cons.prems by (auto simp: write_packet_ok split: sum.splits prod.splits)
    show ?thesis
      using Cons.IH [OF b(1)] read_packet_bytes [OF True, of s "bs' @ rest"] b(2) by simp
  next
    case False
    then show ?thesis using Cons.prems by (simp add: write_packet_def)
  qed
qed

section \<open>Length-encoded integers\<close>

definition read_lenenc_int :: "bytes \<Rightarrow> (u64 \<times> nat) option" where
  "read_lenenc_int buf =
     (case buf of
        [] \<Rightarrow> None
      | first # rest \<Rightarrow>
          if first \<le> 0xFA then Some (ucast first, 1)
          else if first = 0xFB then None
          else if first = 0xFC then
            (case rest of b0 # b1 # _ \<Rightarrow> Some (ucast (from_le16 b0 b1), 3) | _ \<Rightarrow> None)
          else if first = 0xFD then
            (case rest of b0 # b1 # b2 # _ \<Rightarrow> Some (from_le24 b0 b1 b2, 4) | _ \<Rightarrow> None)
          else if first = 0xFE then
            (if length rest < 8 then None
             else Some (foldl (\<lambda>v (i, byte). v OR push_bit (i * 8) (ucast byte)) 0
                              (enumerate 0 (take 8 rest)), 9))
          else None)"

definition write_lenenc_int :: "u64 \<Rightarrow> bytes" where
  "write_lenenc_int v =
     (if v < 0xFB then [ucast v]
      else if v \<le> 0xFFFF then [0xFC] @ le16 (ucast v)
      else if v < 2 ^ 24 then [0xFD] @ le24 v
      else [0xFE] @ le64 v)"

definition read_nul_string :: "bytes \<Rightarrow> (bytes \<times> nat) option" where
  "read_nul_string buf =
     (if 0 \<in> set buf then
        (let pos = length (takeWhile (\<lambda>b. b \<noteq> 0) buf) in Some (take pos buf, pos + 1))
      else None)"

text \<open>Both readers return the number of bytes consumed; the callers drop them.\<close>

definition advance :: "(bytes \<Rightarrow> ('a \<times> nat) option) \<Rightarrow> bytes \<Rightarrow> ('a \<times> bytes) option" where
  "advance rd buf = map_option (\<lambda>(v, n). (v, drop n buf)) (rd buf)"

lemma bit_byte_at:
  "bit (push_bit k (ucast (ucast (drop_bit k v) :: u8)) :: u64) n \<longleftrightarrow>
     k \<le> n \<and> n < k + 8 \<and> bit (v :: u64) n"
  by (auto simp: bit_simps dest: bit_imp_le_length)

lemma from_le64_le64:
  "foldl (\<lambda>v (i, byte). v OR push_bit (i * 8) (ucast byte)) 0 (enumerate 0 (le64 v)) = v"
proof -
  have "foldl (\<lambda>v (i, byte). v OR push_bit (i * 8) (ucast byte)) 0 (enumerate 0 (le64 v)) =
      (ucast (ucast v :: u8) OR push_bit 8 (ucast (ucast (drop_bit 8 v) :: u8))
      OR push_bit 16 (ucast (ucast (drop_bit 16 v) :: u8))
      OR push_bit 24 (ucast (ucast (drop_bit 24 v) :: u8))
      OR push_bit 32 (ucast (ucast (drop_bit 32 v) :: u8))
      OR push_bit 40 (ucast (ucast (drop_bit 40 v) :: u8))
      OR push_bit 48 (ucast (ucast (drop_bit 48 v) :: u8))
      OR push_bit 56 (ucast (ucast (drop_bit 56 v) :: u8)) :: u64)" (is "_ = ?w")
    by (simp add: le64_def upt_rec or.assoc)
  also have "?w = v"
  proof (rule bit_word_eqI)
    fix n assume n: "n < LENGTH(64)"
    have "bit ?w n \<longleftrightarrow> n < 64 \<and> bit v n"
      using bit_byte_at [of 0 v n]
      by (simp only: bit_or_iff bit_byte_at drop_bit_0 push_bit_0_id id_apply)
        (cases "bit v n"; simp; presburger)
    then show "bit ?w n = bit v n" using n by simp
  qed
  finally show ?thesis .
qed

lemmas word_narrow = word_le_nat_alt word_unat_eq_iff unsigned_ucast_eq unsigned_take_bit_eq
  take_bit_nat_eq_self

lemma read_lenenc_write:
  "read_lenenc_int (write_lenenc_int v @ rest) = Some (v, length (write_lenenc_int v))"
proof -
  consider "v < 0xFB" | "\<not> v < 0xFB" "v \<le> 0xFFFF" | "\<not> v < 0xFB" "\<not> v \<le> 0xFFFF" "v < 2 ^ 24"
    | "\<not> v < 0xFB" "\<not> v \<le> 0xFFFF" "\<not> v < 2 ^ 24" by blast
  then show ?thesis
  proof cases
    case 1
    then have "(ucast v :: u8) \<le> 0xFA" "ucast (ucast v :: u8) = v"
      by (simp_all add: word_less_nat_alt word_narrow)
    then show ?thesis using 1 by (simp add: read_lenenc_int_def write_lenenc_int_def)
  next
    case 2
    have "ucast (ucast v :: u16) = v"
      using 2(2) by (simp add: word_narrow)
    moreover obtain a b where "le16 (ucast v) = [a, b]" "from_le16 a b = ucast v"
      by (rule le16_cons)
    ultimately show ?thesis
      using 2 by (simp add: read_lenenc_int_def write_lenenc_int_def)
  next
    case 3
    obtain a b c where "le24 v = [a, b, c]" "from_le24 a b c = v" by (rule le24_cons [OF 3(3)])
    then show ?thesis
      using 3 by (simp add: read_lenenc_int_def write_lenenc_int_def)
  next
    case 4
    then show ?thesis
      by (simp add: read_lenenc_int_def write_lenenc_int_def from_le64_le64 [simplified])
  qed
qed

interpretation lenenc: stream_codec "\<lambda>v. True" write_lenenc_int "advance read_lenenc_int"
  by unfold_locales (simp add: advance_def read_lenenc_write)

lemma read_nul_string_append:
  "0 \<notin> set s \<Longrightarrow> read_nul_string (s @ 0 # rest) = Some (s, length s + 1)"
proof -
  assume z: "0 \<notin> set s"
  have "takeWhile (\<lambda>b. b \<noteq> 0) (s @ 0 # rest) = s"
    using z by (subst takeWhile_append2) auto
  then show ?thesis by (simp add: read_nul_string_def Let_def)
qed

lemma read_nul_string_Some:
  assumes "read_nul_string b = Some (s, n)"
  obtains rest where "b = s @ 0 # rest" "0 \<notin> set s" "n = length s + 1"
proof -
  have "0 \<in> set b" using assms by (auto simp: read_nul_string_def split: if_splits)
  then obtain ys zs where b: "b = ys @ 0 # zs" "0 \<notin> set ys" by (meson split_list_first)
  then show thesis using assms that [of zs] by (auto simp: read_nul_string_append)
qed

interpretation nul_string: stream_codec "\<lambda>s. 0 \<notin> set s" "\<lambda>s. s @ [0]" "advance read_nul_string"
  by unfold_locales (simp add: advance_def read_nul_string_append)

section \<open>What the framing promises\<close>

lemma write_packets_ok:
  "\<forall>p \<in> set ps. length p < MAX_PAYLOAD \<Longrightarrow>
   \<exists>bs. write_packets s ps = (Inr bs, s + word_of_nat (length ps))"
proof (induction ps arbitrary: s)
  case (Cons p ps)
  then obtain bs where "write_packets (s + 1) ps = (Inr bs, s + 1 + word_of_nat (length ps))"
    by (metis list.set_intros(2))
  then show ?case using Cons.prems by (simp add: write_packet_ok add.assoc)
qed simp

text \<open>
  Packet framing. Any sequence of payloads below the 16 MiB limit can be written under one
  sequence counter, and a reader that starts from the same counter gets the payloads back, the bytes
  that follow untouched and both counters equal, also when the counter wraps past 255.
\<close>

theorem packets_roundtrip:
  assumes "\<forall>p \<in> set ps. length p < MAX_PAYLOAD"
  shows "\<exists>bs. write_packets s ps = (Inr bs, s + word_of_nat (length ps)) \<and>
    read_packets (length ps) s (bs @ rest) = (Inr (ps, rest), s + word_of_nat (length ps))"
  using write_packets_ok [OF assms] read_write_packets by blast

theorem packets_roundtrip_witness:
  "\<exists>bs. write_packets 255 [[1, 2], []] = (Inr bs, 255 + 2) \<and>
     read_packets 2 255 (bs @ [9]) = (Inr ([[1, 2], []], [9]), 255 + 2)"
  using packets_roundtrip [of "[[1, 2], []]" 255 "[9]"]
  by (simp add: MAX_PAYLOAD_def flip: numeral_2_eq_2 del: write_packets.simps read_packets.simps)

text \<open>
  Length-encoded integers. Every 64-bit value is read back from its encoding, whatever follows,
  with the number of bytes the encoding has; and no encoding is a prefix of the encoding of another
  value.
\<close>

theorem lenenc_roundtrip:
  "read_lenenc_int (write_lenenc_int v @ rest) = Some (v, length (write_lenenc_int v)) \<and>
   (write_lenenc_int v @ rest = write_lenenc_int w @ rest' \<longleftrightarrow> v = w \<and> rest = rest')"
  using read_lenenc_write lenenc.unique_reading by blast

end
