(* ===== verification/Wire.thy ===== *)
theory Wire
  imports Framing
begin

text \<open>
  \<open>crates/mw-net/src/wire.rs\<close>: the packets of a text result set. The values are the public
  enum of \<open>mysql_async\<close>; a float is a value of the type variable \<open>'f\<close>, already
  widened to \<open>f64\<close>, and the predicates and the printing of \<open>f64\<close> are the record
  \<open>f64_ops\<close>.
\<close>

definition SERVER_STATUS_AUTOCOMMIT :: u16 where
  "SERVER_STATUS_AUTOCOMMIT = 0x0002"

definition push_lenenc_bytes :: "bytes \<Rightarrow> bytes" where
  "push_lenenc_bytes b = write_lenenc_int (word_of_nat (length b)) @ b"

definition column_count_packet :: "u64 \<Rightarrow> bytes" where
  "column_count_packet n = write_lenenc_int n"

record column =
  col_schema :: string
  col_table :: string
  col_org_table :: string
  col_name :: string
  col_org_name :: string
  col_charset :: u16
  col_length :: u32
  col_type :: u8
  col_flags :: u16
  col_decimals :: u8

definition column_fixed :: "column \<Rightarrow> bytes" where
  "column_fixed c =
     le16 (col_charset c) @ le32 (col_length c) @ [col_type c] @ le16 (col_flags c) @
     [col_decimals c] @ [0, 0]"

definition column_def_packet :: "column \<Rightarrow> bytes" where
  "column_def_packet c =
     push_lenenc_bytes (as_bytes ''def'') @
     push_lenenc_bytes (as_bytes (col_schema c)) @
     push_lenenc_bytes (as_bytes (col_table c)) @
     push_lenenc_bytes (as_bytes (col_org_table c)) @
     push_lenenc_bytes (as_bytes (col_name c)) @
     push_lenenc_bytes (as_bytes (col_org_name c)) @
     write_lenenc_int 0x0c @ column_fixed c"

datatype 'f sql_value =
    VNull
  | VBytes bytes
  | VInt "64 word"
  | VUInt u64
  | VFloat 'f
  | VDouble 'f
  | VDate u16 u8 u8 u8 u8 u8 u32
  | VTime bool u32 u8 u8 u8 u32

record 'f f64_ops =
  f_is_nan :: "'f \<Rightarrow> bool"
  f_is_infinite :: "'f \<Rightarrow> bool"
  f_is_sign_negative :: "'f \<Rightarrow> bool"
  f_integral_small :: "'f \<Rightarrow> bool"
  f_show_0 :: "'f \<Rightarrow> string"
  f_show :: "'f \<Rightarrow> string"

definition format_float :: "'f f64_ops \<Rightarrow> 'f \<Rightarrow> string" where
  "format_float fo d =
     (if f_is_nan fo d then ''NaN''
      else if f_is_infinite fo d then (if f_is_sign_negative fo d then ''-inf'' else ''inf'')
      else if f_integral_small fo d then f_show_0 fo d
      else f_show fo d)"

text \<open>\<open>{:0n}\<close>: decimal, padded with zeros to at least \<open>n\<close> digits.\<close>

definition zpad :: "nat \<Rightarrow> nat \<Rightarrow> string" where
  "zpad n v = (let s = show_nat v in replicate (n - length s) (CHR ''0'') @ s)"

definition format_date :: "u16 \<Rightarrow> u8 \<Rightarrow> u8 \<Rightarrow> u8 \<Rightarrow> u8 \<Rightarrow> u8 \<Rightarrow> u32 \<Rightarrow> string" where
  "format_date y mo d h mi s us =
     (let date = zpad 4 (unat y) @ ''-'' @ zpad 2 (unat mo) @ ''-'' @ zpad 2 (unat d);
          time = zpad 2 (unat h) @ '':'' @ zpad 2 (unat mi) @ '':'' @ zpad 2 (unat s)
      in if h = 0 \<and> mi = 0 \<and> s = 0 \<and> us = 0 then date
         else if us = 0 then date @ '' '' @ time
         else date @ '' '' @ time @ ''.'' @ zpad 6 (unat us))"

definition format_time :: "bool \<Rightarrow> u32 \<Rightarrow> u8 \<Rightarrow> u8 \<Rightarrow> u8 \<Rightarrow> u32 \<Rightarrow> string" where
  "format_time neg days h mi s us =
     (let total_h = days * 24 + ucast h;
          body = (if neg then ''-'' else []) @ zpad 2 (unat total_h) @ '':'' @ zpad 2 (unat mi) @
                 '':'' @ zpad 2 (unat s)
      in if us = 0 then body else body @ ''.'' @ zpad 6 (unat us))"

fun value_text :: "'f f64_ops \<Rightarrow> 'f sql_value \<Rightarrow> bytes option" where
  "value_text fo VNull = None"
| "value_text fo (VBytes b) = Some b"
| "value_text fo (VInt n) = Some (as_bytes (show_int (sint n)))"
| "value_text fo (VUInt n) = Some (as_bytes (show_nat (unat n)))"
| "value_text fo (VFloat f) = Some (as_bytes (format_float fo f))"
| "value_text fo (VDouble d) = Some (as_bytes (format_float fo d))"
| "value_text fo (VDate y mo d h mi s us) = Some (as_bytes (format_date y mo d h mi s us))"
| "value_text fo (VTime neg days h mi s us) = Some (as_bytes (format_time neg days h mi s us))"

fun row_text_packet :: "'f f64_ops \<Rightarrow> 'f sql_value list \<Rightarrow> bytes" where
  "row_text_packet fo [] = []"
| "row_text_packet fo (v # vs) =
     (case value_text fo v of None \<Rightarrow> [0xFB] | Some b \<Rightarrow> push_lenenc_bytes b) @
     row_text_packet fo vs"

definition ok_eof_packet :: "u64 \<Rightarrow> u16 \<Rightarrow> bytes" where
  "ok_eof_packet affected_rows warnings =
     [0xFE] @ write_lenenc_int affected_rows @ write_lenenc_int 0 @
     le16 SERVER_STATUS_AUTOCOMMIT @ le16 warnings"

text \<open>The OK and ERR packets; the server's handshake and the router build the same bytes.\<close>

definition ok_packet :: bytes where
  "ok_packet = [0, 0, 0] @ le16 SERVER_STATUS_AUTOCOMMIT @ le16 0"

definition err_packet :: "u16 \<Rightarrow> string \<Rightarrow> string \<Rightarrow> bytes" where
  "err_packet code sqlstate msg =
     [0xFF] @ le16 code @ [char_byte (CHR ''#'')] @ as_bytes sqlstate @ as_bytes msg"

section \<open>Reading the fields back\<close>

definition read_lenenc_bytes :: "bytes \<Rightarrow> (bytes \<times> bytes) option" where
  "read_lenenc_bytes buf =
     (case read_lenenc_int buf of
        None \<Rightarrow> None
      | Some (n, k) \<Rightarrow>
          (if length buf < k + unat n then None
           else Some (take (unat n) (drop k buf), drop (k + unat n) buf)))"

definition short_bytes :: "bytes \<Rightarrow> bool" where
  "short_bytes b \<longleftrightarrow> length b < 2 ^ 64"

lemma read_push_lenenc:
  assumes "short_bytes b"
  shows "read_lenenc_bytes (push_lenenc_bytes b @ rest) = Some (b, rest)"
proof -
  have "unat (word_of_nat (length b) :: u64) = length b"
    using assms by (simp add: unat_of_nat short_bytes_def)
  then show ?thesis
    using read_lenenc_write [of "word_of_nat (length b)" "b @ rest"]
    by (simp add: read_lenenc_bytes_def push_lenenc_bytes_def)
qed

interpretation lenenc_bytes: stream_codec short_bytes push_lenenc_bytes read_lenenc_bytes
  by unfold_locales (rule read_push_lenenc)

text \<open>The client's reader of a text row: a NULL marker or a length-encoded string per column.\<close>

fun read_text_row :: "nat \<Rightarrow> bytes \<Rightarrow> (bytes option list \<times> bytes) option" where
  "read_text_row 0 buf = Some ([], buf)"
| "read_text_row (Suc n) buf =
     (case (if buf \<noteq> [] \<and> hd buf = 0xFB then Some (None, tl buf)
            else map_option (\<lambda>(b, r). (Some b, r)) (read_lenenc_bytes buf)) of
        None \<Rightarrow> None
      | Some (v, rest) \<Rightarrow>
          (case read_text_row n rest of
             None \<Rightarrow> None
           | Some (vs, rest') \<Rightarrow> Some (v # vs, rest')))"

lemma write_lenenc_first:
  obtains x xs where "write_lenenc_int v = x # xs" "x \<noteq> 0xFB"
proof (cases "v < 0xFB")
  case True
  then have "(ucast v :: u8) \<le> 0xFA" by (simp add: word_less_nat_alt word_narrow)
  then have "(ucast v :: u8) \<noteq> 0xFB" by auto
  then show thesis using that True by (simp add: write_lenenc_int_def)
next
  case False
  then have "\<exists>x xs. write_lenenc_int v = x # xs \<and> x \<noteq> 0xFB" by (simp add: write_lenenc_int_def)
  then show thesis using that by blast
qed

lemma read_row_text:
  "\<forall>v \<in> set row. \<forall>b. value_text fo v = Some b \<longrightarrow> short_bytes b \<Longrightarrow>
   read_text_row (length row) (row_text_packet fo row @ rest) = Some (map (value_text fo) row, rest)"
proof (induction row)
  case Nil
  then show ?case by simp
next
  case (Cons v row)
  show ?case
  proof (cases "value_text fo v")
    case None
    then show ?thesis using Cons by simp
  next
    case (Some b)
    obtain x xs where "push_lenenc_bytes b = x # xs" "x \<noteq> 0xFB"
      by (metis write_lenenc_first append_Cons push_lenenc_bytes_def)
    then show ?thesis
      using Cons Some read_push_lenenc [of b "row_text_packet fo row @ rest"] by simp
  qed
qed

lemma column_fixed_length [len_simps]: "length (column_fixed c) = 0x0c"
  by (simp add: column_fixed_def)

section \<open>What a client reads\<close>

text \<open>
  Text rows. A client that reads a row packet with the number of columns of the row gets, in
  order, the text of every value and a NULL for every null, and the bytes after the row.
\<close>

theorem text_row_roundtrip:
  assumes "\<forall>v \<in> set row. \<forall>b. value_text fo v = Some b \<longrightarrow> short_bytes b"
  shows "read_text_row (length row) (row_text_packet fo row @ rest)
    = Some (map (value_text fo) row, rest)"
  by (rule read_row_text [OF assms])

theorem text_row_roundtrip_witness:
  "\<forall>fo :: unit f64_ops. read_text_row 3 (row_text_packet fo [VNull, VBytes [1, 2], VBytes []] @ [7])
    = Some ([None, Some [1, 2], Some []], [7])"
proof
  fix fo :: "unit f64_ops"
  show "read_text_row 3 (row_text_packet fo [VNull, VBytes [1, 2], VBytes []] @ [7])
    = Some ([None, Some [1, 2], Some []], [7])"
    using text_row_roundtrip [of "[VNull, VBytes [1, 2], VBytes []]" fo "[7]"]
    by (simp add: short_bytes_def numeral_3_eq_3)
qed

end
