(* ===== verification/Mysql_Server.thy ===== *)
theory Mysql_Server
  imports Wire Mutate Utf8 "HOL-Library.Sublist"
begin

text \<open>
  \<open>crates/mw-net/src/mysql_server.rs\<close>: the server side of the MySQL connection phase. The
  handshake is a function of the bytes the client sends: it returns its result, the packets
  written and the input left unread. The random scramble bytes and SHA-1 are arguments.
\<close>

definition SERVER_VERSION :: bytes where
  "SERVER_VERSION = as_bytes ''8.4.0-mdlwhere'' @ [0]"

definition NATIVE_PLUGIN :: bytes where
  "NATIVE_PLUGIN = as_bytes ''mysql_native_password''"

definition AUTH_PLUGIN :: bytes where
  "AUTH_PLUGIN = NATIVE_PLUGIN @ [0]"

definition CLIENT_PROTOCOL_41 :: u32 where "CLIENT_PROTOCOL_41 = 0x00000200"

definition CLIENT_SECURE_CONNECTION :: u32 where "CLIENT_SECURE_CONNECTION = 0x00008000"

definition CLIENT_PLUGIN_AUTH :: u32 where "CLIENT_PLUGIN_AUTH = 0x00080000"

definition CLIENT_CONNECT_WITH_DB :: u32 where "CLIENT_CONNECT_WITH_DB = 0x00000008"

definition CLIENT_DEPRECATE_EOF :: u32 where "CLIENT_DEPRECATE_EOF = 0x01000000"

definition ER_ACCESS_DENIED_ERROR :: u16 where "ER_ACCESS_DENIED_ERROR = 1045"

definition ER_HANDSHAKE_ERROR :: u16 where "ER_HANDSHAKE_ERROR = 1043"

lemmas client_caps_defs = CLIENT_PROTOCOL_41_def CLIENT_SECURE_CONNECTION_def
  CLIENT_PLUGIN_AUTH_def CLIENT_CONNECT_WITH_DB_def CLIENT_DEPRECATE_EOF_def

record accepted_session =
  as_env_name :: name
  as_client_username :: string
  as_database :: "string option"

datatype handshake_error =
    HsFraming framing_error
  | ClientClosed
  | Malformed string
  | LegacyProtocol
  | AuthFailed
  | SliceOutOfRange

definition build_initial_handshake :: "u32 \<Rightarrow> bytes \<Rightarrow> bytes" where
  "build_initial_handshake thread_id scramble =
     (let caps = CLIENT_PROTOCOL_41 OR CLIENT_SECURE_CONNECTION OR CLIENT_PLUGIN_AUTH
                 OR CLIENT_CONNECT_WITH_DB OR CLIENT_DEPRECATE_EOF
      in [10] @ SERVER_VERSION @ le32 thread_id @ take 8 scramble @ [0] @
         le16 (ucast caps) @ [0x21] @ le16 SERVER_STATUS_AUTOCOMMIT @
         le16 (ucast (drop_bit 16 caps)) @ [21] @ replicate 10 0 @ drop 8 scramble @ [0] @
         AUTH_PLUGIN)"

definition build_auth_switch_request :: "bytes \<Rightarrow> bytes" where
  "build_auth_switch_request scramble = [0xFE] @ NATIVE_PLUGIN @ [0] @ scramble @ [0]"

section \<open>The handshake response\<close>

record parsed_response =
  client_caps :: u32
  username :: bytes
  auth_response :: bytes
  database :: "bytes option"
  auth_plugin :: "bytes option"

text \<open>\<open>&buf[cur..]\<close>, which panics past the end.\<close>

definition slice_from :: "bytes \<Rightarrow> nat \<Rightarrow> handshake_error + bytes" where
  "slice_from buf cur = (if cur \<le> length buf then Inr (drop cur buf) else Inl SliceOutOfRange)"

definition nul_string_at :: "bytes \<Rightarrow> nat \<Rightarrow> string \<Rightarrow> handshake_error + bytes \<times> nat" where
  "nul_string_at buf cur what =
     (case slice_from buf cur of
        Inl e \<Rightarrow> Inl e
      | Inr rest \<Rightarrow>
          (case read_nul_string rest of None \<Rightarrow> Inl (Malformed what) | Some (s, n) \<Rightarrow> Inr (s, cur + n)))"

definition parse_auth_response :: "u32 \<Rightarrow> bytes \<Rightarrow> nat \<Rightarrow> handshake_error + bytes \<times> nat" where
  "parse_auth_response caps buf cur =
     (if caps AND CLIENT_SECURE_CONNECTION \<noteq> 0 then
        (if cur \<ge> length buf then Inl (Malformed ''missing auth-response length'')
         else let n = unat (buf ! cur)
              in if cur + 1 + n > length buf then Inl (Malformed ''auth-response truncated'')
                 else Inr (take n (drop (cur + 1) buf), cur + 1 + n))
      else nul_string_at buf cur ''missing legacy auth-response NUL'')"

definition optional_nul_string ::
  "bool \<Rightarrow> bytes \<Rightarrow> nat \<Rightarrow> string \<Rightarrow> handshake_error + bytes option \<times> nat" where
  "optional_nul_string present buf cur what =
     (if \<not> present then Inr (None, cur)
      else case nul_string_at buf cur what of
             Inl e \<Rightarrow> Inl e
           | Inr (s, cur') \<Rightarrow> Inr (Some s, cur'))"

definition parse_handshake_response :: "bytes \<Rightarrow> handshake_error + parsed_response" where
  "parse_handshake_response buf =
     (if length buf < 32 then Inl (Malformed ''response shorter than fixed header'')
      else
        (let caps = from_le32 (buf ! 0) (buf ! 1) (buf ! 2) (buf ! 3)
         in if caps AND CLIENT_PROTOCOL_41 = 0 then Inl LegacyProtocol
            else case nul_string_at buf 32 ''missing username NUL'' of
              Inl e \<Rightarrow> Inl e
            | Inr (user, cur1) \<Rightarrow>
            (case parse_auth_response caps buf cur1 of
              Inl e \<Rightarrow> Inl e
            | Inr (ar, cur2) \<Rightarrow>
            (case optional_nul_string (caps AND CLIENT_CONNECT_WITH_DB \<noteq> 0) buf cur2
                    ''missing database NUL'' of
              Inl e \<Rightarrow> Inl e
            | Inr (db, cur3) \<Rightarrow>
            (case optional_nul_string (caps AND CLIENT_PLUGIN_AUTH \<noteq> 0) buf cur3
                    ''missing auth-plugin NUL'' of
              Inl e \<Rightarrow> Inl e
            | Inr (plugin, cur4) \<Rightarrow>
                Inr \<lparr>client_caps = caps, username = user, auth_response = ar, database = db,
                     auth_plugin = plugin\<rparr>)))))"

section \<open>The exchange\<close>

definition sanitize_scramble :: "bytes \<Rightarrow> bytes" where
  "sanitize_scramble raw = map (\<lambda>b. 0x21 + b mod (0x7e - 0x21 + 1)) raw"

definition needs_switch :: "parsed_response \<Rightarrow> bool" where
  "needs_switch p =
     (case auth_plugin p of
        Some plugin \<Rightarrow> plugin \<noteq> NATIVE_PLUGIN \<or> length (auth_response p) \<noteq> 20
      | None \<Rightarrow> length (auth_response p) \<noteq> 20)"

definition token_ok :: "(bytes \<Rightarrow> bytes) \<Rightarrow> bytes \<Rightarrow> bytes \<Rightarrow> client_auth_kind \<Rightarrow> bool" where
  "token_ok sha1 scramble resp auth_kind =
     (case auth_kind of
        NativePassword stored \<Rightarrow> verify_native_response sha1 scramble resp stored
      | PgCleartext _ \<Rightarrow> False)"

text \<open>A packet write of the handshake: its packets are far below the limit, so it cannot fail.\<close>

definition put :: "u8 \<Rightarrow> bytes \<Rightarrow> bytes \<times> u8" where
  "put s p = (packet_bytes s p, s + 1)"

text \<open>What follows a parsed response: \<open>out\<close> is what has been written so far.\<close>

definition finish_handshake ::
  "(bytes \<Rightarrow> bytes) \<Rightarrow> bytes \<Rightarrow> name \<Rightarrow> client_auth_kind \<Rightarrow> parsed_response \<Rightarrow> bytes \<Rightarrow> u8 \<Rightarrow> bytes
     \<Rightarrow> (handshake_error + accepted_session) \<times> bytes" where
  "finish_handshake sha1 scramble env auth_kind p resp s out =
     (let user = from_utf8_lossy (username p);
          user_ok = (user = env);
          tok_ok = token_ok sha1 scramble resp auth_kind
      in if \<not> (user_ok \<and> tok_ok)
         then (Inl AuthFailed,
               out @ fst (put s (err_packet ER_ACCESS_DENIED_ERROR ''28000'' ''access denied'')))
         else (Inr \<lparr>as_env_name = env, as_client_username = user,
                    as_database = map_option from_utf8_lossy (database p)\<rparr>,
               out @ fst (put s ok_packet)))"

definition handshake ::
  "(bytes \<Rightarrow> bytes) \<Rightarrow> bytes \<Rightarrow> name \<Rightarrow> client_auth_kind \<Rightarrow> u32 \<Rightarrow> bytes
     \<Rightarrow> (handshake_error + accepted_session) \<times> bytes \<times> bytes" where
  "handshake sha1 raw env auth_kind thread_id inp =
     (let scramble = sanitize_scramble raw;
          (out, s1) = put 0 (build_initial_handshake thread_id scramble)
      in case read_packet s1 inp of
           (Inl (UnexpectedEof w), s2) \<Rightarrow> (Inl ClientClosed, out, [])
         | (Inl e, s2) \<Rightarrow> (Inl (HsFraming e), out, [])
         | (Inr (response, rest), s2) \<Rightarrow>
         (case parse_handshake_response response of
           Inl e \<Rightarrow>
             (Inl e, out @ fst (put s2 (err_packet ER_HANDSHAKE_ERROR ''08S01'' ''bad handshake'')),
              rest)
         | Inr p \<Rightarrow>
             if needs_switch p then
               (let (sw, s3) = put s2 (build_auth_switch_request scramble)
                in case read_packet s3 rest of
                     (Inl (UnexpectedEof w), s4) \<Rightarrow> (Inl ClientClosed, out @ sw, [])
                   | (Inl e, s4) \<Rightarrow> (Inl (HsFraming e), out @ sw, [])
                   | (Inr (resp, rest'), s4) \<Rightarrow>
                       (let (r, o') = finish_handshake sha1 scramble env auth_kind p resp s4 (out @ sw)
                        in (r, o', rest')))
             else
               (let (r, o') = finish_handshake sha1 scramble env auth_kind p (auth_response p) s2 out
                in (r, o', rest))))"

text \<open>The response a client of the test helper sends.\<close>

definition build_handshake_response :: "bytes \<Rightarrow> bytes \<Rightarrow> bytes option \<Rightarrow> bytes \<Rightarrow> bytes" where
  "build_handshake_response user auth20 db plugin =
     (let caps0 = CLIENT_PROTOCOL_41 OR CLIENT_SECURE_CONNECTION OR CLIENT_PLUGIN_AUTH;
          caps = (if db \<noteq> None then caps0 OR CLIENT_CONNECT_WITH_DB else caps0)
      in le32 caps @ le32 (push_bit 24 1) @ [0x21] @ replicate 23 0 @ user @ [0] @ [20] @ auth20 @
         (case db of Some d \<Rightarrow> d @ [0] | None \<Rightarrow> []) @ plugin @ [0])"

section \<open>Parsing never leaves the buffer\<close>

lemma nul_string_at_bound:
  assumes "nul_string_at buf cur what = Inr (s, cur')"
  shows "cur' \<le> length buf \<and> cur < cur'"
  using assms
  by (auto simp: nul_string_at_def slice_from_def split: if_splits option.splits
      elim!: read_nul_string_Some dest: arg_cong [of "drop cur buf" _ length])

lemma nul_string_at_no_panic: "cur \<le> length buf \<Longrightarrow> nul_string_at buf cur what \<noteq> Inl SliceOutOfRange"
  by (simp add: nul_string_at_def slice_from_def split: option.splits)

lemma parse_auth_response_bound:
  assumes "parse_auth_response caps buf cur = Inr (ar, cur')" and "cur \<le> length buf"
  shows "cur' \<le> length buf"
  using assms nul_string_at_bound [of buf cur]
  by (auto simp: parse_auth_response_def Let_def split: if_splits)

lemma parse_auth_response_no_panic:
  "cur \<le> length buf \<Longrightarrow> parse_auth_response caps buf cur \<noteq> Inl SliceOutOfRange"
  by (auto simp: parse_auth_response_def Let_def nul_string_at_no_panic)

lemma optional_nul_string_bound:
  assumes "optional_nul_string present buf cur what = Inr (s, cur')" and "cur \<le> length buf"
  shows "cur' \<le> length buf"
  using assms nul_string_at_bound [of buf cur what]
  by (auto simp: optional_nul_string_def split: if_splits sum.splits)

lemma optional_nul_string_no_panic:
  "cur \<le> length buf \<Longrightarrow> optional_nul_string present buf cur what \<noteq> Inl SliceOutOfRange"
  using nul_string_at_no_panic [of cur buf what]
  by (auto simp: optional_nul_string_def split: sum.splits)

lemma parse_no_panic: "parse_handshake_response buf \<noteq> Inl SliceOutOfRange"
  using nul_string_at_no_panic [of 32 buf] nul_string_at_bound [of buf 32]
    parse_auth_response_no_panic [of _ buf] parse_auth_response_bound [of _ buf]
    optional_nul_string_no_panic [of _ buf] optional_nul_string_bound [of _ buf]
  by (auto simp: parse_handshake_response_def Let_def split: sum.splits prod.splits)

section \<open>A client's response is read back\<close>

lemma nul_string_at_append:
  "cur = length pre \<Longrightarrow> 0 \<notin> set s \<Longrightarrow>
   nul_string_at (pre @ s @ 0 # rest) cur what = Inr (s, length (pre @ s @ [0]))"
  by (simp add: nul_string_at_def slice_from_def read_nul_string_append)

lemma parse_auth_response_append:
  assumes "cur = length pre" and "caps AND CLIENT_SECURE_CONNECTION \<noteq> 0" and "length ar = 20"
  shows "parse_auth_response caps (pre @ [20] @ ar @ rest) cur = Inr (ar, length (pre @ [20] @ ar))"
  using assms by (simp add: parse_auth_response_def Let_def nth_append)

definition response_caps :: "bool \<Rightarrow> u32" where
  "response_caps with_db =
     (if with_db then 0x00088208 else 0x00088200)"

lemma response_caps_bits:
  "response_caps b AND CLIENT_PROTOCOL_41 \<noteq> 0" "response_caps b AND CLIENT_SECURE_CONNECTION \<noteq> 0"
  "response_caps b AND CLIENT_PLUGIN_AUTH \<noteq> 0"
  "(response_caps b AND CLIENT_CONNECT_WITH_DB \<noteq> 0) = b"
  by (simp_all add: response_caps_def client_caps_defs)

lemma build_handshake_response_caps:
  "build_handshake_response user ar db plugin =
     le32 (response_caps (db \<noteq> None)) @ le32 (push_bit 24 1) @ [0x21] @ replicate 23 0 @ user @ [0] @
     [20] @ ar @ (case db of Some d \<Rightarrow> d @ [0] | None \<Rightarrow> []) @ plugin @ [0]"
  by (simp add: build_handshake_response_def response_caps_def client_caps_defs Let_def)

lemma parse_build_handshake_response:
  assumes "0 \<notin> set user" and "length ar = 20" and "\<forall>d. db = Some d \<longrightarrow> 0 \<notin> set d"
    and "0 \<notin> set plugin"
  shows "parse_handshake_response (build_handshake_response user ar db plugin) =
     Inr \<lparr>client_caps = response_caps (db \<noteq> None), username = user, auth_response = ar,
          database = db, auth_plugin = Some plugin\<rparr>"
proof -
  let ?caps = "response_caps (db \<noteq> None)"
  let ?h = "le32 ?caps @ le32 (push_bit 24 1) @ [0x21] @ replicate 23 0 :: bytes"
  let ?dbs = "case db of Some d \<Rightarrow> d @ [0] | None \<Rightarrow> []"
  let ?buf = "build_handshake_response user ar db plugin"
  have buf: "?buf = ?h @ user @ 0 # [20] @ ar @ ?dbs @ plugin @ [0]"
    by (simp add: build_handshake_response_caps)
  obtain a b c d where le: "le32 ?caps = [a, b, c, d]" "from_le32 a b c d = ?caps"
    by (rule le32_cons)
  have hd: "from_le32 (?buf ! 0) (?buf ! 1) (?buf ! 2) (?buf ! 3) = ?caps"
    using le by (simp add: buf)
  have len: "\<not> length ?buf < 32" by (simp add: buf)
  have user: "nul_string_at ?buf 32 what = Inr (user, length (?h @ user @ [0]))" for what
    unfolding buf using assms(1) by (intro nul_string_at_append) simp_all
  have auth: "parse_auth_response ?caps ?buf (length (?h @ user @ [0]))
      = Inr (ar, length (?h @ user @ [0] @ [20] @ ar))"
    using parse_auth_response_append [where pre = "?h @ user @ [0]" and caps = ?caps and ar = ar
        and rest = "?dbs @ plugin @ [0]", OF refl response_caps_bits(2) assms(2)]
    by (simp add: buf)
  have dbr: "optional_nul_string (db \<noteq> None) ?buf (length (?h @ user @ [0] @ [20] @ ar)) what
      = Inr (db, length (?h @ user @ [0] @ [20] @ ar @ ?dbs))" for what
  proof (cases db)
    case None
    then show ?thesis by (simp add: optional_nul_string_def)
  next
    case (Some dd)
    then show ?thesis
      using nul_string_at_append [OF refl, of dd "?h @ user @ [0] @ [20] @ ar" "plugin @ [0]" what]
        assms(3) buf
      by (simp add: optional_nul_string_def)
  qed
  have plug: "optional_nul_string True ?buf (length (?h @ user @ [0] @ [20] @ ar @ ?dbs)) what
      = Inr (Some plugin, length ?buf)" for what
    using nul_string_at_append [OF refl, of plugin "?h @ user @ [0] @ [20] @ ar @ ?dbs" "[]" what]
      assms(4)
    by (simp add: optional_nul_string_def buf)
  note bits = response_caps_bits(1) [of "db \<noteq> None", THEN eq_False [THEN iffD2]]
    response_caps_bits(3) [of "db \<noteq> None", THEN eq_True [THEN iffD2]]
    response_caps_bits(4) [of "db \<noteq> None"]
  show ?thesis
    unfolding parse_handshake_response_def Let_def hd
    by (simp only: len user auth dbr plug bits if_False sum.case prod.case)
qed

section \<open>Who is let in\<close>

lemma finish_handshake_Inr:
  "finish_handshake sha1 scr env ak p resp s out = (Inr ses, out') \<Longrightarrow>
   from_utf8_lossy (username p) = env \<and> token_ok sha1 scr resp ak \<and> as_env_name ses = env \<and>
   as_client_username ses = env"
  by (auto simp: finish_handshake_def Let_def split: if_splits)

lemma handshake_accepts_only:
  assumes "handshake sha1 raw env ak tid inp = (Inr ses, out, rest)"
  shows "as_env_name ses = env \<and> as_client_username ses = env \<and>
    (\<exists>resp. token_ok sha1 (sanitize_scramble raw) resp ak)"
  using assms
  by (auto simp: handshake_def Let_def put_def split: sum.splits prod.splits framing_error.splits
      if_splits dest!: finish_handshake_Inr)

lemma handshake_no_panic: "fst (handshake sha1 raw env ak tid inp) \<noteq> Inl SliceOutOfRange"
  using parse_no_panic
  by (auto simp: handshake_def finish_handshake_def Let_def put_def
      split: sum.splits prod.splits framing_error.splits if_splits)

lemma length_sanitize [simp]: "length (sanitize_scramble raw) = length raw"
  by (simp add: sanitize_scramble_def)

lemma sanitize_printable: "b \<in> set (sanitize_scramble raw) \<Longrightarrow> 0x21 \<le> b \<and> b \<le> 0x7e"
proof -
  assume "b \<in> set (sanitize_scramble raw)"
  then obtain r :: u8 where b: "b = 0x21 + r mod 94" by (auto simp: sanitize_scramble_def)
  have "unat (r mod 94) < 94" by (simp add: unat_mod)
  then have "unat b = 33 + unat (r mod 94)"
    unfolding b by (subst unat_word_ariths) simp
  then show ?thesis using \<open>unat (r mod 94) < 94\<close> by (simp add: word_le_nat_alt)
qed

lemma native_plugin_no_nul: "0 \<notin> set NATIVE_PLUGIN"
  by (simp add: NATIVE_PLUGIN_def char_byte_def)

text \<open>A client that knows the token and answers the scramble of the greeting is accepted.\<close>

lemma handshake_accepts_token:
  assumes sha: "\<And>x. length (sha1 x) = 20" and env: "utf8_text env" "0 \<notin> set (as_bytes env)"
    and db: "\<forall>d. db = Some d \<longrightarrow> 0 \<notin> set d"
    and short: "length (build_handshake_response (as_bytes env) ar db NATIVE_PLUGIN) < MAX_PAYLOAD"
    and ar: "ar = native_response sha1 (as_bytes token) (sanitize_scramble raw)"
    and ak: "ak = NativePassword (double_sha1 sha1 (as_bytes token))"
  shows "\<exists>out. handshake sha1 raw env ak tid
      (packet_bytes 1 (build_handshake_response (as_bytes env) ar db NATIVE_PLUGIN) @ rest)
    = (Inr \<lparr>as_env_name = env, as_client_username = env,
            as_database = map_option from_utf8_lossy db\<rparr>, out, rest)"
proof -
  let ?resp = "build_handshake_response (as_bytes env) ar db NATIVE_PLUGIN"
  have len: "length ar = 20" by (simp add: ar native_response_def Let_def)
  have parse: "parse_handshake_response ?resp =
      Inr \<lparr>client_caps = response_caps (db \<noteq> None), username = as_bytes env, auth_response = ar,
          database = db, auth_plugin = Some NATIVE_PLUGIN\<rparr>"
    by (rule parse_build_handshake_response [OF env(2) len db native_plugin_no_nul])
  have tok: "token_ok sha1 (sanitize_scramble raw) ar ak"
    using native_response_accepted [OF sha] by (simp add: token_ok_def ak ar)
  show ?thesis
    using read_packet_bytes [OF short, of 1 rest] parse tok len
    by (simp add: handshake_def put_def needs_switch_def finish_handshake_def
        from_utf8_lossy_as_bytes [OF env(1)] Let_def)
qed

section \<open>What the handshake promises\<close>

lemma sublist_take_drop: "sublist (take n (drop k xs)) xs"
  by (metis append_take_drop_id sublist_appendI)

lemma nul_string_at_sub:
  "nul_string_at buf cur what = Inr (s, cur') \<Longrightarrow> sublist s buf"
  by (auto simp: nul_string_at_def slice_from_def read_nul_string_def Let_def sublist_take_drop
      split: if_splits option.splits)

lemma parse_response_sub:
  assumes "parse_handshake_response buf = Inr p"
  shows "sublist (auth_response p) buf"
proof -
  obtain caps cur cur' where "parse_auth_response caps buf cur = Inr (auth_response p, cur')"
    using assms by (auto simp: parse_handshake_response_def Let_def split: if_splits sum.splits)
  then show ?thesis
    using sublist_take_drop [of _ _ buf]
    by (auto simp: parse_auth_response_def Let_def split: if_splits dest: nul_string_at_sub) metis
qed

lemma read_packet_sub:
  "read_packet s inp = (Inr (pkt, rest), s') \<Longrightarrow> sublist pkt inp \<and> suffix rest inp"
  by (auto simp: read_packet_def Let_def split: list.splits sum.splits prod.splits if_splits
      intro!: sublist_Cons_right [THEN iffD2] sublist_take suffix_ConsI suffix_drop)

lemma handshake_response_from_client:
  assumes "handshake sha1 raw env ak tid inp = (Inr ses, out, rest)"
  shows "\<exists>resp. token_ok sha1 (sanitize_scramble raw) resp ak \<and> sublist resp inp"
proof -
  let ?scr = "sanitize_scramble raw"
  obtain pkt rest1 s2 p where r: "read_packet 1 inp = (Inr (pkt, rest1), s2)"
    "parse_handshake_response pkt = Inr p"
    using assms by (auto simp: handshake_def Let_def put_def
        split: sum.splits prod.splits framing_error.splits if_splits)
  show ?thesis
  proof (cases "needs_switch p")
    case True
    obtain resp rest2 s4 where sw: "read_packet (s2 + 1) rest1 = (Inr (resp, rest2), s4)"
      "token_ok sha1 ?scr resp ak"
      using assms r True by (auto simp: handshake_def Let_def put_def
          split: sum.splits prod.splits framing_error.splits dest!: finish_handshake_Inr)
    then show ?thesis
      using read_packet_sub [OF r(1)] read_packet_sub [OF sw(1)]
      by (meson suffix_imp_sublist sublist_order.order_trans)
  next
    case False
    have "token_ok sha1 ?scr (auth_response p) ak"
      using assms r False by (auto simp: handshake_def Let_def put_def
          split: sum.splits prod.splits dest!: finish_handshake_Inr)
    then show ?thesis
      using read_packet_sub [OF r(1)] parse_response_sub [OF r(2)]
      by (meson sublist_order.order_trans)
  qed
qed

text \<open>
  C18 (MySQL authentication). A client is let in only as the user named like the environment, only when
  the environment has a native-password verifier, and only when bytes it sent are a valid response to
  the scramble of this connection under that verifier.
\<close>

theorem mysql_handshake_authenticates:
  assumes "handshake sha1 raw env ak tid inp = (Inr ses, out, rest)"
  shows "as_env_name ses = env \<and> as_client_username ses = env \<and>
    (\<exists>resp stored. ak = NativePassword stored \<and> sublist resp inp \<and>
       verify_native_response sha1 (sanitize_scramble raw) resp stored)"
  using handshake_accepts_only [OF assms] handshake_response_from_client [OF assms]
  by (auto simp: token_ok_def split: client_auth_kind.splits)

theorem mysql_handshake_authenticates_witness:
  "\<exists>ses inp out rest. handshake (\<lambda>b. replicate 20 0) (replicate 20 5) ''dev''
       (NativePassword (replicate 20 0)) 1 inp = (Inr ses, out, rest) \<and>
     as_env_name ses = ''dev'' \<and>
     (\<exists>resp. sublist resp inp \<and>
        verify_native_response (\<lambda>b. replicate 20 0) (sanitize_scramble (replicate 20 5)) resp
          (replicate 20 0))"
proof -
  let ?sha = "\<lambda>b :: bytes. replicate 20 0 :: bytes" and ?raw = "replicate 20 5 :: bytes"
  let ?ar = "native_response ?sha (as_bytes ''t'') (sanitize_scramble ?raw)"
  let ?pkt = "build_handshake_response (as_bytes ''dev'') ?ar None NATIVE_PLUGIN"
  have len: "length ?ar = 20" by (simp add: native_response_def Let_def)
  have "\<exists>out. handshake ?sha ?raw ''dev'' (NativePassword (double_sha1 ?sha (as_bytes ''t''))) 1
      (packet_bytes 1 ?pkt @ []) = (Inr \<lparr>as_env_name = ''dev'', as_client_username = ''dev'',
         as_database = map_option from_utf8_lossy None\<rparr>, out, [])"
  proof (rule handshake_accepts_token [where token = "''t''"])
    show "utf8_text ''dev''" unfolding utf8_text_def
      by (rule valid_utf8_ascii) (simp add: char_byte_def)
    show "length ?pkt < MAX_PAYLOAD"
      using len by (simp add: build_handshake_response_caps NATIVE_PLUGIN_def MAX_PAYLOAD_def)
  qed (simp_all add: char_byte_def)
  then obtain ses inp out rest where h: "handshake ?sha ?raw ''dev'' (NativePassword (replicate 20 0))
      1 inp = (Inr ses, out, rest)"
    by (auto simp: double_sha1_def)
  show ?thesis using mysql_handshake_authenticates [OF h] h by auto
qed

text \<open>
  MySQL handshake safety: Whatever bytes a client sends before it is authenticated, the handshake
  ends with a session or an error value: no slice of the response leaves its buffer, so no connection
  can panic the server there.
\<close>

theorem mysql_handshake_never_panics:
  "fst (handshake sha1 raw env ak tid inp) \<noteq> Inl SliceOutOfRange"
  by (rule handshake_no_panic)

end
