(* ===== verification/Router.thy ===== *)
theory Router
  imports Firewall_Gate Audit_Log Mysql_Server
begin

text \<open>
  \<open>crates/mw-net/src/router.rs\<close>: the command loop of an authenticated MySQL session. The
  loop is a function of the bytes the client sends; what it does is a trace of events: packets
  written, audit records, and statements handed to the backend. The backend pool is the record
  \<open>backend_ops\<close> over a state of its own.

  A panic (the log line of a denial slices the statement at byte 64) is the outcome
  \<open>Panicked\<close>.
\<close>

definition ER_PARSE_ERROR :: u16 where "ER_PARSE_ERROR = 1064"

definition ER_NOT_ALLOWED_COMMAND :: u16 where "ER_NOT_ALLOWED_COMMAND = 1148"

definition ER_INTERNAL :: u16 where "ER_INTERNAL = 1815"

datatype router_error =
    RouterFraming framing_error
  | EmptyCommand
  | BackendFailed string

record 'f query_result =
  qr_columns :: "column list option"
  qr_rows :: "(string + 'f sql_value list) list"

record ('f, 'b) backend_ops =
  pool_get :: "'b \<Rightarrow> (string + unit) \<times> 'b"
  query_iter :: "string \<Rightarrow> 'b \<Rightarrow> (string + 'f query_result) \<times> 'b"

record ('x, 'f, 'b) router_env =
  re_parser :: "'x sqlparser"
  re_audit :: audit_env
  re_floats :: "'f f64_ops"
  re_backend :: "('f, 'b) backend_ops"
  re_env_name :: name
  re_client_user :: string
  re_policy :: policy
  re_info_enabled :: bool

datatype router_event =
    Wrote bytes
  | Audited audit_event
  | Queried string

datatype outcome =
    Next
  | Closed
  | Failed router_error
  | Panicked

section \<open>Writing packets\<close>

definition send :: "u8 \<Rightarrow> bytes \<Rightarrow> outcome \<times> u8 \<times> router_event list" where
  "send s p =
     (case write_packet s p of
        (Inl e, s') \<Rightarrow> (Failed (RouterFraming e), s', [])
      | (Inr b, s') \<Rightarrow> (Next, s', [Wrote b]))"

fun send_all :: "u8 \<Rightarrow> bytes list \<Rightarrow> outcome \<times> u8 \<times> router_event list" where
  "send_all s [] = (Next, s, [])"
| "send_all s (p # ps) =
     (case send s p of
        (Next, s', ev) \<Rightarrow> (let (r, s'', ev') = send_all s' ps in (r, s'', ev @ ev'))
      | other \<Rightarrow> other)"

text \<open>The row loop: the outcome, and the number of rows sent.\<close>

fun send_rows ::
  "'f f64_ops \<Rightarrow> u8 \<Rightarrow> (string + 'f sql_value list) list \<Rightarrow> u64
     \<Rightarrow> outcome \<times> u64 \<times> u8 \<times> router_event list" where
  "send_rows fo s [] n = (Next, n, s, [])"
| "send_rows fo s (Inl e # rows) n = (Failed (BackendFailed e), n, s, [])"
| "send_rows fo s (Inr row # rows) n =
     (case send s (row_text_packet fo row) of
        (Next, s', ev) \<Rightarrow> (let (r, n', s'', ev') = send_rows fo s' rows (n + 1)
                          in (r, n', s'', ev @ ev'))
      | (r, s', ev) \<Rightarrow> (r, n, s', ev))"

definition send_result ::
  "'f f64_ops \<Rightarrow> u8 \<Rightarrow> 'f query_result \<Rightarrow> outcome \<times> u64 \<times> router_event list" where
  "send_result fo s qr =
     (case qr_columns qr of
        Some (c # cs) \<Rightarrow>
          (case send_all s (column_count_packet (word_of_nat (length (c # cs)))
                            # map column_def_packet (c # cs)) of
             (Next, s1, ev1) \<Rightarrow>
               (case send_rows fo s1 (qr_rows qr) 0 of
                  (Next, n, s2, ev2) \<Rightarrow>
                    (let (r, s3, ev3) = send s2 (ok_eof_packet 0 0) in (r, n, ev1 @ ev2 @ ev3))
                | (r, n, s2, ev2) \<Rightarrow> (r, n, ev1 @ ev2))
           | (r, s1, ev1) \<Rightarrow> (r, 0, ev1))
      | _ \<Rightarrow> (let (r, s1, ev1) = send s ok_packet in (r, 0, ev1)))"

section \<open>A query\<close>

definition audit_of ::
  "('x, 'f, 'b) router_env \<Rightarrow> string \<Rightarrow> audit_decision \<Rightarrow> string option \<Rightarrow> u64 option
     \<Rightarrow> router_event" where
  "audit_of re sql dec reason rows =
     Audited (audit_event_new (re_audit re) (re_env_name re) (re_client_user re) sql dec reason rows)"

definition deny_query ::
  "('x, 'f, 'b) router_env \<Rightarrow> u8 \<Rightarrow> string \<Rightarrow> string \<Rightarrow> outcome \<times> router_event list" where
  "deny_query re s sql reason =
     (if re_info_enabled re \<and> slice_to sql (min (length sql) 64) = None then (Panicked, [])
      else (let (r, s', ev) = send s (err_packet ER_PARSE_ERROR ''42000'' reason)
            in (r, audit_of re sql AuditDeny (Some reason) None # ev)))"

definition handle_com_query ::
  "('x, 'f, 'b) router_env \<Rightarrow> u8 \<Rightarrow> string \<Rightarrow> 'b \<Rightarrow> outcome \<times> router_event list \<times> 'b" where
  "handle_com_query re s sql b =
     (case decision_reason (evaluate (re_parser re) sql (re_policy re) MYSQL_PROFILE) of
        Some reason \<Rightarrow> (let (r, ev) = deny_query re s sql reason in (r, ev, b))
      | None \<Rightarrow>
     (case pool_get (re_backend re) b of
        (Inl e, b1) \<Rightarrow>
          (let (r, s', ev) = send s (err_packet ER_INTERNAL ''HY000'' ''backend unavailable'')
           in (r, audit_of re sql AuditError (Some (''pool: '' @ e)) None # ev, b1))
      | (Inr _, b1) \<Rightarrow>
     (case query_iter (re_backend re) sql b1 of
        (Inl e, b2) \<Rightarrow>
          (let (r, s', ev) = send s (err_packet ER_INTERNAL ''HY000'' ''query execution failed'')
           in (r, Queried sql # audit_of re sql AuditError (Some (''backend: '' @ e)) None # ev, b2))
      | (Inr qr, b2) \<Rightarrow>
     (case send_result (re_floats re) s qr of
        (Next, n, ev) \<Rightarrow>
          (Next, Queried sql # ev @ [audit_of re sql AuditAllow None (Some n)], b2)
      | (r, n, ev) \<Rightarrow> (r, Queried sql # ev, b2)))))"

section \<open>The command loop\<close>

definition handle_command ::
  "('x, 'f, 'b) router_env \<Rightarrow> u8 \<Rightarrow> bytes \<Rightarrow> 'b \<Rightarrow> outcome \<times> router_event list \<times> 'b" where
  "handle_command re s pkt b =
     (case pkt of
        [] \<Rightarrow> (Failed EmptyCommand, [], b)
      | cmd # payload \<Rightarrow>
          if cmd = 0x01 then (Closed, [], b)
          else if cmd = 0x0E then (let (r, s', ev) = send s ok_packet in (r, ev, b))
          else if cmd = 0x03 then handle_com_query re s (from_utf8_lossy payload) b
          else (let (r, s', ev) = send s (err_packet ER_NOT_ALLOWED_COMMAND ''42000''
                      (''command 0x'' @ hex2 cmd @ '' not supported''))
                in (r, ev, b)))"

lemma read_packet_consumes:
  "read_packet s inp = (Inr (pkt, rest), s') \<Longrightarrow> length rest < length inp"
  by (auto simp: read_packet_def Let_def split: list.splits prod.splits sum.splits if_splits)

function serve_session ::
  "('x, 'f, 'b) router_env \<Rightarrow> bytes \<Rightarrow> 'b \<Rightarrow> outcome \<times> router_event list \<times> 'b" where
  "serve_session re inp b =
     (case read_packet 0 inp of
        (Inl (UnexpectedEof w), s) \<Rightarrow> (Closed, [], b)
      | (Inl e, s) \<Rightarrow> (Failed (RouterFraming e), [], b)
      | (Inr (pkt, rest), s) \<Rightarrow>
          (case handle_command re s pkt b of
             (Next, ev, b') \<Rightarrow> (let (r, ev', b'') = serve_session re rest b' in (r, ev @ ev', b''))
           | stop \<Rightarrow> stop))"
  by pat_completeness auto
termination
  by (relation "measure (\<lambda>(re, inp, b). length inp)")
    (auto dest: read_packet_consumes [OF sym])

declare serve_session.simps [simp del]

section \<open>What reaches the backend and the audit log\<close>

definition is_audit :: "router_event \<Rightarrow> bool" where
  "is_audit e = (case e of Audited _ \<Rightarrow> True | _ \<Rightarrow> False)"

definition audits :: "router_event list \<Rightarrow> router_event list" where
  "audits ev = filter is_audit ev"

definition only_writes :: "router_event list \<Rightarrow> bool" where
  "only_writes ev \<longleftrightarrow> (\<forall>e \<in> set ev. \<exists>b. e = Wrote b)"

lemma only_writes_simps [simp]:
  "only_writes []" "only_writes (Wrote b # ev) = only_writes ev"
  "only_writes (ev @ ev') = (only_writes ev \<and> only_writes ev')"
  by (auto simp: only_writes_def)

lemma audits_simps [simp]:
  "audits [] = []" "audits (ev @ ev') = audits ev @ audits ev'"
  "audits (Wrote b # ev) = audits ev" "audits (Queried q # ev) = audits ev"
  "audits (Audited a # ev) = Audited a # audits ev"
  by (simp_all add: audits_def is_audit_def)

lemma only_writes_audits [simp]: "only_writes ev \<Longrightarrow> audits ev = []"
  by (induction ev) (auto simp: only_writes_def)

lemma only_writes_no_query: "only_writes ev \<Longrightarrow> Queried q \<notin> set ev"
  by (auto simp: only_writes_def)

lemma send_writes: "send s p = (r, s', ev) \<Longrightarrow> only_writes ev"
  by (auto simp: send_def split: prod.splits sum.splits)

lemma send_no_query: "send s p = (r, s', ev) \<Longrightarrow> Queried q \<in> set ev \<Longrightarrow> False"
  using send_writes only_writes_no_query by blast

lemma send_outcome: "send s p = (r, s', ev) \<Longrightarrow> r = Next \<or> (\<exists>e. r = Failed e)"
  by (auto simp: send_def split: prod.splits sum.splits)

lemma send_all_writes: "send_all s ps = (r, s', ev) \<Longrightarrow> only_writes ev"
  by (induction s ps arbitrary: r s' ev rule: send_all.induct)
    (auto split: prod.splits outcome.splits dest: send_writes simp: Let_def)

lemma send_rows_writes: "send_rows fo s rows n = (r, n', s', ev) \<Longrightarrow> only_writes ev"
  by (induction fo s rows n arbitrary: r n' s' ev rule: send_rows.induct)
    (auto split: prod.splits outcome.splits dest: send_writes simp: Let_def)

lemma send_result_writes: "send_result fo s qr = (r, n, ev) \<Longrightarrow> only_writes ev"
  by (auto simp: send_result_def Let_def
      split: option.splits list.splits prod.splits outcome.splits
      dest!: send_writes send_rows_writes send_all_writes)

lemma send_result_no_query:
  "send_result fo s qr = (r, n, ev) \<Longrightarrow> Queried q \<in> set ev \<Longrightarrow> False"
  using send_result_writes only_writes_no_query by blast

lemma handle_com_query_allowed:
  assumes "handle_com_query re s sql b = (r, ev, b')" and "Queried q \<in> set ev"
  shows "q = sql \<and> evaluate (re_parser re) sql (re_policy re) MYSQL_PROFILE = Allow"
proof (cases "evaluate (re_parser re) sql (re_policy re) MYSQL_PROFILE")
  case Allow
  then show ?thesis
    using assms
    by (auto simp: handle_com_query_def Let_def audit_of_def
        split: prod.splits sum.splits outcome.splits
        dest: send_no_query send_result_no_query)
next
  case (Deny reason)
  then show ?thesis
    using assms
    by (auto simp: handle_com_query_def deny_query_def Let_def audit_of_def
        split: prod.splits if_splits dest: send_no_query)
qed

lemma handle_command_allowed:
  "handle_command re s pkt b = (r, ev, b') \<Longrightarrow> Queried q \<in> set ev \<Longrightarrow>
   evaluate (re_parser re) q (re_policy re) MYSQL_PROFILE = Allow"
  by (auto simp: handle_command_def Let_def split: list.splits if_splits prod.splits
      dest: send_no_query handle_com_query_allowed)

lemma serve_session_allowed:
  "serve_session re inp b = (r, ev, b') \<Longrightarrow> Queried q \<in> set ev \<Longrightarrow>
   evaluate (re_parser re) q (re_policy re) MYSQL_PROFILE = Allow"
proof (induction re inp b arbitrary: r ev b' rule: serve_session.induct)
  case (1 re inp b)
  note eq = "1.prems"(1) [unfolded serve_session.simps [of re inp b]]
  show ?case
  proof (cases "read_packet 0 inp")
    case (Pair res s)
    show ?thesis
    proof (cases res)
      case (Inl e)
      then show ?thesis using eq Pair "1.prems"(2) by (auto split: framing_error.splits)
    next
      case (Inr pr)
      obtain pkt rest where pr: "pr = (pkt, rest)" by (cases pr)
      obtain r1 ev1 b1 where h: "handle_command re s pkt b = (r1, ev1, b1)" by (metis prod_cases3)
      show ?thesis
      proof (cases "r1 = Next")
        case True
        obtain r2 ev2 b2 where t: "serve_session re rest b1 = (r2, ev2, b2)" by (metis prod_cases3)
        have ev: "ev = ev1 @ ev2" using eq Pair Inr pr h True t by (simp add: Let_def)
        show ?thesis
          using "1.prems"(2) ev handle_command_allowed [OF h]
            "1.IH" [OF _ _ _ _ _ _ t] Pair Inr pr h True by auto
      next
        case False
        then have "ev = ev1" using eq Pair Inr pr h by (cases r1) auto
        then show ?thesis using handle_command_allowed [OF h] "1.prems"(2) by blast
      qed
    qed
  qed
qed

text \<open>A query that lets the session go on has left exactly one audit record, its last word about the
  statement.\<close>

lemma handle_com_query_audited:
  assumes "handle_com_query re s sql b = (Next, ev, b')"
  shows "\<exists>dec reason rows. audits ev = [audit_of re sql dec reason rows] \<and>
    (dec = AuditDeny \<longleftrightarrow> evaluate (re_parser re) sql (re_policy re) MYSQL_PROFILE \<noteq> Allow)"
proof (cases "evaluate (re_parser re) sql (re_policy re) MYSQL_PROFILE")
  case Allow
  then show ?thesis
    using assms
    by (auto simp: handle_com_query_def Let_def audit_of_def
        split: prod.splits sum.splits outcome.splits
        dest!: send_writes send_result_writes)
      (use audit_decision.distinct in blast)+
next
  case (Deny reason)
  then show ?thesis
    using assms
    by (auto simp: handle_com_query_def deny_query_def Let_def audit_of_def
        split: prod.splits if_splits dest!: send_writes) blast+
qed

lemma send_result_not_panicked:
  "send_result fo s qr = (r, n, ev) \<Longrightarrow> r \<noteq> Panicked"
proof -
  have all: "send_all s ps = (r, s', ev) \<Longrightarrow> r \<noteq> Panicked" for s ps r s' ev
    by (induction s ps arbitrary: r s' ev rule: send_all.induct)
      (auto split: prod.splits outcome.splits dest: send_outcome simp: Let_def)
  have rows: "send_rows fo s rows n = (r, n', s', ev) \<Longrightarrow> r \<noteq> Panicked" for s rows n r n' s' ev
    by (induction fo s rows n arbitrary: r n' s' ev rule: send_rows.induct)
      (auto split: prod.splits outcome.splits dest: send_outcome simp: Let_def)
  show "send_result fo s qr = (r, n, ev) \<Longrightarrow> r \<noteq> Panicked"
    by (auto simp: send_result_def Let_def
        split: option.splits list.splits prod.splits outcome.splits
        dest: send_outcome rows all)
qed

lemma handle_com_query_panics_iff:
  "fst (handle_com_query re s sql b) = Panicked \<longleftrightarrow>
     evaluate (re_parser re) sql (re_policy re) MYSQL_PROFILE \<noteq> Allow \<and> re_info_enabled re \<and>
     \<not> is_char_boundary sql (min (length sql) 64)"
proof (cases "evaluate (re_parser re) sql (re_policy re) MYSQL_PROFILE")
  case Allow
  then show ?thesis
    by (auto simp: handle_com_query_def Let_def split: prod.splits sum.splits outcome.splits
        dest: send_outcome send_result_not_panicked)
next
  case (Deny reason)
  then show ?thesis
    by (auto simp: handle_com_query_def deny_query_def slice_to_def Let_def
        split: prod.splits dest: send_outcome)
qed

section \<open>The router is a gated session\<close>

definition router_trace :: "('x, 'f, 'b) router_env \<times> bytes \<times> 'b \<Rightarrow> router_event list" where
  "router_trace = (\<lambda>(re, inp, b). fst (snd (serve_session re inp b)))"

definition router_handed :: "router_event \<Rightarrow> string option" where
  "router_handed e = (case e of Queried q \<Rightarrow> Some q | _ \<Rightarrow> None)"

interpretation mysql_gate: gated_session
  "router_trace :: ('d, 'g, 'h) router_env \<times> bytes \<times> 'h \<Rightarrow> router_event list" router_handed
  "\<lambda>(re, inp, b). re_parser re" "\<lambda>(re, inp, b). re_policy re" MYSQL_PROFILE
proof unfold_locales
  fix e :: router_event and c :: "('d, 'g, 'h) router_env \<times> bytes \<times> 'h" and q
  assume e: "e \<in> set (router_trace c)" "router_handed e = Some q"
  obtain re inp b where c: "c = (re, inp, b)" by (cases c)
  obtain r ev b' where s: "serve_session re inp b = (r, ev, b')" by (metis prod_cases3)
  have "e = Queried q" using e(2) by (auto simp: router_handed_def split: router_event.splits)
  then have "evaluate (re_parser re) q (re_policy re) MYSQL_PROFILE = Allow"
    using serve_session_allowed [OF s] e(1) by (simp add: router_trace_def c s)
  then show "evaluate (case c of (re, inp, b) \<Rightarrow> re_parser re) q
      (case c of (re, inp, b) \<Rightarrow> re_policy re) MYSQL_PROFILE = Allow"
    by (simp add: c)
qed

section \<open>What a session promises\<close>

lemma router_trace_serve [simp]:
  "serve_session re inp b = (r, ev, b') \<Longrightarrow> router_trace (re, inp, b) = ev"
  by (simp add: router_trace_def)

text \<open>
  C6 (MySQL firewall). Whatever an authenticated MySQL client sends, every statement the router hands
  to the backend was allowed, as it stands, by the policy of the environment under the MySQL profile.
\<close>

theorem mysql_statements_gated:
  assumes "serve_session re inp b = (r, ev, b')" and "Queried q \<in> set ev"
  shows "evaluate (re_parser re) q (re_policy re) MYSQL_PROFILE = Allow"
  using mysql_gate.gate [of "Queried q" "(re, inp, b)" q] assms
  by (simp add: router_handed_def)

definition sample_router :: "bool \<Rightarrow> (expr list, unit, unit) router_env" where
  "sample_router info =
     \<lparr>re_parser = toy_parser, re_audit = \<lparr>au_sha256 = (\<lambda>b. b), au_now = [], au_elapsed = 0\<rparr>,
      re_floats = \<lparr>f_is_nan = (\<lambda>_. False), f_is_infinite = (\<lambda>_. False),
        f_is_sign_negative = (\<lambda>_. False), f_integral_small = (\<lambda>_. False),
        f_show_0 = (\<lambda>_. []), f_show = (\<lambda>_. [])\<rparr>,
      re_backend = \<lparr>pool_get = (\<lambda>b. (Inr (), b)),
        query_iter = (\<lambda>q b. (Inr \<lparr>qr_columns = None, qr_rows = []\<rparr>, b))\<rparr>,
      re_env_name = ''dev'', re_client_user = ''dev'', re_policy = ReadOnly, re_info_enabled = info\<rparr>"

lemma ok_packet_short: "length ok_packet < MAX_PAYLOAD"
  by (simp add: ok_packet_def len_simps MAX_PAYLOAD_def)

lemma sample_query:
  "handle_com_query (sample_router info) s ''SELECT 1'' () =
     (Next, [Queried ''SELECT 1'', Wrote (packet_bytes s ok_packet),
       audit_of (sample_router info) ''SELECT 1'' AuditAllow None (Some 0)], ())"
proof -
  have "evaluate toy_parser ''SELECT 1'' ReadOnly MYSQL_PROFILE = Allow"
    by (simp add: evaluate_def toy_parser_def scan_dangerous_def MYSQL_PROFILE_def)
  then show ?thesis
    using ok_packet_short
    by (simp add: handle_com_query_def sample_router_def send_result_def send_def write_packet_ok)
qed

lemma sample_session:
  "\<exists>r ev b'. serve_session (sample_router info) (packet_bytes 0 (0x03 # as_bytes ''SELECT 1'')) ()
     = (r, ev, b') \<and> Queried ''SELECT 1'' \<in> set ev"
proof -
  have "from_utf8_lossy (as_bytes ''SELECT 1'') = ''SELECT 1''"
    by (intro from_utf8_lossy_as_bytes, unfold utf8_text_def, intro valid_utf8_ascii)
      (simp add: char_byte_def)
  then have c: "handle_command (sample_router info) 1 (0x03 # as_bytes ''SELECT 1'') () =
      handle_com_query (sample_router info) 1 ''SELECT 1'' ()"
    by (simp add: handle_command_def)
  have "read_packet 0 (packet_bytes 0 (0x03 # as_bytes ''SELECT 1'') @ [])
      = (Inr (0x03 # as_bytes ''SELECT 1'', []), 0 + 1)"
    by (rule read_packet_bytes) (simp add: MAX_PAYLOAD_def)
  then show ?thesis
    unfolding serve_session.simps [of _ "packet_bytes 0 _"]
    using c by (auto simp: sample_query split: prod.splits)
qed

theorem mysql_statements_gated_witness:
  "evaluate (re_parser (sample_router True)) ''SELECT 1'' (re_policy (sample_router True))
     MYSQL_PROFILE = Allow"
proof -
  obtain r ev b' where "serve_session (sample_router True) (packet_bytes 0 (0x03 # as_bytes ''SELECT 1'')) ()
      = (r, ev, b')" "Queried ''SELECT 1'' \<in> set ev"
    using sample_session by blast
  then show ?thesis by (rule mysql_statements_gated)
qed

text \<open>
  MySQL audit. A query after which the session goes on has left exactly one audit record, for
  this statement, and the record says \<open>deny\<close> exactly when the firewall refused it.
\<close>

theorem mysql_query_audited_once:
  assumes "handle_com_query re s sql b = (Next, ev, b')"
  shows "\<exists>dec reason rows. audits ev = [audit_of re sql dec reason rows] \<and>
    (dec = AuditDeny \<longleftrightarrow> evaluate (re_parser re) sql (re_policy re) MYSQL_PROFILE \<noteq> Allow)"
  by (rule handle_com_query_audited [OF assms])

theorem mysql_query_audited_once_witness:
  "\<exists>ev dec reason rows. handle_com_query (sample_router True) 1 ''SELECT 1'' () = (Next, ev, ()) \<and>
     audits ev = [audit_of (sample_router True) ''SELECT 1'' dec reason rows]"
  using mysql_query_audited_once [OF sample_query [of True 1]] sample_query [of True 1] by blast

text \<open>
  C32 (when a MySQL query panics). A query takes the connection down with a panic exactly when the
  firewall refuses it, logging at info level is on, and byte 64 of the statement is inside a multi-byte
  character; the refused statement then leaves no audit record.
\<close>

theorem mysql_query_panics_iff:
  "(fst (handle_com_query re s sql b) = Panicked \<longleftrightarrow>
     evaluate (re_parser re) sql (re_policy re) MYSQL_PROFILE \<noteq> Allow \<and> re_info_enabled re \<and>
     \<not> is_char_boundary sql (min (length sql) 64)) \<and>
   (handle_com_query re s sql b = (Panicked, [], b) \<longleftrightarrow>
     fst (handle_com_query re s sql b) = Panicked)"
proof -
  have "handle_com_query re s sql b = (Panicked, [], b)"
    if p: "fst (handle_com_query re s sql b) = Panicked"
  proof -
    have "evaluate (re_parser re) sql (re_policy re) MYSQL_PROFILE \<noteq> Allow" "re_info_enabled re"
      "slice_to sql (min (length sql) 64) = None"
      using p [unfolded handle_com_query_panics_iff] by (simp_all add: slice_to_def)
    then show ?thesis
      by (cases "evaluate (re_parser re) sql (re_policy re) MYSQL_PROFILE")
        (simp_all add: handle_com_query_def deny_query_def)
  qed
  moreover note handle_com_query_panics_iff [of re s sql b]
  ultimately show ?thesis by (metis fst_conv)
qed

end
