(* ===== verification/Pg_Proto.thy ===== *)
theory Pg_Proto
  imports Stream_Codec Utf8
begin

text \<open>
  \<open>crates/mw-net/src/engine/postgres/proto.rs\<close>: the framing of the PostgreSQL v3 protocol, the
  backend messages the proxy builds, and the parsers of the extended-query messages. An index past
  the end of a body panics in Rust; here it is the value \<open>Panic\<close>.
\<close>

datatype 'a panicking = Ret 'a | Panic

fun bind_panic :: "'a panicking \<Rightarrow> ('a \<Rightarrow> 'b panicking) \<Rightarrow> 'b panicking" where
  "bind_panic (Ret x) f = f x"
| "bind_panic Panic f = Panic"

lemma bind_panic_Ret: "bind_panic m f = Ret y \<longleftrightarrow> (\<exists>x. m = Ret x \<and> f x = Ret y)"
  by (cases m) simp_all

definition PROTOCOL_3_0 :: u32 where "PROTOCOL_3_0 = 196608"

definition SSL_REQUEST_CODE :: u32 where "SSL_REQUEST_CODE = 80877103"

definition GSSENC_REQUEST_CODE :: u32 where "GSSENC_REQUEST_CODE = 80877104"

definition CANCEL_REQUEST_CODE :: u32 where "CANCEL_REQUEST_CODE = 80877102"

datatype pg_proto_error =
    PgClosed
  | PgMalformed string

datatype startup =
    Params "(string \<times> string) list"
  | EncryptionRequest
  | CancelRequest

section \<open>Messages from the client\<close>

text \<open>\<open>split(|b| b == 0)\<close>: one segment more than there are separators.\<close>

fun split_nul :: "bytes \<Rightarrow> bytes list" where
  "split_nul [] = [[]]"
| "split_nul (b # bs) =
     (if b = 0 then [] # split_nul bs
      else (case split_nul bs of s # ss \<Rightarrow> (b # s) # ss | [] \<Rightarrow> [[b]]))"

fun startup_params :: "bytes list \<Rightarrow> (string \<times> string) list" where
  "startup_params [] = []"
| "startup_params [k] = (if k = [] then [] else [(from_utf8_lossy k, from_utf8_lossy [])])"
| "startup_params (k # v # rest) =
     (if k = [] then [] else (from_utf8_lossy k, from_utf8_lossy v) # startup_params rest)"

definition read_startup :: "bytes \<Rightarrow> pg_proto_error + startup \<times> bytes" where
  "read_startup inp =
     (case inp of
        a # b # c # d # rest \<Rightarrow>
          (let len = sint (from_be32 a b c d)
           in if \<not> (8 \<le> len \<and> len \<le> 10000) then Inl (PgMalformed ''startup length out of range'')
              else
                (let n = nat (len - 4)
                 in if length rest < n then Inl PgClosed
                    else
                      (let body = take n rest; rest' = drop n rest;
                           code = from_be32 (body ! 0) (body ! 1) (body ! 2) (body ! 3)
                       in if code = SSL_REQUEST_CODE \<or> code = GSSENC_REQUEST_CODE
                          then Inr (EncryptionRequest, rest')
                          else if code = CANCEL_REQUEST_CODE then Inr (CancelRequest, rest')
                          else if code = PROTOCOL_3_0
                          then Inr (Params (startup_params (split_nul (drop 4 body))), rest')
                          else Inl (PgMalformed ''unsupported protocol version''))))
      | _ \<Rightarrow> Inl PgClosed)"

definition MAX_MESSAGE :: nat where
  "MAX_MESSAGE = 64 * 1024 * 1024"

definition read_message :: "bytes \<Rightarrow> pg_proto_error + (u8 \<times> bytes) \<times> bytes" where
  "read_message inp =
     (case inp of
        tag # a # b # c # d # rest \<Rightarrow>
          (let len = sint (from_be32 a b c d)
           in if \<not> (4 \<le> len \<and> len \<le> int MAX_MESSAGE)
              then Inl (PgMalformed ''message length out of range'')
              else
                (let n = nat (len - 4)
                 in if length rest < n then Inl PgClosed
                    else Inr ((tag, take n rest), drop n rest)))
      | _ \<Rightarrow> Inl PgClosed)"

section \<open>Messages to the client\<close>

text \<open>A byte of the protocol by its letter.\<close>

definition tag_byte :: "char \<Rightarrow> u8" where
  "tag_byte c = char_byte c"

definition msg :: "u8 \<Rightarrow> bytes \<Rightarrow> bytes" where
  "msg tag payload = [tag] @ be32 (word_of_nat (length payload) + 4) @ payload"

definition cstr :: "string \<Rightarrow> bytes" where
  "cstr s = as_bytes s @ [0]"

definition auth_cleartext_request :: bytes where
  "auth_cleartext_request = msg (tag_byte (CHR ''R'')) (be32 3)"

definition auth_ok_msg :: bytes where
  "auth_ok_msg = msg (tag_byte (CHR ''R'')) (be32 0)"

definition parameter_status :: "string \<Rightarrow> string \<Rightarrow> bytes" where
  "parameter_status key val = msg (tag_byte (CHR ''S'')) (cstr key @ cstr val)"

definition backend_key_data :: "u32 \<Rightarrow> u32 \<Rightarrow> bytes" where
  "backend_key_data pid secret = msg (tag_byte (CHR ''K'')) (be32 pid @ be32 secret)"

definition ready_for_query :: bytes where
  "ready_for_query = msg (tag_byte (CHR ''Z'')) (as_bytes ''I'')"

definition error_response :: "string \<Rightarrow> string \<Rightarrow> bytes" where
  "error_response sqlstate message =
     msg (tag_byte (CHR ''E''))
       ([tag_byte (CHR ''S'')] @ cstr ''ERROR'' @ [tag_byte (CHR ''V'')] @ cstr ''ERROR'' @
        [tag_byte (CHR ''C'')] @ cstr sqlstate @ [tag_byte (CHR ''M'')] @ cstr message @ [0])"

definition column_row :: "string \<times> u32 \<Rightarrow> bytes" where
  "column_row c =
     cstr (fst c) @ be32 0 @ be16 0 @ be32 (snd c) @ be16 (- 1) @ be32 (- 1) @ be16 0"

definition row_description :: "(string \<times> u32) list \<Rightarrow> bytes" where
  "row_description cols =
     msg (tag_byte (CHR ''T'')) (be16 (word_of_nat (length cols)) @ concat (map column_row cols))"

fun sized_value :: "bytes option \<Rightarrow> bytes" where
  "sized_value None = be32 (- 1)"
| "sized_value (Some b) = be32 (word_of_nat (length b)) @ b"

definition data_row :: "bytes option list \<Rightarrow> bytes" where
  "data_row cells =
     msg (tag_byte (CHR ''D'')) (be16 (word_of_nat (length cells)) @ concat (map sized_value cells))"

definition command_complete :: "string \<Rightarrow> bytes" where
  "command_complete tag = msg (tag_byte (CHR ''C'')) (cstr tag)"

definition parse_complete :: bytes where "parse_complete = msg (tag_byte (CHR ''1'')) []"

definition bind_complete :: bytes where "bind_complete = msg (tag_byte (CHR ''2'')) []"

definition close_complete :: bytes where "close_complete = msg (tag_byte (CHR ''3'')) []"

definition no_data :: bytes where "no_data = msg (tag_byte (CHR ''n'')) []"

definition empty_query_response :: bytes where
  "empty_query_response = msg (tag_byte (CHR ''I'')) []"

definition parameter_description :: "u32 list \<Rightarrow> bytes" where
  "parameter_description oids =
     msg (tag_byte (CHR ''t'')) (be16 (word_of_nat (length oids)) @ concat (map be32 oids))"

section \<open>Extended-query bodies\<close>

text \<open>A string up to the next NUL or the end, and the position after it.\<close>

definition read_cstr :: "bytes \<Rightarrow> nat \<Rightarrow> string \<times> nat" where
  "read_cstr buf pos =
     (let s = takeWhile (\<lambda>b. b \<noteq> 0) (drop pos buf);
          stop = pos + length s
      in (from_utf8_lossy s, if stop < length buf then stop + 1 else stop))"

definition read_i16 :: "bytes \<Rightarrow> nat \<Rightarrow> (int \<times> nat) panicking" where
  "read_i16 buf pos =
     (if pos + 1 < length buf then Ret (sint (from_be16 (buf ! pos) (buf ! (pos + 1))), pos + 2)
      else Panic)"

definition read_i32 :: "bytes \<Rightarrow> nat \<Rightarrow> (int \<times> nat) panicking" where
  "read_i32 buf pos =
     (if pos + 3 < length buf
      then Ret (sint (from_be32 (buf ! pos) (buf ! (pos + 1)) (buf ! (pos + 2)) (buf ! (pos + 3))),
                pos + 4)
      else Panic)"

record parse_msg =
  pm_stmt :: string
  pm_query :: string

definition parse_parse :: "bytes \<Rightarrow> parse_msg option" where
  "parse_parse body =
     (let (stmt, p1) = read_cstr body 0; (query, p2) = read_cstr body p1
      in Some \<lparr>pm_stmt = stmt, pm_query = query\<rparr>)"

record bind_msg =
  bm_portal :: string
  bm_stmt :: string
  bm_param_formats :: "int list"
  bm_params :: "bytes option list"

fun read_formats :: "nat \<Rightarrow> bytes \<Rightarrow> nat \<Rightarrow> (int list \<times> nat) panicking" where
  "read_formats 0 buf pos = Ret ([], pos)"
| "read_formats (Suc n) buf pos =
     bind_panic (read_i16 buf pos) (\<lambda>(f, pos1).
       bind_panic (read_formats n buf pos1) (\<lambda>(fs, pos2). Ret (f # fs, pos2)))"

definition read_param :: "bytes \<Rightarrow> nat \<Rightarrow> (bytes option \<times> nat) panicking" where
  "read_param buf pos =
     bind_panic (read_i32 buf pos) (\<lambda>(len, pos1).
       if len < 0 then Ret (None, pos1)
       else if pos1 + nat len \<le> length buf
       then Ret (Some (take (nat len) (drop pos1 buf)), pos1 + nat len)
       else Panic)"

fun read_params :: "nat \<Rightarrow> bytes \<Rightarrow> nat \<Rightarrow> (bytes option list \<times> nat) panicking" where
  "read_params 0 buf pos = Ret ([], pos)"
| "read_params (Suc n) buf pos =
     bind_panic (read_param buf pos) (\<lambda>(v, pos1).
       bind_panic (read_params n buf pos1) (\<lambda>(vs, pos2). Ret (v # vs, pos2)))"

definition normal_formats :: "nat \<Rightarrow> int list \<Rightarrow> nat \<Rightarrow> int list" where
  "normal_formats nfmt fmts nparams =
     map (\<lambda>i. if nfmt = 0 then 0
              else if nfmt = 1 then fmts ! 0
              else if i < length fmts then fmts ! i else 0) [0..<nparams]"

definition parse_bind :: "bytes \<Rightarrow> bind_msg option panicking" where
  "parse_bind body =
     (let (portal, p1) = read_cstr body 0; (stmt, p2) = read_cstr body p1 in
      bind_panic (read_i16 body p2) (\<lambda>(nfmt, p3).
      bind_panic (read_formats (nat nfmt) body p3) (\<lambda>(fmts, p4).
      bind_panic (read_i16 body p4) (\<lambda>(nparams, p5).
      bind_panic (read_params (nat nparams) body p5) (\<lambda>(params, p6).
        Ret (Some \<lparr>bm_portal = portal, bm_stmt = stmt,
                   bm_param_formats = normal_formats (nat nfmt) fmts (nat nparams),
                   bm_params = params\<rparr>))))))"

definition parse_describe_or_close :: "bytes \<Rightarrow> (u8 \<times> string) option" where
  "parse_describe_or_close body =
     (case body of [] \<Rightarrow> None | kind # _ \<Rightarrow> Some (kind, fst (read_cstr body 1)))"

definition parse_execute :: "bytes \<Rightarrow> string option" where
  "parse_execute body = Some (fst (read_cstr body 0))"

section \<open>Framing is self-delimiting\<close>

definition message_ok :: "u8 \<times> bytes \<Rightarrow> bool" where
  "message_ok m \<longleftrightarrow> length (snd m) + 4 \<le> MAX_MESSAGE"

lemma read_msg:
  assumes "length payload + 4 \<le> MAX_MESSAGE"
  shows "read_message (msg tag payload @ rest) = Inr ((tag, payload), rest)"
proof -
  have "(word_of_nat (length payload) + 4 :: u32) = word_of_nat (length payload + 4)" by simp
  then have s: "sint (word_of_nat (length payload) + 4 :: u32) = int (length payload + 4)"
    using assms by (simp only:) (rule sint_of_nat_small, simp add: MAX_MESSAGE_def)
  obtain a b c d where "be32 (word_of_nat (length payload) + 4) = [a, b, c, d]"
    "from_be32 a b c d = word_of_nat (length payload) + 4" by (rule be32_cons)
  then show ?thesis using assms s by (simp add: read_message_def msg_def Let_def)
qed

definition read_message_opt :: "bytes \<Rightarrow> ((u8 \<times> bytes) \<times> bytes) option" where
  "read_message_opt inp = (case read_message inp of Inl _ \<Rightarrow> None | Inr r \<Rightarrow> Some r)"

interpretation pg_message: stream_codec message_ok "\<lambda>(t, p). msg t p" read_message_opt
  by unfold_locales (auto simp: message_ok_def read_message_opt_def read_msg)

lemma read_message_consumes:
  "read_message inp = Inr (m, rest) \<Longrightarrow> length rest < length inp"
  by (auto simp: read_message_def Let_def split: list.splits if_splits)

lemma read_startup_consumes: "read_startup inp = Inr (s, rest) \<Longrightarrow> length rest < length inp"
  by (auto simp: read_startup_def Let_def split: list.splits if_splits)

section \<open>A client's messages are read back\<close>

lemma split_nul_append: "0 \<notin> set s \<Longrightarrow> split_nul (s @ 0 # rest) = s # split_nul rest"
  by (induction s) auto

definition startup_bytes :: "(bytes \<times> bytes) list \<Rightarrow> bytes" where
  "startup_bytes kvs =
     (let body = be32 PROTOCOL_3_0 @ concat (map (\<lambda>(k, v). k @ [0] @ v @ [0]) kvs) @ [0]
      in be32 (word_of_nat (length body + 4)) @ body)"

lemma startup_params_pairs:
  "\<forall>(k, v) \<in> set kvs. k \<noteq> [] \<and> 0 \<notin> set k \<and> 0 \<notin> set v \<Longrightarrow>
   startup_params (split_nul (concat (map (\<lambda>(k, v). k @ [0] @ v @ [0]) kvs) @ [0]))
     = map (\<lambda>(k, v). (from_utf8_lossy k, from_utf8_lossy v)) kvs"
  by (induction kvs) (auto simp: split_nul_append)

lemma read_startup_bytes:
  assumes ok: "\<forall>(k, v) \<in> set kvs. k \<noteq> [] \<and> 0 \<notin> set k \<and> 0 \<notin> set v"
    and len: "length (startup_bytes kvs) \<le> 10000"
  shows "read_startup (startup_bytes kvs @ rest) =
    Inr (Params (map (\<lambda>(k, v). (from_utf8_lossy k, from_utf8_lossy v)) kvs), rest)"
proof -
  let ?kv = "concat (map (\<lambda>(k, v). k @ [0] @ v @ [0]) kvs) @ [0]"
  let ?body = "be32 PROTOCOL_3_0 @ ?kv"
  have sb: "startup_bytes kvs = be32 (word_of_nat (length ?body + 4)) @ ?body"
    by (simp add: startup_bytes_def Let_def)
  have n: "length ?body + 4 \<le> 10000" using len by (simp add: sb)
  have s: "sint (word_of_nat (length ?body + 4) :: u32) = int (length ?body + 4)"
    using n by (intro sint_of_nat_small) simp
  obtain a b c d where abcd: "be32 (word_of_nat (length ?body + 4)) = [a, b, c, d]"
    "from_be32 a b c d = word_of_nat (length ?body + 4)" by (rule be32_cons)
  obtain p q r t where pqrt: "be32 PROTOCOL_3_0 = [p, q, r, t]" "from_be32 p q r t = PROTOCOL_3_0"
    by (rule be32_cons)
  define B where "B = ?body"
  have B: "B = p # q # r # t # ?kv" by (simp add: B_def pqrt(1))
  have "read_startup (a # b # c # d # B @ rest) =
      Inr (Params (startup_params (split_nul (drop 4 B))), rest)"
    using n s pqrt(2) unfolding B_def [symmetric]
    by (simp add: read_startup_def abcd(2) Let_def nth_append B [THEN arg_cong [of _ _ length]])
      (simp add: B SSL_REQUEST_CODE_def GSSENC_REQUEST_CODE_def
        CANCEL_REQUEST_CODE_def PROTOCOL_3_0_def)
  moreover have "drop 4 B = ?kv" by (simp add: B)
  ultimately show ?thesis
    using startup_params_pairs [OF ok] abcd(1) unfolding sb B_def by simp
qed

text \<open>The body of a \<open>Bind\<close> message a client builds.\<close>

definition bind_bytes :: "bytes \<Rightarrow> bytes \<Rightarrow> int list \<Rightarrow> bytes option list \<Rightarrow> bytes" where
  "bind_bytes portal stmt fmts params =
     portal @ [0] @ stmt @ [0] @ be16 (word_of_nat (length fmts)) @
     concat (map (\<lambda>f. be16 (word_of_int f)) fmts) @ be16 (word_of_nat (length params)) @
     concat (map sized_value params)"

definition i16_ok :: "int \<Rightarrow> bool" where
  "i16_ok f \<longleftrightarrow> - (2 ^ 15) \<le> f \<and> f < 2 ^ 15"

definition param_ok :: "bytes option \<Rightarrow> bool" where
  "param_ok v = (case v of None \<Rightarrow> True | Some b \<Rightarrow> length b < 2 ^ 31)"

lemma sint_word_of_int_16: "i16_ok f \<Longrightarrow> sint (word_of_int f :: u16) = f"
  by (simp add: i16_ok_def signed_of_int signed_take_bit_int_eq_self)

lemma sint_of_nat_16: "n < 2 ^ 15 \<Longrightarrow> sint (word_of_nat n :: u16) = int n"
  by (simp add: signed_of_nat signed_take_bit_int_eq_self)

lemma read_i16_append:
  "pos = length pre \<Longrightarrow> read_i16 (pre @ be16 w @ rest) pos = Ret (sint w, pos + 2)"
  by (rule be16_cons [of w]) (simp add: read_i16_def nth_append)

lemma read_i32_append:
  "pos = length pre \<Longrightarrow> read_i32 (pre @ be32 w @ rest) pos = Ret (sint w, pos + 4)"
  by (rule be32_cons [of w]) (simp add: read_i32_def nth_append)

lemma read_cstr_append:
  assumes "0 \<notin> set s" and "pos = length pre"
  shows "read_cstr (pre @ s @ 0 # rest) pos = (from_utf8_lossy s, pos + length s + 1)"
proof -
  have "takeWhile (\<lambda>b. b \<noteq> 0) (s @ 0 # rest) = s"
    using assms(1) by (subst takeWhile_append2) auto
  then show ?thesis using assms(2) by (simp add: read_cstr_def Let_def)
qed

lemma read_formats_append:
  "\<forall>f \<in> set fmts. i16_ok f \<Longrightarrow> pos = length pre \<Longrightarrow>
   read_formats (length fmts) (pre @ concat (map (\<lambda>f. be16 (word_of_int f)) fmts) @ rest) pos
     = Ret (fmts, pos + 2 * length fmts)"
proof (induction fmts arbitrary: pre pos)
  case (Cons f fmts)
  have "read_formats (length fmts) ((pre @ be16 (word_of_int f)) @
      concat (map (\<lambda>f. be16 (word_of_int f)) fmts) @ rest) (pos + 2)
      = Ret (fmts, pos + 2 + 2 * length fmts)"
    by (rule Cons.IH) (use Cons.prems in simp_all)
  then show ?case
    using Cons.prems read_i16_append [of pos pre "word_of_int f"] sint_word_of_int_16 [of f] by simp
qed simp

lemma read_param_append:
  assumes "param_ok v" and "pos = length pre"
  shows "read_param (pre @ sized_value v @ rest) pos = Ret (v, pos + length (sized_value v))"
proof (cases v)
  case None
  then show ?thesis
    using assms(2) read_i32_append [of pos pre "- 1"] by (simp add: read_param_def)
next
  case (Some b)
  then have "sint (word_of_nat (length b) :: u32) = int (length b)"
    using assms(1) by (intro sint_of_nat_small) (simp add: param_ok_def)
  then show ?thesis
    using assms(2) Some read_i32_append [of pos pre "word_of_nat (length b)" "b @ rest"]
    by (simp add: read_param_def)
qed

lemma read_params_append:
  "\<forall>v \<in> set vs. param_ok v \<Longrightarrow> pos = length pre \<Longrightarrow>
   read_params (length vs) (pre @ concat (map sized_value vs) @ rest) pos
     = Ret (vs, pos + length (concat (map sized_value vs)))"
proof (induction vs arbitrary: pre pos)
  case (Cons v vs)
  have "read_params (length vs) ((pre @ sized_value v) @ concat (map sized_value vs) @ rest)
      (pos + length (sized_value v))
      = Ret (vs, pos + length (sized_value v) + length (concat (map sized_value vs)))"
    by (rule Cons.IH) (use Cons.prems in simp_all)
  then show ?case
    using Cons.prems read_param_append [of v pos pre] by simp
qed simp

lemma parse_bind_bytes:
  assumes names: "0 \<notin> set portal" "0 \<notin> set stmt" and fmts: "\<forall>f \<in> set fmts. i16_ok f"
    and params: "\<forall>v \<in> set params. param_ok v" and counts: "length fmts < 2 ^ 15"
    "length params < 2 ^ 15"
  shows "parse_bind (bind_bytes portal stmt fmts params) =
    Ret (Some \<lparr>bm_portal = from_utf8_lossy portal, bm_stmt = from_utf8_lossy stmt,
       bm_param_formats = normal_formats (length fmts) fmts (length params), bm_params = params\<rparr>)"
proof -
  let ?fb = "concat (map (\<lambda>f. be16 (word_of_int f)) fmts)" and ?pb = "concat (map sized_value params)"
  let ?nf = "be16 (word_of_nat (length fmts))" and ?np = "be16 (word_of_nat (length params))"
  let ?b = "bind_bytes portal stmt fmts params"
  have fb: "length ?fb = 2 * length fmts" by (induction fmts) simp_all
  have c1: "read_cstr ?b 0 = (from_utf8_lossy portal, length (portal @ [0]))"
    using read_cstr_append [OF names(1), of 0 "[]"] by (simp add: bind_bytes_def)
  have c2: "read_cstr ?b (length (portal @ [0])) = (from_utf8_lossy stmt, length (portal @ [0] @ stmt @ [0]))"
    using read_cstr_append [OF names(2), of _ "portal @ [0]"] by (simp add: bind_bytes_def)
  have n1: "read_i16 ?b (length (portal @ [0] @ stmt @ [0]))
      = Ret (int (length fmts), length (portal @ [0] @ stmt @ [0] @ ?nf))"
    using read_i16_append [of _ "portal @ [0] @ stmt @ [0]"] sint_of_nat_16 [OF counts(1)]
    by (simp add: bind_bytes_def)
  have f: "read_formats (length fmts) ?b (length (portal @ [0] @ stmt @ [0] @ ?nf))
      = Ret (fmts, length (portal @ [0] @ stmt @ [0] @ ?nf @ ?fb))"
    using read_formats_append [OF fmts refl, of "portal @ [0] @ stmt @ [0] @ ?nf" "?np @ ?pb"] fb
    by (simp add: bind_bytes_def)
  have n2: "read_i16 ?b (length (portal @ [0] @ stmt @ [0] @ ?nf @ ?fb))
      = Ret (int (length params), length (portal @ [0] @ stmt @ [0] @ ?nf @ ?fb @ ?np))"
    using read_i16_append [OF refl, of "portal @ [0] @ stmt @ [0] @ ?nf @ ?fb" "word_of_nat (length params)" ?pb]
      sint_of_nat_16 [OF counts(2)] fb
    by (simp add: bind_bytes_def)
  have p: "\<exists>q. read_params (length params) ?b
      (length (portal @ [0] @ stmt @ [0] @ ?nf @ ?fb @ ?np)) = Ret (params, q)"
    using read_params_append [OF params refl, of "portal @ [0] @ stmt @ [0] @ ?nf @ ?fb @ ?np" "[]"] fb
    by (simp add: bind_bytes_def)
  show ?thesis
    using p by (auto simp only: parse_bind_def c1 c2 n1 f n2 Let_def prod.case bind_panic.simps nat_int)
qed

lemma parse_bind_never_None: "parse_bind body \<noteq> Ret None"
  by (auto simp: parse_bind_def Let_def bind_panic_Ret split: prod.splits)

section \<open>What the protocol layer promises\<close>

text \<open>
  PostgreSQL messages. A stream of well-sized messages is read back message by message, with
  whatever follows left unread.
\<close>

theorem pg_messages_roundtrip:
  assumes "\<forall>m \<in> set ms. message_ok m"
  shows "decode_many read_message_opt (length ms) (concat (map (\<lambda>(t, p). msg t p) ms) @ rest)
    = Some (ms, rest)"
  by (rule pg_message.decode_sequence [OF assms])

theorem pg_messages_roundtrip_witness:
  "decode_many read_message_opt 2 (concat (map (\<lambda>(t, p). msg t p) [(0x53, []), (0x51, [1, 0])]) @ [5])
     = Some ([(0x53, []), (0x51, [1, 0])], [5])"
  using pg_messages_roundtrip [of "[(0x53, []), (0x51, [1, 0])]" "[5]"]
  by (simp add: message_ok_def MAX_MESSAGE_def flip: numeral_2_eq_2 del: decode_many.simps)

text \<open>
  Bind. A Bind message that encodes a portal, a statement, parameter formats and parameters is
  parsed to them, with the formats normalised to one per parameter.
\<close>

theorem bind_roundtrip:
  assumes "0 \<notin> set portal" and "0 \<notin> set stmt" and "\<forall>f \<in> set fmts. i16_ok f"
    and "\<forall>v \<in> set params. param_ok v" and "length fmts < 2 ^ 15" and "length params < 2 ^ 15"
  shows "parse_bind (bind_bytes portal stmt fmts params) =
    Ret (Some \<lparr>bm_portal = from_utf8_lossy portal, bm_stmt = from_utf8_lossy stmt,
       bm_param_formats = normal_formats (length fmts) fmts (length params), bm_params = params\<rparr>)"
  by (rule parse_bind_bytes [OF assms])

theorem bind_roundtrip_witness:
  "parse_bind (bind_bytes [] [] [1] [Some [7, 7], None]) =
    Ret (Some \<lparr>bm_portal = [], bm_stmt = [], bm_param_formats = [1, 1], bm_params = [Some [7, 7], None]\<rparr>)"
  using bind_roundtrip [of "[]" "[]" "[1]" "[Some [7, 7], None]"]
  by (simp add: i16_ok_def param_ok_def from_utf8_lossy_def of_bytes_def normal_formats_def)

text \<open>
  A truncated Bind panics: The parser answers \<open>None\<close> for no body at all; a Bind that ends
  before its format count is an index out of range, a panic of the session task instead of the error
  response the server has for a bad Bind.
\<close>

theorem truncated_bind_panics:
  assumes "0 \<notin> set portal" and "0 \<notin> set stmt" and "length left < 2"
  shows "parse_bind (portal @ 0 # stmt @ 0 # left) = Panic"
proof -
  have "read_cstr ([] @ portal @ 0 # (stmt @ 0 # left)) 0 = (from_utf8_lossy portal, length portal + 1)"
    by (subst read_cstr_append [OF assms(1)]) simp_all
  moreover have "read_cstr ((portal @ [0]) @ stmt @ 0 # left) (length portal + 1)
      = (from_utf8_lossy stmt, length portal + 1 + length stmt + 1)"
    by (subst read_cstr_append [OF assms(2)]) simp_all
  ultimately show ?thesis
    using assms(3) by (simp add: parse_bind_def read_i16_def)
qed

theorem truncated_bind_panics_witness: "parse_bind [0x70, 0, 0, 0] = Panic"
  using truncated_bind_panics [of "[0x70]" "[]" "[0]"] by simp

end
