(* ===== verification/Pg_Params.thy ===== *)
theory Pg_Params
  imports Pg_Proto
begin

text \<open>
  The parameter inlining of \<open>crates/mw-net/src/engine/postgres/server.rs\<close>: bound values become
  SQL literals (\<open>render_param\<close>), which replace the placeholders of the statement text
  (\<open>inline_params\<close>). Type OIDs are the 32 bits of the \<open>i32\<close>. A float is the 64 bits
  of its \<open>f64\<close>; widening an \<open>f32\<close> and printing a finite \<open>f64\<close> are the
  record \<open>pg_floats\<close>.
\<close>

definition OID_BOOL :: u32 where "OID_BOOL = 16"
definition OID_INT8 :: u32 where "OID_INT8 = 20"
definition OID_INT2 :: u32 where "OID_INT2 = 21"
definition OID_INT4 :: u32 where "OID_INT4 = 23"
definition OID_OID :: u32 where "OID_OID = 26"
definition OID_FLOAT4 :: u32 where "OID_FLOAT4 = 700"
definition OID_FLOAT8 :: u32 where "OID_FLOAT8 = 701"
definition OID_NUMERIC :: u32 where "OID_NUMERIC = 1700"

lemmas oid_defs = OID_BOOL_def OID_INT8_def OID_INT2_def OID_INT4_def OID_OID_def OID_FLOAT4_def
  OID_FLOAT8_def OID_NUMERIC_def

section \<open>Literals\<close>

definition quote_lit :: "string \<Rightarrow> string" where
  "quote_lit s = [CHR 0x27] @ concat (map (\<lambda>c. if c = CHR 0x27 then [CHR 0x27, c] else [c]) s) @ [CHR 0x27]"

definition is_numeric_oid :: "u32 \<Rightarrow> bool" where
  "is_numeric_oid oid \<longleftrightarrow>
     oid \<in> {OID_INT2, OID_INT4, OID_INT8, OID_OID, OID_FLOAT4, OID_FLOAT8, OID_NUMERIC}"

definition skip_sign :: "string \<Rightarrow> string" where
  "skip_sign s = (case s of c # r \<Rightarrow> if c = CHR ''+'' \<or> c = CHR ''-'' then r else s | [] \<Rightarrow> [])"

text \<open>The fraction after the integer digits: its digits, and what is left.\<close>

definition fraction :: "string \<Rightarrow> string \<times> string" where
  "fraction s =
     (case s of
        c # r \<Rightarrow> if c = CHR ''.'' then (takeWhile is_digit r, dropWhile is_digit r) else ([], s)
      | [] \<Rightarrow> ([], []))"

definition exponent_ok :: "string \<Rightarrow> bool" where
  "exponent_ok s =
     (case s of
        [] \<Rightarrow> True
      | c # r \<Rightarrow>
          (if c = CHR ''e'' \<or> c = CHR ''E'' then
             (let r' = skip_sign r in takeWhile is_digit r' \<noteq> [] \<and> dropWhile is_digit r' = [])
           else False))"

definition is_safe_numeric :: "string \<Rightarrow> bool" where
  "is_safe_numeric s0 =
     (let s = trim s0 in
      if s \<in> {''NaN'', ''Infinity'', ''-Infinity'', ''+Infinity''} then True
      else
        (let s1 = skip_sign s;
             d1 = takeWhile is_digit s1;
             (d2, r2) = fraction (dropWhile is_digit s1)
         in if d1 = [] \<and> d2 = [] then False else exponent_ok r2))"

record pg_floats =
  pf_widen :: "u32 \<Rightarrow> u64"
  pf_show :: "u64 \<Rightarrow> string"

definition f64_exponent :: "u64 \<Rightarrow> u64" where
  "f64_exponent v = drop_bit 52 v AND 0x7FF"

definition f64_is_finite :: "u64 \<Rightarrow> bool" where
  "f64_is_finite v \<longleftrightarrow> f64_exponent v \<noteq> 0x7FF"

definition f64_is_nan :: "u64 \<Rightarrow> bool" where
  "f64_is_nan v \<longleftrightarrow> f64_exponent v = 0x7FF \<and> take_bit 52 v \<noteq> 0"

definition fmt_float :: "pg_floats \<Rightarrow> u64 \<Rightarrow> string" where
  "fmt_float pf v =
     (if f64_is_finite v then pf_show pf v
      else if f64_is_nan v then [CHR 0x27] @ ''NaN'' @ [CHR 0x27]
      else if \<not> bit v 63 then [CHR 0x27] @ ''Infinity'' @ [CHR 0x27]
      else [CHR 0x27] @ ''-Infinity'' @ [CHR 0x27])"

definition elem_type_name :: "u32 \<Rightarrow> string" where
  "elem_type_name oid =
     (if oid = OID_BOOL then ''bool''
      else if oid = OID_INT2 then ''int2''
      else if oid = OID_INT4 then ''int4''
      else if oid = OID_INT8 then ''int8''
      else if oid = OID_OID then ''oid''
      else if oid = OID_FLOAT4 then ''float4''
      else if oid = OID_FLOAT8 then ''float8''
      else if oid = OID_NUMERIC then ''numeric''
      else if oid = 1042 then ''bpchar''
      else if oid = 1043 then ''varchar''
      else if oid = 19 then ''name''
      else if oid = 18 then ''char''
      else ''text'')"

definition array_elem_oid :: "u32 \<Rightarrow> u32 option" where
  "array_elem_oid oid =
     map_of [(1000, OID_BOOL), (1002, 18), (1003, 19), (1005, OID_INT2), (1007, OID_INT4),
             (1009, 25), (1014, 1042), (1015, 1043), (1016, OID_INT8), (1021, OID_FLOAT4),
             (1022, OID_FLOAT8), (1028, OID_OID), (1231, OID_NUMERIC)] oid"

definition show_i16 :: "bytes \<Rightarrow> string" where
  "show_i16 b = show_int (sint (from_be16 (b ! 0) (b ! 1)))"

definition show_i32 :: "bytes \<Rightarrow> string" where
  "show_i32 b = show_int (sint (from_be32 (b ! 0) (b ! 1) (b ! 2) (b ! 3)))"

definition show_i64 :: "bytes \<Rightarrow> string" where
  "show_i64 b = show_int (sint (from_be64 b))"

text \<open>The last arm of the binary match: a type the proxy does not know.\<close>

definition render_unknown :: "bytes \<Rightarrow> string + string" where
  "render_unknown b =
     (if 0 \<in> set b then
        (if length b = 2 then Inr (show_i16 b)
         else if length b = 4 then Inr (show_i32 b)
         else if length b = 8 then Inr (show_i64 b)
         else Inl ''unsupported binary parameter (NUL)'')
      else Inr (quote_lit (from_utf8_lossy b)))"

definition render_binary :: "pg_floats \<Rightarrow> u32 \<Rightarrow> bytes \<Rightarrow> string + string" where
  "render_binary pf oid b =
     (if oid = OID_BOOL then
        Inr (if (case b of [] \<Rightarrow> 0 | x # _ \<Rightarrow> x) \<noteq> 0 then ''TRUE'' else ''FALSE'')
      else if oid = OID_INT2 \<and> length b = 2 then Inr (show_i16 b)
      else if (oid = OID_INT4 \<or> oid = OID_OID) \<and> length b = 4 then Inr (show_i32 b)
      else if oid = OID_INT8 \<and> length b = 8 then Inr (show_i64 b)
      else if oid = OID_FLOAT4 \<and> length b = 4 then
        Inr (fmt_float pf (pf_widen pf (from_be32 (b ! 0) (b ! 1) (b ! 2) (b ! 3))))
      else if oid = OID_FLOAT8 \<and> length b = 8 then Inr (fmt_float pf (from_be64 b))
      else if oid \<in> {2202, 2203, 2204, 2205, 2206, 4089, 24, 28, 29, 2200} \<and> length b = 4
      then Inr (show_i32 b)
      else render_unknown b)"

definition render_text :: "u32 \<Rightarrow> bytes \<Rightarrow> string" where
  "render_text oid b =
     (let s = from_utf8_lossy b in
      if oid = OID_BOOL then
        (if s \<in> {''t'', ''true'', ''TRUE'', ''1'', ''y'', ''yes''} then ''TRUE'' else ''FALSE'')
      else if is_numeric_oid oid \<and> is_safe_numeric s then s
      else quote_lit s)"

definition render_scalar :: "pg_floats \<Rightarrow> u32 \<Rightarrow> int \<Rightarrow> bytes option \<Rightarrow> string + string" where
  "render_scalar pf oid fmt v =
     (case v of
        None \<Rightarrow> Inr ''NULL''
      | Some b \<Rightarrow> if fmt = 1 then render_binary pf oid b else Inr (render_text oid b))"

section \<open>Binary arrays\<close>

definition rd :: "bytes \<Rightarrow> nat \<Rightarrow> u32 panicking" where
  "rd b p =
     (if p + 3 < length b then Ret (from_be32 (b ! p) (b ! (p + 1)) (b ! (p + 2)) (b ! (p + 3)))
      else Panic)"

text \<open>The product of the dimensions, checked at every step; the errors are values.\<close>

fun array_dims :: "nat \<Rightarrow> bytes \<Rightarrow> nat \<Rightarrow> int \<Rightarrow> (string + int \<times> nat) panicking" where
  "array_dims 0 b pos tot = Ret (Inr (tot, pos))"
| "array_dims (Suc n) b pos tot =
     (if pos + 8 > length b then Ret (Inl ''bad binary array dims'')
      else bind_panic (rd b pos) (\<lambda>w.
        (let tot1 = tot * max (sint w) 0
         in if tot1 < 2 ^ 63 \<and> tot1 \<le> 10000000 then array_dims n b (pos + 8) tot1
            else Ret (Inl ''binary array too large''))))"

fun array_elems :: "nat \<Rightarrow> bytes \<Rightarrow> nat \<Rightarrow> (string + bytes option list) panicking" where
  "array_elems 0 b pos = Ret (Inr [])"
| "array_elems (Suc n) b pos =
     (if pos + 4 > length b then Ret (Inl ''bad binary array elem len'')
      else bind_panic (rd b pos) (\<lambda>w.
        (let len = sint w; pos' = pos + 4 in
         if len < 0 then
           bind_panic (array_elems n b pos') (\<lambda>r.
             Ret (case r of Inl e \<Rightarrow> Inl e | Inr vs \<Rightarrow> Inr (None # vs)))
         else if pos' + nat len > length b then Ret (Inl ''bad binary array elem'')
         else
           bind_panic (array_elems n b (pos' + nat len)) (\<lambda>r.
             Ret (case r of Inl e \<Rightarrow> Inl e
                  | Inr vs \<Rightarrow> Inr (Some (take (nat len) (drop pos' b)) # vs))))))"

definition decode_bin_array :: "bytes \<Rightarrow> (string + u32 \<times> bytes option list) panicking" where
  "decode_bin_array b =
     (if length b < 12 then Ret (Inl ''bad binary array'')
      else bind_panic (rd b 0) (\<lambda>ndim.
        bind_panic (rd b 8) (\<lambda>elem_oid.
          if ndim = 0 then Ret (Inr (elem_oid, []))
          else if \<not> (1 \<le> sint ndim \<and> sint ndim \<le> 6) then Ret (Inl ''bad binary array ndim'')
          else bind_panic (array_dims (nat (sint ndim)) b 12 1) (\<lambda>r.
            (case r of
               Inl e \<Rightarrow> Ret (Inl e)
             | Inr (tot, pos) \<Rightarrow>
                 bind_panic (array_elems (nat tot) b pos) (\<lambda>r.
                   Ret (case r of Inl e \<Rightarrow> Inl e | Inr vs \<Rightarrow> Inr (elem_oid, vs))))))))"

fun render_all :: "pg_floats \<Rightarrow> u32 \<Rightarrow> bytes option list \<Rightarrow> string + string list" where
  "render_all pf oid [] = Inr []"
| "render_all pf oid (v # vs) =
     (case render_scalar pf oid 1 v of
        Inl e \<Rightarrow> Inl e
      | Inr s \<Rightarrow> (case render_all pf oid vs of Inl e \<Rightarrow> Inl e | Inr ss \<Rightarrow> Inr (s # ss)))"

fun join :: "string \<Rightarrow> string list \<Rightarrow> string" where
  "join sep [] = []"
| "join sep [s] = s"
| "join sep (s # ss) = s @ sep @ join sep ss"

definition render_array :: "pg_floats \<Rightarrow> u32 \<Rightarrow> bytes option list \<Rightarrow> string + string" where
  "render_array pf elem_oid elems =
     (if elems = [] then Inr (''ARRAY[]::'' @ elem_type_name elem_oid @ ''[]'')
      else case render_all pf elem_oid elems of
             Inl e \<Rightarrow> Inl e
           | Inr parts \<Rightarrow> Inr (''ARRAY['' @ join '','' parts @ '']''))"

definition render_param :: "pg_floats \<Rightarrow> u32 \<Rightarrow> int \<Rightarrow> bytes option \<Rightarrow> (string + string) panicking" where
  "render_param pf oid fmt v =
     (case v of
        None \<Rightarrow> Ret (Inr ''NULL'')
      | Some b \<Rightarrow>
          (case array_elem_oid oid of
             Some fallback_elem \<Rightarrow>
               if fmt = 1 then
                 bind_panic (decode_bin_array b) (\<lambda>r.
                   Ret (case r of
                          Inl e \<Rightarrow> Inl e
                        | Inr (elem_oid, elems) \<Rightarrow> render_array pf elem_oid elems))
               else if 0 \<in> set b then Ret (Inl ''array text contains NUL'')
               else Ret (Inr (quote_lit (from_utf8_lossy b) @ ''::'' @ elem_type_name fallback_elem
                              @ ''[]''))
           | None \<Rightarrow> Ret (render_scalar pf oid fmt (Some b))))"

section \<open>Placeholders\<close>

datatype scan_state = Normal | SQuote | DQuote | LineComment | BlockComment | DollarQuote string

definition digit_value :: "char \<Rightarrow> nat" where
  "digit_value c = of_char c - 48"

text \<open>\<open>parse::<usize>().unwrap_or(0)\<close> of a run of digits.\<close>

definition parse_index :: "string \<Rightarrow> nat" where
  "parse_index ds =
     (let n = foldl (\<lambda>acc c. 10 * acc + digit_value c) 0 ds in if n < 2 ^ 64 then n else 0)"

definition placeholder :: "string list \<Rightarrow> string \<Rightarrow> string" where
  "placeholder rendered ds =
     (let idx = parse_index ds
      in if 1 \<le> idx \<and> idx \<le> length rendered then rendered ! (idx - 1) else CHR ''$'' # ds)"

definition tag_char :: "char \<Rightarrow> bool" where
  "tag_char c \<longleftrightarrow> c = CHR ''_'' \<or> is_alnum c"

text \<open>The scanner on what is left of the statement. A dollar-quote delimiter is never empty, so
  skipping it drops the current character and \<open>length delim - 1\<close> more.\<close>

function inline_scan :: "string list \<Rightarrow> scan_state \<Rightarrow> string \<Rightarrow> string" where
  "inline_scan rendered st [] = []"
| "inline_scan rendered Normal (c # cs) =
     (if c = CHR 0x27 then c # inline_scan rendered SQuote cs
      else if c = CHR 0x22 then c # inline_scan rendered DQuote cs
      else if c = CHR ''-'' \<and> starts_with ''-'' cs
      then ''--'' @ inline_scan rendered LineComment (drop 1 cs)
      else if c = CHR ''/'' \<and> starts_with ''*'' cs
      then ''/*'' @ inline_scan rendered BlockComment (drop 1 cs)
      else if c = CHR ''$'' \<and> cs \<noteq> [] \<and> is_digit (hd cs)
      then placeholder rendered (takeWhile is_digit cs) @
           inline_scan rendered Normal (dropWhile is_digit cs)
      else if c = CHR ''$'' \<and> cs \<noteq> [] \<and> (hd cs = CHR ''$'' \<or> hd cs = CHR ''_'' \<or> is_alpha (hd cs))
      then (if starts_with ''$'' (dropWhile tag_char cs)
            then (let delim = ''$'' @ takeWhile tag_char cs @ ''$''
                  in delim @ inline_scan rendered (DollarQuote delim) (drop 1 (dropWhile tag_char cs)))
            else c # inline_scan rendered Normal cs)
      else c # inline_scan rendered Normal cs)"
| "inline_scan rendered SQuote (c # cs) =
     c # inline_scan rendered (if c = CHR 0x27 then Normal else SQuote) cs"
| "inline_scan rendered DQuote (c # cs) =
     c # inline_scan rendered (if c = CHR 0x22 then Normal else DQuote) cs"
| "inline_scan rendered LineComment (c # cs) =
     c # inline_scan rendered (if c = CHR 0x0A then Normal else LineComment) cs"
| "inline_scan rendered BlockComment (c # cs) =
     (if c = CHR ''*'' \<and> starts_with ''/'' cs
      then ''*/'' @ inline_scan rendered Normal (drop 1 cs)
      else c # inline_scan rendered BlockComment cs)"
| "inline_scan rendered (DollarQuote delim) (c # cs) =
     (if starts_with delim (c # cs)
      then delim @ inline_scan rendered Normal (drop (length delim - 1) cs)
      else c # inline_scan rendered (DollarQuote delim) cs)"
  by pat_completeness auto
termination
  by (relation "measure (\<lambda>(r, st, s). length s)")
    (auto simp: less_Suc_eq_le intro: le_trans [OF diff_le_self] length_dropWhile_le)

definition inline_params :: "string \<Rightarrow> string list \<Rightarrow> string" where
  "inline_params sql rendered = from_utf8_lossy (as_bytes (inline_scan rendered Normal sql))"

section \<open>Decoding and rendering never leave the payload\<close>

lemma rd_ok: "p + 4 \<le> length b \<Longrightarrow> \<exists>w. rd b p = Ret w"
  by (simp add: rd_def)

lemma array_dims_ok:
  "\<exists>r. array_dims n b pos tot = Ret r \<and>
     (\<forall>tot1 pos1. r = Inr (tot1, pos1) \<longrightarrow> tot \<le> 10000000 \<longrightarrow> tot1 \<le> 10000000)"
proof (induction n arbitrary: pos tot)
  case (Suc n)
  show ?case
  proof (cases "pos + 8 > length b")
    case False
    then obtain w where w: "rd b pos = Ret w" using rd_ok [of pos b] by auto
    let ?tot = "tot * max (sint w) 0"
    show ?thesis
    proof (cases "?tot < 2 ^ 63 \<and> ?tot \<le> 10000000")
      case True
      then show ?thesis using Suc [of "pos + 8" ?tot] False w by (auto simp: Let_def)
    next
      case over: False
      then show ?thesis using False w by (auto simp: Let_def)
    qed
  qed simp
qed simp

lemma array_elems_ok:
  "\<exists>r. array_elems n b pos = Ret r \<and>
     (\<forall>vs. r = Inr vs \<longrightarrow> length vs = n \<and>
        pos + 4 * n + sum_list (map (\<lambda>v. case v of None \<Rightarrow> 0 | Some x \<Rightarrow> length x) vs) \<le> max pos (length b))"
proof (induction n arbitrary: pos)
  case (Suc n)
  show ?case
  proof (cases "pos + 4 > length b")
    case False
    then obtain w where w: "rd b pos = Ret w" using rd_ok [of pos b] by auto
    show ?thesis
    proof (cases "sint w < 0")
      case True
      then show ?thesis
        using Suc [of "pos + 4"] False w by (auto simp: Let_def split: sum.splits)
    next
      case pos: False
      show ?thesis
      proof (cases "pos + 4 + nat (sint w) > length b")
        case True
        then show ?thesis using False w pos by (simp add: Let_def)
      next
        case fits: False
        then show ?thesis
          using Suc [of "pos + 4 + nat (sint w)"] False w pos
          by (auto simp: Let_def split: sum.splits)
      qed
    qed
  qed simp
qed simp

lemma decode_bin_array_ok: "\<exists>r. decode_bin_array b = Ret r"
proof (cases "length b < 12")
  case False
  then obtain nd el where "rd b 0 = Ret nd" "rd b 8 = Ret el"
    using rd_ok [of 0 b] rd_ok [of 8 b] by auto
  moreover obtain r where "array_dims (nat (sint nd)) b 12 1 = Ret r" using array_dims_ok by blast
  moreover have "\<exists>y. bind_panic (array_elems n b p) (\<lambda>r. Ret (f r)) = Ret y"
    for n p and f :: "string + bytes option list \<Rightarrow> string + u32 \<times> bytes option list"
    using array_elems_ok [of n b p] by auto
  ultimately show ?thesis
    using False by (cases r) (auto simp: decode_bin_array_def split: prod.splits)
qed (simp add: decode_bin_array_def)

lemma render_param_ok: "\<exists>r. render_param pf oid fmt v = Ret r"
proof (cases v)
  case (Some b)
  obtain r where "decode_bin_array b = Ret r" using decode_bin_array_ok by blast
  then show ?thesis using Some by (auto simp: render_param_def split: option.splits)
qed (simp add: render_param_def)

section \<open>Quoted text stays closed\<close>

lemma scan_quoted:
  "CHR 0x27 \<notin> set s \<Longrightarrow>
   inline_scan r SQuote (s @ CHR 0x27 # t) = s @ CHR 0x27 # inline_scan r Normal t"
  by (induction s) auto

lemma scan_quote_lit_body:
  "inline_scan r SQuote (concat (map (\<lambda>c. if c = CHR 0x27 then [CHR 0x27, c] else [c]) s) @ CHR 0x27 # t)
     = concat (map (\<lambda>c. if c = CHR 0x27 then [CHR 0x27, c] else [c]) s) @ CHR 0x27 # inline_scan r Normal t"
  by (induction s) simp_all

lemma scan_quote_lit: "inline_scan r Normal (quote_lit s @ t) = quote_lit s @ inline_scan r Normal t"
  by (simp add: quote_lit_def scan_quote_lit_body)

text \<open>Without parameters the scan copies the statement.\<close>

lemma takeWhile_hd: "starts_with [c] (dropWhile P s) \<Longrightarrow> s = takeWhile P s @ c # drop 1 (dropWhile P s)"
proof -
  assume "starts_with [c] (dropWhile P s)"
  then obtain t where "dropWhile P s = c # t" by (cases "dropWhile P s") (auto simp: starts_with_def)
  then show ?thesis by (metis drop0 drop_Suc_Cons One_nat_def takeWhile_dropWhile_id)
qed

lemma starts_with_split: "starts_with p s \<Longrightarrow> s = p @ drop (length p) s"
  by (metis append_take_drop_id starts_with_def)

definition delim_ok :: "scan_state \<Rightarrow> bool" where
  "delim_ok st = (case st of DollarQuote d \<Rightarrow> d \<noteq> [] | _ \<Rightarrow> True)"

lemma inline_scan_lossless: "delim_ok st \<Longrightarrow> inline_scan [] st s = s"
proof (induction s arbitrary: st rule: length_induct)
  case (1 s)
  show ?case
  proof (cases s)
    case Nil
    then show ?thesis by simp
  next
    case (Cons c cs)
    have IH: "inline_scan [] st' t = t" if "delim_ok st'" "length t \<le> length cs" for st' t
      using "1.IH" that Cons by simp
    have ok: "delim_ok Normal" "delim_ok SQuote" "delim_ok DQuote" "delim_ok LineComment"
      "delim_ok BlockComment" "delim_ok (DollarQuote (x # xs))" for x xs
      by (simp_all add: delim_ok_def)
    have len: "length (drop n cs) \<le> length cs" "length (dropWhile P cs) \<le> length cs"
      "length (drop n (dropWhile P cs)) \<le> length cs" for n P
      by (simp_all add: length_dropWhile_le le_trans [OF diff_le_self])
    show ?thesis
    proof (cases st)
      case Normal
      have ph: "placeholder [] ds = CHR ''$'' # ds" for ds by (auto simp: placeholder_def Let_def)
      have tw: "CHR ''$'' # takeWhile P cs @ dropWhile P cs = CHR ''$'' # cs" for P by simp
      have dash: "CHR ''-'' # drop 1 cs = cs" if "starts_with ''-'' cs"
        using starts_with_split [OF that] by simp
      have star: "CHR ''*'' # drop 1 cs = cs" if "starts_with ''*'' cs"
        using starts_with_split [OF that] by simp
      have dollar: "takeWhile tag_char cs @ CHR ''$'' # drop 1 (dropWhile tag_char cs) = cs"
        if "starts_with ''$'' (dropWhile tag_char cs)"
        using takeWhile_hd [OF that] by simp
      show ?thesis
        unfolding Cons Normal inline_scan.simps Let_def
        using dash star dollar
        by (simp add: IH ok len ph length_dropWhile_le le_trans [OF diff_le_self])
    next
      case (DollarQuote d)
      then have d: "d \<noteq> []" using "1.prems" by (simp add: delim_ok_def)
      have "d @ drop (length d - 1) cs = c # cs" if "starts_with d (c # cs)"
      proof -
        have "drop (length d) (c # cs) = drop (length d - 1) cs" using d by (cases d) auto
        then show ?thesis using starts_with_split [OF that] by metis
      qed
      then show ?thesis using "1.prems" by (simp add: Cons DollarQuote IH ok len)
    next
      case BlockComment
      have slash: "CHR ''/'' # drop 1 cs = cs" if "starts_with ''/'' cs"
        using starts_with_split [OF that] by simp
      then show ?thesis by (simp add: Cons BlockComment IH ok len)
    qed (simp_all add: Cons IH ok)
  qed
qed

section \<open>Unquoted numbers\<close>

definition numeric_char :: "char \<Rightarrow> bool" where
  "numeric_char c \<longleftrightarrow> is_digit c \<or> c \<in> set ''+-.eE'' \<or> c \<in> set ''NaInfinity''"

lemma all_digits: "dropWhile is_digit s = [] \<Longrightarrow> c \<in> set s \<Longrightarrow> is_digit c"
  by (simp add: dropWhile_eq_Nil_conv)

lemma set_split_while: "set s = set (takeWhile P s) \<union> set (dropWhile P s)"
  by (metis set_append takeWhile_dropWhile_id)

lemma set_skip_sign: "set s \<subseteq> {CHR ''+'', CHR ''-''} \<union> set (skip_sign s)"
  by (cases s) (auto simp: skip_sign_def)

lemma exponent_ok_chars: "exponent_ok s \<Longrightarrow> c \<in> set s \<Longrightarrow> numeric_char c"
  using set_skip_sign [of "tl s"] all_digits [of "skip_sign (tl s)"]
  by (cases s) (auto simp: exponent_ok_def numeric_char_def Let_def split: if_splits)

lemma fraction_chars:
  "fraction s = (d, r) \<Longrightarrow> c \<in> set s \<Longrightarrow> c = CHR ''.'' \<or> is_digit c \<or> c \<in> set r"
  using set_split_while [of "tl s" is_digit] set_takeWhileD [of c is_digit "tl s"]
  by (cases s) (auto simp: fraction_def split: if_splits)

lemma is_safe_numeric_chars:
  assumes "is_safe_numeric s" and c: "c \<in> set (trim s)"
  shows "numeric_char c"
proof (cases "trim s \<in> {''NaN'', ''Infinity'', ''-Infinity'', ''+Infinity''}")
  case True
  then show ?thesis using c by (auto simp: numeric_char_def)
next
  case False
  let ?s1 = "skip_sign (trim s)"
  obtain d2 r2 where f: "fraction (dropWhile is_digit ?s1) = (d2, r2)" by fastforce
  have e: "exponent_ok r2"
    using assms(1) False f by (auto simp: is_safe_numeric_def Let_def split: if_splits)
  from c set_skip_sign consider "c \<in> {CHR ''+'', CHR ''-''}" | "c \<in> set ?s1" by blast
  then show ?thesis
  proof cases
    case 1
    then show ?thesis by (auto simp: numeric_char_def)
  next
    case 2
    then consider "c \<in> set (takeWhile is_digit ?s1)" | "c \<in> set (dropWhile is_digit ?s1)"
      using set_split_while by fast
    then show ?thesis
    proof cases
      case 1
      then show ?thesis using set_takeWhileD [OF 1] by (simp add: numeric_char_def)
    next
      case 2
      from fraction_chars [OF f 2] consider "c = CHR ''.''" | "is_digit c" | "c \<in> set r2" by blast
      then show ?thesis
      proof cases
        case 3
        then show ?thesis by (rule exponent_ok_chars [OF e])
      qed (simp_all add: numeric_char_def)
    qed
  qed
qed

section \<open>What the parameter inliner promises\<close>

text \<open>
  Array decoding stays in bounds: The decoder of binary array parameters returns a value or an
  error for every byte string: none of its reads, all at positions the client controls, leaves the
  buffer.
\<close>

theorem array_decoder_in_bounds: "\<exists>r. decode_bin_array b = Ret r"
  by (rule decode_bin_array_ok)

text \<open>
  Quoted parameters are closed. A value rendered as a quoted literal is one string token of the
  scanner: from outside a literal the scanner passes over it unchanged and is outside again, whatever
  quotes and placeholders the value contains.
\<close>

theorem quoted_parameter_closed:
  "inline_scan rendered Normal (quote_lit v @ rest) = quote_lit v @ inline_scan rendered Normal rest"
  by (rule scan_quote_lit)

text \<open>
  Inlining changes placeholders only. With no parameters bound, the scanner copies any statement
  unchanged: literals, quoted identifiers, dollar quotes and comments included.
\<close>

theorem inline_scan_copies: "inline_scan [] Normal sql = sql"
  by (rule inline_scan_lossless) (simp add: delim_ok_def)

text \<open>
  Bare parameters are numbers. A text parameter of a numeric type is spliced unquoted only when it
  consists of digits, signs, a point, an exponent or the words NaN and Infinity; no quote, semicolon,
  space or parenthesis can get into the statement that way.
\<close>

theorem bare_parameter_chars:
  assumes "is_safe_numeric s" and "c \<in> set (trim s)"
  shows "numeric_char c"
  by (rule is_safe_numeric_chars [OF assms])

theorem bare_parameter_chars_witness: "is_safe_numeric ''-12.5e3'' \<and> numeric_char (CHR ''.'')"
proof -
  have s: "is_safe_numeric ''-12.5e3''"
    by code_simp
  have "CHR ''.'' \<in> set (trim ''-12.5e3'')" by code_simp
  then show ?thesis using bare_parameter_chars [OF s] s by blast
qed

end
