(* ===== verification/Pg_Server.thy ===== *)
theory Pg_Server
  imports Pg_Params Firewall_Gate Audit_Log Mutate "HOL-Library.Sublist"
begin

text \<open>
  \<open>crates/mw-net/src/engine/postgres/server.rs\<close>: the PostgreSQL handshake and the message loop
  of a session, with the simple and the extended query protocol. As for MySQL, a session is a
  function of the bytes the client sends, and what it does is a trace of events; the backend pool is
  the record \<open>pg_backend\<close>. A socket write succeeds (its failure ends the session).
\<close>

definition SQLSTATE_INVALID_PASSWORD :: string where "SQLSTATE_INVALID_PASSWORD = ''28P01''"
definition SQLSTATE_INSUFFICIENT_PRIVILEGE :: string where "SQLSTATE_INSUFFICIENT_PRIVILEGE = ''42501''"
definition SQLSTATE_INTERNAL :: string where "SQLSTATE_INTERNAL = ''58000''"
definition SQLSTATE_FEATURE_NOT_SUPPORTED :: string where "SQLSTATE_FEATURE_NOT_SUPPORTED = ''0A000''"

record pg_session =
  ps_user_seen :: string
  ps_database :: "string option"

datatype engine_error =
    EngineAuth
  | EngineUnsupported
  | EngineBackend string
  | EngineOther string

fun engine_error_of :: "pg_proto_error \<Rightarrow> engine_error" where
  "engine_error_of PgClosed = EngineOther ''client closed''"
| "engine_error_of (PgMalformed m) = EngineOther (''malformed: '' @ m)"

section \<open>The handshake\<close>

text \<open>The startup loop answers an encryption request with \<open>N\<close> and reads again: the result,
  the bytes written and the input left.\<close>

function startup_loop :: "bytes \<Rightarrow> (engine_error + (string \<times> string) list) \<times> bytes \<times> bytes" where
  "startup_loop inp =
     (case read_startup inp of
        Inl e \<Rightarrow> (Inl (engine_error_of e), [], [])
      | Inr (Params p, rest) \<Rightarrow> (Inr p, [], rest)
      | Inr (EncryptionRequest, rest) \<Rightarrow>
          (let (r, out, rest') = startup_loop rest in (r, as_bytes ''N'' @ out, rest'))
      | Inr (CancelRequest, rest) \<Rightarrow> (Inl (EngineOther ''cancel request''), [], rest))"
  by pat_completeness auto
termination
  by (relation "measure length") (auto dest: read_startup_consumes)

declare startup_loop.simps [simp del]

definition find_param :: "string \<Rightarrow> (string \<times> string) list \<Rightarrow> string option" where
  "find_param key params = map_option snd (find (\<lambda>(k, v). k = key) params)"

definition pg_token_ok :: "(bytes \<Rightarrow> bytes) \<Rightarrow> bytes \<Rightarrow> client_auth_kind \<Rightarrow> bool" where
  "pg_token_ok sha256 presented auth_kind =
     (case auth_kind of
        PgCleartext stored \<Rightarrow> verify_pg_cleartext sha256 presented stored
      | NativePassword _ \<Rightarrow> False)"

definition pg_greeting :: "u32 \<Rightarrow> u32 \<Rightarrow> bytes" where
  "pg_greeting pid secret =
     auth_ok_msg @
     concat (map (\<lambda>(k, v). parameter_status k v)
       [(''server_version'', ''15.0 (middlewhere)''), (''server_encoding'', ''UTF8''),
        (''client_encoding'', ''UTF8''), (''DateStyle'', ''ISO, MDY''),
        (''integer_datetimes'', ''on''), (''standard_conforming_strings'', ''on'')]) @
     backend_key_data pid secret @ ready_for_query"

definition pg_handshake ::
  "(bytes \<Rightarrow> bytes) \<Rightarrow> u32 \<Rightarrow> u32 \<Rightarrow> name \<Rightarrow> client_auth_kind \<Rightarrow> bytes
     \<Rightarrow> (engine_error + pg_session) \<times> bytes \<times> bytes" where
  "pg_handshake sha256 pid secret env auth_kind inp =
     (case startup_loop inp of
        (Inl e, out, rest) \<Rightarrow> (Inl e, out, rest)
      | (Inr params, out, rest) \<Rightarrow>
          (let user = (case find_param ''user'' params of Some u \<Rightarrow> u | None \<Rightarrow> []);
               database = find_param ''database'' params;
               out1 = out @ auth_cleartext_request
           in case read_message rest of
                Inl e \<Rightarrow> (Inl (engine_error_of e), out1, [])
              | Inr ((tag, body), rest1) \<Rightarrow>
                  if tag \<noteq> tag_byte (CHR ''p'') then
                    (Inl EngineAuth,
                     out1 @ error_response SQLSTATE_INVALID_PASSWORD ''expected password message'',
                     rest1)
                  else
                    (let presented = takeWhile (\<lambda>b. b \<noteq> 0) body;
                         user_ok = (user = env);
                         tok_ok = pg_token_ok sha256 presented auth_kind
                     in if \<not> (user_ok \<and> tok_ok) then
                          (Inl EngineAuth,
                           out1 @ error_response SQLSTATE_INVALID_PASSWORD
                                    ''password authentication failed'',
                           rest1)
                        else
                          (Inr \<lparr>ps_user_seen = user, ps_database = database\<rparr>,
                           out1 @ pg_greeting pid secret, rest1))))"

section \<open>Running a query\<close>

text \<open>The command tag: the first word of the statement, up to white space or a parenthesis.\<close>

fun first_word :: "string \<Rightarrow> string" where
  "first_word [] = []"
| "first_word (c # cs) =
     (if c = CHR ''('' \<or> find (\<lambda>w. starts_with w (c # cs)) ws_chars \<noteq> None then []
      else c # first_word cs)"

definition command_tag :: "string \<Rightarrow> nat \<Rightarrow> string" where
  "command_tag sql rows =
     (let verb = ascii_upper (first_word (trim_start sql)) in
      if verb = ''INSERT'' then ''INSERT 0 '' @ show_nat rows
      else if verb \<in> {''SELECT'', ''WITH'', ''VALUES'', ''SHOW'', ''TABLE''}
      then ''SELECT '' @ show_nat rows
      else if verb = ''UPDATE'' then ''UPDATE '' @ show_nat rows
      else if verb = ''DELETE'' then ''DELETE '' @ show_nat rows
      else if verb \<noteq> [] then verb
      else ''SELECT 0'')"

datatype simple_message =
    SimpleRow "(string \<times> bytes option) list"
  | SimpleComplete u64
  | SimpleOther

record result_set =
  rs_cols :: "string list"
  rs_rows :: "bytes option list list"
  rs_tag :: string

fun collect ::
  "simple_message list \<Rightarrow> string list \<Rightarrow> bytes option list list \<Rightarrow> u64
     \<Rightarrow> string list \<times> bytes option list list \<times> u64" where
  "collect [] cols rows affected = (cols, rows, affected)"
| "collect (SimpleRow r # ms) cols rows affected =
     collect ms (if cols = [] then map fst r else cols) (rows @ [map snd r]) affected"
| "collect (SimpleComplete n # ms) cols rows affected = collect ms cols rows n"
| "collect (SimpleOther # ms) cols rows affected = collect ms cols rows affected"

definition result_of :: "string \<Rightarrow> simple_message list \<Rightarrow> result_set" where
  "result_of sql msgs =
     (let (cols, rows, affected) = collect msgs [] [] 0;
          tag = (if rows = [] \<and> cols = [] then command_tag sql (unat affected)
                 else command_tag sql (length rows))
      in \<lparr>rs_cols = cols, rs_rows = rows, rs_tag = tag\<rparr>)"

record 'b pg_backend =
  pg_pool_get :: "'b \<Rightarrow> (string + unit) \<times> 'b"
  pg_prepare :: "string \<Rightarrow> 'b \<Rightarrow> (string + u32 list \<times> (string \<times> u32) list) \<times> 'b"
  pg_simple_query :: "string \<Rightarrow> 'b \<Rightarrow> (string + simple_message list) \<times> 'b"

record ('x, 'b) pg_env =
  pe_parser :: "'x sqlparser"
  pe_audit :: audit_env
  pe_floats :: pg_floats
  pe_backend :: "'b pg_backend"
  pe_env_name :: name
  pe_client_user :: string
  pe_policy :: policy

datatype pg_event =
    PgWrote bytes
  | PgAudited audit_event
  | PgPrepared string
  | PgExecuted string

definition write_result_set :: "result_set \<Rightarrow> pg_event list" where
  "write_result_set rs =
     (if rs_cols rs = [] then [PgWrote no_data]
      else PgWrote (row_description (map (\<lambda>n. (n, 25)) (rs_cols rs))) #
           map (\<lambda>row. PgWrote (data_row row)) (rs_rows rs)) @
     [PgWrote (command_complete (rs_tag rs))]"

definition write_rows_only :: "result_set \<Rightarrow> pg_event list" where
  "write_rows_only rs =
     map (\<lambda>row. PgWrote (data_row row)) (rs_rows rs) @ [PgWrote (command_complete (rs_tag rs))]"

definition pg_audit ::
  "('x, 'b) pg_env \<Rightarrow> string \<Rightarrow> audit_decision \<Rightarrow> string option \<Rightarrow> u64 option \<Rightarrow> pg_event" where
  "pg_audit pe sql dec reason rows =
     PgAudited (audit_event_new (pe_audit pe) (pe_env_name pe) (pe_client_user pe) sql dec reason rows)"

text \<open>The common body of \<open>firewalled_exec\<close> and \<open>exec_rows_only\<close>, which differ in the
  frames of the result: whether the statement ran, the events and the backend.\<close>

definition gated_exec ::
  "('x, 'b) pg_env \<Rightarrow> (result_set \<Rightarrow> pg_event list) \<Rightarrow> string \<Rightarrow> 'b \<Rightarrow> bool \<times> pg_event list \<times> 'b" where
  "gated_exec pe frames sql b =
     (case evaluate (pe_parser pe) sql (pe_policy pe) PG_PROFILE of
        Deny reason \<Rightarrow>
          (False,
           [pg_audit pe sql AuditDeny (Some reason) None,
            PgWrote (error_response SQLSTATE_INSUFFICIENT_PRIVILEGE reason)], b)
      | Allow \<Rightarrow>
     (case pg_pool_get (pe_backend pe) b of
        (Inl e, b1) \<Rightarrow>
          (False, [PgWrote (error_response SQLSTATE_INTERNAL ''backend unavailable'')], b1)
      | (Inr _, b1) \<Rightarrow>
     (case pg_simple_query (pe_backend pe) sql b1 of
        (Inl e, b2) \<Rightarrow>
          (False,
           [PgExecuted sql, pg_audit pe sql AuditDeny (Some ''backend error'') None,
            PgWrote (error_response SQLSTATE_INTERNAL ''query failed'')], b2)
      | (Inr msgs, b2) \<Rightarrow>
          (let rs = result_of sql msgs
           in (True,
               [PgExecuted sql] @ frames rs @
               [pg_audit pe sql AuditAllow None (Some (word_of_nat (length (rs_rows rs))))], b2)))))"

definition firewalled_exec ::
  "('x, 'b) pg_env \<Rightarrow> string \<Rightarrow> 'b \<Rightarrow> bool \<times> pg_event list \<times> 'b" where
  "firewalled_exec pe sql b = gated_exec pe write_result_set sql b"

definition exec_rows_only ::
  "('x, 'b) pg_env \<Rightarrow> string \<Rightarrow> 'b \<Rightarrow> bool \<times> pg_event list \<times> 'b" where
  "exec_rows_only pe sql b = gated_exec pe write_rows_only sql b"

definition backend_describe ::
  "('x, 'b) pg_env \<Rightarrow> string \<Rightarrow> 'b
     \<Rightarrow> (string + u32 list \<times> (string \<times> u32) list) \<times> pg_event list \<times> 'b" where
  "backend_describe pe sql b =
     (case pg_pool_get (pe_backend pe) b of
        (Inl e, b1) \<Rightarrow> (Inl e, [], b1)
      | (Inr _, b1) \<Rightarrow>
          (let (r, b2) = pg_prepare (pe_backend pe) sql b1 in (r, [PgPrepared sql], b2)))"

section \<open>The session's messages\<close>

record prepared_stmt =
  pr_sql :: string
  pr_param_oids :: "u32 list"
  pr_col_meta :: "(string \<times> u32) list"

record portal =
  po_stmt :: string
  po_sql :: string

record pg_state =
  st_prepared :: "string \<Rightarrow> prepared_stmt option"
  st_portals :: "string \<Rightarrow> portal option"
  st_skip :: bool

definition pg_init :: pg_state where
  "pg_init = \<lparr>st_prepared = (\<lambda>_. None), st_portals = (\<lambda>_. None), st_skip = False\<rparr>"

datatype pg_outcome = PgNext | PgEnd | PgFailed engine_error | PgPanicked

type_synonym 'b pg_step = "pg_outcome \<times> pg_event list \<times> pg_state \<times> 'b"

text \<open>An error in an extended series: the response, and skipping until the next Sync.\<close>

definition fail_series :: "string \<Rightarrow> string \<Rightarrow> pg_event list \<Rightarrow> pg_state \<Rightarrow> 'b \<Rightarrow> 'b pg_step" where
  "fail_series code m ev st b =
     (PgNext, ev @ [PgWrote (error_response code m)], st\<lparr>st_skip := True\<rparr>, b)"

definition handle_query :: "('x, 'b) pg_env \<Rightarrow> bytes \<Rightarrow> pg_state \<Rightarrow> 'b \<Rightarrow> 'b pg_step" where
  "handle_query pe body st b =
     (let sql = from_utf8_lossy (takeWhile (\<lambda>x. x \<noteq> 0) body)
      in if trim sql = []
         then (PgNext, [PgWrote empty_query_response, PgWrote ready_for_query], st, b)
         else (let (ran, ev, b') = firewalled_exec pe sql b
               in (PgNext, ev @ [PgWrote ready_for_query], st, b')))"

definition handle_parse :: "('x, 'b) pg_env \<Rightarrow> bytes \<Rightarrow> pg_state \<Rightarrow> 'b \<Rightarrow> 'b pg_step" where
  "handle_parse pe body st b =
     (if st_skip st then (PgNext, [], st, b)
      else case parse_parse body of
        None \<Rightarrow> fail_series SQLSTATE_FEATURE_NOT_SUPPORTED ''bad Parse'' [] st b
      | Some m \<Rightarrow>
     (case evaluate (pe_parser pe) (pm_query m) (pe_policy pe) PG_PROFILE of
        Deny reason \<Rightarrow>
          fail_series SQLSTATE_INSUFFICIENT_PRIVILEGE reason
            [pg_audit pe (pm_query m) AuditDeny (Some reason) None] st b
      | Allow \<Rightarrow>
     (case backend_describe pe (pm_query m) b of
        (Inl e, ev, b') \<Rightarrow> fail_series SQLSTATE_INTERNAL ''statement parse failed'' ev st b'
      | (Inr (oids, cols), ev, b') \<Rightarrow>
          (PgNext, ev @ [PgWrote parse_complete],
           st\<lparr>st_prepared := (st_prepared st)(pm_stmt m \<mapsto>
               \<lparr>pr_sql = pm_query m, pr_param_oids = oids, pr_col_meta = cols\<rparr>)\<rparr>, b'))))"

text \<open>The rendering loop: the first unsupported parameter stops it.\<close>

fun render_params ::
  "pg_floats \<Rightarrow> u32 list \<Rightarrow> int list \<Rightarrow> nat \<Rightarrow> bytes option list \<Rightarrow> (string + string list) panicking" where
  "render_params pf oids fmts i [] = Ret (Inr [])"
| "render_params pf oids fmts i (v # vs) =
     (let oid = (if i < length oids then oids ! i else 0);
          fmt = (if i < length fmts then fmts ! i else 0)
      in bind_panic (render_param pf oid fmt v) (\<lambda>r.
           case r of
             Inl e \<Rightarrow> Ret (Inl e)
           | Inr s \<Rightarrow>
               bind_panic (render_params pf oids fmts (Suc i) vs) (\<lambda>r'.
                 Ret (case r' of Inl e \<Rightarrow> Inl e | Inr ss \<Rightarrow> Inr (s # ss)))))"

definition handle_bind :: "('x, 'b) pg_env \<Rightarrow> bytes \<Rightarrow> pg_state \<Rightarrow> 'b \<Rightarrow> 'b pg_step" where
  "handle_bind pe body st b =
     (if st_skip st then (PgNext, [], st, b)
      else case parse_bind body of
        Panic \<Rightarrow> (PgPanicked, [], st, b)
      | Ret None \<Rightarrow> fail_series SQLSTATE_FEATURE_NOT_SUPPORTED ''bad Bind'' [] st b
      | Ret (Some m) \<Rightarrow>
     (case st_prepared st (bm_stmt m) of
        None \<Rightarrow> fail_series SQLSTATE_INTERNAL ''unknown prepared statement'' [] st b
      | Some prep \<Rightarrow>
     (case render_params (pe_floats pe) (pr_param_oids prep) (bm_param_formats m) 0 (bm_params m) of
        Panic \<Rightarrow> (PgPanicked, [], st, b)
      | Ret (Inl e) \<Rightarrow> fail_series SQLSTATE_FEATURE_NOT_SUPPORTED e [] st b
      | Ret (Inr rendered) \<Rightarrow>
          (PgNext, [PgWrote bind_complete],
           st\<lparr>st_portals := (st_portals st)(bm_portal m \<mapsto>
               \<lparr>po_stmt = bm_stmt m, po_sql = inline_params (pr_sql prep) rendered\<rparr>)\<rparr>, b))))"

definition describe_meta :: "pg_state \<Rightarrow> u8 \<Rightarrow> string \<Rightarrow> (u32 list option \<times> (string \<times> u32) list) option" where
  "describe_meta st kind nm =
     (if kind = tag_byte (CHR ''S'')
      then map_option (\<lambda>p. (Some (pr_param_oids p), pr_col_meta p)) (st_prepared st nm)
      else map_option (\<lambda>p. (None, pr_col_meta p))
             (Option.bind (st_portals st nm) (\<lambda>po. st_prepared st (po_stmt po))))"

definition handle_describe :: "bytes \<Rightarrow> pg_state \<Rightarrow> 'b \<Rightarrow> 'b pg_step" where
  "handle_describe body st b =
     (if st_skip st then (PgNext, [], st, b)
      else case parse_describe_or_close body of
        None \<Rightarrow> (PgNext, [PgWrote no_data], st, b)
      | Some (kind, nm) \<Rightarrow>
     (case describe_meta st kind nm of
        None \<Rightarrow> (PgNext, [PgWrote no_data], st, b)
      | Some (oids, cols) \<Rightarrow>
          (PgNext,
           (case oids of Some os \<Rightarrow> [PgWrote (parameter_description os)] | None \<Rightarrow> []) @
           [PgWrote (if cols = [] then no_data else row_description cols)], st, b)))"

definition handle_execute :: "('x, 'b) pg_env \<Rightarrow> bytes \<Rightarrow> pg_state \<Rightarrow> 'b \<Rightarrow> 'b pg_step" where
  "handle_execute pe body st b =
     (if st_skip st then (PgNext, [], st, b)
      else
        (let portal_name = (case parse_execute body of Some nm \<Rightarrow> nm | None \<Rightarrow> [])
         in case st_portals st portal_name of
              None \<Rightarrow> fail_series SQLSTATE_INTERNAL ''unknown portal'' [] st b
            | Some po \<Rightarrow>
                (let (ran, ev, b') = exec_rows_only pe (po_sql po) b
                 in (PgNext, ev, if ran then st else st\<lparr>st_skip := True\<rparr>, b'))))"

definition handle_close :: "bytes \<Rightarrow> pg_state \<Rightarrow> 'b \<Rightarrow> 'b pg_step" where
  "handle_close body st b =
     (PgNext, [PgWrote close_complete],
      (case parse_describe_or_close body of
         None \<Rightarrow> st
       | Some (kind, nm) \<Rightarrow>
           if kind = tag_byte (CHR ''S'')
           then st\<lparr>st_prepared := (st_prepared st)(nm := None)\<rparr>
           else st\<lparr>st_portals := (st_portals st)(nm := None)\<rparr>), b)"

definition handle_message :: "('x, 'b) pg_env \<Rightarrow> u8 \<Rightarrow> bytes \<Rightarrow> pg_state \<Rightarrow> 'b \<Rightarrow> 'b pg_step" where
  "handle_message pe tag body st b =
     (if tag = tag_byte (CHR ''Q'') then handle_query pe body st b
      else if tag = tag_byte (CHR ''P'') then handle_parse pe body st b
      else if tag = tag_byte (CHR ''B'') then handle_bind pe body st b
      else if tag = tag_byte (CHR ''D'') then handle_describe body st b
      else if tag = tag_byte (CHR ''E'') then handle_execute pe body st b
      else if tag = tag_byte (CHR ''C'') then handle_close body st b
      else if tag = tag_byte (CHR ''H'') then (PgNext, [], st, b)
      else if tag = tag_byte (CHR ''S'') then
        (PgNext, [PgWrote ready_for_query], st\<lparr>st_skip := False\<rparr>, b)
      else if tag = tag_byte (CHR ''X'') then (PgEnd, [], st, b)
      else (PgNext,
            [PgWrote (error_response SQLSTATE_FEATURE_NOT_SUPPORTED ''unsupported message''),
             PgWrote ready_for_query], st, b))"

function serve_loop :: "('x, 'b) pg_env \<Rightarrow> bytes \<Rightarrow> pg_state \<Rightarrow> 'b \<Rightarrow> 'b pg_step" where
  "serve_loop pe inp st b =
     (case read_message inp of
        Inl PgClosed \<Rightarrow> (PgEnd, [], st, b)
      | Inl e \<Rightarrow> (PgFailed (engine_error_of e), [], st, b)
      | Inr ((tag, body), rest) \<Rightarrow>
          (case handle_message pe tag body st b of
             (PgNext, ev, st', b') \<Rightarrow>
               (let (r, ev', st'', b'') = serve_loop pe rest st' b' in (r, ev @ ev', st'', b''))
           | stop \<Rightarrow> stop))"
  by pat_completeness auto
termination
  by (relation "measure (\<lambda>(pe, inp, st, b). length inp)") (auto dest: read_message_consumes)

declare serve_loop.simps [simp del]

definition pg_serve :: "('x, 'b) pg_env \<Rightarrow> bytes \<Rightarrow> 'b \<Rightarrow> 'b pg_step" where
  "pg_serve pe inp b = serve_loop pe inp pg_init b"

section \<open>What reaches the backend\<close>

definition pg_handed :: "pg_event \<Rightarrow> string option" where
  "pg_handed e = (case e of PgPrepared q \<Rightarrow> Some q | PgExecuted q \<Rightarrow> Some q | _ \<Rightarrow> None)"

lemma pg_handed_simps [simp]:
  "pg_handed (PgWrote b) = None" "pg_handed (PgAudited a) = None"
  "pg_handed (PgPrepared q) = Some q" "pg_handed (PgExecuted q) = Some q"
  "pg_handed (pg_audit pe sql dec reason rows) = None"
  by (simp_all add: pg_handed_def pg_audit_def)

definition gated_events :: "('x, 'b) pg_env \<Rightarrow> pg_event list \<Rightarrow> bool" where
  "gated_events pe ev \<longleftrightarrow>
     (\<forall>e \<in> set ev. \<forall>q. pg_handed e = Some q \<longrightarrow>
        evaluate (pe_parser pe) q (pe_policy pe) PG_PROFILE = Allow)"

lemma gated_events_simps [simp]:
  "gated_events pe []"
  "gated_events pe (e # ev) \<longleftrightarrow>
     (\<forall>q. pg_handed e = Some q \<longrightarrow> evaluate (pe_parser pe) q (pe_policy pe) PG_PROFILE = Allow) \<and>
     gated_events pe ev"
  "gated_events pe (ev @ ev') \<longleftrightarrow> gated_events pe ev \<and> gated_events pe ev'"
  by (auto simp: gated_events_def)

lemma gated_frames [simp]:
  "gated_events pe (write_result_set rs)" "gated_events pe (write_rows_only rs)"
proof -
  show rows: "gated_events pe (write_rows_only rs)"
    by (auto simp: write_rows_only_def gated_events_def)
  have "gated_events pe (map (\<lambda>row. PgWrote (data_row row)) xs)" for xs
    by (auto simp: gated_events_def)
  then show "gated_events pe (write_result_set rs)"
    by (simp add: write_result_set_def)
qed

lemma gated_exec_gated:
  "(\<And>rs. gated_events pe (frames rs)) \<Longrightarrow> gated_exec pe frames sql b = (done1, ev, b') \<Longrightarrow>
   gated_events pe ev"
  by (auto simp: gated_exec_def Let_def split: decision.splits prod.splits sum.splits)

lemma firewalled_exec_gated: "firewalled_exec pe sql b = (done1, ev, b') \<Longrightarrow> gated_events pe ev"
  by (rule gated_exec_gated [of pe write_result_set]) (simp_all add: firewalled_exec_def)

lemma exec_rows_only_gated: "exec_rows_only pe sql b = (done1, ev, b') \<Longrightarrow> gated_events pe ev"
  by (rule gated_exec_gated [of pe write_rows_only]) (simp_all add: exec_rows_only_def)

lemma fail_series_step [simp]:
  "fail_series code m ev st b = (r, ev', st', b') \<longleftrightarrow>
     r = PgNext \<and> ev' = ev @ [PgWrote (error_response code m)] \<and> st' = st\<lparr>st_skip := True\<rparr> \<and> b' = b"
  by (auto simp: fail_series_def)

text \<open>The invariant of the prepared statements: each was allowed when it was parsed.\<close>

definition prepared_allowed :: "('x, 'b) pg_env \<Rightarrow> pg_state \<Rightarrow> bool" where
  "prepared_allowed pe st \<longleftrightarrow>
     (\<forall>nm p. st_prepared st nm = Some p \<longrightarrow>
        evaluate (pe_parser pe) (pr_sql p) (pe_policy pe) PG_PROFILE = Allow)"

lemma handle_query_step:
  "handle_query pe body st b = (r, ev, st', b') \<Longrightarrow> gated_events pe ev \<and> st' = st"
  by (auto simp: handle_query_def Let_def split: if_splits prod.splits dest: firewalled_exec_gated)

lemma backend_describe_gated:
  "backend_describe pe sql b = (r, ev, b') \<Longrightarrow>
   evaluate (pe_parser pe) sql (pe_policy pe) PG_PROFILE = Allow \<Longrightarrow> gated_events pe ev"
  by (auto simp: backend_describe_def Let_def split: prod.splits sum.splits)

lemma handle_parse_step:
  "handle_parse pe body st b = (r, ev, st', b') \<Longrightarrow> prepared_allowed pe st \<Longrightarrow>
   gated_events pe ev \<and> prepared_allowed pe st'"
  by (auto simp: handle_parse_def prepared_allowed_def
      split: if_splits option.splits decision.splits prod.splits sum.splits
      dest: backend_describe_gated)

lemma handle_bind_step:
  "handle_bind pe body st b = (r, ev, st', b') \<Longrightarrow> gated_events pe ev \<and> st_prepared st' = st_prepared st"
  by (auto simp: handle_bind_def
      split: if_splits option.splits prod.splits sum.splits panicking.splits)

lemma handle_describe_step:
  "handle_describe body st b = (r, ev, st', b') \<Longrightarrow> gated_events pe ev \<and> st' = st"
  by (auto simp: handle_describe_def split: if_splits option.splits prod.splits)

lemma handle_execute_step:
  "handle_execute pe body st b = (r, ev, st', b') \<Longrightarrow>
   gated_events pe ev \<and> st_prepared st' = st_prepared st"
  by (auto simp: handle_execute_def Let_def split: if_splits option.splits prod.splits
      dest: exec_rows_only_gated)

lemma handle_close_step:
  "handle_close body st b = (r, ev, st', b') \<Longrightarrow> prepared_allowed pe st \<Longrightarrow>
   gated_events pe ev \<and> prepared_allowed pe st'"
  by (auto simp: handle_close_def prepared_allowed_def split: if_splits option.splits prod.splits)

lemma handle_message_step:
  assumes "handle_message pe tag body st b = (r, ev, st', b')" and "prepared_allowed pe st"
  shows "gated_events pe ev \<and> prepared_allowed pe st'"
  using assms unfolding handle_message_def
  by (auto simp: prepared_allowed_def split: if_splits
      dest: handle_query_step handle_bind_step handle_describe_step handle_execute_step
      dest!: handle_parse_step [unfolded prepared_allowed_def]
        handle_close_step [unfolded prepared_allowed_def])

lemma serve_loop_gated:
  "serve_loop pe inp st b = (r, ev, st', b') \<Longrightarrow> prepared_allowed pe st \<Longrightarrow>
   gated_events pe ev \<and> prepared_allowed pe st'"
proof (induction pe inp st b arbitrary: r ev st' b' rule: serve_loop.induct)
  case (1 pe inp st b)
  note eq = "1.prems"(1) [unfolded serve_loop.simps [of pe inp st b]]
  show ?case
  proof (cases "read_message inp")
    case (Inl e)
    then show ?thesis using eq "1.prems"(2) by (auto split: pg_proto_error.splits)
  next
    case (Inr m)
    obtain tag body rest where m: "m = ((tag, body), rest)" by (metis prod.collapse)
    obtain r1 ev1 st1 b1 where h: "handle_message pe tag body st b = (r1, ev1, st1, b1)"
      by (metis prod_cases4)
    note step = handle_message_step [OF h "1.prems"(2)]
    show ?thesis
    proof (cases "r1 = PgNext")
      case True
      obtain r2 ev2 st2 b2 where t: "serve_loop pe rest st1 b1 = (r2, ev2, st2, b2)"
        by (metis prod_cases4)
      have res: "ev = ev1 @ ev2" "st' = st2" using eq Inr m h True t by (simp_all add: Let_def)
      have "gated_events pe ev2 \<and> prepared_allowed pe st2"
        using "1.IH" [OF Inr, of "(tag, body)" rest tag body] m h True t step by simp
      then show ?thesis using step res by simp
    next
      case False
      then show ?thesis using eq Inr m h step by (cases r1) auto
    qed
  qed
qed

lemma prepared_allowed_init [simp]: "prepared_allowed pe pg_init"
  by (simp add: prepared_allowed_def pg_init_def)

definition pg_trace :: "('x, 'b) pg_env \<times> bytes \<times> 'b \<Rightarrow> pg_event list" where
  "pg_trace = (\<lambda>(pe, inp, b). fst (snd (pg_serve pe inp b)))"

interpretation pg_gate: gated_session
  "pg_trace :: ('d, 'e) pg_env \<times> bytes \<times> 'e \<Rightarrow> pg_event list" pg_handed
  "\<lambda>(pe, inp, b). pe_parser pe" "\<lambda>(pe, inp, b). pe_policy pe" PG_PROFILE
proof unfold_locales
  fix e and c :: "('d, 'e) pg_env \<times> bytes \<times> 'e" and q
  assume e: "e \<in> set (pg_trace c)" "pg_handed e = Some q"
  obtain pe inp b where c: "c = (pe, inp, b)" by (cases c)
  obtain r ev st b' where s: "serve_loop pe inp pg_init b = (r, ev, st, b')" by (metis prod_cases4)
  then show "evaluate (case c of (pe, inp, b) \<Rightarrow> pe_parser pe) q
      (case c of (pe, inp, b) \<Rightarrow> pe_policy pe) PG_PROFILE = Allow"
    using serve_loop_gated [OF s] e by (auto simp: c pg_trace_def pg_serve_def gated_events_def)
qed

section \<open>Skipping, and the end of a simple query\<close>

lemma handle_message_skipping:
  "st_skip st \<Longrightarrow>
   tag \<in> tag_byte ` {CHR ''P'', CHR ''B'', CHR ''D'', CHR ''E''} \<Longrightarrow>
   handle_message pe tag body st b = (PgNext, [], st, b)"
  by (auto simp: handle_message_def tag_byte_def handle_parse_def handle_bind_def
      handle_describe_def handle_execute_def)

lemma handle_query_ready:
  "\<exists>ev b'. handle_query pe body st b = (PgNext, ev @ [PgWrote ready_for_query], st, b')"
  by (auto simp: handle_query_def Let_def split: prod.splits)

lemma render_params_ok: "\<exists>r. render_params pf oids fmts i vs = Ret r"
proof (induction vs arbitrary: i)
  case (Cons v vs)
  obtain q where q: "render_param pf (if i < length oids then oids ! i else 0)
      (if i < length fmts then fmts ! i else 0) v = Ret q" using render_param_ok by blast
  obtain q' where "render_params pf oids fmts (Suc i) vs = Ret q'" using Cons by blast
  then show ?case using q by (cases q) (simp_all add: Let_def)
qed simp

lemma handle_message_panics_iff:
  "fst (handle_message pe tag body st b) = PgPanicked \<longleftrightarrow>
     tag = tag_byte (CHR ''B'') \<and> \<not> st_skip st \<and> parse_bind body = Panic"
proof -
  have b: "fst (handle_bind pe body st b) = PgPanicked \<longleftrightarrow> \<not> st_skip st \<and> parse_bind body = Panic"
    using render_params_ok
    by (auto simp: handle_bind_def fail_series_def
        split: option.splits sum.splits panicking.splits) (metis panicking.distinct(1))
  have t: "tag_byte (CHR ''Q'') \<noteq> tag_byte (CHR ''B'')" "tag_byte (CHR ''P'') \<noteq> tag_byte (CHR ''B'')"
    by (simp_all add: tag_byte_def)
  have q: "fst (handle_query pe body st b) \<noteq> PgPanicked"
    by (simp add: handle_query_def Let_def split: prod.splits)
  have p: "fst (handle_parse pe body st b) \<noteq> PgPanicked"
    by (simp add: handle_parse_def fail_series_def split: option.splits decision.splits prod.splits sum.splits)
  have d: "fst (handle_describe body st b) \<noteq> PgPanicked"
    by (simp add: handle_describe_def split: option.splits prod.splits)
  have e: "fst (handle_execute pe body st b) \<noteq> PgPanicked"
    by (simp add: handle_execute_def fail_series_def Let_def split: option.splits prod.splits)
  have c: "fst (handle_close body st b) \<noteq> PgPanicked" by (simp add: handle_close_def)
  show ?thesis
    using q p d e c b t by (auto simp: handle_message_def)
qed

section \<open>Who is let in\<close>

lemma pg_handshake_accepts_only:
  "pg_handshake sha256 pid secret env ak inp = (Inr ses, out, rest) \<Longrightarrow>
   ps_user_seen ses = env \<and> (\<exists>presented stored. ak = PgCleartext stored \<and> sha256 presented = stored)"
  by (auto simp: pg_handshake_def pg_token_ok_def verify_pg_cleartext_def Let_def
      split: sum.splits prod.splits if_splits client_auth_kind.splits)

lemma startup_loop_params:
  "read_startup inp = Inr (Params p, rest) \<Longrightarrow> startup_loop inp = (Inr p, [], rest)"
  by (simp add: startup_loop.simps)

lemma pg_handshake_accepts_token:
  assumes env: "utf8_text env" "0 \<notin> set (as_bytes env)" and tok: "0 \<notin> set (as_bytes token)"
    and len: "length (startup_bytes [(as_bytes ''user'', as_bytes env)]) \<le> 10000"
    and short: "length (as_bytes token @ [0]) + 4 \<le> MAX_MESSAGE"
    and ak: "ak = PgCleartext (sha256 (as_bytes token))"
  shows "\<exists>out. pg_handshake sha256 pid secret env ak
      (startup_bytes [(as_bytes ''user'', as_bytes env)] @
       msg (tag_byte (CHR ''p'')) (as_bytes token @ [0]) @ rest)
    = (Inr \<lparr>ps_user_seen = env, ps_database = None\<rparr>, out, rest)"
proof -
  have "0 \<notin> set (as_bytes ''user'')" by (simp add: char_byte_def)
  then have st: "read_startup (startup_bytes [(as_bytes ''user'', as_bytes env)] @
      msg (tag_byte (CHR ''p'')) (as_bytes token @ [0]) @ rest) =
      Inr (Params (map (\<lambda>(k, v). (from_utf8_lossy k, from_utf8_lossy v))
        [(as_bytes ''user'', as_bytes env)]),
        msg (tag_byte (CHR ''p'')) (as_bytes token @ [0]) @ rest)"
    using env len by (intro read_startup_bytes) auto
  have u: "from_utf8_lossy (as_bytes ''user'') = ''user''"
    by (intro from_utf8_lossy_as_bytes, unfold utf8_text_def, intro valid_utf8_ascii)
      (simp add: char_byte_def)
  have tw: "takeWhile (\<lambda>b. b \<noteq> 0) (as_bytes token @ [0]) = as_bytes token"
    using tok by (subst takeWhile_append2) auto
  show ?thesis
    unfolding pg_handshake_def startup_loop_params [OF st]
    using read_msg [OF short, of "tag_byte (CHR ''p'')" rest] tw u
    by (simp add: find_param_def pg_token_ok_def verify_pg_cleartext_def ak Let_def
        from_utf8_lossy_as_bytes [OF env(1)])
qed

section \<open>What a session promises\<close>

text \<open>
  C7 (PostgreSQL firewall). Whatever an authenticated PostgreSQL client sends, in the simple or the
  extended protocol and in any order, every statement handed to the backend, to prepare it or to run it,
  was allowed, as it stands and with its parameters inlined, by the policy of the environment under the
  PostgreSQL profile.
\<close>

theorem pg_statements_gated:
  assumes "pg_serve pe inp b = (r, ev, st, b')" and "e \<in> set ev" and "pg_handed e = Some q"
  shows "evaluate (pe_parser pe) q (pe_policy pe) PG_PROFILE = Allow"
  using pg_gate.gate [of e "(pe, inp, b)" q] assms by (simp add: pg_trace_def)

definition sample_pg :: "(expr list, unit) pg_env" where
  "sample_pg =
     \<lparr>pe_parser = toy_parser, pe_audit = \<lparr>au_sha256 = (\<lambda>b. b), au_now = [], au_elapsed = 0\<rparr>,
      pe_floats = \<lparr>pf_widen = (\<lambda>_. 0), pf_show = (\<lambda>_. [])\<rparr>,
      pe_backend = \<lparr>pg_pool_get = (\<lambda>b. (Inr (), b)), pg_prepare = (\<lambda>q b. (Inr ([], []), b)),
        pg_simple_query = (\<lambda>q b. (Inr [], b))\<rparr>,
      pe_env_name = ''dev'', pe_client_user = ''dev'', pe_policy = ReadOnly\<rparr>"

lemma sample_pg_query:
  "\<exists>ev. handle_message sample_pg (tag_byte (CHR ''Q'')) (as_bytes ''SELECT 1'' @ [0]) st ()
     = (PgNext, PgExecuted ''SELECT 1'' # ev, st, ())"
proof -
  have "from_utf8_lossy (as_bytes ''SELECT 1'') = ''SELECT 1''"
    by (intro from_utf8_lossy_as_bytes, unfold utf8_text_def, intro valid_utf8_ascii)
      (simp add: char_byte_def)
  moreover have "takeWhile (\<lambda>x. x \<noteq> 0) (as_bytes ''SELECT 1'' @ [0]) = as_bytes ''SELECT 1''"
    by (subst takeWhile_append2) (auto simp: char_byte_def)
  moreover have "trim ''SELECT 1'' \<noteq> []" by code_simp
  moreover have "evaluate toy_parser ''SELECT 1'' ReadOnly PG_PROFILE = Allow"
    by (simp add: evaluate_def toy_parser_def scan_dangerous_def PG_PROFILE_def)
  ultimately show ?thesis
    by (simp add: handle_message_def handle_query_def firewalled_exec_def gated_exec_def
        sample_pg_def Let_def)
qed

lemma sample_pg_session:
  "\<exists>r ev st b'. pg_serve sample_pg (msg (tag_byte (CHR ''Q'')) (as_bytes ''SELECT 1'' @ [0])) ()
     = (r, ev, st, b') \<and> PgExecuted ''SELECT 1'' \<in> set ev"
proof -
  have r: "read_message (msg (tag_byte (CHR ''Q'')) (as_bytes ''SELECT 1'' @ [0]) @ [])
      = Inr ((tag_byte (CHR ''Q''), as_bytes ''SELECT 1'' @ [0]), [])"
    by (rule read_msg) (simp add: MAX_MESSAGE_def)
  obtain ev where q: "handle_message sample_pg (tag_byte (CHR ''Q'')) (as_bytes ''SELECT 1'' @ [0])
      pg_init () = (PgNext, PgExecuted ''SELECT 1'' # ev, pg_init, ())"
    using sample_pg_query by blast
  show ?thesis
    unfolding pg_serve_def serve_loop.simps [of _ "msg _ _"]
    using r q by (simp del: as_bytes_simps split: prod.splits)
qed

theorem pg_statements_gated_witness:
  "evaluate (pe_parser sample_pg) ''SELECT 1'' (pe_policy sample_pg) PG_PROFILE = Allow"
proof -
  obtain r ev st b' where
    "pg_serve sample_pg (msg (tag_byte (CHR ''Q'')) (as_bytes ''SELECT 1'' @ [0])) ()
      = (r, ev, st, b')" "PgExecuted ''SELECT 1'' \<in> set ev"
    using sample_pg_session by blast
  then show ?thesis by (rule pg_statements_gated) simp
qed

text \<open>
  Skipping after an error. After an error in an extended series the session ignores Parse, Bind,
  Describe and Execute until a Sync, which is answered and ends the skipping; a simple query is not
  ignored but served as ever, and leaves the skipping on.
\<close>

theorem pg_skips_until_sync:
  assumes "st_skip st" and "c \<in> {CHR ''P'', CHR ''B'', CHR ''D'', CHR ''E''}"
  shows "handle_message pe (tag_byte c) body st b = (PgNext, [], st, b) \<and>
    handle_message pe (tag_byte (CHR ''S'')) body st b
      = (PgNext, [PgWrote ready_for_query], st\<lparr>st_skip := False\<rparr>, b) \<and>
    handle_message pe (tag_byte (CHR ''Q'')) body st b = handle_query pe body st b"
  using handle_message_skipping [OF assms(1), of "tag_byte c"] assms(2)
  by (auto simp: handle_message_def tag_byte_def char_byte_def)

theorem pg_skips_until_sync_witness:
  "handle_message sample_pg (tag_byte (CHR ''P'')) [0, 0, 0] (pg_init\<lparr>st_skip := True\<rparr>) ()
     = (PgNext, [], pg_init\<lparr>st_skip := True\<rparr>, ())"
  by (rule pg_skips_until_sync [THEN conjunct1]) simp_all

lemma msg_eq_tag: "msg t p = msg t' p' \<Longrightarrow> t = t'"
  by (simp add: msg_def)

lemma not_ready [simp]:
  "error_response code m \<noteq> ready_for_query" "row_description cols \<noteq> ready_for_query"
  "data_row cells \<noteq> ready_for_query" "command_complete tag \<noteq> ready_for_query"
  "no_data \<noteq> ready_for_query" "empty_query_response \<noteq> ready_for_query"
  by (auto simp: error_response_def row_description_def data_row_def command_complete_def no_data_def
      empty_query_response_def ready_for_query_def tag_byte_def char_byte_def dest: msg_eq_tag)

lemma frames_not_ready:
  "PgWrote ready_for_query \<notin> set (write_result_set rs)"
  by (auto simp: write_result_set_def image_iff not_ready [symmetric])

lemma firewalled_exec_not_ready:
  "firewalled_exec pe sql b = (done1, ev, b') \<Longrightarrow> PgWrote ready_for_query \<notin> set ev"
  using frames_not_ready
  by (auto simp: firewalled_exec_def gated_exec_def pg_audit_def not_ready [symmetric] Let_def
      split: decision.splits prod.splits sum.splits)

text \<open>
  A simple query is answered once. A simple query, allowed or refused, empty, failing in the pool
  or in the backend, is answered with exactly one ReadyForQuery, after everything else, and the session
  goes on with its prepared statements unchanged.
\<close>

theorem pg_simple_query_ends_ready:
  "\<exists>ev b'. handle_query pe body st b = (PgNext, ev @ [PgWrote ready_for_query], st, b') \<and>
     PgWrote ready_for_query \<notin> set ev"
proof -
  let ?sql = "from_utf8_lossy (takeWhile (\<lambda>x. x \<noteq> 0) body)"
  obtain d ev b' where f: "firewalled_exec pe ?sql b = (d, ev, b')" by (metis prod_cases3)
  show ?thesis
    using firewalled_exec_not_ready [OF f] f
    by (cases "trim ?sql = []") (auto simp: handle_query_def not_ready [symmetric])
qed


lemma read_startup_suffix: "read_startup inp = Inr (s, rest) \<Longrightarrow> suffix rest inp"
  by (auto simp: read_startup_def Let_def suffix_ConsI suffix_drop split: list.splits if_splits)

lemma startup_loop_suffix: "startup_loop inp = (Inr p, out, rest) \<Longrightarrow> suffix rest inp"
proof (induction inp arbitrary: out rule: startup_loop.induct)
  case (1 inp)
  note eq = "1.prems" [unfolded startup_loop.simps [of inp]]
  show ?case
  proof (cases "read_startup inp")
    case (Inr q)
    obtain s rest1 where q: "q = (s, rest1)" by (cases q)
    have suf: "suffix rest1 inp" using Inr q read_startup_suffix by simp
    show ?thesis
    proof (cases s)
      case EncryptionRequest
      obtain r o1 rest2 where t: "startup_loop rest1 = (r, o1, rest2)" by (metis prod_cases3)
      then have "startup_loop rest1 = (Inr p, o1, rest)"
        using eq Inr q EncryptionRequest by simp
      from "1.IH" [OF Inr q [symmetric] EncryptionRequest this] suf show ?thesis
        using suffix_order.order_trans by blast
    qed (use eq Inr q suf in auto)
  qed (use eq in simp)
qed

lemma read_message_sub:
  "read_message inp = Inr ((tag, body), rest) \<Longrightarrow> sublist body inp"
  by (auto simp: read_message_def Let_def split: list.splits if_splits
      intro!: sublist_Cons_right [THEN iffD2] sublist_take)

lemma pg_handshake_from_client:
  assumes "pg_handshake sha256 pid secret env ak inp = (Inr ses, out, rest)"
  shows "ps_user_seen ses = env \<and>
    (\<exists>presented stored. ak = PgCleartext stored \<and> sublist presented inp \<and>
       sha256 presented = stored)"
proof -
  obtain params out1 rest1 tag body where h: "startup_loop inp = (Inr params, out1, rest1)"
    "read_message rest1 = Inr ((tag, body), rest)"
    "pg_token_ok sha256 (takeWhile (\<lambda>b. b \<noteq> 0) body) ak" "ps_user_seen ses = env"
    using assms by (auto simp: pg_handshake_def Let_def split: sum.splits prod.splits if_splits)
  have "sublist (takeWhile (\<lambda>b. b \<noteq> 0) body) body"
    by (metis sublist_append_rightI takeWhile_dropWhile_id)
  then have "sublist (takeWhile (\<lambda>b. b \<noteq> 0) body) inp"
    using read_message_sub [OF h(2)] startup_loop_suffix [OF h(1)]
    by (meson suffix_imp_sublist sublist_order.order_trans)
  then show ?thesis
    using h(3,4) by (auto simp: pg_token_ok_def verify_pg_cleartext_def split: client_auth_kind.splits)
qed

text \<open>
  C19 (PostgreSQL authentication). A client is let in only as the user named like the environment, only
  when the environment has a cleartext verifier, and only when it sent, in the clear, bytes whose digest
  is that verifier.
\<close>

theorem pg_handshake_authenticates:
  assumes "pg_handshake sha256 pid secret env ak inp = (Inr ses, out, rest)"
  shows "ps_user_seen ses = env \<and>
    (\<exists>presented stored. ak = PgCleartext stored \<and> sublist presented inp \<and>
       sha256 presented = stored)"
  by (rule pg_handshake_from_client [OF assms])

theorem pg_handshake_authenticates_witness:
  "\<exists>ses inp out rest. pg_handshake (\<lambda>b. b) 1 2 ''dev'' (PgCleartext (as_bytes ''t'')) inp
       = (Inr ses, out, rest) \<and> ps_user_seen ses = ''dev'' \<and> sublist (as_bytes ''t'') inp"
proof -
  have "\<exists>out. pg_handshake (\<lambda>b. b) 1 2 ''dev'' (PgCleartext (as_bytes ''t''))
      (startup_bytes [(as_bytes ''user'', as_bytes ''dev'')] @
       msg (tag_byte (CHR ''p'')) (as_bytes ''t'' @ [0]) @ [])
    = (Inr \<lparr>ps_user_seen = ''dev'', ps_database = None\<rparr>, out, [])"
  proof (rule pg_handshake_accepts_token)
    show "utf8_text ''dev''" unfolding utf8_text_def
      by (rule valid_utf8_ascii) (simp add: char_byte_def)
  qed (simp_all add: char_byte_def startup_bytes_def MAX_MESSAGE_def len_simps)
  then obtain ses inp out rest where h:
    "pg_handshake (\<lambda>b. b) 1 2 ''dev'' (PgCleartext (as_bytes ''t'')) inp = (Inr ses, out, rest)"
    by blast
  show ?thesis using pg_handshake_authenticates [OF h] h by auto
qed

end
