(* ===== verification/Engine.thy ===== *)
theory Engine
  imports Idle Router Pg_Server
begin

text \<open>
  The engine seam: \<open>crates/mw-net/src/engine/mod.rs\<close>, the adapters \<open>engine/mysql.rs\<close>,
  \<open>engine/postgres/mod.rs\<close> and \<open>engine/mssql.rs\<close>, and the backend pools of
  \<open>mysql_client.rs\<close> and \<open>engine/postgres/client.rs\<close>. The pool manager and the two
  database drivers are third-party: a pool is what the code configures it with and the idle ages of its
  connections, and the drivers are arguments that are given the pool.
\<close>

section \<open>Backends\<close>

record backend_opts =
  opt_host :: string
  opt_port :: u16
  opt_user :: string
  opt_password :: string
  opt_database :: "string option"

definition from_env_credential :: "env \<Rightarrow> credential \<Rightarrow> backend_opts" where
  "from_env_credential e cred =
     \<lparr>opt_host = backend_host e, opt_port = backend_port e, opt_user = backend_user cred,
      opt_password = backend_password cred, opt_database = default_database e\<rparr>"

record pool =
  pool_opts :: backend_opts
  pool_max_size :: nat
  pool_wait :: duration
  pool_create :: duration
  pool_recycle :: duration
  pool_idle :: "duration list"

text \<open>What the drivers are configured with: the options of a MySQL connection, whose cache of prepared
  statements is off, and the configuration of a PostgreSQL one.\<close>

record mysql_opts =
  my_host :: string
  my_port :: u16
  my_user :: "string option"
  my_pass :: "string option"
  my_db :: "string option"
  my_stmt_cache :: nat

definition to_opts :: "backend_opts \<Rightarrow> mysql_opts" where
  "to_opts o' =
     \<lparr>my_host = opt_host o', my_port = opt_port o', my_user = Some (opt_user o'),
      my_pass = Some (opt_password o'), my_db = opt_database o', my_stmt_cache = 0\<rparr>"

record pg_config =
  pc_host :: string
  pc_port :: u16
  pc_user :: string
  pc_password :: string
  pc_dbname :: "string option"

definition pg_config_of :: "backend_opts \<Rightarrow> pg_config" where
  "pg_config_of o' =
     \<lparr>pc_host = opt_host o', pc_port = opt_port o', pc_user = opt_user o',
      pc_password = opt_password o', pc_dbname = opt_database o'\<rparr>"

text \<open>The pool's managers: a connection is created from the options, and one handed out again has
  answered a query first.\<close>

definition RECYCLE_QUERY :: string where "RECYCLE_QUERY = ''SELECT 1''"

definition mysql_backend_error :: "string \<Rightarrow> string" where
  "mysql_backend_error e = ''mysql backend: '' @ e"

definition pg_backend_error :: "string \<Rightarrow> string" where
  "pg_backend_error e = ''postgres backend: '' @ e"

definition manager_create :: "(mysql_opts \<Rightarrow> 'w \<Rightarrow> (string + 'c) \<times> 'w) \<Rightarrow> pool \<Rightarrow> 'w \<Rightarrow> (string + 'c) \<times> 'w" where
  "manager_create connect p w =
     (case connect (to_opts (pool_opts p)) w of
        (Inl e, w') \<Rightarrow> (Inl (mysql_backend_error e), w') | (Inr c, w') \<Rightarrow> (Inr c, w'))"

definition pg_manager_create :: "(pg_config \<Rightarrow> 'w \<Rightarrow> (string + 'c) \<times> 'w) \<Rightarrow> pool \<Rightarrow> 'w \<Rightarrow> (string + 'c) \<times> 'w" where
  "pg_manager_create connect p w =
     (case connect (pg_config_of (pool_opts p)) w of
        (Inl e, w') \<Rightarrow> (Inl (pg_backend_error e), w') | (Inr c, w') \<Rightarrow> (Inr c, w'))"

definition manager_recycle :: "('c \<Rightarrow> string \<Rightarrow> 'w \<Rightarrow> (string + 'r) \<times> 'w) \<Rightarrow> 'c \<Rightarrow> 'w \<Rightarrow> (string + unit) \<times> 'w" where
  "manager_recycle query c w =
     (case query c RECYCLE_QUERY w of
        (Inl e, w') \<Rightarrow> (Inl (mysql_backend_error e), w') | (Inr _, w') \<Rightarrow> (Inr (), w'))"

definition pg_manager_recycle :: "('c \<Rightarrow> string \<Rightarrow> 'w \<Rightarrow> (string + 'r) \<times> 'w) \<Rightarrow> 'c \<Rightarrow> 'w \<Rightarrow> (string + unit) \<times> 'w" where
  "pg_manager_recycle query c w =
     (case query c RECYCLE_QUERY w of
        (Inl e, w') \<Rightarrow> (Inl (pg_backend_error e), w') | (Inr _, w') \<Rightarrow> (Inr (), w'))"

text \<open>\<open>build_pool\<close> and \<open>build_pg_pool\<close>: nothing is opened yet.\<close>

definition build_pool :: "backend_opts \<Rightarrow> u32 \<Rightarrow> pool" where
  "build_pool opts max_sz =
     \<lparr>pool_opts = opts, pool_max_size = unat max_sz, pool_wait = secs 30, pool_create = secs 15,
      pool_recycle = secs 5, pool_idle = []\<rparr>"

definition build_pg_pool :: "backend_opts \<Rightarrow> u32 \<Rightarrow> pool" where
  "build_pg_pool opts max_sz =
     \<lparr>pool_opts = opts, pool_max_size = unat max_sz, pool_wait = secs 30, pool_create = secs 15,
      pool_recycle = secs 5, pool_idle = []\<rparr>"

lemma pg_pool_same [simp]: "build_pg_pool = build_pool"
  by (simp add: fun_eq_iff build_pg_pool_def build_pool_def)

datatype backend = MySqlBackend (backend_pool: pool) | PgBackend (backend_pool: pool)

text \<open>The reaping of a pool: both engines close what has been idle longer than the timeout.\<close>

definition mysql_reap :: "duration \<Rightarrow> pool \<Rightarrow> nat \<times> pool" where
  "mysql_reap timeout p = (let (n, idle) = reap_idle timeout (pool_idle p) in (n, p\<lparr>pool_idle := idle\<rparr>))"

definition pg_reap :: "duration \<Rightarrow> pool \<Rightarrow> nat \<times> pool" where
  "pg_reap timeout p = (let (n, idle) = reap_idle timeout (pool_idle p) in (n, p\<lparr>pool_idle := idle\<rparr>))"

fun backend_reap :: "duration \<Rightarrow> backend \<Rightarrow> nat \<times> backend" where
  "backend_reap timeout (MySqlBackend p) = (case mysql_reap timeout p of (n, p') \<Rightarrow> (n, MySqlBackend p'))"
| "backend_reap timeout (PgBackend p) = (case pg_reap timeout p of (n, p') \<Rightarrow> (n, PgBackend p'))"

section \<open>Engines\<close>

datatype engine_object = MySqlEngine | PgEngine | MsSqlEngine

fun engine_for :: "engine_kind \<Rightarrow> engine_object" where
  "engine_for MySql = MySqlEngine"
| "engine_for Postgres = PgEngine"
| "engine_for MsSql = MsSqlEngine"

fun kind :: "engine_object \<Rightarrow> engine_kind" where
  "kind MySqlEngine = MySql"
| "kind PgEngine = Postgres"
| "kind MsSqlEngine = MsSql"

text \<open>The adapters, one group of definitions each: what an engine does with its own kind of backend.\<close>

definition mysql_build_backend :: "backend_opts \<Rightarrow> u32 \<Rightarrow> engine_error + backend" where
  "mysql_build_backend opts max_sz = Inr (MySqlBackend (build_pool opts max_sz))"

definition pg_build_backend :: "backend_opts \<Rightarrow> u32 \<Rightarrow> engine_error + backend" where
  "pg_build_backend opts max_sz = Inr (PgBackend (build_pg_pool opts max_sz))"

definition mssql_build_backend :: "backend_opts \<Rightarrow> u32 \<Rightarrow> engine_error + backend" where
  "mssql_build_backend opts max_sz = Inl EngineUnsupported"

lemmas build_backend_adapters [simp] =
  mysql_build_backend_def pg_build_backend_def mssql_build_backend_def

fun build_backend :: "engine_object \<Rightarrow> backend_opts \<Rightarrow> u32 \<Rightarrow> engine_error + backend" where
  "build_backend MySqlEngine opts max_sz = mysql_build_backend opts max_sz"
| "build_backend PgEngine opts max_sz = pg_build_backend opts max_sz"
| "build_backend MsSqlEngine opts max_sz = mssql_build_backend opts max_sz"

text \<open>A probe checks out one connection: the outcome of the driver's dial is an argument.\<close>

definition mysql_probe :: "(pool \<Rightarrow> 'w \<Rightarrow> (string + unit) \<times> 'w) \<Rightarrow> backend \<Rightarrow> 'w \<Rightarrow> (engine_error + unit) \<times> 'w" where
  "mysql_probe dial be w =
     (case be of
        MySqlBackend p \<Rightarrow>
          (case dial p w of (Inl e, w') \<Rightarrow> (Inl (EngineBackend e), w') | (Inr _, w') \<Rightarrow> (Inr (), w'))
      | _ \<Rightarrow> (Inl EngineUnsupported, w))"

definition pg_probe :: "(pool \<Rightarrow> 'w \<Rightarrow> (string + unit) \<times> 'w) \<Rightarrow> backend \<Rightarrow> 'w \<Rightarrow> (engine_error + unit) \<times> 'w" where
  "pg_probe dial be w =
     (case be of
        PgBackend p \<Rightarrow>
          (case dial p w of (Inl e, w') \<Rightarrow> (Inl (EngineBackend e), w') | (Inr _, w') \<Rightarrow> (Inr (), w'))
      | _ \<Rightarrow> (Inl EngineUnsupported, w))"

definition mssql_probe :: "backend \<Rightarrow> 'w \<Rightarrow> (engine_error + unit) \<times> 'w" where
  "mssql_probe be w = (Inl EngineUnsupported, w)"

lemmas probe_adapters [simp] = mysql_probe_def pg_probe_def mssql_probe_def

fun probe :: "(pool \<Rightarrow> 'w \<Rightarrow> (string + unit) \<times> 'w) \<Rightarrow> engine_object \<Rightarrow> backend \<Rightarrow> 'w
    \<Rightarrow> (engine_error + unit) \<times> 'w" where
  "probe dial MySqlEngine be w = mysql_probe dial be w"
| "probe dial PgEngine be w = pg_probe dial be w"
| "probe dial MsSqlEngine be w = mssql_probe be w"

section \<open>One client connection\<close>

record session =
  ses_env_name :: name
  ses_client_username_seen :: string
  ses_database :: "string option"

text \<open>What a connection needs besides the environment: the digests and the SQL parser, the random
  values drawn for it, and the drivers behind the pools.\<close>

record ('x, 'f, 'b) conn_env =
  cn_sha1 :: "bytes \<Rightarrow> bytes"
  cn_sha256 :: "bytes \<Rightarrow> bytes"
  cn_scramble :: bytes
  cn_pid :: u32
  cn_secret :: u32
  cn_parser :: "'x sqlparser"
  cn_audit :: audit_env
  cn_floats :: "'f f64_ops"
  cn_pg_floats :: pg_floats
  cn_mysql :: "pool \<Rightarrow> ('f, 'b) backend_ops"
  cn_pg :: "pool \<Rightarrow> 'b pg_backend"
  cn_info_enabled :: bool
  cn_router_text :: "router_error \<Rightarrow> string"

text \<open>The session or the error, the bytes written to the client and the input left.\<close>

definition mysql_accept ::
  "('x, 'f, 'b) conn_env \<Rightarrow> name \<Rightarrow> client_auth_kind \<Rightarrow> u32 \<Rightarrow> bytes
     \<Rightarrow> (engine_error + session) \<times> bytes \<times> bytes" where
  "mysql_accept cn env_name ak conn_id inp =
     (case handshake (cn_sha1 cn) (cn_scramble cn) env_name ak conn_id inp of
        (Inl _, out, rest) \<Rightarrow> (Inl EngineAuth, out, rest)
      | (Inr s, out, rest) \<Rightarrow>
          (Inr \<lparr>ses_env_name = as_env_name s, ses_client_username_seen = as_client_username s,
                ses_database = as_database s\<rparr>, out, rest))"

definition pg_accept ::
  "('x, 'f, 'b) conn_env \<Rightarrow> name \<Rightarrow> client_auth_kind \<Rightarrow> bytes \<Rightarrow> (engine_error + session) \<times> bytes \<times> bytes" where
  "pg_accept cn env_name ak inp =
     (case pg_handshake (cn_sha256 cn) (cn_pid cn) (cn_secret cn) env_name ak inp of
        (Inl e, out, rest) \<Rightarrow> (Inl e, out, rest)
      | (Inr s, out, rest) \<Rightarrow>
          (Inr \<lparr>ses_env_name = env_name, ses_client_username_seen = ps_user_seen s,
                ses_database = ps_database s\<rparr>, out, rest))"

definition mssql_accept :: "bytes \<Rightarrow> (engine_error + session) \<times> bytes \<times> bytes" where
  "mssql_accept inp = (Inl EngineUnsupported, [], inp)"

lemmas accept_adapters [simp] = mysql_accept_def pg_accept_def mssql_accept_def

fun engine_accept ::
  "('x, 'f, 'b) conn_env \<Rightarrow> engine_object \<Rightarrow> name \<Rightarrow> client_auth_kind \<Rightarrow> u32 \<Rightarrow> bytes
     \<Rightarrow> (engine_error + session) \<times> bytes \<times> bytes" where
  "engine_accept cn MySqlEngine env_name ak conn_id inp = mysql_accept cn env_name ak conn_id inp"
| "engine_accept cn PgEngine env_name ak conn_id inp = pg_accept cn env_name ak inp"
| "engine_accept cn MsSqlEngine env_name ak conn_id inp = mssql_accept inp"

datatype engine_event = MySqlEvent router_event | PgEvent pg_event

datatype serve_result = Served | ServeFailed engine_error | ServePanicked

definition router_env_of :: "('x, 'f, 'b) conn_env \<Rightarrow> session \<Rightarrow> pool \<Rightarrow> policy \<Rightarrow> ('x, 'f, 'b) router_env" where
  "router_env_of cn s p pol =
     \<lparr>re_parser = cn_parser cn, re_audit = cn_audit cn, re_floats = cn_floats cn,
      re_backend = cn_mysql cn p, re_env_name = ses_env_name s,
      re_client_user = ses_client_username_seen s, re_policy = pol,
      re_info_enabled = cn_info_enabled cn\<rparr>"

definition pg_env_of :: "('x, 'f, 'b) conn_env \<Rightarrow> session \<Rightarrow> pool \<Rightarrow> policy \<Rightarrow> ('x, 'b) pg_env" where
  "pg_env_of cn s p pol =
     \<lparr>pe_parser = cn_parser cn, pe_audit = cn_audit cn, pe_floats = cn_pg_floats cn,
      pe_backend = cn_pg cn p, pe_env_name = ses_env_name s,
      pe_client_user = ses_client_username_seen s, pe_policy = pol\<rparr>"

definition mysql_serve ::
  "('x, 'f, 'b) conn_env \<Rightarrow> session \<Rightarrow> backend \<Rightarrow> policy \<Rightarrow> bytes \<Rightarrow> 'b \<Rightarrow> serve_result \<times> engine_event list \<times> 'b" where
  "mysql_serve cn s be pol inp b =
     (case be of
        MySqlBackend p \<Rightarrow>
          (case serve_session (router_env_of cn s p pol) inp b of
             (r, ev, b') \<Rightarrow>
               (case r of
                  Failed e \<Rightarrow> ServeFailed (EngineOther (cn_router_text cn e))
                | Panicked \<Rightarrow> ServePanicked
                | _ \<Rightarrow> Served,
                map MySqlEvent ev, b'))
      | _ \<Rightarrow> (ServeFailed EngineUnsupported, [], b))"

definition pg_engine_serve ::
  "('x, 'f, 'b) conn_env \<Rightarrow> session \<Rightarrow> backend \<Rightarrow> policy \<Rightarrow> bytes \<Rightarrow> 'b \<Rightarrow> serve_result \<times> engine_event list \<times> 'b" where
  "pg_engine_serve cn s be pol inp b =
     (case be of
        PgBackend p \<Rightarrow>
          (case pg_serve (pg_env_of cn s p pol) inp b of
             (r, ev, _, b') \<Rightarrow>
               (case r of PgFailed e \<Rightarrow> ServeFailed e | PgPanicked \<Rightarrow> ServePanicked | _ \<Rightarrow> Served,
                map PgEvent ev, b'))
      | _ \<Rightarrow> (ServeFailed EngineUnsupported, [], b))"

definition mssql_serve :: "'b \<Rightarrow> serve_result \<times> engine_event list \<times> 'b" where
  "mssql_serve b = (ServeFailed EngineUnsupported, [], b)"

lemmas serve_adapters [simp] = mysql_serve_def pg_engine_serve_def mssql_serve_def

fun engine_serve ::
  "('x, 'f, 'b) conn_env \<Rightarrow> engine_object \<Rightarrow> session \<Rightarrow> backend \<Rightarrow> policy \<Rightarrow> bytes \<Rightarrow> 'b
     \<Rightarrow> serve_result \<times> engine_event list \<times> 'b" where
  "engine_serve cn MySqlEngine s be pol inp b = mysql_serve cn s be pol inp b"
| "engine_serve cn PgEngine s be pol inp b = pg_engine_serve cn s be pol inp b"
| "engine_serve cn MsSqlEngine s be pol inp b = mssql_serve b"

section \<open>What reaches the backend\<close>

fun engine_handed :: "engine_event \<Rightarrow> string option" where
  "engine_handed (MySqlEvent e) = router_handed e"
| "engine_handed (PgEvent e) = pg_handed e"

fun profile_of :: "engine_kind \<Rightarrow> policy_profile" where
  "profile_of MySql = MYSQL_PROFILE"
| "profile_of Postgres = PG_PROFILE"
| "profile_of MsSql = MYSQL_PROFILE"

lemma kind_engine_for [simp]: "kind (engine_for k) = k"
  by (cases k) simp_all

lemma build_backend_pool:
  "build_backend eng opts n = Inr be \<Longrightarrow> backend_pool be = build_pool opts n"
  by (cases eng) auto

lemma build_backend_Inl: "build_backend eng opts n = Inl e \<longleftrightarrow> eng = MsSqlEngine \<and> e = EngineUnsupported"
  by (cases eng) auto

lemma engine_serve_gated:
  fixes cn :: "('x, 'f, 'b) conn_env"
  assumes "engine_serve cn eng s be pol inp b = (r, ev, b')" and "e \<in> set ev"
    and "engine_handed e = Some q"
  shows "evaluate (cn_parser cn) q pol (profile_of (kind eng)) = Allow"
proof -
  consider p where "eng = MySqlEngine" "be = MySqlBackend p" | p where "eng = PgEngine" "be = PgBackend p"
    using assms(1,2) by (cases eng; cases be) auto
  then show ?thesis
  proof cases
    case (1 p)
    let ?re = "router_env_of cn s p pol"
    obtain r0 ev0 b0 where v: "serve_session ?re inp b = (r0, ev0, b0)" by (rule prod_cases3)
    then obtain e0 where e0: "e0 \<in> set ev0" "e = MySqlEvent e0" "router_handed e0 = Some q"
      using assms 1 by auto
    then have "e0 \<in> set (router_trace (?re, inp, b))" using v by (simp add: router_trace_def)
    from mysql_gate.gate [OF this e0(3)] show ?thesis by (simp add: 1 router_env_of_def)
  next
    case (2 p)
    let ?pe = "pg_env_of cn s p pol"
    obtain r0 ev0 st0 b0 where v: "pg_serve ?pe inp b = (r0, ev0, st0, b0)" by (rule prod_cases4)
    then obtain e0 where e0: "e0 \<in> set ev0" "e = PgEvent e0" "pg_handed e0 = Some q"
      using assms 2 by auto
    then have "e0 \<in> set (pg_trace (?pe, inp, b))" using v by (simp add: pg_trace_def)
    from pg_gate.gate [OF this e0(3)] show ?thesis by (simp add: 2 pg_env_of_def)
  qed
qed

text \<open>What a client has to have sent to be let in under a verifier.\<close>

definition proved_token :: "('x, 'f, 'b) conn_env \<Rightarrow> client_auth_kind \<Rightarrow> bytes \<Rightarrow> bool" where
  "proved_token cn ak inp \<longleftrightarrow>
     (\<exists>sent. sublist sent inp \<and>
        (case ak of
           NativePassword stored \<Rightarrow>
             verify_native_response (cn_sha1 cn) (sanitize_scramble (cn_scramble cn)) sent stored
         | PgCleartext stored \<Rightarrow> cn_sha256 cn sent = stored))"

lemma engine_accept_proved:
  assumes "engine_accept cn eng n ak cid inp = (Inr s, out, rest)"
  shows "ses_env_name s = n \<and> ses_client_username_seen s = n \<and> proved_token cn ak inp"
proof (cases eng)
  case MySqlEngine
  then obtain s0 where h: "handshake (cn_sha1 cn) (cn_scramble cn) n ak cid inp = (Inr s0, out, rest)"
    "ses_env_name s = as_env_name s0" "ses_client_username_seen s = as_client_username s0"
    using assms by (auto split: prod.splits sum.splits)
  then show ?thesis
    using handshake_accepts_only [OF h(1)] handshake_response_from_client [OF h(1)]
    by (auto simp: proved_token_def token_ok_def split: client_auth_kind.splits)
next
  case PgEngine
  then obtain s0 where h: "pg_handshake (cn_sha256 cn) (cn_pid cn) (cn_secret cn) n ak inp = (Inr s0, out, rest)"
    "ses_env_name s = n" "ses_client_username_seen s = ps_user_seen s0"
    using assms by (auto split: prod.splits sum.splits)
  then show ?thesis using pg_handshake_from_client [OF h(1)] by (auto simp: proved_token_def)
qed (use assms in simp)

end
