(* ===== verification/Net_Addr.thy ===== *)
theory Net_Addr
  imports Prelude
begin

text \<open>
  The address parsers of the Rust standard library (\<open>IpAddr::from_str\<close>,
  \<open>SocketAddr::from_str\<close>), as far as the daemon uses them: the listening address of an
  environment is \<open>format!("{host}:{port}").parse()\<close>, and \<open>is_loopback_host\<close>
  of \<open>crates/mwsqld/src/lib.rs\<close> decides whether a host is local. A parser returns the value
  read and the rest of the input.
\<close>

datatype ip_addr = V4 nat nat nat nat | V6 "nat list"

section \<open>The parsers\<close>

definition digit_val :: "nat \<Rightarrow> char \<Rightarrow> nat option" where
  "digit_val radix c =
     (let n = (of_char c :: nat);
          d = (if is_digit c then n - 48
               else if char_between (CHR ''a'') (CHR ''z'') c then n - 87
               else if char_between (CHR ''A'') (CHR ''Z'') c then n - 55
               else radix)
      in if d < radix then Some d else None)"

fun span_digits :: "nat \<Rightarrow> string \<Rightarrow> nat list \<times> string" where
  "span_digits radix [] = ([], [])"
| "span_digits radix (c # s) =
     (case digit_val radix c of
        None \<Rightarrow> ([], c # s)
      | Some d \<Rightarrow> (let (ds, rest) = span_digits radix s in (d # ds, rest)))"

definition digits_value :: "nat \<Rightarrow> nat list \<Rightarrow> nat" where
  "digits_value radix ds = foldl (\<lambda>acc d. acc * radix + d) 0 ds"

definition read_number ::
  "nat \<Rightarrow> nat option \<Rightarrow> bool \<Rightarrow> nat \<Rightarrow> string \<Rightarrow> (nat \<times> string) option" where
  "read_number radix max_digits allow_zero_prefix bound s =
     (let (ds, rest) = span_digits radix s
      in if ds = [] then None
         else if (case max_digits of Some m \<Rightarrow> m < length ds | None \<Rightarrow> False) then None
         else if \<not> allow_zero_prefix \<and> hd ds = 0 \<and> 1 < length ds then None
         else if bound < digits_value radix ds then None
         else Some (digits_value radix ds, rest))"

fun read_char :: "char \<Rightarrow> string \<Rightarrow> string option" where
  "read_char c [] = None"
| "read_char c (d # s) = (if c = d then Some s else None)"

definition read_octet :: "string \<Rightarrow> (nat \<times> string) option" where
  "read_octet s = read_number 10 (Some 3) False 255 s"

definition read_dot_octet :: "string \<Rightarrow> (nat \<times> string) option" where
  "read_dot_octet s = Option.bind (read_char (CHR ''.'') s) read_octet"

definition read_ipv4 :: "string \<Rightarrow> ((nat \<times> nat \<times> nat \<times> nat) \<times> string) option" where
  "read_ipv4 s =
     Option.bind (read_octet s) (\<lambda>(a, s1).
     Option.bind (read_dot_octet s1) (\<lambda>(b, s2).
     Option.bind (read_dot_octet s2) (\<lambda>(c, s3).
     Option.bind (read_dot_octet s3) (\<lambda>(d, s4). Some ((a, b, c, d), s4)))))"

definition read_sep :: "bool \<Rightarrow> string \<Rightarrow> string option" where
  "read_sep first s = (if first then Some s else read_char (CHR '':'') s)"

text \<open>\<open>read_groups\<close>: at most \<open>n\<close> groups of sixteen bits, the last two possibly written
  as an IPv4 address; the groups, whether they ended with one, and the rest.\<close>

fun read_groups :: "nat \<Rightarrow> bool \<Rightarrow> string \<Rightarrow> nat list \<times> bool \<times> string" where
  "read_groups 0 first s = ([], False, s)"
| "read_groups (Suc n) first s =
     (case (if n = 0 then None else Option.bind (read_sep first s) read_ipv4) of
        Some ((a, b, c, d), rest) \<Rightarrow> ([a * 256 + b, c * 256 + d], True, rest)
      | None \<Rightarrow>
          (case Option.bind (read_sep first s) (read_number 16 (Some 4) True 65535) of
             None \<Rightarrow> ([], False, s)
           | Some (g, rest) \<Rightarrow>
               (case read_groups n False rest of (gs, v4, rest') \<Rightarrow> (g # gs, v4, rest'))))"

definition read_ipv6 :: "string \<Rightarrow> (nat list \<times> string) option" where
  "read_ipv6 s =
     (case read_groups 8 True s of
        (hd_gs, v4, rest) \<Rightarrow>
          if length hd_gs = 8 then Some (hd_gs, rest)
          else if v4 then None
          else Option.bind (read_char (CHR '':'') rest) (\<lambda>r1.
               Option.bind (read_char (CHR '':'') r1) (\<lambda>r2.
                 case read_groups (8 - (length hd_gs + 1)) True r2 of
                   (tl_gs, _, r3) \<Rightarrow>
                     Some (hd_gs @ replicate (8 - length hd_gs - length tl_gs) 0 @ tl_gs, r3))))"

definition whole :: "('a \<times> string) option \<Rightarrow> 'a option" where
  "whole r = (case r of Some (v, []) \<Rightarrow> Some v | _ \<Rightarrow> None)"

definition read_ip :: "string \<Rightarrow> (ip_addr \<times> string) option" where
  "read_ip s =
     (case read_ipv4 s of
        Some ((a, b, c, d), rest) \<Rightarrow> Some (V4 a b c d, rest)
      | None \<Rightarrow> map_option (\<lambda>(gs, rest). (V6 gs, rest)) (read_ipv6 s))"

definition parse_ip :: "string \<Rightarrow> ip_addr option" where
  "parse_ip s = whole (read_ip s)"

definition read_port :: "string \<Rightarrow> (nat \<times> string) option" where
  "read_port s = Option.bind (read_char (CHR '':'') s) (read_number 10 None True 65535)"

definition read_scope :: "string \<Rightarrow> string" where
  "read_scope s =
     (case Option.bind (read_char (CHR ''%'') s) (read_number 10 None True 4294967295) of
        Some (_, rest) \<Rightarrow> rest | None \<Rightarrow> s)"

definition read_socket_v4 :: "string \<Rightarrow> ((ip_addr \<times> nat) \<times> string) option" where
  "read_socket_v4 s =
     Option.bind (read_ipv4 s) (\<lambda>((a, b, c, d), r).
       map_option (\<lambda>(p, r'). ((V4 a b c d, p), r')) (read_port r))"

definition read_socket_v6 :: "string \<Rightarrow> ((ip_addr \<times> nat) \<times> string) option" where
  "read_socket_v6 s =
     Option.bind (read_char (CHR ''['') s) (\<lambda>s1.
     Option.bind (read_ipv6 s1) (\<lambda>(gs, s2).
     Option.bind (read_char (CHR '']'') (read_scope s2)) (\<lambda>s3.
       map_option (\<lambda>(p, r). ((V6 gs, p), r)) (read_port s3))))"

definition parse_socket_addr :: "string \<Rightarrow> (ip_addr \<times> nat) option" where
  "parse_socket_addr s =
     whole (case read_socket_v4 s of Some r \<Rightarrow> Some r | None \<Rightarrow> read_socket_v6 s)"

section \<open>What the daemon asks of an address\<close>

fun is_loopback :: "ip_addr \<Rightarrow> bool" where
  "is_loopback (V4 a b c d) \<longleftrightarrow> a = 127"
| "is_loopback (V6 gs) \<longleftrightarrow> gs = [0, 0, 0, 0, 0, 0, 0, 1]"

definition is_loopback_host :: "string \<Rightarrow> bool" where
  "is_loopback_host h \<longleftrightarrow>
     h \<in> {''127.0.0.1'', ''::1'', ''localhost''} \<or>
     (case parse_ip h of Some ip \<Rightarrow> is_loopback ip | None \<Rightarrow> False)"

definition listen_addr_of :: "string \<Rightarrow> u16 \<Rightarrow> (ip_addr \<times> nat) option" where
  "listen_addr_of listen_host p = parse_socket_addr (listen_host @ '':'' @ show_nat (unat p))"

section \<open>Facts about the parsers\<close>

lemma not_digits [simp]:
  "digit_val 10 (CHR '':'') = None" "digit_val 10 (CHR ''.'') = None"
  "digit_val 16 (CHR '':'') = None" "digit_val 10 (CHR ''['') = None"
  "digit_val 16 (CHR ''['') = None" "digit_val 10 (CHR ''l'') = None"
  by (simp_all add: digit_val_def is_digit_def char_between_def less_eq_char_def)

lemma span_digits_stop:
  "digit_val radix c = None \<Longrightarrow>
   span_digits radix (s @ c # t) =
     (fst (span_digits radix s), snd (span_digits radix s) @ c # t)"
  by (induction s) (auto split: option.splits prod.splits)

lemma read_number_stop:
  assumes "read_number radix m z k s = Some (n, rest)" and "digit_val radix c = None"
  shows "read_number radix m z k (s @ c # t) = Some (n, rest @ c # t)"
proof -
  obtain ds r where "span_digits radix s = (ds, r)" by fastforce
  moreover from this have "span_digits radix (s @ c # t) = (ds, r @ c # t)"
    by (simp add: span_digits_stop [OF assms(2)])
  ultimately show ?thesis
    using assms(1) unfolding read_number_def Let_def by (simp split: if_splits)
qed

lemma read_char_Some: "read_char c s = Some r \<longleftrightarrow> s = c # r"
  by (cases s) auto

lemma read_octet_stop:
  "read_octet s = Some (n, r) \<Longrightarrow> read_octet (s @ CHR '':'' # t) = Some (n, r @ CHR '':'' # t)"
  unfolding read_octet_def by (rule read_number_stop) simp_all

lemma read_dot_octet_stop:
  "read_dot_octet s = Some (n, r) \<Longrightarrow>
   read_dot_octet (s @ CHR '':'' # t) = Some (n, r @ CHR '':'' # t)"
  by (auto simp: read_dot_octet_def bind_eq_Some_conv read_char_Some read_octet_stop)

lemma read_ipv4_Some:
  "read_ipv4 s = Some ((a, b, c, d), r) \<longleftrightarrow>
     (\<exists>s1 s2 s3. read_octet s = Some (a, s1) \<and> read_dot_octet s1 = Some (b, s2) \<and>
        read_dot_octet s2 = Some (c, s3) \<and> read_dot_octet s3 = Some (d, r))"
  by (auto simp: read_ipv4_def bind_eq_Some_conv)

lemma read_ipv4_stop:
  assumes "read_ipv4 s = Some (v, r)"
  shows "read_ipv4 (s @ CHR '':'' # t) = Some (v, r @ CHR '':'' # t)"
proof -
  obtain a b c d where v: "v = (a, b, c, d)" by (metis prod_cases4)
  show ?thesis
    using assms unfolding v read_ipv4_Some
    using read_octet_stop read_dot_octet_stop by blast
qed

text \<open>What a parser has read when it hands back \<open>r\<close> of \<open>s\<close>, and that it read no colon.\<close>

definition consumed :: "string \<Rightarrow> string \<Rightarrow> bool" where
  "consumed s r \<longleftrightarrow> (\<exists>pre. s = pre @ r \<and> CHR '':'' \<notin> set pre)"

lemma consumed_refl [simp]: "consumed s s"
  by (simp add: consumed_def)

lemma consumed_trans: "consumed s r \<Longrightarrow> consumed r q \<Longrightarrow> consumed s q"
  unfolding consumed_def by (metis Un_iff append.assoc set_append)

lemma consumed_Cons: "c \<noteq> CHR '':'' \<Longrightarrow> consumed (c # s) s"
  unfolding consumed_def by (intro exI [of _ "[c]"]) simp

lemma consumed_colon: "consumed s r \<Longrightarrow> CHR '':'' \<in> set s \<longleftrightarrow> CHR '':'' \<in> set r"
  by (auto simp: consumed_def)

lemma span_digits_consumed:
  "digit_val radix (CHR '':'') = None \<Longrightarrow> consumed s (snd (span_digits radix s))"
proof (induction s)
  case (Cons c s)
  show ?case
  proof (cases "digit_val radix c")
    case (Some d)
    then have "c \<noteq> CHR '':''" using Cons.prems by auto
    then have "consumed (c # s) (snd (span_digits radix s))"
      using consumed_trans [OF consumed_Cons Cons.IH [OF Cons.prems]] by simp
    then show ?thesis using Some by (simp add: split_beta Let_def)
  qed simp
qed simp

lemma read_number_consumed:
  assumes "read_number radix m z k s = Some (n, r)" and "digit_val radix (CHR '':'') = None"
  shows "consumed s r"
proof -
  obtain ds q where d: "span_digits radix s = (ds, q)" by fastforce
  then have "r = q" using assms(1) by (simp add: read_number_def Let_def split: if_splits)
  then show ?thesis using span_digits_consumed [OF assms(2), of s] d by simp
qed

lemma read_dot_octet_consumed: "read_dot_octet s = Some (n, r) \<Longrightarrow> consumed s r"
  by (auto simp: read_dot_octet_def read_octet_def bind_eq_Some_conv read_char_Some
      intro: consumed_trans [OF consumed_Cons read_number_consumed])

lemma read_ipv4_consumed: "read_ipv4 s = Some (v, r) \<Longrightarrow> consumed s r"
  by (cases v rule: prod_cases4)
    (auto simp: read_ipv4_Some read_octet_def dest!: read_number_consumed read_dot_octet_consumed
      intro: consumed_trans)

section \<open>An IPv6 literal holds a colon\<close>

definition rest_of :: "string \<Rightarrow> string \<Rightarrow> bool" where
  "rest_of s r \<longleftrightarrow> (\<exists>pre. s = pre @ r)"

lemma rest_of_refl [simp]: "rest_of s s"
  by (simp add: rest_of_def)

lemma rest_of_trans: "rest_of s r \<Longrightarrow> rest_of r q \<Longrightarrow> rest_of s q"
  unfolding rest_of_def by (metis append.assoc)

lemma consumed_rest_of: "consumed s r \<Longrightarrow> rest_of s r"
  by (auto simp: consumed_def rest_of_def)

lemma rest_of_set: "rest_of s r \<Longrightarrow> c \<in> set r \<Longrightarrow> c \<in> set s"
  by (auto simp: rest_of_def)

lemma read_sep_rest: "read_sep first s = Some r \<Longrightarrow> rest_of s r"
  by (auto simp: read_sep_def read_char_Some rest_of_def split: if_splits)

lemma read_sep_colon: "read_sep False s = Some r \<Longrightarrow> CHR '':'' \<in> set s"
  by (auto simp: read_sep_def read_char_Some)

lemma read_groups_Suc_cases:
  assumes "read_groups (Suc n) first s = (gs, v4, r)"
  obtains "gs = []" "r = s"
  | q g h where "read_sep first s = Some q" "gs = [g, h]" "consumed q r"
  | q g q' gs' where "read_sep first s = Some q" "consumed q q'" "gs = g # gs'"
      "read_groups n False q' = (gs', v4, r)"
proof -
  let ?v4 = "if n = 0 then None else Option.bind (read_sep first s) read_ipv4"
  let ?g = "Option.bind (read_sep first s) (read_number 16 (Some 4) True 65535)"
  show thesis
  proof (cases ?v4)
    case (Some x)
    obtain a b c d q where x: "x = ((a, b, c, d), q)" by (cases x) auto
    obtain q0 where "read_sep first s = Some q0" "read_ipv4 q0 = Some ((a, b, c, d), q)"
      using Some x by (auto simp: bind_eq_Some_conv split: if_splits)
    then show thesis
      using that(2) assms Some x read_ipv4_consumed by (fastforce split: if_splits)
  next
    case None
    show thesis
    proof (cases ?g)
      case None
      then show thesis using that(1) assms \<open>?v4 = None\<close> by simp
    next
      case (Some y)
      obtain g q where y: "y = (g, q)" by (cases y)
      obtain q0 where q0: "read_sep first s = Some q0"
        "read_number 16 (Some 4) True 65535 q0 = Some (g, q)"
        using Some y by (auto simp: bind_eq_Some_conv)
      obtain gs' v r' where r: "read_groups n False q = (gs', v, r')" by (rule prod_cases3)
      have "gs = g # gs'" "v = v4" "r' = r"
        using assms \<open>?v4 = None\<close> Some y r by auto
      then show thesis
        using that(3) [OF q0(1) read_number_consumed [OF q0(2)]] r by simp
    qed
  qed
qed

lemma read_groups_rest: "read_groups n first s = (gs, v4, r) \<Longrightarrow> rest_of s r"
proof (induction n arbitrary: first s gs)
  case (Suc n)
  from Suc.prems show ?case
    by (cases rule: read_groups_Suc_cases)
      (auto dest!: Suc.IH read_sep_rest consumed_rest_of intro: rest_of_trans)
qed simp

lemma read_groups_later_colon:
  "read_groups n False s = (gs, v4, r) \<Longrightarrow> gs \<noteq> [] \<Longrightarrow> CHR '':'' \<in> set s"
proof (cases n)
  case (Suc m)
  assume a: "read_groups n False s = (gs, v4, r)" "gs \<noteq> []"
  from a(1) [unfolded Suc] show ?thesis
    using a(2) by (cases rule: read_groups_Suc_cases) (auto dest: read_sep_colon)
qed simp

lemma read_groups_colon:
  "read_groups n first s = (gs, v4, r) \<Longrightarrow> 2 < length gs \<Longrightarrow> CHR '':'' \<in> set s"
proof (cases n)
  case (Suc m)
  assume a: "read_groups n first s = (gs, v4, r)" "2 < length gs"
  from a(1) [unfolded Suc] show ?thesis
  proof (cases rule: read_groups_Suc_cases)
    case (3 q g q' gs')
    have "CHR '':'' \<in> set q'" using read_groups_later_colon [OF 3(4)] 3(3) a(2) by (cases gs') auto
    then show ?thesis
      using rest_of_set [OF rest_of_trans [OF read_sep_rest [OF 3(1)] consumed_rest_of [OF 3(2)]]]
      by simp
  qed (use a(2) in auto)
qed simp

lemma read_ipv6_colon:
  assumes "read_ipv6 s = Some x"
  shows "CHR '':'' \<in> set s"
proof -
  obtain gs v4 r where g: "read_groups 8 True s = (gs, v4, r)" by (rule prod_cases3)
  show ?thesis
  proof (cases "length gs = 8")
    case True
    then show ?thesis using read_groups_colon [OF g] by simp
  next
    case False
    then have "CHR '':'' \<in> set r"
      using assms g by (auto simp: read_ipv6_def bind_eq_Some_conv read_char_Some split: if_splits)
    then show ?thesis using rest_of_set [OF read_groups_rest [OF g]] by simp
  qed
qed

section \<open>A host taken for local listens on a loopback address\<close>

lemma whole_Some: "whole r = Some v \<longleftrightarrow> r = Some (v, [])"
  by (auto simp: whole_def split: option.splits list.splits)

lemma read_port_consumed: "read_port s = Some (p, r) \<Longrightarrow> \<exists>q. s = CHR '':'' # q \<and> consumed q r"
  by (auto simp: read_port_def bind_eq_Some_conv read_char_Some dest: read_number_consumed)

text \<open>An IPv4 socket address is read from text with one colon only.\<close>

lemma read_socket_v4_no_colon:
  assumes "read_socket_v4 (h @ CHR '':'' # t) = Some (v, [])"
  shows "CHR '':'' \<notin> set h"
proof
  assume "CHR '':'' \<in> set h"
  obtain a r p where r: "read_ipv4 (h @ CHR '':'' # t) = Some (a, r)" "read_port r = Some (p, [])"
    using assms by (auto simp: read_socket_v4_def bind_eq_Some_conv)
  obtain q where q: "r = CHR '':'' # q" "CHR '':'' \<notin> set q"
    using read_port_consumed [OF r(2)] consumed_colon by fastforce
  obtain pre where "h @ CHR '':'' # t = pre @ CHR '':'' # q" "CHR '':'' \<notin> set pre"
    using read_ipv4_consumed [OF r(1)] q(1) by (auto simp: consumed_def)
  then have "count_list (h @ CHR '':'' # t) (CHR '':'') = count_list (pre @ CHR '':'' # q) (CHR '':'')"
    by simp
  then have "count_list h (CHR '':'') = 0"
    using \<open>CHR '':'' \<notin> set pre\<close> q(2) by (simp add: count_list_append count_list_0_iff)
  then show False using \<open>CHR '':'' \<in> set h\<close> by (simp add: count_list_0_iff)
qed

section \<open>The port of a listening address\<close>

lemma split_last_colon:
  assumes "u @ CHR '':'' # q = v @ CHR '':'' # w" and "CHR '':'' \<notin> set q" and "CHR '':'' \<notin> set w"
  shows "q = w"
proof -
  have tw: "takeWhile (\<lambda>c. c \<noteq> CHR '':'') (rev (x @ CHR '':'' # y)) = rev y" if "CHR '':'' \<notin> set y" for x y
    using that by (subst rev_append) (auto simp: takeWhile_append2 takeWhile_tail)
  show ?thesis using tw [OF assms(2), of u] tw [OF assms(3), of v] assms(1) by simp
qed

lemma digit_val_decimal [simp]: "n < 10 \<Longrightarrow> digit_val 10 (char_of (48 + n)) = Some n"
  by (simp add: digit_val_def is_digit_def char_between_def less_eq_char_def Let_def)

lemma span_digits_append_digit:
  "span_digits 10 s = (ds, []) \<Longrightarrow> n < 10 \<Longrightarrow>
   span_digits 10 (s @ [char_of (48 + n)]) = (ds @ [n], [])"
  by (induction s arbitrary: ds) (auto split: option.splits prod.splits)

lemma span_digits_show_nat:
  "\<exists>ds. span_digits 10 (show_nat n) = (ds, []) \<and> ds \<noteq> [] \<and> digits_value 10 ds = n"
proof (induction n rule: show_nat.induct)
  case (1 n)
  show ?case
  proof (cases "n < 10")
    case True
    then show ?thesis by (simp add: show_nat.simps [of n] digits_value_def)
  next
    case False
    then obtain ds where ds: "span_digits 10 (show_nat (n div 10)) = (ds, [])"
      "digits_value 10 ds = n div 10" using "1.IH" by blast
    have "span_digits 10 (show_nat n) = (ds @ [n mod 10], [])"
      using span_digits_append_digit [OF ds(1), of "n mod 10"] False by (simp add: show_nat.simps [of n])
    then show ?thesis using ds(2) by (simp add: digits_value_def)
  qed
qed

lemma read_number_show_nat:
  "n \<le> k \<Longrightarrow> read_number 10 None True k (show_nat n) = Some (n, [])"
  using span_digits_show_nat [of n] by (auto simp: read_number_def)

lemma show_nat_no_colon: "CHR '':'' \<notin> set (show_nat n)"
proof
  assume "CHR '':'' \<in> set (show_nat n)"
  then have "is_digit (CHR '':'')" by (rule show_nat_digits)
  then show False by (simp add: is_digit_def char_between_def less_eq_char_def)
qed

lemma read_port_rest:
  assumes "rest_of (h @ CHR '':'' # show_nat n) r" and "read_port r = Some (p, [])" and "n \<le> 65535"
  shows "p = n"
proof -
  obtain q where q: "r = CHR '':'' # q" "consumed q []" using read_port_consumed [OF assms(2)] by blast
  obtain pre where "h @ CHR '':'' # show_nat n = pre @ CHR '':'' # q"
    using assms(1) q(1) by (auto simp: rest_of_def)
  then have "q = show_nat n"
    using split_last_colon [of h "show_nat n" pre q] consumed_colon [OF q(2)] show_nat_no_colon by simp
  then show ?thesis
    using assms(2) q(1) read_number_show_nat [OF assms(3)] by (simp add: read_port_def)
qed

lemma read_ipv6_rest: "read_ipv6 s = Some (gs, r) \<Longrightarrow> rest_of s r"
proof -
  assume a: "read_ipv6 s = Some (gs, r)"
  obtain hs v4 q where g: "read_groups 8 True s = (hs, v4, q)" by (rule prod_cases3)
  show ?thesis
  proof (cases "length hs = 8")
    case True
    then show ?thesis using a g read_groups_rest [OF g] by (simp add: read_ipv6_def)
  next
    case False
    then obtain r2 where r2: "q = CHR '':'' # CHR '':'' # r2"
      using a g by (auto simp: read_ipv6_def bind_eq_Some_conv read_char_Some split: if_splits)
    obtain ts v r3 where t: "read_groups (7 - length hs) True r2 = (ts, v, r3)" by (rule prod_cases3)
    have "r = r3"
      using a g False r2 t by (auto simp: read_ipv6_def split: if_splits)
    moreover have "rest_of q r2" using r2 by (auto simp: rest_of_def)
    ultimately show ?thesis
      using read_groups_rest [OF g] read_groups_rest [OF t] rest_of_trans by blast
  qed
qed

lemma read_scope_rest: "rest_of s (read_scope s)"
proof (cases "Option.bind (read_char (CHR ''%'') s) (read_number 10 None True 4294967295)")
  case (Some x)
  obtain n r where "x = (n, r)" by (cases x)
  with Some obtain q where "s = CHR ''%'' # q" "x = (n, r)"
    "read_number 10 None True 4294967295 q = Some (n, r)"
    by (auto simp: bind_eq_Some_conv read_char_Some)
  moreover have "rest_of q r"
    using read_number_consumed [OF calculation(3)] by (simp add: consumed_rest_of)
  moreover have "read_scope s = r" using Some calculation(2) by (simp add: read_scope_def)
  ultimately show ?thesis by (auto simp: rest_of_def) (metis append_Cons)
qed (simp add: read_scope_def)

lemma parse_socket_addr_cases:
  assumes "parse_socket_addr s = Some (ip, p)"
  obtains a b c d r where "ip = V4 a b c d" "read_ipv4 s = Some ((a, b, c, d), r)"
      "read_port r = Some (p, [])"
  | s1 gs s2 s3 where "s = CHR ''['' # s1" "ip = V6 gs" "read_ipv6 s1 = Some (gs, s2)"
      "read_scope s2 = CHR '']'' # s3" "read_port s3 = Some (p, [])"
  using assms unfolding parse_socket_addr_def whole_Some
  by (auto simp: read_socket_v4_def read_socket_v6_def bind_eq_Some_conv read_char_Some
      split: option.splits)

lemma listen_addr_port: "listen_addr_of h p = Some (ip, q) \<Longrightarrow> q = unat p"
proof -
  assume a: "listen_addr_of h p = Some (ip, q)"
  have b: "unat p \<le> 65535" using unsigned_less [of p, where 'a = nat] by simp
  have s: "parse_socket_addr (h @ CHR '':'' # show_nat (unat p)) = Some (ip, q)"
    using a by (simp add: listen_addr_of_def)
  from s show ?thesis
  proof (cases rule: parse_socket_addr_cases)
    case (1 w x y z r)
    then show ?thesis
      using read_port_rest [OF consumed_rest_of [OF read_ipv4_consumed] _ b] by blast
  next
    case (2 s1 gs s2 s3)
    have "rest_of s2 s3"
      using read_scope_rest [of s2] unfolding 2(4) by (auto simp: rest_of_def)
    then have "rest_of s1 s3" using read_ipv6_rest [OF 2(3)] rest_of_trans by blast
    then have "rest_of (h @ CHR '':'' # show_nat (unat p)) s3"
      unfolding 2(1) by (auto simp: rest_of_def)
    then show ?thesis using read_port_rest [OF _ 2(5) b] by blast
  qed
qed

text \<open>What binds for a host that \<open>is_loopback_host\<close> takes for local is a loopback
  address of the port asked for.\<close>

lemma parse_ip_cases:
  assumes "parse_ip h = Some ip"
  obtains a b c d where "ip = V4 a b c d" "read_ipv4 h = Some ((a, b, c, d), [])"
  | gs where "ip = V6 gs" "read_ipv6 h = Some (gs, [])"
  using assms by (auto simp: parse_ip_def whole_Some read_ip_def split: option.splits)

lemma digit_vals:
  "digit_val 10 (CHR ''0'') = Some 0" "digit_val 10 (CHR ''1'') = Some 1"
  "digit_val 10 (CHR ''2'') = Some 2" "digit_val 10 (CHR ''7'') = Some 7"
  "digit_val 16 (CHR ''1'') = Some 1"
  by (simp_all add: digit_val_def is_digit_def char_between_def less_eq_char_def)

lemma parse_ip_v4_local: "parse_ip ''127.0.0.1'' = Some (V4 127 0 0 1)"
  by (simp add: parse_ip_def whole_def read_ip_def read_ipv4_def read_octet_def read_dot_octet_def
      read_number_def digit_vals digits_value_def)

lemma parse_ip_v6_local: "parse_ip ''::1'' = Some (V6 [0, 0, 0, 0, 0, 0, 0, 1])"
proof -
  have "read_groups (Suc n) True ''::1'' = ([], False, ''::1'')" for n
    by (simp add: read_sep_def read_number_def read_ipv4_def read_octet_def)
  from this [of 7] have a: "read_groups 8 True ''::1'' = ([], False, ''::1'')" by simp
  have "read_groups (Suc (Suc n)) True ''1'' = ([1], False, [])" for n
    by (simp add: read_sep_def read_number_def read_ipv4_def read_octet_def read_dot_octet_def
        digit_vals digits_value_def)
  from this [of 5] have b: "read_groups 7 True ''1'' = ([1], False, [])" by simp
  have "replicate 7 (0 :: nat) = [0, 0, 0, 0, 0, 0, 0]" by (simp add: numeral_eq_Suc)
  then have "read_ipv6 ''::1'' = Some ([0, 0, 0, 0, 0, 0, 0, 1], [])"
    by (simp add: read_ipv6_def a b)
  then show ?thesis
    by (simp add: parse_ip_def whole_def read_ip_def read_ipv4_def read_octet_def read_number_def)
qed

lemma loopback_host_cases:
  assumes "is_loopback_host h"
  obtains "h = ''localhost''" | ip where "parse_ip h = Some ip" "is_loopback ip"
proof -
  show thesis
    using assms that by (auto simp: is_loopback_host_def parse_ip_v4_local parse_ip_v6_local
        split: option.splits)
qed

lemma read_ipv4_fails [simp]:
  "read_ipv4 (CHR ''['' # s) = None" "read_ipv4 (CHR ''l'' # s) = None"
  by (simp_all add: read_ipv4_def read_octet_def read_number_def)

lemma read_groups_bracket: "read_groups (Suc n) True (CHR ''['' # s) = ([], False, CHR ''['' # s)"
  by (simp add: read_sep_def read_number_def)

lemma read_ipv6_bracket: "read_ipv6 (CHR ''['' # s) = None"
proof -
  have "read_groups 8 True (CHR ''['' # s) = ([], False, CHR ''['' # s)"
    using read_groups_bracket [of 7 s] by simp
  then show ?thesis by (simp add: read_ipv6_def)
qed

lemma loopback_host_listens_local:
  assumes "is_loopback_host h" and "listen_addr_of h p = Some (ip, q)"
  shows "is_loopback ip"
proof -
  have s: "parse_socket_addr (h @ CHR '':'' # show_nat (unat p)) = Some (ip, q)"
    using assms(2) by (simp add: listen_addr_of_def)
  from assms(1) show ?thesis
  proof (cases rule: loopback_host_cases)
    case 1
    from s [unfolded 1] show ?thesis
      by (cases rule: parse_socket_addr_cases) simp_all
  next
    case (2 ip')
    from 2(1) show ?thesis
    proof (cases rule: parse_ip_cases)
      case (1 a b c d)
      note v4 = read_ipv4_stop [OF 1(2), of "show_nat (unat p)"]
      from s show ?thesis
      proof (cases rule: parse_socket_addr_cases)
        case (2 s1 gs s2 s3)
        then show ?thesis using v4 by simp
      qed (use v4 1(1) 2(2) in auto)
    next
      case (2 gs)
      from s show ?thesis
      proof (cases rule: parse_socket_addr_cases)
        case (1 a b c d r)
        then have "read_socket_v4 (h @ CHR '':'' # show_nat (unat p)) = Some ((ip, q), [])"
          by (simp add: read_socket_v4_def)
        then show ?thesis using read_socket_v4_no_colon read_ipv6_colon [OF 2(2)] by blast
      next
        case (2 s1 gs' s2 s3)
        then have "h = CHR ''['' # tl h" using read_ipv6_colon [OF \<open>read_ipv6 h = _\<close>] by (cases h) auto
        then show ?thesis using \<open>read_ipv6 h = _\<close> read_ipv6_bracket [of "tl h"] by simp
      qed
    qed
  qed
qed

end
