(* ===== verification/Ssh.thy ===== *)
theory Ssh
  imports Config
begin

text \<open>
  \<open>crates/mw-net/src/ssh.rs\<close>: the bastion client, the registry of its sessions and the local
  port forwards. The network is an argument: a record of operations on an abstract world \<open>'w\<close>.
  \<open>kex\<close> is the connection up to the server's key, before the handler of
  this program is asked; the SSH library drops the connection when the handler does not answer
  \<open>Ok(true)\<close>.

  A slot of the registry is shared between the registry and the forwards. It goes from empty to
  filled once and is never written again (\<open>evict\<close> drops the registry's reference only), and
  a forward is only started on a filled one, so a forward holds its session by value here.
\<close>

section \<open>The network\<close>

record public_key =
  key_blob :: "bytes option"
  key_algo :: string

record ('w, 'h) ssh_net =
  kex :: "string \<Rightarrow> u16 \<Rightarrow> 'w \<Rightarrow> (string + public_key \<times> 'h) \<times> 'w"
  auth_password :: "'h \<Rightarrow> string \<Rightarrow> string \<Rightarrow> 'w \<Rightarrow> (string + bool) \<times> 'w"
  bind_local :: "'w \<Rightarrow> (string + u16) \<times> 'w"
  fingerprint_b64 :: "bytes \<Rightarrow> string"

datatype ssh_error =
    SshConnect string
  | KeyInconsistent
  | KeyRejected
  | SshAuthError string
  | KeyAuthNotWired
  | SshAuthFailed string string

section \<open>The host key\<close>

text \<open>The fingerprint the handler computes; \<open>fingerprint_b64\<close> is the unpadded base64 of the
  SHA-256 digest of the key.\<close>

definition observed_key :: "('w, 'h) ssh_net \<Rightarrow> bytes \<Rightarrow> string \<Rightarrow> host_key_fingerprint" where
  "observed_key net blob alg = \<lparr>algo = alg, sha256_b64 = fingerprint_b64 net blob\<rparr>"

text \<open>\<open>check_server_key\<close>: the answer, and the captured fingerprint.\<close>

definition check_server_key ::
  "('w, 'h) ssh_net \<Rightarrow> host_key_fingerprint list \<Rightarrow> bool \<Rightarrow> public_key
     \<Rightarrow> (ssh_error + bool) \<times> host_key_fingerprint option" where
  "check_server_key net pinned allow_tofu key =
     (case key_blob key of
        None \<Rightarrow> (Inl KeyInconsistent, None)
      | Some blob \<Rightarrow>
          (let observed = observed_key net blob (key_algo key)
           in if pinned = [] then (Inr allow_tofu, Some observed)
              else (Inr (list_ex (\<lambda>p. algo p = algo observed \<and> sha256_b64 p = sha256_b64 observed) pinned),
                    Some observed)))"

section \<open>A session\<close>

record 'h bastion_session =
  handle :: 'h
  captured_fingerprint :: "host_key_fingerprint option"

definition client_connect ::
  "('w, 'h) ssh_net \<Rightarrow> bastion \<Rightarrow> bool \<Rightarrow> 'w
     \<Rightarrow> (ssh_error + 'h \<times> host_key_fingerprint option) \<times> 'w" where
  "client_connect net b allow_tofu w =
     (case kex net (host b) (port b) w of
        (Inl e, w') \<Rightarrow> (Inl (SshConnect e), w')
      | (Inr (key, h), w') \<Rightarrow>
          (case check_server_key net (pinned_host_keys b) allow_tofu key of
             (Inl e, _) \<Rightarrow> (Inl e, w')
           | (Inr False, _) \<Rightarrow> (Inl KeyRejected, w')
           | (Inr True, captured) \<Rightarrow> (Inr (h, captured), w')))"

definition open_session ::
  "('w, 'h) ssh_net \<Rightarrow> bastion \<Rightarrow> bool \<Rightarrow> 'w \<Rightarrow> (ssh_error + 'h bastion_session) \<times> 'w" where
  "open_session net b allow_tofu w =
     (case client_connect net b allow_tofu w of
        (Inl e, w') \<Rightarrow> (Inl e, w')
      | (Inr (h, captured), w') \<Rightarrow>
          (case auth b of
             KeyAuth _ _ \<Rightarrow> (Inl KeyAuthNotWired, w')
           | PasswordAuth password \<Rightarrow>
               (case auth_password net h (ssh_user b) password w' of
                  (Inl e, w'') \<Rightarrow> (Inl (SshAuthError e), w'')
                | (Inr False, w'') \<Rightarrow> (Inl (SshAuthFailed (ssh_user b) (host b)), w'')
                | (Inr True, w'') \<Rightarrow>
                    (Inr \<lparr>handle = h, captured_fingerprint = captured\<rparr>, w''))))"

section \<open>The registry\<close>

type_synonym 'h registry = "name \<rightharpoonup> 'h bastion_session option"

definition get_or_open ::
  "('w, 'h) ssh_net \<Rightarrow> name \<Rightarrow> bastion \<Rightarrow> bool \<Rightarrow> 'h registry \<Rightarrow> 'w
     \<Rightarrow> (ssh_error + 'h bastion_session) \<times> 'h registry \<times> 'w" where
  "get_or_open net nm b allow_tofu reg w =
     (case reg nm of
        Some (Some s) \<Rightarrow> (Inr s, reg, w)
      | _ \<Rightarrow>
          (let reg' = reg(nm \<mapsto> None)
           in case open_session net b allow_tofu w of
                (Inl e, w') \<Rightarrow> (Inl e, reg', w')
              | (Inr s, w') \<Rightarrow> (Inr s, reg'(nm \<mapsto> Some s), w')))"

definition evict :: "name \<Rightarrow> 'h registry \<Rightarrow> bool \<times> 'h registry" where
  "evict nm reg = (reg nm \<noteq> None, reg(nm := None))"

section \<open>Forwards\<close>

record 'h local_forward =
  local_port :: u16
  via :: "'h bastion_session"
  target_host :: string
  target_port :: u16

definition start_local_forward ::
  "('w, 'h) ssh_net \<Rightarrow> 'h bastion_session \<Rightarrow> string \<Rightarrow> u16 \<Rightarrow> 'w
     \<Rightarrow> (string + 'h local_forward) \<times> 'w" where
  "start_local_forward net s th tp w =
     (case bind_local net w of
        (Inl e, w') \<Rightarrow> (Inl e, w')
      | (Inr p, w') \<Rightarrow>
          (Inr \<lparr>local_port = p, via = s, target_host = th, target_port = tp\<rparr>, w'))"

section \<open>Pinning\<close>

text \<open>A session is one the operator's configuration trusts: its server showed a pinned key, or no key is
  pinned and the daemon was told to accept a first one.\<close>

definition trusted :: "bool \<Rightarrow> bastion \<Rightarrow> 'h bastion_session \<Rightarrow> bool" where
  "trusted allow_tofu b s \<longleftrightarrow>
     (case captured_fingerprint s of
        None \<Rightarrow> False
      | Some fp \<Rightarrow> if pinned_host_keys b = [] then allow_tofu else fp \<in> set (pinned_host_keys b))"

lemma fingerprint_eq:
  fixes p q :: host_key_fingerprint
  shows "p = q \<longleftrightarrow> algo p = algo q \<and> sha256_b64 p = sha256_b64 q"
  by (cases p; cases q) simp

lemma check_server_key_accepts:
  "check_server_key net pins tofu key = (Inr True, cap) \<longleftrightarrow>
     (\<exists>blob. key_blob key = Some blob \<and> cap = Some (observed_key net blob (key_algo key)) \<and>
        (if pins = [] then tofu else observed_key net blob (key_algo key) \<in> set pins))"
  by (auto simp: check_server_key_def Let_def list_ex_iff fingerprint_eq split: option.splits)
    (metis fingerprint_eq)+

lemma client_connect_trusted:
  "client_connect net b tofu w = (Inr (h, cap), w') \<Longrightarrow>
   trusted tofu b \<lparr>handle = h, captured_fingerprint = cap\<rparr>"
proof -
  assume a: "client_connect net b tofu w = (Inr (h, cap), w')"
  obtain key where "check_server_key net (pinned_host_keys b) tofu key = (Inr True, cap)"
    using a by (auto simp: client_connect_def split: prod.splits sum.splits bool.splits)
  then show ?thesis by (auto simp: check_server_key_accepts trusted_def)
qed

lemma open_session_trusted:
  assumes "open_session net b tofu w = (Inr s, w')"
  shows "trusted tofu b s"
proof -
  obtain h cap w1 where "client_connect net b tofu w = (Inr (h, cap), w1)"
    "s = \<lparr>handle = h, captured_fingerprint = cap\<rparr>"
    using assms by (auto simp: open_session_def
        split: prod.splits sum.splits bool.splits bastion_auth.splits)
  then show ?thesis using client_connect_trusted [of net b tofu w h cap w1] by simp
qed

text \<open>The registry's sessions are trusted under the table of bastions that is configured.\<close>

definition registry_ok :: "bool \<Rightarrow> (name, bastion) btree \<Rightarrow> 'h registry \<Rightarrow> bool" where
  "registry_ok tofu bs reg \<longleftrightarrow>
     (\<forall>nm slot. reg nm = Some slot \<longrightarrow>
        (\<exists>b. bt_get bs nm = Some b \<and> (\<forall>s. slot = Some s \<longrightarrow> trusted tofu b s)))"

lemma registry_ok_empty [simp]: "registry_ok tofu bs Map.empty"
  by (simp add: registry_ok_def)

lemma get_or_open_ok:
  assumes "registry_ok tofu bs reg" and "bt_get bs nm = Some b"
    and "get_or_open net nm b tofu reg w = (r, reg', w')"
  shows "registry_ok tofu bs reg' \<and> (\<forall>s. r = Inr s \<longrightarrow> trusted tofu b s)"
proof (cases "\<exists>s. reg nm = Some (Some s)")
  case True
  then obtain s where s: "reg nm = Some (Some s)" by blast
  then have "trusted tofu b s"
    using assms(1) [unfolded registry_ok_def] assms(2) by (metis option.inject)
  then show ?thesis using assms s by (auto simp: get_or_open_def)
next
  case False
  obtain q w1 where q: "open_session net b tofu w = (q, w1)" by fastforce
  have "get_or_open net nm b tofu reg w =
      (case q of Inl e \<Rightarrow> (Inl e, reg(nm \<mapsto> None), w1)
       | Inr s \<Rightarrow> (Inr s, reg(nm \<mapsto> Some s), w1))"
    using False q by (auto simp: get_or_open_def Let_def split: option.splits sum.splits)
  then show ?thesis
    using assms q
    by (auto simp: registry_ok_def split: sum.splits if_splits dest: open_session_trusted)
qed

lemma evict_ok: "registry_ok tofu bs reg \<Longrightarrow> registry_ok tofu bs (snd (evict nm reg))"
  by (auto simp: registry_ok_def evict_def)

end
