(* ===== verification/Daemon.thy ===== *)
theory Daemon
  imports Engine Net_Addr Ssh
begin

text \<open>
  \<open>crates/mwsqld/src/lib.rs\<close>: the daemon's table of live environments, how a runtime is
  built from the configuration, and the operations of the control channel on the live table. A handle
  of the source is a watched runtime and the accept loop's task; here it is the current runtime and the
  snapshots the connections in flight hold. Every access to the table is under the registry's lock, so
  an operation is a function of the state.

  The sockets, the SSH library and the pools are arguments; the outcome of binding a listener covers
  its \<open>local_addr\<close> too.
\<close>

section \<open>State\<close>

record 'h env_runtime =
  rt_name :: name
  rt_engine :: engine_object
  rt_backend :: backend
  rt_policy :: policy
  rt_client_auth :: client_auth_kind
  rt_listen_addr :: "ip_addr \<times> nat"
  rt_idle_timeout :: duration
  rt_forwards :: "'h local_forward list"

record 'h env_handle =
  current :: "'h env_runtime"
  in_flight :: "'h env_runtime list"

type_synonym 'h env_registry = "name \<rightharpoonup> 'h env_handle"

record 'h daemon =
  live :: "'h env_registry"
  reap_wake :: bool
  listen_host :: string
  allow_tofu :: bool
  bastion_registry :: "'h registry"

record ('w, 'h) net =
  ssh :: "('w, 'h) ssh_net"
  bind_listener :: "ip_addr \<times> nat \<Rightarrow> 'w \<Rightarrow> (string + unit) \<times> 'w"
  dial :: "pool \<Rightarrow> 'w \<Rightarrow> (string + unit) \<times> 'w"

datatype daemon_error =
    UnknownCredentialOf name name
  | UnknownBastionOf name name
  | OpeningBastion name name ssh_error
  | LocalForwardFailed name string
  | BuildBackendFailed name engine_kind engine_error
  | BadListenAddr name
  | BindFailed "ip_addr \<times> nat" name string
  | NoSuchEnv name
  | CleartextRefused name string
  | ProbeFailed engine_error

section \<open>Building a runtime\<close>

text \<open>\<open>get_or_open\<close>, then the forward, for an environment behind a bastion.\<close>

definition open_tunnel ::
  "('w, 'h) net \<Rightarrow> bool \<Rightarrow> name \<Rightarrow> config \<Rightarrow> name \<Rightarrow> backend_opts \<Rightarrow> 'h registry \<Rightarrow> 'w
     \<Rightarrow> (daemon_error + 'h local_forward) \<times> 'h registry \<times> 'w" where
  "open_tunnel net tofu nm cfg bastion_name opts reg w =
     (case bt_get (bastions cfg) bastion_name of
        None \<Rightarrow> (Inl (UnknownBastionOf nm bastion_name), reg, w)
      | Some b \<Rightarrow>
          (case get_or_open (ssh net) bastion_name b tofu reg w of
             (Inl e, reg', w') \<Rightarrow> (Inl (OpeningBastion bastion_name nm e), reg', w')
           | (Inr s, reg', w') \<Rightarrow>
               (case start_local_forward (ssh net) s (opt_host opts) (opt_port opts) w' of
                  (Inl e, w'') \<Rightarrow> (Inl (LocalForwardFailed nm e), reg', w'')
                | (Inr f, w'') \<Rightarrow> (Inr f, reg', w''))))"

definition finish_backend ::
  "name \<Rightarrow> env \<Rightarrow> backend_opts \<Rightarrow> daemon_error + engine_object \<times> backend" where
  "finish_backend nm e opts =
     (case build_backend (engine_for (engine e)) opts (max (max_size (pool e)) 1) of
        Inl err \<Rightarrow> Inl (BuildBackendFailed nm (engine e) err)
      | Inr be \<Rightarrow> Inr (engine_for (engine e), be))"

definition establish_backend ::
  "('w, 'h) net \<Rightarrow> bool \<Rightarrow> name \<Rightarrow> env \<Rightarrow> config \<Rightarrow> 'h registry \<Rightarrow> 'w
     \<Rightarrow> (daemon_error + engine_object \<times> backend \<times> 'h local_forward list) \<times> 'h registry \<times> 'w" where
  "establish_backend net tofu nm e cfg reg w =
     (case bt_get (credentials cfg) (env_credential e) of
        None \<Rightarrow> (Inl (UnknownCredentialOf nm (env_credential e)), reg, w)
      | Some cred \<Rightarrow>
          (let opts = from_env_credential e cred
           in case env_bastion e of
                None \<Rightarrow>
                  (case finish_backend nm e opts of
                     Inl err \<Rightarrow> (Inl err, reg, w)
                   | Inr (eng, be) \<Rightarrow> (Inr (eng, be, []), reg, w))
              | Some bastion_name \<Rightarrow>
                  (case open_tunnel net tofu nm cfg bastion_name opts reg w of
                     (Inl err, reg', w') \<Rightarrow> (Inl err, reg', w')
                   | (Inr f, reg', w') \<Rightarrow>
                       (case finish_backend nm e
                               (opts\<lparr>opt_host := ''127.0.0.1'', opt_port := local_port f\<rparr>) of
                          Inl err \<Rightarrow> (Inl err, reg', w')
                        | Inr (eng, be) \<Rightarrow> (Inr (eng, be, [f]), reg', w')))))"

definition build_env_runtime ::
  "('w, 'h) net \<Rightarrow> string \<Rightarrow> bool \<Rightarrow> name \<Rightarrow> env \<Rightarrow> config \<Rightarrow> 'h registry \<Rightarrow> 'w
     \<Rightarrow> (daemon_error + 'h env_runtime) \<times> 'h registry \<times> 'w" where
  "build_env_runtime net lhost tofu nm e cfg reg w =
     (case establish_backend net tofu nm e cfg reg w of
        (Inl err, reg', w') \<Rightarrow> (Inl err, reg', w')
      | (Inr (eng, be, fwds), reg', w') \<Rightarrow>
          (case listen_addr_of lhost (listen_port e) of
             None \<Rightarrow> (Inl (BadListenAddr nm), reg', w')
           | Some addr \<Rightarrow>
               (Inr \<lparr>rt_name = nm, rt_engine = eng, rt_backend = be, rt_policy = env_policy e,
                     rt_client_auth = client_auth e, rt_listen_addr = addr,
                     rt_idle_timeout = secs (unat (idle_timeout_secs (pool e))),
                     rt_forwards = fwds\<rparr>, reg', w')))"

section \<open>Starting\<close>

definition spawn_env :: "'h env_runtime \<Rightarrow> 'h env_handle" where
  "spawn_env rt = \<lparr>current = rt, in_flight = []\<rparr>"

definition listen_runtime ::
  "('w, 'h) net \<Rightarrow> name \<Rightarrow> 'h env_runtime \<Rightarrow> 'w \<Rightarrow> (daemon_error + 'h env_handle) \<times> 'w" where
  "listen_runtime net nm rt w =
     (case bind_listener net (rt_listen_addr rt) w of
        (Inl e, w') \<Rightarrow> (Inl (BindFailed (rt_listen_addr rt) nm e), w')
      | (Inr _, w') \<Rightarrow> (Inr (spawn_env rt), w'))"

text \<open>The loop of \<open>bind\<close> over the environments in name order; \<open>insecure\<close> says that
  the variable that permits cleartext PostgreSQL off the loopback is set.\<close>

fun bind_envs ::
  "('w, 'h) net \<Rightarrow> bool \<Rightarrow> string \<Rightarrow> bool \<Rightarrow> config \<Rightarrow> (name \<times> env) list \<Rightarrow> 'h env_registry
     \<Rightarrow> 'h registry \<Rightarrow> 'w \<Rightarrow> (daemon_error + 'h env_registry \<times> 'h registry) \<times> 'w" where
  "bind_envs net insecure lhost tofu cfg [] tab reg w = (Inr (tab, reg), w)"
| "bind_envs net insecure lhost tofu cfg ((nm, e) # rest) tab reg w =
     (if engine e = MsSql then bind_envs net insecure lhost tofu cfg rest tab reg w
      else if engine e = Postgres \<and> \<not> is_loopback_host lhost \<and> \<not> insecure
      then (Inl (CleartextRefused nm lhost), w)
      else case build_env_runtime net lhost tofu nm e cfg reg w of
        (Inl err, reg', w') \<Rightarrow> (Inl err, w')
      | (Inr rt, reg', w') \<Rightarrow>
          (case listen_runtime net nm rt w' of
             (Inl err, w'') \<Rightarrow> (Inl err, w'')
           | (Inr hdl, w'') \<Rightarrow> bind_envs net insecure lhost tofu cfg rest (tab(nm \<mapsto> hdl)) reg' w''))"

definition bind_daemon ::
  "('w, 'h) net \<Rightarrow> bool \<Rightarrow> config \<Rightarrow> string \<Rightarrow> bool \<Rightarrow> 'w \<Rightarrow> (daemon_error + 'h daemon) \<times> 'w" where
  "bind_daemon net insecure cfg lhost tofu w =
     (case bind_envs net insecure lhost tofu cfg (bt_entries (envs cfg)) Map.empty Map.empty w of
        (Inl e, w') \<Rightarrow> (Inl e, w')
      | (Inr (tab, reg), w') \<Rightarrow>
          (Inr \<lparr>live = tab, reap_wake = False, listen_host = lhost, allow_tofu = tofu,
                bastion_registry = reg\<rparr>, w'))"

text \<open>\<open>mwsqld run\<close>: the flag that overrides every idle timeout touches the loaded copy only.\<close>

definition override_idle :: "u32 option \<Rightarrow> config \<Rightarrow> config" where
  "override_idle flag cfg =
     (case flag of
        None \<Rightarrow> cfg
      | Some s \<Rightarrow> cfg\<lparr>envs :=
          bt_map_values (\<lambda>e. e\<lparr>pool := (pool e)\<lparr>idle_timeout_secs := s\<rparr>\<rparr>) (envs cfg)\<rparr>)"

section \<open>Applying a change live\<close>

definition has_env :: "'h daemon \<Rightarrow> name \<Rightarrow> bool" where
  "has_env dm nm \<longleftrightarrow> live dm nm \<noteq> None"

definition apply_add_env ::
  "('w, 'h) net \<Rightarrow> config \<Rightarrow> env \<Rightarrow> name \<Rightarrow> 'h daemon \<Rightarrow> 'w
     \<Rightarrow> (daemon_error + unit) \<times> 'h daemon \<times> 'w" where
  "apply_add_env net cfg e nm dm w =
     (case build_env_runtime net (listen_host dm) (allow_tofu dm) nm e cfg (bastion_registry dm) w of
        (Inl err, reg, w') \<Rightarrow> (Inl err, dm\<lparr>bastion_registry := reg\<rparr>, w')
      | (Inr rt, reg, w') \<Rightarrow>
          (case listen_runtime net nm rt w' of
             (Inl err, w'') \<Rightarrow> (Inl err, dm\<lparr>bastion_registry := reg\<rparr>, w'')
           | (Inr hdl, w'') \<Rightarrow>
               (Inr (), dm\<lparr>bastion_registry := reg, live := (live dm)(nm \<mapsto> hdl), reap_wake := True\<rparr>,
                w'')))"

definition apply_rm_env :: "name \<Rightarrow> 'h daemon \<Rightarrow> 'h daemon" where
  "apply_rm_env nm dm = dm\<lparr>live := (live dm)(nm := None)\<rparr>"

definition publish :: "name \<Rightarrow> 'h env_handle \<Rightarrow> 'h env_runtime \<Rightarrow> 'h daemon \<Rightarrow> 'h daemon" where
  "publish nm hdl rt dm = dm\<lparr>live := (live dm)(nm \<mapsto> hdl\<lparr>current := rt\<rparr>)\<rparr>"

definition swap_runtime ::
  "name \<Rightarrow> ('h env_runtime \<Rightarrow> 'h env_runtime) \<Rightarrow> 'h daemon \<Rightarrow> (daemon_error + unit) \<times> 'h daemon" where
  "swap_runtime nm f dm =
     (case live dm nm of
        None \<Rightarrow> (Inl (NoSuchEnv nm), dm)
      | Some hdl \<Rightarrow> (Inr (), publish nm hdl (f (current hdl)) dm))"

definition apply_swap_authz ::
  "name \<Rightarrow> client_auth_kind \<Rightarrow> 'h daemon \<Rightarrow> (daemon_error + unit) \<times> 'h daemon" where
  "apply_swap_authz nm ak dm = swap_runtime nm (\<lambda>rt. rt\<lparr>rt_client_auth := ak\<rparr>) dm"

definition apply_swap_policy ::
  "name \<Rightarrow> policy \<Rightarrow> 'h daemon \<Rightarrow> (daemon_error + unit) \<times> 'h daemon" where
  "apply_swap_policy nm pol dm = swap_runtime nm (\<lambda>rt. rt\<lparr>rt_policy := pol\<rparr>) dm"

definition apply_rebuild_backend ::
  "('w, 'h) net \<Rightarrow> config \<Rightarrow> env \<Rightarrow> name \<Rightarrow> 'h daemon \<Rightarrow> 'w
     \<Rightarrow> (daemon_error + unit) \<times> 'h daemon \<times> 'w" where
  "apply_rebuild_backend net cfg e nm dm w =
     (case build_env_runtime net (listen_host dm) (allow_tofu dm) nm e cfg (bastion_registry dm) w of
        (Inl err, reg, w') \<Rightarrow> (Inl err, dm\<lparr>bastion_registry := reg\<rparr>, w')
      | (Inr rt, reg, w') \<Rightarrow>
          (let dm' = dm\<lparr>bastion_registry := reg\<rparr>
           in case live dm' nm of
                None \<Rightarrow> (Inl (NoSuchEnv nm), dm', w')
              | Some hdl \<Rightarrow> (Inr (), publish nm hdl rt dm', w')))"

text \<open>\<open>daemon.bastions.evict\<close> of the handlers.\<close>

definition evict_bastion :: "name \<Rightarrow> 'h daemon \<Rightarrow> 'h daemon" where
  "evict_bastion nm dm = dm\<lparr>bastion_registry := snd (evict nm (bastion_registry dm))\<rparr>"

text \<open>The accept loop takes a snapshot for each connection; a connection that ends drops it; the
  shutdown drains the table.\<close>

definition accept_conn :: "name \<Rightarrow> 'h daemon \<Rightarrow> 'h daemon" where
  "accept_conn nm dm =
     (case live dm nm of
        None \<Rightarrow> dm
      | Some hdl \<Rightarrow> dm\<lparr>live := (live dm)(nm \<mapsto> hdl\<lparr>in_flight := in_flight hdl @ [current hdl]\<rparr>)\<rparr>)"

definition finish_conn :: "name \<Rightarrow> nat \<Rightarrow> 'h daemon \<Rightarrow> 'h daemon" where
  "finish_conn nm i dm =
     (case live dm nm of
        None \<Rightarrow> dm
      | Some hdl \<Rightarrow>
          dm\<lparr>live := (live dm)(nm \<mapsto>
               hdl\<lparr>in_flight := take i (in_flight hdl) @ drop (Suc i) (in_flight hdl)\<rparr>)\<rparr>)"

definition shutdown :: "'h daemon \<Rightarrow> 'h daemon" where
  "shutdown dm = dm\<lparr>live := Map.empty\<rparr>"

section \<open>One connection\<close>

definition handle_one ::
  "('x, 'f, 'b) conn_env \<Rightarrow> 'h env_runtime \<Rightarrow> u32 \<Rightarrow> bytes \<Rightarrow> 'b
     \<Rightarrow> serve_result \<times> bytes \<times> engine_event list \<times> 'b" where
  "handle_one cn rt conn_id inp b =
     (case engine_accept cn (rt_engine rt) (rt_name rt) (rt_client_auth rt) conn_id inp of
        (Inl _, out, rest) \<Rightarrow> (Served, out, [], b)
      | (Inr s, out, rest) \<Rightarrow>
          (case engine_serve cn (rt_engine rt) s (rt_backend rt) (rt_policy rt) rest b of
             (r, ev, b') \<Rightarrow> (r, out, ev, b')))"

section \<open>Probing\<close>

record probe_result =
  pb_env :: name
  pb_ok :: bool
  pb_supported :: bool
  pb_reason :: string

datatype probe_choice = ProbeOne name | ProbeAll

text \<open>\<open>text\<close> renders an error, \<open>missing\<close> the message of an unknown name.\<close>

definition probe_one_env ::
  "('w, 'h) net \<Rightarrow> (daemon_error \<Rightarrow> string) \<Rightarrow> (name \<Rightarrow> string) \<Rightarrow> config \<Rightarrow> bool \<Rightarrow> name \<Rightarrow> 'w
     \<Rightarrow> probe_result \<times> 'w" where
  "probe_one_env net txt missing cfg tofu nm w =
     (let fail = (\<lambda>r. \<lparr>pb_env = nm, pb_ok = False, pb_supported = True, pb_reason = r\<rparr>)
      in case bt_get (envs cfg) nm of
           None \<Rightarrow> (fail (missing nm), w)
         | Some e \<Rightarrow>
             if engine e = MsSql
             then (\<lparr>pb_env = nm, pb_ok = False, pb_supported = False,
                    pb_reason = ''engine mssql not supported yet''\<rparr>, w)
             else (case establish_backend net tofu nm e cfg Map.empty w of
                (Inl err, _, w') \<Rightarrow> (fail (txt err), w')
              | (Inr (eng, be, fwds), _, w') \<Rightarrow>
                  (case probe (dial net) eng be w' of
                     (Inl err, w'') \<Rightarrow> (fail (txt (ProbeFailed err)), w'')
                   | (Inr _, w'') \<Rightarrow>
                       (\<lparr>pb_env = nm, pb_ok = True, pb_supported = True, pb_reason = []\<rparr>, w''))))"

fun probe_each ::
  "('w, 'h) net \<Rightarrow> (daemon_error \<Rightarrow> string) \<Rightarrow> (name \<Rightarrow> string) \<Rightarrow> config \<Rightarrow> bool \<Rightarrow> name list \<Rightarrow> 'w
     \<Rightarrow> probe_result list \<times> 'w" where
  "probe_each net txt missing cfg tofu [] w = ([], w)"
| "probe_each net txt missing cfg tofu (nm # rest) w =
     (let (r, w') = probe_one_env net txt missing cfg tofu nm w;
          (rs, w'') = probe_each net txt missing cfg tofu rest w'
      in (r # rs, w''))"

definition test_envs ::
  "('w, 'h) net \<Rightarrow> (daemon_error \<Rightarrow> string) \<Rightarrow> (name \<Rightarrow> string) \<Rightarrow> config \<Rightarrow> probe_choice \<Rightarrow> bool \<Rightarrow> 'w
     \<Rightarrow> probe_result list \<times> 'w" where
  "test_envs net txt missing cfg which tofu w =
     probe_each net txt missing cfg tofu
       (case which of ProbeOne n \<Rightarrow> [n] | ProbeAll \<Rightarrow> bt_keys (envs cfg)) w"

section \<open>A runtime that matches the configuration\<close>

text \<open>The tunnel of a runtime goes through a session the configuration trusts, to the backend of the
  environment, and the pool dials its local end; without a bastion the pool dials the backend.\<close>

definition tunnel_ok :: "bool \<Rightarrow> config \<Rightarrow> env \<Rightarrow> 'h env_runtime \<Rightarrow> bool" where
  "tunnel_ok tofu cfg e rt \<longleftrightarrow>
     (let opts = pool_opts (backend_pool (rt_backend rt))
      in case env_bastion e of
           None \<Rightarrow> rt_forwards rt = [] \<and> opt_host opts = backend_host e \<and> opt_port opts = backend_port e
         | Some bn \<Rightarrow>
             (\<exists>f b. rt_forwards rt = [f] \<and> bt_get (bastions cfg) bn = Some b \<and> trusted tofu b (via f) \<and>
                target_host f = backend_host e \<and> target_port f = backend_port e \<and>
                opt_host opts = ''127.0.0.1'' \<and> opt_port opts = local_port f))"

definition runtime_matches :: "bool \<Rightarrow> string \<Rightarrow> config \<Rightarrow> name \<Rightarrow> env \<Rightarrow> 'h env_runtime \<Rightarrow> bool" where
  "runtime_matches tofu lhost cfg nm e rt \<longleftrightarrow>
     rt_name rt = nm \<and> rt_engine rt = engine_for (engine e) \<and> rt_policy rt = env_policy e \<and>
     rt_client_auth rt = client_auth e \<and>
     listen_addr_of lhost (listen_port e) = Some (rt_listen_addr rt) \<and> tunnel_ok tofu cfg e rt"

lemma open_tunnel_ok:
  assumes "registry_ok tofu (bastions cfg) reg"
    and "open_tunnel net tofu nm cfg bn opts reg w = (r, reg', w')"
  shows "registry_ok tofu (bastions cfg) reg' \<and>
    (\<forall>f. r = Inr f \<longrightarrow> (\<exists>b. bt_get (bastions cfg) bn = Some b \<and> trusted tofu b (via f) \<and>
       target_host f = opt_host opts \<and> target_port f = opt_port opts))"
proof (cases "bt_get (bastions cfg) bn")
  case None
  then show ?thesis using assms by (auto simp: open_tunnel_def)
next
  case (Some b)
  obtain q reg1 w1 where q: "get_or_open (ssh net) bn b tofu reg w = (q, reg1, w1)"
    by (rule prod_cases3)
  have ok: "registry_ok tofu (bastions cfg) reg1" "\<And>s. q = Inr s \<Longrightarrow> trusted tofu b s"
    using get_or_open_ok [OF assms(1) Some q] by blast+
  show ?thesis
    using assms(2) Some q ok
    by (auto simp: open_tunnel_def start_local_forward_def split: sum.splits prod.splits)
qed

lemma finish_backend_Inr:
  "finish_backend nm e opts = Inr (eng, be) \<Longrightarrow>
   eng = engine_for (engine e) \<and> pool_opts (backend_pool be) = opts \<and> engine e \<noteq> MsSql"
  by (cases "engine e") (auto simp: finish_backend_def build_pool_def)

lemma establish_backend_ok:
  assumes "registry_ok tofu (bastions cfg) reg"
    and "establish_backend net tofu nm e cfg reg w = (r, reg', w')"
  shows "registry_ok tofu (bastions cfg) reg' \<and>
    (\<forall>eng be fwds. r = Inr (eng, be, fwds) \<longrightarrow>
       eng = engine_for (engine e) \<and> engine e \<noteq> MsSql \<and>
       (\<forall>rt. rt_backend rt = be \<longrightarrow> rt_forwards rt = fwds \<longrightarrow> tunnel_ok tofu cfg e rt))"
proof (cases "bt_get (credentials cfg) (env_credential e)")
  case None
  then show ?thesis using assms by (auto simp: establish_backend_def)
next
  case cred: (Some cred)
  show ?thesis
  proof (cases "env_bastion e")
    case None
    then show ?thesis
      using assms cred
      by (auto simp: establish_backend_def tunnel_ok_def from_env_credential_def Let_def
          split: sum.splits prod.splits dest!: finish_backend_Inr)
  next
    case (Some bn)
    let ?opts = "from_env_credential e cred"
    obtain q reg1 w1 where q: "open_tunnel net tofu nm cfg bn ?opts reg w = (q, reg1, w1)"
      by (rule prod_cases3)
    have ok: "registry_ok tofu (bastions cfg) reg1"
      "\<And>f. q = Inr f \<Longrightarrow> \<exists>b. bt_get (bastions cfg) bn = Some b \<and> trusted tofu b (via f) \<and>
         target_host f = backend_host e \<and> target_port f = backend_port e"
      using open_tunnel_ok [OF assms(1) q] by (auto simp: from_env_credential_def)
    show ?thesis
      using assms(2) cred Some q ok
      by (auto simp: establish_backend_def tunnel_ok_def Let_def
          split: sum.splits prod.splits dest!: finish_backend_Inr)
  qed
qed

lemma build_env_runtime_ok:
  assumes "registry_ok tofu (bastions cfg) reg"
    and "build_env_runtime net lhost tofu nm e cfg reg w = (r, reg', w')"
  shows "registry_ok tofu (bastions cfg) reg' \<and>
    (\<forall>rt. r = Inr rt \<longrightarrow> engine e \<noteq> MsSql \<and> runtime_matches tofu lhost cfg nm e rt)"
proof -
  obtain q reg1 w1 where q: "establish_backend net tofu nm e cfg reg w = (q, reg1, w1)"
    by (rule prod_cases3)
  note ok = establish_backend_ok [OF assms(1) q]
  show ?thesis
  proof (cases q)
    case (Inl err)
    then show ?thesis using assms(2) q ok by (auto simp: build_env_runtime_def)
  next
    case (Inr x)
    obtain eng be fwds where x: "x = (eng, be, fwds)" by (rule prod_cases3)
    show ?thesis
      using assms(2) q Inr x ok
      by (auto simp: build_env_runtime_def runtime_matches_def split: option.splits)
  qed
qed

section \<open>The daemon and the configuration agree\<close>

definition live_ok :: "bool \<Rightarrow> string \<Rightarrow> config \<Rightarrow> 'h env_registry \<Rightarrow> bool" where
  "live_ok tofu lhost cfg tab \<longleftrightarrow>
     (\<forall>nm hdl. tab nm = Some hdl \<longrightarrow>
        (\<exists>e. bt_get (envs cfg) nm = Some e \<and> engine e \<noteq> MsSql \<and>
           runtime_matches tofu lhost cfg nm e (current hdl)))"

definition daemon_ok :: "config \<Rightarrow> 'h daemon \<Rightarrow> bool" where
  "daemon_ok cfg dm \<longleftrightarrow>
     live_ok (allow_tofu dm) (listen_host dm) cfg (live dm) \<and>
     registry_ok (allow_tofu dm) (bastions cfg) (bastion_registry dm)"

lemma live_ok_put:
  assumes "live_ok tofu lhost cfg tab" and "bt_get (envs cfg) nm = Some e" and "engine e \<noteq> MsSql"
    and "runtime_matches tofu lhost cfg nm e (current hdl)"
  shows "live_ok tofu lhost cfg (tab(nm \<mapsto> hdl))"
  using assms by (auto simp: live_ok_def)

lemma live_ok_drop: "live_ok tofu lhost cfg tab \<Longrightarrow> live_ok tofu lhost cfg (tab(nm := None))"
  by (auto simp: live_ok_def)

lemma listen_runtime_Inr:
  "listen_runtime net nm rt w = (Inr hdl, w') \<Longrightarrow> current hdl = rt \<and> in_flight hdl = []"
  by (auto simp: listen_runtime_def spawn_env_def split: prod.splits sum.splits)

lemma apply_add_env_ok:
  assumes "daemon_ok cfg dm" and "bt_get (envs cfg) nm = Some e"
    and "apply_add_env net cfg e nm dm w = (r, dm', w')"
  shows "daemon_ok cfg dm'"
proof -
  obtain q reg w1 where q: "build_env_runtime net (listen_host dm) (allow_tofu dm) nm e cfg
      (bastion_registry dm) w = (q, reg, w1)" by (rule prod_cases3)
  have ok: "registry_ok (allow_tofu dm) (bastions cfg) reg"
    "\<And>rt. q = Inr rt \<Longrightarrow> engine e \<noteq> MsSql \<and> runtime_matches (allow_tofu dm) (listen_host dm) cfg nm e rt"
    using build_env_runtime_ok [OF _ q] assms(1) by (auto simp: daemon_ok_def)
  show ?thesis
    using assms q ok
    by (auto simp: apply_add_env_def daemon_ok_def split: sum.splits prod.splits
        dest!: listen_runtime_Inr intro!: live_ok_put)
qed

lemma apply_rm_env_ok: "daemon_ok cfg dm \<Longrightarrow> daemon_ok cfg (apply_rm_env nm dm)"
  by (simp add: daemon_ok_def apply_rm_env_def live_ok_drop)

lemma apply_rebuild_backend_ok:
  assumes "daemon_ok cfg dm" and "bt_get (envs cfg) nm = Some e"
    and "apply_rebuild_backend net cfg e nm dm w = (r, dm', w')"
  shows "daemon_ok cfg dm'"
proof -
  obtain q reg w1 where q: "build_env_runtime net (listen_host dm) (allow_tofu dm) nm e cfg
      (bastion_registry dm) w = (q, reg, w1)" by (rule prod_cases3)
  have ok: "registry_ok (allow_tofu dm) (bastions cfg) reg"
    "\<And>rt. q = Inr rt \<Longrightarrow> engine e \<noteq> MsSql \<and> runtime_matches (allow_tofu dm) (listen_host dm) cfg nm e rt"
    using build_env_runtime_ok [OF _ q] assms(1) by (auto simp: daemon_ok_def)
  show ?thesis
    using assms q ok
    by (auto simp: apply_rebuild_backend_def daemon_ok_def publish_def Let_def
        split: sum.splits prod.splits option.splits intro!: live_ok_put)
qed

lemma evict_bastion_ok: "daemon_ok cfg dm \<Longrightarrow> daemon_ok cfg (evict_bastion nm dm)"
  by (simp add: daemon_ok_def evict_bastion_def evict_ok)

lemma accept_conn_ok: "daemon_ok cfg dm \<Longrightarrow> daemon_ok cfg (accept_conn nm dm)"
  by (auto simp: daemon_ok_def accept_conn_def live_ok_def split: option.splits)

lemma finish_conn_ok: "daemon_ok cfg dm \<Longrightarrow> daemon_ok cfg (finish_conn nm i dm)"
  by (auto simp: daemon_ok_def finish_conn_def live_ok_def split: option.splits)

lemma shutdown_ok: "daemon_ok cfg dm \<Longrightarrow> daemon_ok cfg (shutdown dm)"
  by (auto simp: daemon_ok_def shutdown_def live_ok_def)

section \<open>A fresh daemon agrees with its configuration\<close>

lemma bind_envs_ok:
  assumes "bind_envs net insecure lhost tofu cfg xs tab reg w = (Inr (tab', reg'), w')"
    and "live_ok tofu lhost cfg tab" and "registry_ok tofu (bastions cfg) reg"
    and "\<And>nm e. (nm, e) \<in> set xs \<Longrightarrow> bt_get (envs cfg) nm = Some e"
  shows "live_ok tofu lhost cfg tab' \<and> registry_ok tofu (bastions cfg) reg'"
  using assms
proof (induction xs arbitrary: tab reg w)
  case Nil
  then show ?case by simp
next
  case (Cons x xs)
  obtain nm e where x: "x = (nm, e)" by (cases x)
  show ?case
  proof (cases "engine e = MsSql")
    case True
    then show ?thesis using Cons x by simp
  next
    case False
    then have ins: "\<not> (engine e = Postgres \<and> \<not> is_loopback_host lhost \<and> \<not> insecure)"
      using Cons.prems(1) x by (auto split: if_splits)
    obtain q reg1 w1 where q: "build_env_runtime net lhost tofu nm e cfg reg w = (q, reg1, w1)"
      by (rule prod_cases3)
    note ok = build_env_runtime_ok [OF Cons.prems(3) q]
    obtain rt where rt: "q = Inr rt" using Cons.prems(1) False ins q x by (cases q) auto
    obtain l w2 where l: "listen_runtime net nm rt w1 = (l, w2)" by fastforce
    obtain hdl where hdl: "l = Inr hdl" using Cons.prems(1) False ins q rt l x by (cases l) auto
    have rest: "bind_envs net insecure lhost tofu cfg xs (tab(nm \<mapsto> hdl)) reg1 w2 = (Inr (tab', reg'), w')"
      using Cons.prems(1) False ins q rt l hdl x by (simp del: de_Morgan_conj)
    have put: "live_ok tofu lhost cfg (tab(nm \<mapsto> hdl))"
      using Cons.prems(2,4) ok rt listen_runtime_Inr [OF l [unfolded hdl]] x
      by (intro live_ok_put) auto
    show ?thesis using Cons.IH [OF rest put] ok Cons.prems(4) by simp
  qed
qed

lemma bind_daemon_ok:
  assumes "bind_daemon net insecure cfg lhost tofu w = (Inr dm, w')"
  shows "daemon_ok cfg dm \<and> listen_host dm = lhost \<and> allow_tofu dm = tofu"
proof -
  obtain tab reg where b: "bind_envs net insecure lhost tofu cfg (bt_entries (envs cfg)) Map.empty
      Map.empty w = (Inr (tab, reg), w')"
    and dm: "dm = \<lparr>live = tab, reap_wake = False, listen_host = lhost, allow_tofu = tofu,
      bastion_registry = reg\<rparr>"
    using assms by (auto simp: bind_daemon_def split: prod.splits sum.splits)
  have "live_ok tofu lhost cfg tab \<and> registry_ok tofu (bastions cfg) reg"
    by (rule bind_envs_ok [OF b]) (auto simp: live_ok_def bt.in_entries)
  then show ?thesis by (simp add: daemon_ok_def dm)
qed

section \<open>Cleartext PostgreSQL\<close>

lemma bind_envs_guard:
  "bind_envs net insecure lhost tofu cfg xs tab reg w = (Inr r, w') \<Longrightarrow>
   (nm, e) \<in> set xs \<Longrightarrow> engine e = Postgres \<Longrightarrow> is_loopback_host lhost \<or> insecure"
proof (induction xs arbitrary: tab reg w)
  case (Cons x xs)
  obtain nm' e' where x: "x = (nm', e')" by (cases x)
  show ?case
  proof (cases "(nm, e) = x")
    case True
    then show ?thesis using Cons.prems(1,3) x by (auto split: if_splits)
  next
    case False
    then have "\<exists>tab reg w. bind_envs net insecure lhost tofu cfg xs tab reg w = (Inr r, w')"
      using Cons.prems(1) x by (auto split: if_splits sum.splits prod.splits)
    then show ?thesis using Cons.IH Cons.prems(2,3) False by auto
  qed
qed simp

text \<open>
  Cleartext stays on the machine. A daemon that was started without the override serves a
  PostgreSQL environment, whose clients send their token in the clear, only on a loopback address.
\<close>

theorem bind_keeps_cleartext_local:
  assumes "bind_daemon net False cfg lhost tofu w = (Inr dm, w')"
    and "live dm nm = Some hdl" and "rt_engine (current hdl) = PgEngine"
  shows "is_loopback (fst (rt_listen_addr (current hdl)))"
proof -
  have ok: "daemon_ok cfg dm" "listen_host dm = lhost" using bind_daemon_ok [OF assms(1)] by simp_all
  then obtain e where e: "bt_get (envs cfg) nm = Some e"
    "runtime_matches (allow_tofu dm) lhost cfg nm e (current hdl)"
    using assms(2) by (auto simp: daemon_ok_def live_ok_def)
  have pg: "engine e = Postgres"
    using e(2) assms(3) by (cases "engine e") (auto simp: runtime_matches_def)
  obtain r where "bind_envs net False lhost tofu cfg (bt_entries (envs cfg)) Map.empty Map.empty w = (Inr r, w')"
    using assms(1) by (auto simp: bind_daemon_def split: prod.splits sum.splits)
  moreover have "(nm, e) \<in> set (bt_entries (envs cfg))" using e(1) by (simp add: bt.in_entries)
  ultimately have "is_loopback_host lhost" using bind_envs_guard [of net False] pg by blast
  moreover have "listen_addr_of lhost (listen_port e) = Some (rt_listen_addr (current hdl))"
    using e(2) by (simp add: runtime_matches_def)
  ultimately show ?thesis using loopback_host_listens_local by (metis prod.collapse)
qed

text \<open>A network on which everything succeeds, one environment, and its configuration.\<close>

definition sample_net :: "(unit, unit) net" where
  "sample_net =
     \<lparr>ssh = \<lparr>kex = (\<lambda>h p w. (Inr (\<lparr>key_blob = Some [1], key_algo = ''ssh-ed25519''\<rparr>, ()), w)),
        auth_password = (\<lambda>h u p w. (Inr True, w)), bind_local = (\<lambda>w. (Inr 40000, w)),
        fingerprint_b64 = (\<lambda>b. ''fp'')\<rparr>,
      bind_listener = (\<lambda>a w. (Inr (), w)), dial = (\<lambda>p w. (Inr (), w))\<rparr>"

definition daemon_env :: "engine_kind \<Rightarrow> name option \<Rightarrow> env" where
  "daemon_env k ob =
     \<lparr>backend_host = ''db'', backend_port = 5432, default_database = None, env_bastion = ob,
      env_credential = ''c'', env_policy = ReadOnly,
      client_auth = (if k = Postgres then PgCleartext [1] else NativePassword (replicate 20 0)),
      listen_port = 6033, pool = default_pool, engine = k\<rparr>"

definition daemon_config :: "engine_kind \<Rightarrow> name option \<Rightarrow> config" where
  "daemon_config k ob =
     \<lparr>schema_version = CURRENT_SCHEMA_VERSION,
      bastions = bt_insert ''b'' \<lparr>host = ''bh'', port = 22, ssh_user = ''u'', auth = PasswordAuth ''p'',
        pinned_host_keys = [\<lparr>algo = ''ssh-ed25519'', sha256_b64 = ''fp''\<rparr>]\<rparr> bt_empty,
      credentials = bt_insert ''c'' \<lparr>backend_user = ''u'', backend_password = ''p''\<rparr> bt_empty,
      envs = bt_insert ''dev'' (daemon_env k ob) bt_empty\<rparr>"

lemma sample_listen_addr:
  "listen_addr_of ''127.0.0.1'' 6033 = Some (V4 127 0 0 1, 6033)"
  "listen_addr_of ''0.0.0.0'' 6033 = Some (V4 0 0 0 0, 6033)"
proof -
  have v4: "read_ipv4 ''127.0.0.1'' = Some ((127, 0, 0, 1), [])" "read_ipv4 ''0.0.0.0'' = Some ((0, 0, 0, 0), [])"
    by (simp_all add: read_ipv4_def read_octet_def read_dot_octet_def read_number_def digit_vals
        digits_value_def)
  have "read_port (CHR '':'' # show_nat 6033) = Some (6033, [])"
    by (simp add: read_port_def read_number_show_nat)
  then show "listen_addr_of ''127.0.0.1'' 6033 = Some (V4 127 0 0 1, 6033)"
    "listen_addr_of ''0.0.0.0'' 6033 = Some (V4 0 0 0 0, 6033)"
    using read_ipv4_stop [OF v4(1), of "show_nat 6033"] read_ipv4_stop [OF v4(2), of "show_nat 6033"]
    by (simp_all add: listen_addr_of_def parse_socket_addr_def read_socket_v4_def whole_def)
qed

lemma sample_build:
  assumes "k \<noteq> MsSql" and "lhost = ''127.0.0.1'' \<or> lhost = ''0.0.0.0''"
  shows "\<exists>rt. build_env_runtime sample_net lhost tofu ''dev'' (daemon_env k None) (daemon_config k None)
      reg () = (Inr rt, reg, ()) \<and> rt_engine rt = engine_for k \<and>
      listen_addr_of lhost 6033 = Some (rt_listen_addr rt)"
  using assms sample_listen_addr
  by (cases k) (auto simp: build_env_runtime_def establish_backend_def finish_backend_def daemon_config_def
      daemon_env_def Let_def)

theorem bind_keeps_cleartext_local_witness:
  "\<exists>dm hdl. fst (bind_daemon sample_net False (daemon_config Postgres None) ''127.0.0.1'' False ())
       = Inr dm \<and> live dm ''dev'' = Some hdl \<and> rt_engine (current hdl) = PgEngine \<and>
     is_loopback (fst (rt_listen_addr (current hdl)))"
proof -
  obtain rt where rt: "build_env_runtime sample_net ''127.0.0.1'' False ''dev'' (daemon_env Postgres None)
      (daemon_config Postgres None) Map.empty () = (Inr rt, Map.empty, ())" "rt_engine rt = PgEngine"
    using sample_build [of Postgres "''127.0.0.1''" False Map.empty] by auto
  have l: "is_loopback_host ''127.0.0.1''" by (simp add: is_loopback_host_def)
  have e: "bt_entries (envs (daemon_config Postgres None)) = [(''dev'', daemon_env Postgres None)]"
    by (simp add: daemon_config_def)
  have "bind_daemon sample_net False (daemon_config Postgres None) ''127.0.0.1'' False ()
      = (Inr \<lparr>live = [''dev'' \<mapsto> spawn_env rt], reap_wake = False, listen_host = ''127.0.0.1'',
          allow_tofu = False, bastion_registry = Map.empty\<rparr>, ())"
    unfolding bind_daemon_def e using l rt(1)
    by (simp add: listen_runtime_def sample_net_def daemon_env_def)
  from bind_keeps_cleartext_local [OF this, of "''dev''" "spawn_env rt"] this rt(2) show ?thesis
    by (simp add: spawn_env_def)
qed

text \<open>
  A live add skips the cleartext check. Adding an environment to a running daemon succeeds on any
  host the daemon listens on: the check of the start is not repeated, so a PostgreSQL environment is
  served, in the clear, on every interface. After the next start the daemon refuses to come up.
\<close>

theorem live_add_serves_cleartext_anywhere:
  assumes "bt_get (credentials cfg) (env_credential e) = Some cred" and "env_bastion e = None"
    and "engine e = Postgres" and "listen_host dm = ''0.0.0.0''" and "listen_port e = 6033"
    and "\<And>a v. bind_listener net a v = (Inr (), v)"
  shows "\<exists>dm' hdl. apply_add_env net cfg e nm dm w = (Inr (), dm', w) \<and> live dm' nm = Some hdl \<and>
    rt_listen_addr (current hdl) = (V4 0 0 0 0, 6033) \<and> rt_engine (current hdl) = PgEngine \<and>
    (bt_entries (envs cfg) = [(nm, e)] \<longrightarrow>
       fst (bind_daemon net False cfg ''0.0.0.0'' tofu w) = Inl (CleartextRefused nm ''0.0.0.0''))"
proof -
  have nl: "\<not> is_loopback_host ''0.0.0.0''"
  proof -
    have "parse_ip ''0.0.0.0'' = Some (V4 0 0 0 0)"
      by (simp add: parse_ip_def whole_def read_ip_def read_ipv4_def read_octet_def read_dot_octet_def
          read_number_def digit_vals digits_value_def)
    then show ?thesis by (simp add: is_loopback_host_def)
  qed
  show ?thesis
    using assms sample_listen_addr(2) nl
    by (auto simp: apply_add_env_def build_env_runtime_def establish_backend_def finish_backend_def
        listen_runtime_def spawn_env_def bind_daemon_def Let_def)
qed

theorem live_add_serves_cleartext_anywhere_witness:
  "\<exists>dm' hdl. apply_add_env sample_net (daemon_config Postgres None) (daemon_env Postgres None) ''dev''
      \<lparr>live = Map.empty, reap_wake = False, listen_host = ''0.0.0.0'', allow_tofu = False,
       bastion_registry = Map.empty\<rparr> () = (Inr (), dm', ()) \<and> live dm' ''dev'' = Some hdl \<and>
    rt_listen_addr (current hdl) = (V4 0 0 0 0, 6033)"
proof -
  let ?dm = "\<lparr>live = Map.empty, reap_wake = False, listen_host = ''0.0.0.0'', allow_tofu = False,
       bastion_registry = Map.empty\<rparr> :: unit daemon"
  have "bt_get (credentials (daemon_config Postgres None)) (env_credential (daemon_env Postgres None))
      = Some \<lparr>backend_user = ''u'', backend_password = ''p''\<rparr>"
    "env_bastion (daemon_env Postgres None) = None" "engine (daemon_env Postgres None) = Postgres"
    "listen_host ?dm = ''0.0.0.0''" "listen_port (daemon_env Postgres None) = 6033"
    "\<And>a v. bind_listener sample_net a v = (Inr (), v)"
    by (simp_all add: daemon_config_def daemon_env_def sample_net_def)
  from live_add_serves_cleartext_anywhere [OF this, where w = "()" and nm = "''dev''" and tofu = False]
  show ?thesis by blast
qed

section \<open>A connection is gated end to end\<close>

lemma handle_one_handed:
  assumes "handle_one cn rt cid inp b = (r, out, ev, b')" and "e \<in> set ev" and "engine_handed e = Some q"
  shows "proved_token cn (rt_client_auth rt) inp \<and>
    evaluate (cn_parser cn) q (rt_policy rt) (profile_of (kind (rt_engine rt))) = Allow"
proof -
  obtain a o1 rest where a: "engine_accept cn (rt_engine rt) (rt_name rt) (rt_client_auth rt) cid inp
      = (a, o1, rest)" by (rule prod_cases3)
  obtain s where s: "a = Inr s" using assms(1,2) a by (cases a) (auto simp: handle_one_def)
  obtain r0 ev0 b0 where v: "engine_serve cn (rt_engine rt) s (rt_backend rt) (rt_policy rt) rest b
      = (r0, ev0, b0)" by (rule prod_cases3)
  have "e \<in> set ev0" using assms(1,2) a s v by (simp add: handle_one_def)
  then show ?thesis
    using engine_serve_gated [OF v _ assms(3)] engine_accept_proved [OF a [unfolded s]] by simp
qed

end
