(* ===== verification/Str_Ops.thy ===== *)
theory Str_Ops
  imports Utf8
begin

text \<open>
  The operations of Rust's \<open>str\<close> that several components use: lines, splitting, prefixes and
  suffixes, searching. A string is the list of its UTF-8 bytes, so a search for an ASCII needle is a
  search in the bytes. The lemmas say what they return on text that was put together.
\<close>

section \<open>Lines\<close>

text \<open>\<open>str::lines\<close>: a line ends at a line feed, which takes a carriage return before it along;
  an empty last line is none.\<close>

fun split_on :: "char \<Rightarrow> string \<Rightarrow> string list" where
  "split_on c [] = [[]]"
| "split_on c (x # xs) =
     (if x = c then [] # split_on c xs
      else (case split_on c xs of [] \<Rightarrow> [[x]] | y # ys \<Rightarrow> (x # y) # ys))"

definition strip_cr :: "string \<Rightarrow> string" where
  "strip_cr s = (if s \<noteq> [] \<and> last s = CHR 0x0D then butlast s else s)"

definition text_lines :: "string \<Rightarrow> string list" where
  "text_lines s =
     (let ps = split_on (CHR 0x0A) s
      in map strip_cr (butlast ps) @ (if last ps = [] then [] else [last ps]))"

section \<open>Splitting and searching\<close>

definition strip_prefix :: "string \<Rightarrow> string \<Rightarrow> string option" where
  "strip_prefix p s = (if starts_with p s then Some (drop (length p) s) else None)"

definition strip_suffix :: "string \<Rightarrow> string \<Rightarrow> string option" where
  "strip_suffix p s =
     (if length p \<le> length s \<and> drop (length s - length p) s = p
      then Some (take (length s - length p) s) else None)"

text \<open>\<open>split_once\<close> and \<open>rsplit_once\<close> at a character: what is before and after it.\<close>

fun split_once :: "char \<Rightarrow> string \<Rightarrow> (string \<times> string) option" where
  "split_once c [] = None"
| "split_once c (x # xs) =
     (if x = c then Some ([], xs)
      else (case split_once c xs of None \<Rightarrow> None | Some (a, b) \<Rightarrow> Some (x # a, b)))"

fun rsplit_once :: "char \<Rightarrow> string \<Rightarrow> (string \<times> string) option" where
  "rsplit_once c [] = None"
| "rsplit_once c (x # xs) =
     (case rsplit_once c xs of
        Some (a, b) \<Rightarrow> Some (x # a, b)
      | None \<Rightarrow> if x = c then Some ([], xs) else None)"

text \<open>\<open>contains\<close>; the text after the first occurrence of a needle, as \<open>find\<close> and the
  slice after it give; the text before the last one, as \<open>rfind\<close> and the slice before it
  give.\<close>

fun contains :: "string \<Rightarrow> string \<Rightarrow> bool" where
  "contains n [] \<longleftrightarrow> n = []"
| "contains n (x # xs) \<longleftrightarrow> starts_with n (x # xs) \<or> contains n xs"

fun find_after :: "string \<Rightarrow> string \<Rightarrow> string option" where
  "find_after n [] = (if n = [] then Some [] else None)"
| "find_after n (x # xs) =
     (if starts_with n (x # xs) then Some (drop (length n) (x # xs)) else find_after n xs)"

fun before_last :: "string \<Rightarrow> string \<Rightarrow> string option" where
  "before_last n [] = (if n = [] then Some [] else None)"
| "before_last n (x # xs) =
     (case before_last n xs of
        Some p \<Rightarrow> Some (x # p)
      | None \<Rightarrow> if starts_with n (x # xs) then Some [] else None)"

section \<open>What they return\<close>

lemma starts_with_Cons [simp]: "starts_with (a # p) (b # s) \<longleftrightarrow> a = b \<and> starts_with p s"
  by (auto simp: starts_with_def)

lemma starts_with_Cons_Nil [simp]: "\<not> starts_with (a # p) []"
  by (simp add: starts_with_def)

lemma starts_with_iff: "starts_with p s \<longleftrightarrow> (\<exists>t. s = p @ t)"
  by (metis append_eq_conv_conj starts_with_append starts_with_def append_take_drop_id)

lemma contains_iff: "contains n s \<longleftrightarrow> (\<exists>u v. s = u @ n @ v)"
proof (induction s)
  case (Cons x xs)
  have "(\<exists>u v. x # xs = u @ n @ v) \<longleftrightarrow> starts_with n (x # xs) \<or> (\<exists>u v. xs = u @ n @ v)"
    by (metis Cons_eq_append_conv append_Cons append_Nil starts_with_iff)
  then show ?case using Cons.IH by simp
qed auto

lemma split_once_append: "c \<notin> set a \<Longrightarrow> split_once c (a @ c # b) = Some (a, b)"
  by (induction a) auto

lemma split_once_None: "split_once c s = None \<longleftrightarrow> c \<notin> set s"
  by (induction s) (auto split: option.splits)

lemma split_once_Some: "split_once c s = Some (a, b) \<longleftrightarrow> s = a @ c # b \<and> c \<notin> set a"
proof (induction s arbitrary: a)
  case (Cons x xs)
  show ?case
  proof (cases a)
    case (Cons y ys)
    then show ?thesis using Cons.IH [of ys] by (auto split: option.splits)
  qed (auto split: option.splits)
qed simp

lemma rsplit_once_None: "rsplit_once c s = None \<longleftrightarrow> c \<notin> set s"
  by (induction s) (auto split: option.splits)

lemma rsplit_once_append: "c \<notin> set b \<Longrightarrow> rsplit_once c (a @ c # b) = Some (a, b)"
  by (induction a) (simp_all add: rsplit_once_None [THEN iffD2])

lemma strip_prefix_append [simp]: "strip_prefix p (p @ s) = Some s"
  by (simp add: strip_prefix_def)

lemma strip_suffix_append [simp]: "strip_suffix p (s @ p) = Some s"
  by (simp add: strip_suffix_def)

lemma strip_prefix_Some: "strip_prefix p s = Some t \<longleftrightarrow> s = p @ t"
  by (auto simp: strip_prefix_def starts_with_iff)

lemma strip_suffix_Some: "strip_suffix p s = Some t \<longleftrightarrow> s = t @ p"
  by (auto simp: strip_suffix_def) (metis append_take_drop_id)

lemma before_last_suffix: "n \<noteq> [] \<Longrightarrow> before_last n (s @ n) = Some s"
proof (induction s)
  case Nil
  then obtain x xs where n: "n = x # xs" by (cases n) auto
  have "before_last n ys = None" if "length ys < length n" for ys
    using that by (induction ys) (auto simp: starts_with_iff n)
  from this [of xs] show ?case by (simp add: n starts_with_iff)
qed simp

text \<open>Lines written with a line feed after each are read back, when none contains a line break.\<close>

lemma split_on_append: "c \<notin> set a \<Longrightarrow> split_on c (a @ c # s) = a # split_on c s"
  by (induction a) auto

lemma split_on_nonempty [simp]: "split_on c s \<noteq> []"
  by (cases s) (auto split: list.splits)

lemma text_lines_Cons:
  assumes "CHR 0x0A \<notin> set l" and "l = [] \<or> last l \<noteq> CHR 0x0D"
  shows "text_lines (l @ CHR 0x0A # s) = l # text_lines s"
  using assms by (auto simp: text_lines_def split_on_append strip_cr_def Let_def)

lemma text_lines_Nil [simp]: "text_lines [] = []"
  by (simp add: text_lines_def)

lemma text_lines_concat:
  assumes "\<forall>l \<in> set ls. CHR 0x0A \<notin> set l \<and> (l = [] \<or> last l \<noteq> CHR 0x0D)"
  shows "text_lines (concat (map (\<lambda>l. l @ [CHR 0x0A]) ls)) = ls"
  using assms by (induction ls) (auto simp: text_lines_Cons)

section \<open>Trimming\<close>

lemma trim_front_id: "(\<And>w. w \<in> set ws \<Longrightarrow> w \<noteq> [] \<Longrightarrow> \<not> starts_with w s) \<Longrightarrow> trim_front ws s = s"
  by (subst trim_front.simps) (auto simp: find_Some_iff split: option.splits)

lemma starts_with_hd: "starts_with w s \<Longrightarrow> w \<noteq> [] \<Longrightarrow> hd w = hd s"
  by (auto simp: starts_with_iff)

text \<open>Nothing is trimmed from a text whose first and last bytes are those of visible ASCII
  characters.\<close>

definition visible :: "char \<Rightarrow> bool" where
  "visible c \<longleftrightarrow> char_between CHR 0x21 CHR 0x7E c"

lemma ws_first: "w \<in> set ws_chars \<Longrightarrow> w \<noteq> [] \<and> \<not> visible (hd w) \<and> \<not> visible (last w)"
  by (auto simp: ws_chars_def visible_def char_between_def less_eq_char_def)

lemma trim_visible:
  assumes "s \<noteq> []" and "visible (hd s)" and "visible (last s)"
  shows "trim s = s"
proof -
  have "trim_start s = s"
    unfolding trim_start_def
  proof (rule trim_front_id)
    fix w assume "w \<in> set ws_chars" "w \<noteq> []"
    then show "\<not> starts_with w s"
      using ws_first [of w] assms(2) starts_with_hd [of w s] by metis
  qed
  moreover have "trim_front (map rev ws_chars) (rev s) = rev s"
  proof (rule trim_front_id)
    fix w assume w: "w \<in> set (map rev ws_chars)" "w \<noteq> []"
    then obtain v where v: "v \<in> set ws_chars" "w = rev v" by auto
    have "hd (rev v) = last v" "hd (rev s) = last s" using w v assms(1) by (simp_all add: hd_rev)
    then show "\<not> starts_with w (rev s)"
      using ws_first [OF v(1)] v(2) w(2) assms starts_with_hd [of w "rev s"] by metis
  qed
  ultimately show ?thesis by (simp add: trim_def trim_end_def)
qed

end
