(* ===== verification/Handlers.thy ===== *)
theory Handlers
  imports State_Dir Peer_Auth Daemon Str_Ops
begin

text \<open>
  \<open>crates/mwsqld/src/control/handlers.rs\<close>: one control request applied to the running daemon.
  The server is the disk, the daemon and the audit log of the administrative events. What a request
  draws or meets outside (the salt and nonce of the seal, the bytes of a token, failing file operations,
  the network, the audit directory, the clock) is its \<open>turn\<close>. The requests run one at a time
  under the configuration lock, so each is a function of the server. The texts of error values are
  arguments.
\<close>

section \<open>Environment and state\<close>

record ('w, 'h) server_env =
  sv_state :: state_env
  sv_net :: "('w, 'h) net"
  sv_sha1 :: "bytes \<Rightarrow> bytes"
  sv_sha256 :: "bytes \<Rightarrow> bytes"
  sv_state_text :: "mutate_error state_error \<Rightarrow> string"
  sv_daemon_text :: "daemon_error \<Rightarrow> string"
  sv_missing_text :: "name \<Rightarrow> string"

text \<open>The audit directory: absent, unreadable, or the names of its files with what reading each gives.\<close>

datatype audit_dir =
    AuditDirAbsent
  | AuditDirFailed string
  | AuditDir "(string \<times> (string + string)) list"

record 'w turn =
  tn_salt :: bytes
  tn_nonce :: bytes
  tn_fault :: fault
  tn_raw :: bytes
  tn_now :: string
  tn_world :: 'w
  tn_audit_dir :: audit_dir

record 'h server =
  sv_disk :: disk
  sv_daemon :: "'h daemon"
  sv_log :: "admin_event list"

definition turn_env :: "('w, 'h) server_env \<Rightarrow> 'w turn \<Rightarrow> state_env" where
  "turn_env sv tn = (sv_state sv)\<lparr>se_salt := tn_salt tn, se_nonce := tn_nonce tn\<rparr>"

section \<open>Audit and failure\<close>

definition admin_event_of ::
  "'w turn \<Rightarrow> peer_identity \<Rightarrow> string \<Rightarrow> string \<Rightarrow> audit_decision \<Rightarrow> string option \<Rightarrow> admin_event" where
  "admin_event_of tn peer action target dec err =
     admin_event_new (tn_now tn) action target (peer_uid peer) (peer_gid peer) (peer_user peer) dec err"

definition emit :: "admin_event \<Rightarrow> 'h server \<Rightarrow> 'h server" where
  "emit ev st = st\<lparr>sv_log := sv_log st @ [ev]\<rparr>"

definition allow ::
  "'w turn \<Rightarrow> peer_identity \<Rightarrow> string \<Rightarrow> string \<Rightarrow> response \<Rightarrow> 'h server \<Rightarrow> response \<times> 'h server" where
  "allow tn peer action target resp st =
     (resp, emit (admin_event_of tn peer action target AuditAllow None) st)"

text \<open>\<open>fail\<close> and \<open>fail_msg\<close>, on the rendered message.\<close>

definition fail_msg ::
  "'w turn \<Rightarrow> peer_identity \<Rightarrow> string \<Rightarrow> string \<Rightarrow> string \<Rightarrow> 'h server \<Rightarrow> response \<times> 'h server" where
  "fail_msg tn peer action target m st =
     (RError m, emit (admin_event_of tn peer action target AuditError (Some m)) st)"

definition NOT_YET_LIVE :: string where "NOT_YET_LIVE = ''persisted but not yet live''"

definition em_dash :: string where
  "em_dash = [CHR 0xE2, CHR 0x80, CHR 0x94]"

definition token_but_not_live ::
  "'w turn \<Rightarrow> peer_identity \<Rightarrow> string \<Rightarrow> string \<Rightarrow> new_env_output \<Rightarrow> string \<Rightarrow> 'h server
     \<Rightarrow> response \<times> 'h server" where
  "token_but_not_live tn peer action target out e st =
     (let note = action @ '' on '' @ target @ '' '' @ NOT_YET_LIVE @
            '' (restart the service to bind it): '' @ e;
          dto = (new_env_dto out)\<lparr>dto_note :=
            Some (NOT_YET_LIVE @ '' '' @ em_dash @ '' restart the service to bind this env'')\<rparr>
      in (RToken dto, emit (admin_event_of tn peer action target AuditError (Some note)) st))"

fun join_with :: "string \<Rightarrow> string list \<Rightarrow> string" where
  "join_with sep [] = []"
| "join_with sep [x] = x"
| "join_with sep (x # y # xs) = x @ sep @ join_with sep (y # xs)"

definition stopped_after_failed_repin ::
  "'w turn \<Rightarrow> peer_identity \<Rightarrow> name \<Rightarrow> string list \<Rightarrow> 'h server \<Rightarrow> response \<times> 'h server" where
  "stopped_after_failed_repin tn peer bastion_name stopped st =
     fail_msg tn peer ''set_fingerprint'' bastion_name
       (''new fingerprint saved for bastion '' @ bastion_name @ '', but '' @
        show_nat (length stopped) @ '' env(s) could not reconnect under it and were STOPPED rather than '' @
        ''left on the old, now-untrusted tunnel: '' @ join_with ''; '' stopped @
        ''. Verify the bastion'' @ [CHR 0x27] @ ''s real host key, then re-add or restart to bring them back.'') st"

definition persisted_but_apply_failed ::
  "'w turn \<Rightarrow> peer_identity \<Rightarrow> string \<Rightarrow> string \<Rightarrow> name \<Rightarrow> string \<Rightarrow> 'h server \<Rightarrow> response \<times> 'h server" where
  "persisted_but_apply_failed tn peer action target env_name e st =
     fail_msg tn peer action target
       (''config persisted but env '' @ env_name @
        '' could not be applied live (restart the service to finish applying): '' @ e) st"

section \<open>Reading and persisting the configuration\<close>

definition unit_result :: "'e + config \<Rightarrow> 'e + unit \<times> config" where
  "unit_result r = (case r of Inl e \<Rightarrow> Inl e | Inr c \<Rightarrow> Inr ((), c))"

definition persist ::
  "('w, 'h) server_env \<Rightarrow> 'w turn \<Rightarrow> (config \<Rightarrow> mutate_error + 'r \<times> config) \<Rightarrow> 'h server
     \<Rightarrow> (mutate_error state_error + 'r) \<times> 'h server" where
  "persist sv tn m st =
     (let (r, d') = with_config (turn_env sv tn) (tn_fault tn) m (sv_disk st)
      in (r, st\<lparr>sv_disk := d'\<rparr>))"

definition reload ::
  "('w, 'h) server_env \<Rightarrow> 'w turn \<Rightarrow> 'h server \<Rightarrow> mutate_error state_error + config" where
  "reload sv tn st = load_config (turn_env sv tn) (sv_disk st)"

definition simple_mutation ::
  "('w, 'h) server_env \<Rightarrow> 'w turn \<Rightarrow> peer_identity \<Rightarrow> string \<Rightarrow> string
     \<Rightarrow> (config \<Rightarrow> mutate_error + config) \<Rightarrow> 'h server \<Rightarrow> response \<times> 'h server" where
  "simple_mutation sv tn peer action target m st =
     (case persist sv tn (\<lambda>c. unit_result (m c)) st of
        (Inl e, st') \<Rightarrow> fail_msg tn peer action target (sv_state_text sv e) st'
      | (Inr _, st') \<Rightarrow> allow tn peer action target ROk st')"

section \<open>Bastions\<close>

definition add_bastion_req ::
  "('w, 'h) server_env \<Rightarrow> 'w turn \<Rightarrow> peer_identity \<Rightarrow> bastion_input_dto \<Rightarrow> 'h server
     \<Rightarrow> response \<times> 'h server" where
  "add_bastion_req sv tn peer dto st =
     simple_mutation sv tn peer ''add_bastion'' (bi_name dto)
       (add_bastion \<lparr>ba_name = bi_name dto, ba_host = bi_host dto, ba_port = bi_port dto,
          ba_ssh_user = bi_ssh_user dto, ba_auth = bi_auth dto, ba_fingerprint = bi_fingerprint dto\<rparr>) st"

definition rm_bastion_req ::
  "('w, 'h) server_env \<Rightarrow> 'w turn \<Rightarrow> peer_identity \<Rightarrow> name \<Rightarrow> 'h server \<Rightarrow> response \<times> 'h server" where
  "rm_bastion_req sv tn peer nm st =
     (let (resp, st') = simple_mutation sv tn peer ''rm_bastion'' nm (rm_bastion nm) st
      in (resp, if resp = ROk then st'\<lparr>sv_daemon := evict_bastion nm (sv_daemon st')\<rparr> else st'))"

text \<open>The loop of a re-pin: every live environment behind the bastion is rebuilt, and stopped when that
  fails; the names of the stopped ones with their errors.\<close>

fun repin_each ::
  "('w, 'h) server_env \<Rightarrow> config \<Rightarrow> name list \<Rightarrow> 'h daemon \<Rightarrow> 'w \<Rightarrow> string list \<times> 'h daemon \<times> 'w" where
  "repin_each sv cfg [] dm w = ([], dm, w)"
| "repin_each sv cfg (nm # rest) dm w =
     (case bt_get (envs cfg) nm of
        None \<Rightarrow> repin_each sv cfg rest dm w
      | Some e \<Rightarrow>
          if \<not> has_env dm nm then repin_each sv cfg rest dm w
          else (case apply_rebuild_backend (sv_net sv) cfg e nm dm w of
             (Inr _, dm', w') \<Rightarrow> repin_each sv cfg rest dm' w'
           | (Inl err, dm', w') \<Rightarrow>
               (case repin_each sv cfg rest (apply_rm_env nm dm') w' of
                  (stopped, dm'', w'') \<Rightarrow>
                    ((nm @ '': '' @ sv_daemon_text sv err) # stopped, dm'', w''))))"

definition envs_behind :: "config \<Rightarrow> name \<Rightarrow> name list" where
  "envs_behind cfg bn = map fst (filter (\<lambda>(n, e). env_bastion e = Some bn) (bt_entries (envs cfg)))"

definition set_fingerprint_req ::
  "('w, 'h) server_env \<Rightarrow> 'w turn \<Rightarrow> peer_identity \<Rightarrow> name \<Rightarrow> host_key_fingerprint \<Rightarrow> 'h server
     \<Rightarrow> response \<times> 'h server" where
  "set_fingerprint_req sv tn peer bn fp st =
     (case persist sv tn (\<lambda>c. unit_result (set_fingerprint bn fp c)) st of
        (Inl e, st1) \<Rightarrow> fail_msg tn peer ''set_fingerprint'' bn (sv_state_text sv e) st1
      | (Inr _, st1) \<Rightarrow>
          (let st2 = st1\<lparr>sv_daemon := evict_bastion bn (sv_daemon st1)\<rparr>
           in case reload sv tn st2 of
                Inl e \<Rightarrow> fail_msg tn peer ''set_fingerprint'' bn (sv_state_text sv e) st2
              | Inr cfg \<Rightarrow>
                  (case repin_each sv cfg (envs_behind cfg bn) (sv_daemon st2) (tn_world tn) of
                     (stopped, dm, _) \<Rightarrow>
                       (let st3 = st2\<lparr>sv_daemon := dm\<rparr>
                        in if stopped \<noteq> [] then stopped_after_failed_repin tn peer bn stopped st3
                           else allow tn peer ''set_fingerprint'' bn ROk st3))))"

section \<open>Credentials\<close>

text \<open>The loop of a rotation ends at the first environment that cannot be rebuilt.\<close>

fun rebuild_each ::
  "('w, 'h) server_env \<Rightarrow> config \<Rightarrow> name list \<Rightarrow> 'h daemon \<Rightarrow> 'w
     \<Rightarrow> (name \<times> daemon_error) option \<times> 'h daemon \<times> 'w" where
  "rebuild_each sv cfg [] dm w = (None, dm, w)"
| "rebuild_each sv cfg (nm # rest) dm w =
     (case bt_get (envs cfg) nm of
        None \<Rightarrow> rebuild_each sv cfg rest dm w
      | Some e \<Rightarrow>
          (case apply_rebuild_backend (sv_net sv) cfg e nm dm w of
             (Inl err, dm', w') \<Rightarrow> (Some (nm, err), dm', w')
           | (Inr _, dm', w') \<Rightarrow> rebuild_each sv cfg rest dm' w'))"

definition envs_using :: "config \<Rightarrow> name \<Rightarrow> name list" where
  "envs_using cfg cn = map fst (filter (\<lambda>(n, e). env_credential e = cn) (bt_entries (envs cfg)))"

definition rotate_cred_req ::
  "('w, 'h) server_env \<Rightarrow> 'w turn \<Rightarrow> peer_identity \<Rightarrow> name \<Rightarrow> string \<Rightarrow> 'h server
     \<Rightarrow> response \<times> 'h server" where
  "rotate_cred_req sv tn peer nm password st =
     (case persist sv tn (\<lambda>c. unit_result (rotate_cred nm password c)) st of
        (Inl e, st1) \<Rightarrow> fail_msg tn peer ''rotate_cred'' nm (sv_state_text sv e) st1
      | (Inr _, st1) \<Rightarrow>
     (case reload sv tn st1 of
        Inl e \<Rightarrow> fail_msg tn peer ''rotate_cred'' nm (sv_state_text sv e) st1
      | Inr cfg \<Rightarrow>
     (case rebuild_each sv cfg (envs_using cfg nm) (sv_daemon st1) (tn_world tn) of
        (Some (env_name, err), dm, _) \<Rightarrow>
          persisted_but_apply_failed tn peer ''rotate_cred'' nm env_name (sv_daemon_text sv err)
            (st1\<lparr>sv_daemon := dm\<rparr>)
      | (None, dm, _) \<Rightarrow> allow tn peer ''rotate_cred'' nm ROk (st1\<lparr>sv_daemon := dm\<rparr>))))"

section \<open>Environments and tokens\<close>

definition env_add_args_of :: "env_input_dto \<Rightarrow> env_add_args" where
  "env_add_args_of dto =
     \<lparr>ea_name = ei_name dto, ea_backend_host = ei_backend_host dto,
      ea_backend_port = (case ei_backend_port dto of Some p \<Rightarrow> p | None \<Rightarrow> default_port (ei_engine dto)),
      ea_default_database = ei_database dto, ea_bastion = ei_bastion dto,
      ea_credential = ei_credential dto, ea_policy = ei_policy dto,
      ea_listen_port = ei_listen_port dto, ea_max_pool = ei_max_pool dto, ea_engine = ei_engine dto\<rparr>"

definition add_env_req ::
  "('w, 'h) server_env \<Rightarrow> 'w turn \<Rightarrow> peer_identity \<Rightarrow> env_input_dto \<Rightarrow> 'h server
     \<Rightarrow> response \<times> 'h server" where
  "add_env_req sv tn peer dto st =
     (case persist sv tn (add_env (sv_sha1 sv) (sv_sha256 sv) (tn_raw tn) (env_add_args_of dto)) st of
        (Inl e, st1) \<Rightarrow> fail_msg tn peer ''add_env'' (ei_name dto) (sv_state_text sv e) st1
      | (Inr out, st1) \<Rightarrow>
     (case reload sv tn st1 of
        Inl e \<Rightarrow> fail_msg tn peer ''add_env'' (ei_name dto) (sv_state_text sv e) st1
      | Inr cfg \<Rightarrow>
     (case bt_get (envs cfg) (ei_name dto) of
        None \<Rightarrow> fail_msg tn peer ''add_env'' (ei_name dto) ''env vanished after save'' st1
      | Some e \<Rightarrow>
     (case apply_add_env (sv_net sv) cfg e (ei_name dto) (sv_daemon st1) (tn_world tn) of
        (Inl err, dm, _) \<Rightarrow>
          token_but_not_live tn peer ''add_env'' (ei_name dto) out (sv_daemon_text sv err)
            (st1\<lparr>sv_daemon := dm\<rparr>)
      | (Inr _, dm, _) \<Rightarrow>
          allow tn peer ''add_env'' (ei_name dto) (RToken (new_env_dto out)) (st1\<lparr>sv_daemon := dm\<rparr>)))))"

definition rm_env_req ::
  "('w, 'h) server_env \<Rightarrow> 'w turn \<Rightarrow> peer_identity \<Rightarrow> name \<Rightarrow> 'h server \<Rightarrow> response \<times> 'h server" where
  "rm_env_req sv tn peer nm st =
     (case persist sv tn (\<lambda>c. unit_result (rm_env nm c)) st of
        (Inl e, st1) \<Rightarrow> fail_msg tn peer ''rm_env'' nm (sv_state_text sv e) st1
      | (Inr _, st1) \<Rightarrow>
          allow tn peer ''rm_env'' nm ROk (st1\<lparr>sv_daemon := apply_rm_env nm (sv_daemon st1)\<rparr>))"

definition grant_req ::
  "('w, 'h) server_env \<Rightarrow> 'w turn \<Rightarrow> peer_identity \<Rightarrow> name \<Rightarrow> 'h server \<Rightarrow> response \<times> 'h server" where
  "grant_req sv tn peer nm st =
     (case persist sv tn (grant_env (sv_sha1 sv) (sv_sha256 sv) (tn_raw tn) nm) st of
        (Inl e, st1) \<Rightarrow> fail_msg tn peer ''grant'' nm (sv_state_text sv e) st1
      | (Inr out, st1) \<Rightarrow>
     (case reload sv tn st1 of
        Inl e \<Rightarrow> fail_msg tn peer ''grant'' nm (sv_state_text sv e) st1
      | Inr cfg \<Rightarrow>
     (case bt_get (envs cfg) nm of
        None \<Rightarrow> fail_msg tn peer ''grant'' nm ''env vanished after save'' st1
      | Some e \<Rightarrow>
     (case apply_swap_authz nm (client_auth e) (sv_daemon st1) of
        (Inl err, dm) \<Rightarrow>
          token_but_not_live tn peer ''grant'' nm out (sv_daemon_text sv err) (st1\<lparr>sv_daemon := dm\<rparr>)
      | (Inr _, dm) \<Rightarrow>
          allow tn peer ''grant'' nm (RToken (new_env_dto out)) (st1\<lparr>sv_daemon := dm\<rparr>)))))"

definition RW_REASON :: string where
  "RW_REASON = ''switching an env to read-write requires explicit confirmation''"

definition set_policy_req ::
  "('w, 'h) server_env \<Rightarrow> 'w turn \<Rightarrow> peer_identity \<Rightarrow> name \<Rightarrow> policy_target \<Rightarrow> bool \<Rightarrow> 'h server
     \<Rightarrow> response \<times> 'h server" where
  "set_policy_req sv tn peer nm target confirm_unsafe st =
     (if target = TargetReadWrite \<and> \<not> confirm_unsafe
      then (RDenied RW_REASON,
            emit (admin_event_of tn peer ''set_policy'' nm AuditDeny (Some RW_REASON)) st)
      else
     (case persist sv tn (\<lambda>c. unit_result (set_policy nm target c)) st of
        (Inl e, st1) \<Rightarrow> fail_msg tn peer ''set_policy'' nm (sv_state_text sv e) st1
      | (Inr _, st1) \<Rightarrow>
     (case reload sv tn st1 of
        Inl e \<Rightarrow> fail_msg tn peer ''set_policy'' nm (sv_state_text sv e) st1
      | Inr cfg \<Rightarrow>
     (case bt_get (envs cfg) nm of
        None \<Rightarrow> fail_msg tn peer ''set_policy'' nm ''env vanished after save'' st1
      | Some e \<Rightarrow>
     (case apply_swap_policy nm (env_policy e) (sv_daemon st1) of
        (Inl err, dm) \<Rightarrow>
          persisted_but_apply_failed tn peer ''set_policy'' nm nm (sv_daemon_text sv err)
            (st1\<lparr>sv_daemon := dm\<rparr>)
      | (Inr _, dm) \<Rightarrow> allow tn peer ''set_policy'' nm ROk (st1\<lparr>sv_daemon := dm\<rparr>))))))"

text \<open>The loop of an import ends at the first environment that does not come up.\<close>

fun add_each ::
  "('w, 'h) server_env \<Rightarrow> config \<Rightarrow> name list \<Rightarrow> 'h daemon \<Rightarrow> 'w
     \<Rightarrow> (name \<times> daemon_error) option \<times> 'h daemon \<times> 'w" where
  "add_each sv cfg [] dm w = (None, dm, w)"
| "add_each sv cfg (nm # rest) dm w =
     (case bt_get (envs cfg) nm of
        None \<Rightarrow> add_each sv cfg rest dm w
      | Some e \<Rightarrow>
          (case apply_add_env (sv_net sv) cfg e nm dm w of
             (Inl err, dm', w') \<Rightarrow> (Some (nm, err), dm', w')
           | (Inr _, dm', w') \<Rightarrow> add_each sv cfg rest dm' w'))"

definition import_req ::
  "('w, 'h) server_env \<Rightarrow> 'w turn \<Rightarrow> peer_identity \<Rightarrow> config \<Rightarrow> 'h server \<Rightarrow> response \<times> 'h server" where
  "import_req sv tn peer fragment st =
     (let new_envs = bt_keys (envs fragment); target = join_with '','' new_envs
      in case persist sv tn (\<lambda>c. unit_result (merge_import c fragment)) st of
        (Inl e, st1) \<Rightarrow> fail_msg tn peer ''import'' target (sv_state_text sv e) st1
      | (Inr _, st1) \<Rightarrow>
     (case reload sv tn st1 of
        Inl e \<Rightarrow> fail_msg tn peer ''import'' target (sv_state_text sv e) st1
      | Inr cfg \<Rightarrow>
     (case add_each sv cfg new_envs (sv_daemon st1) (tn_world tn) of
        (Some (env_name, err), dm, _) \<Rightarrow>
          persisted_but_apply_failed tn peer ''import'' target env_name (sv_daemon_text sv err)
            (st1\<lparr>sv_daemon := dm\<rparr>)
      | (None, dm, _) \<Rightarrow> allow tn peer ''import'' target ROk (st1\<lparr>sv_daemon := dm\<rparr>))))"

section \<open>Reads\<close>

definition TAB :: string where "TAB = [CHR 0x09]"

fun engine_label :: "engine_kind \<Rightarrow> string" where
  "engine_label MySql = ''mysql''"
| "engine_label Postgres = ''postgres''"
| "engine_label MsSql = ''mssql''"

fun policy_label :: "policy \<Rightarrow> string" where
  "policy_label ReadOnly = ''read-only''"
| "policy_label ReadWrite = ''read-write''"
| "policy_label (Custom _ _ _) = ''custom''"

definition bastion_row :: "name \<times> bastion \<Rightarrow> string" where
  "bastion_row = (\<lambda>(nm, b).
     nm @ TAB @ ssh_user b @ ''@'' @ host b @ '':'' @ show_nat (unat (port b)) @ TAB @
     (case auth b of PasswordAuth _ \<Rightarrow> ''password'' | KeyAuth _ _ \<Rightarrow> ''key'') @ TAB @
     ''pinned='' @ show_nat (length (pinned_host_keys b)))"

definition cred_row :: "name \<times> credential \<Rightarrow> string" where
  "cred_row = (\<lambda>(nm, c). nm @ TAB @ backend_user c)"

definition env_row :: "name \<times> env \<Rightarrow> string" where
  "env_row = (\<lambda>(nm, e).
     nm @ TAB @ backend_host e @ '':'' @ show_nat (unat (backend_port e)) @ TAB @
     engine_label (engine e) @ TAB @ policy_label (env_policy e) @ TAB @
     ''bastion='' @ (case env_bastion e of Some b \<Rightarrow> b | None \<Rightarrow> ''-'') @ TAB @
     ''cred='' @ env_credential e @ TAB @ ''port='' @ show_nat (unat (listen_port e)))"

definition list_rows ::
  "('w, 'h) server_env \<Rightarrow> 'w turn \<Rightarrow> peer_identity \<Rightarrow> string \<Rightarrow> (config \<Rightarrow> string list) \<Rightarrow> 'h server
     \<Rightarrow> response \<times> 'h server" where
  "list_rows sv tn peer action rows st =
     (case reload sv tn st of
        Inl e \<Rightarrow> fail_msg tn peer action [] (sv_state_text sv e) st
      | Inr cfg \<Rightarrow> allow tn peer action [] (RRows (rows cfg)) st)"

definition list_bastions ::
  "('w, 'h) server_env \<Rightarrow> 'w turn \<Rightarrow> peer_identity \<Rightarrow> 'h server \<Rightarrow> response \<times> 'h server" where
  "list_bastions sv tn peer st =
     list_rows sv tn peer ''list_bastions'' (\<lambda>c. map bastion_row (bt_entries (bastions c))) st"

definition list_creds ::
  "('w, 'h) server_env \<Rightarrow> 'w turn \<Rightarrow> peer_identity \<Rightarrow> 'h server \<Rightarrow> response \<times> 'h server" where
  "list_creds sv tn peer st =
     list_rows sv tn peer ''list_creds'' (\<lambda>c. map cred_row (bt_entries (credentials c))) st"

definition list_envs ::
  "('w, 'h) server_env \<Rightarrow> 'w turn \<Rightarrow> peer_identity \<Rightarrow> 'h server \<Rightarrow> response \<times> 'h server" where
  "list_envs sv tn peer st =
     list_rows sv tn peer ''list_envs'' (\<lambda>c. map env_row (bt_entries (envs c))) st"

definition tail_lines :: "nat \<Rightarrow> string \<Rightarrow> string list" where
  "tail_lines n body =
     (let ls = filter (\<lambda>l. l \<noteq> []) (text_lines body) in drop (length ls - n) ls)"

definition audit_tail ::
  "'w turn \<Rightarrow> peer_identity \<Rightarrow> nat \<Rightarrow> 'h server \<Rightarrow> response \<times> 'h server" where
  "audit_tail tn peer n st =
     (let target = ''n='' @ show_nat n
      in case tn_audit_dir tn of
           AuditDirAbsent \<Rightarrow> (RAuditLines [], st)
         | AuditDirFailed e \<Rightarrow> fail_msg tn peer ''audit_tail'' target (''read audit dir: '' @ e) st
         | AuditDir entries \<Rightarrow>
             (let logs = sort_key fst (filter (\<lambda>(f, _). starts_with ''audit.jsonl'' f) entries)
              in if logs = [] then (RAuditLines [], st)
                 else (case snd (last logs) of
                         Inl e \<Rightarrow> fail_msg tn peer ''audit_tail'' target (''read audit file: '' @ e) st
                       | Inr body \<Rightarrow> (RAuditLines (tail_lines n body), st))))"

definition probe_dto :: "probe_result \<Rightarrow> probe_result_dto" where
  "probe_dto r =
     \<lparr>pr_env = pb_env r, pr_ok = pb_ok r, pr_supported = pb_supported r, pr_reason = pb_reason r\<rparr>"

definition probe_choice_of :: "name option \<Rightarrow> bool \<Rightarrow> probe_choice option" where
  "probe_choice_of env_name whole_set =
     (if whole_set then Some ProbeAll else map_option ProbeOne env_name)"

definition probe_req ::
  "('w, 'h) server_env \<Rightarrow> 'w turn \<Rightarrow> peer_identity \<Rightarrow> name option \<Rightarrow> bool \<Rightarrow> 'h server
     \<Rightarrow> response \<times> 'h server" where
  "probe_req sv tn peer env_name whole_set st =
     (case probe_choice_of env_name whole_set of
        None \<Rightarrow> fail_msg tn peer ''probe'' [] ''specify an env or set all=true'' st
      | Some which \<Rightarrow>
     (case reload sv tn st of
        Inl e \<Rightarrow> fail_msg tn peer ''probe'' [] (sv_state_text sv e) st
      | Inr cfg \<Rightarrow>
          (let target = (case which of ProbeAll \<Rightarrow> ''all'' | ProbeOne e \<Rightarrow> e);
               (results, _) = test_envs (sv_net sv) (sv_daemon_text sv) (sv_missing_text sv) cfg which
                 (allow_tofu (sv_daemon st)) (tn_world tn)
           in allow tn peer ''probe'' target (RProbeResults (map probe_dto results)) st)))"

section \<open>Dispatch\<close>

fun dispatch ::
  "('w, 'h) server_env \<Rightarrow> 'w turn \<Rightarrow> peer_identity \<Rightarrow> request \<Rightarrow> 'h server \<Rightarrow> response \<times> 'h server" where
  "dispatch sv tn peer (Hello v) st = (RError ''unexpected Hello after handshake'', st)"
| "dispatch sv tn peer (AddBastion dto) st = add_bastion_req sv tn peer dto st"
| "dispatch sv tn peer (RmBastion nm) st = rm_bastion_req sv tn peer nm st"
| "dispatch sv tn peer (SetFingerprint bn fp) st = set_fingerprint_req sv tn peer bn fp st"
| "dispatch sv tn peer (AddCred dto) st =
     simple_mutation sv tn peer ''add_cred'' (ci_name dto)
       (add_cred (ci_name dto) (ci_backend_user dto) (ci_password dto)) st"
| "dispatch sv tn peer (RotateCred nm password) st = rotate_cred_req sv tn peer nm password st"
| "dispatch sv tn peer (RmCred nm) st = simple_mutation sv tn peer ''rm_cred'' nm (rm_cred nm) st"
| "dispatch sv tn peer (AddEnv dto) st = add_env_req sv tn peer dto st"
| "dispatch sv tn peer (RmEnv nm) st = rm_env_req sv tn peer nm st"
| "dispatch sv tn peer (GrantEnv nm) st = grant_req sv tn peer nm st"
| "dispatch sv tn peer (SetPolicy nm target confirm) st = set_policy_req sv tn peer nm target confirm st"
| "dispatch sv tn peer (Import fragment) st = import_req sv tn peer fragment st"
| "dispatch sv tn peer ListBastions st = list_bastions sv tn peer st"
| "dispatch sv tn peer ListCreds st = list_creds sv tn peer st"
| "dispatch sv tn peer ListEnvs st = list_envs sv tn peer st"
| "dispatch sv tn peer (AuditTail n) st = audit_tail tn peer n st"
| "dispatch sv tn peer (Probe env_name whole_set) st = probe_req sv tn peer env_name whole_set st"

end
