(* ===== verification/Server_State.thy ===== *)
theory Server_State
  imports Handlers
begin

text \<open>
  What a control request can leave on disk: a mutation that reports success is what the next load
  reads, and one that fails leaves the old configuration or none that loads. The salt and the nonce of
  a turn do not matter to a load.
\<close>

section \<open>What a request leaves on disk\<close>

abbreviation loads :: "state_env \<Rightarrow> disk \<Rightarrow> config \<Rightarrow> bool" where
  "loads env d c \<equiv> load_config env d = (Inr c :: mutate_error state_error + config)"

lemma apply_op_vacates:
  "apply_op o' op fs = (ok, fs') \<Longrightarrow> p \<notin> touched op \<or> (\<exists>q. q \<noteq> p \<and> op = RenameFile p q) \<Longrightarrow>
   fs' p = fs p \<or> fs' p = None"
  by (cases o'; cases op) (auto split: option.splits)

lemma run_ops_vacates:
  "run_ops fault i ops fs = (r, fs') \<Longrightarrow>
   \<forall>op \<in> set ops. p \<notin> touched op \<or> (\<exists>q. q \<noteq> p \<and> op = RenameFile p q) \<Longrightarrow>
   fs' p = fs p \<or> fs' p = None"
proof (induction ops arbitrary: i fs)
  case (Cons op ops)
  obtain ok fs1 where a: "apply_op (fault i) op fs = (ok, fs1)" by fastforce
  have "fs1 p = fs p \<or> fs1 p = None" using apply_op_vacates [OF a] Cons.prems(2) by simp
  then show ?case using Cons a by (cases ok) fastforce+
qed simp

lemma failed_save_sealed:
  assumes "run_ops fault 0 (save_ops env blob fs) fs = (Inl e, fs')"
  shows "fs' (sealed_path env) = fs (sealed_path env) \<or> fs' (sealed_path env) = None"
proof -
  let ?pre = "(if fs (sealed_path env) \<noteq> None
      then [RemoveIgnored (backup_path env), RenameFile (sealed_path env) (backup_path env)]
      else []) @ write_tmp_ops env blob"
  let ?mv = "RenameFile (tmp_path env) (sealed_path env)"
  have ops: "save_ops env blob fs = ?pre @ [?mv]"
    by (simp add: save_ops_def write_atomic_split)
  obtain r fs1 where r: "run_ops fault 0 ?pre fs = (r, fs1)" by fastforce
  have pre: "fs1 (sealed_path env) = fs (sealed_path env) \<or> fs1 (sealed_path env) = None"
    by (rule run_ops_vacates [OF r]) (auto simp: write_tmp_ops_def)
  show ?thesis
  proof (cases r)
    case (Inl e')
    then show ?thesis using assms r pre unfolding ops run_ops_append by simp
  next
    case (Inr u)
    then have "run_ops fault (0 + length ?pre) [?mv] fs1 = (Inl e, fs')"
      using assms r unfolding ops run_ops_append by simp
    then have "fs' = fs1"
      by (cases "fault (0 + length ?pre)") (auto split: option.splits)
    then show ?thesis using pre by simp
  qed
qed

lemma failed_save_cases:
  assumes "save_config env fault c d = (Inl e, d')"
  shows "d' = d \<or> (\<exists>blob io fs'.
    run_ops fault 0 (save_ops env blob (fs_files d)) (fs_files d) = (Inl io, fs') \<and>
    d' = d\<lparr>fs_files := fs'\<rparr>)"
proof (cases "\<exists>u key blob. validate c = Inr u \<and>
    keystore_load (se_hex env) (se_keystore env) d = Inr key \<and>
    seal (se_seal env) (se_salt env) (se_nonce env) c key [] = Inr blob")
  case True
  then obtain u key blob where k: "validate c = Inr u"
    "keystore_load (se_hex env) (se_keystore env) d = Inr key"
    "seal (se_seal env) (se_salt env) (se_nonce env) c key [] = Inr blob" by blast
  obtain r fs' where r: "run_ops fault 0 (save_ops env blob (fs_files d)) (fs_files d) = (r, fs')"
    by fastforce
  show ?thesis
    using assms k r by (cases r) (auto simp: save_config_def)
next
  case False
  then show ?thesis
    using assms by (cases "validate c"; cases "keystore_load (se_hex env) (se_keystore env) d")
      (auto simp: save_config_def split: sum.splits)
qed

lemma failed_save_load:
  assumes env: "keystore_elsewhere env"
    and fail: "save_config env fault c d = (Inl e, d')"
    and load: "loads env d' cfg"
  shows "loads env d cfg"
proof -
  consider "d' = d" | blob io fs' where
    "run_ops fault 0 (save_ops env blob (fs_files d)) (fs_files d) = (Inl io, fs')"
    "d' = d\<lparr>fs_files := fs'\<rparr>"
    using failed_save_cases [OF fail] by blast
  then show ?thesis
  proof cases
    case 1
    then show ?thesis using load by simp
  next
    case (2 blob io fs')
    have "fs' (sealed_path env) \<noteq> None"
      using load 2(2) by (auto simp: load_config_def split: option.splits)
    then have "fs' (sealed_path env) = fs_files d (sealed_path env)"
      using failed_save_sealed [OF 2(1)] by auto
    moreover have "fs' p = fs_files d p" if "p \<notin> {sealed_path env, backup_path env, tmp_path env}" for p
      using that by (intro run_ops_untouched [OF 2(1)])
        (auto simp: save_ops_def write_atomic_ops_def Let_def)
    then have "keystore_load (se_hex env) (se_keystore env) d' = keystore_load (se_hex env) (se_keystore env) d"
      unfolding 2(2) by (rule keystore_load_files [OF env])
    ultimately have "load_config env d' = (load_config env d :: mutate_error state_error + config)"
      using 2(2) by (cases "fs_files d (sealed_path env)") (simp_all add: load_config_def)
    then show ?thesis using load by simp
  qed
qed

lemma with_config_loads:
  fixes m :: "config \<Rightarrow> mutate_error + 'r \<times> config"
  assumes env: "state_env_ok env"
    and w: "with_config env fault m d = (r, d')"
  shows "(case r of
      Inl e \<Rightarrow> \<forall>c. loads env d' c \<longrightarrow> loads env d c
    | Inr out \<Rightarrow> \<exists>c c'. loads env d c \<and> m c = Inr (out, c') \<and> loads env d' c' \<and> wf_config c')"
proof (cases "load_config env d :: mutate_error state_error + config")
  case (Inl e)
  then show ?thesis using w by (auto simp: with_config_def)
next
  case c: (Inr c)
  show ?thesis
  proof (cases "m c")
    case (Inl e)
    then show ?thesis using w c by (auto simp: with_config_def)
  next
    case (Inr x)
    obtain out c' where x: "x = (out, c')" by (cases x)
    obtain q d1 where q: "(save_config env fault c' d :: (mutate_error state_error + unit) \<times> disk) = (q, d1)"
      by fastforce
    show ?thesis
    proof (cases q)
      case (Inl e)
      then show ?thesis
        using w c Inr x q failed_save_load [of env fault c' d e d1] env
        by (auto simp: with_config_def state_env_ok_def)
    next
      case (Inr u)
      then show ?thesis
        using w c \<open>m c = Inr x\<close> x q save_then_load [OF env q [unfolded Inr]]
          save_config_valid [OF q [unfolded Inr]]
        by (auto simp: with_config_def)
    qed
  qed
qed

text \<open>The salt and the nonce of a turn do not matter to a load.\<close>

lemma turn_env_paths [simp]:
  "sealed_path (turn_env sv tn) = sealed_path (sv_state sv)"
  "backup_path (turn_env sv tn) = backup_path (sv_state sv)"
  "tmp_path (turn_env sv tn) = tmp_path (sv_state sv)"
  by (simp_all add: sealed_path_def backup_path_def tmp_path_def turn_env_def)

lemma turn_env_fields [simp]:
  "se_hex (turn_env sv tn) = se_hex (sv_state sv)"
  "se_keystore (turn_env sv tn) = se_keystore (sv_state sv)"
  "se_seal (turn_env sv tn) = se_seal (sv_state sv)"
  by (simp_all add: turn_env_def)

lemma load_config_turn [simp]: "load_config (turn_env sv tn) d = load_config (sv_state sv) d"
  by (simp only: load_config_def turn_env_paths turn_env_fields)

definition turn_ok :: "'w turn \<Rightarrow> bool" where
  "turn_ok tn \<longleftrightarrow> length (tn_salt tn) = SALT_LEN \<and> length (tn_nonce tn) = NONCE_LEN"

lemma state_env_ok_turn: "state_env_ok (sv_state sv) \<Longrightarrow> turn_ok tn \<Longrightarrow> state_env_ok (turn_env sv tn)"
  by (simp add: state_env_ok_def turn_ok_def keystore_elsewhere_def)
    (simp add: turn_env_def)

lemma persist_cases:
  assumes "state_env_ok (sv_state sv)" and "turn_ok tn" and "persist sv tn m st = (r, st')"
  shows "sv_daemon st' = sv_daemon st \<and> sv_log st' = sv_log st \<and>
    (case r of
       Inl e \<Rightarrow> \<forall>c. loads (sv_state sv) (sv_disk st') c \<longrightarrow> loads (sv_state sv) (sv_disk st) c
     | Inr out \<Rightarrow> \<exists>c c'. loads (sv_state sv) (sv_disk st) c \<and> m c = Inr (out, c') \<and>
         loads (sv_state sv) (sv_disk st') c' \<and> wf_config c')"
proof -
  obtain d' where w: "with_config (turn_env sv tn) (tn_fault tn) m (sv_disk st) = (r, d')"
    and st': "st' = st\<lparr>sv_disk := d'\<rparr>"
    using assms(3) by (auto simp: persist_def split: prod.splits)
  show ?thesis
    using with_config_loads [OF state_env_ok_turn [OF assms(1,2)] w]
    unfolding load_config_turn by (cases r) (auto simp: st')
qed

end
