(* ===== verification/Server_Invariant.thy ===== *)
theory Server_Invariant
  imports Server_State
begin

text \<open>
  The invariant of the running server: the environments it serves are those of the sealed
  configuration, with the same policy, verifier, engine and port, and every tunnel goes through a
  session whose host key the configuration trusts. It speaks of a configuration that loads, since a
  failed save can leave none. The steps of the server are the control requests, connections that come
  and go, and the shutdown.
\<close>

section \<open>The daemon under a change of the configuration\<close>

lemma daemon_okI:
  assumes "\<And>nm hdl. live dm nm = Some hdl \<Longrightarrow> \<exists>e. bt_get (envs c) nm = Some e \<and> engine e \<noteq> MsSql \<and>
      runtime_matches (allow_tofu dm) (listen_host dm) c nm e (current hdl)"
    and "registry_ok (allow_tofu dm) (bastions c) (bastion_registry dm)"
  shows "daemon_ok c dm"
  using assms by (simp add: daemon_ok_def live_ok_def)

lemma daemon_ok_live:
  assumes "daemon_ok c dm" and "live dm nm = Some hdl"
  obtains e where "bt_get (envs c) nm = Some e" "engine e \<noteq> MsSql"
    "runtime_matches (allow_tofu dm) (listen_host dm) c nm e (current hdl)"
  using assms by (auto simp: daemon_ok_def live_ok_def)

lemma daemon_ok_registry:
  "daemon_ok c dm \<Longrightarrow> registry_ok (allow_tofu dm) (bastions c) (bastion_registry dm)"
  by (simp add: daemon_ok_def)

lemma tunnel_ok_bastion:
  "(\<And>bn. env_bastion e = Some bn \<Longrightarrow> bt_get (bastions c') bn = bt_get (bastions c) bn) \<Longrightarrow>
   tunnel_ok tofu c' e rt = tunnel_ok tofu c e rt"
  by (cases "env_bastion e") (simp_all add: tunnel_ok_def)

lemma daemon_ok_mono:
  assumes "daemon_ok c dm"
    and "\<And>nm b. bt_get (bastions c) nm = Some b \<Longrightarrow> bt_get (bastions c') nm = Some b"
    and "\<And>nm e. bt_get (envs c) nm = Some e \<Longrightarrow> bt_get (envs c') nm = Some e"
  shows "daemon_ok c' dm"
proof -
  have t: "tunnel_ok tofu c' e rt" if "tunnel_ok tofu c e rt" for tofu e and rt :: "'a env_runtime"
    using that assms(2) by (cases "env_bastion e") (auto simp: tunnel_ok_def Let_def)
  show ?thesis
  proof (rule daemon_okI)
    fix nm hdl assume l: "live dm nm = Some hdl"
    obtain e where "bt_get (envs c) nm = Some e" "engine e \<noteq> MsSql"
      "runtime_matches (allow_tofu dm) (listen_host dm) c nm e (current hdl)"
      using daemon_ok_live [OF assms(1) l] by blast
    then show "\<exists>e. bt_get (envs c') nm = Some e \<and> engine e \<noteq> MsSql \<and>
        runtime_matches (allow_tofu dm) (listen_host dm) c' nm e (current hdl)"
      using assms(3) t by (auto simp: runtime_matches_def)
  next
    show "registry_ok (allow_tofu dm) (bastions c') (bastion_registry dm)"
      using daemon_ok_registry [OF assms(1)] assms(2) unfolding registry_ok_def by meson
  qed
qed

lemma daemon_ok_same:
  "daemon_ok c dm \<Longrightarrow> bastions c' = bastions c \<Longrightarrow> envs c' = envs c \<Longrightarrow> daemon_ok c' dm"
  by (rule daemon_ok_mono) simp_all

lemma add_bastion_daemon: "daemon_ok c dm \<Longrightarrow> add_bastion args c = Inr c' \<Longrightarrow> daemon_ok c' dm"
  by (erule daemon_ok_mono) (auto simp: add_bastion_def bt_contains_def split: if_splits)

lemma add_cred_daemon: "daemon_ok c dm \<Longrightarrow> add_cred nm u p c = Inr c' \<Longrightarrow> daemon_ok c' dm"
  by (erule daemon_ok_same) (auto simp: add_cred_def split: if_splits)

lemma rotate_cred_daemon: "daemon_ok c dm \<Longrightarrow> rotate_cred nm p c = Inr c' \<Longrightarrow> daemon_ok c' dm"
  by (erule daemon_ok_same) (auto simp: rotate_cred_def split: option.splits)

lemma rm_cred_daemon: "daemon_ok c dm \<Longrightarrow> rm_cred nm c = Inr c' \<Longrightarrow> daemon_ok c' dm"
  by (erule daemon_ok_same) (auto simp: rm_cred_def Let_def split: if_splits)

lemma add_env_daemon:
  assumes "daemon_ok c dm" and "add_env sha1 sha256 raw args c = Inr (out, c')"
  shows "daemon_ok c' dm \<and> live dm (ea_name args) = None"
proof -
  obtain p where new: "\<not> bt_contains (envs c) (ea_name args)" and
    c': "c' = c\<lparr>envs := bt_insert (ea_name args) (new_env sha1 sha256 args p (generate_token raw)) (envs c)\<rparr>"
    using assms(2) by (rule add_env_cases) blast
  have "daemon_ok c' dm"
    using assms(1) by (rule daemon_ok_mono) (use c' new in \<open>auto simp: bt_contains_def\<close>)
  moreover have "live dm (ea_name args) = None"
  proof (cases "live dm (ea_name args)")
    case (Some hdl)
    then show ?thesis using daemon_ok_live [OF assms(1) Some] new by (auto simp: bt_contains_def)
  qed
  ultimately show ?thesis by simp
qed

lemma merge_import_daemon:
  assumes "daemon_ok c dm" and "merge_import c f = Inr c'"
  shows "daemon_ok c' dm \<and> (\<forall>nm. bt_contains (envs f) nm \<longrightarrow> live dm nm = None)"
proof -
  have dis: "\<And>n. \<not> (bt_contains (bastions c) n \<and> bt_contains (bastions f) n)"
    "\<And>n. \<not> (bt_contains (envs c) n \<and> bt_contains (envs f) n)"
    using assms(2) merge_import_ok_iff [of c f] by auto
  note r = merge_import_result [OF assms(2)]
  have "daemon_ok c' dm"
    using assms(1) by (rule daemon_ok_mono)
      (simp_all add: r bt_get_extend_disjoint [OF dis(1)] bt_get_extend_disjoint [OF dis(2)])
  moreover have "live dm nm = None" if "bt_contains (envs f) nm" for nm
  proof (rule ccontr)
    assume "live dm nm \<noteq> None"
    then have "bt_contains (envs c) nm" using assms(1)
      by (auto simp: daemon_ok_def live_ok_def bt_contains_def)
    then show False using dis(2) that by blast
  qed
  ultimately show ?thesis by blast
qed

lemma registry_ok_drop:
  assumes "registry_ok tofu bs reg" and "\<And>nm'. nm' \<noteq> nm \<Longrightarrow> bt_get bs' nm' = bt_get bs nm'"
  shows "registry_ok tofu bs' (snd (evict nm reg))"
  unfolding registry_ok_def
proof (intro allI impI)
  fix nm' slot assume "snd (evict nm reg) nm' = Some slot"
  then have "nm' \<noteq> nm" "reg nm' = Some slot" by (auto simp: evict_def split: if_splits)
  then show "\<exists>b. bt_get bs' nm' = Some b \<and> (\<forall>s. slot = Some s \<longrightarrow> trusted tofu b s)"
    using assms by (auto simp: registry_ok_def)
qed

lemma rm_bastion_daemon:
  assumes "daemon_ok c dm" and "rm_bastion nm c = Inr c'"
  shows "daemon_ok c' (evict_bastion nm dm)"
proof -
  have c': "c' = c\<lparr>bastions := bt_remove nm (bastions c)\<rparr>"
    and unused: "\<And>n e. bt_get (envs c) n = Some e \<Longrightarrow> env_bastion e \<noteq> Some nm"
    using assms(2) by (auto simp: rm_bastion_def Let_def bt.filter_entries_Nil split: if_splits)
  have "runtime_matches tofu lhost c' n e rt"
    if "bt_get (envs c) n = Some e" "runtime_matches tofu lhost c n e rt"
    for tofu lhost n e and rt :: "'a env_runtime"
  proof -
    have "tunnel_ok tofu c' e rt = tunnel_ok tofu c e rt"
      using unused [OF that(1)] c' by (intro tunnel_ok_bastion) auto
    then show ?thesis using that(2) by (simp add: runtime_matches_def)
  qed
  moreover have "registry_ok (allow_tofu dm) (bastions c') (snd (evict nm (bastion_registry dm)))"
    using assms(1) c' by (intro registry_ok_drop [where bs = "bastions c"]) (auto simp: daemon_ok_def)
  ultimately show ?thesis
    using c' by (intro daemon_okI) (auto simp: evict_bastion_def elim!: daemon_ok_live [OF assms(1)])
qed

lemma rm_env_daemon:
  assumes "daemon_ok c dm" and "rm_env nm c = Inr c'"
  shows "daemon_ok c' (apply_rm_env nm dm)"
proof -
  have c': "c' = c\<lparr>envs := bt_remove nm (envs c)\<rparr>"
    using assms(2) by (auto simp: rm_env_def split: if_splits)
  have "runtime_matches tofu lhost c' n e rt = runtime_matches tofu lhost c n e rt"
    for tofu lhost n e and rt :: "'a env_runtime"
    using c' by (cases "env_bastion e") (simp_all add: runtime_matches_def tunnel_ok_def)
  then show ?thesis
    using daemon_ok_registry [OF assms(1)] c'
    by (intro daemon_okI) (auto simp: apply_rm_env_def split: if_splits elim!: daemon_ok_live [OF assms(1)])
qed

text \<open>A change of one entry that the live runtime follows.\<close>

lemma replace_env_daemon:
  assumes ok: "daemon_ok c dm" and c': "c' = c\<lparr>envs := bt_insert nm e' (envs c)\<rparr>"
    and old: "bt_get (envs c) nm = Some e"
    and same: "env_bastion e' = env_bastion e" "engine e' = engine e" "listen_port e' = listen_port e"
      "backend_host e' = backend_host e" "backend_port e' = backend_port e"
    and f: "\<And>rt. rt_policy rt = env_policy e \<Longrightarrow> rt_client_auth rt = client_auth e \<Longrightarrow>
        rt_policy (f rt) = env_policy e' \<and> rt_client_auth (f rt) = client_auth e'"
      "\<And>rt. rt_name (f rt) = rt_name rt \<and> rt_engine (f rt) = rt_engine rt \<and>
        rt_listen_addr (f rt) = rt_listen_addr rt \<and> rt_backend (f rt) = rt_backend rt \<and>
        rt_forwards (f rt) = rt_forwards rt"
  shows "daemon_ok c' (snd (swap_runtime nm f dm))"
proof -
  have t: "tunnel_ok tofu c' e' (f rt) = tunnel_ok tofu c e rt" "tunnel_ok tofu c' e0 rt = tunnel_ok tofu c e0 rt"
    for tofu e0 and rt :: "'a env_runtime"
    using f(2) [of rt] same c'
    by (cases "env_bastion e"; cases "env_bastion e0"; simp add: tunnel_ok_def Let_def)+
  have self: "runtime_matches tofu lhost c' nm e' (f rt)" if "runtime_matches tofu lhost c nm e rt"
    for tofu lhost rt
    using that f(1) [of rt] f(2) [of rt] same t by (auto simp: runtime_matches_def)
  have other: "runtime_matches tofu lhost c' n e0 rt = runtime_matches tofu lhost c n e0 rt"
    for tofu lhost n e0 and rt :: "'a env_runtime"
    using t by (simp add: runtime_matches_def)
  show ?thesis
  proof (cases "live dm nm")
    case None
    have "\<exists>e. bt_get (envs c') n = Some e \<and> engine e \<noteq> MsSql \<and>
        runtime_matches (allow_tofu dm) (listen_host dm) c' n e (current hdl)"
      if l: "live dm n = Some hdl" for n hdl
    proof -
      obtain e1 where "bt_get (envs c) n = Some e1" "engine e1 \<noteq> MsSql"
        "runtime_matches (allow_tofu dm) (listen_host dm) c n e1 (current hdl)"
        using daemon_ok_live [OF ok l] by blast
      moreover have "n \<noteq> nm" using l None by auto
      ultimately show ?thesis using c' other by auto
    qed
    then show ?thesis
      using daemon_ok_registry [OF ok] None c'
      by (intro daemon_okI) (simp_all add: swap_runtime_def)
  next
    case (Some hdl)
    then have "runtime_matches (allow_tofu dm) (listen_host dm) c nm e (current hdl)" "engine e \<noteq> MsSql"
      using old by (auto elim: daemon_ok_live [OF ok])
    then show ?thesis
      using daemon_ok_registry [OF ok] Some c' other self same
      by (intro daemon_okI) (auto simp: swap_runtime_def publish_def split: if_splits
          elim!: daemon_ok_live [OF ok])
  qed
qed

lemma grant_daemon:
  assumes ok: "daemon_ok c dm" and g: "grant_env sha1 sha256 raw nm c = Inr (out, c')"
    and e: "bt_get (envs c') nm = Some e"
  shows "daemon_ok c' (snd (apply_swap_authz nm (client_auth e) dm))"
proof -
  obtain e0 where e0: "bt_get (envs c) nm = Some e0"
    "c' = c\<lparr>envs := bt_insert nm (e0\<lparr>client_auth := client_auth_for sha1 sha256 (engine e0)
       (generate_token raw)\<rparr>) (envs c)\<rparr>"
    using g by (auto simp: grant_env_def Let_def split: option.splits)
  show ?thesis
    unfolding apply_swap_authz_def
    by (rule replace_env_daemon [OF ok e0(2,1)]) (use e e0(2) in auto)
qed

lemma set_policy_daemon:
  assumes ok: "daemon_ok c dm" and g: "set_policy nm t c = Inr c'"
    and e: "bt_get (envs c') nm = Some e"
  shows "daemon_ok c' (snd (apply_swap_policy nm (env_policy e) dm))"
proof -
  obtain e0 where e0: "bt_get (envs c) nm = Some e0"
    "c' = c\<lparr>envs := bt_insert nm (e0\<lparr>env_policy := target_policy t\<rparr>) (envs c)\<rparr>"
    using g by (auto simp: set_policy_def split: option.splits)
  show ?thesis
    unfolding apply_swap_policy_def
    by (rule replace_env_daemon [OF ok e0(2,1)]) (use e e0(2) in auto)
qed

section \<open>Connections in flight\<close>

text \<open>Every environment still live keeps the snapshots its connections hold; a new one has none.\<close>

definition flight_kept :: "'h env_registry \<Rightarrow> 'h env_registry \<Rightarrow> bool" where
  "flight_kept tab tab' \<longleftrightarrow>
     (\<forall>nm hdl'. tab' nm = Some hdl' \<longrightarrow>
        (case tab nm of Some hdl \<Rightarrow> in_flight hdl' = in_flight hdl | None \<Rightarrow> in_flight hdl' = []))"

text \<open>The same with no new environment.\<close>

definition flight_sub :: "'h env_registry \<Rightarrow> 'h env_registry \<Rightarrow> bool" where
  "flight_sub tab tab' \<longleftrightarrow>
     (\<forall>nm hdl'. tab' nm = Some hdl' \<longrightarrow> (\<exists>hdl. tab nm = Some hdl \<and> in_flight hdl' = in_flight hdl))"

lemma flight_sub_refl [simp]: "flight_sub tab tab"
  by (simp add: flight_sub_def)

lemma flight_sub_trans: "flight_sub a b \<Longrightarrow> flight_sub b c \<Longrightarrow> flight_sub a c"
  unfolding flight_sub_def by metis

lemma flight_sub_kept: "flight_sub tab tab' \<Longrightarrow> flight_kept tab tab'"
  unfolding flight_sub_def flight_kept_def by fastforce

lemma flight_kept_refl [simp]: "flight_kept tab tab"
  by (simp add: flight_sub_kept)

lemma apply_rm_env_flight: "flight_sub (live dm) (live (apply_rm_env nm dm))"
  by (simp add: flight_sub_def apply_rm_env_def)

lemma swap_runtime_flight: "flight_sub (live dm) (live (snd (swap_runtime nm f dm)))"
  by (auto simp: flight_sub_def swap_runtime_def publish_def split: option.splits)

lemma evict_bastion_live [simp]:
  "live (evict_bastion nm dm) = live dm" "allow_tofu (evict_bastion nm dm) = allow_tofu dm"
  "listen_host (evict_bastion nm dm) = listen_host dm"
  by (simp_all add: evict_bastion_def)

lemma apply_rm_env_fields [simp]:
  "live (apply_rm_env nm dm) = (live dm)(nm := None)"
  "allow_tofu (apply_rm_env nm dm) = allow_tofu dm" "listen_host (apply_rm_env nm dm) = listen_host dm"
  "bastion_registry (apply_rm_env nm dm) = bastion_registry dm"
  by (simp_all add: apply_rm_env_def)

lemma swap_runtime_fields [simp]:
  "allow_tofu (snd (swap_runtime nm f dm)) = allow_tofu dm"
  "listen_host (snd (swap_runtime nm f dm)) = listen_host dm"
  by (simp_all add: swap_runtime_def publish_def split: option.splits)

section \<open>Rebuilding and adding\<close>

text \<open>What a rebuild does, whatever the rest of the table looks like.\<close>

lemma apply_rebuild_backend_cases:
  assumes reg: "registry_ok (allow_tofu dm) (bastions c) (bastion_registry dm)"
    and a: "apply_rebuild_backend net c e nm dm w = (r, dm', w')"
  shows "allow_tofu dm' = allow_tofu dm \<and> listen_host dm' = listen_host dm \<and>
    registry_ok (allow_tofu dm) (bastions c) (bastion_registry dm') \<and>
    flight_sub (live dm) (live dm') \<and>
    (case r of
       Inl err \<Rightarrow> live dm' = live dm
     | Inr _ \<Rightarrow> \<exists>hdl rt. live dm' = (live dm)(nm \<mapsto> hdl\<lparr>current := rt\<rparr>) \<and> engine e \<noteq> MsSql \<and>
         runtime_matches (allow_tofu dm) (listen_host dm) c nm e rt)"
proof -
  obtain q reg' w1 where q: "build_env_runtime net (listen_host dm) (allow_tofu dm) nm e c
      (bastion_registry dm) w = (q, reg', w1)" by (rule prod_cases3)
  note ok = build_env_runtime_ok [OF reg q]
  show ?thesis
  proof (cases q)
    case (Inl err)
    then show ?thesis using a q ok by (auto simp: apply_rebuild_backend_def)
  next
    case (Inr rt)
    show ?thesis
    proof (cases "live dm nm")
      case None
      then show ?thesis using a q ok Inr by (auto simp: apply_rebuild_backend_def Let_def)
    next
      case (Some hdl)
      then have r: "r = Inr ()" "dm' = publish nm hdl rt (dm\<lparr>bastion_registry := reg'\<rparr>)"
        using a q Inr by (auto simp: apply_rebuild_backend_def Let_def)
      have "flight_sub (live dm) (live dm')"
        using r(2) Some by (auto simp: publish_def flight_sub_def split: if_splits)
      moreover have "live dm' = (live dm)(nm \<mapsto> hdl\<lparr>current := rt\<rparr>)" using r(2) by (simp add: publish_def)
      ultimately show ?thesis
        using ok Inr r by (simp add: publish_def) blast
    qed
  qed
qed

lemma restrict_UNIV [simp]: "m |` UNIV = m"
  by (simp add: restrict_map_def)

lemma repin_each_ok:
  assumes "live_ok (allow_tofu dm) (listen_host dm) c (live dm |` (- set xs))"
    and "registry_ok (allow_tofu dm) (bastions c) (bastion_registry dm)"
    and "\<And>nm. nm \<in> set xs \<Longrightarrow> bt_get (envs c) nm \<noteq> None"
    and "repin_each sv c xs dm w = (stopped, dm', w')"
  shows "daemon_ok c dm' \<and> flight_sub (live dm) (live dm') \<and> allow_tofu dm' = allow_tofu dm \<and>
    listen_host dm' = listen_host dm"
  using assms
proof (induction xs arbitrary: dm w stopped)
  case Nil
  then show ?case by (simp add: daemon_ok_def)
next
  case (Cons nm xs)
  obtain e where e: "bt_get (envs c) nm = Some e" using Cons.prems(3) [of nm] by auto
  show ?case
  proof (cases "has_env dm nm")
    case False
    then have "live dm |` (- set (nm # xs)) = live dm |` (- set xs)"
      by (auto simp: has_env_def restrict_map_def fun_eq_iff)
    then show ?thesis using Cons.IH [of dm w stopped] Cons.prems e False by simp
  next
    case True
    obtain r dm1 w1 where r: "apply_rebuild_backend (sv_net sv) c e nm dm w = (r, dm1, w1)"
      by (rule prod_cases3)
    note reb = apply_rebuild_backend_cases [OF Cons.prems(2) r]
    show ?thesis
    proof (cases r)
      case (Inl err)
      let ?dm2 = "apply_rm_env nm dm1"
      obtain st2 where st2: "repin_each sv c xs ?dm2 w1 = (st2, dm', w')"
        using Cons.prems(4) e True r Inl by (auto split: prod.splits)
      have "live dm1 = live dm" using reb Inl by simp
      then have "live ?dm2 |` (- set xs) = live dm |` (- set (nm # xs))"
        by (auto simp: restrict_map_def fun_eq_iff)
      then have l2: "live_ok (allow_tofu ?dm2) (listen_host ?dm2) c (live ?dm2 |` (- set xs))"
        using Cons.prems(1) reb by (simp only: apply_rm_env_fields(2,3))
      have "daemon_ok c dm' \<and> flight_sub (live ?dm2) (live dm') \<and>
          allow_tofu dm' = allow_tofu ?dm2 \<and> listen_host dm' = listen_host ?dm2"
        by (rule Cons.IH [OF l2 _ _ st2]) (use Cons.prems(3) reb in auto)
      moreover have "flight_sub (live dm) (live ?dm2)"
        using reb apply_rm_env_flight flight_sub_trans by blast
      ultimately show ?thesis using reb flight_sub_trans by (auto simp del: apply_rm_env_fields(1))
    next
      case (Inr u)
      then obtain hdl rt where m: "live dm1 = (live dm)(nm \<mapsto> hdl\<lparr>current := rt\<rparr>)"
        "engine e \<noteq> MsSql" "runtime_matches (allow_tofu dm) (listen_host dm) c nm e rt"
        using reb by auto
      have rest: "repin_each sv c xs dm1 w1 = (stopped, dm', w')"
        using Cons.prems(4) e True r Inr by simp
      have "live_ok (allow_tofu dm) (listen_host dm) c (live dm1 |` (- set xs))"
        using Cons.prems(1) m e by (auto simp: live_ok_def restrict_map_def)
      then have "daemon_ok c dm' \<and> flight_sub (live dm1) (live dm') \<and>
          allow_tofu dm' = allow_tofu dm1 \<and> listen_host dm' = listen_host dm1"
        using Cons.IH [OF _ _ _ rest] Cons.prems(3) reb by simp
      then show ?thesis using reb flight_sub_trans by auto
    qed
  qed
qed

lemma set_fingerprint_daemon:
  assumes ok: "daemon_ok c dm" and f: "set_fingerprint bn fp c = Inr c'"
    and r: "repin_each sv c' (envs_behind c' bn) (evict_bastion bn dm) w = (stopped, dm', w')"
  shows "daemon_ok c' dm' \<and> flight_sub (live dm) (live dm') \<and> allow_tofu dm' = allow_tofu dm \<and>
    listen_host dm' = listen_host dm"
proof -
  obtain b where c': "c' = c\<lparr>bastions := bt_insert bn (b\<lparr>pinned_host_keys := [fp]\<rparr>) (bastions c)\<rparr>"
    using f by (auto simp: set_fingerprint_def split: option.splits)
  have behind: "nm \<in> set (envs_behind c' bn) \<longleftrightarrow> (\<exists>e. bt_get (envs c) nm = Some e \<and> env_bastion e = Some bn)" for nm
    by (force simp: envs_behind_def bt.in_entries c')
  let ?dm = "evict_bastion bn dm"
  have "live_ok (allow_tofu ?dm) (listen_host ?dm) c' (live ?dm |` (- set (envs_behind c' bn)))"
    unfolding live_ok_def
  proof (intro allI impI)
    fix nm hdl assume "(live ?dm |` (- set (envs_behind c' bn))) nm = Some hdl"
    then have l: "live dm nm = Some hdl" "nm \<notin> set (envs_behind c' bn)"
      by (auto simp: restrict_map_def split: if_splits)
    obtain e where e: "bt_get (envs c) nm = Some e" "engine e \<noteq> MsSql"
      "runtime_matches (allow_tofu dm) (listen_host dm) c nm e (current hdl)"
      using daemon_ok_live [OF ok l(1)] by blast
    have "env_bastion e \<noteq> Some bn" using l(2) e(1) unfolding behind by blast
    then have "tunnel_ok (allow_tofu dm) c' e (current hdl) = tunnel_ok (allow_tofu dm) c e (current hdl)"
      using c' by (intro tunnel_ok_bastion) auto
    then show "\<exists>e. bt_get (envs c') nm = Some e \<and> engine e \<noteq> MsSql \<and>
        runtime_matches (allow_tofu ?dm) (listen_host ?dm) c' nm e (current hdl)"
      using e c' by (simp add: runtime_matches_def)
  qed
  moreover have "registry_ok (allow_tofu ?dm) (bastions c') (bastion_registry ?dm)"
    using daemon_ok_registry [OF ok] c'
    by (simp add: evict_bastion_def) (rule registry_ok_drop, auto)
  moreover have "bt_get (envs c') nm \<noteq> None" if "nm \<in> set (envs_behind c' bn)" for nm
    using that unfolding behind by (auto simp: c')
  ultimately show ?thesis using repin_each_ok [OF _ _ _ r] by simp
qed

lemma rebuild_each_ok:
  "daemon_ok c dm \<Longrightarrow> rebuild_each sv c xs dm w = (r, dm', w') \<Longrightarrow>
   daemon_ok c dm' \<and> flight_sub (live dm) (live dm') \<and> allow_tofu dm' = allow_tofu dm \<and>
   listen_host dm' = listen_host dm"
proof (induction xs arbitrary: dm w)
  case Nil
  then show ?case by simp
next
  case (Cons nm xs)
  show ?case
  proof (cases "bt_get (envs c) nm")
    case None
    then show ?thesis using Cons by simp
  next
    case (Some e)
    obtain q dm1 w1 where q: "apply_rebuild_backend (sv_net sv) c e nm dm w = (q, dm1, w1)"
      by (rule prod_cases3)
    note reb = apply_rebuild_backend_cases [OF daemon_ok_registry [OF Cons.prems(1)] q]
    note ok1 = apply_rebuild_backend_ok [OF Cons.prems(1) Some q]
    show ?thesis
    proof (cases q)
      case (Inl err)
      then show ?thesis using Cons.prems(2) Some q reb ok1 by auto
    next
      case (Inr u)
      then have "rebuild_each sv c xs dm1 w1 = (r, dm', w')" using Cons.prems(2) Some q by simp
      from Cons.IH [OF ok1 this] show ?thesis using reb flight_sub_trans by auto
    qed
  qed
qed

lemma apply_add_env_fields:
  "apply_add_env net c e nm dm w = (r, dm', w') \<Longrightarrow>
   allow_tofu dm' = allow_tofu dm \<and> listen_host dm' = listen_host dm \<and>
   (\<forall>n. n \<noteq> nm \<longrightarrow> live dm' n = live dm n) \<and>
   (live dm' = live dm \<or> (\<exists>hdl. live dm' nm = Some hdl \<and> in_flight hdl = []))"
  by (auto simp: apply_add_env_def split: sum.splits prod.splits dest!: listen_runtime_Inr)

lemma apply_add_env_flight:
  assumes "apply_add_env net c e nm dm w = (r, dm', w')" and "live dm nm = None"
  shows "flight_kept (live dm) (live dm')"
  unfolding flight_kept_def
proof (intro allI impI)
  fix n hdl' assume "live dm' n = Some hdl'"
  then show "case live dm n of Some hdl \<Rightarrow> in_flight hdl' = in_flight hdl | None \<Rightarrow> in_flight hdl' = []"
    using apply_add_env_fields [OF assms(1)] assms(2) by (cases "n = nm") auto
qed

lemma add_each_ok:
  "daemon_ok c dm \<Longrightarrow> distinct xs \<Longrightarrow> \<forall>nm \<in> set xs. live dm nm = None \<Longrightarrow>
   add_each sv c xs dm w = (r, dm', w') \<Longrightarrow>
   daemon_ok c dm' \<and> flight_kept (live dm) (live dm') \<and>
   allow_tofu dm' = allow_tofu dm \<and> listen_host dm' = listen_host dm \<and>
   (\<forall>nm. nm \<notin> set xs \<longrightarrow> live dm' nm = live dm nm)"
proof (induction xs arbitrary: dm w)
  case Nil
  then show ?case by simp
next
  case (Cons nm xs)
  show ?case
  proof (cases "bt_get (envs c) nm")
    case None
    then show ?thesis using Cons.IH [OF Cons.prems(1), of w] Cons.prems by simp
  next
    case (Some e)
    obtain q dm1 w1 where q: "apply_add_env (sv_net sv) c e nm dm w = (q, dm1, w1)"
      by (rule prod_cases3)
    have new: "live dm nm = None" using Cons.prems(3) by simp
    note ok1 = apply_add_env_ok [OF Cons.prems(1) Some q]
    note fl1 = apply_add_env_flight [OF q new]
    note fs1 = apply_add_env_fields [OF q]
    show ?thesis
    proof (cases q)
      case (Inl err)
      then show ?thesis using Cons.prems(4) Some q ok1 fl1 fs1 by auto
    next
      case (Inr u)
      then have rest: "add_each sv c xs dm1 w1 = (r, dm', w')" using Cons.prems(4) Some q by simp
      have "\<forall>n \<in> set xs. live dm1 n = None" using Cons.prems(2,3) fs1 by auto
      then have ih: "daemon_ok c dm'" "flight_kept (live dm1) (live dm')"
        "allow_tofu dm' = allow_tofu dm1 \<and> listen_host dm' = listen_host dm1"
        "\<And>n. n \<notin> set xs \<Longrightarrow> live dm' n = live dm1 n"
        using Cons.IH [OF ok1 _ _ rest] Cons.prems(2) by auto
      have "flight_kept (live dm) (live dm')"
        unfolding flight_kept_def
      proof (intro allI impI)
        fix n hdl' assume l: "live dm' n = Some hdl'"
        show "case live dm n of Some hdl \<Rightarrow> in_flight hdl' = in_flight hdl | None \<Rightarrow> in_flight hdl' = []"
        proof (cases "n \<in> set xs")
          case True
          then show ?thesis
            using l ih(2) Cons.prems(3) \<open>\<forall>n \<in> set xs. live dm1 n = None\<close>
            by (fastforce simp: flight_kept_def)
        next
          case False
          then show ?thesis using l ih(4) fl1 by (simp add: flight_kept_def)
        qed
      qed
      then show ?thesis using ih fs1 by simp
    qed
  qed
qed

section \<open>One request\<close>

definition server_ok :: "('w, 'h) server_env \<Rightarrow> 'h server \<Rightarrow> bool" where
  "server_ok sv st \<longleftrightarrow> (\<forall>c. loads (sv_state sv) (sv_disk st) c \<longrightarrow> daemon_ok c (sv_daemon st))"

definition good_step :: "('w, 'h) server_env \<Rightarrow> 'h server \<Rightarrow> 'h server \<Rightarrow> bool" where
  "good_step sv st st' \<longleftrightarrow>
     server_ok sv st' \<and> flight_kept (live (sv_daemon st)) (live (sv_daemon st')) \<and>
     allow_tofu (sv_daemon st') = allow_tofu (sv_daemon st) \<and>
     listen_host (sv_daemon st') = listen_host (sv_daemon st)"

lemma good_step_emit [simp]: "good_step sv st (emit ev st') = good_step sv st st'"
  by (simp add: good_step_def server_ok_def emit_def)

lemma good_step_results [simp]:
  "good_step sv st (snd (fail_msg tn peer a t m st')) = good_step sv st st'"
  "good_step sv st (snd (allow tn peer a t resp st')) = good_step sv st st'"
  "good_step sv st (snd (token_but_not_live tn peer a t out m st')) = good_step sv st st'"
  "good_step sv st (snd (persisted_but_apply_failed tn peer a t n m st')) = good_step sv st st'"
  "good_step sv st (snd (stopped_after_failed_repin tn peer t ss st')) = good_step sv st st'"
  by (simp_all add: fail_msg_def allow_def token_but_not_live_def persisted_but_apply_failed_def
      stopped_after_failed_repin_def Let_def)

lemma good_step_refl: "server_ok sv st \<Longrightarrow> good_step sv st st"
  by (simp add: good_step_def)

lemma good_step_failed:
  "server_ok sv st \<Longrightarrow> sv_daemon st' = sv_daemon st \<Longrightarrow>
   \<forall>c. loads (sv_state sv) (sv_disk st') c \<longrightarrow> loads (sv_state sv) (sv_disk st) c \<Longrightarrow> good_step sv st st'"
  by (auto simp: good_step_def server_ok_def)

lemma good_step_done:
  assumes "loads (sv_state sv) (sv_disk st') c'" and "daemon_ok c' dm'"
    and "flight_kept (live (sv_daemon st)) (live dm')" and "allow_tofu dm' = allow_tofu (sv_daemon st)"
    and "listen_host dm' = listen_host (sv_daemon st)"
  shows "good_step sv st (st'\<lparr>sv_daemon := dm'\<rparr>)"
  using assms by (simp add: good_step_def server_ok_def)

lemma reload_eq [simp]:
  "reload sv tn st = (load_config (sv_state sv) (sv_disk st) :: mutate_error state_error + config)"
  by (simp add: reload_def)

text \<open>What a request meets: a working keystore and cryptography, random values of the right
  lengths, and a server in order.\<close>

definition ready :: "('w, 'h) server_env \<Rightarrow> 'w turn \<Rightarrow> 'h server \<Rightarrow> bool" where
  "ready sv tn st \<longleftrightarrow> state_env_ok (sv_state sv) \<and> turn_ok tn \<and> server_ok sv st"

lemma persist_failed:
  assumes "ready sv tn st" and "persist sv tn m st = (Inl e, st1)"
  shows "good_step sv st st1"
  using persist_cases [OF _ _ assms(2)] assms(1)
  by (intro good_step_failed) (auto simp: ready_def)

lemma persist_done:
  assumes "ready sv tn st" and "persist sv tn m st = (Inr out, st1)"
  obtains c c' where "loads (sv_state sv) (sv_disk st) c" "daemon_ok c (sv_daemon st)" "m c = Inr (out, c')"
    "loads (sv_state sv) (sv_disk st1) c'" "sv_daemon st1 = sv_daemon st"
  using persist_cases [OF _ _ assms(2)] assms(1) by (auto simp: ready_def server_ok_def)

lemma persist_unit_done:
  assumes "ready sv tn st" and "persist sv tn (\<lambda>c. unit_result (m c)) st = (Inr out, st1)"
  obtains c c' where "loads (sv_state sv) (sv_disk st) c" "daemon_ok c (sv_daemon st)" "m c = Inr c'"
    "loads (sv_state sv) (sv_disk st1) c'" "sv_daemon st1 = sv_daemon st"
proof -
  obtain c c' where c: "loads (sv_state sv) (sv_disk st) c" "daemon_ok c (sv_daemon st)"
    "unit_result (m c) = Inr (out, c')" "loads (sv_state sv) (sv_disk st1) c'" "sv_daemon st1 = sv_daemon st"
    using persist_done [OF assms] by blast
  then have "m c = Inr c'" by (auto simp: unit_result_def split: sum.splits)
  then show thesis using c that by blast
qed

lemma good_step_same:
  "loads (sv_state sv) (sv_disk st1) c' \<Longrightarrow> sv_daemon st1 = sv_daemon st \<Longrightarrow> daemon_ok c' (sv_daemon st) \<Longrightarrow>
   good_step sv st st1"
  by (simp add: good_step_def server_ok_def)

lemma good_simple_mutation:
  assumes r: "ready sv tn st"
    and m: "\<And>c c'. daemon_ok c (sv_daemon st) \<Longrightarrow> m c = Inr c' \<Longrightarrow> daemon_ok c' (sv_daemon st)"
  shows "good_step sv st (snd (simple_mutation sv tn peer a t m st))"
proof -
  obtain q st1 where p: "persist sv tn (\<lambda>c. unit_result (m c)) st = (q, st1)" by fastforce
  show ?thesis
  proof (cases q)
    case (Inl e)
    then show ?thesis using p persist_failed [OF r p [unfolded Inl]] by (simp add: simple_mutation_def)
  next
    case (Inr u)
    obtain c c' where "daemon_ok c (sv_daemon st)" "m c = Inr c'"
      "loads (sv_state sv) (sv_disk st1) c'" "sv_daemon st1 = sv_daemon st"
      using persist_unit_done [OF r p [unfolded Inr]] by blast
    then have "good_step sv st st1" using m good_step_same by blast
    then show ?thesis using p Inr by (simp add: simple_mutation_def)
  qed
qed

lemma good_rm_bastion:
  assumes r: "ready sv tn st"
  shows "good_step sv st (snd (rm_bastion_req sv tn peer nm st))"
proof -
  obtain q st1 where p: "persist sv tn (\<lambda>c. unit_result (rm_bastion nm c)) st = (q, st1)" by fastforce
  show ?thesis
  proof (cases q)
    case (Inl e)
    then show ?thesis
      using p persist_failed [OF r p [unfolded Inl]]
      by (simp add: rm_bastion_req_def simple_mutation_def fail_msg_def)
  next
    case (Inr u)
    obtain c c' where c: "daemon_ok c (sv_daemon st)" "rm_bastion nm c = Inr c'"
      "loads (sv_state sv) (sv_disk st1) c'" "sv_daemon st1 = sv_daemon st"
      using persist_unit_done [OF r p [unfolded Inr]] by blast
    have "good_step sv st (st1\<lparr>sv_daemon := evict_bastion nm (sv_daemon st)\<rparr>)"
      by (rule good_step_done [OF c(3) rm_bastion_daemon [OF c(1,2)]]) simp_all
    then show ?thesis
      using p Inr c(4)
      by (simp add: rm_bastion_req_def simple_mutation_def allow_def emit_def good_step_def server_ok_def)
  qed
qed

lemma good_set_fingerprint:
  assumes r: "ready sv tn st"
  shows "good_step sv st (snd (set_fingerprint_req sv tn peer bn fp st))"
proof -
  obtain q st1 where p: "persist sv tn (\<lambda>c. unit_result (set_fingerprint bn fp c)) st = (q, st1)"
    by fastforce
  show ?thesis
  proof (cases q)
    case (Inl e)
    then show ?thesis
      using p persist_failed [OF r p [unfolded Inl]] by (simp add: set_fingerprint_req_def)
  next
    case (Inr u)
    obtain c c' where c: "daemon_ok c (sv_daemon st)" "set_fingerprint bn fp c = Inr c'"
      "loads (sv_state sv) (sv_disk st1) c'" "sv_daemon st1 = sv_daemon st"
      using persist_unit_done [OF r p [unfolded Inr]] by blast
    obtain stopped dm w where rp: "repin_each sv c' (envs_behind c' bn)
        (evict_bastion bn (sv_daemon st)) (tn_world tn) = (stopped, dm, w)" by (rule prod_cases3)
    note ok = set_fingerprint_daemon [OF c(1,2) rp]
    have "good_step sv st (st1\<lparr>sv_daemon := dm\<rparr>)"
      by (rule good_step_done [OF c(3)]) (use ok flight_sub_kept in auto)
    then show ?thesis
      using p Inr c(3,4) rp by (simp add: set_fingerprint_req_def Let_def)
  qed
qed

lemma good_rotate_cred:
  assumes r: "ready sv tn st"
  shows "good_step sv st (snd (rotate_cred_req sv tn peer nm pw st))"
proof -
  obtain q st1 where p: "persist sv tn (\<lambda>c. unit_result (rotate_cred nm pw c)) st = (q, st1)" by fastforce
  show ?thesis
  proof (cases q)
    case (Inl e)
    then show ?thesis
      using p persist_failed [OF r p [unfolded Inl]] by (simp add: rotate_cred_req_def)
  next
    case (Inr u)
    obtain c c' where c: "daemon_ok c (sv_daemon st)" "rotate_cred nm pw c = Inr c'"
      "loads (sv_state sv) (sv_disk st1) c'" "sv_daemon st1 = sv_daemon st"
      using persist_unit_done [OF r p [unfolded Inr]] by blast
    obtain failed dm w where rb: "rebuild_each sv c' (envs_using c' nm) (sv_daemon st) (tn_world tn)
        = (failed, dm, w)" by (rule prod_cases3)
    note ok = rebuild_each_ok [OF rotate_cred_daemon [OF c(1,2)] rb]
    have "good_step sv st (st1\<lparr>sv_daemon := dm\<rparr>)"
      by (rule good_step_done [OF c(3)]) (use ok flight_sub_kept in auto)
    then show ?thesis
      using p Inr c(3,4) rb by (auto simp: rotate_cred_req_def split: option.splits)
  qed
qed

lemma good_add_env:
  assumes r: "ready sv tn st"
  shows "good_step sv st (snd (add_env_req sv tn peer dto st))"
proof -
  let ?add = "add_env (sv_sha1 sv) (sv_sha256 sv) (tn_raw tn) (env_add_args_of dto)"
  obtain q st1 where p: "persist sv tn ?add st = (q, st1)" by fastforce
  show ?thesis
  proof (cases q)
    case (Inl e)
    then show ?thesis using p persist_failed [OF r p [unfolded Inl]] by (simp add: add_env_req_def)
  next
    case (Inr out)
    obtain c c' where c: "daemon_ok c (sv_daemon st)" "?add c = Inr (out, c')"
      "loads (sv_state sv) (sv_disk st1) c'" "sv_daemon st1 = sv_daemon st"
      using persist_done [OF r p [unfolded Inr]] by blast
    have ok: "daemon_ok c' (sv_daemon st)" "live (sv_daemon st) (ei_name dto) = None"
      using add_env_daemon [OF c(1,2)] by (simp_all add: env_add_args_of_def)
    show ?thesis
    proof (cases "bt_get (envs c') (ei_name dto)")
      case None
      then show ?thesis
        using p Inr c good_step_same [OF c(3,4) ok(1)] by (simp add: add_env_req_def)
    next
      case (Some e)
      obtain a dm w where a: "apply_add_env (sv_net sv) c' e (ei_name dto) (sv_daemon st) (tn_world tn)
          = (a, dm, w)" by (rule prod_cases3)
      have "good_step sv st (st1\<lparr>sv_daemon := dm\<rparr>)"
        by (rule good_step_done [OF c(3) apply_add_env_ok [OF ok(1) Some a] apply_add_env_flight [OF a ok(2)]])
          (use apply_add_env_fields [OF a] in auto)
      then show ?thesis
        using p Inr c(3,4) Some a by (auto simp: add_env_req_def split: sum.splits)
    qed
  qed
qed

lemma good_rm_env:
  assumes r: "ready sv tn st"
  shows "good_step sv st (snd (rm_env_req sv tn peer nm st))"
proof -
  obtain q st1 where p: "persist sv tn (\<lambda>c. unit_result (rm_env nm c)) st = (q, st1)" by fastforce
  show ?thesis
  proof (cases q)
    case (Inl e)
    then show ?thesis using p persist_failed [OF r p [unfolded Inl]] by (simp add: rm_env_req_def)
  next
    case (Inr u)
    obtain c c' where c: "daemon_ok c (sv_daemon st)" "rm_env nm c = Inr c'"
      "loads (sv_state sv) (sv_disk st1) c'" "sv_daemon st1 = sv_daemon st"
      using persist_unit_done [OF r p [unfolded Inr]] by blast
    have "good_step sv st (st1\<lparr>sv_daemon := apply_rm_env nm (sv_daemon st)\<rparr>)"
      by (rule good_step_done [OF c(3) rm_env_daemon [OF c(1,2)] flight_sub_kept [OF apply_rm_env_flight]])
        simp_all
    then show ?thesis using p Inr c(4) by (simp add: rm_env_req_def)
  qed
qed

text \<open>Grant and set-policy: persist, reload, swap one field of the live runtime.\<close>

lemma good_grant:
  assumes r: "ready sv tn st"
  shows "good_step sv st (snd (grant_req sv tn peer nm st))"
proof -
  let ?m = "grant_env (sv_sha1 sv) (sv_sha256 sv) (tn_raw tn) nm"
  obtain q st1 where p: "persist sv tn ?m st = (q, st1)" by fastforce
  show ?thesis
  proof (cases q)
    case (Inl e)
    then show ?thesis using p persist_failed [OF r p [unfolded Inl]] by (simp add: grant_req_def)
  next
    case (Inr out)
    obtain c c' where c: "daemon_ok c (sv_daemon st)" "?m c = Inr (out, c')"
      "loads (sv_state sv) (sv_disk st1) c'" "sv_daemon st1 = sv_daemon st"
      using persist_done [OF r p [unfolded Inr]] by blast
    obtain e where e: "bt_get (envs c') nm = Some e"
      using c(2) by (auto simp: grant_env_def Let_def split: option.splits)
    let ?s = "apply_swap_authz nm (client_auth e) (sv_daemon st)"
    have "good_step sv st (st1\<lparr>sv_daemon := snd ?s\<rparr>)"
      by (rule good_step_done [OF c(3) grant_daemon [OF c(1,2) e]])
        (simp_all add: apply_swap_authz_def flight_sub_kept swap_runtime_flight)
    then show ?thesis
      using p Inr c(3,4) e by (auto simp: grant_req_def split: sum.splits prod.splits)
  qed
qed

lemma good_set_policy:
  assumes r: "ready sv tn st"
  shows "good_step sv st (snd (set_policy_req sv tn peer nm target confirm st))"
proof (cases "target = TargetReadWrite \<and> \<not> confirm")
  case True
  then show ?thesis using r by (simp add: set_policy_req_def good_step_refl ready_def)
next
  case False
  obtain q st1 where p: "persist sv tn (\<lambda>c. unit_result (set_policy nm target c)) st = (q, st1)" by fastforce
  show ?thesis
  proof (cases q)
    case (Inl e)
    then show ?thesis
      using p False persist_failed [OF r p [unfolded Inl]] by (auto simp: set_policy_req_def)
  next
    case (Inr u)
    obtain c c' where c: "daemon_ok c (sv_daemon st)" "set_policy nm target c = Inr c'"
      "loads (sv_state sv) (sv_disk st1) c'" "sv_daemon st1 = sv_daemon st"
      using persist_unit_done [OF r p [unfolded Inr]] by blast
    obtain e where e: "bt_get (envs c') nm = Some e"
      using c(2) by (auto simp: set_policy_def split: option.splits)
    let ?s = "apply_swap_policy nm (env_policy e) (sv_daemon st)"
    have "good_step sv st (st1\<lparr>sv_daemon := snd ?s\<rparr>)"
      by (rule good_step_done [OF c(3) set_policy_daemon [OF c(1,2) e]])
        (simp_all add: apply_swap_policy_def flight_sub_kept swap_runtime_flight)
    then show ?thesis
      using p Inr c(3,4) e False by (auto simp: set_policy_req_def split: sum.splits prod.splits)
  qed
qed

lemma good_import:
  assumes r: "ready sv tn st"
  shows "good_step sv st (snd (import_req sv tn peer f st))"
proof -
  obtain q st1 where p: "persist sv tn (\<lambda>c. unit_result (merge_import c f)) st = (q, st1)" by fastforce
  show ?thesis
  proof (cases q)
    case (Inl e)
    then show ?thesis using p persist_failed [OF r p [unfolded Inl]] by (simp add: import_req_def Let_def)
  next
    case (Inr u)
    obtain c c' where c: "daemon_ok c (sv_daemon st)" "merge_import c f = Inr c'"
      "loads (sv_state sv) (sv_disk st1) c'" "sv_daemon st1 = sv_daemon st"
      using persist_unit_done [OF r p [unfolded Inr]] by blast
    obtain a dm w where a: "add_each sv c' (bt_keys (envs f)) (sv_daemon st) (tn_world tn) = (a, dm, w)"
      by (rule prod_cases3)
    have "distinct (bt_keys (envs f))" using bt.entries_distinct by (simp add: bt_keys_def)
    then have ok: "daemon_ok c' dm \<and> flight_kept (live (sv_daemon st)) (live dm) \<and>
        allow_tofu dm = allow_tofu (sv_daemon st) \<and> listen_host dm = listen_host (sv_daemon st)"
      using add_each_ok [OF _ _ _ a] merge_import_daemon [OF c(1,2)] by (auto simp: in_bt_keys)
    have "good_step sv st (st1\<lparr>sv_daemon := dm\<rparr>)"
      by (rule good_step_done [OF c(3)]) (use ok in auto)
    then show ?thesis
      using p Inr c(3,4) a by (auto simp: import_req_def Let_def split: option.splits)
  qed
qed

lemma good_reads:
  assumes r: "ready sv tn st"
  shows "good_step sv st (snd (list_rows sv tn peer a rows st))"
    and "good_step sv st (snd (audit_tail tn peer n st))"
    and "good_step sv st (snd (probe_req sv tn peer on whole_set st))"
proof -
  have g: "good_step sv st st" using r by (simp add: ready_def good_step_refl)
  show "good_step sv st (snd (list_rows sv tn peer a rows st))"
    using g by (simp add: list_rows_def split: sum.splits)
  show "good_step sv st (snd (audit_tail tn peer n st))"
    using g by (simp add: audit_tail_def Let_def split: audit_dir.splits sum.splits)
  show "good_step sv st (snd (probe_req sv tn peer on whole_set st))"
    using g by (simp add: probe_req_def Let_def split: option.splits sum.splits prod.splits)
qed

lemma dispatch_good:
  assumes r: "ready sv tn st"
  shows "good_step sv st (snd (dispatch sv tn peer req st))"
proof (cases req)
  case (Hello v)
  then show ?thesis using r by (simp add: ready_def good_step_refl)
next
  case (AddBastion dto)
  then show ?thesis
    using good_simple_mutation [OF r add_bastion_daemon] by (simp add: add_bastion_req_def)
qed (use r good_simple_mutation [OF r add_cred_daemon] good_simple_mutation [OF r rm_cred_daemon]
      good_rm_bastion good_set_fingerprint good_rotate_cred good_add_env good_rm_env good_grant
      good_set_policy good_import good_reads
    in \<open>simp_all add: list_bastions_def list_creds_def list_envs_def\<close>)

end
