(* ===== verification/Server_Reach.thy ===== *)
theory Server_Reach
  imports Server_Invariant
begin

text \<open>
  The running server as a step relation: it starts from the sealed configuration
  (\<open>crates/mwsqld/src/main.rs\<close>, \<open>run\<close>), then control requests, refused
  peers, client connections and the shutdown come in any order. The properties of every state it can reach.
\<close>

section \<open>Reachable servers\<close>

text \<open>The idle timeouts the flag overrides do not matter to what is served.\<close>

lemma override_idle_get:
  "bt_get (envs (override_idle flag c)) nm = Some e \<Longrightarrow>
   \<exists>e0. bt_get (envs c) nm = Some e0 \<and> (e = e0 \<or> (\<exists>s. e = e0\<lparr>pool := (pool e0)\<lparr>idle_timeout_secs := s\<rparr>\<rparr>))"
  by (auto simp: override_idle_def split: option.splits)

lemma override_idle_bastions [simp]: "bastions (override_idle flag c) = bastions c"
  by (simp add: override_idle_def split: option.splits)

lemma runtime_matches_pool:
  "runtime_matches tofu lhost c' nm (e\<lparr>pool := p\<rparr>) rt \<Longrightarrow> bastions c' = bastions c \<Longrightarrow>
   runtime_matches tofu lhost c nm e rt"
  by (cases "env_bastion e") (auto simp: runtime_matches_def tunnel_ok_def Let_def)

lemma runtime_matches_same_bastions:
  "runtime_matches tofu lhost c' nm e rt \<Longrightarrow> bastions c' = bastions c \<Longrightarrow> runtime_matches tofu lhost c nm e rt"
  by (cases "env_bastion e") (auto simp: runtime_matches_def tunnel_ok_def Let_def)

lemma daemon_ok_override: "daemon_ok (override_idle flag c) dm \<Longrightarrow> daemon_ok c dm"
proof (rule daemon_okI)
  fix nm hdl assume ok: "daemon_ok (override_idle flag c) dm" and l: "live dm nm = Some hdl"
  obtain e where e: "bt_get (envs (override_idle flag c)) nm = Some e" "engine e \<noteq> MsSql"
    "runtime_matches (allow_tofu dm) (listen_host dm) (override_idle flag c) nm e (current hdl)"
    using daemon_ok_live [OF ok l] by blast
  obtain e0 where e0: "bt_get (envs c) nm = Some e0"
    "e = e0 \<or> (\<exists>s. e = e0\<lparr>pool := (pool e0)\<lparr>idle_timeout_secs := s\<rparr>\<rparr>)"
    using override_idle_get [OF e(1)] by blast
  have "runtime_matches (allow_tofu dm) (listen_host dm) c nm e0 (current hdl)"
    using e(3) e0(2) runtime_matches_pool runtime_matches_same_bastions by fastforce
  then show "\<exists>e. bt_get (envs c) nm = Some e \<and> engine e \<noteq> MsSql \<and>
      runtime_matches (allow_tofu dm) (listen_host dm) c nm e (current hdl)"
    using e(2) e0 by auto
qed (use daemon_ok_registry in force)

datatype 'w server_event =
    Requested "'w turn" peer_identity request
  | Refused "'w turn" peer_identity string
  | Connected name
  | Disconnected name nat
  | Stopped

fun server_step :: "('w, 'h) server_env \<Rightarrow> 'w server_event \<Rightarrow> 'h server \<Rightarrow> 'h server" where
  "server_step sv (Requested tn peer req) st = snd (dispatch sv tn peer req st)"
| "server_step sv (Refused tn peer reason) st =
     emit (admin_event_of tn peer ''authz'' [] AuditDeny (Some reason)) st"
| "server_step sv (Connected nm) st = st\<lparr>sv_daemon := accept_conn nm (sv_daemon st)\<rparr>"
| "server_step sv (Disconnected nm i) st = st\<lparr>sv_daemon := finish_conn nm i (sv_daemon st)\<rparr>"
| "server_step sv Stopped st = st\<lparr>sv_daemon := shutdown (sv_daemon st)\<rparr>"

definition event_ok :: "'w server_event \<Rightarrow> bool" where
  "event_ok ev = (case ev of Requested tn _ _ \<Rightarrow> turn_ok tn | _ \<Rightarrow> True)"

text \<open>\<open>mwsqld run\<close>: load, override, bind.\<close>

definition run_daemon ::
  "('w, 'h) server_env \<Rightarrow> bool \<Rightarrow> u32 option \<Rightarrow> string \<Rightarrow> bool \<Rightarrow> 'w \<Rightarrow> disk \<Rightarrow> 'h server option" where
  "run_daemon sv insecure idle_flag lhost tofu w d =
     (case load_config (sv_state sv) d :: mutate_error state_error + config of
        Inl _ \<Rightarrow> None
      | Inr cfg \<Rightarrow>
          (case bind_daemon (sv_net sv) insecure (override_idle idle_flag cfg) lhost tofu w of
             (Inl _, _) \<Rightarrow> None
           | (Inr dm, _) \<Rightarrow> Some \<lparr>sv_disk = d, sv_daemon = dm, sv_log = []\<rparr>))"

inductive served :: "('w, 'h) server_env \<Rightarrow> 'h server \<Rightarrow> bool" for sv where
  start: "run_daemon sv insecure idle_flag lhost tofu w d = Some st \<Longrightarrow> served sv st"
| step: "served sv st \<Longrightarrow> event_ok ev \<Longrightarrow> served sv (server_step sv ev st)"

inductive_cases served_cases: "served sv st"

lemma server_step_ok:
  assumes "state_env_ok (sv_state sv)" and "event_ok ev" and "server_ok sv st"
  shows "server_ok sv (server_step sv ev st)"
proof (cases ev)
  case (Requested tn peer req)
  then have "ready sv tn st" using assms by (simp add: ready_def event_ok_def)
  then show ?thesis using Requested dispatch_good by (fastforce simp: good_step_def)
qed (use assms(3) in \<open>simp_all add: server_ok_def emit_def accept_conn_ok finish_conn_ok shutdown_ok\<close>)

lemma served_ok: "served sv st \<Longrightarrow> state_env_ok (sv_state sv) \<Longrightarrow> server_ok sv st"
proof (induction rule: served.induct)
  case (start insecure idle_flag lhost tofu w d st)
  then obtain c dm w' where c: "loads (sv_state sv) d c"
    "bind_daemon (sv_net sv) insecure (override_idle idle_flag c) lhost tofu w = (Inr dm, w')"
    "st = \<lparr>sv_disk = d, sv_daemon = dm, sv_log = []\<rparr>"
    by (auto simp: run_daemon_def split: sum.splits prod.splits)
  have "daemon_ok c dm" using bind_daemon_ok [OF c(2)] daemon_ok_override by blast
  then show ?case using c by (simp add: server_ok_def)
next
  case (step st ev)
  then show ?case using server_step_ok by blast
qed

lemma served_live:
  assumes "served sv st" and "state_env_ok (sv_state sv)" and "loads (sv_state sv) (sv_disk st) c"
    and "live (sv_daemon st) nm = Some hdl"
  obtains e where "bt_get (envs c) nm = Some e" "engine e \<noteq> MsSql"
    "runtime_matches (allow_tofu (sv_daemon st)) (listen_host (sv_daemon st)) c nm e (current hdl)"
proof -
  have "daemon_ok c (sv_daemon st)"
    using served_ok [OF assms(1,2)] assms(3) by (simp add: server_ok_def)
  from daemon_ok_live [OF this assms(4)] that show thesis by blast
qed

section \<open>A server for the instances\<close>

text \<open>One MySQL environment behind a pinned bastion, sealed under a file key; the codec of the
  configuration knows this configuration only.\<close>

definition demo_config :: config where
  "demo_config = daemon_config MySql (Some ''b'')"

definition demo_ops :: seal_ops where
  "demo_ops = plain_ops\<lparr>config_to_cbor := (\<lambda>c. if c = demo_config then Inr [] else Inl ''unsupported''),
     config_of_cbor := (\<lambda>v. Inr demo_config)\<rparr>"

definition demo_server :: "(unit, unit) server_env" where
  "demo_server =
     \<lparr>sv_state = sample_state\<lparr>se_seal := demo_ops\<rparr>, sv_net = sample_net,
      sv_sha1 = (\<lambda>b. replicate 20 0), sv_sha256 = (\<lambda>b. b), sv_state_text = (\<lambda>e. ''state''),
      sv_daemon_text = (\<lambda>e. ''daemon''), sv_missing_text = (\<lambda>n. ''missing'')\<rparr>"

definition demo_turn :: "unit turn" where
  "demo_turn =
     \<lparr>tn_salt = replicate 16 7, tn_nonce = replicate 12 9, tn_fault = no_fault, tn_raw = [],
      tn_now = ''now'', tn_world = (), tn_audit_dir = AuditDirAbsent\<rparr>"

definition demo_peer :: peer_identity where
  "demo_peer = \<lparr>peer_uid = Some 0, peer_gid = Some 0, peer_user = ''root''\<rparr>"

lemma demo_ops_laws: "crypto_laws demo_ops"
  by (simp add: crypto_laws_def aead_correct_def config_cbor_correct_def demo_ops_def plain_ops_def
      demo_config_def daemon_config_def CURRENT_SCHEMA_VERSION_def u32_try_from_def)

lemma demo_seal:
  "seal demo_ops salt nonce demo_config master pp
     = Inr (MAGIC @ [VERSION] @ salt @ nonce @ replicate 16 0)"
  by (simp add: seal_def derive_key_def demo_ops_def plain_ops_def)

lemma demo_valid: "validate demo_config = Inr ()"
  unfolding validate_iff_wf
  by (auto simp: wf_config_def demo_config_def daemon_config_def daemon_env_def env_refs_ok_def
      ports_unique_def split: if_splits)

lemma demo_state_ok: "state_env_ok (sv_state demo_server)"
  using sample_state_ok demo_ops_laws
  by (simp add: demo_server_def state_env_ok_def keystore_elsewhere_def sealed_path_def
      backup_path_def tmp_path_def)

lemma demo_loads: "loads (sv_state demo_server) sample_disk demo_config"
proof -
  have "unseal demo_ops sample_blob (replicate 32 1) [] = Inr demo_config"
    unfolding sample_blob_def
    by (rule unseal_seal [OF demo_ops_laws _ _ _ demo_seal])
      (simp_all add: SALT_LEN_def NONCE_LEN_def demo_config_def daemon_config_def)
  moreover have "fs_files sample_disk ''/s/config.sealed'' = Some sample_blob"
    by (simp add: sample_disk_def)
  moreover have "sealed_path (sv_state demo_server) = ''/s/config.sealed''"
    using sample_paths(1) by (simp add: demo_server_def sealed_path_def)
  moreover have "se_keystore (sv_state demo_server) = FileKeystore ''/k''"
    "se_seal (sv_state demo_server) = demo_ops"
    by (simp_all add: demo_server_def sample_state_def)
  ultimately show ?thesis
    by (simp only: load_config_def sample_key demo_valid option.case sum.case)
qed

definition demo_session :: "unit bastion_session" where
  "demo_session =
     \<lparr>handle = (), captured_fingerprint = Some \<lparr>algo = ''ssh-ed25519'', sha256_b64 = ''fp''\<rparr>\<rparr>"

definition demo_runtime :: "unit env_runtime" where
  "demo_runtime =
     \<lparr>rt_name = ''dev'', rt_engine = MySqlEngine,
      rt_backend = MySqlBackend (build_pool \<lparr>opt_host = ''127.0.0.1'', opt_port = 40000,
        opt_user = ''u'', opt_password = ''p'', opt_database = None\<rparr> 16),
      rt_policy = ReadOnly, rt_client_auth = NativePassword (replicate 20 0),
      rt_listen_addr = (V4 127 0 0 1, 6033),
      rt_idle_timeout = secs 300,
      rt_forwards = [\<lparr>local_port = 40000, via = demo_session, target_host = ''db'', target_port = 5432\<rparr>]\<rparr>"

definition demo_started :: "unit server" where
  "demo_started =
     \<lparr>sv_disk = sample_disk,
      sv_daemon = \<lparr>live = [''dev'' \<mapsto> spawn_env demo_runtime], reap_wake = False,
        listen_host = ''127.0.0.1'', allow_tofu = False,
        bastion_registry = [''b'' \<mapsto> Some demo_session]\<rparr>,
      sv_log = []\<rparr>"

lemma sample_net_local:
  "bind_local (ssh sample_net) w = (Inr 40000, w)" "bind_listener sample_net a w = (Inr (), w)"
  by (simp_all add: sample_net_def)

lemma demo_open:
  "get_or_open (ssh sample_net) ''b'' \<lparr>host = ''bh'', port = 22, ssh_user = ''u'', auth = PasswordAuth ''p'',
        pinned_host_keys = [\<lparr>algo = ''ssh-ed25519'', sha256_b64 = ''fp''\<rparr>]\<rparr> False Map.empty ()
     = (Inr demo_session, [''b'' \<mapsto> Some demo_session], ())"
  by (simp add: get_or_open_def open_session_def client_connect_def check_server_key_def sample_net_def
      observed_key_def demo_session_def)

lemma demo_served: "served demo_server demo_started"
proof (rule served.start)
  have "build_env_runtime sample_net ''127.0.0.1'' False ''dev'' (daemon_env MySql (Some ''b'')) demo_config
      Map.empty () = (Inr demo_runtime, [''b'' \<mapsto> Some demo_session], ())"
    using demo_open sample_listen_addr(1)
    by (simp add: build_env_runtime_def establish_backend_def open_tunnel_def start_local_forward_def
        finish_backend_def demo_config_def daemon_config_def daemon_env_def Let_def from_env_credential_def
        demo_runtime_def default_pool_def sample_net_local)
  moreover have "bt_entries (envs demo_config) = [(''dev'', daemon_env MySql (Some ''b''))]"
    by (simp add: demo_config_def daemon_config_def)
  ultimately have "bind_daemon sample_net False demo_config ''127.0.0.1'' False ()
      = (Inr (sv_daemon demo_started), ())"
    by (simp add: bind_daemon_def demo_started_def listen_runtime_def daemon_env_def sample_net_local)
  moreover have "sv_net demo_server = sample_net" by (simp add: demo_server_def)
  ultimately show "run_daemon demo_server False None ''127.0.0.1'' False () sample_disk = Some demo_started"
    using demo_loads by (simp add: run_daemon_def override_idle_def) (simp add: demo_started_def)
qed

lemma demo_live: "live (sv_daemon demo_started) ''dev'' = Some (spawn_env demo_runtime)"
  by (simp add: demo_started_def)

lemma demo_disk: "sv_disk demo_started = sample_disk"
  by (simp add: demo_started_def)

lemma demo_env_entry: "bt_get (envs demo_config) ''dev'' = Some (daemon_env MySql (Some ''b''))"
  by (simp add: demo_config_def daemon_config_def)

lemma demo_turn_ok: "turn_ok demo_turn"
  by (simp add: turn_ok_def demo_turn_def SALT_LEN_def NONCE_LEN_def)

section \<open>What every reachable server promises\<close>

text \<open>
  C2 (the daemon serves its configuration). In every reachable state, after any sequence of control
  requests, failing ones included, and of connections: as long as the sealed configuration loads, every
  environment being served is in it, and new connections get the engine, policy, verifier and listening
  address it has there. A revoked token or a tightened policy is therefore never served on.
\<close>

theorem served_matches_config:
  assumes "served sv st" and "state_env_ok (sv_state sv)" and "loads (sv_state sv) (sv_disk st) c"
    and "live (sv_daemon st) nm = Some hdl"
  shows "\<exists>e. bt_get (envs c) nm = Some e \<and> rt_name (current hdl) = nm \<and>
    rt_engine (current hdl) = engine_for (engine e) \<and> rt_policy (current hdl) = env_policy e \<and>
    rt_client_auth (current hdl) = client_auth e \<and>
    listen_addr_of (listen_host (sv_daemon st)) (listen_port e) = Some (rt_listen_addr (current hdl))"
  using served_live [OF assms] by (auto simp: runtime_matches_def)

theorem served_matches_config_witness:
  "\<exists>e. bt_get (envs demo_config) ''dev'' = Some e \<and> rt_policy demo_runtime = env_policy e \<and>
     rt_client_auth demo_runtime = client_auth e"
proof -
  have "loads (sv_state demo_server) (sv_disk demo_started) demo_config"
    using demo_loads demo_disk by simp
  from served_matches_config [OF demo_served demo_state_ok this demo_live]
  show ?thesis by (auto simp: spawn_env_def)
qed




definition demo_conn :: "(expr list, unit, unit) conn_env" where
  "demo_conn =
     \<lparr>cn_sha1 = (\<lambda>b. replicate 20 0), cn_sha256 = (\<lambda>b. b), cn_scramble = replicate 20 5, cn_pid = 1,
      cn_secret = 2, cn_parser = re_parser (sample_router True), cn_audit = re_audit (sample_router True),
      cn_floats = re_floats (sample_router True), cn_pg_floats = pe_floats sample_pg,
      cn_mysql = (\<lambda>p. re_backend (sample_router True)), cn_pg = (\<lambda>p. pe_backend sample_pg),
      cn_info_enabled = True, cn_router_text = (\<lambda>e. ''error'')\<rparr>"

lemma demo_connection:
  "\<exists>inp r out ev. handle_one demo_conn demo_runtime 1 inp () = (r, out, ev, ()) \<and>
     MySqlEvent (Queried ''SELECT 1'') \<in> set ev"
proof -
  let ?sha = "\<lambda>b :: bytes. replicate 20 0 :: bytes"
  let ?ar = "native_response ?sha (as_bytes ''t'') (sanitize_scramble (replicate 20 5))"
  let ?pkt = "build_handshake_response (as_bytes ''dev'') ?ar None NATIVE_PLUGIN"
  let ?q = "packet_bytes 0 (0x03 # as_bytes ''SELECT 1'')"
  have len: "length ?ar = 20" by (simp add: native_response_def Let_def)
  have "\<exists>out. handshake ?sha (replicate 20 5) ''dev'' (NativePassword (double_sha1 ?sha (as_bytes ''t''))) 1
      (packet_bytes 1 ?pkt @ ?q) = (Inr \<lparr>as_env_name = ''dev'', as_client_username = ''dev'',
         as_database = map_option from_utf8_lossy None\<rparr>, out, ?q)"
  proof (rule handshake_accepts_token [where token = "''t''"])
    show "utf8_text ''dev''" unfolding utf8_text_def
      by (rule valid_utf8_ascii) (simp add: char_byte_def)
    show "length ?pkt < MAX_PAYLOAD"
      using len by (simp add: build_handshake_response_caps NATIVE_PLUGIN_def MAX_PAYLOAD_def)
  qed (simp_all add: char_byte_def)
  then obtain out where h: "handshake ?sha (replicate 20 5) ''dev'' (NativePassword (replicate 20 0)) 1
      (packet_bytes 1 ?pkt @ ?q) = (Inr \<lparr>as_env_name = ''dev'', as_client_username = ''dev'',
         as_database = None\<rparr>, out, ?q)"
    by (auto simp: double_sha1_def)
  obtain r0 ev b' where v: "serve_session (sample_router True) ?q () = (r0, ev, b')"
    "Queried ''SELECT 1'' \<in> set ev" using sample_session [of True] by blast
  have "router_env_of demo_conn \<lparr>ses_env_name = ''dev'', ses_client_username_seen = ''dev'',
      ses_database = None\<rparr> p ReadOnly = sample_router True" for p
    by (simp add: router_env_of_def demo_conn_def) (simp add: sample_router_def)
  then have "\<exists>r. handle_one demo_conn demo_runtime 1 (packet_bytes 1 ?pkt @ ?q) ()
      = (r, out, map MySqlEvent ev, ())"
    using h v by (simp add: handle_one_def demo_runtime_def) (simp add: demo_conn_def)
  then show ?thesis using v(2) by (force intro: imageI)
qed


text \<open>
  C24 (connections in flight are left alone). Whatever control request comes in, and however it fails,
  an environment that is still served afterwards keeps, for every connection in flight, the runtime
  snapshot the connection started with; a new environment starts with none.
\<close>

theorem request_keeps_in_flight:
  assumes "served sv st" and "state_env_ok (sv_state sv)" and "turn_ok tn"
    and "live (sv_daemon (snd (dispatch sv tn peer req st))) nm = Some hdl'"
  shows "in_flight hdl' = (case live (sv_daemon st) nm of Some hdl \<Rightarrow> in_flight hdl | None \<Rightarrow> [])"
proof -
  have "ready sv tn st" using assms(1-3) served_ok by (simp add: ready_def)
  then have "flight_kept (live (sv_daemon st)) (live (sv_daemon (snd (dispatch sv tn peer req st))))"
    using dispatch_good by (fastforce simp: good_step_def)
  then show ?thesis
    using assms(4) unfolding flight_kept_def by (cases "live (sv_daemon st) nm") force+
qed

theorem request_keeps_in_flight_witness:
  "in_flight (the (live (sv_daemon (snd (dispatch demo_server demo_turn demo_peer ListEnvs
      (server_step demo_server (Connected ''dev'') demo_started)))) ''dev'')) = [demo_runtime]"
proof -
  let ?st = "server_step demo_server (Connected ''dev'') demo_started"
  have s: "served demo_server ?st"
    by (rule served.step [OF demo_served]) (simp add: event_ok_def)
  have l: "live (sv_daemon ?st) ''dev'' = Some \<lparr>current = demo_runtime, in_flight = [demo_runtime]\<rparr>"
    using demo_live by (simp add: accept_conn_def spawn_env_def)
  have "sv_daemon (snd (dispatch demo_server demo_turn demo_peer ListEnvs ?st)) = sv_daemon ?st"
    by (simp add: list_envs_def list_rows_def fail_msg_def allow_def emit_def split: sum.splits)
  then have "live (sv_daemon (snd (dispatch demo_server demo_turn demo_peer ListEnvs ?st))) ''dev''
      = Some \<lparr>current = demo_runtime, in_flight = [demo_runtime]\<rparr>"
    using l by simp
  from request_keeps_in_flight [OF s demo_state_ok demo_turn_ok this] this l show ?thesis
    by (simp del: server_step.simps dispatch.simps)
qed

end
