(* ===== verification/Control_Conn.thy ===== *)
theory Control_Conn
  imports Server_Reach
begin

text \<open>
  \<open>crates/mwsqld/src/control/mod.rs\<close> and the accept loop of \<open>control/unix.rs\<close>: one
  connection of the control channel, from the bytes of the peer to the state of the daemon, and the
  limit on connections served at a time. The input of a connection is what the peer sends in time: a
  read that needs more fails, because the peer closed or because \<open>READ_TIMEOUT\<close> passed, which
  the code treats alike. The CBOR coder of requests and responses is an argument.
\<close>

section \<open>Frames of a connection\<close>

datatype request_error =
    RequestLength
  | RequestTooLong nat
  | RequestBody
  | RequestFrame frame_error

definition read_request :: "(bytes \<Rightarrow> string + request) \<Rightarrow> bytes \<Rightarrow> request_error + request \<times> bytes" where
  "read_request dec inp =
     (case inp of
        a # b # c # d # rest \<Rightarrow>
          (let len = unat (from_be32 a b c d)
           in if len > MAX_FRAME then Inl (RequestTooLong len)
              else if length rest < len then Inl RequestBody
              else (case read_frame dec ([a, b, c, d] @ take len rest) of
                      Inl e \<Rightarrow> Inl (RequestFrame e)
                    | Inr (req, _) \<Rightarrow> Inr (req, drop len rest)))
      | _ \<Rightarrow> Inl RequestLength)"

text \<open>What a connection does that others can see, in order.\<close>

datatype conn_event =
    PeerResolved auth_decision peer_identity
  | PendingDrained
  | Dispatched request
  | ResponseWritten bytes

definition write_response :: "(response \<Rightarrow> string + bytes) \<Rightarrow> response \<Rightarrow> conn_event list" where
  "write_response enc resp =
     (case write_frame enc resp of Inl _ \<Rightarrow> [] | Inr b \<Rightarrow> [ResponseWritten b])"

section \<open>One connection\<close>

definition handle_conn ::
  "(bytes \<Rightarrow> string + request) \<Rightarrow> (response \<Rightarrow> string + bytes) \<Rightarrow> ('w, 'h) server_env \<Rightarrow> 'w turn
     \<Rightarrow> auth_decision \<times> peer_identity \<Rightarrow> bytes \<Rightarrow> 'h server \<Rightarrow> conn_event list \<times> 'h server" where
  "handle_conn dec enc sv tn resolved inp st =
     (case read_request dec inp of
        Inl _ \<Rightarrow> ([], st)
      | Inr (Hello version, rest) \<Rightarrow>
          (if version \<noteq> PROTOCOL_VERSION
           then (PendingDrained #
                 write_response enc (RError ''protocol version mismatch; upgrade the client''), st)
           else (let (verdict, peer) = resolved
                 in case verdict of
                      AuthDeny reason \<Rightarrow>
                        ([PeerResolved verdict peer, PendingDrained] @
                           write_response enc (RDenied reason),
                         emit (admin_event_of tn peer ''authz'' [] AuditDeny (Some reason)) st)
                    | AuthAllow \<Rightarrow>
                        (case read_request dec rest of
                           Inl _ \<Rightarrow> ([PeerResolved verdict peer], st)
                         | Inr (req, _) \<Rightarrow>
                             (let (resp, st') = dispatch sv tn peer req st
                              in ([PeerResolved verdict peer, Dispatched req] @
                                    write_response enc resp, st')))))
      | Inr (_, rest) \<Rightarrow>
          (PendingDrained # write_response enc (RError ''expected a Hello preamble first''), st))"

section \<open>The accept loop\<close>

definition MAX_INFLIGHT :: nat where "MAX_INFLIGHT = 16"

text \<open>The loop holds one permit for each running handler; an accepted connection that finds none
  blocks the loop, the shutdown included, until a handler ends.\<close>

record control_loop =
  cl_running :: nat
  cl_waiting :: bool
  cl_stopped :: bool

datatype loop_event = ConnArrived | HandlerEnded | LoopShutdown

definition loop_start :: control_loop where
  "loop_start = \<lparr>cl_running = 0, cl_waiting = False, cl_stopped = False\<rparr>"

text \<open>\<open>None\<close>: the event cannot happen in this state.\<close>

definition loop_step :: "loop_event \<Rightarrow> control_loop \<Rightarrow> control_loop option" where
  "loop_step ev l =
     (case ev of
        ConnArrived \<Rightarrow>
          if cl_stopped l \<or> cl_waiting l then None
          else if cl_running l < MAX_INFLIGHT then Some (l\<lparr>cl_running := cl_running l + 1\<rparr>)
          else Some (l\<lparr>cl_waiting := True\<rparr>)
      | HandlerEnded \<Rightarrow>
          if cl_running l = 0 then None
          else if cl_waiting l then Some (l\<lparr>cl_waiting := False\<rparr>)
          else Some (l\<lparr>cl_running := cl_running l - 1\<rparr>)
      | LoopShutdown \<Rightarrow>
          if cl_stopped l \<or> cl_waiting l then None else Some (l\<lparr>cl_stopped := True\<rparr>))"

fun loop_run :: "loop_event list \<Rightarrow> control_loop \<Rightarrow> control_loop option" where
  "loop_run [] l = Some l"
| "loop_run (ev # evs) l = (case loop_step ev l of None \<Rightarrow> None | Some l' \<Rightarrow> loop_run evs l')"

section \<open>Reading\<close>

text \<open>The daemon's reader is the shared one, applied to one frame.\<close>

lemma read_request_frame:
  "read_request dec inp = Inr r \<longleftrightarrow> read_frame dec inp = Inr r"
proof (cases "read_body inp")
  case (Inl e)
  then show ?thesis
    by (auto simp: read_request_def read_frame_def read_body_def Let_def split: list.splits if_splits)
next
  case (Inr p)
  obtain body rest where p: "p = (body, rest)" by (cases p)
  obtain a b c d tl' where inp: "inp = a # b # c # d # tl'"
    using Inr by (auto simp: read_body_def split: list.splits)
  have len: "\<not> unat (from_be32 a b c d) > MAX_FRAME" "\<not> length tl' < unat (from_be32 a b c d)"
    "body = take (unat (from_be32 a b c d)) tl'" "rest = drop (unat (from_be32 a b c d)) tl'"
    using Inr p inp by (auto simp: read_body_def Let_def split: if_splits)
  have "read_body ([a, b, c, d] @ take (unat (from_be32 a b c d)) tl') = Inr (body, [])"
    using len by (simp add: read_body_def Let_def)
  then have one: "read_frame dec ([a, b, c, d] @ take (unat (from_be32 a b c d)) tl') =
      (case dec body of Inl e \<Rightarrow> Inl (CborDecode e) | Inr m \<Rightarrow> Inr (m, []))"
    by (simp add: read_frame_def)
  have whole: "read_frame dec inp = (case dec body of Inl e \<Rightarrow> Inl (CborDecode e) | Inr m \<Rightarrow> Inr (m, rest))"
    using Inr p by (simp add: read_frame_def)
  have here: "read_request dec inp =
      (case dec body of Inl e \<Rightarrow> Inl (RequestFrame (CborDecode e)) | Inr m \<Rightarrow> Inr (m, rest))"
    using len one by (simp add: read_request_def inp Let_def split: sum.splits)
  show ?thesis unfolding here whole by (cases "dec body") auto
qed

lemma read_request_error:
  "(\<exists>e. read_request dec inp = Inl e) \<longleftrightarrow> (\<exists>e. read_frame dec inp = Inl e)"
  by (metis read_request_frame sum.exhaust sum.distinct(1))

lemma read_request_frame_bytes:
  assumes "dec body = Inr m" and "length body \<le> MAX_FRAME"
  shows "read_request dec (frame_bytes body @ rest) = Inr (m, rest)"
  unfolding read_request_frame read_frame_def read_body_frame_bytes [OF assms(2)] by (simp add: assms(1))

section \<open>Who reaches the handlers\<close>

lemma write_response_quiet [simp]:
  "Dispatched req \<notin> set (write_response enc resp)" "PeerResolved a p \<notin> set (write_response enc resp)"
  by (simp_all add: write_response_def split: sum.splits)

lemmas handle_conn_cases = handle_conn_def Let_def

text \<open>A connection is one of the steps of the server, or none.\<close>

lemma handle_conn_step:
  "snd (handle_conn dec enc sv tn resolved inp st) = st \<or>
   (\<exists>peer req. snd (handle_conn dec enc sv tn resolved inp st) = server_step sv (Requested tn peer req) st) \<or>
   (\<exists>peer reason. snd (handle_conn dec enc sv tn resolved inp st) = server_step sv (Refused tn peer reason) st)"
proof (cases "read_request dec inp")
  case (Inl e)
  then show ?thesis by (simp add: handle_conn_cases)
next
  case (Inr p)
  obtain m rest where p: "p = (m, rest)" by (cases p)
  obtain verdict peer where r: "resolved = (verdict, peer)" by (cases resolved)
  show ?thesis
  proof (cases "m = Hello PROTOCOL_VERSION")
    case True
    then show ?thesis using Inr p r
      by (cases verdict; cases "read_request dec rest")
        (auto simp: handle_conn_cases split: prod.splits, metis snd_conv)
  next
    case False
    then show ?thesis using Inr p by (cases m) (simp_all add: handle_conn_cases)
  qed
qed

lemma handle_conn_served:
  assumes "served sv st" and "turn_ok tn"
  shows "served sv (snd (handle_conn dec enc sv tn resolved inp st))"
  using handle_conn_step [of dec enc sv tn resolved inp st] assms
  by (auto simp del: server_step.simps intro!: served.step simp: event_ok_def)

text \<open>Whoever vouches for the peer, a dispatched request is the second frame after a good Hello.\<close>

lemma handle_conn_dispatched_iff:
  "Dispatched req \<in> set (fst (handle_conn dec enc sv tn (verdict, peer) inp st)) \<longleftrightarrow>
     verdict = AuthAllow \<and> (\<exists>r r'. read_request dec inp = Inr (Hello PROTOCOL_VERSION, r) \<and>
       read_request dec r = Inr (req, r'))"
proof (cases "read_request dec inp")
  case (Inl e)
  then show ?thesis by (simp add: handle_conn_cases)
next
  case (Inr p)
  obtain m rest where p: "p = (m, rest)" by (cases p)
  show ?thesis
  proof (cases "m = Hello PROTOCOL_VERSION")
    case True
    then show ?thesis using Inr p
      by (cases verdict; cases "read_request dec rest") (auto simp: handle_conn_cases split: prod.splits)
  next
    case False
    then show ?thesis using Inr p by (cases m) (simp_all add: handle_conn_cases)
  qed
qed

text \<open>
  C9 (who reaches the handlers). A request is dispatched on a control connection exactly when the peer's
  first frame is a Hello of this protocol version, the operating system vouches for the peer as root or a
  member of the admins group, and the request is the second frame: there is no other way in.
\<close>

theorem control_request_dispatched_iff:
  "Dispatched req \<in> set (fst (handle_conn dec enc sv tn (resolve_peer dbg uf) inp st)) \<longleftrightarrow>
     is_admin uf \<and> (\<exists>r r'. read_request dec inp = Inr (Hello PROTOCOL_VERSION, r) \<and>
       read_request dec r = Inr (req, r'))"
proof -
  obtain verdict peer where r: "resolve_peer dbg uf = (verdict, peer)" by (cases "resolve_peer dbg uf")
  have "is_admin uf \<longleftrightarrow> verdict = AuthAllow"
    using r by (auto simp: resolve_peer_def is_admin_def authorize_unix_iff Let_def split: option.splits)
  then show ?thesis by (simp add: r handle_conn_dispatched_iff)
qed

text \<open>
  A refused peer changes nothing. Whatever a peer without the admin rights sends, the sealed
  configuration and the running environments stay as they are. One that got past the version check, even
  if it never sends a request, leaves exactly one denial in the audit log; any other leaves none.
\<close>

theorem refused_peer_changes_nothing:
  assumes "\<not> is_admin uf"
  shows "(let st' = snd (handle_conn dec enc sv tn (resolve_peer dbg uf) inp st);
              hello = (\<exists>r. read_request dec inp = Inr (Hello PROTOCOL_VERSION, r))
          in sv_disk st' = sv_disk st \<and> sv_daemon st' = sv_daemon st \<and>
             (\<exists>reason. sv_log st' = sv_log st @
                (if hello then [admin_event_of tn (snd (resolve_peer dbg uf)) ''authz'' [] AuditDeny (Some reason)]
                 else [])))"
proof -
  obtain reason peer where r: "resolve_peer dbg uf = (AuthDeny reason, peer)"
    using assms by (cases "resolve_peer dbg uf"; cases "fst (resolve_peer dbg uf)")
      (auto simp: resolve_peer_def is_admin_def authorize_unix_iff Let_def split: option.splits)
  show ?thesis
  proof (cases "read_request dec inp")
    case (Inl e)
    then show ?thesis by (simp add: handle_conn_cases)
  next
    case (Inr p)
    obtain m rest where p: "p = (m, rest)" by (cases p)
    show ?thesis
    proof (cases "m = Hello PROTOCOL_VERSION")
      case True
      then show ?thesis using Inr p r by (auto simp: handle_conn_cases emit_def)
    next
      case False
      then show ?thesis using Inr p by (cases m) (simp_all add: handle_conn_cases)
    qed
  qed
qed

definition demo_dec :: "bytes \<Rightarrow> string + request" where
  "demo_dec b = (case b of [] \<Rightarrow> Inr (Hello PROTOCOL_VERSION) | _ \<Rightarrow> Inr ListCreds)"

definition stranger :: unix_facts where
  "stranger = \<lparr>uf_creds = Some (1000, 1000), uf_user = (\<lambda>_. Some (''eve'', 1000)),
     uf_group = (\<lambda>_. Some \<lparr>grp_gid = 7, grp_members = [''alice'']\<rparr>)\<rparr>"

theorem refused_peer_changes_nothing_witness:
  "\<exists>reason. sv_log (snd (handle_conn demo_dec (\<lambda>r. Inr []) demo_server demo_turn (resolve_peer id stranger)
       [0, 0, 0, 0, 0, 0, 0, 1, 9] demo_started)) =
     sv_log demo_started @ [admin_event_of demo_turn \<lparr>peer_uid = Some 1000, peer_gid = Some 1000, peer_user = ''eve''\<rparr>
       ''authz'' [] AuditDeny (Some reason)]"
proof -
  have n: "\<not> is_admin stranger" by (simp add: is_admin_def stranger_def)
  have h: "\<exists>r. read_request demo_dec [0, 0, 0, 0, 0, 0, 0, 1, 9] = Inr (Hello PROTOCOL_VERSION, r)"
    by (simp add: read_request_frame read_frame_def read_body_def from_be32_def demo_dec_def MAX_FRAME_def)
  have p: "snd (resolve_peer id stranger) = \<lparr>peer_uid = Some 1000, peer_gid = Some 1000, peer_user = ''eve''\<rparr>"
    by (simp add: resolve_peer_def stranger_def)
  from refused_peer_changes_nothing [OF n, of demo_dec "\<lambda>r. Inr []" demo_server demo_turn id
      "[0, 0, 0, 0, 0, 0, 0, 1, 9]" demo_started] h p
  show ?thesis by (simp add: Let_def)
qed

section \<open>The limit\<close>

lemma loop_step_bounded:
  assumes "loop_step ev l = Some l'" and "cl_running l \<le> MAX_INFLIGHT"
    and "cl_waiting l \<longrightarrow> cl_running l = MAX_INFLIGHT"
  shows "cl_running l' \<le> MAX_INFLIGHT \<and> (cl_waiting l' \<longrightarrow> cl_running l' = MAX_INFLIGHT)"
  using assms by (auto simp: loop_step_def split: loop_event.splits if_splits)

lemma loop_run_bounded:
  "loop_run evs l = Some l' \<Longrightarrow> cl_running l \<le> MAX_INFLIGHT \<Longrightarrow>
   (cl_waiting l \<longrightarrow> cl_running l = MAX_INFLIGHT) \<Longrightarrow>
   cl_running l' \<le> MAX_INFLIGHT \<and> (cl_waiting l' \<longrightarrow> cl_running l' = MAX_INFLIGHT)"
proof (induction evs arbitrary: l)
  case (Cons ev evs)
  then obtain m where m: "loop_step ev l = Some m" "loop_run evs m = Some l'"
    by (auto split: option.splits)
  show ?case using Cons.IH [OF m(2)] loop_step_bounded [OF m(1) Cons.prems(2,3)] by blast
qed simp

text \<open>
  C25 (a bounded number of handlers). However connections come and end, at most sixteen control handlers
  run at once; the loop only blocks when all sixteen do, and the end of any one of them lets the waiting
  connection in.
\<close>

theorem control_connections_bounded:
  assumes "loop_run evs loop_start = Some l"
  shows "cl_running l \<le> MAX_INFLIGHT \<and>
    (cl_waiting l \<longrightarrow> cl_running l = MAX_INFLIGHT \<and> loop_step HandlerEnded l = Some (l\<lparr>cl_waiting := False\<rparr>))"
proof -
  have "cl_running l \<le> MAX_INFLIGHT \<and> (cl_waiting l \<longrightarrow> cl_running l = MAX_INFLIGHT)"
    using loop_run_bounded [OF assms] by (simp add: loop_start_def MAX_INFLIGHT_def)
  then show ?thesis by (auto simp: loop_step_def MAX_INFLIGHT_def)
qed

theorem control_connections_bounded_witness:
  "\<exists>l. loop_run (replicate 17 ConnArrived) loop_start = Some l \<and> cl_waiting l \<and>
     cl_running l \<le> MAX_INFLIGHT \<and> loop_step HandlerEnded l = Some (l\<lparr>cl_waiting := False\<rparr>)"
proof -
  have r: "loop_run (replicate 17 ConnArrived) loop_start =
      Some \<lparr>cl_running = 16, cl_waiting = True, cl_stopped = False\<rparr>"
    by (simp add: numeral_eq_Suc loop_step_def loop_start_def MAX_INFLIGHT_def)
  from control_connections_bounded [OF r] r show ?thesis by auto
qed

end
