(* ===== verification/Conn_Url.thy ===== *)
theory Conn_Url
  imports Config Str_Ops
begin

text \<open>
  Connection strings: the URL the administrator's tool prints for a new environment
  (\<open>crates/mwsqlctl/src/lib.rs\<close>), the connection URL \<open>env add --url\<close> takes and the
  host-key fingerprint it accepts (\<open>crates/mwsqlctl/src/ops.rs\<close>). The \<open>url\<close> crate's
  parser and the percent decoder are arguments.
\<close>

section \<open>Printing\<close>

definition unreserved :: "char \<Rightarrow> bool" where
  "unreserved c \<longleftrightarrow> is_alnum c \<or> c \<in> set ''-._~''"

definition upper_hex :: "nat \<Rightarrow> char" where
  "upper_hex n = (if n < 10 then char_of (48 + n) else char_of (55 + n))"

definition pct_char :: "char \<Rightarrow> string" where
  "pct_char c =
     (if unreserved c then [c]
      else [CHR 0x25, upper_hex (of_char c div 16), upper_hex (of_char c mod 16)])"

definition pct :: "string \<Rightarrow> string" where
  "pct s = concat (map pct_char s)"

definition engine_uri ::
  "engine_kind \<Rightarrow> string \<Rightarrow> string \<Rightarrow> u16 \<Rightarrow> string option \<Rightarrow> string option" where
  "engine_uri eng env_name token p database =
     (let authority = pct env_name @ '':'' @ pct token @ ''@127.0.0.1:'' @ show_nat (unat p);
          path = (case database of
                    Some db \<Rightarrow> if db \<noteq> [] then ''/'' @ pct db else []
                  | None \<Rightarrow> [])
      in case eng of
           Postgres \<Rightarrow> Some (''postgresql://'' @ authority @ path @ ''?sslmode=disable'')
         | MySql \<Rightarrow> Some (''mysql://'' @ authority @ path)
         | MsSql \<Rightarrow> None)"

section \<open>Reading\<close>

text \<open>What the \<open>url\<close> crate gives of a URL; the texts are still percent-encoded.\<close>

record url_parts =
  url_scheme :: string
  url_host :: "string option"
  url_port :: "u16 option"
  url_username :: string
  url_password :: "string option"
  url_path :: string

record parsed_url =
  pu_engine :: engine_kind
  pu_host :: string
  pu_port :: "u16 option"
  pu_database :: "string option"
  pu_db_user :: string
  pu_password :: "string option"

datatype url_error =
    UrlInvalid string
  | UrlScheme string
  | UrlNoHost
  | UrlNoUser

definition url_engine :: "string \<Rightarrow> engine_kind option" where
  "url_engine scheme =
     (if scheme = ''postgres'' \<or> scheme = ''postgresql'' then Some Postgres
      else if scheme = ''mysql'' \<or> scheme = ''mariadb'' then Some MySql
      else None)"

definition parse_connection_url ::
  "(string \<Rightarrow> string + url_parts) \<Rightarrow> (string \<Rightarrow> string) \<Rightarrow> string \<Rightarrow> url_error + parsed_url" where
  "parse_connection_url parse percent_decode raw =
     (case parse raw of
        Inl e \<Rightarrow> Inl (UrlInvalid e)
      | Inr u \<Rightarrow>
     (case url_engine (url_scheme u) of
        None \<Rightarrow> Inl (UrlScheme (url_scheme u))
      | Some eng \<Rightarrow>
     (case url_host u of
        None \<Rightarrow> Inl UrlNoHost
      | Some h \<Rightarrow>
          if h = [] then Inl UrlNoHost
          else (let db_user = percent_decode (url_username u);
                    path = dropWhile (\<lambda>c. c = CHR ''/'') (url_path u)
                in if db_user = [] then Inl UrlNoUser
                   else Inr \<lparr>pu_engine = eng, pu_host = h, pu_port = url_port u,
                             pu_database = (if path = [] then None else Some (percent_decode path)),
                             pu_db_user = db_user,
                             pu_password = map_option percent_decode (url_password u)\<rparr>))))"

definition parse_fingerprint :: "string \<Rightarrow> host_key_fingerprint option" where
  "parse_fingerprint s =
     (case split_once (CHR '':'') s of
        None \<Rightarrow> None
      | Some (a, b) \<Rightarrow> Some \<lparr>algo = a, sha256_b64 = b\<rparr>)"

datatype fingerprint_error = TooManyFingerprints nat | MalformedFingerprint

definition single_fingerprint :: "string list \<Rightarrow> fingerprint_error + host_key_fingerprint option" where
  "single_fingerprint fps =
     (if length fps > 1 then Inl (TooManyFingerprints (length fps))
      else (case fps of
              [] \<Rightarrow> Inr None
            | s # _ \<Rightarrow>
                (case parse_fingerprint s of
                   None \<Rightarrow> Inl MalformedFingerprint
                 | Some fp \<Rightarrow> Inr (Some fp))))"

section \<open>The printed URL is unambiguous\<close>

text \<open>What the tools rely on of the percent decoder: an escape becomes its byte, any other byte stays.
  (The texts are UTF-8, so decoding them is lossless.)\<close>

definition percent_laws :: "(string \<Rightarrow> string) \<Rightarrow> bool" where
  "percent_laws dec \<longleftrightarrow>
     dec [] = [] \<and> (\<forall>c s. c \<noteq> CHR 0x25 \<longrightarrow> dec (c # s) = c # dec s) \<and>
     (\<forall>n m s. n < 16 \<and> m < 16 \<longrightarrow>
        dec (CHR 0x25 # upper_hex n # upper_hex m # s) = char_of (16 * n + m) # dec s)"

lemma pct_simps [simp]: "pct [] = []" "pct (c # s) = pct_char c @ pct s"
  by (simp_all add: pct_def)

lemma of_char_div_16: "of_char c div 16 < (16 :: nat)"
proof -
  have "of_char c < (256 :: nat)" by (metis of_char_mod_256 mod_less_divisor zero_less_numeral)
  then show ?thesis by (simp add: less_mult_imp_div_less)
qed

lemma percent_not_unreserved: "\<not> unreserved CHR 0x25"
  by (simp add: unreserved_def is_alnum_def is_alpha_def is_digit_def char_between_def less_eq_char_def)

lemma decode_pct:
  assumes "percent_laws dec"
  shows "dec (pct s) = s"
proof (induction s)
  case (Cons c s)
  show ?case
  proof (cases "unreserved c")
    case True
    then have "c \<noteq> CHR 0x25" using percent_not_unreserved by metis
    then show ?thesis using assms Cons True by (simp add: pct_char_def percent_laws_def)
  next
    case False
    have "of_char c div 16 < (16 :: nat)" using of_char_div_16 .
    then show ?thesis using assms Cons False by (simp add: pct_char_def percent_laws_def)
  qed
qed (use assms in \<open>simp add: percent_laws_def\<close>)

lemma upper_hex_unreserved: "n < 16 \<Longrightarrow> unreserved (upper_hex n)"
proof -
  have "\<forall>n \<in> set [0..<16]. unreserved (upper_hex n)" by code_simp
  then show "n < 16 \<Longrightarrow> unreserved (upper_hex n)" by simp
qed

lemma pct_safe: "c \<in> set (pct s) \<Longrightarrow> unreserved c \<or> c = CHR 0x25"
proof (induction s)
  case (Cons x s)
  then show ?case
    using upper_hex_unreserved [OF of_char_div_16 [of x]] upper_hex_unreserved [of "of_char x mod 16"]
    by (auto simp: pct_char_def split: if_splits)
qed simp

lemma pct_no_delimiter [simp]:
  "CHR '':'' \<notin> set (pct s)" "CHR ''@'' \<notin> set (pct s)" "CHR ''/'' \<notin> set (pct s)" "CHR ''?'' \<notin> set (pct s)"
  by (auto dest!: pct_safe
      simp: unreserved_def is_alnum_def is_alpha_def is_digit_def char_between_def less_eq_char_def)

lemma pct_Nil [simp]: "pct s = [] \<longleftrightarrow> s = []"
  by (cases s) (auto simp: pct_char_def)

lemma show_nat_delimiter [simp]:
  "CHR '':'' \<notin> set (show_nat n)" "CHR ''/'' \<notin> set (show_nat n)" "CHR ''?'' \<notin> set (show_nat n)"
  by (auto dest!: show_nat_digits simp: is_digit_def char_between_def less_eq_char_def)

text \<open>How a client takes such a URL apart: at the scheme, the first at sign, the colon of the user
  information, the question mark and the first slash.\<close>

record uri_fields =
  uf_scheme :: string
  uf_user_name :: string
  uf_secret :: string
  uf_host_port :: string
  uf_path :: "string option"
  uf_query :: "string option"

definition cut :: "char \<Rightarrow> string \<Rightarrow> string \<times> string option" where
  "cut c s = (case split_once c s of None \<Rightarrow> (s, None) | Some (a, b) \<Rightarrow> (a, Some b))"

definition read_uri :: "(string \<Rightarrow> string) \<Rightarrow> string \<Rightarrow> uri_fields option" where
  "read_uri dec u =
     (case split_once (CHR '':'') u of
        None \<Rightarrow> None
      | Some (scheme, rest) \<Rightarrow>
     (case strip_prefix ''//'' rest of
        None \<Rightarrow> None
      | Some rest' \<Rightarrow>
     (case split_once (CHR ''@'') rest' of
        None \<Rightarrow> None
      | Some (userinfo, rest'') \<Rightarrow>
     (case split_once (CHR '':'') userinfo of
        None \<Rightarrow> None
      | Some (user, secret) \<Rightarrow>
          (let (hier, q) = cut (CHR ''?'') rest''; (hp, path) = cut (CHR ''/'') hier
           in Some \<lparr>uf_scheme = scheme, uf_user_name = dec user, uf_secret = dec secret, uf_host_port = hp,
                    uf_path = map_option dec path, uf_query = q\<rparr>)))))"

lemma cut_append [simp]: "c \<notin> set a \<Longrightarrow> cut c (a @ c # b) = (a, Some b)"
  by (simp add: cut_def split_once_append)

lemma cut_none [simp]: "c \<notin> set a \<Longrightarrow> cut c a = (a, None)"
  by (simp add: cut_def split_once_None [THEN iffD2])

lemma read_uri_parts:
  assumes "CHR '':'' \<notin> set scheme"
  shows "read_uri dec (scheme @ ''://'' @ (pct nm @ '':'' @ pct tok) @ ''@'' @ rest) =
    (let (hier, q) = cut (CHR ''?'') rest; (hp, path) = cut (CHR ''/'') hier
     in Some \<lparr>uf_scheme = scheme, uf_user_name = dec (pct nm), uf_secret = dec (pct tok), uf_host_port = hp,
              uf_path = map_option dec path, uf_query = q\<rparr>)"
proof -
  have "split_once (CHR ''@'') ((pct nm @ CHR '':'' # pct tok) @ CHR ''@'' # rest) =
      Some (pct nm @ CHR '':'' # pct tok, rest)"
    by (rule split_once_append) simp
  then show ?thesis using assms
    by (simp add: read_uri_def split_once_append strip_prefix_def starts_with_def)
qed

text \<open>
  The printed URL is unambiguous. Whatever characters an environment name, a token or a database
  name has, a client that takes the printed URL apart at its delimiters and decodes the pieces gets them
  back, with the local listener as its host; no piece can reach into another.
\<close>

theorem engine_uri_roundtrip:
  assumes "percent_laws dec" and "engine_uri eng nm tok p database = Some u"
  shows "\<exists>f. read_uri dec u = Some f \<and> uf_user_name f = nm \<and> uf_secret f = tok \<and>
    uf_host_port f = ''127.0.0.1:'' @ show_nat (unat p) \<and>
    uf_path f = (case database of Some db \<Rightarrow> if db = [] then None else Some db | None \<Rightarrow> None) \<and>
    (eng = MySql \<and> uf_scheme f = ''mysql'' \<and> uf_query f = None \<or>
     eng = Postgres \<and> uf_scheme f = ''postgresql'' \<and> uf_query f = Some ''sslmode=disable'')"
proof -
  define hp where "hp = ''127.0.0.1:'' @ show_nat (unat p)"
  define path where "path = (case database of Some db \<Rightarrow> if db \<noteq> [] then ''/'' @ pct db else [] | None \<Rightarrow> [])"
  have hp: "CHR ''/'' \<notin> set hp" "CHR ''?'' \<notin> set hp" by (simp_all add: hp_def)
  have pq: "CHR ''?'' \<notin> set (hp @ path)" using hp by (auto simp: path_def split: option.splits)
  have cp: "cut (CHR ''/'') (hp @ path) =
      (hp, (case database of Some db \<Rightarrow> if db = [] then None else Some (pct db) | None \<Rightarrow> None))"
    using hp by (auto simp: path_def split: option.splits)
  have d: "dec (pct x) = x" for x using decode_pct [OF assms(1)] .
  show ?thesis
  proof (cases eng)
    case MySql
    then have u: "u = ''mysql'' @ ''://'' @ (pct nm @ '':'' @ pct tok) @ ''@'' @ (hp @ path)"
      using assms(2) by (simp add: engine_uri_def Let_def hp_def path_def)
    have "read_uri dec u = Some \<lparr>uf_scheme = ''mysql'', uf_user_name = nm, uf_secret = tok,
        uf_host_port = hp, uf_path = map_option dec
          (case database of Some db \<Rightarrow> if db = [] then None else Some (pct db) | None \<Rightarrow> None),
        uf_query = None\<rparr>"
      unfolding u by (subst read_uri_parts) (simp_all only: cut_none [OF pq] cp d prod.case Let_def, simp)
    then show ?thesis using MySql by (auto simp: d hp_def split: option.splits)
  next
    case Postgres
    then have u: "u = ''postgresql'' @ ''://'' @ (pct nm @ '':'' @ pct tok) @ ''@'' @
        ((hp @ path) @ CHR ''?'' # ''sslmode=disable'')"
      using assms(2) by (simp add: engine_uri_def Let_def hp_def path_def)
    have "read_uri dec u = Some \<lparr>uf_scheme = ''postgresql'', uf_user_name = nm, uf_secret = tok,
        uf_host_port = hp, uf_path = map_option dec
          (case database of Some db \<Rightarrow> if db = [] then None else Some (pct db) | None \<Rightarrow> None),
        uf_query = Some ''sslmode=disable''\<rparr>"
      unfolding u by (subst read_uri_parts) (simp_all only: cut_append [OF pq] cp d prod.case Let_def, simp)
    then show ?thesis using Postgres by (auto simp: d hp_def split: option.splits)
  qed (use assms(2) in \<open>simp add: engine_uri_def Let_def\<close>)
qed

text \<open>A percent decoder, for the instance.\<close>

definition hex_value :: "char \<Rightarrow> nat" where
  "hex_value c = (let b = of_char c :: nat in if b < 58 then b - 48 else b - 55)"

fun percent_decode :: "string \<Rightarrow> string" where
  "percent_decode [] = []"
| "percent_decode [c] = [c]"
| "percent_decode [c, d] = [c, d]"
| "percent_decode (c # h # l # s) =
     (if c = CHR 0x25 then char_of (16 * hex_value h + hex_value l) # percent_decode s
      else c # percent_decode (h # l # s))"

lemma percent_decode_laws: "percent_laws percent_decode"
proof -
  have h: "hex_value (upper_hex n) = n" if "n < 16" for n
    using that by (simp add: hex_value_def upper_hex_def Let_def)
  have "percent_decode (c # s) = c # percent_decode s" if "c \<noteq> CHR 0x25" for c s
  proof (cases s)
    case (Cons d t)
    then show ?thesis using that by (cases t) simp_all
  qed simp
  then show ?thesis by (simp add: percent_laws_def h)
qed

theorem engine_uri_roundtrip_witness:
  "\<exists>u f. engine_uri Postgres ''a@b'' ''p/w:d'' 6033 (Some ''my db?'') = Some u \<and>
     read_uri percent_decode u = Some f \<and> uf_user_name f = ''a@b'' \<and> uf_secret f = ''p/w:d'' \<and>
     uf_path f = Some ''my db?''"
proof -
  obtain u where u: "engine_uri Postgres ''a@b'' ''p/w:d'' 6033 (Some ''my db?'') = Some u"
    by (simp add: engine_uri_def Let_def)
  from engine_uri_roundtrip [OF percent_decode_laws u] u show ?thesis by auto
qed

end
