(* ===== verification/Num_Parse.thy ===== *)
theory Num_Parse
  imports Net_Addr Str_Ops
begin

text \<open>
  Rust's \<open>parse\<close> of an unsigned integer: an optional plus sign, at least one decimal digit,
  nothing else, and no value over the type's largest.
\<close>

definition parse_uint :: "nat \<Rightarrow> string \<Rightarrow> nat option" where
  "parse_uint bound s =
     (let t = (case strip_prefix ''+'' s of Some t \<Rightarrow> t | None \<Rightarrow> s)
      in case read_number 10 None True bound t of
           Some (n, []) \<Rightarrow> Some n
         | _ \<Rightarrow> None)"

lemma parse_uint_bound: "parse_uint bound s = Some n \<Longrightarrow> n \<le> bound"
  by (auto simp: parse_uint_def read_number_def Let_def split: option.splits prod.splits list.splits if_splits)

lemma show_nat_no_plus: "strip_prefix ''+'' (show_nat n) = None"
proof -
  obtain c s where "show_nat n = c # s" by (cases "show_nat n") auto
  moreover have "is_digit c" using show_nat_digits [of c n] calculation by simp
  ultimately show ?thesis
    by (auto simp: strip_prefix_def is_digit_def char_between_def less_eq_char_def)
qed

lemma parse_uint_show_nat: "n \<le> bound \<Longrightarrow> parse_uint bound (show_nat n) = Some n"
  using read_number_show_nat [of n bound] by (simp add: parse_uint_def show_nat_no_plus)

end
