(* ===== verification/Control_Client.thy ===== *)
theory Control_Client
  imports Control_Conn Conn_Url Num_Parse
begin

text \<open>
  \<open>crates/mwsqlctl/src/control_client.rs\<close>: the administrator's end of the control channel.
  Which way a command takes, the requests built from the command line, the rows read back, and a call:
  connect, send Hello and the request, read one response. The daemon behind the socket is a function
  from the bytes sent to the bytes it answers; with \<open>handle_conn\<close> as that function the two
  programs are composed.
\<close>

section \<open>Which way a command takes\<close>

datatype mode = Channel | Direct

definition decide_mode :: "bool \<Rightarrow> bool \<Rightarrow> string option \<Rightarrow> string \<Rightarrow> string \<Rightarrow> mode" where
  "decide_mode user offline state_dir_arg resolved default_dir =
     (let explicit = state_dir_arg \<noteq> None; target_is_system = (resolved = default_dir)
      in if \<not> user \<and> \<not> offline \<and> \<not> explicit \<and> target_is_system then Channel else Direct)"

definition direct_mutation_ok :: "bool \<Rightarrow> bool \<Rightarrow> bool \<Rightarrow> bool" where
  "direct_mutation_ok is_user is_mutation reachable \<longleftrightarrow> \<not> is_mutation \<or> is_user \<or> \<not> reachable"

definition offline_privilege_ok :: "bool \<Rightarrow> bool \<Rightarrow> bool \<Rightarrow> bool" where
  "offline_privilege_ok offline target_needs_root privileged \<longleftrightarrow>
     \<not> offline \<or> \<not> target_needs_root \<or> privileged"

section \<open>Requests from the command line\<close>

record bastion_input =
  bn_name :: name
  bn_host :: string
  bn_port :: u16
  bn_ssh_user :: string
  bn_key_file :: "string option"
  bn_password_stdin :: bool
  bn_fingerprints :: "string list"

record env_input =
  en_name :: name
  en_backend_host :: string
  en_backend_port :: "u16 option"
  en_engine :: engine_kind
  en_database :: "string option"
  en_bastion :: "name option"
  en_credential :: name
  en_policy :: policy
  en_listen_port :: "u16 option"
  en_max_pool :: "u32 option"

definition bastion_dto ::
  "bastion_input \<Rightarrow> bastion_auth_input \<Rightarrow> fingerprint_error + bastion_input_dto" where
  "bastion_dto inp secret =
     (case single_fingerprint (bn_fingerprints inp) of
        Inl e \<Rightarrow> Inl e
      | Inr fp \<Rightarrow>
          Inr \<lparr>bi_name = bn_name inp, bi_host = bn_host inp, bi_port = bn_port inp,
               bi_ssh_user = bn_ssh_user inp, bi_auth = secret, bi_fingerprint = fp\<rparr>)"

definition env_dto :: "env_input \<Rightarrow> env_input_dto" where
  "env_dto inp =
     \<lparr>ei_name = en_name inp, ei_backend_host = en_backend_host inp, ei_backend_port = en_backend_port inp,
      ei_engine = en_engine inp, ei_database = en_database inp, ei_bastion = en_bastion inp,
      ei_credential = en_credential inp, ei_policy = en_policy inp, ei_listen_port = en_listen_port inp,
      ei_max_pool = en_max_pool inp\<rparr>"

fun policy_target_of :: "bool \<Rightarrow> bool \<Rightarrow> policy_target option" where
  "policy_target_of True False = Some TargetReadOnly"
| "policy_target_of False True = Some TargetReadWrite"
| "policy_target_of _ _ = None"

section \<open>Rows read back\<close>

record bastion_info =
  bf_name :: name
  bf_host :: string
  bf_pinned :: nat

definition USIZE_MAX :: nat where "USIZE_MAX = 2 ^ 64 - 1"

definition parse_bastion_row :: "string \<Rightarrow> bastion_info option" where
  "parse_bastion_row row =
     (case split_on (CHR 0x09) row of
        nm # endpoint # _ # pinned # _ \<Rightarrow>
          (case strip_prefix ''pinned='' pinned of
             None \<Rightarrow> None
           | Some digits \<Rightarrow>
               (case parse_uint USIZE_MAX digits of
                  None \<Rightarrow> None
                | Some n \<Rightarrow>
                    (let host_port = (case rsplit_once (CHR ''@'') endpoint of Some (_, hp) \<Rightarrow> hp | None \<Rightarrow> endpoint);
                         h = (case rsplit_once (CHR '':'') host_port of Some (h, _) \<Rightarrow> h | None \<Rightarrow> host_port)
                     in Some \<lparr>bf_name = nm, bf_host = h, bf_pinned = n\<rparr>)))
      | _ \<Rightarrow> None)"

definition parse_cred_name :: "string \<Rightarrow> string option" where
  "parse_cred_name row = (case split_on (CHR 0x09) row of nm # _ \<Rightarrow> Some nm | [] \<Rightarrow> None)"

text \<open>What is printed of a probe, one line each, and the names of the failures.\<close>

definition CHECK_MARK :: string where "CHECK_MARK = [CHR 0xE2, CHR 0x9C, CHR 0x93]"
definition CROSS_MARK :: string where "CROSS_MARK = [CHR 0xE2, CHR 0x9C, CHR 0x97]"

definition render_probe_line :: "probe_result_dto \<Rightarrow> string" where
  "render_probe_line r =
     (if pr_ok r then CHECK_MARK @ '' '' @ pr_env r @ '' connected.''
      else if \<not> pr_supported r then ''validation skipped ('' @ pr_env r @ ''): '' @ pr_reason r
      else CROSS_MARK @ '' '' @ pr_env r @ '': '' @ pr_reason r)"

definition render_probe_results :: "probe_result_dto list \<Rightarrow> string list \<times> (string + unit)" where
  "render_probe_results results =
     (if results = [] then ([''validation skipped: no environments configured''], Inr ())
      else (let failed = map pr_env (filter (\<lambda>r. \<not> pr_ok r \<and> pr_supported r) results)
            in (map render_probe_line results,
                if failed \<noteq> [] then Inl (''connection failed: '' @ join_with '', '' failed) else Inr ())))"

section \<open>A call\<close>

datatype exchange_error =
    SendHandshake frame_error
  | SendRequest frame_error
  | ReadResponse frame_error

datatype call_failure =
    CallDenied string
  | CallRefused string
  | CallExchange exchange_error
  | CallSocketDenied string
  | CallConnect string

datatype call_error = Unreachable string | CallFailed call_failure

text \<open>The texts of \<open>finish\<close>.\<close>

definition call_text :: "(exchange_error \<Rightarrow> string) \<Rightarrow> call_failure \<Rightarrow> string" where
  "call_text txt f =
     (case f of
        CallDenied m \<Rightarrow> ''permission denied: '' @ m @ '' (are you in the '' @ ADMIN_GROUP @ '' group?)''
      | CallRefused m \<Rightarrow> m
      | CallExchange e \<Rightarrow> txt e
      | CallSocketDenied p \<Rightarrow> ''permission denied opening the control socket '' @ p @
          '' (need root or membership in '' @ ADMIN_GROUP @ '')''
      | CallConnect p \<Rightarrow> ''connect '' @ p)"

text \<open>\<open>exchange\<close> over a connection whose peer turns the bytes sent into the bytes it answers
  and its own effect.\<close>

definition exchange ::
  "(request \<Rightarrow> string + bytes) \<Rightarrow> (bytes \<Rightarrow> string + response) \<Rightarrow> (bytes \<Rightarrow> bytes \<times> 's) \<Rightarrow> 's \<Rightarrow> request
     \<Rightarrow> (exchange_error + response) \<times> 's" where
  "exchange enc dec peer st req =
     (case write_frame enc (Hello PROTOCOL_VERSION) of
        Inl e \<Rightarrow> (Inl (SendHandshake e), st)
      | Inr hello \<Rightarrow>
     (case write_frame enc req of
        Inl e \<Rightarrow> (Inl (SendRequest e), snd (peer hello))
      | Inr body \<Rightarrow>
          (let (answer, st') = peer (hello @ body)
           in case read_frame dec answer of
                Inl e \<Rightarrow> (Inl (ReadResponse e), st')
              | Inr (resp, _) \<Rightarrow> (Inr resp, st'))))"

definition finish :: "exchange_error + response \<Rightarrow> call_error + response" where
  "finish exchanged =
     (case exchanged of
        Inl e \<Rightarrow> Inl (CallFailed (CallExchange e))
      | Inr resp \<Rightarrow>
          (case resp of
             RDenied m \<Rightarrow> Inl (CallFailed (CallDenied m))
           | RError m \<Rightarrow> Inl (CallFailed (CallRefused m))
           | _ \<Rightarrow> Inr resp))"

datatype io_kind = NotFound | ConnectionRefused | PermissionDenied | OtherIo

definition unix_socket_path :: "string \<Rightarrow> (string \<Rightarrow> bool) \<Rightarrow> string \<Rightarrow> string \<Rightarrow> string" where
  "unix_socket_path os exists state_dir svc =
     (case runtime_dir_for os of
        Some dir \<Rightarrow>
          (let sock = path_join dir (svc @ ''.sock'')
           in if exists sock then sock else path_join state_dir ''control.sock'')
      | None \<Rightarrow> path_join state_dir ''control.sock'')"

text \<open>\<open>call_unix\<close>: \<open>connect\<close> is what connecting to a path gives, the peer or an error.\<close>

definition call_unix ::
  "(request \<Rightarrow> string + bytes) \<Rightarrow> (bytes \<Rightarrow> string + response) \<Rightarrow> string \<Rightarrow> (string \<Rightarrow> bool)
     \<Rightarrow> (string \<Rightarrow> io_kind + (bytes \<Rightarrow> bytes \<times> 's)) \<Rightarrow> string \<Rightarrow> string \<Rightarrow> 's \<Rightarrow> request
     \<Rightarrow> (call_error + response) \<times> 's" where
  "call_unix enc dec os exists connect svc state_dir st req =
     (let p = unix_socket_path os exists state_dir svc
      in case connect p of
           Inl NotFound \<Rightarrow> (Inl (Unreachable p), st)
         | Inl ConnectionRefused \<Rightarrow> (Inl (Unreachable p), st)
         | Inl PermissionDenied \<Rightarrow> (Inl (CallFailed (CallSocketDenied p)), st)
         | Inl OtherIo \<Rightarrow> (Inl (CallFailed (CallConnect p)), st)
         | Inr peer \<Rightarrow>
             (let (r, st') = exchange enc dec peer st req in (finish r, st')))"

definition CONTROL_SERVICE_NAME :: string where "CONTROL_SERVICE_NAME = ''mwsqld''"

definition is_reachable :: "string \<Rightarrow> (string \<Rightarrow> bool) \<Rightarrow> (string \<Rightarrow> io_kind + 'p) \<Rightarrow> string \<Rightarrow> bool" where
  "is_reachable os exists connect state_dir =
     (case connect (unix_socket_path os exists state_dir CONTROL_SERVICE_NAME) of
        Inr _ \<Rightarrow> True
      | Inl e \<Rightarrow> e \<noteq> NotFound \<and> e \<noteq> ConnectionRefused)"

text \<open>\<open>checked_call\<close> and \<open>rows\<close> on the outcome of the call.\<close>

definition OFFLINE_HINT :: string where
  "OFFLINE_HINT = ''`sudo mwsqlctl --offline <cmd>`''"

definition checked :: "(exchange_error \<Rightarrow> string) \<Rightarrow> call_error + response \<Rightarrow> string + response" where
  "checked txt r =
     (case r of
        Inr resp \<Rightarrow> Inr resp
      | Inl (Unreachable p) \<Rightarrow>
          Inl (''the middleWHERE service isn'' @ [CHR 0x27] @ ''t reachable at '' @ p @
            ''; start it, pass --user for a per-user deployment, or run '' @ OFFLINE_HINT @
            '' to edit the sealed config directly.'')
      | Inl (CallFailed f) \<Rightarrow> Inl (call_text txt f))"

section \<open>The two ends together\<close>

definition response_bytes :: "conn_event list \<Rightarrow> bytes" where
  "response_bytes evs = concat (map (\<lambda>ev. case ev of ResponseWritten b \<Rightarrow> b | _ \<Rightarrow> []) evs)"

text \<open>The daemon at the other end of the socket.\<close>

definition daemon_peer ::
  "(bytes \<Rightarrow> string + request) \<Rightarrow> (response \<Rightarrow> string + bytes) \<Rightarrow> ('w, 'h) server_env \<Rightarrow> 'w turn
     \<Rightarrow> auth_decision \<times> peer_identity \<Rightarrow> 'h server \<Rightarrow> bytes \<Rightarrow> bytes \<times> 'h server" where
  "daemon_peer dec enc sv tn resolved st inp =
     (let (evs, st') = handle_conn dec enc sv tn resolved inp st in (response_bytes evs, st'))"

lemma response_bytes_write:
  "response_bytes (evs @ write_response enc resp) =
     response_bytes evs @ (case write_frame enc resp of Inl _ \<Rightarrow> [] | Inr b \<Rightarrow> b)"
  by (simp add: response_bytes_def write_response_def split: sum.splits)

lemma read_request_write:
  "cbor_roundtrip enc dec \<Longrightarrow> write_frame enc req = Inr b \<Longrightarrow> read_request dec (b @ rest) = Inr (req, rest)"
  using read_write_frame by (auto simp: read_request_frame)

lemma handle_conn_authorised:
  assumes "read_request dec inp = Inr (Hello PROTOCOL_VERSION, r)" and "read_request dec r = Inr (req, r')"
    and "dispatch sv tn peer req st = (resp, st')"
  shows "handle_conn dec enc sv tn (AuthAllow, peer) inp st =
    ([PeerResolved AuthAllow peer, Dispatched req] @ write_response enc resp, st')"
  using assms by (simp add: handle_conn_cases)

lemma read_frame_Nil [simp]: "read_frame dec [] = Inl ReadFrameLength"
  by (simp add: read_frame_def read_body_def)

text \<open>Whoever vouches for the peer, its call is the handler.\<close>

lemma exchange_is_dispatch:
  assumes "cbor_roundtrip enc_q dec_q" and "cbor_roundtrip enc_r dec_r"
    and "write_frame enc_q (Hello PROTOCOL_VERSION) = Inr hello" and "write_frame enc_q req = Inr body"
    and "dispatch sv tn peer req st = (resp, st')"
  shows "exchange enc_q dec_r (daemon_peer dec_q enc_r sv tn (AuthAllow, peer) st) st req =
    (case write_frame enc_r resp of Inr _ \<Rightarrow> Inr resp | Inl _ \<Rightarrow> Inl (ReadResponse ReadFrameLength), st')"
proof -
  have h: "read_request dec_q (hello @ body) = Inr (Hello PROTOCOL_VERSION, body)"
    using read_request_write [OF assms(1,3)] .
  have b: "read_request dec_q body = Inr (req, [])"
    using read_request_write [OF assms(1,4), of "[]"] by simp
  have p: "daemon_peer dec_q enc_r sv tn (AuthAllow, peer) st (hello @ body) =
      ((case write_frame enc_r resp of Inl _ \<Rightarrow> [] | Inr out \<Rightarrow> out), st')"
    using handle_conn_authorised [OF h b assms(5), of enc_r]
      response_bytes_write [of "[PeerResolved AuthAllow peer, Dispatched req]" enc_r resp]
    by (simp add: daemon_peer_def response_bytes_def)
  show ?thesis
  proof (cases "write_frame enc_r resp")
    case (Inl e)
    then show ?thesis by (simp add: exchange_def assms(3,4) p)
  next
    case (Inr out)
    then show ?thesis
      using read_write_frame [OF assms(2) Inr, of "[]"] by (simp add: exchange_def assms(3,4) p)
  qed
qed

text \<open>
  C20 (a call is the handler's answer). When the administrator's tool sends a request over the channel and
  the daemon recognises the peer, the tool gets exactly the response the handler returns and the daemon
  is in exactly the state the handler leaves, for every request whose frame is within the limit. Only a
  response over the limit is lost: the tool then reports a broken reply although the change was made.
\<close>

theorem channel_call_is_dispatch:
  assumes "cbor_roundtrip enc_q dec_q" and "cbor_roundtrip enc_r dec_r"
    and "write_frame enc_q (Hello PROTOCOL_VERSION) = Inr hello" and "write_frame enc_q req = Inr body"
    and "resolve_peer dbg uf = (AuthAllow, peer)" and "dispatch sv tn peer req st = (resp, st')"
  shows "exchange enc_q dec_r (daemon_peer dec_q enc_r sv tn (resolve_peer dbg uf) st) st req =
    (case write_frame enc_r resp of Inr _ \<Rightarrow> Inr resp | Inl _ \<Rightarrow> Inl (ReadResponse ReadFrameLength), st')"
  using exchange_is_dispatch [OF assms(1-4,6)] by (simp only: assms(5))

text \<open>A coder of the requests of the instance, and an administrator.\<close>

definition demo_enc_q :: "request \<Rightarrow> string + bytes" where
  "demo_enc_q q = (case q of Hello v \<Rightarrow> if v = PROTOCOL_VERSION then Inr [] else Inl ''no''
     | ListCreds \<Rightarrow> Inr [1] | _ \<Rightarrow> Inl ''no'')"

definition demo_enc_r :: "response \<Rightarrow> string + bytes" where
  "demo_enc_r r = (case r of RRows [] \<Rightarrow> Inr [] | RRows [row] \<Rightarrow> Inr (0 # as_bytes row) | _ \<Rightarrow> Inl ''no'')"

definition demo_dec_r :: "bytes \<Rightarrow> string + response" where
  "demo_dec_r b = (case b of [] \<Rightarrow> Inr (RRows []) | _ # bs \<Rightarrow> Inr (RRows [of_bytes bs]))"

definition root_peer :: unix_facts where
  "root_peer = \<lparr>uf_creds = Some (0, 0), uf_user = (\<lambda>_. Some (''root'', 0)),
     uf_group = (\<lambda>_. Some \<lparr>grp_gid = 7, grp_members = []\<rparr>)\<rparr>"

lemma demo_coders: "cbor_roundtrip demo_enc_q demo_dec" "cbor_roundtrip demo_enc_r demo_dec_r"
  by (auto simp: cbor_roundtrip_def demo_enc_q_def demo_dec_def demo_enc_r_def demo_dec_r_def
      split: request.splits response.splits list.splits if_splits)

lemma demo_list_creds:
  "dispatch demo_server demo_turn peer ListCreds demo_started =
     (RRows [''c'' @ TAB @ ''u''], emit (admin_event_of demo_turn peer ''list_creds'' [] AuditAllow None) demo_started)"
proof -
  have "reload demo_server demo_turn demo_started = Inr demo_config"
    using demo_loads demo_disk by simp
  moreover have "bt_entries (credentials demo_config) = [(''c'', \<lparr>backend_user = ''u'', backend_password = ''p''\<rparr>)]"
    by (simp add: demo_config_def daemon_config_def)
  ultimately show ?thesis by (simp add: list_creds_def list_rows_def allow_def cred_row_def)
qed

theorem channel_call_is_dispatch_witness:
  "fst (exchange demo_enc_q demo_dec_r (daemon_peer demo_dec demo_enc_r demo_server demo_turn
       (resolve_peer id root_peer) demo_started) demo_started ListCreds) =
   Inr (RRows [''c'' @ TAB @ ''u''])"
proof -
  have f: "write_frame demo_enc_q (Hello PROTOCOL_VERSION) = Inr (frame_bytes [])"
    "write_frame demo_enc_q ListCreds = Inr (frame_bytes [1])"
    by (simp_all add: write_frame_Inr demo_enc_q_def MAX_FRAME_def)
  obtain peer where r: "resolve_peer id root_peer = (AuthAllow, peer)"
    by (simp add: resolve_peer_def root_peer_def authorize_unix_def)
  have w: "write_frame demo_enc_r (RRows [''c'' @ TAB @ ''u'']) =
      Inr (frame_bytes (0 # as_bytes (''c'' @ TAB @ ''u'')))"
    by (simp add: write_frame_Inr demo_enc_r_def MAX_FRAME_def TAB_def)
  from channel_call_is_dispatch [OF demo_coders f r demo_list_creds [of peer]] w show ?thesis by simp
qed

section \<open>Both ends find the same socket\<close>

text \<open>The client dials the daemon's socket exactly when the socket in the runtime directory exists
  iff the daemon uses that directory: a stale one left there diverts it.\<close>

lemma socket_paths_agree:
  "unix_socket_path os exists state_dir SERVICE_NAME = fst (resolve_socket os usable_dir state_dir SERVICE_NAME) \<longleftrightarrow>
     (case runtime_dir_for os of
        None \<Rightarrow> True
      | Some d \<Rightarrow> path_join d (SERVICE_NAME @ ''.sock'') = path_join state_dir ''control.sock'' \<or>
          (exists (path_join d (SERVICE_NAME @ ''.sock'')) \<longleftrightarrow> usable_dir d))"
  by (auto simp: unix_socket_path_def resolve_socket_def choose_socket_def Let_def split: option.splits)

section \<open>Listings are read back\<close>

lemma split_on_plain: "c \<notin> set s \<Longrightarrow> split_on c s = [s]"
  by (induction s) auto

text \<open>
  Listings are read back. The rows the daemon lists bastions and credentials in give the setup
  wizard the name, the host and the number of pinned keys back, whatever the SSH user or the address
  looks like, as long as the texts have no tab and the host no at sign.
\<close>

theorem rows_read_back:
  assumes "CHR 0x09 \<notin> set nm" and "CHR 0x09 \<notin> set (ssh_user b)" and "CHR 0x09 \<notin> set (host b)"
    and "CHR ''@'' \<notin> set (host b)" and "length (pinned_host_keys b) \<le> USIZE_MAX"
  shows "parse_bastion_row (bastion_row (nm, b)) =
      Some \<lparr>bf_name = nm, bf_host = host b, bf_pinned = length (pinned_host_keys b)\<rparr> \<and>
    parse_cred_name (cred_row (nm, c)) = Some nm"
proof -
  define ep where "ep = ssh_user b @ ''@'' @ host b @ '':'' @ show_nat (unat (port b))"
  define kind_text where "kind_text = (case auth b of PasswordAuth _ \<Rightarrow> ''password'' | KeyAuth _ _ \<Rightarrow> ''key'')"
  have digits: "CHR 0x09 \<notin> set (show_nat k)" "CHR ''@'' \<notin> set (show_nat k)" for k
    by (auto dest!: show_nat_digits simp: is_digit_def char_between_def less_eq_char_def)
  have tabs: "CHR 0x09 \<notin> set ep" "CHR 0x09 \<notin> set kind_text"
    using assms(2,3) digits by (auto simp: ep_def kind_text_def split: bastion_auth.splits)
  have row: "bastion_row (nm, b) = nm @ CHR 0x09 # ep @ CHR 0x09 # kind_text @ CHR 0x09 #
      (''pinned='' @ show_nat (length (pinned_host_keys b)))"
    by (simp add: bastion_row_def TAB_def ep_def kind_text_def)
  have fields: "split_on (CHR 0x09) (bastion_row (nm, b)) =
      [nm, ep, kind_text, ''pinned='' @ show_nat (length (pinned_host_keys b))]"
    unfolding row using assms(1) tabs digits by (simp add: split_on_append split_on_plain)
  have at: "rsplit_once (CHR ''@'') ep = Some (ssh_user b, host b @ '':'' @ show_nat (unat (port b)))"
    using rsplit_once_append [of "CHR ''@''" "host b @ '':'' @ show_nat (unat (port b))" "ssh_user b"]
      assms(4) digits by (simp add: ep_def)
  have colon: "rsplit_once (CHR '':'') (host b @ '':'' @ show_nat (unat (port b))) =
      Some (host b, show_nat (unat (port b)))"
    using rsplit_once_append [OF show_nat_no_colon, of "host b"] by simp
  have "parse_bastion_row (bastion_row (nm, b)) =
      Some \<lparr>bf_name = nm, bf_host = host b, bf_pinned = length (pinned_host_keys b)\<rparr>"
    using parse_uint_show_nat [OF assms(5)] at colon
    unfolding parse_bastion_row_def fields by (simp only: list.case strip_prefix_append option.case Let_def prod.case)
  moreover have "split_on (CHR 0x09) (cred_row (nm, c)) = nm # split_on (CHR 0x09) (backend_user c)"
    using split_on_append [OF assms(1)] by (simp add: cred_row_def TAB_def)
  ultimately show ?thesis by (simp add: parse_cred_name_def)
qed

theorem rows_read_back_witness:
  "parse_bastion_row (bastion_row (''jump'', \<lparr>host = ''::1'', port = 22, ssh_user = ''me@corp'',
       auth = PasswordAuth ''p'', pinned_host_keys = []\<rparr>)) = Some \<lparr>bf_name = ''jump'', bf_host = ''::1'', bf_pinned = 0\<rparr>"
  using rows_read_back [of "''jump''" "\<lparr>host = ''::1'', port = 22, ssh_user = ''me@corp'',
       auth = PasswordAuth ''p'', pinned_host_keys = []\<rparr>"]
  by (simp add: USIZE_MAX_def)

end
