(* ===== verification/Import_Poc.thy ===== *)
theory Import_Poc
  imports Mutate Ssh Num_Parse Keyring
begin

text \<open>
  \<open>crates/mwsqlctl/src/import_poc.rs\<close>: a configuration fragment built from a \<open>.env\<close>
  file and a directory of secrets. The files, the base64 coder, the digests, Rust's Unicode case mapping
  and the random bytes of the tokens are the environment of the import.
\<close>

record import_io =
  im_text :: "string \<Rightarrow> string + string"
  im_bytes :: "string \<Rightarrow> string + bytes"
  im_lower :: "string \<Rightarrow> string"
  im_upper :: "string \<Rightarrow> string"
  im_base64 :: "string \<Rightarrow> bytes option"
  im_fingerprint_b64 :: "bytes \<Rightarrow> string"
  im_sha1 :: "bytes \<Rightarrow> bytes"
  im_raw :: "nat \<Rightarrow> bytes"

datatype import_error =
    ReadEnvFile string
  | BadSecretName string
  | ReadSecret string string
  | ReadKey string string
  | HostMissing string
  | NoEnvsFound
  | NoUserOf string
  | CredentialUserUnset string string
  | NoSuchImportedBastion string string
  | FragmentInvalid config_error

record import_report =
  ir_bastions :: "string list"
  ir_credentials :: "string list"
  ir_envs :: "(string \<times> u16) list"
  ir_warnings :: "string list"

section \<open>The \<open>.env\<close> file\<close>

definition unquote :: "string \<Rightarrow> string" where
  "unquote v =
     (if length v \<ge> 2 \<and>
         (hd v = CHR 0x22 \<and> last v = CHR 0x22 \<or> hd v = CHR 0x27 \<and> last v = CHR 0x27)
      then butlast (tl v) else v)"

definition env_entry :: "string \<Rightarrow> (string \<times> string) option" where
  "env_entry raw =
     (let line = trim raw
      in if line = [] \<or> starts_with ''#'' line then None
         else (case split_once (CHR ''='')
                      (case strip_prefix ''export '' line of Some l \<Rightarrow> l | None \<Rightarrow> line) of
                 None \<Rightarrow> None
               | Some (k, v) \<Rightarrow>
                   if trim k = [] then None else Some (trim k, unquote (trim v))))"

definition parse_env :: "string \<Rightarrow> (string, string) btree" where
  "parse_env txt =
     foldl (\<lambda>m raw. case env_entry raw of None \<Rightarrow> m | Some (k, v) \<Rightarrow> bt_insert k v m)
       bt_empty (text_lines txt)"

section \<open>Secrets\<close>

text \<open>A relative path component is what the separators leave; on Unix a path is absolute when it
  starts with a slash.\<close>

definition secret_name_refused :: "string \<Rightarrow> bool" where
  "secret_name_refused nm \<longleftrightarrow>
     nm = [] \<or> CHR ''/'' \<in> set nm \<or> CHR 0x5C \<in> set nm \<or>
     list_ex (\<lambda>c. c = ''..'') (concat (map (split_on (CHR 0x5C)) (split_on (CHR ''/'') nm))) \<or>
     starts_with ''/'' nm"

definition trim_line_end :: "string \<Rightarrow> string" where
  "trim_line_end s = rev (dropWhile (\<lambda>c. c = CHR 0x0A \<or> c = CHR 0x0D) (rev s))"

definition read_secret_file :: "import_io \<Rightarrow> string \<Rightarrow> string \<Rightarrow> import_error + string" where
  "read_secret_file io secrets nm =
     (if secret_name_refused nm then Inl (BadSecretName nm)
      else (case im_text io (path_join secrets nm) of
              Inl e \<Rightarrow> Inl (ReadSecret (path_join secrets nm) e)
            | Inr s \<Rightarrow> Inr (trim_line_end s)))"

text \<open>The next field of \<open>split_whitespace\<close>, and the text after it.\<close>

fun take_word :: "string \<Rightarrow> string \<times> string" where
  "take_word [] = ([], [])"
| "take_word (c # s) =
     (if list_ex (\<lambda>w. starts_with w (c # s)) ws_chars then ([], c # s)
      else (let (a, b) = take_word s in (c # a, b)))"

definition next_word :: "string \<Rightarrow> (string \<times> string) option" where
  "next_word s = (let t = trim_start s in if t = [] then None else Some (take_word t))"

definition three_words :: "string \<Rightarrow> (string \<times> string \<times> string) option" where
  "three_words s =
     (case next_word s of
        None \<Rightarrow> None
      | Some (a, s1) \<Rightarrow>
     (case next_word s1 of
        None \<Rightarrow> None
      | Some (b, s2) \<Rightarrow>
     (case next_word s2 of
        None \<Rightarrow> None
      | Some (c, _) \<Rightarrow> Some (a, b, c))))"

text \<open>One line of \<open>known_hosts\<close>, with its number: nothing, a fingerprint or a warning.\<close>

definition known_host ::
  "import_io \<Rightarrow> nat \<times> string \<Rightarrow> host_key_fingerprint list \<times> string list" where
  "known_host io = (\<lambda>(i, raw).
     (let line = trim raw
      in if line = [] \<or> starts_with ''#'' line then ([], [])
         else (case three_words line of
                 None \<Rightarrow> ([], [''known_hosts line '' @ show_nat (i + 1) @ '' malformed; skipped''])
               | Some (_, alg, blob) \<Rightarrow>
                   (case im_base64 io blob of
                      None \<Rightarrow> ([], [''known_hosts line '' @ show_nat (i + 1) @ '' bad base64; skipped''])
                    | Some wire \<Rightarrow> ([\<lparr>algo = alg, sha256_b64 = im_fingerprint_b64 io wire\<rparr>], [])))))"

definition fingerprints_from_known_hosts ::
  "import_io \<Rightarrow> string \<Rightarrow> host_key_fingerprint list \<times> string list" where
  "fingerprints_from_known_hosts io txt =
     (let rs = map (known_host io) (enumerate 0 (text_lines txt))
      in (concat (map fst rs), concat (map snd rs)))"

section \<open>Bastions\<close>

definition sorted_names :: "string list \<Rightarrow> string list" where
  "sorted_names ns = remdups_adj (sort ns)"

definition bastion_names :: "(string, string) btree \<Rightarrow> string list" where
  "bastion_names vars =
     sorted_names (List.map_filter
       (\<lambda>k. case strip_prefix ''BASTION_'' k of None \<Rightarrow> None | Some r \<Rightarrow> strip_suffix ''_HOST'' r)
       (bt_keys vars))"

definition parsed_or :: "nat \<Rightarrow> nat \<Rightarrow> string option \<Rightarrow> nat" where
  "parsed_or bound dflt v =
     (case v of
        None \<Rightarrow> dflt
      | Some s \<Rightarrow> (case parse_uint bound s of Some n \<Rightarrow> n | None \<Rightarrow> dflt))"

definition or_text :: "string \<Rightarrow> string option \<Rightarrow> string" where
  "or_text dflt v = (case v of Some s \<Rightarrow> s | None \<Rightarrow> dflt)"

definition import_auth ::
  "import_io \<Rightarrow> string \<Rightarrow> (string, string) btree \<Rightarrow> string \<Rightarrow> import_error + bastion_auth" where
  "import_auth io secrets vars up =
     (let lc = im_lower io up
      in if or_text ''password'' (bt_get vars (''BASTION_'' @ up @ ''_SSH_AUTH'')) = ''key''
         then (case im_bytes io (path_join secrets (''bastion_'' @ lc @ ''_key'')) of
                 Inl e \<Rightarrow> Inl (ReadKey lc e)
               | Inr key_bytes \<Rightarrow> Inr (KeyAuth key_bytes None))
         else (case read_secret_file io secrets (''bastion_'' @ lc @ ''_password'') of
                 Inl e \<Rightarrow> Inl e
               | Inr pw \<Rightarrow> Inr (PasswordAuth pw)))"

definition NO_USABLE_PIN :: "string \<Rightarrow> string" where
  "NO_USABLE_PIN lc = ''bastion '' @ lc @ '': no usable pinned host keys. The daemon will '' @
     ''REFUSE this bastion until you add a pinned fingerprint, '' @
     ''unless started with --allow-tofu (insecure).''"

definition UNPINNED :: "string \<Rightarrow> string" where
  "UNPINNED lc = ''bastion '' @ lc @ '': no known_hosts file, host key UNPINNED. The '' @
     ''daemon will REFUSE this bastion until pinned, unless started '' @
     ''with --allow-tofu (insecure).''"

definition import_pins ::
  "import_io \<Rightarrow> string \<Rightarrow> string \<Rightarrow> host_key_fingerprint list \<times> string list" where
  "import_pins io secrets lc =
     (case im_text io (path_join secrets (''bastion_'' @ lc @ ''_known_hosts'')) of
        Inl _ \<Rightarrow> ([], [UNPINNED lc])
      | Inr kh \<Rightarrow>
          (let (fps, warns) = fingerprints_from_known_hosts io kh
           in (fps, warns @ (if fps = [] then [NO_USABLE_PIN lc] else []))))"

definition import_bastion ::
  "import_io \<Rightarrow> string \<Rightarrow> (string, string) btree \<Rightarrow> string \<Rightarrow> config \<times> import_report
     \<Rightarrow> import_error + config \<times> import_report" where
  "import_bastion io secrets vars up = (\<lambda>(cfg, rep).
     (let lc = im_lower io up
      in case bt_get vars (''BASTION_'' @ up @ ''_HOST'') of
           None \<Rightarrow> Inl (HostMissing up)
         | Some h \<Rightarrow>
     (case import_auth io secrets vars up of
        Inl e \<Rightarrow> Inl e
      | Inr secret \<Rightarrow>
          (let (pins, warns) = import_pins io secrets lc
           in Inr (cfg\<lparr>bastions := bt_insert lc
                      \<lparr>host = h,
                       port = word_of_nat (parsed_or 65535 22 (bt_get vars (''BASTION_'' @ up @ ''_PORT''))),
                       ssh_user = or_text [] (bt_get vars (''BASTION_'' @ up @ ''_USER'')),
                       auth = secret, pinned_host_keys = pins\<rparr> (bastions cfg)\<rparr>,
                   rep\<lparr>ir_bastions := ir_bastions rep @ [lc], ir_warnings := ir_warnings rep @ warns\<rparr>)))))"

section \<open>Environments\<close>

definition env_names :: "(string, string) btree \<Rightarrow> string list" where
  "env_names vars =
     sorted_names (filter (\<lambda>p. \<not> starts_with ''BASTION_'' p \<and> bt_contains vars (p @ ''_HOST''))
       (List.map_filter (strip_suffix ''_HOST'') (bt_keys vars)))"

text \<open>The credential of an environment: its name, its user, the file of its password.\<close>

definition env_credential_of ::
  "import_io \<Rightarrow> (string, string) btree \<Rightarrow> string \<Rightarrow> import_error + string \<times> string \<times> string" where
  "env_credential_of io vars up =
     (let lc = im_lower io up
      in case bt_get vars (up @ ''_USER'') of
           Some u \<Rightarrow> Inr (lc, u, lc @ ''_password'')
         | None \<Rightarrow>
     (case bt_get vars (up @ ''_CREDENTIALS'') of
        None \<Rightarrow> Inl (NoUserOf lc)
      | Some key \<Rightarrow>
          (case bt_get vars (im_upper io key @ ''_USER'') of
             None \<Rightarrow> Inl (CredentialUserUnset lc key)
           | Some u \<Rightarrow> Inr (im_lower io key, u, im_lower io key @ ''_password''))))"

definition import_credential ::
  "import_io \<Rightarrow> string \<Rightarrow> string \<times> string \<times> string \<Rightarrow> config \<times> import_report
     \<Rightarrow> import_error + config \<times> import_report" where
  "import_credential io secrets = (\<lambda>(nm, user, file) (cfg, rep).
     (if bt_contains (credentials cfg) nm then Inr (cfg, rep)
      else (case read_secret_file io secrets file of
              Inl e \<Rightarrow> Inl e
            | Inr pw \<Rightarrow>
                Inr (cfg\<lparr>credentials :=
                       bt_insert nm \<lparr>backend_user = user, backend_password = pw\<rparr> (credentials cfg)\<rparr>,
                     rep\<lparr>ir_credentials := ir_credentials rep @ [nm]\<rparr>))))"

text \<open>The longest bastion name that is a prefix, up to an underscore, of the environment's.\<close>

definition best_bastion :: "string list \<Rightarrow> string \<Rightarrow> string option" where
  "best_bastion names up =
     foldl (\<lambda>best b.
         if starts_with (b @ ''_'') (up @ ''_'') \<and>
            (case best of None \<Rightarrow> True | Some x \<Rightarrow> length x < length b)
         then Some b else best) None names"

definition env_bastion_of ::
  "import_io \<Rightarrow> (string, string) btree \<Rightarrow> string list \<Rightarrow> config \<Rightarrow> string \<Rightarrow> import_error + string option" where
  "env_bastion_of io vars names cfg up =
     (case bt_get vars (up @ ''_BASTION'') of
        None \<Rightarrow> Inr (map_option (im_lower io) (best_bastion names up))
      | Some explicit \<Rightarrow>
          if explicit = ''direct'' \<or> explicit = ''none'' then Inr None
          else if bt_contains (bastions cfg) (im_lower io explicit) then Inr (Some (im_lower io explicit))
          else Inl (NoSuchImportedBastion (im_lower io up) explicit))"

definition env_max_conn :: "import_io \<Rightarrow> (string, string) btree \<Rightarrow> string \<Rightarrow> nat option" where
  "env_max_conn io vars up =
     (let own = bt_get vars (up @ ''_MAX_CONNECTIONS'');
          shared = (case bt_get vars (up @ ''_CREDENTIALS'') of
                      None \<Rightarrow> None
                    | Some k \<Rightarrow> bt_get vars (im_upper io k @ ''_MAX_CONNECTIONS''))
      in case (case own of Some s \<Rightarrow> Some s | None \<Rightarrow> shared) of
           None \<Rightarrow> None
         | Some s \<Rightarrow> parse_uint 4294967295 s)"

text \<open>\<open>CLIENT_PORT_BASE + idx as u16\<close>, which wraps.\<close>

definition IMPORT_PORT_BASE :: u16 where "IMPORT_PORT_BASE = 6033"

definition import_env ::
  "import_io \<Rightarrow> string \<Rightarrow> (string, string) btree \<Rightarrow> string list \<Rightarrow> nat \<Rightarrow> string
     \<Rightarrow> config \<times> import_report \<Rightarrow> import_error + config \<times> import_report" where
  "import_env io secrets vars names i up st =
     (case env_credential_of io vars up of
        Inl e \<Rightarrow> Inl e
      | Inr cred \<Rightarrow>
     (case import_credential io secrets cred st of
        Inl e \<Rightarrow> Inl e
      | Inr (cfg, rep) \<Rightarrow>
     (case env_bastion_of io vars names cfg up of
        Inl e \<Rightarrow> Inl e
      | Inr b \<Rightarrow>
          (let lp = IMPORT_PORT_BASE + word_of_nat i;
               tok = generate_token (im_raw io i);
               e = \<lparr>backend_host = or_text [] (bt_get vars (up @ ''_HOST'')),
                    backend_port = word_of_nat (parsed_or 65535 3306 (bt_get vars (up @ ''_PORT''))),
                    default_database = None, env_bastion = b, env_credential = fst cred,
                    env_policy = ReadOnly,
                    client_auth = NativePassword (double_sha1 (im_sha1 io) (as_bytes tok)),
                    listen_port = lp,
                    pool = (case env_max_conn io vars up of
                              None \<Rightarrow> default_pool
                            | Some m \<Rightarrow> default_pool\<lparr>max_size := word_of_nat m\<rparr>),
                    engine = MySql\<rparr>
           in Inr (cfg\<lparr>envs := bt_insert up e (envs cfg)\<rparr>, rep\<lparr>ir_envs := ir_envs rep @ [(up, lp)]\<rparr>)))))"

section \<open>The fragment\<close>

fun import_each :: "('a \<Rightarrow> 's \<Rightarrow> import_error + 's) \<Rightarrow> 'a list \<Rightarrow> 's \<Rightarrow> import_error + 's" where
  "import_each f [] st = Inr st"
| "import_each f (x # xs) st = (case f x st of Inl e \<Rightarrow> Inl e | Inr st' \<Rightarrow> import_each f xs st')"

definition empty_report :: import_report where
  "empty_report = \<lparr>ir_bastions = [], ir_credentials = [], ir_envs = [], ir_warnings = []\<rparr>"

definition build_from_vars ::
  "import_io \<Rightarrow> string \<Rightarrow> (string, string) btree \<Rightarrow> import_error + config \<times> import_report" where
  "build_from_vars io secrets vars =
     (case import_each (import_bastion io secrets vars) (bastion_names vars) (default_config, empty_report) of
        Inl e \<Rightarrow> Inl e
      | Inr st \<Rightarrow>
     (if env_names vars = [] then Inl NoEnvsFound
      else (case import_each (\<lambda>(i, up). import_env io secrets vars (bastion_names vars) i up)
                   (enumerate 0 (env_names vars)) st of
              Inl e \<Rightarrow> Inl e
            | Inr (cfg, rep) \<Rightarrow>
                (case validate cfg of
                   Inl e \<Rightarrow> Inl (FragmentInvalid e)
                 | Inr _ \<Rightarrow> Inr (cfg, rep)))))"

definition build_from_dir :: "import_io \<Rightarrow> string \<Rightarrow> import_error + config \<times> import_report" where
  "build_from_dir io src_dir =
     (case im_text io (path_join src_dir ''.env'') of
        Inl e \<Rightarrow> Inl (ReadEnvFile e)
      | Inr txt \<Rightarrow> build_from_vars io (path_join src_dir ''secrets'') (parse_env txt))"

section \<open>What every fragment promises\<close>

lemma import_each_invariant:
  assumes "\<And>x st st'. x \<in> set xs \<Longrightarrow> P st \<Longrightarrow> f x st = Inr st' \<Longrightarrow> P st'"
    and "import_each f xs st = Inr st'" and "P st"
  shows "P st'"
  using assms
proof (induction xs arbitrary: st)
  case (Cons x xs)
  then obtain st1 where "f x st = Inr st1" "import_each f xs st1 = Inr st'" by (auto split: sum.splits)
  then show ?case using Cons.IH [of st1] Cons.prems by (meson list.set_intros)
qed simp

definition posture :: "config \<times> import_report \<Rightarrow> bool" where
  "posture st \<longleftrightarrow>
     (\<forall>nm e. bt_get (envs (fst st)) nm = Some e \<longrightarrow>
        env_policy e = ReadOnly \<and> engine e = MySql \<and> default_database e = None \<and>
        (nm, listen_port e) \<in> set (ir_envs (snd st)))"

lemma import_bastion_posture: "posture st \<Longrightarrow> import_bastion io secrets vars up st = Inr st' \<Longrightarrow> posture st'"
  by (cases st)
    (auto simp: import_bastion_def posture_def Let_def split: option.splits sum.splits prod.splits)

lemma import_credential_kept:
  assumes "import_credential io secrets cred st = Inr st'"
  shows "envs (fst st') = envs (fst st) \<and> ir_envs (snd st') = ir_envs (snd st) \<and>
    bastions (fst st') = bastions (fst st) \<and>
    (\<forall>nm v. bt_get (credentials (fst st)) nm = Some v \<longrightarrow> bt_get (credentials (fst st')) nm = Some v)"
  using assms by (cases st; cases cred)
    (auto simp: import_credential_def bt_contains_def split: if_splits sum.splits)

lemma import_env_posture:
  assumes "posture st" and "import_env io secrets vars names i up st = Inr st'"
  shows "posture st'"
proof -
  obtain cred where c: "env_credential_of io vars up = Inr cred"
    using assms(2) by (auto simp: import_env_def split: sum.splits)
  obtain cfg rep where k: "import_credential io secrets cred st = Inr (cfg, rep)"
    using assms(2) c by (auto simp: import_env_def split: sum.splits)
  obtain b where b: "env_bastion_of io vars names cfg up = Inr b"
    using assms(2) c k by (auto simp: import_env_def split: sum.splits)
  have "envs cfg = envs (fst st)" "ir_envs rep = ir_envs (snd st)"
    using import_credential_kept [OF k] by simp_all
  then show ?thesis
    using assms c k b by (auto simp: import_env_def posture_def Let_def split: if_splits)
qed

lemma build_parts:
  assumes "build_from_vars io secrets vars = Inr (cfg, rep)"
  obtains st where
    "import_each (import_bastion io secrets vars) (bastion_names vars) (default_config, empty_report) = Inr st"
    "import_each (\<lambda>(i, up). import_env io secrets vars (bastion_names vars) i up)
       (enumerate 0 (env_names vars)) st = Inr (cfg, rep)"
    "validate cfg = Inr ()" "env_names vars \<noteq> []"
  using assms by (auto simp: build_from_vars_def split: sum.splits if_splits)

text \<open>
  C30 (an import opens nothing for writing). Whatever the \<open>.env\<close> file says, the fragment an
  import builds is a well-formed configuration in which every environment is a read-only MySQL one
  without a default database, and the report names each with the port it listens on.
\<close>

theorem import_stays_read_only:
  assumes "build_from_dir io src_dir = Inr (cfg, rep)"
  shows "wf_config cfg \<and>
    (\<forall>nm e. bt_get (envs cfg) nm = Some e \<longrightarrow>
       env_policy e = ReadOnly \<and> engine e = MySql \<and> default_database e = None \<and>
       (nm, listen_port e) \<in> set (ir_envs rep))"
proof -
  obtain vars secrets where v: "build_from_vars io secrets vars = Inr (cfg, rep)"
    using assms by (auto simp: build_from_dir_def split: sum.splits)
  obtain st where st:
    "import_each (import_bastion io secrets vars) (bastion_names vars) (default_config, empty_report) = Inr st"
    "import_each (\<lambda>(i, up). import_env io secrets vars (bastion_names vars) i up)
       (enumerate 0 (env_names vars)) st = Inr (cfg, rep)" "validate cfg = Inr ()"
    using build_parts [OF v] by blast
  have "posture (default_config, empty_report)" by (simp add: posture_def default_config_def)
  then have "posture st" using import_each_invariant [OF _ st(1), of posture] import_bastion_posture by blast
  then have "posture (cfg, rep)"
    using import_each_invariant [OF _ st(2), of posture] import_env_posture by fastforce
  then show ?thesis using st(3) validate_iff_wf by (auto simp: posture_def)
qed

definition demo_io :: import_io where
  "demo_io =
     \<lparr>im_text = (\<lambda>p. if p = ''d/.env'' then Inr (''A_HOST=h'' @ [CHR 0x0A] @ ''A_USER=u'')
                    else if p = ''d/secrets/a_password'' then Inr (''pw'' @ [CHR 0x0A]) else Inl ''absent''),
      im_bytes = (\<lambda>p. Inr [1]), im_lower = ascii_lower, im_upper = ascii_upper,
      im_base64 = (\<lambda>s. Some (as_bytes s)), im_fingerprint_b64 = of_bytes, im_sha1 = (\<lambda>b. replicate 20 0),
      im_raw = (\<lambda>i. [])\<rparr>"

lemma demo_vars:
  "parse_env (''A_HOST=h'' @ [CHR 0x0A] @ ''A_USER=u'') =
     bt_insert ''A_USER'' ''u'' (bt_insert ''A_HOST'' ''h'' bt_empty)"
proof -
  have t: "trim s = s" if "s \<in> {''A_HOST=h'', ''A_USER=u'', ''A_HOST'', ''A_USER'', ''h'', ''u''}" for s
    using that by (intro trim_visible) (auto simp: visible_def char_between_def less_eq_char_def)
  have e: "env_entry ''A_HOST=h'' = Some (''A_HOST'', ''h'')" "env_entry ''A_USER=u'' = Some (''A_USER'', ''u'')"
    by (simp_all add: env_entry_def t strip_prefix_def starts_with_def unquote_def Let_def)
  have "text_lines (''A_HOST=h'' @ [CHR 0x0A] @ ''A_USER=u'') = [''A_HOST=h'', ''A_USER=u'']"
    by (simp add: text_lines_def strip_cr_def Let_def)
  then show ?thesis by (simp add: parse_env_def e)
qed

lemma demo_build: "\<exists>cfg rep. build_from_dir demo_io ''d'' = Inr (cfg, rep) \<and> bt_contains (envs cfg) ''A''"
proof -
  let ?vars = "bt_insert ''A_USER'' ''u'' (bt_insert ''A_HOST'' ''h'' bt_empty)"
  have k: "bt_keys ?vars = [''A_HOST'', ''A_USER'']" by (simp add: bt_keys_def)
  have b: "bastion_names ?vars = []"
    by (simp add: bastion_names_def k sorted_names_def strip_prefix_def starts_with_def List.map_filter_def)
  have n: "env_names ?vars = [''A'']"
    by (simp add: env_names_def k sorted_names_def strip_suffix_def List.map_filter_def bt_contains_def
        starts_with_def)
  have pw: "read_secret_file demo_io ''d/secrets'' ''a_password'' = Inr ''pw''"
    by (simp add: read_secret_file_def secret_name_refused_def path_join_def demo_io_def trim_line_end_def
        starts_with_def)
  have "ascii_lower ''A'' = ''a''" by code_simp
  then have low: "im_lower demo_io ''A'' = ''a''" by (simp add: demo_io_def)
  obtain e rep where i: "import_env demo_io ''d/secrets'' ?vars [] 0 ''A'' (default_config, empty_report) =
      Inr (\<lparr>schema_version = CURRENT_SCHEMA_VERSION, bastions = bt_empty,
        credentials = bt_insert ''a'' \<lparr>backend_user = ''u'', backend_password = ''pw''\<rparr> bt_empty,
        envs = bt_insert ''A'' e bt_empty\<rparr>, rep)" "env_bastion e = None" "env_credential e = ''a''"
      "client_auth e = NativePassword (replicate 20 0)" "engine e = MySql"
    using low pw
    by (simp add: import_env_def env_credential_of_def import_credential_def env_bastion_of_def best_bastion_def
        env_max_conn_def Let_def default_config_def bt_contains_def)
      (simp add: demo_io_def double_sha1_def)
  let ?cfg = "\<lparr>schema_version = CURRENT_SCHEMA_VERSION, bastions = bt_empty,
        credentials = bt_insert ''a'' \<lparr>backend_user = ''u'', backend_password = ''pw''\<rparr> bt_empty,
        envs = bt_insert ''A'' e bt_empty\<rparr>"
  have "validate ?cfg = Inr ()"
    unfolding validate_iff_wf using i(2-5)
    by (auto simp: wf_config_def env_refs_ok_def ports_unique_def split: if_splits)
  then have "build_from_vars demo_io ''d/secrets'' ?vars = Inr (?cfg, rep)"
    using i(1) by (simp add: build_from_vars_def b n)
  then have "build_from_dir demo_io ''d'' = Inr (?cfg, rep)"
    using demo_vars by (simp add: build_from_dir_def path_join_def demo_io_def)
  then show ?thesis by (auto simp: bt_contains_def)
qed

theorem import_stays_read_only_witness:
  "\<exists>cfg rep e. build_from_dir demo_io ''d'' = Inr (cfg, rep) \<and> bt_get (envs cfg) ''A'' = Some e \<and>
     env_policy e = ReadOnly"
proof -
  obtain cfg rep where b: "build_from_dir demo_io ''d'' = Inr (cfg, rep)" "bt_contains (envs cfg) ''A''"
    using demo_build by blast
  with import_stays_read_only [OF b(1)] show ?thesis by (auto simp: bt_contains_def)
qed

section \<open>Pins\<close>

definition key_line :: "string \<Rightarrow> (string \<times> string) option" where
  "key_line raw =
     (let line = trim raw
      in if line = [] \<or> starts_with ''#'' line then None
         else map_option (\<lambda>(_, alg, blob). (alg, blob)) (three_words line))"

lemma known_host_pins:
  "set (fst (known_host io (i, raw))) =
     {\<lparr>algo = alg, sha256_b64 = im_fingerprint_b64 io wire\<rparr> | alg blob wire.
        key_line raw = Some (alg, blob) \<and> im_base64 io blob = Some wire}"
  by (auto simp: known_host_def key_line_def Let_def split: option.splits)

definition line_pins :: "import_io \<Rightarrow> string \<Rightarrow> host_key_fingerprint set" where
  "line_pins io raw =
     {\<lparr>algo = alg, sha256_b64 = im_fingerprint_b64 io wire\<rparr> | alg blob wire.
        key_line raw = Some (alg, blob) \<and> im_base64 io blob = Some wire}"

lemma fingerprints_set:
  "set (fst (fingerprints_from_known_hosts io txt)) = (\<Union>raw \<in> set (text_lines txt). line_pins io raw)"
proof -
  let ?ls = "enumerate 0 (text_lines txt)"
  have p: "set (fst (known_host io p)) = line_pins io (snd p)" for p
    by (cases p) (simp add: known_host_pins line_pins_def)
  have "set (fst (fingerprints_from_known_hosts io txt)) = (\<Union>p \<in> set ?ls. set (fst (known_host io p)))"
    by (simp add: fingerprints_from_known_hosts_def Let_def)
  also have "\<dots> = (\<Union>raw \<in> snd ` set ?ls. line_pins io raw)" by (simp add: p)
  also have "snd ` set ?ls = set (text_lines txt)" by (metis list.set_map map_snd_enumerate)
  finally show ?thesis .
qed


definition demo_net :: "(unit, unit) ssh_net" where
  "demo_net =
     \<lparr>kex = (\<lambda>h p w. (Inl ''unused'', w)), auth_password = (\<lambda>h u p w. (Inl ''unused'', w)),
      bind_local = (\<lambda>w. (Inl ''unused'', w)), fingerprint_b64 = of_bytes\<rparr>"


section \<open>Files the import reads\<close>

text \<open>
  The key file is read without the check. The name of a password file is refused when it could leave
  the secrets directory; the key and the \<open>known_hosts\<close> file of a bastion are read under names
  made of the same untrusted text without that check, so a hostile \<open>.env\<close> reaches files
  elsewhere.
\<close>

theorem key_file_unguarded:
  assumes "bt_get vars (''BASTION_'' @ up @ ''_SSH_AUTH'') = Some ''key''" and "CHR ''/'' \<in> set (im_lower io up)"
    and "im_bytes io (path_join secrets (''bastion_'' @ im_lower io up @ ''_key'')) = Inr contents"
  shows "import_auth io secrets vars up = Inr (KeyAuth contents None) \<and>
    read_secret_file io secrets (''bastion_'' @ im_lower io up @ ''_password'') =
      Inl (BadSecretName (''bastion_'' @ im_lower io up @ ''_password''))"
  using assms by (simp add: import_auth_def or_text_def read_secret_file_def secret_name_refused_def)

theorem key_file_unguarded_witness:
  "import_auth demo_io ''d/secrets'' (bt_insert ''BASTION_x/../../k_SSH_AUTH'' ''key'' bt_empty) ''x/../../k'' =
     Inr (KeyAuth [1] None)"
proof -
  have "CHR ''/'' \<in> set (im_lower demo_io ''x/../../k'')"
    by (simp add: demo_io_def ascii_lower_def lower_char_def char_between_def less_eq_char_def)
  then show ?thesis
    using key_file_unguarded [of "bt_insert ''BASTION_x/../../k_SSH_AUTH'' ''key'' bt_empty" "''x/../../k''" demo_io
        "''d/secrets''" "[1]"]
    by (simp add: demo_io_def)
qed

end
