(* ===== verification/Terminal.thy ===== *)
theory Terminal
  imports Control_Client Import_Poc
begin

text \<open>
  The dialogue with the operator: the prompts of \<open>crates/mwsqlctl/src/prompt.rs\<close> and the secrets
  of \<open>crates/mwsqlctl/src/ops.rs\<close>. The terminal is the lines the operator is going to type,
  after which the input ends; what a prompt prints before it reads is left out. A pipe on the standard
  input and the files are the environment.
\<close>

record terminal =
  tm_is_terminal :: bool
  tm_lines :: "string list"
  tm_piped :: "string + string"
  tm_file :: "string \<Rightarrow> string + bytes"

type_synonym 'a prompt = "terminal \<Rightarrow> (string + 'a) \<times> terminal"

definition END_OF_INPUT :: string where
  "END_OF_INPUT = ''unexpected end of input''"

section \<open>Asking until the answer will do\<close>

text \<open>Every prompt that asks again is this loop, with the answers it accepts; the line is trimmed.\<close>

fun ask :: "(string \<Rightarrow> 'a option) \<Rightarrow> string list \<Rightarrow> (string + 'a) \<times> string list" where
  "ask accept [] = (Inl END_OF_INPUT, [])"
| "ask accept (l # ls) =
     (case accept (trim l) of Some x \<Rightarrow> (Inr x, ls) | None \<Rightarrow> ask accept ls)"

definition prompt_until :: "(string \<Rightarrow> 'a option) \<Rightarrow> 'a prompt" where
  "prompt_until accept tm =
     (case ask accept (tm_lines tm) of (r, ls) \<Rightarrow> (r, tm\<lparr>tm_lines := ls\<rparr>))"

definition read_line :: "string prompt" where
  "read_line = prompt_until Some"

definition prompt_text :: "string prompt" where
  "prompt_text = prompt_until (\<lambda>s. if s = [] then None else Some s)"

definition prompt_text_default :: "string \<Rightarrow> string prompt" where
  "prompt_text_default dflt = prompt_until (\<lambda>s. Some (if s = [] then dflt else s))"

definition prompt_optional_text :: "string option prompt" where
  "prompt_optional_text = prompt_until (\<lambda>s. Some (if s = [] then None else Some s))"

definition yes_or_no :: "bool \<Rightarrow> string \<Rightarrow> bool option" where
  "yes_or_no default_yes s =
     (let a = ascii_lower s
      in if a = [] then Some default_yes
         else if a \<in> {''y'', ''yes''} then Some True
         else if a \<in> {''n'', ''no''} then Some False
         else None)"

definition confirm_prompt :: "bool \<Rightarrow> bool prompt" where
  "confirm_prompt default_yes = prompt_until (yes_or_no default_yes)"

definition chosen :: "nat \<Rightarrow> string \<Rightarrow> nat option" where
  "chosen n s =
     (case parse_uint USIZE_MAX s of
        Some k \<Rightarrow> if 1 \<le> k \<and> k \<le> n then Some (k - 1) else None
      | None \<Rightarrow> None)"

definition select_index :: "nat \<Rightarrow> nat prompt" where
  "select_index n = prompt_until (chosen n)"

definition select_owned :: "string list \<Rightarrow> string prompt" where
  "select_owned options tm =
     (case select_index (length options) tm of
        (Inl e, tm') \<Rightarrow> (Inl e, tm')
      | (Inr i, tm') \<Rightarrow> (Inr (options ! i), tm'))"

definition port_of :: "string \<Rightarrow> u16 option" where
  "port_of s = map_option word_of_nat (parse_uint 65535 s)"

definition prompt_port :: "u16 \<Rightarrow> u16 prompt" where
  "prompt_port dflt = prompt_until (\<lambda>s. port_of (if s = [] then show_nat (unat dflt) else s))"

definition prompt_optional_port :: "u16 option prompt" where
  "prompt_optional_port = prompt_until (\<lambda>s. if s = [] then Some None else map_option Some (port_of s))"

section \<open>Secrets\<close>

definition NOT_A_TERMINAL :: string where
  "NOT_A_TERMINAL = ''stdin is not a terminal; pass --password-stdin''"

text \<open>A masked prompt takes the next line as it is typed.\<close>

definition prompt_password :: "string prompt" where
  "prompt_password tm =
     (case tm_lines tm of
        [] \<Rightarrow> (Inl END_OF_INPUT, tm)
      | l # ls \<Rightarrow> (Inr l, tm\<lparr>tm_lines := ls\<rparr>))"

definition read_secret :: "bool \<Rightarrow> string prompt" where
  "read_secret from_stdin tm =
     (if from_stdin
      then (case tm_piped tm of Inl e \<Rightarrow> (Inl e, tm) | Inr s \<Rightarrow> (Inr (trim_line_end s), tm))
      else if tm_is_terminal tm then prompt_password tm
      else (Inl NOT_A_TERMINAL, tm))"

text \<open>Here the end of the input is an empty answer.\<close>

definition read_yes_no :: "bool prompt" where
  "read_yes_no tm =
     (if \<not> tm_is_terminal tm then (Inr False, tm)
      else (case tm_lines tm of
              [] \<Rightarrow> (Inr False, tm)
            | l # ls \<Rightarrow> (Inr (ascii_lower (trim l) \<in> {''y'', ''yes''}), tm\<lparr>tm_lines := ls\<rparr>)))"

definition resolve_bastion_auth :: "bastion_input \<Rightarrow> bastion_auth_input prompt" where
  "resolve_bastion_auth inp tm =
     (case bn_key_file inp of
        Some path \<Rightarrow>
          (case tm_file tm path of
             Inl e \<Rightarrow> (Inl (''read key '' @ path @ '': '' @ e), tm)
           | Inr key \<Rightarrow>
          (case read_yes_no tm of
             (Inl e, tm') \<Rightarrow> (Inl e, tm')
           | (Inr has_passphrase, tm') \<Rightarrow>
               if \<not> has_passphrase then (Inr (KeyInput key None), tm')
               else (case read_secret False tm' of
                       (Inl e, tm'') \<Rightarrow> (Inl e, tm'')
                     | (Inr s, tm'') \<Rightarrow> (Inr (KeyInput key (Some s)), tm''))))
      | None \<Rightarrow>
          (case read_secret (bn_password_stdin inp) tm of
             (Inl e, tm') \<Rightarrow> (Inl e, tm')
           | (Inr s, tm') \<Rightarrow> (Inr (PasswordInput s), tm')))"

section \<open>What the prompts promise\<close>

text \<open>The answer is the first line that will do; when there is none the input ends and the prompt with
  it.\<close>

lemma ask_first:
  "ask accept ls =
     (case dropWhile (\<lambda>l. accept (trim l) = None) ls of
        [] \<Rightarrow> (Inl END_OF_INPUT, [])
      | l # rest \<Rightarrow> (Inr (the (accept (trim l))), rest))"
  by (induction ls) (auto split: option.splits)

lemma ask_shorter:
  "length (snd (ask accept ls)) \<le> length ls"
  "ask accept ls = (Inr x, ls') \<Longrightarrow> length ls' < length ls"
proof -
  have "length (snd (ask accept ls)) \<le> length ls \<and>
      (\<forall>x ls'. ask accept ls = (Inr x, ls') \<longrightarrow> length ls' < length ls)"
    by (induction ls) (auto split: option.splits simp: less_Suc_eq_le dest: less_imp_le)
  then show "length (snd (ask accept ls)) \<le> length ls" "ask accept ls = (Inr x, ls') \<Longrightarrow> length ls' < length ls"
    by blast+
qed

lemma ask_accepted: "ask accept ls = (Inr x, ls') \<Longrightarrow> \<exists>t. accept t = Some x"
  by (induction ls) (auto split: option.splits)

text \<open>A prompt takes lines from the front, and an answered one takes at least one.\<close>

definition reads_on :: "terminal \<Rightarrow> terminal \<Rightarrow> bool" where
  "reads_on tm tm' \<longleftrightarrow> length (tm_lines tm') \<le> length (tm_lines tm) \<and> tm_is_terminal tm' = tm_is_terminal tm"

lemma reads_on_refl [simp]: "reads_on tm tm"
  by (simp add: reads_on_def)

lemma reads_on_trans [trans]: "reads_on a b \<Longrightarrow> reads_on b c \<Longrightarrow> reads_on a c"
  by (auto simp: reads_on_def)

lemma prompt_until_reads:
  "reads_on tm (snd (prompt_until accept tm))"
  "prompt_until accept tm = (Inr x, tm') \<Longrightarrow> length (tm_lines tm') < length (tm_lines tm)"
proof -
  obtain r ls where a: "ask accept (tm_lines tm) = (r, ls)" by fastforce
  show "reads_on tm (snd (prompt_until accept tm))"
    using ask_shorter(1) [of accept "tm_lines tm"] a by (simp add: prompt_until_def reads_on_def)
  show "prompt_until accept tm = (Inr x, tm') \<Longrightarrow> length (tm_lines tm') < length (tm_lines tm)"
    using ask_shorter(2) [of accept "tm_lines tm"] a by (auto simp: prompt_until_def)
qed

lemma read_secret_reads: "reads_on tm (snd (read_secret from_stdin tm))"
  by (auto simp: read_secret_def prompt_password_def reads_on_def split: sum.splits list.splits)

lemma read_yes_no_reads: "reads_on tm (snd (read_yes_no tm))"
  by (auto simp: read_yes_no_def reads_on_def split: list.splits)

lemma resolve_auth_reads: "reads_on tm (snd (resolve_bastion_auth inp tm))"
proof -
  have s: "read_secret b t = (r, t') \<Longrightarrow> reads_on t t'" for b t r t' using read_secret_reads [of t b] by simp
  have y: "read_yes_no t = (r, t') \<Longrightarrow> reads_on t t'" for t r t' using read_yes_no_reads [of t] by simp
  show ?thesis
    by (auto simp: resolve_bastion_auth_def split: option.splits sum.splits prod.splits dest!: s y
        intro: reads_on_trans)
qed

text \<open>A chosen option is one of those offered.\<close>

lemma chosen_less: "chosen n t = Some i \<Longrightarrow> i < n"
  by (auto simp: chosen_def split: option.splits if_splits)

lemma select_index_less:
  assumes "select_index n tm = (Inr i, tm')"
  shows "i < n"
proof -
  obtain r ls where a: "ask (chosen n) (tm_lines tm) = (r, ls)" by fastforce
  then have "r = Inr i" using assms by (simp add: select_index_def prompt_until_def)
  then show ?thesis using ask_accepted [of "chosen n"] chosen_less a by blast
qed

lemma select_owned_offered:
  assumes "select_owned options tm = (Inr s, tm')"
  shows "s \<in> set options"
proof (cases "select_index (length options) tm")
  case (Pair r t)
  then show ?thesis using assms select_index_less by (cases r) (auto simp: select_owned_def)
qed

text \<open>Without a terminal nothing is asked: a secret is an error, a key has no passphrase.\<close>

lemma unattended:
  assumes "\<not> tm_is_terminal tm"
  shows "read_secret False tm = (Inl NOT_A_TERMINAL, tm)"
    and "bn_key_file inp = Some path \<Longrightarrow> tm_file tm path = Inr key \<Longrightarrow>
      resolve_bastion_auth inp tm = (Inr (KeyInput key None), tm)"
  using assms by (simp_all add: read_secret_def resolve_bastion_auth_def read_yes_no_def)

text \<open>A line end after a piped secret is not part of it.\<close>

lemma piped_secret:
  assumes "tm_piped tm = Inr (s @ [CHR 0x0A])" and "s = [] \<or> last s \<notin> {CHR 0x0A, CHR 0x0D}"
  shows "read_secret True tm = (Inr s, tm)"
  using assms by (cases s rule: rev_cases) (auto simp: read_secret_def trim_line_end_def)

end
