(* ===== verification/Wide_String.thy ===== *)
theory Wide_String
  imports Utf8
begin

text \<open>
  The UTF-16 strings of the Windows calls in \<open>crates/mwsqld/src/control/windows.rs\<close>:
  \<open>wide\<close>, \<open>wide_to_string\<close> and \<open>wide_ptr_to_string\<close>, over the standard
  library's \<open>encode_utf16\<close> and \<open>String::from_utf16_lossy\<close>. A string is its UTF-8 bytes,
  so both go through the scalar values of the characters.
\<close>

section \<open>Scalar values\<close>

text \<open>The scalar value of a character of so many bytes at the front.\<close>

definition scalar_at :: "bytes \<Rightarrow> nat \<Rightarrow> nat" where
  "scalar_at bs n =
     (let b = (\<lambda>i. unat (safe_get bs i)) in
      if n = 1 then b 0
      else if n = 2 then (b 0 mod 32) * 64 + b 1 mod 64
      else if n = 3 then (b 0 mod 16) * 4096 + (b 1 mod 64) * 64 + b 2 mod 64
      else (b 0 mod 8) * 262144 + (b 1 mod 64) * 4096 + (b 2 mod 64) * 64 + b 3 mod 64)"

definition REPLACEMENT_SCALAR :: nat where "REPLACEMENT_SCALAR = 0xFFFD"

function scalars :: "bytes \<Rightarrow> nat list" where
  "scalars bs =
     (if bs = [] then []
      else case utf8_step bs of
             (valid, n) \<Rightarrow>
               (if valid then scalar_at bs n else REPLACEMENT_SCALAR) # scalars (drop n bs))"
  by pat_completeness auto
termination
proof (relation "measure length")
  fix bs :: bytes and v n
  assume "bs \<noteq> []" "(v, n) = utf8_step bs"
  then show "(drop n bs, bs) \<in> measure length"
    using utf8_step_pos [of bs] by (cases "utf8_step bs") auto
qed simp

declare scalars.simps [simp del]

definition utf8_char :: "nat \<Rightarrow> bytes" where
  "utf8_char c =
     (if c < 0x80 then [word_of_nat c]
      else if c < 0x800 then [word_of_nat (0xC0 + c div 64), word_of_nat (0x80 + c mod 64)]
      else if c < 0x10000 then
        [word_of_nat (0xE0 + c div 4096), word_of_nat (0x80 + c div 64 mod 64), word_of_nat (0x80 + c mod 64)]
      else
        [word_of_nat (0xF0 + c div 262144), word_of_nat (0x80 + c div 4096 mod 64),
         word_of_nat (0x80 + c div 64 mod 64), word_of_nat (0x80 + c mod 64)])"

text \<open>What a Rust \<open>char\<close> can be.\<close>

definition scalar_ok :: "nat \<Rightarrow> bool" where
  "scalar_ok c \<longleftrightarrow> c < 0xD800 \<or> 0xDFFF < c \<and> c < 0x110000"

section \<open>Coding\<close>

definition utf16_units :: "nat \<Rightarrow> u16 list" where
  "utf16_units c =
     (if c < 0x10000 then [word_of_nat c]
      else [word_of_nat (0xD800 + (c - 0x10000) div 1024), word_of_nat (0xDC00 + (c - 0x10000) mod 1024)])"

definition encode_utf16 :: "string \<Rightarrow> u16 list" where
  "encode_utf16 s = concat (map utf16_units (scalars (as_bytes s)))"

definition low_surrogate :: "u16 \<Rightarrow> bool" where
  "low_surrogate u \<longleftrightarrow> 0xDC00 \<le> unat u \<and> unat u \<le> 0xDFFF"

definition high_surrogate :: "u16 \<Rightarrow> bool" where
  "high_surrogate u \<longleftrightarrow> 0xD800 \<le> unat u \<and> unat u \<le> 0xDBFF"

fun utf16_scalars :: "u16 list \<Rightarrow> nat list" where
  "utf16_scalars [] = []"
| "utf16_scalars [u] = [if low_surrogate u \<or> high_surrogate u then REPLACEMENT_SCALAR else unat u]"
| "utf16_scalars (u # v # us) =
     (if low_surrogate u then REPLACEMENT_SCALAR # utf16_scalars (v # us)
      else if high_surrogate u then
        (if low_surrogate v
         then (0x10000 + (unat u - 0xD800) * 1024 + (unat v - 0xDC00)) # utf16_scalars us
         else REPLACEMENT_SCALAR # utf16_scalars (v # us))
      else unat u # utf16_scalars (v # us))"

definition from_utf16_lossy :: "u16 list \<Rightarrow> string" where
  "from_utf16_lossy us = of_bytes (concat (map utf8_char (utf16_scalars us)))"

definition wide :: "string \<Rightarrow> u16 list" where
  "wide s = encode_utf16 s @ [0]"

definition wide_to_string :: "u16 list \<Rightarrow> string" where
  "wide_to_string w = from_utf16_lossy (takeWhile (\<lambda>c. c \<noteq> 0) w)"

text \<open>The memory a pointer leads to; \<open>None\<close> is a read past its end, which the function's
  safety contract excludes.\<close>

fun wide_ptr_len :: "u16 list \<Rightarrow> nat option" where
  "wide_ptr_len [] = None"
| "wide_ptr_len (u # us) = (if u = 0 then Some 0 else map_option Suc (wide_ptr_len us))"

definition wide_ptr_to_string :: "u16 list \<Rightarrow> string option" where
  "wide_ptr_to_string p = map_option (\<lambda>n. from_utf16_lossy (take n p)) (wide_ptr_len p)"

section \<open>Decoding what was encoded\<close>

lemma cont_iff: "cont b \<longleftrightarrow> 128 \<le> unat b \<and> unat b < 192"
proof -
  have "(b AND 0xC0) = push_bit 6 (drop_bit 6 b)"
  proof (rule bit_word_eqI)
    fix n
    assume "n < LENGTH(8)"
    then have "n \<in> {0, 1, 2, 3, 4, 5, 6, 7}" by auto
    then show "bit (b AND 0xC0) n = bit (push_bit 6 (drop_bit 6 b)) n"
      by (auto simp: bit_simps)
  qed
  moreover have small: "unat b < 256" using unsigned_less [of b, where 'a = nat] by simp
  ultimately have "unat (b AND 0xC0) = unat b div 64 * 64"
    by (simp only: unsigned_push_bit_eq unsigned_drop_bit_eq)
      (use small in \<open>simp add: take_bit_eq_mod push_bit_eq_mult drop_bit_eq_div\<close>)
  moreover have "cont b \<longleftrightarrow> unat (b AND 0xC0) = 128"
    by (simp add: cont_def word_eq_iff_unsigned [where 'a = nat])
  ultimately show ?thesis by auto
qed

lemma byte_in_iff: "byte_in lo hi b \<longleftrightarrow> unat lo \<le> unat b \<and> unat b \<le> unat hi"
  by (simp add: byte_in_def word_le_nat_alt)

lemma low_bits:
  fixes a :: nat
  shows "128 \<le> a \<Longrightarrow> a < 192 \<Longrightarrow> a mod 64 = a - 128"
    and "192 \<le> a \<Longrightarrow> a < 224 \<Longrightarrow> a mod 32 = a - 192"
    and "224 \<le> a \<Longrightarrow> a < 240 \<Longrightarrow> a mod 16 = a - 224"
    and "240 \<le> a \<Longrightarrow> a < 248 \<Longrightarrow> a mod 8 = a - 240"
  by (rule mod_nat_eqI; simp)+

lemma digits64:
  fixes x y z w :: nat
  assumes "y < 64" and "z < 64" and "w < 64"
  shows "(x * 64 + y) div 64 = x" "(x * 64 + y) mod 64 = y"
    "(x * 4096 + y * 64 + z) div 4096 = x" "(x * 4096 + y * 64 + z) div 64 mod 64 = y"
    "(x * 4096 + y * 64 + z) mod 64 = z"
    "(x * 262144 + y * 4096 + z * 64 + w) div 262144 = x"
    "(x * 262144 + y * 4096 + z * 64 + w) div 4096 mod 64 = y"
    "(x * 262144 + y * 4096 + z * 64 + w) div 64 mod 64 = z"
    "(x * 262144 + y * 4096 + z * 64 + w) mod 64 = w"
proof -
  have split: "(q * 64 + r) div 64 = q \<and> (q * 64 + r) mod 64 = r" if "r < 64" for q r :: nat
    using that by simp
  have h3: "x * 4096 + y * 64 + z = (x * 64 + y) * 64 + z" by simp
  have h4: "x * 262144 + y * 4096 + z * 64 + w = ((x * 64 + y) * 64 + z) * 64 + w" by simp
  have d: "n div 4096 = n div 64 div 64" "n div 262144 = n div 64 div 64 div 64" for n :: nat
    by (simp_all add: div_mult2_eq [symmetric])
  show "(x * 64 + y) div 64 = x" "(x * 64 + y) mod 64 = y" using assms split by auto
  show "(x * 4096 + y * 64 + z) div 4096 = x" "(x * 4096 + y * 64 + z) div 64 mod 64 = y"
    "(x * 4096 + y * 64 + z) mod 64 = z"
    unfolding h3 d by (simp_all only: split [OF assms(1)] split [OF assms(2)])
  show "(x * 262144 + y * 4096 + z * 64 + w) div 262144 = x"
    "(x * 262144 + y * 4096 + z * 64 + w) div 4096 mod 64 = y"
    "(x * 262144 + y * 4096 + z * 64 + w) div 64 mod 64 = z"
    "(x * 262144 + y * 4096 + z * 64 + w) mod 64 = w"
    unfolding h4 d by (simp_all only: split [OF assms(1)] split [OF assms(2)] split [OF assms(3)])
qed

lemma take_safe_get: "n \<le> length bs \<Longrightarrow> take n bs = map (safe_get bs) [0..<n]"
  by (rule nth_equalityI) (simp_all add: safe_get_def)

lemma safe_get_len: "0 < unat (safe_get bs i) \<Longrightarrow> i < length bs"
  by (auto simp: safe_get_def split: if_splits)

text \<open>A valid step is one character, and its scalar value gives its bytes back.\<close>

lemma utf8_step_cases:
  assumes "utf8_step bs = (True, n)" and "bs \<noteq> []"
  obtains a where "n = 1" "take n bs = [a]" "unat a < 128"
  | a b where "n = 2" "take n bs = [a, b]" "194 \<le> unat a" "unat a < 224" "cont b"
  | a b c where "n = 3" "take n bs = [a, b, c]" "224 \<le> unat a" "unat a < 240" "second_ok a b" "cont b" "cont c"
  | a b c d where "n = 4" "take n bs = [a, b, c, d]" "240 \<le> unat a" "unat a < 245" "second_ok a b" "cont b"
      "cont c" "cont d"
proof -
  let ?g = "safe_get bs"
  have sec: "second_ok b m \<Longrightarrow> cont m" for b m
    by (auto simp: second_ok_def cont_iff byte_in_iff split: if_splits)
  have len: "n \<le> length bs"
    using assms safe_get_len [of bs 1] safe_get_len [of bs 2] safe_get_len [of bs 3] sec
    by (auto simp: utf8_step_def Let_def cont_iff Suc_le_eq split: if_splits)
  then have t: "take n bs = map ?g [0..<n]" by (rule take_safe_get)
  have upt: "[0..<1] = [0]" "[0..<2] = [0, 1]" "[0..<3] = [0, 1, 2]" "[0..<4] = [0, 1, 2, 3::nat]"
    by (simp_all add: upt_rec)
  from assms(1) consider "n = 1" "unat (?g 0) < 128"
    | "n = 2" "194 \<le> unat (?g 0)" "unat (?g 0) < 224" "cont (?g 1)"
    | "n = 3" "224 \<le> unat (?g 0)" "unat (?g 0) < 240" "second_ok (?g 0) (?g 1)" "cont (?g 2)"
    | "n = 4" "240 \<le> unat (?g 0)" "unat (?g 0) < 245" "second_ok (?g 0) (?g 1)" "cont (?g 2)" "cont (?g 3)"
    by (auto simp: utf8_step_def Let_def byte_in_iff word_less_nat_alt split: if_splits)
  then show thesis
    by cases (use that t upt sec in \<open>auto\<close>)
qed

lemma second_ok_iff:
  "second_ok a b \<longleftrightarrow> 128 \<le> unat b \<and> unat b < 192 \<and>
     (unat a = 224 \<longrightarrow> 160 \<le> unat b) \<and> (unat a = 237 \<longrightarrow> unat b < 160) \<and>
     (unat a = 240 \<longrightarrow> 144 \<le> unat b) \<and> (unat a = 244 \<longrightarrow> unat b < 144)"
  by (auto simp: second_ok_def byte_in_iff word_eq_iff_unsigned [where 'a = nat] split: if_splits)

lemma word_of_unat_plus:
  "unat (a :: u8) = m + n \<Longrightarrow> word_of_nat (m + n) = a"
  by (metis of_nat_unat ucast_id)

lemma utf8_char_scalar:
  assumes "utf8_step bs = (True, n)" and "bs \<noteq> []"
  shows "utf8_char (scalar_at bs n) = take n bs \<and> scalar_ok (scalar_at bs n) \<and>
    (scalar_at bs n = 0 \<longrightarrow> 0 \<in> set (take n bs))"
proof -
  have get: "safe_get bs i = take n bs ! i" if "i < length (take n bs)" for i
    using that by (simp add: safe_get_def)
  note parts = get scalar_at_def Let_def
  show ?thesis
  proof (cases rule: utf8_step_cases [OF assms])
    case (1 a)
    then show ?thesis
      by (auto simp: parts utf8_char_def scalar_ok_def unsigned_eq_0_iff)
  next
    case (2 a b)
    define x y where "x = unat a - 192" and "y = unat b - 128"
    have u: "unat a = 192 + x" "unat b = 128 + y" "y < 64" "2 \<le> x" "x < 32"
      using 2 by (auto simp: x_def y_def cont_iff)
    have c: "scalar_at bs n = x * 64 + y" using 2 u by (simp add: parts low_bits)
    have w: "word_of_nat (192 + x) = a" "word_of_nat (128 + y) = b" using u by (simp_all only: word_of_unat_plus)
    have r: "\<not> x * 64 + y < 128" "x * 64 + y < 2048" using u by simp_all
    show ?thesis unfolding c utf8_char_def scalar_ok_def using 2 u r w digits64(1,2) [of y 0 0 x] by simp
  next
    case (3 a b c)
    define x y z where "x = unat a - 224" and "y = unat b - 128" and "z = unat c - 128"
    have u: "unat a = 224 + x" "unat b = 128 + y" "unat c = 128 + z" "y < 64" "z < 64" "x < 16"
      "x = 0 \<longrightarrow> 32 \<le> y" "x = 13 \<longrightarrow> y < 32"
      using 3 by (auto simp: x_def y_def z_def cont_iff second_ok_iff)
    have c: "scalar_at bs n = x * 4096 + y * 64 + z" using 3 u by (simp add: parts low_bits)
    have w: "word_of_nat (224 + x) = a" "word_of_nat (128 + y) = b" "word_of_nat (128 + z) = c"
      using u by (simp_all only: word_of_unat_plus)
    have r: "\<not> x * 4096 + y * 64 + z < 2048" "x * 4096 + y * 64 + z < 65536"
      using u by (cases "x = 0"; simp)+
    have ok: "x * 4096 + y * 64 + z < 55296 \<or> 57343 < x * 4096 + y * 64 + z"
      using u by (cases "x < 13"; cases "x = 13"; simp)
    show ?thesis unfolding c utf8_char_def scalar_ok_def using 3 r ok w digits64(3,4,5) [of y z 0 x] u
      by auto
  next
    case (4 a b c d)
    define x y z v where "x = unat a - 240" and "y = unat b - 128" and "z = unat c - 128" and "v = unat d - 128"
    have u: "unat a = 240 + x" "unat b = 128 + y" "unat c = 128 + z" "unat d = 128 + v" "y < 64" "z < 64" "v < 64"
      "x < 5" "x = 0 \<longrightarrow> 16 \<le> y" "x = 4 \<longrightarrow> y < 16"
      using 4 by (auto simp: x_def y_def z_def v_def cont_iff second_ok_iff)
    have c: "scalar_at bs n = x * 262144 + y * 4096 + z * 64 + v" using 4 u by (simp add: parts low_bits)
    have w: "word_of_nat (240 + x) = a" "word_of_nat (128 + y) = b" "word_of_nat (128 + z) = c"
      "word_of_nat (128 + v) = d" using u by (simp_all only: word_of_unat_plus)
    have r: "\<not> x * 262144 + y * 4096 + z * 64 + v < 65536"
      using u by (cases "x = 0"; simp)
    have ok: "x * 262144 + y * 4096 + z * 64 + v < 1114112" using u by (cases "x < 4"; simp)
    show ?thesis unfolding c utf8_char_def scalar_ok_def using 4 r ok w digits64(6-9) [of y z v x] u
      by auto
  qed
qed

text \<open>A valid step reads nothing past its character, so valid texts can be joined.\<close>

lemma utf8_step_append:
  assumes "utf8_step bs = (True, n)" and "bs \<noteq> []"
  shows "utf8_step (bs @ x) = (True, n)" and "n \<le> length bs"
proof -
  have get: "safe_get (bs @ x) i = safe_get bs i" if "i < length bs" for i
    using that by (simp add: safe_get_def nth_append)
  have "length (take n bs) = n"
    by (cases rule: utf8_step_cases [OF assms]) (simp_all del: length_take)
  then have len: "n \<le> length bs" by simp
  then show "n \<le> length bs" .
  have at: "\<And>i. i < n \<Longrightarrow> safe_get (bs @ x) i = safe_get bs i" using get len by auto
  show "utf8_step (bs @ x) = (True, n)"
    using assms at by (auto simp: utf8_step_def Let_def split: if_splits)
qed

lemma valid_utf8_append:
  "valid_utf8 a \<Longrightarrow> valid_utf8 b \<Longrightarrow> valid_utf8 (a @ b)"
proof (induction a rule: valid_utf8.induct)
  case (1 a)
  show ?case
  proof (cases "a = []")
    case False
    obtain n where st: "utf8_step a = (True, n)" and v: "valid_utf8 (drop n a)"
      using "1.prems"(1) [unfolded valid_utf8.simps [of a]] False by (auto split: prod.splits if_splits)
    have "valid_utf8 (drop n a @ b)"
      using "1.IH" [OF False st [symmetric] TrueI v "1.prems"(2)] .
    then show ?thesis
      using False utf8_step_append(1) [OF st False, of b] utf8_step_append(2) [OF st False] by (subst valid_utf8.simps) simp
  qed (use "1.prems" in simp)
qed

lemma utf8_step_take:
  assumes "utf8_step bs = (True, n)" and "bs \<noteq> []"
  shows "valid_utf8 (take n bs)"
proof -
  have "n \<noteq> 0" using utf8_step_pos [of bs] assms(1) by simp
  then have ne: "take n bs \<noteq> []" using assms(2) by simp
  have at: "\<And>i. i < n \<Longrightarrow> safe_get (take n bs) i = safe_get bs i"
    using utf8_step_append(2) [OF assms] by (simp add: safe_get_def)
  have "utf8_step (take n bs) = (True, n)"
    using assms at by (auto simp: utf8_step_def Let_def split: if_splits)
  then show ?thesis using ne by (subst valid_utf8.simps) simp
qed

text \<open>An ASCII character can be replaced by ASCII text: no other character has its byte.\<close>

definition subst_byte :: "u8 \<Rightarrow> bytes \<Rightarrow> bytes \<Rightarrow> bytes" where
  "subst_byte q r bs = concat (map (\<lambda>b. if b = q then r else [b]) bs)"

lemma subst_byte_append: "subst_byte q r (a @ b) = subst_byte q r a @ subst_byte q r b"
  by (simp add: subst_byte_def)

lemma subst_byte_absent: "q \<notin> set bs \<Longrightarrow> subst_byte q r bs = bs"
  by (induction bs) (auto simp: subst_byte_def)

lemma valid_utf8_subst:
  assumes "valid_utf8 bs" and "q < 0x80" and "\<forall>b \<in> set r. b < 0x80"
  shows "valid_utf8 (subst_byte q r bs)"
  using assms(1)
proof (induction bs rule: valid_utf8.induct)
  case (1 bs)
  show ?case
  proof (cases "bs = []")
    case True
    then show ?thesis by (simp add: subst_byte_def)
  next
    case False
    obtain n where st: "utf8_step bs = (True, n)" and v: "valid_utf8 (drop n bs)"
      using "1.prems" [unfolded valid_utf8.simps [of bs]] False by (auto split: prod.splits if_splits)
    have q: "q \<noteq> x" if "128 \<le> unat x" for x
      using assms(2) that by (auto simp: word_less_nat_alt)
    have "valid_utf8 (subst_byte q r (take n bs))"
    proof (cases rule: utf8_step_cases [OF st False])
      case (1 a)
      then have "\<forall>b \<in> set (subst_byte q r [a]). b < 0x80"
        using assms(3) by (auto simp: subst_byte_def word_less_nat_alt)
      then show ?thesis using 1 valid_utf8_ascii by simp
    qed (use utf8_step_take [OF st False] in
        \<open>simp_all add: subst_byte_absent cont_iff q\<close>)
    then have "valid_utf8 (subst_byte q r (take n bs) @ subst_byte q r (drop n bs))"
      using valid_utf8_append "1.IH" [OF False st [symmetric] TrueI v] by blast
    then show ?thesis by (simp flip: subst_byte_append)
  qed
qed

lemma utf8_text_append [simp]: "utf8_text a \<Longrightarrow> utf8_text b \<Longrightarrow> utf8_text (a @ b)"
  by (simp add: utf8_text_def valid_utf8_append)

lemma utf8_text_ascii: "\<forall>c \<in> set s. of_char c < (0x80 :: nat) \<Longrightarrow> utf8_text s"
  unfolding utf8_text_def
  by (rule valid_utf8_ascii) (auto simp: as_bytes_def char_byte_def word_less_nat_alt unat_of_nat)

lemma scalars_valid:
  assumes "valid_utf8 bs"
  shows "concat (map utf8_char (scalars bs)) = bs \<and> list_all scalar_ok (scalars bs) \<and>
    (0 \<notin> set bs \<longrightarrow> 0 \<notin> set (scalars bs))"
  using assms
proof (induction bs rule: scalars.induct)
  case (1 bs)
  show ?case
  proof (cases "bs = []")
    case True
    then show ?thesis by (simp add: scalars.simps)
  next
    case False
    obtain n where st: "utf8_step bs = (True, n)" and v: "valid_utf8 (drop n bs)"
      using "1.prems" [unfolded valid_utf8.simps [of bs]] False by (auto split: prod.splits if_splits)
    have tl: "concat (map utf8_char (scalars (drop n bs))) = drop n bs \<and> list_all scalar_ok (scalars (drop n bs)) \<and>
        (0 \<notin> set (drop n bs) \<longrightarrow> 0 \<notin> set (scalars (drop n bs)))"
      using "1.IH" [OF False st [symmetric] v] .
    have step: "scalars bs = scalar_at bs n # scalars (drop n bs)"
      using False st by (subst scalars.simps) simp
    show ?thesis
      using utf8_char_scalar [OF st False] tl unfolding step
      by (auto dest: in_set_takeD in_set_dropD)
  qed
qed

lemma utf16_scalars_plain:
  "\<not> low_surrogate u \<Longrightarrow> \<not> high_surrogate u \<Longrightarrow> utf16_scalars (u # us) = unat u # utf16_scalars us"
  by (cases us) simp_all

text \<open>The units of a character: none is zero unless it is, and they read back as it.\<close>

lemma utf16_units_scalar:
  assumes "scalar_ok c"
  shows "utf16_scalars (utf16_units c @ us) = c # utf16_scalars us"
    and "c \<noteq> 0 \<Longrightarrow> 0 \<notin> set (utf16_units c)"
proof -
  have small: "unat (word_of_nat k :: u16) = k" if "k < 65536" for k
    using that by (simp add: unat_of_nat)
  have zero: "(word_of_nat k :: u16) = 0 \<longleftrightarrow> k = 0" if "k < 65536" for k
    using small [OF that] by (metis unsigned_eq_0_iff)
  show "utf16_scalars (utf16_units c @ us) = c # utf16_scalars us"
  proof (cases "c < 0x10000")
    case True
    then have "\<not> low_surrogate (word_of_nat c)" "\<not> high_surrogate (word_of_nat c)"
      using assms by (auto simp: low_surrogate_def high_surrogate_def small scalar_ok_def)
    then show ?thesis using True small by (simp add: utf16_units_def utf16_scalars_plain)
  next
    case False
    define d where "d = c - 0x10000"
    have d: "c = d + 0x10000" "d div 1024 < 1024" "d mod 1024 < 1024"
      using False assms by (auto simp: d_def scalar_ok_def)
    have hi: "unat (word_of_nat (0xD800 + d div 1024) :: u16) = 0xD800 + d div 1024"
      and lo: "unat (word_of_nat (0xDC00 + d mod 1024) :: u16) = 0xDC00 + d mod 1024"
      using d by (simp_all only: small)
    have "high_surrogate (word_of_nat (0xD800 + d div 1024))" "\<not> low_surrogate (word_of_nat (0xD800 + d div 1024))"
      "low_surrogate (word_of_nat (0xDC00 + d mod 1024))"
      unfolding high_surrogate_def low_surrogate_def hi lo using d by simp_all
    then show ?thesis using False hi lo d
      by (simp add: utf16_units_def del: of_nat_add of_nat_numeral)
  qed
  assume "c \<noteq> 0"
  moreover have "(c - 0x10000) div 1024 < 1024"
    using assms by (auto simp: scalar_ok_def)
  moreover have "(c - 0x10000) mod 1024 < 1024" by simp
  ultimately show "0 \<notin> set (utf16_units c)"
    using assms zero [of c] zero [of "0xD800 + (c - 0x10000) div 1024"] zero [of "0xDC00 + (c - 0x10000) mod 1024"]
    by (auto simp: utf16_units_def scalar_ok_def simp del: of_nat_add of_nat_numeral)
qed

lemma utf16_scalars_units:
  "list_all scalar_ok cs \<Longrightarrow> utf16_scalars (concat (map utf16_units cs)) = cs"
  by (induction cs) (simp_all add: utf16_units_scalar(1))

lemma from_utf16_lossy_encode:
  assumes "utf8_text s"
  shows "from_utf16_lossy (encode_utf16 s) = s"
  using scalars_valid [OF assms [unfolded utf8_text_def]]
  by (simp add: from_utf16_lossy_def encode_utf16_def utf16_scalars_units)

lemma encode_utf16_no_nul:
  assumes "utf8_text s" and "CHR 0x00 \<notin> set s"
  shows "0 \<notin> set (encode_utf16 s)"
proof -
  have "char_byte c \<noteq> 0" if "c \<in> set s" for c
    using that assms(2) char_byte_inject [of c "CHR 0x00"] by (auto simp: char_byte_def)
  then have "0 \<notin> set (as_bytes s)" by (auto simp: as_bytes_def)
  then have "0 \<notin> set (scalars (as_bytes s))" "list_all scalar_ok (scalars (as_bytes s))"
    using scalars_valid [OF assms(1) [unfolded utf8_text_def]] by auto
  then show ?thesis
    using utf16_units_scalar(2) by (fastforce simp: encode_utf16_def list_all_iff)
qed

text \<open>
  What \<open>wide\<close> writes is read back up to its own NUL, whatever follows it, from a buffer and
  through a pointer: every valid string without a NUL survives both, the characters outside the basic
  plane included.
\<close>

theorem wide_reads_back:
  assumes "utf8_text s" and "CHR 0x00 \<notin> set s"
  shows "wide_to_string (wide s @ junk) = s" and "wide_ptr_to_string (wide s @ junk) = Some s"
proof -
  have n: "0 \<notin> set (encode_utf16 s)" by (rule encode_utf16_no_nul [OF assms])
  have "takeWhile (\<lambda>c. c \<noteq> 0) (encode_utf16 s @ 0 # junk) = encode_utf16 s"
    using n by (subst takeWhile_append2) auto
  then show "wide_to_string (wide s @ junk) = s"
    by (simp add: wide_to_string_def wide_def from_utf16_lossy_encode [OF assms(1)])
  have "0 \<notin> set us \<Longrightarrow> wide_ptr_len (us @ 0 # junk) = Some (length us)" for us
    by (induction us) auto
  then show "wide_ptr_to_string (wide s @ junk) = Some s"
    using n by (simp add: wide_ptr_to_string_def wide_def from_utf16_lossy_encode [OF assms(1)])
qed

text \<open>A surrogate without its half is replaced.\<close>

lemma lone_surrogate_replaced:
  "from_utf16_lossy [0xD83D, 0x0041] = of_bytes ([0xEF, 0xBF, 0xBD] @ [0x41])"
  by (simp add: from_utf16_lossy_def low_surrogate_def high_surrogate_def utf8_char_def REPLACEMENT_SCALAR_def)

end
