(* ===== verification/Service.thy ===== *)
theory Service
  imports Terminal Wide_String
begin

text \<open>
  \<open>crates/mwsqlctl/src/service.rs\<close>: the names a service may have, the quoting of the elevated
  relaunch on Windows, and the commands that install and remove the service on Linux. What a command
  prints and how it is run are the environment: a command is recorded, and answered with its exit code.
\<close>

section \<open>Service names\<close>

definition INVALID_SERVICE_NAME :: "string \<Rightarrow> string" where
  "INVALID_SERVICE_NAME nm =
     ''invalid --service-name '' @ nm @ '': use a short lowercase name matching [a-z_][a-z0-9_-]*''"

definition name_start :: "char \<Rightarrow> bool" where
  "name_start c \<longleftrightarrow> char_between (CHR ''a'') (CHR ''z'') c \<or> c = CHR ''_''"

definition name_char :: "char \<Rightarrow> bool" where
  "name_char c \<longleftrightarrow> char_between (CHR ''a'') (CHR ''z'') c \<or> is_digit c \<or> c = CHR ''_'' \<or> c = CHR ''-''"

definition validate_service_name :: "string \<Rightarrow> string + unit" where
  "validate_service_name nm =
     (if length nm \<le> 32 \<and> (case nm of [] \<Rightarrow> False | c # _ \<Rightarrow> name_start c) \<and> list_all name_char nm
      then Inr () else Inl (INVALID_SERVICE_NAME nm))"

section \<open>The elevated relaunch\<close>

definition ELEVATION_CANCELLED :: nat where "ELEVATION_CANCELLED = 1223"

definition QUOTE :: char where "QUOTE = CHR 0x27"

definition ps_single_quote :: "string \<Rightarrow> string" where
  "ps_single_quote s = QUOTE # concat (map (\<lambda>c. if c = QUOTE then [QUOTE, QUOTE] else [c]) s) @ [QUOTE]"

definition windows_powershell_path :: "string option \<Rightarrow> string" where
  "windows_powershell_path system_root =
     (case system_root of Some r \<Rightarrow> r | None \<Rightarrow> ''C:'' @ [CHR 0x5C] @ ''Windows'') @
     [CHR 0x5C] @ ''System32'' @ [CHR 0x5C] @ ''WindowsPowerShell'' @ [CHR 0x5C] @ ''v1.0'' @ [CHR 0x5C] @
     ''powershell.exe''"

definition open_new :: "string \<Rightarrow> string" where
  "open_new file_q =
     ''[System.IO.File]::Open('' @ file_q @
     '', [IO.FileMode]::CreateNew, [IO.FileAccess]::Write, [IO.FileShare]::Read).Close()''"

definition ps_invoke :: "string \<Rightarrow> string list \<Rightarrow> string" where
  "ps_invoke exe args = ''& '' @ ps_single_quote exe @ concat (map (\<lambda>a. '' '' @ ps_single_quote a) args)"

definition build_inner_script :: "string \<Rightarrow> string list \<Rightarrow> string \<Rightarrow> string \<Rightarrow> string" where
  "build_inner_script exe args out err =
     (let out_q = ps_single_quote out; err_q = ps_single_quote err
      in ''$code = 1; try { '' @ open_new out_q @ ''; '' @ open_new err_q @ '' } catch { exit 1 }; try { '' @
         ps_invoke exe args @ '' 1> '' @ out_q @ '' 2> '' @ err_q @
         ''; $code = $LASTEXITCODE } catch { [System.IO.File]::AppendAllText('' @ err_q @
         '', ($_ | Out-String)); $code = 1 }; if ($null -eq $code) { $code = 1 }; exit $code'')"

definition build_outer_script :: "string option \<Rightarrow> string \<Rightarrow> string" where
  "build_outer_script system_root inner_b64 =
     ''$ErrorActionPreference = '' @ ps_single_quote ''Stop'' @ ''; try { $p = Start-Process '' @
     ps_single_quote (windows_powershell_path system_root) @
     '' -Verb RunAs -Wait -PassThru -ArgumentList '' @ ps_single_quote ''-NoProfile'' @ '','' @
     ps_single_quote ''-NonInteractive'' @ '','' @ ps_single_quote ''-EncodedCommand'' @ '','' @
     ps_single_quote inner_b64 @
     ''; $code = $p.ExitCode; if ($null -eq $code) { $code = 1 }; exit $code } catch { exit '' @
     show_nat ELEVATION_CANCELLED @ '' }''"

text \<open>\<open>relaunch_elevated_windows\<close>: the arguments of the elevated child.\<close>

definition relaunch_args :: "string \<Rightarrow> string list \<Rightarrow> string list" where
  "relaunch_args subcommand forward = subcommand # forward @ [''--uac'']"

definition build_sudo_argv :: "string \<Rightarrow> string \<Rightarrow> string list \<Rightarrow> string list" where
  "build_sudo_argv me subcommand forward = [''--'', me, subcommand] @ forward"

text \<open>The output of the elevated child: UTF-16 with a byte order mark, or UTF-8.\<close>

text \<open>\<open>chunks_exact(2)\<close>, little-endian.\<close>

fun le_units :: "bytes \<Rightarrow> u16 list" where
  "le_units (a # b # rest) = from_le16 a b # le_units rest"
| "le_units _ = []"

fun crlf_to_lf :: "bytes \<Rightarrow> bytes" where
  "crlf_to_lf [] = []"
| "crlf_to_lf [b] = [b]"
| "crlf_to_lf (a # b # rest) =
     (if a = 0x0D \<and> b = 0x0A then 0x0A # crlf_to_lf rest else a # crlf_to_lf (b # rest))"

definition decode_child_output :: "bytes \<Rightarrow> bytes" where
  "decode_child_output out =
     crlf_to_lf
       (if take 2 out = [0xFF, 0xFE] then as_bytes (from_utf16_lossy (le_units (drop 2 out)))
        else if take 3 out = [0xEF, 0xBB, 0xBF] then utf8_lossy (drop 3 out)
        else utf8_lossy out)"

definition sc_state_line :: "string \<Rightarrow> nat option" where
  "sc_state_line line =
     (case split_once (CHR '':'') line of
        None \<Rightarrow> None
      | Some (label, v) \<Rightarrow>
          if ascii_lower (trim label) \<noteq> ''state'' then None
          else (case next_word v of None \<Rightarrow> None | Some (w, _) \<Rightarrow> parse_uint 4294967295 w))"

definition parse_sc_state :: "string \<Rightarrow> nat option" where
  "parse_sc_state out =
     (case filter (\<lambda>l. sc_state_line l \<noteq> None) (text_lines out) of [] \<Rightarrow> None | l # _ \<Rightarrow> sc_state_line l)"

section \<open>Elevating\<close>

datatype elevation =
    NoOwnExecutable
  | NoTerminal
  | PrintedCommand
  | ReExecuted "string list"

definition elevate_or_print ::
  "string \<Rightarrow> bool \<Rightarrow> terminal \<Rightarrow> string \<Rightarrow> string list \<Rightarrow> elevation" where
  "elevate_or_print me me_exists tm subcommand forward =
     (if \<not> me_exists then NoOwnExecutable
      else if \<not> tm_is_terminal tm then NoTerminal
      else (case fst (confirm_prompt True tm) of
              Inr True \<Rightarrow> ReExecuted (build_sudo_argv me subcommand forward)
            | _ \<Rightarrow> PrintedCommand))"

section \<open>What the promises rest on\<close>

lemma service_name_chars:
  assumes "validate_service_name nm = Inr ()"
  shows "nm \<noteq> []" and "hd nm \<noteq> CHR ''-''" and "list_all name_char nm" and "length nm \<le> 32"
  using assms by (auto simp: validate_service_name_def name_start_def char_between_def less_eq_char_def
      split: if_splits list.splits)

section \<open>Quoting for PowerShell\<close>

text \<open>PowerShell's rule for a single-quoted literal: a quote ends it, two in a row stand for the
  second; the four typographic single quotes, three bytes each, are quotes like the straight one.\<close>

definition CURLY :: "string list" where
  "CURLY = map (\<lambda>b. [CHR 0xE2, CHR 0x80, b]) [CHR 0x98, CHR 0x99, CHR 0x9A, CHR 0x9B]"

definition quote_len :: "string \<Rightarrow> nat" where
  "quote_len s =
     (case s of [] \<Rightarrow> 0 | c # _ \<Rightarrow> if c = QUOTE then 1 else if take 3 s \<in> set CURLY then 3 else 0)"

function ps_body :: "string \<Rightarrow> (string \<times> string) option" where
  "ps_body s =
     (if s = [] then None
      else if quote_len s = 0 then map_option (\<lambda>(u, rest). (hd s # u, rest)) (ps_body (tl s))
      else (let t = drop (quote_len s) s
            in if quote_len t = 0 then Some ([], t)
               else map_option (\<lambda>(u, rest). (take (quote_len t) t @ u, rest)) (ps_body (drop (quote_len t) t))))"
  by auto
termination by (relation "measure length") auto

declare ps_body.simps [simp del]

definition read_ps_literal :: "string \<Rightarrow> (string \<times> string) option" where
  "read_ps_literal s = (case s of c # t \<Rightarrow> if c = QUOTE then ps_body t else None | [] \<Rightarrow> None)"

fun no_curly :: "string \<Rightarrow> bool" where
  "no_curly [] = True"
| "no_curly (c # s) = (take 3 (c # s) \<notin> set CURLY \<and> no_curly s)"

abbreviation doubled :: "string \<Rightarrow> string" where
  "doubled s \<equiv> concat (map (\<lambda>c. if c = QUOTE then [QUOTE, QUOTE] else [c]) s)"

lemma curly_shape: "x # y # z # t' = u \<Longrightarrow> take 3 u \<in> set CURLY \<longleftrightarrow>
    x = CHR 0xE2 \<and> y = CHR 0x80 \<and> z \<in> {CHR 0x98, CHR 0x99, CHR 0x9A, CHR 0x9B}"
  by (auto simp: CURLY_def)

lemma curly_long: "take 3 u \<in> set CURLY \<Longrightarrow> \<exists>x y z t. u = x # y # z # t \<and> QUOTE \<notin> {x, y, z}"
  by (cases u; cases "tl u"; cases "tl (tl u)") (auto simp: CURLY_def QUOTE_def)

lemma doubled_no_curly:
  assumes "no_curly (c # s)" and "c \<noteq> QUOTE"
  shows "take 3 (c # doubled s @ QUOTE # rest) \<notin> set CURLY"
proof
  assume q: "take 3 (c # doubled s @ QUOTE # rest) \<in> set CURLY"
  obtain x y z t where u: "c # doubled s @ QUOTE # rest = x # y # z # t" "QUOTE \<notin> {x, y, z}"
    using curly_long [OF q] by blast
  obtain d s1 where s: "s = d # s1" "d \<noteq> QUOTE" using u by (cases s) (auto split: if_splits)
  obtain d' s2 where s1: "s1 = d' # s2" "d' \<noteq> QUOTE" using u s by (cases s1) (auto split: if_splits)
  have "take 3 (c # s) \<in> set CURLY" using q s s1 by simp
  then show False using assms(1) by simp
qed

lemma quote_len_simps [simp]:
  "quote_len (QUOTE # s) = 1" "quote_len [] = 0"
  by (simp_all add: quote_len_def)

lemma quote_len_other: "c \<noteq> QUOTE \<Longrightarrow> take 3 (c # s) \<notin> set CURLY \<Longrightarrow> quote_len (c # s) = 0"
  by (simp add: quote_len_def)

lemma ps_body_doubled:
  assumes "no_curly s" and "quote_len rest = 0"
  shows "ps_body (doubled s @ QUOTE # rest) = Some (s, rest)"
  using assms(1)
proof (induction s)
  case Nil
  then show ?case using assms(2) by (simp add: ps_body.simps [of "QUOTE # rest"])
next
  case (Cons c s)
  show ?case
  proof (cases "c = QUOTE")
    case True
    then show ?thesis
      using Cons by (simp add: ps_body.simps [of "QUOTE # QUOTE # doubled s @ QUOTE # rest"])
  next
    case False
    then have "quote_len (c # doubled s @ QUOTE # rest) = 0"
      using doubled_no_curly [OF Cons.prems] quote_len_other by blast
    then show ?thesis
      using Cons False by (simp add: ps_body.simps [of "c # doubled s @ QUOTE # rest"])
  qed
qed

lemma ps_single_quote_text:
  assumes "utf8_text s"
  shows "utf8_text (ps_single_quote s)"
proof -
  have b: "as_bytes (ps_single_quote s) = [0x27] @ subst_byte 0x27 [0x27, 0x27] (as_bytes s) @ [0x27]"
  proof -
    have q: "char_byte c = 0x27 \<longleftrightarrow> c = QUOTE" for c
      using char_byte_inject [of c QUOTE] by (simp add: QUOTE_def char_byte_def)
    have "as_bytes (doubled s) = subst_byte 0x27 [0x27, 0x27] (as_bytes s)"
      by (induction s) (auto simp: subst_byte_def q as_bytes_def)
    then show ?thesis by (simp add: ps_single_quote_def q)
  qed
  have one: "valid_utf8 [0x27]" by (rule valid_utf8_ascii) simp
  show ?thesis
    unfolding utf8_text_def b
    by (intro valid_utf8_append one valid_utf8_subst) (use assms in \<open>simp_all add: utf8_text_def\<close>)
qed

lemma read_ps_single_quote:
  "no_curly s \<Longrightarrow> quote_len rest = 0 \<Longrightarrow> read_ps_literal (ps_single_quote s @ rest) = Some (s, rest)"
  by (simp add: read_ps_literal_def ps_single_quote_def ps_body_doubled)

fun read_ps_arguments :: "nat \<Rightarrow> string \<Rightarrow> (string list \<times> string) option" where
  "read_ps_arguments 0 s = Some ([], s)"
| "read_ps_arguments (Suc n) s =
     (case s of
        [] \<Rightarrow> None
      | c # t \<Rightarrow>
          if c \<noteq> CHR '' '' then None
          else (case read_ps_literal t of
                  None \<Rightarrow> None
                | Some (a, rest) \<Rightarrow>
                    map_option (\<lambda>(as, r). (a # as, r)) (read_ps_arguments n rest)))"

lemma quote_len_space [simp]: "quote_len (CHR '' '' # s) = 0"
  by (cases s; cases "tl s") (auto simp: quote_len_def QUOTE_def CURLY_def)

lemma read_ps_quoted:
  assumes "list_all no_curly args"
  shows "read_ps_arguments (length args)
      (concat (map (\<lambda>a. '' '' @ ps_single_quote a) args) @ CHR '' '' # rest) = Some (args, CHR '' '' # rest)"
  using assms
proof (induction args)
  case (Cons a as)
  have "quote_len (concat (map (\<lambda>a. '' '' @ ps_single_quote a) as) @ CHR '' '' # rest) = 0"
    by (cases as) simp_all
  then show ?case using Cons read_ps_single_quote [of a] by simp
qed simp

text \<open>
  The elevated child gets the arguments. The command line the elevated shell runs names the program
  and the arguments it was built from, one literal each, with any characters in them but typographic
  quotes: no argument can end its literal and be run as code.
\<close>

theorem elevated_arguments_read_back:
  assumes "list_all no_curly (exe # args)"
  shows "\<exists>inv. ps_invoke exe args @ '' 1> '' @ ps_single_quote out = ''&'' @ inv \<and>
    read_ps_arguments (Suc (length args)) inv = Some (exe # args, '' 1> '' @ ps_single_quote out)"
proof -
  let ?inv = "concat (map (\<lambda>a. '' '' @ ps_single_quote a) (exe # args)) @ '' 1> '' @ ps_single_quote out"
  have "read_ps_arguments (length (exe # args)) ?inv = Some (exe # args, '' 1> '' @ ps_single_quote out)"
    using read_ps_quoted [OF assms, of "''1> '' @ ps_single_quote out"] by simp
  then show ?thesis by (intro exI [of _ ?inv]) (simp add: ps_invoke_def)
qed

theorem elevated_arguments_read_back_witness:
  "\<exists>inv. ps_invoke ''mwsqlctl'' [''init'', [QUOTE] @ ''; calc''] @ '' 1> '' @ ps_single_quote ''out'' = ''&'' @ inv \<and>
    read_ps_arguments 3 inv = Some ([''mwsqlctl'', ''init'', [QUOTE] @ ''; calc''], '' 1> '' @ ps_single_quote ''out'')"
proof -
  have "list_all no_curly [''mwsqlctl'', ''init'', [QUOTE] @ ''; calc'']"
    by (simp add: CURLY_def QUOTE_def)
  then show ?thesis
    using elevated_arguments_read_back [of "''mwsqlctl''" "[''init'', [QUOTE] @ ''; calc'']" "''out''"]
    by (simp add: numeral_3_eq_3)
qed

text \<open>A typographic quote in an argument does end its literal, and the rest is run.\<close>

theorem curly_quote_ends_literal:
  "read_ps_literal (ps_single_quote (''x'' @ [CHR 0xE2, CHR 0x80, CHR 0x99] @ ''; calc'')) =
     Some (''x'', ''; calc'' @ [QUOTE])"
  by (simp add: read_ps_literal_def ps_single_quote_def ps_body.simps quote_len_def CURLY_def QUOTE_def)

section \<open>The output of the child\<close>

definition lf_to_crlf :: "bytes \<Rightarrow> bytes" where
  "lf_to_crlf t = concat (map (\<lambda>b. if b = 0x0A then [0x0D, 0x0A] else [b]) t)"

lemma crlf_roundtrip: "0x0D \<notin> set t \<Longrightarrow> crlf_to_lf (lf_to_crlf t) = t"
proof (induction t)
  case (Cons b t)
  have "crlf_to_lf (b # lf_to_crlf t) = b # crlf_to_lf (lf_to_crlf t)" if "b \<noteq> 0x0D"
    using that by (cases "lf_to_crlf t") auto
  then show ?case using Cons by (auto simp: lf_to_crlf_def)
qed (simp add: lf_to_crlf_def)

lemma le_units_le16: "le_units (concat (map le16 us)) = us"
proof (induction us)
  case (Cons u us)
  obtain a b where "le16 u = [a, b]" "from_le16 a b = u" by (rule le16_cons)
  then show ?case using Cons by simp
qed simp

text \<open>The redirection of Windows PowerShell writes a line feed as two units.\<close>

definition crlf_units :: "u16 list \<Rightarrow> u16 list" where
  "crlf_units us = concat (map (\<lambda>u. if u = 0x0A then [0x0D, 0x0A] else [u]) us)"

definition crlf_scalars :: "nat list \<Rightarrow> nat list" where
  "crlf_scalars cs = concat (map (\<lambda>c. if c = 10 then [13, 10] else [c]) cs)"

lemma no_line_feed:
  "10 \<notin> set us \<Longrightarrow> crlf_units us = us" "10 \<notin> set bs \<Longrightarrow> lf_to_crlf bs = bs"
  by (induction us) (auto simp: crlf_units_def, induction bs, auto simp: lf_to_crlf_def)

lemma line_feed_coded:
  assumes "scalar_ok c" and "c \<noteq> 10"
  shows "10 \<notin> set (utf16_units c)" and "10 \<notin> set (utf8_char c)"
proof -
  have word16: "unat (word_of_nat k :: u16) = k" if "k < 65536" for k
    using that by (simp add: unat_of_nat)
  have word8: "unat (word_of_nat k :: u8) = k" if "k < 256" for k
    using that by (simp add: unat_of_nat)
  have ten16: "(10 :: u16) = word_of_nat k \<longleftrightarrow> k = 10" if "k < 65536" for k
    using word16 [OF that] unsigned_numeral [of "num.Bit0 (num.Bit1 (num.Bit0 num.One))", where 'a = nat and 'b = 16] by auto
  have ten8: "(10 :: u8) = word_of_nat k \<longleftrightarrow> k = 10" if "k < 256" for k
    using word8 [OF that] unsigned_numeral [of "num.Bit0 (num.Bit1 (num.Bit0 num.One))", where 'a = nat and 'b = 8] by auto
  show "10 \<notin> set (utf16_units c)"
  proof (cases "c < 0x10000")
    case True
    then show ?thesis using assms(2) ten16 by (simp add: utf16_units_def)
  next
    case False
    have "(c - 0x10000) div 1024 < 1024" using assms(1) by (auto simp: scalar_ok_def)
    moreover have "(c - 0x10000) mod 1024 < 1024" by simp
    ultimately show ?thesis
      using False ten16 [of "0xD800 + (c - 0x10000) div 1024"] ten16 [of "0xDC00 + (c - 0x10000) mod 1024"]
      by (simp add: utf16_units_def del: of_nat_add of_nat_numeral)
  qed
  have small: "c div 64 < 32" if "c < 0x800" using that by auto
  have mid: "c div 4096 < 16" if "c < 0x10000" using that by auto
  have top: "c div 262144 < 5" using assms(1) by (auto simp: scalar_ok_def)
  have low: "c mod 64 < 64" "c div 64 mod 64 < 64" "c div 4096 mod 64 < 64" by simp_all
  show "10 \<notin> set (utf8_char c)"
    using assms(2) small mid top low
      ten8 [of c] ten8 [of "0xC0 + c div 64"] ten8 [of "0xE0 + c div 4096"] ten8 [of "0xF0 + c div 262144"]
      ten8 [of "0x80 + c mod 64"] ten8 [of "0x80 + c div 64 mod 64"] ten8 [of "0x80 + c div 4096 mod 64"]
    by (simp add: utf8_char_def del: of_nat_add of_nat_numeral)
qed

lemma crlf_coded:
  assumes "list_all scalar_ok cs"
  shows "crlf_units (concat (map utf16_units cs)) = concat (map utf16_units (crlf_scalars cs)) \<and>
    lf_to_crlf (concat (map utf8_char cs)) = concat (map utf8_char (crlf_scalars cs))"
  using assms
proof (induction cs)
  case (Cons c cs)
  have split: "crlf_units (a @ b) = crlf_units a @ crlf_units b" "lf_to_crlf (x @ y) = lf_to_crlf x @ lf_to_crlf y"
    for a b x y by (simp_all add: crlf_units_def lf_to_crlf_def)
  have "crlf_units (utf16_units c) = concat (map utf16_units (crlf_scalars [c]))"
    "lf_to_crlf (utf8_char c) = concat (map utf8_char (crlf_scalars [c]))"
    using Cons.prems line_feed_coded [of c] no_line_feed
    by (auto simp: crlf_scalars_def crlf_units_def lf_to_crlf_def utf16_units_def utf8_char_def)
  moreover have "crlf_scalars (c # cs) = crlf_scalars [c] @ crlf_scalars cs" by (simp add: crlf_scalars_def)
  ultimately show ?case
    using Cons by (simp_all add: split)
qed (simp_all add: crlf_units_def lf_to_crlf_def crlf_scalars_def)

text \<open>What Windows PowerShell 5.1 redirects, a byte order mark, UTF-16 and carriage returns, and what
  PowerShell 7 does, UTF-8 with or without a mark, is the text the child printed, whatever characters it
  has.\<close>

lemma child_output_utf16:
  assumes "utf8_text s" and "0x0D \<notin> set (as_bytes s)"
  shows "decode_child_output ([0xFF, 0xFE] @ concat (map le16 (crlf_units (encode_utf16 s)))) = as_bytes s"
proof -
  let ?cs = "scalars (as_bytes s)"
  have cs: "concat (map utf8_char ?cs) = as_bytes s" "list_all scalar_ok ?cs"
    using scalars_valid [OF assms(1) [unfolded utf8_text_def]] by auto
  have "list_all scalar_ok (crlf_scalars ?cs)"
    using cs(2) by (auto simp: crlf_scalars_def list_all_iff scalar_ok_def)
  then have "utf16_scalars (crlf_units (encode_utf16 s)) = crlf_scalars ?cs"
    using crlf_coded [OF cs(2)] by (simp add: encode_utf16_def utf16_scalars_units)
  moreover have "concat (map utf8_char (crlf_scalars ?cs)) = lf_to_crlf (as_bytes s)"
    using crlf_coded [OF cs(2)] cs(1) by simp
  ultimately show ?thesis
    using crlf_roundtrip [OF assms(2)]
    by (simp add: decode_child_output_def le_units_le16 from_utf16_lossy_def)
qed

lemma child_output_utf8:
  assumes "utf8_text s" and "0x0D \<notin> set (as_bytes s)"
    and "take 3 (lf_to_crlf (as_bytes s)) \<noteq> [0xEF, 0xBB, 0xBF]"
  shows "decode_child_output (lf_to_crlf (as_bytes s)) = as_bytes s"
    and "decode_child_output ([0xEF, 0xBB, 0xBF] @ lf_to_crlf (as_bytes s)) = as_bytes s"
proof -
  have v: "valid_utf8 (lf_to_crlf (as_bytes s))"
    using valid_utf8_subst [of "as_bytes s" "0x0A" "[0x0D, 0x0A]"] assms(1)
    by (simp add: utf8_text_def subst_byte_def lf_to_crlf_def)
  have "take 2 (lf_to_crlf (as_bytes s)) \<noteq> [0xFF, 0xFE]"
  proof
    assume "take 2 (lf_to_crlf (as_bytes s)) = [0xFF, 0xFE]"
    then obtain t where "lf_to_crlf (as_bytes s) = 0xFF # t" by (cases "lf_to_crlf (as_bytes s)") auto
    then show False using v by (subst (asm) valid_utf8.simps) (simp add: utf8_step_def safe_get_def byte_in_def)
  qed
  then show "decode_child_output (lf_to_crlf (as_bytes s)) = as_bytes s"
    "decode_child_output ([0xEF, 0xBB, 0xBF] @ lf_to_crlf (as_bytes s)) = as_bytes s"
    using assms(3) v crlf_roundtrip [OF assms(2)] by (simp_all add: decode_child_output_def utf8_lossy_valid)
qed

end
