(* ===== verification/Host.thy ===== *)
theory Host
  imports Service
begin

text \<open>
  \<open>crates/mwsqlctl/src/service.rs\<close>, the part that changes the machine: elevation, the service
  account, and the service's installation, restart and removal. A step acts on the machine and gives a
  result or an error. A command it runs is recorded and answered with an exit code by the environment; no
  command touches the state directory. What the steps print is left out.
\<close>

section \<open>The machine and the process\<close>

datatype platform = Linux | MacOS | OtherUnix | Windows

record machine =
  mc_disk :: disk
  mc_dirs :: "string \<Rightarrow> bool"
  mc_ran :: "(string \<times> string list) list"
  mc_term :: terminal

text \<open>
  \<open>pr_status\<close> and \<open>pr_output\<close> answer the k-th command run: it could not be started, or
  its exit code, \<open>None\<close> when a signal ended it. \<open>pr_fault\<close> is the error of a write;
  \<open>pr_remove\<close> is how the removal of a path fails, and which of what is below it is gone by then;
  \<open>pr_entries\<close> lists a directory; \<open>pr_encode\<close> is the base64 of a script.
\<close>

record process =
  pr_platform :: platform
  pr_euid_root :: bool
  pr_marker :: bool
  pr_role_query :: "(bool \<times> string) option"
  pr_exe :: "string + string"
  pr_status :: "nat \<Rightarrow> string \<times> string list \<Rightarrow> string + int option"
  pr_output :: "nat \<Rightarrow> string \<times> string list \<Rightarrow> string + (bool \<times> string)"
  pr_fault :: "string \<Rightarrow> string option"
  pr_remove :: "string \<Rightarrow> (string \<times> (string \<Rightarrow> bool)) option"
  pr_entries :: "machine \<Rightarrow> string \<Rightarrow> string + (string + string) list"
  pr_encode :: "string \<Rightarrow> string"
  pr_system_root :: "string option"

type_synonym 'a action = "machine \<Rightarrow> (string + 'a) \<times> machine"

definition done_with :: "'a \<Rightarrow> 'a action" where "done_with x m = (Inr x, m)"

definition give_up :: "string \<Rightarrow> 'a action" where "give_up e m = (Inl e, m)"

definition after :: "'a action \<Rightarrow> ('a \<Rightarrow> 'b action) \<Rightarrow> 'b action" where
  "after a f m = (case a m of (Inl e, m') \<Rightarrow> (Inl e, m') | (Inr x, m') \<Rightarrow> f x m')"

definition on_terminal :: "'a prompt \<Rightarrow> 'a action" where
  "on_terminal p m = (case p (mc_term m) of (r, tm) \<Rightarrow> (r, m\<lparr>mc_term := tm\<rparr>))"

definition exists_path :: "machine \<Rightarrow> string \<Rightarrow> bool" where
  "exists_path m p \<longleftrightarrow> fs_files (mc_disk m) p \<noteq> None \<or> mc_dirs m p"

definition write_file :: "process \<Rightarrow> string \<Rightarrow> bytes \<Rightarrow> unit action" where
  "write_file pr p b m =
     (case pr_fault pr p of
        Some e \<Rightarrow> (Inl e, m)
      | None \<Rightarrow> (Inr (), m\<lparr>mc_disk := (mc_disk m)\<lparr>fs_files := (fs_files (mc_disk m))(p \<mapsto> b)\<rparr>\<rparr>))"

section \<open>Privilege\<close>

definition is_root :: "process \<Rightarrow> bool" where
  "is_root pr \<longleftrightarrow> pr_platform pr \<noteq> Windows \<and> pr_euid_root pr"

definition already_elevated :: "process \<Rightarrow> bool" where
  "already_elevated pr = pr_marker pr"

definition is_admin :: "process \<Rightarrow> bool" where
  "is_admin pr \<longleftrightarrow> pr_platform pr = Windows \<and>
     (case pr_role_query pr of
        Some (ok, out) \<Rightarrow> ok \<and> ascii_lower (trim out) = ''true'' | None \<Rightarrow> False)"

definition needs_service_elevation :: "process \<Rightarrow> bool \<Rightarrow> bool" where
  "needs_service_elevation pr uac \<longleftrightarrow>
     (if pr_platform pr \<noteq> Windows then \<not> is_root pr \<and> \<not> already_elevated pr
      else \<not> is_admin pr \<and> \<not> uac)"

section \<open>Commands\<close>

definition run_status :: "process \<Rightarrow> string \<Rightarrow> string list \<Rightarrow> machine \<Rightarrow> (string + int option) \<times> machine" where
  "run_status pr program args m =
     (pr_status pr (length (mc_ran m)) (program, args), m\<lparr>mc_ran := mc_ran m @ [(program, args)]\<rparr>)"

definition run_output ::
  "process \<Rightarrow> string \<Rightarrow> string list \<Rightarrow> machine \<Rightarrow> (string + bool \<times> string) \<times> machine" where
  "run_output pr program args m =
     (pr_output pr (length (mc_ran m)) (program, args), m\<lparr>mc_ran := mc_ran m @ [(program, args)]\<rparr>)"

text \<open>\<open>status().map(|s| s.success()).unwrap_or(false)\<close>, and a status that is ignored.\<close>

definition succeeds :: "process \<Rightarrow> string \<Rightarrow> string list \<Rightarrow> bool action" where
  "succeeds pr program args m =
     (case run_status pr program args m of (r, m') \<Rightarrow> (Inr (r = Inr (Some 0)), m'))"

definition run_anyway :: "process \<Rightarrow> string \<Rightarrow> string list \<Rightarrow> unit action" where
  "run_anyway pr program args m = (Inr (), snd (run_status pr program args m))"

definition exit_text :: "int option \<Rightarrow> string" where
  "exit_text code = (case code of None \<Rightarrow> ''None'' | Some n \<Rightarrow> ''Some('' @ show_int n @ '')'')"

text \<open>A command whose exit code must be accepted, and \<open>run_cmd\<close>.\<close>

definition run_checked :: "process \<Rightarrow> int set \<Rightarrow> string \<Rightarrow> string list \<Rightarrow> (int option \<Rightarrow> string) \<Rightarrow> unit action" where
  "run_checked pr accepted program args complaint m =
     (case run_status pr program args m of
        (Inl e, m') \<Rightarrow> (Inl (''run '' @ program @ '': '' @ e), m')
      | (Inr code, m') \<Rightarrow>
          if \<exists>n \<in> accepted. code = Some n then (Inr (), m') else (Inl (complaint code), m'))"

definition run_cmd :: "process \<Rightarrow> string \<Rightarrow> string list \<Rightarrow> unit action" where
  "run_cmd pr program args =
     run_checked pr {0} program args
       (\<lambda>code. program @ '' '' @ join_with '' '' args @ '' failed (exit '' @ exit_text code @ '')'')"

section \<open>The account and the state directory\<close>

definition INSTALLER_ADMIN_GROUP :: string where "INSTALLER_ADMIN_GROUP = ''middlewhere-admins''"

definition ensure_service_user :: "process \<Rightarrow> string \<Rightarrow> unit action" where
  "ensure_service_user pr nm =
     (if pr_platform pr \<noteq> Linux then done_with ()
      else after (succeeds pr ''getent'' [''passwd'', nm]) (\<lambda>there.
        if there then done_with ()
        else run_checked pr {0} ''useradd''
               [''--system'', ''--no-create-home'', ''--shell'', ''/usr/sbin/nologin'', nm]
               (\<lambda>code. ''useradd '' @ nm @ '' failed (exit '' @ exit_text code @ '')'')))"

definition chown_state_dir :: "process \<Rightarrow> string \<Rightarrow> string \<Rightarrow> unit action" where
  "chown_state_dir pr dir nm =
     (if pr_platform pr \<noteq> Linux then done_with ()
      else run_checked pr {0} ''chown'' [''-R'', nm @ '':'' @ nm, dir]
             (\<lambda>_. ''chown '' @ dir @ '' to '' @ nm @ '' failed''))"

text \<open>Exit code 9, the group is there already, is a success.\<close>

definition ensure_admins_group :: "process \<Rightarrow> unit action" where
  "ensure_admins_group pr =
     (if pr_platform pr \<noteq> Linux then done_with ()
      else after (succeeds pr ''getent'' [''group'', INSTALLER_ADMIN_GROUP]) (\<lambda>there.
        if there then done_with ()
        else run_checked pr {0, 9} ''groupadd'' [''--system'', INSTALLER_ADMIN_GROUP]
               (\<lambda>code. ''groupadd '' @ INSTALLER_ADMIN_GROUP @ '' failed (exit '' @ exit_text code @ '')'')))"

definition add_operator_to_admins :: "process \<Rightarrow> string option \<Rightarrow> unit action" where
  "add_operator_to_admins pr operator =
     (case operator of
        Some user \<Rightarrow>
          if pr_platform pr \<noteq> Linux then done_with ()
          else run_checked pr {0} ''usermod'' [''-aG'', INSTALLER_ADMIN_GROUP, user]
                 (\<lambda>code. ''usermod -aG '' @ INSTALLER_ADMIN_GROUP @ '' '' @ user @ '' failed (exit '' @ exit_text code @ '')'')
      | None \<Rightarrow> done_with ())"

section \<open>Restarting and removing the service\<close>

definition SERVICE_STATE_STOPPED :: nat where "SERVICE_STATE_STOPPED = 1"

text \<open>One poll: whether the wait is over. The wait is thirty polls at most.\<close>

definition stopped_now :: "string + bool \<times> string \<Rightarrow> bool" where
  "stopped_now r =
     (case r of
        Inl _ \<Rightarrow> True
      | Inr (ok, out) \<Rightarrow> \<not> ok \<or> parse_sc_state out = Some SERVICE_STATE_STOPPED)"

fun poll_stopped :: "process \<Rightarrow> string \<Rightarrow> nat \<Rightarrow> unit action" where
  "poll_stopped pr nm 0 m = (Inr (), m)"
| "poll_stopped pr nm (Suc k) m =
     (case run_output pr ''sc.exe'' [''query'', nm] m of
        (r, m') \<Rightarrow> if stopped_now r then (Inr (), m') else poll_stopped pr nm k m')"

definition wait_for_service_stopped :: "process \<Rightarrow> string \<Rightarrow> unit action" where
  "wait_for_service_stopped pr nm = poll_stopped pr nm 30"

definition restart_service :: "process \<Rightarrow> string \<Rightarrow> unit action" where
  "restart_service pr nm =
     (if pr_platform pr = Linux \<and> is_root pr then run_cmd pr ''systemctl'' [''restart'', nm]
      else if is_admin pr
      then after (run_anyway pr ''sc.exe'' [''stop'', nm]) (\<lambda>_.
           after (wait_for_service_stopped pr nm) (\<lambda>_.
           run_cmd pr ''sc.exe'' [''start'', nm]))
      else done_with ())"

definition unit_file :: "string \<Rightarrow> string" where
  "unit_file nm = ''/etc/systemd/system/'' @ nm @ ''.service''"

definition remove_unit :: "process \<Rightarrow> string \<Rightarrow> unit action" where
  "remove_unit pr p m =
     (if \<not> exists_path m p then (Inr (), m)
      else if mc_dirs m p then (Inl (''remove '' @ p @ '': is a directory''), m)
      else (case pr_fault pr p of
              Some e \<Rightarrow> (Inl (''remove '' @ p @ '': '' @ e), m)
            | None \<Rightarrow> (Inr (), m\<lparr>mc_disk := (mc_disk m)\<lparr>fs_files := (fs_files (mc_disk m))(p := None)\<rparr>\<rparr>)))"

definition uninstall_service :: "process \<Rightarrow> string \<Rightarrow> unit action" where
  "uninstall_service pr nm =
     (if pr_platform pr = Linux \<and> is_root pr
      then after (run_anyway pr ''systemctl'' [''disable'', ''--now'', nm]) (\<lambda>_.
           after (remove_unit pr (unit_file nm)) (\<lambda>_.
           run_anyway pr ''systemctl'' [''daemon-reload'']))
      else if is_admin pr
      then after (run_anyway pr ''sc.exe'' [''stop'', nm]) (\<lambda>_.
           after (wait_for_service_stopped pr nm) (\<lambda>_.
           run_anyway pr ''sc.exe'' [''delete'', nm]))
      else done_with ())"

end
