(* ===== verification/Installer.thy ===== *)
theory Installer
  imports Host
begin

text \<open>
  \<open>crates/mwsqlctl/src/installer.rs\<close> and the artifact functions of \<open>ops.rs\<close>: the
  service unit, property list or script an installation writes, and the operator's steps. Each text is its
  lines. What a unit means is read off by a model of systemd's reader, comments, continued lines, sections
  and settings, which the promises about the unit are stated with.
\<close>

record install_params =
  ip_service_name :: string
  ip_exec_path :: string
  ip_state_dir :: string

definition DQUOTE :: char where "DQUOTE = CHR 0x22"

definition BACKSLASH :: char where "BACKSLASH = CHR 0x5C"

definition EM_DASH :: string where "EM_DASH = [CHR 0xE2, CHR 0x80, CHR 0x94]"

definition unlines :: "string list \<Rightarrow> string" where
  "unlines ls = concat (map (\<lambda>l. l @ [CHR 0x0A]) ls)"

section \<open>The texts\<close>

text \<open>What both units start and end with.\<close>

definition unit_head :: "install_params \<Rightarrow> string list" where
  "unit_head p =
     [''[Unit]'',
      ''Description=middleWHERE secure SQL gateway daemon ('' @ ip_service_name p @ '')'',
      ''After=network-online.target'',
      ''Wants=network-online.target'',
      [],
      ''[Service]'',
      ''Type=simple'',
      ''ExecStart='' @ ip_exec_path p @ '' run --state-dir '' @ ip_state_dir p @ '' --file-keystore'',
      ''Restart=on-failure'',
      ''RestartSec=5'']"

definition SANDBOX :: "string list" where
  "SANDBOX =
     [''# --- sandbox ---'',
      ''NoNewPrivileges=true'',
      ''ProtectSystem=strict'',
      ''ProtectHome=true'',
      ''PrivateTmp=true'',
      ''PrivateDevices=true'',
      ''ProtectClock=true'',
      ''ProtectHostname=true'',
      ''ProtectKernelTunables=true'',
      ''ProtectKernelModules=true'',
      ''ProtectKernelLogs=true'',
      ''ProtectControlGroups=true'',
      ''RestrictNamespaces=true'',
      ''RestrictRealtime=true'',
      ''RestrictSUIDSGID=true'',
      ''LockPersonality=true'',
      ''MemoryDenyWriteExecute=true'',
      ''RestrictAddressFamilies=AF_INET AF_INET6 AF_UNIX'',
      ''SystemCallArchitectures=native'',
      ''SystemCallFilter=@system-service'',
      ''SystemCallFilter=~@privileged @resources'',
      ''CapabilityBoundingSet='',
      ''AmbientCapabilities='',
      [],
      ''[Install]'',
      ''WantedBy=multi-user.target'']"

definition systemd_unit :: "install_params \<Rightarrow> string" where
  "systemd_unit p = unlines (unit_head p @
     [[],
      ''# --- dedicated unprivileged identity (the core of the trust model) ---'',
      ''DynamicUser=yes'',
      ''StateDirectory='' @ ip_service_name p,
      ''StateDirectoryMode=0700'',
      ''# Runtime dir for the group-reachable control socket; the admins group is a'',
      ''# supplementary group so the (dynamic) service can chgrp the socket to it.'',
      ''RuntimeDirectory=middlewhere'',
      ''RuntimeDirectoryMode=0710'',
      ''SupplementaryGroups='' @ INSTALLER_ADMIN_GROUP,
      ''UMask=0077'',
      []] @ SANDBOX)"

definition systemd_unit_fixed_user :: "install_params \<Rightarrow> string" where
  "systemd_unit_fixed_user p = unlines (unit_head p @
     [[],
      ''# --- dedicated unprivileged identity (created by the installer/wizard) ---'',
      ''User='' @ ip_service_name p,
      ''Group='' @ ip_service_name p,
      ''ReadWritePaths='' @ ip_state_dir p,
      ''# Runtime dir for the group-reachable control socket; the admins group is a'',
      ''# supplementary group so the service can chgrp the socket to it.'',
      ''RuntimeDirectory=middlewhere'',
      ''RuntimeDirectoryMode=0710'',
      ''SupplementaryGroups='' @ INSTALLER_ADMIN_GROUP,
      ''UMask=0077'',
      []] @ SANDBOX)"

definition linux_operator_steps_fixed_user :: "install_params \<Rightarrow> string" where
  "linux_operator_steps_fixed_user p = unlines
     [''# Linux (systemd) '' @ EM_DASH @ '' run as root:'',
      ''sudo groupadd --system '' @ INSTALLER_ADMIN_GROUP @ '' 2>/dev/null || true'',
      ''sudo useradd --system --no-create-home --shell /usr/sbin/nologin '' @ ip_service_name p @
        '' 2>/dev/null || true'',
      ''sudo '' @ ip_exec_path p @ '' --state-dir '' @ ip_state_dir p @
        '' --file-keystore init   # if not yet initialized'',
      ''sudo chown -R '' @ ip_service_name p @ '':'' @ ip_service_name p @ '' '' @ ip_state_dir p,
      ''sudo install -m0644 '' @ ip_service_name p @ ''.service /etc/systemd/system/'' @ ip_service_name p @
        ''.service'',
      ''sudo systemctl daemon-reload'',
      ''sudo systemctl enable --now '' @ ip_service_name p,
      ''sudo usermod -aG '' @ INSTALLER_ADMIN_GROUP @ '' $(whoami)   # your login user; re-login to apply'',
      ''journalctl -u '' @ ip_service_name p @ '' -f'']"

definition launchd_plist :: "install_params \<Rightarrow> string" where
  "launchd_plist p = unlines
     [''<?xml version='' @ [DQUOTE] @ ''1.0'' @ [DQUOTE] @ '' encoding='' @ [DQUOTE] @ ''UTF-8'' @
        [DQUOTE] @ ''?>'',
      ''<!DOCTYPE plist PUBLIC '' @ [DQUOTE] @ ''-//Apple//DTD PLIST 1.0//EN'' @ [DQUOTE] @ '' '' @
        [DQUOTE] @ ''http://www.apple.com/DTDs/PropertyList-1.0.dtd'' @ [DQUOTE] @ ''>'',
      ''<plist version='' @ [DQUOTE] @ ''1.0'' @ [DQUOTE] @ ''>'',
      ''<dict>'',
      ''    <key>Label</key>'',
      ''    <string>com.middlewhere.'' @ ip_service_name p @ ''</string>'',
      ''    <key>UserName</key>'',
      ''    <string>_middlewhere</string>'',
      ''    <key>ProgramArguments</key>'',
      ''    <array>'',
      ''        <string>'' @ ip_exec_path p @ ''</string>'',
      ''        <string>run</string>'',
      ''        <string>--state-dir</string>'',
      ''        <string>'' @ ip_state_dir p @ ''</string>'',
      ''        <string>--file-keystore</string>'',
      ''    </array>'',
      ''    <key>RunAtLoad</key>'',
      ''    <true/>'',
      ''    <key>KeepAlive</key>'',
      ''    <true/>'',
      ''    <key>ProcessType</key>'',
      ''    <string>Background</string>'',
      ''    <key>StandardErrorPath</key>'',
      ''    <string>'' @ ip_state_dir p @ ''/stderr.log</string>'',
      ''    <key>StandardOutPath</key>'',
      ''    <string>'' @ ip_state_dir p @ ''/stdout.log</string>'',
      ''</dict>'',
      ''</plist>'']"

definition windows_install_ps1 :: "install_params \<Rightarrow> string" where
  "windows_install_ps1 p = unlines
     [''# Run elevated (Administrator). Installs the '' @ ip_service_name p @ '' Windows service.'',
      ''$ErrorActionPreference = '' @ [QUOTE] @ ''Stop'' @ [QUOTE],
      [],
      ''$svc   = '' @ [QUOTE] @ ip_service_name p @ [QUOTE],
      ''$exe   = '' @ [QUOTE] @ ip_exec_path p @ [QUOTE],
      ''$state = '' @ [QUOTE] @ ip_state_dir p @ [QUOTE],
      ''$acct  = '' @ [DQUOTE] @ ''NT SERVICE'' @ [BACKSLASH] @ ''$svc'' @ [DQUOTE],
      [],
      ''New-Item -ItemType Directory -Force -Path $state | Out-Null'',
      [],
      ''# Admin group whose members drive the control pipe without elevation. The'',
      ''# daemon builds the pipe DACL granting this group at startup.'',
      ''New-LocalGroup -Name '' @ [QUOTE] @ INSTALLER_ADMIN_GROUP @ [QUOTE] @ '' -Description '' @ [QUOTE] @
        ''middleWHERE admins'' @ [QUOTE] @ '' -ErrorAction SilentlyContinue | Out-Null'',
      ''Add-LocalGroupMember -Group '' @ [QUOTE] @ INSTALLER_ADMIN_GROUP @ [QUOTE] @
        '' -Member $env:USERNAME -ErrorAction SilentlyContinue'',
      [],
      ''# Create the service bound to a virtual service account.'',
      ''sc.exe create $svc binPath= '' @ [DQUOTE] @ ''`'' @ [DQUOTE] @ ''$exe`'' @ [DQUOTE] @
        '' service --state-dir `'' @ [DQUOTE] @ ''$state`'' @ [DQUOTE] @ '' --file-keystore'' @ [DQUOTE] @
        '' obj= $acct start= auto'',
      ''sc.exe description $svc '' @ [DQUOTE] @ ''middleWHERE secure SQL gateway daemon'' @ [DQUOTE],
      ''sc.exe failure $svc reset= 86400 actions= restart/5000/restart/5000/restart/5000'',
      [],
      ''# Lock the state dir: only the service account and Administrators. The'',
      ''# AI/client user is a different principal and is denied by omission.'',
      ''icacls $state /inheritance:r | Out-Null'',
      ''icacls $state /grant:r '' @ [DQUOTE] @ ''${acct}:(OI)(CI)F'' @ [DQUOTE] @ '' | Out-Null'',
      ''icacls $state /grant:r '' @ [DQUOTE] @ ''BUILTIN'' @ [BACKSLASH] @ ''Administrators:(OI)(CI)F'' @
        [DQUOTE] @ '' | Out-Null'',
      [],
      ''Write-Host '' @ [DQUOTE] @ ''Installed. Start with:  sc.exe start $svc'' @ [DQUOTE],
      ''Write-Host '' @ [DQUOTE] @ ''First run '' @ [QUOTE] @ ''mwsqlctl --state-dir `'' @ [DQUOTE] @
        ''$state`'' @ [DQUOTE] @ '' --file-keystore init'' @ [QUOTE] @ '' AS the service'' @ [DQUOTE],
      ''Write-Host '' @ [DQUOTE] @ ''account context, or pre-seed the sealed config, before starting.'' @
        [DQUOTE]]"

definition linux_operator_steps :: "install_params \<Rightarrow> string" where
  "linux_operator_steps p = unlines
     [''# Linux (systemd) '' @ EM_DASH @ '' run as root:'',
      ''sudo groupadd --system '' @ INSTALLER_ADMIN_GROUP @ '' 2>/dev/null || true'',
      ''sudo install -m0644 mwsqld.service /etc/systemd/system/'' @ ip_service_name p @ ''.service'',
      ''sudo systemctl daemon-reload'',
      ''# Initialize the sealed config AS the service identity. With DynamicUser the'',
      ''# StateDirectory is created on first start; seed config beforehand by running'',
      ''# init under a one-shot with the same DynamicUser, or start once (it will warn'',
      ''# '' @ [QUOTE] @ ''no envs'' @ [QUOTE] @ '') then use mwsqlctl against '' @ ip_state_dir p @
        '' as root:'',
      ''sudo systemctl start '' @ ip_service_name p,
      ''sudo '' @ ip_exec_path p @ '' --state-dir '' @ ip_state_dir p @
        '' --file-keystore  init   # if not yet initialized'',
      ''sudo systemctl enable --now '' @ ip_service_name p,
      ''sudo usermod -aG '' @ INSTALLER_ADMIN_GROUP @ '' $(whoami)   # your login user; re-login to apply'',
      ''journalctl -u '' @ ip_service_name p @ '' -f'']"

definition macos_account_steps :: "install_params \<Rightarrow> string" where
  "macos_account_steps p = unlines
     [''# macOS '' @ EM_DASH @ '' run as root. Create the dedicated daemon user (one time):'',
      ''MAXID=$(dscl . -list /Users UniqueID | awk '' @ [QUOTE] @ ''{print $2}'' @ [QUOTE] @
        '' | sort -n | tail -1)'',
      ''NEWID=$((MAXID+1))'',
      ''sudo dscl . -create /Users/_middlewhere'',
      ''sudo dscl . -create /Users/_middlewhere UserShell /usr/bin/false'',
      ''sudo dscl . -create /Users/_middlewhere RealName '' @ [DQUOTE] @ ''middleWHERE daemon'' @ [DQUOTE],
      ''sudo dscl . -create /Users/_middlewhere UniqueID $NEWID'',
      ''sudo dscl . -create /Users/_middlewhere PrimaryGroupID 1'',
      ''sudo dscl . -create /Users/_middlewhere NFSHomeDirectory /var/empty'',
      ''# Admin group whose members reach the control socket without sudo (one time):'',
      ''GMAXID=$(dscl . -list /Groups PrimaryGroupID | awk '' @ [QUOTE] @ ''{print $2}'' @ [QUOTE] @
        '' | sort -n | tail -1)'',
      ''GNEWID=$((GMAXID+1))'',
      ''sudo dscl . -create /Groups/'' @ INSTALLER_ADMIN_GROUP,
      ''sudo dscl . -create /Groups/'' @ INSTALLER_ADMIN_GROUP @ '' PrimaryGroupID $GNEWID'',
      ''sudo dscl . -append /Groups/'' @ INSTALLER_ADMIN_GROUP @ '' GroupMembership $(whoami)   # re-login to apply'',
      ''sudo mkdir -p '' @ ip_state_dir p,
      ''sudo chown -R _middlewhere '' @ ip_state_dir p,
      ''sudo chmod 700 '' @ ip_state_dir p,
      ''# Runtime dir for the control socket (launchd has no RuntimeDirectory):'',
      ''sudo mkdir -p /var/run/middlewhere'',
      ''sudo chown _middlewhere:'' @ INSTALLER_ADMIN_GROUP @ '' /var/run/middlewhere'',
      ''sudo chmod 0710 /var/run/middlewhere'',
      ''sudo install -m0644 com.middlewhere.'' @ ip_service_name p @
        ''.plist /Library/LaunchDaemons/com.middlewhere.'' @ ip_service_name p @ ''.plist'',
      ''sudo launchctl load -w /Library/LaunchDaemons/com.middlewhere.'' @ ip_service_name p @ ''.plist'']"

section \<open>Artifacts\<close>

record service_artifact =
  sa_artifact :: string
  sa_steps :: string

definition WINDOWS_STEPS :: string where
  "WINDOWS_STEPS = ''# Windows '' @ EM_DASH @ '' run the generated script elevated (Administrator).''"

fun build_service_artifact :: "platform \<Rightarrow> install_params \<Rightarrow> bool \<Rightarrow> string + service_artifact" where
  "build_service_artifact Linux p fixed_user =
     Inr (if fixed_user
          then \<lparr>sa_artifact = systemd_unit_fixed_user p, sa_steps = linux_operator_steps_fixed_user p\<rparr>
          else \<lparr>sa_artifact = systemd_unit p, sa_steps = linux_operator_steps p\<rparr>)"
| "build_service_artifact MacOS p fixed_user =
     Inr \<lparr>sa_artifact = launchd_plist p, sa_steps = macos_account_steps p\<rparr>"
| "build_service_artifact Windows p fixed_user =
     Inr \<lparr>sa_artifact = windows_install_ps1 p, sa_steps = WINDOWS_STEPS\<rparr>"
| "build_service_artifact OtherUnix p fixed_user = Inl ''unsupported platform for install-service''"

definition write_service_artifact :: "process \<Rightarrow> string \<Rightarrow> string \<Rightarrow> bool \<Rightarrow> unit action" where
  "write_service_artifact pr path artifact force m =
     (if exists_path m path \<and> \<not> force then (Inl (path @ '' exists; pass --force to overwrite''), m)
      else (case write_file pr path (as_bytes artifact) m of
              (Inl e, m') \<Rightarrow> (Inl (''write '' @ path @ '': '' @ e), m')
            | (Inr _, m') \<Rightarrow> (Inr (), m')))"

text \<open>The running program's path is absolute; the daemon is beside it.\<close>

definition default_daemon_path :: "process \<Rightarrow> string + string" where
  "default_daemon_path pr =
     (case pr_exe pr of
        Inl e \<Rightarrow> Inl (''resolve current exe: '' @ e)
      | Inr me \<Rightarrow>
          let sep = (if pr_platform pr = Windows then BACKSLASH else CHR ''/'');
              nm = (if pr_platform pr = Windows then ''mwsqld.exe'' else ''mwsqld'')
          in case rsplit_once sep me of
               None \<Rightarrow> Inr nm
             | Some (dir, file) \<Rightarrow>
                 if dir = [] \<and> file = [] then Inl ''exe has no parent dir'' else Inr (dir @ [sep] @ nm))"

text \<open>The artifact and where it went; the steps are what is left to the operator.\<close>

definition run_install_service ::
  "process \<Rightarrow> target_env \<Rightarrow> string option \<Rightarrow> string \<Rightarrow> string option \<Rightarrow> string option \<Rightarrow> bool \<Rightarrow> service_artifact action"
where
  "run_install_service pr te state_dir service_name exec_path write_to force m =
     (case (case exec_path of Some p \<Rightarrow> Inr p | None \<Rightarrow> default_daemon_path pr) of
        Inl e \<Rightarrow> (Inl e, m)
      | Inr exe \<Rightarrow>
     (case build_service_artifact (pr_platform pr)
             \<lparr>ip_service_name = service_name, ip_exec_path = exe,
              ip_state_dir = (case state_dir of Some d \<Rightarrow> d | None \<Rightarrow> system_dir te)\<rparr> False of
        Inl e \<Rightarrow> (Inl e, m)
      | Inr art \<Rightarrow>
     (case write_to of
        Some path \<Rightarrow> after (write_service_artifact pr path (sa_artifact art) force) (\<lambda>_. done_with art) m
      | None \<Rightarrow> (Inr art, m))))"

section \<open>How systemd reads a unit\<close>

text \<open>A line that ends in a backslash is continued; comments and empty lines are skipped.\<close>

fun logical_lines :: "string list \<Rightarrow> string list" where
  "logical_lines [] = []"
| "logical_lines (l # ls) =
     (if l \<noteq> [] \<and> last l = BACKSLASH
      then (case logical_lines ls of
              [] \<Rightarrow> [butlast l @ '' ''] | x # xs \<Rightarrow> (butlast l @ '' '' @ x) # xs)
      else l # logical_lines ls)"

fun read_unit :: "string \<Rightarrow> string list \<Rightarrow> (string \<times> string \<times> string) list" where
  "read_unit sec [] = []"
| "read_unit sec (l # ls) =
     (case l of
        [] \<Rightarrow> read_unit sec ls
      | c # cs \<Rightarrow>
          if c = CHR ''#'' \<or> c = CHR '';'' then read_unit sec ls
          else if c = CHR ''['' then read_unit (takeWhile (\<lambda>x. x \<noteq> CHR '']'') cs) ls
          else (case split_once (CHR ''='') l of
                  None \<Rightarrow> read_unit sec ls
                | Some (k, v) \<Rightarrow> (sec, k, v) # read_unit sec ls))"

definition settings :: "string \<Rightarrow> string \<Rightarrow> string \<Rightarrow> string list" where
  "settings unit sec k =
     map (snd \<circ> snd) (filter (\<lambda>(s, k', _). s = sec \<and> k' = k)
       (read_unit [] (logical_lines (text_lines unit))))"

text \<open>The command line of a setting, for words systemd leaves as they are.\<close>

definition exec_words :: "string \<Rightarrow> string list" where
  "exec_words v = filter (\<lambda>w. w \<noteq> []) (split_on (CHR '' '') v)"

definition plain_path :: "string \<Rightarrow> bool" where
  "plain_path s \<longleftrightarrow> s \<noteq> [] \<and> hd s = CHR ''/'' \<and>
     list_all (\<lambda>c. char_between (CHR ''!'') (CHR ''~'') c \<and>
       c \<notin> {QUOTE, DQUOTE, BACKSLASH, CHR ''$'', CHR ''%'', CHR '';''}) s"

section \<open>What the units say\<close>

definition plain_char :: "char \<Rightarrow> bool" where
  "plain_char c \<longleftrightarrow> c \<noteq> CHR 0x0A \<and> c \<noteq> CHR 0x0D \<and> c \<noteq> BACKSLASH"

abbreviation plain_line :: "string \<Rightarrow> bool" where "plain_line l \<equiv> list_all plain_char l"

lemma plain_line_last: "plain_line l \<Longrightarrow> l = [] \<or> last l \<noteq> CHR 0x0D \<and> last l \<noteq> BACKSLASH"
  by (cases "l = []") (auto simp: list_all_iff plain_char_def)

lemma settings_plain:
  assumes "list_all plain_line ls"
  shows "settings (unlines ls) sec k =
    map (snd \<circ> snd) (filter (\<lambda>(s, k', _). s = sec \<and> k' = k) (read_unit [] ls))"
proof -
  have "logical_lines ls = ls"
    using assms by (induction ls) (auto dest: plain_line_last)
  moreover have "text_lines (unlines ls) = ls"
    unfolding unlines_def using assms plain_line_last
    by (intro text_lines_concat) (fastforce simp: list_all_iff plain_char_def)
  ultimately show ?thesis by (simp add: settings_def)
qed

lemma plain_char_simps [simp]: "plain_char (CHR 0x0A) = False"
  by (simp add: plain_char_def)

lemma sandbox_plain: "list_all plain_line SANDBOX"
  by (simp add: SANDBOX_def plain_char_def BACKSLASH_def)

lemma plain_fields:
  "validate_service_name nm = Inr () \<Longrightarrow> plain_line nm"
  "plain_path s \<Longrightarrow> plain_line s"
proof -
  have "plain_char c" if "name_char c" for c
    using that unfolding plain_char_def
    by (intro conjI notI) (simp_all add: name_char_def char_between_def is_digit_def BACKSLASH_def less_eq_char_def)
  then show "validate_service_name nm = Inr () \<Longrightarrow> plain_line nm"
    using service_name_chars(3) [of nm] by (auto simp: list_all_iff)
  have "plain_char c" if "char_between (CHR ''!'') (CHR ''~'') c" "c \<noteq> BACKSLASH" for c
    using that unfolding plain_char_def
    by (intro conjI notI) (simp_all add: char_between_def less_eq_char_def)
  then show "plain_path s \<Longrightarrow> plain_line s" by (auto simp: list_all_iff plain_path_def)
qed

lemma head_plain:
  assumes "plain_line (ip_service_name p)" and "plain_line (ip_exec_path p)" and "plain_line (ip_state_dir p)"
  shows "list_all plain_line (unit_head p)"
  using assms by (simp add: unit_head_def plain_char_def BACKSLASH_def)

lemma read_head:
  "\<exists>u. read_unit [] (unit_head p @ ls) = u @
    map (Pair ''Service'')
      [(''Type'', ''simple''),
       (''ExecStart'', ip_exec_path p @ '' run --state-dir '' @ ip_state_dir p @ '' --file-keystore''),
       (''Restart'', ''on-failure''), (''RestartSec'', ''5'')] @ read_unit ''Service'' ls \<and>
    (\<forall>x \<in> set u. fst x = ''Unit'')"
  by (rule exI [of _ "map (Pair ''Unit'')
      [(''Description'', ''middleWHERE secure SQL gateway daemon ('' @ ip_service_name p @ '')''),
       (''After'', ''network-online.target''), (''Wants'', ''network-online.target'')]"])
    (simp add: unit_head_def)

lemma fixed_user_settings:
  assumes "plain_line (ip_service_name p)" and "plain_line (ip_exec_path p)" and "plain_line (ip_state_dir p)"
  shows "settings (systemd_unit_fixed_user p) ''Service'' k = map snd (filter (\<lambda>(k', _). k' = k)
    ([(''Type'', ''simple''),
      (''ExecStart'', ip_exec_path p @ '' run --state-dir '' @ ip_state_dir p @ '' --file-keystore''),
      (''Restart'', ''on-failure''), (''RestartSec'', ''5''),
      (''User'', ip_service_name p), (''Group'', ip_service_name p), (''ReadWritePaths'', ip_state_dir p),
      (''RuntimeDirectory'', ''middlewhere''), (''RuntimeDirectoryMode'', ''0710''),
      (''SupplementaryGroups'', INSTALLER_ADMIN_GROUP), (''UMask'', ''0077'')] @
     map snd (filter (\<lambda>(s, _). s = ''Service'') (read_unit ''Service'' SANDBOX))))"
proof -
  let ?own = "[[], ''# --- dedicated unprivileged identity (created by the installer/wizard) ---'',
      ''User='' @ ip_service_name p, ''Group='' @ ip_service_name p, ''ReadWritePaths='' @ ip_state_dir p,
      ''# Runtime dir for the group-reachable control socket; the admins group is a'',
      ''# supplementary group so the service can chgrp the socket to it.'',
      ''RuntimeDirectory=middlewhere'', ''RuntimeDirectoryMode=0710'',
      ''SupplementaryGroups='' @ INSTALLER_ADMIN_GROUP, ''UMask=0077'', []]"
  have plain: "list_all plain_line (unit_head p @ ?own @ SANDBOX)"
    using assms head_plain [OF assms] sandbox_plain by (simp add: plain_char_def BACKSLASH_def INSTALLER_ADMIN_GROUP_def)
  have own: "read_unit ''Service'' (?own @ SANDBOX) = map (Pair ''Service'')
      [(''User'', ip_service_name p), (''Group'', ip_service_name p), (''ReadWritePaths'', ip_state_dir p),
       (''RuntimeDirectory'', ''middlewhere''), (''RuntimeDirectoryMode'', ''0710''),
       (''SupplementaryGroups'', INSTALLER_ADMIN_GROUP), (''UMask'', ''0077'')] @ read_unit ''Service'' SANDBOX"
    by simp
  have rest: "map (snd \<circ> snd) (filter (\<lambda>(s, k', _). s = sec \<and> k' = k) xs) =
      map snd (filter (\<lambda>(k', _). k' = k) (map snd (filter (\<lambda>(s, _). s = sec) xs)))" for sec k xs
    by (induction xs) auto
  obtain u where u: "read_unit [] (unit_head p @ ?own @ SANDBOX) = u @
    map (Pair ''Service'')
      [(''Type'', ''simple''),
       (''ExecStart'', ip_exec_path p @ '' run --state-dir '' @ ip_state_dir p @ '' --file-keystore''),
       (''Restart'', ''on-failure''), (''RestartSec'', ''5'')] @ read_unit ''Service'' (?own @ SANDBOX)"
    and unit: "\<forall>x \<in> set u. fst x = ''Unit''"
    using read_head [of p "?own @ SANDBOX"] by blast
  have "filter (\<lambda>(s, _). s = ''Service'') u = []" using unit by (fastforce simp: filter_empty_conv)
  then show ?thesis
    unfolding systemd_unit_fixed_user_def settings_plain [OF plain] u own rest by simp
qed

lemma sandbox_settings:
  "map snd (filter (\<lambda>(s, _). s = ''Service'') (read_unit ''Service'' SANDBOX)) =
    [(''NoNewPrivileges'', ''true''), (''ProtectSystem'', ''strict''), (''ProtectHome'', ''true''),
     (''PrivateTmp'', ''true''), (''PrivateDevices'', ''true''), (''ProtectClock'', ''true''),
     (''ProtectHostname'', ''true''), (''ProtectKernelTunables'', ''true''), (''ProtectKernelModules'', ''true''),
     (''ProtectKernelLogs'', ''true''), (''ProtectControlGroups'', ''true''), (''RestrictNamespaces'', ''true''),
     (''RestrictRealtime'', ''true''), (''RestrictSUIDSGID'', ''true''), (''LockPersonality'', ''true''),
     (''MemoryDenyWriteExecute'', ''true''), (''RestrictAddressFamilies'', ''AF_INET AF_INET6 AF_UNIX''),
     (''SystemCallArchitectures'', ''native''), (''SystemCallFilter'', ''@system-service''),
     (''SystemCallFilter'', ''~@privileged @resources''), (''CapabilityBoundingSet'', []),
     (''AmbientCapabilities'', [])]"
  by (simp add: SANDBOX_def)

lemma plain_path_no_space: "plain_path s \<Longrightarrow> CHR '' '' \<notin> set s \<and> s \<noteq> []"
  by (fastforce simp: plain_path_def list_all_iff char_between_def less_eq_char_def)

lemma daemon_words:
  assumes "plain_path exe" and "plain_path dir"
  shows "exec_words (exe @ '' run --state-dir '' @ dir @ '' --file-keystore'') =
    [exe, ''run'', ''--state-dir'', dir, ''--file-keystore'']"
  using plain_path_no_space [OF assms(1)] plain_path_no_space [OF assms(2)]
  by (simp add: exec_words_def split_on_append)

text \<open>
  The installed service runs as its account. The unit an installation writes, as systemd reads it,
  runs the daemon on exactly the given state directory, as the user and group of the service name, once
  each, may write nothing else, gains no privileges and has no capabilities. This needs a valid service
  name and paths without spaces, quotes, backslashes, percent or dollar signs.
\<close>

theorem unit_runs_as_account:
  assumes "validate_service_name nm = Inr ()" and "plain_path exe" and "plain_path dir"
    and "p = \<lparr>ip_service_name = nm, ip_exec_path = exe, ip_state_dir = dir\<rparr>"
  shows "map exec_words (settings (systemd_unit_fixed_user p) ''Service'' ''ExecStart'') =
      [[exe, ''run'', ''--state-dir'', dir, ''--file-keystore'']] \<and>
    settings (systemd_unit_fixed_user p) ''Service'' ''User'' = [nm] \<and>
    settings (systemd_unit_fixed_user p) ''Service'' ''Group'' = [nm] \<and>
    settings (systemd_unit_fixed_user p) ''Service'' ''ProtectSystem'' = [''strict''] \<and>
    settings (systemd_unit_fixed_user p) ''Service'' ''ReadWritePaths'' = [dir] \<and>
    settings (systemd_unit_fixed_user p) ''Service'' ''NoNewPrivileges'' = [''true''] \<and>
    settings (systemd_unit_fixed_user p) ''Service'' ''CapabilityBoundingSet'' = [[]]"
proof -
  have "plain_line (ip_service_name p)" "plain_line (ip_exec_path p)" "plain_line (ip_state_dir p)"
    using assms plain_fields by simp_all
  then show ?thesis
    using daemon_words [OF assms(2,3)]
    by (simp add: fixed_user_settings sandbox_settings assms(4))
qed

theorem unit_runs_as_account_witness:
  "settings (systemd_unit_fixed_user \<lparr>ip_service_name = ''mwsqld'', ip_exec_path = ''/usr/local/bin/mwsqld'',
     ip_state_dir = ''/var/lib/middlewhere''\<rparr>) ''Service'' ''User'' = [''mwsqld'']"
proof -
  have "validate_service_name ''mwsqld'' = Inr ()" "plain_path ''/usr/local/bin/mwsqld''"
    "plain_path ''/var/lib/middlewhere''"
    by code_simp+
  then show ?thesis using unit_runs_as_account [OF _ _ _ refl] by blast
qed

text \<open>A state directory with a space in it is two words: the service is told of another directory.\<close>

theorem spaced_state_dir_splits:
  "map exec_words (settings (systemd_unit_fixed_user \<lparr>ip_service_name = ''mwsqld'',
     ip_exec_path = ''/usr/bin/mwsqld'', ip_state_dir = ''/srv/my mw''\<rparr>) ''Service'' ''ExecStart'') =
   [[''/usr/bin/mwsqld'', ''run'', ''--state-dir'', ''/srv/my'', ''mw'', ''--file-keystore'']]"
proof -
  let ?p = "\<lparr>ip_service_name = ''mwsqld'', ip_exec_path = ''/usr/bin/mwsqld'', ip_state_dir = ''/srv/my mw''\<rparr>"
  have "plain_line (ip_service_name ?p)" "plain_line (ip_exec_path ?p)" "plain_line (ip_state_dir ?p)"
    by (simp_all add: plain_char_def BACKSLASH_def)
  then show ?thesis by (simp add: fixed_user_settings sandbox_settings exec_words_def)
qed

text \<open>An apostrophe in a path ends its literal in the script for Windows, which is not quoted as the
  relaunch quotes its arguments.\<close>

theorem apostrophe_ends_literal:
  assumes "ip_state_dir p = ''/srv/O'' @ [QUOTE] @ ''Brien''"
  shows "\<exists>pre post rest. windows_install_ps1 p = pre @ ''$state = '' @ post \<and>
    read_ps_literal post = Some (''/srv/O'', rest)"
proof -
  let ?pre = "unlines [''# Run elevated (Administrator). Installs the '' @ ip_service_name p @ '' Windows service.'',
      ''$ErrorActionPreference = '' @ [QUOTE] @ ''Stop'' @ [QUOTE], [],
      ''$svc   = '' @ [QUOTE] @ ip_service_name p @ [QUOTE], ''$exe   = '' @ [QUOTE] @ ip_exec_path p @ [QUOTE]]"
  obtain rest where w: "windows_install_ps1 p = ?pre @ ''$state = '' @ QUOTE # ''/srv/O'' @ QUOTE # ''Brien'' @ rest"
    by (simp add: windows_install_ps1_def unlines_def assms)
  have "read_ps_literal (QUOTE # ''/srv/O'' @ QUOTE # ''Brien'' @ rest) = Some (''/srv/O'', ''Brien'' @ rest)"
    using ps_body_doubled [of "''/srv/O''" "''Brien'' @ rest"]
    by (simp add: read_ps_literal_def CURLY_def QUOTE_def quote_len_def)
  then show ?thesis using w by blast
qed

end
