(* ===== verification/Probe_Report.thy ===== *)
theory Probe_Report
  imports Daemon State_Dir Str_Ops
begin

text \<open>
  The connectivity test across two programs: \<open>mwsqld test\<close>
  (\<open>crates/mwsqld/src/main.rs\<close>) prints one JSON line for each environment it probed, and
  \<open>crates/mwsqlctl/src/probe.rs\<close> runs it and reads the lines and the exit code. A string is its
  UTF-8 bytes, so the lossy decoding of the output is the identity.
\<close>

definition DQ :: char where "DQ = CHR 0x22"
definition BSL :: char where "BSL = CHR 0x5C"

lemmas quote_chars = DQ_def BSL_def

section \<open>The daemon's side\<close>

definition json_hex :: "nat \<Rightarrow> char" where
  "json_hex n = (if n < 10 then char_of (48 + n) else char_of (87 + n))"

definition json_char :: "char \<Rightarrow> string" where
  "json_char c =
     (if c = DQ then [BSL, DQ]
      else if c = BSL then [BSL, BSL]
      else if c = CHR 0x0A then BSL # ''n''
      else if c = CHR 0x0D then BSL # ''r''
      else if c = CHR 0x09 then BSL # ''t''
      else if of_char c < (0x20 :: nat)
      then BSL # ''u00'' @ [json_hex (of_char c div 16), json_hex (of_char c mod 16)]
      else [c])"

definition json_escape :: "string \<Rightarrow> string" where
  "json_escape s = concat (map json_char s)"

definition json_bool :: "bool \<Rightarrow> string" where
  "json_bool b = (if b then ''true'' else ''false'')"

definition json_line :: "probe_result \<Rightarrow> string" where
  "json_line r =
     [CHR 0x7B, DQ] @ ''ok'' @ [DQ, CHR 0x3A] @ json_bool (pb_ok r) @
     [CHR 0x2C, DQ] @ ''supported'' @ [DQ, CHR 0x3A] @ json_bool (pb_supported r) @
     [CHR 0x2C, DQ] @ ''env'' @ [DQ, CHR 0x3A, DQ] @ json_escape (pb_env r) @
     [DQ, CHR 0x2C, DQ] @ ''reason'' @ [DQ, CHR 0x3A, DQ] @ json_escape (pb_reason r) @
     [DQ, CHR 0x7D]"

definition EMPTY_MARKER :: string where
  "EMPTY_MARKER = [CHR 0x7B, DQ] @ ''envs'' @ [DQ] @ '':0}''"

definition plain_line :: "probe_result \<Rightarrow> string" where
  "plain_line r =
     (if pb_ok r then ''OK   '' @ pb_env r
      else if \<not> pb_supported r then ''SKIP '' @ pb_env r @ ''  '' @ pb_reason r
      else ''ERR  '' @ pb_env r @ ''  '' @ pb_reason r)"

definition print_lines :: "string list \<Rightarrow> string" where
  "print_lines ls = concat (map (\<lambda>l. l @ [CHR 0x0A]) ls)"

text \<open>The selection of \<open>mwsqld test\<close>; clap excludes both flags at once.\<close>

definition test_choice :: "name option \<Rightarrow> bool \<Rightarrow> string + probe_choice" where
  "test_choice env_name whole_set =
     (case env_name of
        Some e \<Rightarrow> Inr (ProbeOne e)
      | None \<Rightarrow> if whole_set then Inr ProbeAll else Inl ''specify --env <name> or --all'')"

text \<open>The standard output and whether the exit code is zero.\<close>

definition test_report :: "bool \<Rightarrow> probe_result list \<Rightarrow> string \<times> bool" where
  "test_report json results =
     (if results = []
      then (print_lines [if json then EMPTY_MARKER else ''no environments configured''], True)
      else (print_lines (map (if json then json_line else plain_line) results),
            list_all (\<lambda>r. pb_ok r \<or> \<not> pb_supported r) results))"

section \<open>The administrator's side\<close>

definition build_probe_argv :: "name option \<Rightarrow> string \<Rightarrow> bool \<Rightarrow> string list" where
  "build_probe_argv env_name state_dir file_keystore =
     [''test'', ''--json''] @
     (case env_name of Some nm \<Rightarrow> [''--env'', nm] | None \<Rightarrow> [''--all'']) @
     [''--state-dir'', state_dir] @ [if file_keystore then ''--file-keystore'' else ''--user'']"

definition REPLACEMENT :: string where "REPLACEMENT = [CHR 0xEF, CHR 0xBF, CHR 0xBD]"

text \<open>Skipping characters: the first byte of one tells its length.\<close>

definition char_len :: "char \<Rightarrow> nat" where
  "char_len c =
     (let b = of_char c :: nat in if b < 0x80 then 1 else if b < 0xE0 then 2 else if b < 0xF0 then 3 else 4)"

fun drop_chars :: "nat \<Rightarrow> string \<Rightarrow> string" where
  "drop_chars 0 s = s"
| "drop_chars (Suc n) [] = []"
| "drop_chars (Suc n) (c # s) = drop_chars n (drop (char_len c - 1) s)"

lemma length_drop_chars: "length (drop_chars n s) \<le> length s"
  by (induction n s rule: drop_chars.induct) auto

function unescape :: "string \<Rightarrow> string" where
  "unescape [] = []"
| "unescape (c # s) =
     (if c \<noteq> BSL then c # unescape s
      else (case s of
              [] \<Rightarrow> []
            | d # t \<Rightarrow>
                if d = DQ \<or> d = BSL then d # unescape t
                else if d = CHR ''n'' then CHR 0x0A # unescape t
                else if d = CHR ''r'' then CHR 0x0D # unescape t
                else if d = CHR ''t'' then CHR 0x09 # unescape t
                else if d = CHR ''u'' then REPLACEMENT @ unescape (drop_chars 4 t)
                else d # unescape t))"
  by pat_completeness auto
termination
  by (relation "measure length") (simp_all add: le_imp_less_Suc length_drop_chars le_SucI)

definition REASON_KEY :: string where
  "REASON_KEY = [DQ] @ ''reason'' @ [DQ, CHR 0x3A, DQ]"

definition extract_reason :: "string \<Rightarrow> string option" where
  "extract_reason line =
     (case find_after REASON_KEY line of
        None \<Rightarrow> None
      | Some rest \<Rightarrow> map_option unescape (before_last [DQ, CHR 0x7D] rest))"

definition extract_field :: "string \<Rightarrow> string \<Rightarrow> string option" where
  "extract_field line key =
     (case find_after ([DQ] @ key @ [DQ, CHR 0x3A, DQ]) line of
        None \<Rightarrow> None
      | Some rest \<Rightarrow> map_option fst (split_once DQ rest))"

definition OK_FALSE :: string where "OK_FALSE = [DQ] @ ''ok'' @ [DQ] @ '':false''"
definition OK_TRUE :: string where "OK_TRUE = [DQ] @ ''ok'' @ [DQ] @ '':true''"
definition UNSUPPORTED :: string where "UNSUPPORTED = [DQ] @ ''supported'' @ [DQ] @ '':false''"

fun first_failure :: "string list \<Rightarrow> string option" where
  "first_failure [] = None"
| "first_failure (raw # rest) =
     (let line = trim raw
      in if \<not> starts_with [CHR 0x7B] line \<or> \<not> contains OK_FALSE line \<or> contains UNSUPPORTED line
         then first_failure rest
         else (let r = (case extract_reason line of Some r \<Rightarrow> r | None \<Rightarrow> [])
               in if r \<noteq> [] then Some r
                  else Some (case extract_field line ''env'' of
                               Some e \<Rightarrow> ''env '' @ e @ '' failed''
                             | None \<Rightarrow> ''connection failed'')))"

definition first_failure_reason :: "string \<Rightarrow> string option" where
  "first_failure_reason out = first_failure (text_lines out)"

text \<open>The loop keeps the first note and gives up at a line that connected.\<close>

fun unsupported_scan :: "string option \<Rightarrow> string list \<Rightarrow> string option" where
  "unsupported_scan note [] = note"
| "unsupported_scan note (raw # rest) =
     (let line = trim raw
      in if \<not> starts_with [CHR 0x7B] line then unsupported_scan note rest
         else if contains OK_TRUE line then None
         else unsupported_scan
           (if contains UNSUPPORTED line \<and> note = None
            then Some (case extract_reason line of Some r \<Rightarrow> r | None \<Rightarrow> []) else note) rest)"

definition unsupported_only_reason :: "string \<Rightarrow> string option" where
  "unsupported_only_reason out =
     map_option (\<lambda>r. if r = [] then ''engine not supported yet'' else r)
       (unsupported_scan None (text_lines out))"

definition has_empty_marker :: "string \<Rightarrow> bool" where
  "has_empty_marker out = list_ex (\<lambda>l. trim l = EMPTY_MARKER) (text_lines out)"

record probe_outcome =
  po_ok :: bool
  po_reason :: string
  po_unsupported :: "string option"
  po_empty :: bool

text \<open>\<open>run\<close> on what the process left: success of the exit code, standard output, standard
  error.\<close>

definition probe_outcome_of :: "bool \<Rightarrow> string \<Rightarrow> string \<Rightarrow> probe_outcome" where
  "probe_outcome_of success out err =
     \<lparr>po_ok = success,
      po_reason =
        (case first_failure_reason out of
           Some r \<Rightarrow> r
         | None \<Rightarrow> trim err),
      po_unsupported = unsupported_only_reason out,
      po_empty = has_empty_marker out\<rparr>"

datatype validation = ValidOk | ValidFailed string | ValidSkipped string

text \<open>\<open>validate\<close>: \<open>daemon\<close> is the path of the daemon binary or the error of finding it,
  \<open>launch\<close> what running it gives.\<close>

definition validate_probe ::
  "string + string \<Rightarrow> (string \<Rightarrow> bool) \<Rightarrow> (string \<Rightarrow> string list \<Rightarrow> string + bool \<times> string \<times> string)
     \<Rightarrow> string \<Rightarrow> keystore_choice \<Rightarrow> name option \<Rightarrow> validation" where
  "validate_probe daemon_path exists launch state_dir ks env_name =
     (case daemon_path of
        Inl e \<Rightarrow> ValidSkipped e
      | Inr d \<Rightarrow>
          if \<not> exists d
          then ValidSkipped (''daemon binary not found at '' @ d @ '' '' @
            [CHR 0xE2, CHR 0x80, CHR 0x94] @ '' install it beside mwsqlctl to validate'')
          else (case launch d (build_probe_argv env_name state_dir
                       (case ks of FileKeystore _ \<Rightarrow> True | OsKeystore _ _ \<Rightarrow> False)) of
                  Inl e \<Rightarrow> ValidSkipped (''probe could not run: '' @ e)
                | Inr (success, out, err) \<Rightarrow>
                    (let o' = probe_outcome_of success out err
                     in if po_empty o' then ValidSkipped ''no environments configured''
                        else if po_ok o'
                        then (case po_unsupported o' of Some note \<Rightarrow> ValidSkipped note | None \<Rightarrow> ValidOk)
                        else ValidFailed (if po_reason o' = [] then ''connection failed'' else po_reason o'))))"

section \<open>Escaping\<close>

lemma json_escape_simps [simp]:
  "json_escape [] = []"
  "json_escape (c # s) = json_char c @ json_escape s"
  by (simp_all add: json_escape_def)

lemma json_hex_plain: "n < 16 \<Longrightarrow> visible (json_hex n) \<and> json_hex n \<noteq> DQ \<and> json_hex n \<noteq> BSL"
proof -
  have "\<forall>n \<in> set [0..<16]. visible (json_hex n) \<and> json_hex n \<noteq> DQ \<and> json_hex n \<noteq> BSL" by code_simp
  then show "n < 16 \<Longrightarrow> visible (json_hex n) \<and> json_hex n \<noteq> DQ \<and> json_hex n \<noteq> BSL" by simp
qed

text \<open>What an escaped character looks like: itself, a pair, or a six-character escape.\<close>

lemma json_char_cases:
  obtains (plain) "json_char c = [c]" "c \<noteq> DQ" "c \<noteq> BSL" "c \<noteq> CHR 0x0A" "c \<noteq> CHR 0x0D"
  | (pair) d where "json_char c = [BSL, d]" "d \<in> {DQ, BSL, CHR ''n'', CHR ''r'', CHR ''t''}"
  | (hex) h l where "json_char c = [BSL, CHR ''u'', CHR ''0'', CHR ''0'', h, l]" "of_char c < (0x20 :: nat)"
      "visible h" "h \<noteq> DQ" "h \<noteq> BSL" "visible l" "l \<noteq> DQ" "l \<noteq> BSL"
proof (cases "c \<in> {DQ, BSL, CHR 0x0A, CHR 0x0D, CHR 0x09}")
  case True
  then show ?thesis using pair by (auto simp: json_char_def quote_chars)
next
  case False
  show ?thesis
  proof (cases "of_char c < (0x20 :: nat)")
    case True
    then have "visible (json_hex (of_char c div 16))" "json_hex (of_char c div 16) \<noteq> DQ"
      "json_hex (of_char c div 16) \<noteq> BSL" "visible (json_hex (of_char c mod 16))"
      "json_hex (of_char c mod 16) \<noteq> DQ" "json_hex (of_char c mod 16) \<noteq> BSL"
      using json_hex_plain [of "of_char c div 16"] json_hex_plain [of "of_char c mod 16"] by auto
    then show ?thesis using hex False True by (auto simp: json_char_def)
  qed (use plain False in \<open>auto simp: json_char_def\<close>)
qed

lemma json_escape_no_break: "c \<in> set (json_escape s) \<Longrightarrow> c \<noteq> CHR 0x0A \<and> c \<noteq> CHR 0x0D"
proof (induction s)
  case (Cons x s)
  have "d \<noteq> CHR 0x0A \<and> d \<noteq> CHR 0x0D" if "d \<in> set (json_char x)" for d
    using that by (cases x rule: json_char_cases)
      (auto simp: quote_chars visible_def char_between_def less_eq_char_def)
  then show ?case using Cons by auto
qed simp

text \<open>What reading an escaped text back gives: a control character that is not a line break or a tab
  comes back as the replacement character.\<close>

definition cleaned :: "string \<Rightarrow> string" where
  "cleaned s = concat (map (\<lambda>c. if of_char c < (0x20 :: nat) \<and> c \<notin> {CHR 0x0A, CHR 0x0D, CHR 0x09}
                              then REPLACEMENT else [c]) s)"

lemma visible_char_len: "visible c \<Longrightarrow> char_len c = 1"
  by (auto simp: visible_def char_between_def less_eq_char_def char_len_def Let_def)

lemma drop_chars_ascii:
  assumes "visible h" and "visible l"
  shows "drop_chars 4 (CHR ''0'' # CHR ''0'' # h # l # s) = s"
proof -
  have "char_len CHR ''0'' = 1" by code_simp
  with visible_char_len [OF assms(1)] visible_char_len [OF assms(2)] show ?thesis
    by (simp add: numeral_eq_Suc)
qed

lemma unescape_json_char: "unescape (json_char c @ s) =
   (if of_char c < (0x20 :: nat) \<and> c \<notin> {CHR 0x0A, CHR 0x0D, CHR 0x09} then REPLACEMENT else [c]) @ unescape s"
proof (cases "c \<in> {DQ, BSL, CHR 0x0A, CHR 0x0D, CHR 0x09}")
  case True
  then show ?thesis by (auto simp: json_char_def quote_chars)
next
  case False
  show ?thesis
  proof (cases "of_char c < (0x20 :: nat)")
    case True
    have v: "visible (json_hex (of_char c div 16))" "visible (json_hex (of_char c mod 16))"
      using True json_hex_plain by simp_all
    show ?thesis using True False drop_chars_ascii [OF v] by (simp add: json_char_def quote_chars)
  qed (use False in \<open>simp add: json_char_def\<close>)
qed

lemma unescape_json_escape: "unescape (json_escape s) = cleaned s"
  by (induction s) (simp_all add: unescape_json_char cleaned_def)

section \<open>Searching an escaped text\<close>

text \<open>A key in quotes, followed by a colon, does not occur in an escaped text, nor across its end, when
  the quote after the text is not followed by a colon: each quote inside is preceded by a backslash.\<close>

definition quoted_key :: "string \<Rightarrow> string \<Rightarrow> string" where
  "quoted_key w t = DQ # w @ DQ # CHR 0x3A # t"

definition key_name :: "string \<Rightarrow> bool" where
  "key_name w \<longleftrightarrow> DQ \<notin> set w \<and> BSL \<notin> set w"

lemma key_tail_not_prefix:
  assumes "key_name w" and "c \<noteq> CHR 0x3A"
  shows "\<not> starts_with (w @ DQ # CHR 0x3A # t) (json_escape s @ DQ # c # rest)"
  using assms(1)
proof (induction s arbitrary: w)
  case Nil
  then show ?case using assms(2) by (cases w) (auto simp: key_name_def)
next
  case (Cons x s)
  show ?case
  proof (cases x rule: json_char_cases)
    case plain
    then show ?thesis using Cons by (cases w) (auto simp: key_name_def)
  next
    case pair
    then show ?thesis using Cons.prems by (cases w) (auto simp: key_name_def quote_chars)
  next
    case hex
    then show ?thesis using Cons.prems by (cases w) (auto simp: key_name_def quote_chars)
  qed
qed

lemma find_key_skips:
  assumes "key_name w" and "c \<noteq> CHR 0x3A"
  shows "find_after (quoted_key w t) (json_escape s @ DQ # c # rest) = find_after (quoted_key w t) (DQ # c # rest)
    \<and> contains (quoted_key w t) (json_escape s @ DQ # c # rest) = contains (quoted_key w t) (DQ # c # rest)"
proof (induction s)
  case (Cons x s)
  note k = key_tail_not_prefix [OF assms, of t s rest]
  show ?case
  proof (cases x rule: json_char_cases)
    case plain
    then show ?thesis using Cons by (simp add: quoted_key_def)
  next
    case (pair d)
    then show ?thesis using Cons k by (auto simp: quoted_key_def quote_chars)
  next
    case hex
    then show ?thesis using Cons k by (auto simp: quoted_key_def quote_chars)
  qed
qed simp

lemmas find_key_skips_find = find_key_skips [THEN conjunct1]
lemmas find_key_skips_contains = find_key_skips [THEN conjunct2]

section \<open>Reading a report\<close>

text \<open>The pieces of a line around the two escaped texts.\<close>

definition line_head :: "probe_result \<Rightarrow> string" where
  "line_head r =
     [CHR 0x7B, DQ] @ ''ok'' @ [DQ, CHR 0x3A] @ json_bool (pb_ok r) @
     [CHR 0x2C, DQ] @ ''supported'' @ [DQ, CHR 0x3A] @ json_bool (pb_supported r) @
     [CHR 0x2C, DQ] @ ''env'' @ [DQ, CHR 0x3A, DQ]"

lemma json_line_parts:
  "json_line r = line_head r @ json_escape (pb_env r) @ DQ # CHR 0x2C # DQ # ''reason'' @ DQ # CHR 0x3A # DQ #
     json_escape (pb_reason r) @ DQ # CHR 0x7D # []"
  by (simp add: json_line_def line_head_def)

lemma json_line_visible: "json_line r \<noteq> [] \<and> visible (hd (json_line r)) \<and> visible (last (json_line r))"
  by (simp add: json_line_def visible_def char_between_def less_eq_char_def)

lemma json_line_trim [simp]: "trim (json_line r) = json_line r"
  using json_line_visible trim_visible by blast

lemma json_line_brace [simp]: "starts_with [CHR 0x7B] (json_line r)"
  by (simp add: json_line_def)

lemma json_line_no_break: "CHR 0x0A \<notin> set (json_line r) \<and> last (json_line r) \<noteq> CHR 0x0D"
  using json_escape_no_break [of "CHR 0x0A"] by (auto simp: json_line_def json_bool_def quote_chars)

lemma report_lines: "text_lines (print_lines (map json_line rs)) = map json_line rs"
  unfolding print_lines_def using json_line_no_break by (intro text_lines_concat) auto

lemma key_forms:
  "OK_FALSE = quoted_key ''ok'' ''false''" "OK_TRUE = quoted_key ''ok'' ''true''"
  "UNSUPPORTED = quoted_key ''supported'' ''false''" "REASON_KEY = quoted_key ''reason'' [DQ]"
  by (simp_all add: OK_FALSE_def OK_TRUE_def UNSUPPORTED_def REASON_KEY_def quoted_key_def)

lemma key_names [simp]:
  "key_name ''ok''" "key_name ''supported''" "key_name ''reason''" "key_name ''env''"
  by (simp_all add: key_name_def quote_chars)

lemmas key_skips =
  find_key_skips [OF key_names(1), of _ "''true''", unfolded quoted_key_def DQ_def append.simps]
  find_key_skips [OF key_names(1), of _ "''false''", unfolded quoted_key_def DQ_def append.simps]
  find_key_skips [OF key_names(2), of _ "''false''", unfolded quoted_key_def DQ_def append.simps]
  find_key_skips [OF key_names(3), of _ "[DQ]", unfolded quoted_key_def DQ_def append.simps]

lemmas key_tails =
  key_tail_not_prefix [OF key_names(1), of _ "''true''", unfolded DQ_def append.simps]
  key_tail_not_prefix [OF key_names(1), of _ "''false''", unfolded DQ_def append.simps]
  key_tail_not_prefix [OF key_names(2), of _ "''false''", unfolded DQ_def append.simps]
  key_tail_not_prefix [OF key_names(3), of _ "[DQ]", unfolded DQ_def append.simps]

lemmas line_simps = json_line_parts line_head_def json_bool_def key_forms quoted_key_def DQ_def

lemma line_verdicts [simp]:
  "contains OK_FALSE (json_line r) \<longleftrightarrow> \<not> pb_ok r"
  "contains OK_TRUE (json_line r) \<longleftrightarrow> pb_ok r"
  "contains UNSUPPORTED (json_line r) \<longleftrightarrow> \<not> pb_supported r"
  by (simp_all add: line_simps key_skips key_tails)

lemma line_reason [simp]: "extract_reason (json_line r) = Some (cleaned (pb_reason r))"
proof -
  have "find_after REASON_KEY (json_line r) = Some (json_escape (pb_reason r) @ [DQ, CHR 0x7D])"
    by (simp add: line_simps key_skips key_tails)
  then show ?thesis by (simp add: extract_reason_def before_last_suffix unescape_json_escape)
qed

lemma json_escape_plain: "DQ \<notin> set s \<Longrightarrow> BSL \<notin> set s \<Longrightarrow> \<forall>c \<in> set s. visible c \<Longrightarrow> json_escape s = s"
  by (induction s) (auto simp: json_char_def visible_def char_between_def less_eq_char_def)

lemma line_env:
  assumes "\<forall>c \<in> set (pb_env r). visible c" and "DQ \<notin> set (pb_env r)" and "BSL \<notin> set (pb_env r)"
  shows "extract_field (json_line r) ''env'' = Some (pb_env r)"
proof -
  have "find_after ([DQ] @ ''env'' @ [DQ, CHR 0x3A, DQ]) (json_line r) =
      Some (pb_env r @ DQ # CHR 0x2C # DQ # ''reason'' @ DQ # CHR 0x3A # DQ #
        json_escape (pb_reason r) @ DQ # CHR 0x7D # [])"
    by (simp add: line_simps json_escape_plain [OF assms(2,3,1), unfolded DQ_def])
  then show ?thesis using split_once_append [OF assms(2)] by (simp add: extract_field_def)
qed

section \<open>What the administrator is told\<close>

definition failing :: "probe_result \<Rightarrow> bool" where
  "failing r \<longleftrightarrow> \<not> pb_ok r \<and> pb_supported r"

definition failure_text :: "probe_result \<Rightarrow> string" where
  "failure_text r =
     (if pb_reason r = [] then ''env '' @ pb_env r @ '' failed'' else cleaned (pb_reason r))"

definition report_verdict :: "probe_result list \<Rightarrow> validation" where
  "report_verdict rs =
     (case rs of
        [] \<Rightarrow> ValidSkipped ''no environments configured''
      | r # _ \<Rightarrow>
          (case find failing rs of
             Some f \<Rightarrow> ValidFailed (failure_text f)
           | None \<Rightarrow>
               if list_ex pb_ok rs then ValidOk
               else ValidSkipped (if pb_reason r = [] then ''engine not supported yet''
                                  else cleaned (pb_reason r))))"

text \<open>A failure without a reason is reported by name; the name is then one that needs no escape.\<close>

definition reportable :: "probe_result \<Rightarrow> bool" where
  "reportable r \<longleftrightarrow>
     pb_reason r \<noteq> [] \<or> (\<forall>c \<in> set (pb_env r). visible c \<and> c \<noteq> DQ \<and> c \<noteq> BSL)"

lemma cleaned_Nil [simp]: "cleaned s = [] \<longleftrightarrow> s = []"
  by (cases s) (auto simp: cleaned_def REPLACEMENT_def)

lemma first_failure_report:
  "list_all reportable rs \<Longrightarrow> first_failure (map json_line rs) = map_option failure_text (find failing rs)"
proof (induction rs)
  case (Cons r rs)
  have "extract_field (json_line r) ''env'' = Some (pb_env r)" if "pb_reason r = []"
    using Cons.prems that by (intro line_env) (auto simp: reportable_def)
  then show ?case using Cons by (simp add: failing_def failure_text_def Let_def)
qed simp

lemma unsupported_report:
  "unsupported_scan seen (map json_line rs) =
     (if list_ex pb_ok rs then None
      else case seen of
             Some n \<Rightarrow> Some n
           | None \<Rightarrow> map_option (cleaned \<circ> pb_reason) (find (\<lambda>r. \<not> pb_supported r) rs))"
  by (induction rs arbitrary: seen) (auto simp: Let_def split: option.splits)

lemma json_line_not_marker: "json_line r \<noteq> EMPTY_MARKER"
  by (simp add: json_line_def EMPTY_MARKER_def)

lemma no_marker: "\<not> has_empty_marker (print_lines (map json_line rs))"
  by (simp add: has_empty_marker_def report_lines list_ex_iff json_line_not_marker)

lemma marker_read: "has_empty_marker (print_lines [EMPTY_MARKER])"
proof -
  have "text_lines (print_lines [EMPTY_MARKER]) = [EMPTY_MARKER]"
    unfolding print_lines_def by (intro text_lines_concat) (simp add: EMPTY_MARKER_def quote_chars)
  moreover have "trim EMPTY_MARKER = EMPTY_MARKER"
    by (rule trim_visible)
      (simp_all add: EMPTY_MARKER_def visible_def char_between_def less_eq_char_def quote_chars)
  ultimately show ?thesis by (simp add: has_empty_marker_def)
qed

lemma success_iff: "list_all (\<lambda>r. pb_ok r \<or> \<not> pb_supported r) rs \<longleftrightarrow> find failing rs = None"
  by (induction rs) (auto simp: failing_def)

lemma find_unsupported_hd:
  "find failing (r # rs) = None \<Longrightarrow> \<not> list_ex pb_ok (r # rs) \<Longrightarrow> find (\<lambda>r. \<not> pb_supported r) (r # rs) = Some r"
  by (auto simp: failing_def split: if_splits)

text \<open>
  The report is read back as it was meant. The administrator's tool says of a direct connectivity
  test what the daemon's probe found: skipped when there is no environment, failed with the reason of the
  first environment that failed, connected when at least one did and none failed, skipped when all are of
  an engine without a probe. Reasons may hold quotes, backslashes, line breaks or text that looks like a
  field of the report; only control characters are replaced.
\<close>

theorem validate_reads_report:
  assumes "list_all reportable rs" and "exists d"
    and "test_report True rs = (out, success)"
    and "launch d (build_probe_argv nm dir (case ks of FileKeystore _ \<Rightarrow> True | OsKeystore _ _ \<Rightarrow> False)) =
      Inr (success, out, err)"
  shows "validate_probe (Inr d) exists launch dir ks nm = report_verdict rs"
proof (cases rs)
  case Nil
  then have "out = print_lines [EMPTY_MARKER]" using assms(3) by (simp add: test_report_def)
  then show ?thesis
    using Nil assms(2,4) marker_read
    by (simp add: validate_probe_def probe_outcome_of_def report_verdict_def)
next
  case (Cons r rest)
  have o: "out = print_lines (map json_line rs)" "success \<longleftrightarrow> find failing rs = None"
    using assms(3) Cons success_iff by (auto simp: test_report_def)
  have ff: "first_failure_reason out = map_option failure_text (find failing rs)"
    using first_failure_report [OF assms(1)] by (simp add: first_failure_reason_def o report_lines)
  have us: "unsupported_only_reason out =
      map_option (\<lambda>t. if t = [] then ''engine not supported yet'' else t)
        (if list_ex pb_ok rs then None
         else map_option (cleaned \<circ> pb_reason) (find (\<lambda>r. \<not> pb_supported r) rs))"
    by (simp add: unsupported_only_reason_def o report_lines unsupported_report)
  have v: "validate_probe (Inr d) exists launch dir ks nm =
      (let o' = probe_outcome_of success out err
       in if po_ok o' then (case po_unsupported o' of Some note \<Rightarrow> ValidSkipped note | None \<Rightarrow> ValidOk)
          else ValidFailed (if po_reason o' = [] then ''connection failed'' else po_reason o'))"
    using assms(2,4) no_marker by (simp add: validate_probe_def probe_outcome_of_def o Let_def)
  show ?thesis
  proof (cases "find failing rs")
    case (Some f)
    have "failure_text f \<noteq> []" by (simp add: failure_text_def)
    then show ?thesis
      using v ff o(2) Some by (simp add: Cons report_verdict_def probe_outcome_of_def Let_def)
  next
    case None
    then have "find (\<lambda>r. \<not> pb_supported r) rs = Some r" if "\<not> list_ex pb_ok rs"
      using that find_unsupported_hd unfolding Cons by blast
    then show ?thesis
      using v us o(2) None
      by (auto simp: Cons report_verdict_def probe_outcome_of_def Let_def simp del: find.simps)
  qed
qed

definition sample_results :: "probe_result list" where
  "sample_results =
     [\<lparr>pb_env = ''ms'', pb_ok = False, pb_supported = False, pb_reason = ''engine mssql not supported yet''\<rparr>,
      \<lparr>pb_env = ''dev'', pb_ok = False, pb_supported = True,
       pb_reason = ''bad '' @ [DQ] @ ''ok'' @ [DQ] @ '':true'' @ [BSL, CHR 0x0A]\<rparr>]"

theorem validate_reads_report_witness:
  "validate_probe (Inr ''mwsqld'') (\<lambda>_. True)
     (\<lambda>_ _. Inr (snd (test_report True sample_results), fst (test_report True sample_results), []))
     ''state'' (FileKeystore ''key'') None =
   ValidFailed (''bad '' @ [DQ] @ ''ok'' @ [DQ] @ '':true'' @ [BSL, CHR 0x0A])"
proof -
  have a: "list_all reportable sample_results" by (simp add: sample_results_def reportable_def)
  have "report_verdict sample_results =
      ValidFailed (''bad '' @ [DQ] @ ''ok'' @ [DQ] @ '':true'' @ [BSL, CHR 0x0A])"
    by (simp add: report_verdict_def sample_results_def failing_def failure_text_def cleaned_def quote_chars)
  with validate_reads_report [OF a, of "\<lambda>_. True" "''mwsqld''" "fst (test_report True sample_results)"
      "snd (test_report True sample_results)"
      "\<lambda>_ _. Inr (snd (test_report True sample_results), fst (test_report True sample_results), [])"
      None "''state''" "FileKeystore ''key''" "[]"]
  show ?thesis by simp
qed

end
