(* ===== verification/Cli.thy ===== *)
theory Cli
  imports Terminal Probe_Report
begin

text \<open>
  \<open>crates/mwsqlctl/src/main.rs\<close> with the wrappers it calls (\<open>ops.rs\<close>, \<open>bastion.rs\<close>,
  \<open>cred.rs\<close>, \<open>envs.rs\<close>, \<open>policy.rs\<close>, \<open>audit_tail.rs\<close>): each
  administration command, either over the control channel or on the sealed configuration itself, and the
  guards in front of both. A command acts on the server: its disk, and, behind the channel, the daemon.
  The output is the lines of the standard output; the terminal, the channel, the URL parser, the files
  and processes a command starts from, and the texts of errors are the environment of the command.
\<close>

section \<open>Commands\<close>

record url_add =
  ua_name :: name
  ua_url :: string
  ua_backend_port :: "u16 option"
  ua_database :: "string option"
  ua_bastion :: "name option"
  ua_policy :: policy
  ua_listen_port :: "u16 option"
  ua_max_pool :: "u32 option"
  ua_password_stdin :: bool

text \<open>\<open>wizard\<close>, \<open>init\<close>, \<open>uninstall\<close> and \<open>install-service\<close> are dispatched before.\<close>

datatype cmd =
    BastionAdd bastion_input
  | BastionRm name
  | BastionList
  | CredAdd name string bool
  | CredRotate name bool
  | CredRm name
  | CredList
  | EnvAdd env_input bool
  | EnvAddUrl url_add bool
  | EnvRm name
  | EnvRotateToken name
  | EnvList
  | EnvTest "name option" bool
  | PolicyCmd name bool bool bool
  | AuditTailCmd nat
  | GrantCmd name
  | ImportCmd string

fun cmd_is_mutation :: "cmd \<Rightarrow> bool" where
  "cmd_is_mutation BastionList = False"
| "cmd_is_mutation CredList = False"
| "cmd_is_mutation EnvList = False"
| "cmd_is_mutation (EnvTest _ _) = False"
| "cmd_is_mutation (AuditTailCmd _) = False"
| "cmd_is_mutation _ = True"

record ('w, 'h) cli_env =
  ce_server :: "('w, 'h) server_env"
  ce_call :: "nat \<Rightarrow> request \<Rightarrow> 'h server \<Rightarrow> (call_error + response) \<times> 'h server"
  ce_turn :: "nat \<Rightarrow> 'w turn"
  ce_terminal :: terminal
  ce_call_text :: "exchange_error \<Rightarrow> string"
  ce_show :: "response \<Rightarrow> string"
  ce_parse_url :: "string \<Rightarrow> string + url_parts"
  ce_percent_decode :: "string \<Rightarrow> string"
  ce_url_text :: "url_error \<Rightarrow> string"
  ce_fingerprint_text :: "fingerprint_error \<Rightarrow> string"
  ce_daemon_path :: "string + string"
  ce_exists :: "string \<Rightarrow> bool"
  ce_launch :: "'h server \<Rightarrow> string \<Rightarrow> string list \<Rightarrow> string + bool \<times> string \<times> string"
  ce_import :: import_io
  ce_import_text :: "import_error \<Rightarrow> string"

type_synonym 'h cli_result = "string list \<times> (string + unit) \<times> 'h server"

section \<open>The two ways\<close>

definition expect_response ::
  "('w, 'h) cli_env \<Rightarrow> nat \<Rightarrow> request \<Rightarrow> string \<Rightarrow> (response \<Rightarrow> 'r option) \<Rightarrow> 'h server
     \<Rightarrow> (string + 'r) \<times> 'h server" where
  "expect_response ce k req complaint pick st =
     (let (r, st') = ce_call ce k req st
      in (case checked (ce_call_text ce) r of
            Inl m \<Rightarrow> Inl m
          | Inr resp \<Rightarrow>
              (case pick resp of
                 Some v \<Rightarrow> Inr v
               | None \<Rightarrow> Inl (complaint @ ce_show ce resp)), st'))"

definition UNEXPECTED :: string where
  "UNEXPECTED = ''unexpected response from the service: ''"

definition expect_ok :: "('w, 'h) cli_env \<Rightarrow> nat \<Rightarrow> request \<Rightarrow> 'h server \<Rightarrow> (string + unit) \<times> 'h server" where
  "expect_ok ce k req st =
     expect_response ce k req UNEXPECTED (\<lambda>r. case r of ROk \<Rightarrow> Some () | _ \<Rightarrow> None) st"

definition expect_token ::
  "('w, 'h) cli_env \<Rightarrow> nat \<Rightarrow> request \<Rightarrow> 'h server \<Rightarrow> (string + new_env_output_dto) \<times> 'h server" where
  "expect_token ce k req st =
     expect_response ce k req UNEXPECTED (\<lambda>r. case r of RToken d \<Rightarrow> Some d | _ \<Rightarrow> None) st"

definition expect_rows ::
  "('w, 'h) cli_env \<Rightarrow> nat \<Rightarrow> request \<Rightarrow> 'h server \<Rightarrow> (string + string list) \<times> 'h server" where
  "expect_rows ce k req st =
     expect_response ce k req ''expected a row listing from the daemon, got ''
       (\<lambda>r. case r of RRows v \<Rightarrow> Some v | _ \<Rightarrow> None) st"

definition direct ::
  "('w, 'h) cli_env \<Rightarrow> nat \<Rightarrow> (config \<Rightarrow> mutate_error + 'r \<times> config) \<Rightarrow> 'h server
     \<Rightarrow> (string + 'r) \<times> 'h server" where
  "direct ce k m st =
     (case persist (ce_server ce) (ce_turn ce k) m st of
        (Inl e, st') \<Rightarrow> (Inl (sv_state_text (ce_server ce) e), st')
      | (Inr r, st') \<Rightarrow> (Inr r, st'))"

definition direct_read ::
  "('w, 'h) cli_env \<Rightarrow> nat \<Rightarrow> (config \<Rightarrow> 'r) \<Rightarrow> 'h server \<Rightarrow> string + 'r" where
  "direct_read ce k rows st =
     (case reload (ce_server ce) (ce_turn ce k) st of
        Inl e \<Rightarrow> Inl (sv_state_text (ce_server ce) e)
      | Inr cfg \<Rightarrow> Inr (rows cfg))"

text \<open>A change that prints nothing on the standard output.\<close>

definition change ::
  "('w, 'h) cli_env \<Rightarrow> bool \<Rightarrow> nat \<Rightarrow> request \<Rightarrow> (config \<Rightarrow> mutate_error + config) \<Rightarrow> 'h server
     \<Rightarrow> (string + unit) \<times> 'h server" where
  "change ce use_channel k req m st =
     (if use_channel then expect_ok ce k req st else direct ce k (\<lambda>c. unit_result (m c)) st)"

definition minted ::
  "('w, 'h) cli_env \<Rightarrow> bool \<Rightarrow> nat \<Rightarrow> request \<Rightarrow> (config \<Rightarrow> mutate_error + new_env_output \<times> config)
     \<Rightarrow> 'h server \<Rightarrow> (string + new_env_output_dto) \<times> 'h server" where
  "minted ce use_channel k req m st =
     (if use_channel then expect_token ce k req st
      else (case direct ce k m st of
              (Inl e, st') \<Rightarrow> (Inl e, st')
            | (Inr out, st') \<Rightarrow> (Inr (new_env_dto out), st')))"

definition quiet :: "(string + unit) \<times> 'h server \<Rightarrow> 'h cli_result" where
  "quiet r = ([], fst r, snd r)"

text \<open>The bare token is the one line of the standard output.\<close>

definition print_token :: "(string + new_env_output_dto) \<times> 'h server \<Rightarrow> 'h cli_result" where
  "print_token r =
     (case fst r of
        Inl e \<Rightarrow> ([], Inl e, snd r)
      | Inr dto \<Rightarrow> ([dto_token dto], Inr (), snd r))"

definition listing ::
  "('w, 'h) cli_env \<Rightarrow> bool \<Rightarrow> request \<Rightarrow> (config \<Rightarrow> string list) \<Rightarrow> 'h server \<Rightarrow> 'h cli_result" where
  "listing ce use_channel req rows st =
     (let (r, st') = (if use_channel then expect_rows ce 0 req st else (direct_read ce 0 rows st, st))
      in case r of Inl e \<Rightarrow> ([], Inl e, st') | Inr ls \<Rightarrow> (ls, Inr (), st'))"

section \<open>The commands\<close>

definition cli_bastion_add :: "('w, 'h) cli_env \<Rightarrow> bool \<Rightarrow> bastion_input \<Rightarrow> 'h server \<Rightarrow> 'h cli_result" where
  "cli_bastion_add ce use_channel inp st =
     (case fst (resolve_bastion_auth inp (ce_terminal ce)) of
        Inl e \<Rightarrow> ([], Inl e, st)
      | Inr secret \<Rightarrow>
     (case bastion_dto inp secret of
        Inl e \<Rightarrow> ([], Inl (ce_fingerprint_text ce e), st)
      | Inr dto \<Rightarrow>
          quiet (change ce use_channel 0 (AddBastion dto)
            (add_bastion \<lparr>ba_name = bi_name dto, ba_host = bi_host dto, ba_port = bi_port dto,
               ba_ssh_user = bi_ssh_user dto, ba_auth = bi_auth dto, ba_fingerprint = bi_fingerprint dto\<rparr>) st)))"

definition cli_cred_secret ::
  "('w, 'h) cli_env \<Rightarrow> bool \<Rightarrow> bool \<Rightarrow> (string \<Rightarrow> request)
     \<Rightarrow> (string \<Rightarrow> config \<Rightarrow> mutate_error + config) \<Rightarrow> 'h server \<Rightarrow> 'h cli_result" where
  "cli_cred_secret ce use_channel from_stdin req m st =
     (case fst (read_secret from_stdin (ce_terminal ce)) of
        Inl e \<Rightarrow> ([], Inl e, st)
      | Inr password \<Rightarrow> quiet (change ce use_channel 0 (req password) (m password) st))"

definition add_cred_request :: "name \<Rightarrow> string \<Rightarrow> string \<Rightarrow> request" where
  "add_cred_request nm user password =
     AddCred \<lparr>ci_name = nm, ci_backend_user = user, ci_password = password\<rparr>"

definition cli_validate :: "('w, 'h) cli_env \<Rightarrow> name option \<Rightarrow> 'h server \<Rightarrow> validation" where
  "cli_validate ce env_name st =
     validate_probe (ce_daemon_path ce) (ce_exists ce) (ce_launch ce st)
       (se_dir (sv_state (ce_server ce))) (se_keystore (sv_state (ce_server ce))) env_name"

definition validate_after_add ::
  "('w, 'h) cli_env \<Rightarrow> bool \<Rightarrow> nat \<Rightarrow> name \<Rightarrow> 'h server \<Rightarrow> (string + unit) \<times> 'h server" where
  "validate_after_add ce use_channel k nm st =
     (let failed = (\<lambda>e. Inl (''env '' @ nm @ '' added but could not connect: '' @ e))
      in if use_channel
         then (case expect_response ce k (Probe (Some nm) False) UNEXPECTED
                      (\<lambda>r. case r of RProbeResults rs \<Rightarrow> Some rs | _ \<Rightarrow> None) st of
                 (Inl e, st') \<Rightarrow> (Inl e, st')
               | (Inr rs, st') \<Rightarrow>
                   (case snd (render_probe_results rs) of
                      Inl e \<Rightarrow> (failed e, st') | Inr _ \<Rightarrow> (Inr (), st')))
         else (case cli_validate ce (Some nm) st of
                 ValidOk \<Rightarrow> (Inr (), st)
               | ValidSkipped _ \<Rightarrow> (Inr (), st)
               | ValidFailed reason \<Rightarrow> (failed reason, st)))"

text \<open>The end of \<open>env add\<close>, from the \<open>k\<close>th call on: the environment, its token, the check.\<close>

definition add_env_and_check ::
  "('w, 'h) cli_env \<Rightarrow> bool \<Rightarrow> nat \<Rightarrow> env_input \<Rightarrow> bool \<Rightarrow> 'h server \<Rightarrow> 'h cli_result" where
  "add_env_and_check ce use_channel k inp no_validate st =
     (case minted ce use_channel k (AddEnv (env_dto inp))
             (add_env (sv_sha1 (ce_server ce)) (sv_sha256 (ce_server ce)) (tn_raw (ce_turn ce k))
                (env_add_args_of (env_dto inp))) st of
        (Inl e, st') \<Rightarrow> ([], Inl e, st')
      | (Inr dto, st') \<Rightarrow>
          (if no_validate then ([dto_token dto], Inr (), st')
           else (case validate_after_add ce use_channel (Suc k) (en_name inp) st' of
                   (r, st'') \<Rightarrow> ([dto_token dto], r, st''))))"

text \<open>With \<open>--url\<close> the credential is stored first, under the name of the environment.\<close>

definition add_credential_for_url ::
  "('w, 'h) cli_env \<Rightarrow> bool \<Rightarrow> name \<Rightarrow> parsed_url \<Rightarrow> bool \<Rightarrow> 'h server
     \<Rightarrow> (string + unit) \<times> 'h server" where
  "add_credential_for_url ce use_channel cred_name p from_stdin st =
     (case (case pu_password p of
              Some pw \<Rightarrow> Inr pw
            | None \<Rightarrow> fst (read_secret from_stdin (ce_terminal ce))) of
        Inl e \<Rightarrow> (Inl e, st)
      | Inr pw \<Rightarrow>
          change ce use_channel 0 (add_cred_request cred_name (pu_db_user p) pw)
            (add_cred cred_name (pu_db_user p) pw) st)"

definition or_else :: "'a option \<Rightarrow> 'a option \<Rightarrow> 'a option" where
  "or_else a b = (case a of Some x \<Rightarrow> Some x | None \<Rightarrow> b)"

definition url_env_input :: "url_add \<Rightarrow> parsed_url \<Rightarrow> env_input" where
  "url_env_input a p =
     \<lparr>en_name = ua_name a, en_backend_host = pu_host p,
      en_backend_port = or_else (ua_backend_port a) (pu_port p), en_engine = pu_engine p,
      en_database = or_else (ua_database a) (pu_database p), en_bastion = ua_bastion a,
      en_credential = ua_name a, en_policy = ua_policy a, en_listen_port = ua_listen_port a,
      en_max_pool = ua_max_pool a\<rparr>"

definition cli_env_add_url :: "('w, 'h) cli_env \<Rightarrow> bool \<Rightarrow> url_add \<Rightarrow> bool \<Rightarrow> 'h server \<Rightarrow> 'h cli_result" where
  "cli_env_add_url ce use_channel a no_validate st =
     (case parse_connection_url (ce_parse_url ce) (ce_percent_decode ce) (ua_url a) of
        Inl e \<Rightarrow> ([], Inl (ce_url_text ce e), st)
      | Inr p \<Rightarrow>
     (case add_credential_for_url ce use_channel (ua_name a) p (ua_password_stdin a) st of
        (Inl e, st') \<Rightarrow> ([], Inl e, st')
      | (Inr _, st') \<Rightarrow> add_env_and_check ce use_channel 1 (url_env_input a p) no_validate st'))"

definition cli_env_test ::
  "('w, 'h) cli_env \<Rightarrow> bool \<Rightarrow> name option \<Rightarrow> bool \<Rightarrow> 'h server \<Rightarrow> 'h cli_result" where
  "cli_env_test ce use_channel env_name whole_set st =
     (if env_name = None \<and> \<not> whole_set then ([], Inl ''specify an env name or --all'', st)
      else if env_name \<noteq> None \<and> whole_set then ([], Inl ''specify an env name or --all, not both'', st)
      else if use_channel
      then (case expect_response ce 0 (Probe env_name whole_set) UNEXPECTED
                   (\<lambda>r. case r of RProbeResults rs \<Rightarrow> Some rs | _ \<Rightarrow> None) st of
              (Inl e, st') \<Rightarrow> ([], Inl e, st')
            | (Inr rs, st') \<Rightarrow> ([], snd (render_probe_results rs), st'))
      else (case cli_validate ce env_name st of
              ValidOk \<Rightarrow> ([], Inr (), st)
            | ValidSkipped _ \<Rightarrow> ([], Inr (), st)
            | ValidFailed reason \<Rightarrow> ([], Inl (''connection failed: '' @ reason), st)))"

text \<open>\<open>policy::set\<close>: the gate of the offline path.\<close>

definition CONFIRM_REASON :: string where
  "CONFIRM_REASON = ''ReadWrite requires --i-know-what-im-doing''"

definition cli_policy ::
  "('w, 'h) cli_env \<Rightarrow> bool \<Rightarrow> name \<Rightarrow> bool \<Rightarrow> bool \<Rightarrow> bool \<Rightarrow> 'h server \<Rightarrow> 'h cli_result" where
  "cli_policy ce use_channel nm ro rw confirm st =
     (case policy_target_of ro rw of
        None \<Rightarrow> ([], Inl ''specify exactly one of --read-only / --read-write'', st)
      | Some target \<Rightarrow>
          if use_channel then quiet (expect_ok ce 0 (SetPolicy nm target confirm) st)
          else if target = TargetReadWrite \<and> \<not> confirm then ([], Inl CONFIRM_REASON, st)
          else quiet (direct ce 0 (\<lambda>c. unit_result (set_policy nm target c)) st))"

text \<open>\<open>audit_tail::tail\<close> on the audit directory.\<close>

definition tail_audit_dir :: "audit_dir \<Rightarrow> nat \<Rightarrow> string + string list" where
  "tail_audit_dir dir n =
     (case dir of
        AuditDirAbsent \<Rightarrow> Inr []
      | AuditDirFailed e \<Rightarrow> Inl (''read_dir: '' @ e)
      | AuditDir entries \<Rightarrow>
          (let logs = sort_key fst (filter (\<lambda>(f, _). starts_with ''audit.jsonl'' f) entries)
           in if logs = [] then Inr []
              else (case snd (last logs) of
                      Inl e \<Rightarrow> Inl (''read: '' @ e)
                    | Inr body \<Rightarrow> Inr (tail_lines n body))))"

definition cli_audit_tail :: "('w, 'h) cli_env \<Rightarrow> bool \<Rightarrow> nat \<Rightarrow> 'h server \<Rightarrow> 'h cli_result" where
  "cli_audit_tail ce use_channel n st =
     (let (r, st') =
        (if use_channel
         then expect_response ce 0 (AuditTail n) UNEXPECTED
                (\<lambda>r. case r of RAuditLines v \<Rightarrow> Some v | _ \<Rightarrow> None) st
         else (tail_audit_dir (tn_audit_dir (ce_turn ce 0)) n, st))
      in case r of Inl e \<Rightarrow> ([], Inl e, st') | Inr ls \<Rightarrow> (ls, Inr (), st'))"

definition cli_import :: "('w, 'h) cli_env \<Rightarrow> bool \<Rightarrow> string \<Rightarrow> 'h server \<Rightarrow> 'h cli_result" where
  "cli_import ce use_channel dir st =
     (case build_from_dir (ce_import ce) dir of
        Inl e \<Rightarrow> ([], Inl (ce_import_text ce e), st)
      | Inr (fragment, _) \<Rightarrow>
          quiet (change ce use_channel 0 (Import fragment) (\<lambda>c. merge_import c fragment) st))"

text \<open>The rows of the direct listings.\<close>

definition direct_bastion_row :: "name \<times> bastion \<Rightarrow> string" where
  "direct_bastion_row = (\<lambda>(nm, b).
     nm @ TAB @ host b @ '':'' @ show_nat (unat (port b)) @ TAB @ ''user='' @ ssh_user b @ TAB @
     ''auth='' @ (case auth b of PasswordAuth _ \<Rightarrow> ''password'' | KeyAuth _ _ \<Rightarrow> ''key'') @ TAB @
     ''fingerprints='' @ show_nat (length (pinned_host_keys b)))"

definition direct_cred_row :: "name \<times> credential \<Rightarrow> string" where
  "direct_cred_row = (\<lambda>(nm, c). nm @ TAB @ ''user='' @ backend_user c)"

definition direct_env_row :: "name \<times> env \<Rightarrow> string" where
  "direct_env_row = (\<lambda>(nm, e).
     nm @ TAB @ backend_host e @ '':'' @ show_nat (unat (backend_port e)) @ TAB @
     ''engine='' @ engine_label (engine e) @ TAB @
     ''bastion='' @ (case env_bastion e of Some b \<Rightarrow> b | None \<Rightarrow> ''-'') @ TAB @
     ''cred='' @ env_credential e @ TAB @ ''policy='' @ policy_label (env_policy e) @ TAB @
     ''port='' @ show_nat (unat (listen_port e)))"

fun run_command :: "('w, 'h) cli_env \<Rightarrow> bool \<Rightarrow> cmd \<Rightarrow> 'h server \<Rightarrow> 'h cli_result" where
  "run_command ce ch (BastionAdd inp) st = cli_bastion_add ce ch inp st"
| "run_command ce ch (BastionRm nm) st = quiet (change ce ch 0 (RmBastion nm) (rm_bastion nm) st)"
| "run_command ce ch BastionList st =
     listing ce ch ListBastions (\<lambda>c. map direct_bastion_row (bt_entries (bastions c))) st"
| "run_command ce ch (CredAdd nm user from_stdin) st =
     cli_cred_secret ce ch from_stdin (add_cred_request nm user) (add_cred nm user) st"
| "run_command ce ch (CredRotate nm from_stdin) st =
     cli_cred_secret ce ch from_stdin (RotateCred nm) (rotate_cred nm) st"
| "run_command ce ch (CredRm nm) st = quiet (change ce ch 0 (RmCred nm) (rm_cred nm) st)"
| "run_command ce ch CredList st =
     listing ce ch ListCreds (\<lambda>c. map direct_cred_row (bt_entries (credentials c))) st"
| "run_command ce ch (EnvAdd inp no_validate) st = add_env_and_check ce ch 0 inp no_validate st"
| "run_command ce ch (EnvAddUrl a no_validate) st = cli_env_add_url ce ch a no_validate st"
| "run_command ce ch (EnvRm nm) st = quiet (change ce ch 0 (RmEnv nm) (rm_env nm) st)"
| "run_command ce ch (EnvRotateToken nm) st =
     print_token (minted ce ch 0 (GrantEnv nm)
       (grant_env (sv_sha1 (ce_server ce)) (sv_sha256 (ce_server ce)) (tn_raw (ce_turn ce 0)) nm) st)"
| "run_command ce ch EnvList st =
     listing ce ch ListEnvs (\<lambda>c. map direct_env_row (bt_entries (envs c))) st"
| "run_command ce ch (EnvTest env_name whole_set) st = cli_env_test ce ch env_name whole_set st"
| "run_command ce ch (PolicyCmd nm ro rw confirm) st = cli_policy ce ch nm ro rw confirm st"
| "run_command ce ch (AuditTailCmd n) st = cli_audit_tail ce ch n st"
| "run_command ce ch (GrantCmd nm) st =
     print_token (minted ce ch 0 (GrantEnv nm)
       (grant_env (sv_sha1 (ce_server ce)) (sv_sha256 (ce_server ce)) (tn_raw (ce_turn ce 0)) nm) st)"
| "run_command ce ch (ImportCmd dir) st = cli_import ce ch dir st"

section \<open>In front of the commands\<close>

record cli_flags =
  cf_state_dir :: "string option"
  cf_user :: bool
  cf_file_keystore :: bool
  cf_offline :: bool

datatype cli_route = Refuse string | Go bool "string \<times> keystore_choice"

definition NEEDS_ROOT :: string where
  "NEEDS_ROOT = ''--offline edits the root/service-owned sealed config directly, which needs '' @
     ''root. Re-run under `sudo mwsqlctl --offline '' @ [CHR 0xE2, CHR 0x80, CHR 0xA6] @
     ''`, or drop --offline to use the running service.''"

definition SERVICE_OWNS :: string where
  "SERVICE_OWNS = ''the middleWHERE service is running and owns its config; drop '' @
     ''--state-dir/--offline to configure it over the service, or stop '' @
     ''the service first to edit a config file directly.''"

text \<open>\<open>reach\<close> is \<open>is_reachable\<close> of a state directory.\<close>

definition cli_route_of :: "target_env \<Rightarrow> bool \<Rightarrow> (string \<Rightarrow> bool) \<Rightarrow> cli_flags \<Rightarrow> cmd \<Rightarrow> cli_route" where
  "cli_route_of te privileged reach fl cmd =
     (let (state_dir, ks) = resolve_cli_target te (cf_state_dir fl) (cf_user fl) (cf_file_keystore fl);
          target_needs_root = (state_dir = system_dir te)
      in if \<not> offline_privilege_ok (cf_offline fl) target_needs_root privileged then Refuse NEEDS_ROOT
         else (let use_channel =
                     (decide_mode (cf_user fl) (cf_offline fl) (cf_state_dir fl) state_dir (system_dir te) = Channel);
                   is_mutation = cmd_is_mutation cmd;
                   reachable = (is_mutation \<and> \<not> cf_user fl \<and> reach state_dir)
               in if \<not> use_channel \<and> \<not> direct_mutation_ok (cf_user fl) is_mutation reachable
                  then Refuse SERVICE_OWNS
                  else Go use_channel (state_dir, ks)))"

text \<open>The direct path works on the files of the target.\<close>

definition at_target :: "string \<times> keystore_choice \<Rightarrow> ('w, 'h) cli_env \<Rightarrow> ('w, 'h) cli_env" where
  "at_target target ce =
     ce\<lparr>ce_server := (ce_server ce)\<lparr>sv_state :=
       (sv_state (ce_server ce))\<lparr>se_dir := fst target, se_keystore := snd target\<rparr>\<rparr>\<rparr>"

definition run_cli ::
  "target_env \<Rightarrow> bool \<Rightarrow> (string \<Rightarrow> bool) \<Rightarrow> ('w, 'h) cli_env \<Rightarrow> cli_flags \<Rightarrow> cmd \<Rightarrow> 'h server
     \<Rightarrow> 'h cli_result" where
  "run_cli te privileged reach ce fl cmd st =
     (case cli_route_of te privileged reach fl cmd of
        Refuse m \<Rightarrow> ([], Inl m, st)
      | Go use_channel target \<Rightarrow> run_command (at_target target ce) use_channel cmd st)"

end
