(* ===== verification/Control_Plane.thy ===== *)
theory Control_Plane
  imports Server_Reach
begin

text \<open>
  What one control request does, seen from outside: the audit record it leaves, the configuration it
  leads to (a pure transition, whatever files, locks and networks do), what it takes to open an
  environment for writing, and the token it hands out.
\<close>

section \<open>Every request is audited once\<close>

fun clean_success :: "response \<Rightarrow> bool" where
  "clean_success ROk = True"
| "clean_success (RRows rows) = True"
| "clean_success (RProbeResults rs) = True"
| "clean_success (RToken d) = (dto_note d = None)"
| "clean_success _ = False"

definition audit_matches :: "peer_identity \<Rightarrow> response \<Rightarrow> admin_event \<Rightarrow> bool" where
  "audit_matches peer resp ev \<longleftrightarrow>
     ad_peer_uid ev = peer_uid peer \<and> ad_peer_gid ev = peer_gid peer \<and> ad_peer_user ev = peer_user peer \<and>
     (case ad_decision ev of
        AuditAllow \<Rightarrow> clean_success resp \<and> ad_error ev = None
      | AuditDeny \<Rightarrow> (\<exists>r. resp = RDenied r \<and> ad_error ev = Some r)
      | AuditError \<Rightarrow> (\<exists>m. resp = RError m \<and> ad_error ev = Some m) \<or>
          (\<exists>d note. resp = RToken d \<and> dto_note d = Some note))"

definition audited_once :: "peer_identity \<Rightarrow> 'h server \<Rightarrow> response \<times> 'h server \<Rightarrow> bool" where
  "audited_once peer st r \<longleftrightarrow>
     (\<exists>ev. sv_log (snd r) = sv_log st @ [ev] \<and> audit_matches peer (fst r) ev)"

lemma audited_fail_msg [simp]:
  "sv_log st1 = sv_log st \<Longrightarrow> audited_once peer st (fail_msg tn peer a t m st1)"
  by (simp add: audited_once_def audit_matches_def fail_msg_def emit_def admin_event_of_def admin_event_new_def)

lemma audited_finishers [simp]:
  "sv_log st1 = sv_log st \<Longrightarrow> audited_once peer st (persisted_but_apply_failed tn peer a t n m st1)"
  "sv_log st1 = sv_log st \<Longrightarrow> audited_once peer st (stopped_after_failed_repin tn peer t ss st1)"
  by (simp_all add: persisted_but_apply_failed_def stopped_after_failed_repin_def)

lemma audited_allow [simp]:
  "sv_log st1 = sv_log st \<Longrightarrow> clean_success resp \<Longrightarrow> audited_once peer st (allow tn peer a t resp st1)"
  by (simp add: audited_once_def audit_matches_def allow_def emit_def admin_event_of_def admin_event_new_def)

lemma audited_token_but_not_live [simp]:
  "sv_log st1 = sv_log st \<Longrightarrow> audited_once peer st (token_but_not_live tn peer a t out m st1)"
  by (simp add: audited_once_def audit_matches_def token_but_not_live_def emit_def admin_event_of_def
      admin_event_new_def Let_def)

lemma new_env_dto_note [simp]: "dto_note (new_env_dto out) = None"
  by (simp add: new_env_dto_def)

lemma persist_log: "persist sv tn m st = (r, st1) \<Longrightarrow> sv_log st1 = sv_log st \<and> sv_daemon st1 = sv_daemon st"
  by (auto simp: persist_def split: prod.splits)

lemma audited_simple_mutation: "audited_once peer st (simple_mutation sv tn peer a t m st)"
  by (auto simp: simple_mutation_def split: prod.splits sum.splits dest!: persist_log)

lemma audited_rm_bastion: "audited_once peer st (rm_bastion_req sv tn peer nm st)"
proof -
  obtain resp st1 where m: "simple_mutation sv tn peer ''rm_bastion'' nm (rm_bastion nm) st = (resp, st1)"
    by fastforce
  then have "audited_once peer st (resp, st1)" using audited_simple_mutation by metis
  then show ?thesis using m by (auto simp: rm_bastion_req_def audited_once_def)
qed

lemma audited_set_fingerprint: "audited_once peer st (set_fingerprint_req sv tn peer bn fp st)"
  by (auto simp: set_fingerprint_req_def Let_def split: prod.splits sum.splits dest!: persist_log)

lemma audited_rotate_cred: "audited_once peer st (rotate_cred_req sv tn peer nm pw st)"
  by (auto simp: rotate_cred_req_def split: prod.splits sum.splits option.splits dest!: persist_log)

lemma audited_add_env: "audited_once peer st (add_env_req sv tn peer dto st)"
  by (auto simp: add_env_req_def split: prod.splits sum.splits option.splits dest!: persist_log)

lemma audited_rm_env: "audited_once peer st (rm_env_req sv tn peer nm st)"
  by (auto simp: rm_env_req_def split: prod.splits sum.splits dest!: persist_log)

lemma audited_grant: "audited_once peer st (grant_req sv tn peer nm st)"
  by (auto simp: grant_req_def split: prod.splits sum.splits option.splits dest!: persist_log)

lemma audited_set_policy: "audited_once peer st (set_policy_req sv tn peer nm target confirm st)"
proof (cases "target = TargetReadWrite \<and> \<not> confirm")
  case True
  then show ?thesis
    by (simp add: set_policy_req_def audited_once_def audit_matches_def emit_def admin_event_of_def
        admin_event_new_def)
next
  case False
  then show ?thesis
    by (auto simp: set_policy_req_def split: prod.splits sum.splits option.splits dest!: persist_log)
qed

lemma audited_import: "audited_once peer st (import_req sv tn peer f st)"
  by (auto simp: import_req_def Let_def split: prod.splits sum.splits option.splits dest!: persist_log)

lemma audited_list_rows: "audited_once peer st (list_rows sv tn peer a rows st)"
  by (simp add: list_rows_def split: sum.splits)

lemma audited_probe: "audited_once peer st (probe_req sv tn peer on whole_set st)"
  by (simp add: probe_req_def Let_def split: option.splits sum.splits prod.splits)

lemma audited_tail:
  "audited_once peer st (audit_tail tn peer n st) \<or> (\<exists>ls. audit_tail tn peer n st = (RAuditLines ls, st))"
  by (simp add: audit_tail_def Let_def split: audit_dir.splits sum.splits)


section \<open>A request is a pure transition of the configuration\<close>

definition accepted :: "mutate_error + config \<Rightarrow> config option" where
  "accepted r = (case r of Inl _ \<Rightarrow> None | Inr c \<Rightarrow> Some c)"

definition accepted_out :: "mutate_error + 'r \<times> config \<Rightarrow> config option" where
  "accepted_out r = (case r of Inl _ \<Rightarrow> None | Inr (_, c) \<Rightarrow> Some c)"

text \<open>The abstract control plane: the configuration a request leads to, \<open>None\<close> when it does
  not change it.\<close>

fun spec_config :: "('w, 'h) server_env \<Rightarrow> 'w turn \<Rightarrow> request \<Rightarrow> config \<Rightarrow> config option" where
  "spec_config sv tn (AddBastion dto) c = accepted (add_bastion
     \<lparr>ba_name = bi_name dto, ba_host = bi_host dto, ba_port = bi_port dto,
      ba_ssh_user = bi_ssh_user dto, ba_auth = bi_auth dto, ba_fingerprint = bi_fingerprint dto\<rparr> c)"
| "spec_config sv tn (RmBastion nm) c = accepted (rm_bastion nm c)"
| "spec_config sv tn (SetFingerprint bn fp) c = accepted (set_fingerprint bn fp c)"
| "spec_config sv tn (AddCred dto) c =
     accepted (add_cred (ci_name dto) (ci_backend_user dto) (ci_password dto) c)"
| "spec_config sv tn (RotateCred nm pw) c = accepted (rotate_cred nm pw c)"
| "spec_config sv tn (RmCred nm) c = accepted (rm_cred nm c)"
| "spec_config sv tn (AddEnv dto) c =
     accepted_out (add_env (sv_sha1 sv) (sv_sha256 sv) (tn_raw tn) (env_add_args_of dto) c)"
| "spec_config sv tn (RmEnv nm) c = accepted (rm_env nm c)"
| "spec_config sv tn (GrantEnv nm) c =
     accepted_out (grant_env (sv_sha1 sv) (sv_sha256 sv) (tn_raw tn) nm c)"
| "spec_config sv tn (SetPolicy nm target confirm) c =
     (if target = TargetReadWrite \<and> \<not> confirm then None else accepted (set_policy nm target c))"
| "spec_config sv tn (Import f) c = accepted (merge_import c f)"
| "spec_config sv tn _ c = None"

text \<open>A handler refines a transform: its disk is the disk after persisting it.\<close>

definition disk_after ::
  "('w, 'h) server_env \<Rightarrow> 'w turn \<Rightarrow> (config \<Rightarrow> mutate_error + 'r \<times> config) \<Rightarrow> 'h server \<Rightarrow> disk" where
  "disk_after sv tn m st = sv_disk (snd (persist sv tn m st))"

lemma finishers_disk [simp]:
  "sv_disk (snd (fail_msg tn peer a t m st)) = sv_disk st"
  "sv_disk (snd (allow tn peer a t resp st)) = sv_disk st"
  "sv_disk (snd (token_but_not_live tn peer a t out m st)) = sv_disk st"
  "sv_disk (snd (persisted_but_apply_failed tn peer a t n m st)) = sv_disk st"
  "sv_disk (snd (stopped_after_failed_repin tn peer t ss st)) = sv_disk st"
  by (simp_all add: fail_msg_def allow_def token_but_not_live_def persisted_but_apply_failed_def
      stopped_after_failed_repin_def emit_def Let_def)

lemma finishers_resp [simp]:
  "fst (fail_msg tn peer a t m st) = RError m"
  "fst (allow tn peer a t resp st) = resp"
  "\<exists>m'. fst (persisted_but_apply_failed tn peer a t n m st) = RError m'"
  "\<exists>m'. fst (stopped_after_failed_repin tn peer t ss st) = RError m'"
  by (simp_all add: fail_msg_def allow_def persisted_but_apply_failed_def stopped_after_failed_repin_def)

lemma simple_mutation_disk:
  "sv_disk (snd (simple_mutation sv tn peer a t m st)) = disk_after sv tn (\<lambda>c. unit_result (m c)) st"
  by (simp add: simple_mutation_def disk_after_def split: prod.splits sum.splits)

lemma handlers_disk:
  "sv_disk (snd (rm_bastion_req sv tn peer nm st)) = disk_after sv tn (\<lambda>c. unit_result (rm_bastion nm c)) st"
  "sv_disk (snd (set_fingerprint_req sv tn peer nm fp st)) =
     disk_after sv tn (\<lambda>c. unit_result (set_fingerprint nm fp c)) st"
  "sv_disk (snd (rotate_cred_req sv tn peer nm pw st)) =
     disk_after sv tn (\<lambda>c. unit_result (rotate_cred nm pw c)) st"
  "sv_disk (snd (add_env_req sv tn peer dto st)) =
     disk_after sv tn (add_env (sv_sha1 sv) (sv_sha256 sv) (tn_raw tn) (env_add_args_of dto)) st"
  "sv_disk (snd (rm_env_req sv tn peer nm st)) = disk_after sv tn (\<lambda>c. unit_result (rm_env nm c)) st"
  "sv_disk (snd (grant_req sv tn peer nm st)) =
     disk_after sv tn (grant_env (sv_sha1 sv) (sv_sha256 sv) (tn_raw tn) nm) st"
  "sv_disk (snd (import_req sv tn peer f st)) = disk_after sv tn (\<lambda>c. unit_result (merge_import c f)) st"
  using simple_mutation_disk [of sv tn peer "''rm_bastion''" nm "rm_bastion nm" st]
  by (auto simp: rm_bastion_req_def set_fingerprint_req_def rotate_cred_req_def add_env_req_def
      rm_env_req_def grant_req_def import_req_def disk_after_def Let_def
      split: prod.splits sum.splits option.splits)

lemma set_policy_disk:
  "sv_disk (snd (set_policy_req sv tn peer nm target confirm st)) =
     (if target = TargetReadWrite \<and> \<not> confirm then sv_disk st
      else disk_after sv tn (\<lambda>c. unit_result (set_policy nm target c)) st)"
  by (auto simp: set_policy_req_def disk_after_def emit_def split: prod.splits sum.splits option.splits)

lemma reads_disk [simp]:
  "sv_disk (snd (list_rows sv tn peer a rows st)) = sv_disk st"
  "sv_disk (snd (audit_tail tn peer n st)) = sv_disk st"
  "sv_disk (snd (probe_req sv tn peer on whole_set st)) = sv_disk st"
  by (simp_all add: list_rows_def audit_tail_def probe_req_def Let_def
      split: sum.splits audit_dir.splits option.splits prod.splits)

lemma disk_after_refines:
  assumes env: "state_env_ok (sv_state sv)" "turn_ok tn" and c: "loads (sv_state sv) (sv_disk st) c"
    and c': "loads (sv_state sv) (disk_after sv tn m st) c'"
  shows "c' = c \<or> accepted_out (m c) = Some c'"
proof -
  obtain q st1 where p: "persist sv tn m st = (q, st1)" by fastforce
  show ?thesis
    using persist_cases [OF env p] c c' p
    by (cases q) (auto simp: disk_after_def accepted_out_def)
qed

lemma accepted_out_unit [simp]: "accepted_out (unit_result r) = accepted r"
  by (simp add: accepted_out_def accepted_def unit_result_def split: sum.splits)

lemma unit_refines:
  assumes "state_env_ok (sv_state sv)" and "turn_ok tn" and "loads (sv_state sv) (sv_disk st) c"
    and "loads (sv_state sv) (disk_after sv tn (\<lambda>c. unit_result (m c)) st) c'"
  shows "c' = c \<or> accepted (m c) = Some c'"
  using disk_after_refines [OF assms] by simp

lemma dispatch_spec:
  assumes env: "state_env_ok (sv_state sv)" "turn_ok tn" and c: "loads (sv_state sv) (sv_disk st) c"
    and c': "loads (sv_state sv) (sv_disk (snd (dispatch sv tn peer req st))) c'"
  shows "c' = c \<or> spec_config sv tn req c = Some c'"
proof (cases req)
  case (AddEnv dto)
  then show ?thesis using disk_after_refines [OF env c] c' by (simp add: handlers_disk)
next
  case (GrantEnv nm)
  then show ?thesis using disk_after_refines [OF env c] c' by (simp add: handlers_disk)
next
  case (SetPolicy nm target confirm)
  then show ?thesis
    using unit_refines [OF env c] c c' by (auto simp: set_policy_disk split: if_splits)
qed (use unit_refines [OF env c] c c' in \<open>simp_all add: add_bastion_req_def simple_mutation_disk
      handlers_disk list_bastions_def list_creds_def list_envs_def\<close>)

text \<open>What tells the client that a change was made.\<close>

fun reported :: "response \<Rightarrow> bool" where
  "reported ROk = True"
| "reported (RToken d) = True"
| "reported _ = False"

lemma reported_failed [simp]:
  "\<not> reported (fst (persisted_but_apply_failed tn peer a t n m st))"
  "\<not> reported (fst (stopped_after_failed_repin tn peer t ss st))"
  by (simp_all add: persisted_but_apply_failed_def stopped_after_failed_repin_def fail_msg_def)

definition persisted ::
  "('w, 'h) server_env \<Rightarrow> 'w turn \<Rightarrow> (config \<Rightarrow> mutate_error + 'r \<times> config) \<Rightarrow> 'h server \<Rightarrow> bool" where
  "persisted sv tn m st \<longleftrightarrow> (\<exists>out. fst (persist sv tn m st) = Inr out)"

lemma simple_mutation_reported:
  "reported (fst (simple_mutation sv tn peer a t m st)) \<Longrightarrow> persisted sv tn (\<lambda>c. unit_result (m c)) st"
  by (auto simp: simple_mutation_def persisted_def split: prod.splits sum.splits)

lemma handlers_reported:
  "reported (fst (rm_bastion_req sv tn peer nm st)) \<Longrightarrow>
     persisted sv tn (\<lambda>c. unit_result (rm_bastion nm c)) st"
  "reported (fst (set_fingerprint_req sv tn peer nm fp st)) \<Longrightarrow>
     persisted sv tn (\<lambda>c. unit_result (set_fingerprint nm fp c)) st"
  "reported (fst (rotate_cred_req sv tn peer nm pw st)) \<Longrightarrow>
     persisted sv tn (\<lambda>c. unit_result (rotate_cred nm pw c)) st"
  "reported (fst (add_env_req sv tn peer dto st)) \<Longrightarrow>
     persisted sv tn (add_env (sv_sha1 sv) (sv_sha256 sv) (tn_raw tn) (env_add_args_of dto)) st"
  "reported (fst (rm_env_req sv tn peer nm st)) \<Longrightarrow> persisted sv tn (\<lambda>c. unit_result (rm_env nm c)) st"
  "reported (fst (grant_req sv tn peer nm st)) \<Longrightarrow>
     persisted sv tn (grant_env (sv_sha1 sv) (sv_sha256 sv) (tn_raw tn) nm) st"
  "reported (fst (set_policy_req sv tn peer nm target confirm st)) \<Longrightarrow>
     \<not> (target = TargetReadWrite \<and> \<not> confirm) \<and>
     persisted sv tn (\<lambda>c. unit_result (set_policy nm target c)) st"
  "reported (fst (import_req sv tn peer f st)) \<Longrightarrow>
     persisted sv tn (\<lambda>c. unit_result (merge_import c f)) st"
  using simple_mutation_reported [of sv tn peer "''rm_bastion''" nm "rm_bastion nm" st]
  by (auto simp: rm_bastion_req_def set_fingerprint_req_def rotate_cred_req_def add_env_req_def
      rm_env_req_def grant_req_def set_policy_req_def import_req_def persisted_def Let_def
      split: prod.splits sum.splits option.splits if_splits)

lemma reads_reported [simp]:
  "\<not> reported (fst (list_rows sv tn peer a rows st))"
  "\<not> reported (fst (audit_tail tn peer n st))"
  "\<not> reported (fst (probe_req sv tn peer on whole_set st))"
  by (simp_all add: list_rows_def audit_tail_def probe_req_def Let_def
      split: sum.splits audit_dir.splits option.splits prod.splits)

lemma persisted_refines:
  assumes env: "state_env_ok (sv_state sv)" "turn_ok tn" and c: "loads (sv_state sv) (sv_disk st) c"
    and p: "persisted sv tn m st"
  shows "\<exists>c'. loads (sv_state sv) (disk_after sv tn m st) c' \<and> accepted_out (m c) = Some c'"
proof -
  obtain out st1 where q: "persist sv tn m st = (Inr out, st1)"
    using p by (metis persisted_def prod.collapse)
  show ?thesis
    using persist_cases [OF env q] c q by (auto simp: disk_after_def accepted_out_def)
qed

lemma unit_persisted:
  assumes "state_env_ok (sv_state sv)" and "turn_ok tn" and "loads (sv_state sv) (sv_disk st) c"
    and "persisted sv tn (\<lambda>c. unit_result (m c)) st"
  shows "\<exists>c'. loads (sv_state sv) (disk_after sv tn (\<lambda>c. unit_result (m c)) st) c' \<and> accepted (m c) = Some c'"
  using persisted_refines [OF assms] by simp

lemma dispatch_reported:
  assumes env: "state_env_ok (sv_state sv)" "turn_ok tn" and c: "loads (sv_state sv) (sv_disk st) c"
    and r: "reported (fst (dispatch sv tn peer req st))"
  shows "\<exists>c'. loads (sv_state sv) (sv_disk (snd (dispatch sv tn peer req st))) c' \<and>
    spec_config sv tn req c = Some c'"
proof (cases req)
  case (AddEnv dto)
  then show ?thesis using persisted_refines [OF env c handlers_reported(4)] r by (simp add: handlers_disk)
next
  case (GrantEnv nm)
  then show ?thesis using persisted_refines [OF env c handlers_reported(6)] r by (simp add: handlers_disk)
next
  case (SetPolicy nm target confirm)
  then have "\<not> (target = TargetReadWrite \<and> \<not> confirm) \<and>
      persisted sv tn (\<lambda>c. unit_result (set_policy nm target c)) st"
    using r by (intro handlers_reported(7)) simp
  then show ?thesis
    using unit_persisted [OF env c, of "set_policy nm target"] SetPolicy
    by (auto simp: set_policy_disk)
qed (use r unit_persisted [OF env c handlers_reported(1)] unit_persisted [OF env c handlers_reported(2)]
      unit_persisted [OF env c handlers_reported(3)] unit_persisted [OF env c handlers_reported(5)]
      unit_persisted [OF env c handlers_reported(8)] unit_persisted [OF env c simple_mutation_reported]
    in \<open>simp_all add: add_bastion_req_def simple_mutation_disk handlers_disk list_bastions_def
      list_creds_def list_envs_def\<close>)


text \<open>The sample server grants a new token: its digest is constant, so the configuration is the same.\<close>

lemma demo_save:
  "\<exists>d'. save_config (turn_env demo_server demo_turn) no_fault demo_config sample_disk
     = (Inr () :: mutate_error state_error + unit, d')"
proof -
  have "se_keystore (turn_env demo_server demo_turn) = FileKeystore ''/k''"
    "se_seal (turn_env demo_server demo_turn) = demo_ops"
    by (simp_all add: turn_env_def demo_server_def sample_state_def)
  moreover have "sealed_path (turn_env demo_server demo_turn) = ''/s/config.sealed''"
    "backup_path (turn_env demo_server demo_turn) = ''/s/config.sealed.bak''"
    "tmp_path (turn_env demo_server demo_turn) = ''/s/config.sealed.tmp''"
    using sample_paths
    by (simp_all add: turn_env_def demo_server_def sealed_path_def backup_path_def tmp_path_def)
  then have "\<exists>fs'. run_ops no_fault 0 (save_ops (turn_env demo_server demo_turn) b (fs_files sample_disk))
      (fs_files sample_disk) = (Inr (), fs')" for b
    unfolding save_ops_def write_atomic_ops_def
    by (simp add: no_fault_def sample_disk_def Let_def)
  ultimately show ?thesis
    using demo_valid by (simp add: save_config_def sample_key demo_seal del: keystore_load.simps
        split: prod.splits sum.splits) (metis prod.inject sum.distinct(1) old.unit.exhaust)
qed

lemma demo_grant:
  "\<exists>out. grant_env (sv_sha1 demo_server) (sv_sha256 demo_server) (tn_raw demo_turn) ''dev'' demo_config
     = Inr (out, demo_config) \<and> out_engine out = MySql"
proof -
  let ?e = "daemon_env MySql (Some ''b'')"
  have "?e\<lparr>client_auth := client_auth_for (sv_sha1 demo_server) (sv_sha256 demo_server) MySql tok\<rparr> = ?e" for tok
    by (simp add: daemon_env_def demo_server_def double_sha1_def)
  moreover have "bt_insert ''dev'' ?e (envs demo_config) = envs demo_config"
    by (rule bt_ext) (simp add: demo_config_def daemon_config_def)
  ultimately show ?thesis
    using demo_env_entry by (simp add: grant_env_def Let_def) (simp add: daemon_env_def)
qed

lemma demo_grant_dispatch:
  "\<exists>d st'. dispatch demo_server demo_turn demo_peer (GrantEnv ''dev'') demo_started = (RToken d, st') \<and>
     dto_note d = None \<and> dto_engine d = MySql \<and> loads (sv_state demo_server) (sv_disk st') demo_config"
proof -
  obtain out where g: "grant_env (sv_sha1 demo_server) (sv_sha256 demo_server) (tn_raw demo_turn) ''dev''
      demo_config = Inr (out, demo_config)" "out_engine out = MySql" using demo_grant by blast
  obtain d' where s: "save_config (turn_env demo_server demo_turn) no_fault demo_config sample_disk
     = (Inr () :: mutate_error state_error + unit, d')" using demo_save by blast
  have "with_config (turn_env demo_server demo_turn) (tn_fault demo_turn)
      (grant_env (sv_sha1 demo_server) (sv_sha256 demo_server) (tn_raw demo_turn) ''dev'') sample_disk
      = (Inr out, d')"
    using demo_loads g(1) s by (simp add: with_config_def) (simp add: demo_turn_def)
  then have p: "persist demo_server demo_turn
      (grant_env (sv_sha1 demo_server) (sv_sha256 demo_server) (tn_raw demo_turn) ''dev'') demo_started
      = (Inr out, demo_started\<lparr>sv_disk := d'\<rparr>)"
    using demo_disk by (simp add: persist_def)
  have l: "loads (sv_state demo_server) d' demo_config"
    using save_then_load [OF state_env_ok_turn [OF demo_state_ok demo_turn_ok] s] by simp
  show ?thesis
    using p l demo_env_entry demo_live g(2)
    by (simp add: grant_req_def apply_swap_authz_def swap_runtime_def allow_def emit_def new_env_dto_def)
qed


section \<open>Write access\<close>

lemma accepted_Some: "accepted r = Some c \<longleftrightarrow> r = Inr c"
  by (auto simp: accepted_def split: sum.splits)

lemma accepted_out_Some: "accepted_out r = Some c \<longleftrightarrow> (\<exists>out. r = Inr (out, c))"
  by (auto simp: accepted_out_def split: sum.splits)

lemma spec_config_policy:
  assumes s: "spec_config sv tn req c = Some c'" and e: "bt_get (envs c) nm = Some e"
    and e': "bt_get (envs c') nm = Some e'"
  shows "env_policy e' = env_policy e \<or>
    (\<exists>target confirm. req = SetPolicy nm target confirm \<and> (target = TargetReadWrite \<longrightarrow> confirm))"
proof (cases req)
  case (AddEnv dto)
  then obtain out where "add_env (sv_sha1 sv) (sv_sha256 sv) (tn_raw tn) (env_add_args_of dto) c = Inr (out, c')"
    using s by (auto simp: accepted_out_Some)
  then show ?thesis by (rule add_env_cases) (use e e' in \<open>auto simp: bt_contains_def split: if_splits\<close>)
next
  case (Import f)
  then have m: "merge_import c f = Inr c'" using s by (simp add: accepted_Some)
  then have dis: "\<And>n. \<not> (bt_contains (envs c) n \<and> bt_contains (envs f) n)"
    using merge_import_ok_iff [of c f] by auto
  then have "bt_get (envs c') nm = Some e"
    using e merge_import_result [OF m] bt_get_extend_disjoint [OF dis] by simp
  then show ?thesis using e' by simp
next
  case (GrantEnv n)
  then show ?thesis
    using s e e' by (auto simp: accepted_out_Some grant_env_def Let_def split: option.splits if_splits)
next
  case (SetPolicy n target confirm)
  then show ?thesis
    using s e e' by (auto simp: accepted_Some set_policy_def split: option.splits if_splits)
qed (use s e e' in \<open>auto simp: accepted_Some add_bastion_def rm_bastion_def set_fingerprint_def
      add_cred_def rotate_cred_def rm_cred_def rm_env_def Let_def split: option.splits if_splits\<close>)

text \<open>
  C13 (write access needs confirmation). The policy of an environment in the sealed configuration only
  changes by a \<open>SetPolicy\<close> request for this environment, and to read-write only by one that
  carries the explicit confirmation; no other request, and no failure of one, changes it.
\<close>

theorem policy_changes_only_confirmed:
  assumes "state_env_ok (sv_state sv)" and "turn_ok tn" and "loads (sv_state sv) (sv_disk st) c"
    and "loads (sv_state sv) (sv_disk (snd (dispatch sv tn peer req st))) c'"
    and "bt_get (envs c) nm = Some e" and "bt_get (envs c') nm = Some e'"
    and "\<nexists>target confirm. req = SetPolicy nm target confirm \<and> \<not> (target = TargetReadWrite \<and> \<not> confirm)"
  shows "env_policy e' = env_policy e"
proof -
  have "c' = c \<or> spec_config sv tn req c = Some c'" by (rule dispatch_spec [OF assms(1-4)])
  then show ?thesis using spec_config_policy assms(5-7) by fastforce
qed

theorem policy_changes_only_confirmed_witness:
  "env_policy (daemon_env MySql (Some ''b'')) = ReadOnly \<and>
   loads (sv_state demo_server) (sv_disk (snd (dispatch demo_server demo_turn demo_peer
     (SetPolicy ''dev'' TargetReadWrite False) demo_started))) demo_config"
proof -
  let ?req = "SetPolicy ''dev'' TargetReadWrite False"
  have l: "loads (sv_state demo_server) (sv_disk demo_started) demo_config"
    using demo_loads demo_disk by simp
  moreover have "sv_disk (snd (dispatch demo_server demo_turn demo_peer ?req demo_started)) = sv_disk demo_started"
    by (simp add: set_policy_disk)
  ultimately have l': "loads (sv_state demo_server)
      (sv_disk (snd (dispatch demo_server demo_turn demo_peer ?req demo_started))) demo_config" by simp
  have "env_policy (daemon_env MySql (Some ''b'')) = env_policy (daemon_env MySql (Some ''b''))"
    by (rule policy_changes_only_confirmed [OF demo_state_ok demo_turn_ok l l' demo_env_entry demo_env_entry]) auto
  then show ?thesis using l' by (simp add: daemon_env_def)
qed

section \<open>Tokens\<close>

lemma grant_env_entry:
  "grant_env sha1 sha256 raw nm c = Inr (out, c') \<Longrightarrow>
   \<exists>e. bt_get (envs c') nm = Some e \<and> engine e = out_engine out \<and>
     client_auth e = client_auth_for sha1 sha256 (out_engine out) (out_token out)"
  by (auto simp: grant_env_def Let_def split: option.splits)

lemma add_env_entry:
  "add_env sha1 sha256 raw args c = Inr (out, c') \<Longrightarrow>
   \<exists>e. bt_get (envs c') (ea_name args) = Some e \<and> engine e = out_engine out \<and>
     client_auth e = client_auth_for sha1 sha256 (out_engine out) (out_token out)"
  by (erule add_env_cases) (simp add: new_env_def)

lemma apply_add_env_live:
  "apply_add_env net c e nm dm w = (Inr u, dm', w') \<Longrightarrow> live dm' nm \<noteq> None"
  by (auto simp: apply_add_env_def split: sum.splits prod.splits)

lemma token_responses [simp]:
  "fail_msg tn peer a t m st \<noteq> (RToken d, st')"
  "allow tn peer a t (RToken d0) st = (RToken d, st') \<longleftrightarrow>
     d0 = d \<and> st' = emit (admin_event_of tn peer a t AuditAllow None) st"
  "token_but_not_live tn peer a t out m st = (RToken d, st') \<Longrightarrow> dto_note d \<noteq> None"
  by (auto simp: fail_msg_def allow_def token_but_not_live_def Let_def)

lemma grant_token_live:
  assumes r: "ready sv tn st" and g: "grant_req sv tn peer nm st = (RToken d, st')" and n: "dto_note d = None"
  shows "\<exists>c' e hdl. loads (sv_state sv) (sv_disk st') c' \<and> bt_get (envs c') nm = Some e \<and>
    live (sv_daemon st') nm = Some hdl \<and> engine e = dto_engine d \<and>
    client_auth e = client_auth_for (sv_sha1 sv) (sv_sha256 sv) (dto_engine d) (dto_token d)"
proof -
  let ?m = "grant_env (sv_sha1 sv) (sv_sha256 sv) (tn_raw tn) nm"
  obtain q st1 where p: "persist sv tn ?m st = (q, st1)" by fastforce
  then obtain out where q: "q = Inr out" using g by (cases q) (auto simp: grant_req_def)
  obtain c c' where c: "?m c = Inr (out, c')" "loads (sv_state sv) (sv_disk st1) c'"
    "sv_daemon st1 = sv_daemon st"
    using persist_done [OF r p [unfolded q]] by blast
  obtain e where e: "bt_get (envs c') nm = Some e" "engine e = out_engine out"
    "client_auth e = client_auth_for (sv_sha1 sv) (sv_sha256 sv) (out_engine out) (out_token out)"
    using grant_env_entry [OF c(1)] by blast
  obtain a dm where a: "apply_swap_authz nm (client_auth e) (sv_daemon st) = (a, dm)" by fastforce
  obtain u where u: "a = Inr u"
    using g n p q c e a by (cases a) (auto simp: grant_req_def dest: token_responses(3))
  have "\<exists>hdl. live dm nm = Some hdl"
    using a u by (auto simp: apply_swap_authz_def swap_runtime_def publish_def split: option.splits)
  moreover have "d = new_env_dto out" "sv_daemon st' = dm" "sv_disk st' = sv_disk st1"
    using g p q c e a u by (auto simp: grant_req_def emit_def)
  ultimately show ?thesis using c(2) e by (auto simp: new_env_dto_def)
qed

lemma add_token_live:
  assumes r: "ready sv tn st" and g: "add_env_req sv tn peer dto st = (RToken d, st')" and n: "dto_note d = None"
  shows "\<exists>c' e hdl. loads (sv_state sv) (sv_disk st') c' \<and> bt_get (envs c') (ei_name dto) = Some e \<and>
    live (sv_daemon st') (ei_name dto) = Some hdl \<and> engine e = dto_engine d \<and>
    client_auth e = client_auth_for (sv_sha1 sv) (sv_sha256 sv) (dto_engine d) (dto_token d)"
proof -
  let ?m = "add_env (sv_sha1 sv) (sv_sha256 sv) (tn_raw tn) (env_add_args_of dto)"
  obtain q st1 where p: "persist sv tn ?m st = (q, st1)" by fastforce
  then obtain out where q: "q = Inr out" using g by (cases q) (auto simp: add_env_req_def)
  obtain c c' where c: "?m c = Inr (out, c')" "loads (sv_state sv) (sv_disk st1) c'"
    "sv_daemon st1 = sv_daemon st"
    using persist_done [OF r p [unfolded q]] by blast
  obtain e where e: "bt_get (envs c') (ei_name dto) = Some e" "engine e = out_engine out"
    "client_auth e = client_auth_for (sv_sha1 sv) (sv_sha256 sv) (out_engine out) (out_token out)"
    using add_env_entry [OF c(1)] by (auto simp: env_add_args_of_def)
  obtain a dm w where a: "apply_add_env (sv_net sv) c' e (ei_name dto) (sv_daemon st) (tn_world tn) = (a, dm, w)"
    by (rule prod_cases3)
  obtain u where u: "a = Inr u"
    using g n p q c e a by (cases a) (auto simp: add_env_req_def dest: token_responses(3))
  have "\<exists>hdl. live dm (ei_name dto) = Some hdl" using apply_add_env_live [OF a [unfolded u]] by auto
  moreover have "d = new_env_dto out" "sv_daemon st' = dm" "sv_disk st' = sv_disk st1"
    using g p q c e a u by (auto simp: add_env_req_def emit_def)
  ultimately show ?thesis using c(2) e by (auto simp: new_env_dto_def)
qed

text \<open>
  C12 (a token without reservation is live). When the daemon hands out a token, of a new environment or
  of a grant, without the note that a restart is needed, the environment is being served and the
  verifier new connections meet is the one of this token for its engine; so a granted token has replaced
  the old one by the time the operator reads it.
\<close>

theorem clean_token_is_live:
  assumes "served sv st" and "state_env_ok (sv_state sv)" and "turn_ok tn"
    and "dispatch sv tn peer req st = (RToken d, st')" and "dto_note d = None"
    and "req = GrantEnv nm \<or> (\<exists>dto. req = AddEnv dto \<and> ei_name dto = nm)"
  shows "\<exists>hdl. live (sv_daemon st') nm = Some hdl \<and> rt_engine (current hdl) = engine_for (dto_engine d) \<and>
    rt_client_auth (current hdl) = client_auth_for (sv_sha1 sv) (sv_sha256 sv) (dto_engine d) (dto_token d)"
proof -
  have r: "ready sv tn st" using assms(1-3) served_ok by (simp add: ready_def)
  have "\<exists>c' e hdl. loads (sv_state sv) (sv_disk st') c' \<and> bt_get (envs c') nm = Some e \<and>
      live (sv_daemon st') nm = Some hdl \<and> engine e = dto_engine d \<and>
      client_auth e = client_auth_for (sv_sha1 sv) (sv_sha256 sv) (dto_engine d) (dto_token d)"
    using assms(4-6) grant_token_live [OF r] add_token_live [OF r] by auto
  then obtain c' e hdl where c': "loads (sv_state sv) (sv_disk st') c'" "bt_get (envs c') nm = Some e"
    "live (sv_daemon st') nm = Some hdl" "engine e = dto_engine d"
    "client_auth e = client_auth_for (sv_sha1 sv) (sv_sha256 sv) (dto_engine d) (dto_token d)" by blast
  have "served sv (server_step sv (Requested tn peer req) st)"
    using assms(1,3) by (intro served.step) (simp_all add: event_ok_def)
  then have s': "served sv st'" using assms(4) by simp
  obtain e' where "bt_get (envs c') nm = Some e'"
    "runtime_matches (allow_tofu (sv_daemon st')) (listen_host (sv_daemon st')) c' nm e' (current hdl)"
    using served_live [OF s' assms(2) c'(1,3)] by blast
  then show ?thesis using c' by (auto simp: runtime_matches_def)
qed

theorem clean_token_is_live_witness:
  "\<exists>d st' hdl. dispatch demo_server demo_turn demo_peer (GrantEnv ''dev'') demo_started = (RToken d, st') \<and>
     live (sv_daemon st') ''dev'' = Some hdl \<and>
     rt_client_auth (current hdl) = client_auth_for (\<lambda>b. replicate 20 0) (\<lambda>b. b) MySql (dto_token d)"
proof -
  obtain d st' where d: "dispatch demo_server demo_turn demo_peer (GrantEnv ''dev'') demo_started = (RToken d, st')"
    "dto_note d = None" "dto_engine d = MySql" using demo_grant_dispatch by blast
  obtain hdl where "live (sv_daemon st') ''dev'' = Some hdl"
    "rt_client_auth (current hdl) = client_auth_for (sv_sha1 demo_server) (sv_sha256 demo_server) (dto_engine d) (dto_token d)"
    using clean_token_is_live [OF demo_served demo_state_ok demo_turn_ok d(1,2), of "''dev''"] by auto
  then show ?thesis using d by (auto simp: demo_server_def)
qed

section \<open>A rotation that stops half way\<close>

text \<open>
  Rotation stops at an environment that is not live. When the first environment that uses a rotated
  credential is not being served, because its engine is skipped or a re-pin stopped it, the rebuild loop
  ends there with an error: no environment after it is rebuilt, and every live one keeps dialling with
  the old password. The re-pin loop, in the same situation, skips it.
\<close>

theorem rotation_stops_at_dead_env:
  assumes "bt_get (envs c) nm = Some e" and "live dm nm = None"
  shows "\<exists>err dm' w'. rebuild_each sv c (nm # rest) dm w = (Some (nm, err), dm', w') \<and>
    live dm' = live dm \<and> repin_each sv c (nm # rest) dm w = repin_each sv c rest dm w"
proof -
  obtain q reg w' where q: "build_env_runtime (sv_net sv) (listen_host dm) (allow_tofu dm) nm e c
      (bastion_registry dm) w = (q, reg, w')" by (rule prod_cases3)
  show ?thesis
    using assms q by (cases q) (auto simp: apply_rebuild_backend_def has_env_def)
qed

theorem rotation_stops_at_dead_env_witness:
  "\<exists>err dm' w'. rebuild_each demo_server demo_config [''dev'', ''other''] (shutdown (sv_daemon demo_started)) ()
     = (Some (''dev'', err), dm', w')"
proof -
  have "live (shutdown (sv_daemon demo_started)) ''dev'' = None" by (simp add: shutdown_def)
  from rotation_stops_at_dead_env [OF demo_env_entry this, of demo_server "[''other'']" "()"] show ?thesis by blast
qed

end
