(* ===== verification/Cli_Plane.thy ===== *)
theory Cli_Plane
  imports Cli Control_Plane
begin

text \<open>
  What the administration commands do, seen from outside: over the channel and on the sealed file they
  change the configuration alike, the file of a running service is left alone, and what \<open>--url\<close>
  leaves behind when it fails.
\<close>

section \<open>The same change either way\<close>

text \<open>The channel of a command leads to the handlers: what \<open>channel_call_is_dispatch\<close> gives
  for a recognised peer and responses within the limit.\<close>

definition answered :: "('w, 'h) cli_env \<Rightarrow> peer_identity \<Rightarrow> bool" where
  "answered ce peer \<longleftrightarrow>
     ce_call ce = (\<lambda>k req st. let (resp, st') = dispatch (ce_server ce) (ce_turn ce k) peer req st
                              in (finish (Inr resp), st'))"

abbreviation cli_state :: "'h cli_result \<Rightarrow> 'h server" where
  "cli_state r \<equiv> snd (snd r)"

lemma disk_after_cong:
  "sv_disk st = sv_disk st' \<Longrightarrow> disk_after sv tn m st = disk_after sv tn m st'"
  "sv_disk st = sv_disk st' \<Longrightarrow> persisted sv tn m st \<longleftrightarrow> persisted sv tn m st'"
  by (simp_all add: disk_after_def persisted_def persist_def split: prod.splits)

lemma call_state:
  "answered ce peer \<Longrightarrow>
   snd (expect_response ce k req complaint pick st) = snd (dispatch (ce_server ce) (ce_turn ce k) peer req st)"
  by (simp add: answered_def expect_response_def Let_def split: prod.splits)

lemma expect_ok_state:
  "answered ce peer \<Longrightarrow> snd (expect_ok ce k req st) = snd (dispatch (ce_server ce) (ce_turn ce k) peer req st)"
  by (simp add: expect_ok_def call_state)

lemma expect_token_state:
  "answered ce peer \<Longrightarrow> snd (expect_token ce k req st) = snd (dispatch (ce_server ce) (ce_turn ce k) peer req st)"
  by (simp add: expect_token_def call_state)

lemma expect_ok_done:
  assumes "answered ce peer"
  shows "(\<exists>u. fst (expect_ok ce k req st) = Inr u) \<longleftrightarrow>
    fst (dispatch (ce_server ce) (ce_turn ce k) peer req st) = ROk"
proof -
  obtain resp st' where d: "dispatch (ce_server ce) (ce_turn ce k) peer req st = (resp, st')" by fastforce
  show ?thesis
    using assms by (cases resp) (simp_all add: answered_def expect_ok_def expect_response_def d finish_def checked_def)
qed

lemma direct_disk: "sv_disk (snd (direct ce k m st)) = disk_after (ce_server ce) (ce_turn ce k) m st"
  by (simp add: direct_def disk_after_def split: prod.splits sum.splits)

lemma direct_done: "(\<exists>r. fst (direct ce k m st) = Inr r) \<longleftrightarrow> persisted (ce_server ce) (ce_turn ce k) m st"
  by (auto simp: direct_def persisted_def split: prod.splits sum.splits)

lemma change_disk:
  assumes "answered ce peer"
    and "sv_disk (snd (dispatch (ce_server ce) (ce_turn ce k) peer req st)) =
      disk_after (ce_server ce) (ce_turn ce k) (\<lambda>c. unit_result (m c)) st"
  shows "sv_disk (snd (change ce ch k req m st)) = disk_after (ce_server ce) (ce_turn ce k) (\<lambda>c. unit_result (m c)) st"
  using assms by (simp add: change_def expect_ok_state direct_disk)

lemma minted_disk:
  assumes "answered ce peer"
    and "sv_disk (snd (dispatch (ce_server ce) (ce_turn ce k) peer req st)) =
      disk_after (ce_server ce) (ce_turn ce k) m st"
  shows "sv_disk (snd (minted ce ch k req m st)) = disk_after (ce_server ce) (ce_turn ce k) m st"
proof (cases ch)
  case False
  have "snd (minted ce False k req m st) = snd (direct ce k m st)"
    by (simp add: minted_def split: prod.splits sum.splits)
  then show ?thesis using False direct_disk by metis
qed (use assms in \<open>simp add: minted_def expect_token_state\<close>)

lemma quiet_state [simp]: "cli_state (quiet r) = snd r"
  by (simp add: quiet_def)

lemma print_token_state [simp]: "cli_state (print_token r) = snd r"
  by (simp add: print_token_def split: sum.splits)

lemma read_calls:
  assumes "answered ce peer"
  shows "sv_disk (snd (expect_response ce k (Probe on whole_set) complaint pick st)) = sv_disk st"
    and "sv_disk (snd (expect_response ce k (AuditTail n) complaint pick st)) = sv_disk st"
    and "sv_disk (snd (expect_rows ce k ListBastions st)) = sv_disk st"
    and "sv_disk (snd (expect_rows ce k ListCreds st)) = sv_disk st"
    and "sv_disk (snd (expect_rows ce k ListEnvs st)) = sv_disk st"
  using assms by (simp_all add: call_state expect_rows_def list_bastions_def list_creds_def list_envs_def)

lemma validate_disk:
  assumes "answered ce peer"
  shows "sv_disk (snd (validate_after_add ce ch k nm st)) = sv_disk st"
proof (cases ch)
  case True
  obtain r st' where c: "expect_response ce k (Probe (Some nm) False) UNEXPECTED
      (\<lambda>r. case r of RProbeResults rs \<Rightarrow> Some rs | _ \<Rightarrow> None) st = (r, st')" by fastforce
  have "sv_disk st' = sv_disk st" using read_calls(1) [OF assms] c by (metis snd_conv)
  then show ?thesis using True c by (auto simp: validate_after_add_def Let_def split: sum.splits)
qed (simp add: validate_after_add_def Let_def split: validation.splits)

lemma add_env_disk:
  assumes "answered ce peer"
  shows "sv_disk (cli_state (add_env_and_check ce ch k inp nv st)) =
    disk_after (ce_server ce) (ce_turn ce k)
      (add_env (sv_sha1 (ce_server ce)) (sv_sha256 (ce_server ce)) (tn_raw (ce_turn ce k))
         (env_add_args_of (env_dto inp))) st"
proof -
  let ?m = "add_env (sv_sha1 (ce_server ce)) (sv_sha256 (ce_server ce)) (tn_raw (ce_turn ce k))
      (env_add_args_of (env_dto inp))"
  obtain r st' where m: "minted ce ch k (AddEnv (env_dto inp)) ?m st = (r, st')" by fastforce
  have d: "sv_disk st' = disk_after (ce_server ce) (ce_turn ce k) ?m st"
    using minted_disk [OF assms, of k "AddEnv (env_dto inp)" st ?m ch] m by (simp add: handlers_disk)
  obtain r' st'' where v: "validate_after_add ce ch (Suc k) (en_name inp) st' = (r', st'')" by fastforce
  have "sv_disk st'' = sv_disk st'" using validate_disk [OF assms] v by (metis snd_conv)
  then show ?thesis using d m v by (simp add: add_env_and_check_def split: sum.splits)
qed

lemma change_cred_done:
  assumes "answered ce peer"
  shows "(\<exists>u. fst (change ce ch k (add_cred_request nm user pw) (add_cred nm user pw) st) = Inr u) \<longleftrightarrow>
    persisted (ce_server ce) (ce_turn ce k) (\<lambda>c. unit_result (add_cred nm user pw c)) st"
proof (cases ch)
  case True
  have "fst (simple_mutation sv tn peer a t m st) = ROk \<longleftrightarrow> persisted sv tn (\<lambda>c. unit_result (m c)) st"
    for sv :: "('a, 'b) server_env" and tn a t m
    by (auto simp: simple_mutation_def persisted_def split: prod.splits sum.splits)
  then show ?thesis using True expect_ok_done [OF assms]
    by (simp add: change_def add_cred_request_def)
qed (use direct_done [of ce k "\<lambda>c. unit_result (add_cred nm user pw c)" st] in \<open>simp add: change_def\<close>)

lemma change_cred_disk:
  "answered ce peer \<Longrightarrow> sv_disk (snd (change ce ch k (add_cred_request nm user pw) (add_cred nm user pw) st)) =
     disk_after (ce_server ce) (ce_turn ce k) (\<lambda>c. unit_result (add_cred nm user pw c)) st"
  by (rule change_disk) (simp_all add: add_cred_request_def simple_mutation_disk)

lemma env_add_url_disk:
  assumes "answered ce peer"
  shows "sv_disk (cli_state (cli_env_add_url ce True a nv st)) = sv_disk (cli_state (cli_env_add_url ce False a nv st))"
proof (cases "parse_connection_url (ce_parse_url ce) (ce_percent_decode ce) (ua_url a)")
  case (Inr p)
  show ?thesis
  proof (cases "case pu_password p of Some pw \<Rightarrow> Inr pw
      | None \<Rightarrow> fst (read_secret (ua_password_stdin a) (ce_terminal ce))")
    case (Inr pw)
    let ?c = "\<lambda>ch. change ce ch 0 (add_cred_request (ua_name a) (pu_db_user p) pw) (add_cred (ua_name a) (pu_db_user p) pw) st"
    obtain r1 st1 where c1: "?c True = (r1, st1)" by fastforce
    obtain r2 st2 where c2: "?c False = (r2, st2)" by fastforce
    have d: "sv_disk st1 = sv_disk st2" using change_cred_disk [OF assms] c1 c2 by (metis snd_conv)
    have r: "(\<exists>u. r1 = Inr u) \<longleftrightarrow> (\<exists>u. r2 = Inr u)" using change_cred_done [OF assms] c1 c2 by (metis fst_conv)
    show ?thesis
      using r d c1 c2 add_env_disk [OF assms] disk_after_cong(1) [OF d] Inr
        \<open>parse_connection_url (ce_parse_url ce) (ce_percent_decode ce) (ua_url a) = Inr p\<close>
      by (cases r1; cases r2) (auto simp: cli_env_add_url_def add_credential_for_url_def)
  qed (simp add: cli_env_add_url_def add_credential_for_url_def Inr)
qed (simp add: cli_env_add_url_def)

lemma listing_disk:
  "answered ce peer \<Longrightarrow> req \<in> {ListBastions, ListCreds, ListEnvs} \<Longrightarrow>
   sv_disk (cli_state (listing ce ch req rows st)) = sv_disk st"
  using read_calls(3-5) [of ce peer 0 st] by (auto simp: listing_def Let_def split: prod.splits sum.splits)

lemma cli_env_test_disk:
  assumes "answered ce peer"
  shows "sv_disk (cli_state (cli_env_test ce ch on whole_set st)) = sv_disk st"
proof -
  obtain r st' where c: "expect_response ce 0 (Probe on whole_set) UNEXPECTED
      (\<lambda>r. case r of RProbeResults rs \<Rightarrow> Some rs | _ \<Rightarrow> None) st = (r, st')" by fastforce
  have "sv_disk st' = sv_disk st" using read_calls(1) [OF assms] c by (metis snd_conv)
  then show ?thesis using c by (auto simp: cli_env_test_def split: sum.splits validation.splits)
qed

lemma cli_audit_tail_disk:
  assumes "answered ce peer"
  shows "sv_disk (cli_state (cli_audit_tail ce ch n st)) = sv_disk st"
proof -
  obtain r st' where c: "expect_response ce 0 (AuditTail n) UNEXPECTED
      (\<lambda>r. case r of RAuditLines v \<Rightarrow> Some v | _ \<Rightarrow> None) st = (r, st')" by fastforce
  have "sv_disk st' = sv_disk st" using read_calls(2) [OF assms] c by (metis snd_conv)
  then show ?thesis using c by (auto simp: cli_audit_tail_def Let_def split: sum.splits)
qed

lemma cli_policy_disk:
  assumes "answered ce peer"
  shows "sv_disk (cli_state (cli_policy ce True nm ro rw confirm st)) =
    sv_disk (cli_state (cli_policy ce False nm ro rw confirm st))"
  using assms
  by (simp add: cli_policy_def expect_ok_state set_policy_disk direct_disk split: option.splits)


definition demo_terminal :: terminal where
  "demo_terminal = \<lparr>tm_is_terminal = False, tm_lines = [], tm_piped = Inr [],
     tm_file = (\<lambda>p. Inl ''no file'')\<rparr>"

definition demo_cli :: "(unit, unit) cli_env" where
  "demo_cli =
     \<lparr>ce_server = demo_server,
      ce_call = (\<lambda>k req st. let (resp, st') = dispatch demo_server demo_turn demo_peer req st
                            in (finish (Inr resp), st')),
      ce_turn = (\<lambda>k. demo_turn), ce_terminal = demo_terminal,
      ce_call_text = (\<lambda>e. ''exchange''), ce_show = (\<lambda>r. ''response''),
      ce_parse_url = (\<lambda>u. Inr \<lparr>url_scheme = ''mysql'', url_host = Some ''db'', url_port = None,
        url_username = ''app'', url_password = Some ''pw'', url_path = []\<rparr>),
      ce_percent_decode = id, ce_url_text = (\<lambda>e. ''url''), ce_fingerprint_text = (\<lambda>e. ''fingerprint''),
      ce_daemon_path = Inr ''/usr/bin/mwsqld'', ce_exists = (\<lambda>p. False),
      ce_launch = (\<lambda>st p args. Inl ''not started''), ce_import = demo_io, ce_import_text = (\<lambda>e. ''import'')\<rparr>"

lemma demo_answered: "answered demo_cli demo_peer"
  by (simp add: answered_def demo_cli_def)


section \<open>The file of a running service\<close>

text \<open>
  The file of a running service is left alone. A command that would change the configuration by
  editing the file is refused, and changes nothing, while a daemon answers for that state directory,
  unless it is run with the per-user flag.
\<close>

theorem running_service_not_edited:
  assumes "cmd_is_mutation cmd" and "\<not> cf_user fl"
    and "resolve_cli_target te (cf_state_dir fl) (cf_user fl) (cf_file_keystore fl) = (dir, ks)"
    and "decide_mode (cf_user fl) (cf_offline fl) (cf_state_dir fl) dir (system_dir te) = Direct"
    and "reach dir"
  shows "\<exists>m. run_cli te privileged reach ce fl cmd st = ([], Inl m, st)"
  using assms by (auto simp: run_cli_def cli_route_of_def direct_mutation_ok_def Let_def)

definition demo_target :: target_env where
  "demo_target = \<lparr>system_dir = ''/var/lib/middlewhere'', legacy_dir = ''/home/u/.middlewhere'',
     path_exists = (\<lambda>p. False)\<rparr>"

theorem running_service_not_edited_witness:
  "\<exists>m. run_cli demo_target True (\<lambda>d. True) demo_cli
     \<lparr>cf_state_dir = Some ''/var/lib/middlewhere'', cf_user = False, cf_file_keystore = False, cf_offline = True\<rparr>
     (CredRm ''c'') demo_started = ([], Inl m, demo_started)"
proof -
  have "resolve_cli_target demo_target (Some ''/var/lib/middlewhere'') False False =
      (''/var/lib/middlewhere'', default_file ''/var/lib/middlewhere'')"
    by (simp add: resolve_cli_target_def resolve_target_def Let_def)
  then show ?thesis
    using running_service_not_edited [of "CredRm ''c''"
        "\<lparr>cf_state_dir = Some ''/var/lib/middlewhere'', cf_user = False, cf_file_keystore = False, cf_offline = True\<rparr>"
        demo_target "''/var/lib/middlewhere''" "default_file ''/var/lib/middlewhere''" "\<lambda>d. True" True demo_cli
        demo_started]
    by (simp add: decide_mode_def Let_def)
qed

text \<open>
  The per-user flag lets it through. With the per-user flag and the system directory named
  explicitly, a change is made to the file of the running service: the guard takes the flag for the
  per-user directory, whatever directory was resolved.
\<close>

theorem user_flag_bypasses_guard:
  assumes "cf_user fl" and "\<not> cf_offline fl" and "cf_state_dir fl = Some (system_dir te)"
  shows "\<exists>ks. cli_route_of te privileged reach fl cmd = Go False (system_dir te, ks)"
  using assms
  by (simp add: cli_route_of_def resolve_cli_target_def resolve_target_def offline_privilege_ok_def
      decide_mode_def direct_mutation_ok_def Let_def)

theorem user_flag_bypasses_guard_witness:
  "\<exists>ks. cli_route_of demo_target True (\<lambda>d. True)
     \<lparr>cf_state_dir = Some ''/var/lib/middlewhere'', cf_user = True, cf_file_keystore = True, cf_offline = False\<rparr>
     (CredRm ''c'') = Go False (''/var/lib/middlewhere'', ks)"
  using user_flag_bypasses_guard [of
      "\<lparr>cf_state_dir = Some ''/var/lib/middlewhere'', cf_user = True, cf_file_keystore = True, cf_offline = False\<rparr>"
      demo_target True "\<lambda>d. True" "CredRm ''c''"]
  by (simp add: demo_target_def)

section \<open>What a failed \<open>--url\<close> leaves\<close>

text \<open>
  \<open>env add --url\<close> cannot be repeated. The command stores the credential, under the name of
  the environment, before the environment; once such a credential is stored the command is refused, with
  any URL. So when the environment was refused (a taken port, a missing bastion) the corrected command
  fails too, until the credential is removed by hand.
\<close>

theorem url_add_not_repeatable:
  assumes "loads (sv_state (ce_server ce)) (sv_disk st) c" and "bt_contains (credentials c) (ua_name a)"
    and "parse_connection_url (ce_parse_url ce) (ce_percent_decode ce) (ua_url a) = Inr p"
    and "pu_password p = Some pw"
  shows "\<exists>m. cli_env_add_url ce False a nv st = ([], Inl m, st)"
proof -
  have "with_config (turn_env (ce_server ce) (ce_turn ce 0)) (tn_fault (ce_turn ce 0))
      (\<lambda>c. unit_result (add_cred (ua_name a) (pu_db_user p) pw c)) (sv_disk st) =
      (Inl (MutateFailed (CredentialExists (ua_name a))), sv_disk st)"
    using assms(1,2) by (simp add: with_config_def add_cred_def unit_result_def)
  then have "direct ce 0 (\<lambda>c. unit_result (add_cred (ua_name a) (pu_db_user p) pw c)) st =
      (Inl (sv_state_text (ce_server ce) (MutateFailed (CredentialExists (ua_name a)))), st)"
    by (simp add: direct_def persist_def)
  then show ?thesis
    using assms(3,4) by (simp add: cli_env_add_url_def add_credential_for_url_def change_def)
qed

theorem url_add_not_repeatable_witness:
  "\<exists>m. cli_env_add_url demo_cli False \<lparr>ua_name = ''c'', ua_url = ''mysql://app:pw@db'', ua_backend_port = None,
      ua_database = None, ua_bastion = None, ua_policy = ReadOnly, ua_listen_port = None, ua_max_pool = None,
      ua_password_stdin = False\<rparr> True
      demo_started = ([], Inl m, demo_started)"
proof -
  have l: "loads (sv_state (ce_server demo_cli)) (sv_disk demo_started) demo_config"
    using demo_loads demo_disk by (simp add: demo_cli_def)
  have p: "parse_connection_url (ce_parse_url demo_cli) (ce_percent_decode demo_cli) ''mysql://app:pw@db'' =
      Inr \<lparr>pu_engine = MySql, pu_host = ''db'', pu_port = None, pu_database = None, pu_db_user = ''app'',
           pu_password = Some ''pw''\<rparr>"
    by (simp add: parse_connection_url_def url_engine_def demo_cli_def)
  have c: "bt_contains (credentials demo_config) ''c''"
    by (simp add: demo_config_def daemon_config_def bt_contains_def)
  show ?thesis
    using url_add_not_repeatable [OF l, of "\<lparr>ua_name = ''c'', ua_url = ''mysql://app:pw@db'', ua_backend_port = None,
      ua_database = None, ua_bastion = None, ua_policy = ReadOnly, ua_listen_port = None, ua_max_pool = None,
      ua_password_stdin = False\<rparr>"] c p
    by simp
qed

end
