(* ===== verification/Wizard.thy ===== *)
theory Wizard
  imports Cli_Plane Service
begin

text \<open>
  \<open>crates/mwsqlctl/src/wizard.rs\<close>: the guided configuration, over the control channel or on the
  sealed file. The dialogue is the lines the operator is going to type; the tokens the wizard shows are
  recorded, what else it prints is left out. A loop of the wizard may ask for ever, so that it ends with
  the input is a theorem, not part of the definition.
\<close>

section \<open>Steps\<close>

record 'h wizard =
  wz_term :: terminal
  wz_calls :: nat
  wz_server :: "'h server"
  wz_shown :: "(name \<times> new_env_output_dto) list"

text \<open>\<open>None\<close>: the step does not end.\<close>

type_synonym ('h, 'a) wizard_step = "'h wizard \<Rightarrow> ((string + 'a) \<times> 'h wizard) option"

definition wz_return :: "'a \<Rightarrow> ('h, 'a) wizard_step" where
  "wz_return x s = Some (Inr x, s)"

definition wz_fail :: "string \<Rightarrow> ('h, 'a) wizard_step" where
  "wz_fail e s = Some (Inl e, s)"

definition wz_bind :: "('h, 'a) wizard_step \<Rightarrow> ('a \<Rightarrow> ('h, 'b) wizard_step) \<Rightarrow> ('h, 'b) wizard_step" where
  "wz_bind m f s =
     (case m s of
        None \<Rightarrow> None
      | Some (Inl e, s') \<Rightarrow> Some (Inl e, s')
      | Some (Inr x, s') \<Rightarrow> f x s')"

text \<open>A step whose error is handled where it is called.\<close>

definition wz_attempt :: "('h, 'a) wizard_step \<Rightarrow> ('h, string + 'a) wizard_step" where
  "wz_attempt m s = (case m s of None \<Rightarrow> None | Some (r, s') \<Rightarrow> Some (Inr r, s'))"

definition wz_ask :: "'a prompt \<Rightarrow> ('h, 'a) wizard_step" where
  "wz_ask p s = (case p (wz_term s) of (r, tm) \<Rightarrow> Some (r, s\<lparr>wz_term := tm\<rparr>))"

definition wz_call :: "(nat \<Rightarrow> 'h server \<Rightarrow> (string + 'a) \<times> 'h server) \<Rightarrow> ('h, 'a) wizard_step" where
  "wz_call f s =
     (case f (wz_calls s) (wz_server s) of
        (r, st) \<Rightarrow> Some (r, s\<lparr>wz_server := st, wz_calls := Suc (wz_calls s)\<rparr>))"

definition wz_show :: "name \<Rightarrow> new_env_output_dto \<Rightarrow> ('h, unit) wizard_step" where
  "wz_show nm out s = Some (Inr (), s\<lparr>wz_shown := wz_shown s @ [(nm, out)]\<rparr>)"

section \<open>The two backends\<close>

definition expect_any :: "('w, 'h) cli_env \<Rightarrow> nat \<Rightarrow> request \<Rightarrow> 'h server \<Rightarrow> (string + unit) \<times> 'h server" where
  "expect_any ce k req st = expect_response ce k req [] (\<lambda>r. Some ()) st"

definition wz_change ::
  "('w, 'h) cli_env \<Rightarrow> bool \<Rightarrow> request \<Rightarrow> (config \<Rightarrow> mutate_error + config) \<Rightarrow> ('h, unit) wizard_step" where
  "wz_change ce ch req m =
     wz_call (\<lambda>k st. if ch then expect_any ce k req st else direct ce k (\<lambda>c. unit_result (m c)) st)"

definition bastion_infos :: "('w, 'h) cli_env \<Rightarrow> bool \<Rightarrow> ('h, bastion_info list) wizard_step" where
  "bastion_infos ce ch =
     wz_call (\<lambda>k st.
       if ch
       then (case expect_rows ce k ListBastions st of
               (Inl e, st') \<Rightarrow> (Inl e, st')
             | (Inr rows, st') \<Rightarrow> (Inr (List.map_filter parse_bastion_row rows), st'))
       else (direct_read ce k
               (\<lambda>c. map (\<lambda>(nm, b). \<lparr>bf_name = nm, bf_host = host b, bf_pinned = length (pinned_host_keys b)\<rparr>)
                      (bt_entries (bastions c))) st, st))"

definition cred_names :: "('w, 'h) cli_env \<Rightarrow> bool \<Rightarrow> ('h, string list) wizard_step" where
  "cred_names ce ch =
     wz_call (\<lambda>k st.
       if ch
       then (case expect_rows ce k ListCreds st of
               (Inl e, st') \<Rightarrow> (Inl e, st')
             | (Inr rows, st') \<Rightarrow> (Inr (List.map_filter parse_cred_name rows), st'))
       else (direct_read ce k (\<lambda>c. map fst (bt_entries (credentials c))) st, st))"

definition wz_add_bastion :: "('w, 'h) cli_env \<Rightarrow> bool \<Rightarrow> bastion_input \<Rightarrow> ('h, unit) wizard_step" where
  "wz_add_bastion ce ch inp =
     wz_bind (wz_ask (resolve_bastion_auth inp)) (\<lambda>secret.
       case bastion_dto inp secret of
         Inl e \<Rightarrow> wz_fail (ce_fingerprint_text ce e)
       | Inr dto \<Rightarrow>
           wz_change ce ch (AddBastion dto)
             (add_bastion \<lparr>ba_name = bi_name dto, ba_host = bi_host dto, ba_port = bi_port dto,
                ba_ssh_user = bi_ssh_user dto, ba_auth = bi_auth dto, ba_fingerprint = bi_fingerprint dto\<rparr>))"

definition wz_add_credential :: "('w, 'h) cli_env \<Rightarrow> bool \<Rightarrow> name \<Rightarrow> string \<Rightarrow> ('h, unit) wizard_step" where
  "wz_add_credential ce ch nm user =
     wz_bind (wz_ask (read_secret False)) (\<lambda>pw.
       wz_change ce ch (add_cred_request nm user pw) (add_cred nm user pw))"

definition wz_add_env :: "('w, 'h) cli_env \<Rightarrow> bool \<Rightarrow> env_input \<Rightarrow> ('h, new_env_output_dto) wizard_step" where
  "wz_add_env ce ch inp =
     wz_call (\<lambda>k. minted ce ch k (AddEnv (env_dto inp))
       (add_env (sv_sha1 (ce_server ce)) (sv_sha256 (ce_server ce)) (tn_raw (ce_turn ce k))
          (env_add_args_of (env_dto inp))))"

definition wz_rm_env :: "('w, 'h) cli_env \<Rightarrow> bool \<Rightarrow> name \<Rightarrow> ('h, unit) wizard_step" where
  "wz_rm_env ce ch nm = wz_change ce ch (RmEnv nm) (rm_env nm)"

definition wz_set_fingerprint ::
  "('w, 'h) cli_env \<Rightarrow> bool \<Rightarrow> name \<Rightarrow> host_key_fingerprint \<Rightarrow> ('h, unit) wizard_step" where
  "wz_set_fingerprint ce ch nm fp = wz_change ce ch (SetFingerprint nm fp) (set_fingerprint nm fp)"

text \<open>The check of a new environment never fails: what went wrong with the probe is a skip.\<close>

definition probe_verdict :: "string + response \<Rightarrow> validation" where
  "probe_verdict r =
     (case r of
        Inl e \<Rightarrow> ValidSkipped (''probe could not run: '' @ e)
      | Inr (RProbeResults []) \<Rightarrow> ValidSkipped ''no environments configured''
      | Inr (RProbeResults (p # _)) \<Rightarrow>
          if pr_ok p then ValidOk
          else if \<not> pr_supported p then ValidSkipped (pr_reason p)
          else ValidFailed (if pr_reason p = [] then ''connection failed'' else pr_reason p)
      | Inr _ \<Rightarrow> ValidSkipped ''unexpected response from the service'')"

definition wz_validate :: "('w, 'h) cli_env \<Rightarrow> bool \<Rightarrow> name \<Rightarrow> ('h, validation) wizard_step" where
  "wz_validate ce ch nm =
     wz_call (\<lambda>k st.
       if ch
       then (case ce_call ce k (Probe (Some nm) False) st of
               (r, st') \<Rightarrow> (Inr (probe_verdict (checked (ce_call_text ce) r)), st'))
       else (Inr (cli_validate ce (Some nm) st), st))"

section \<open>The add loops\<close>

lemma wz_bind_mono [partial_function_mono]:
  fixes m :: "('p \<Rightarrow> 'q option) \<Rightarrow> ('h, 'a) wizard_step"
    and c :: "('p \<Rightarrow> 'q option) \<Rightarrow> 'a \<Rightarrow> ('h, 'b) wizard_step"
  assumes "\<And>s. mono_option (\<lambda>f. m f s)" and "\<And>x s. mono_option (\<lambda>f. c f x s)"
  shows "mono_option (\<lambda>f. wz_bind (m f) (c f) s)"
proof (rule monotoneI)
  fix f g
  assume fg: "option.le_fun (f :: 'p \<Rightarrow> 'q option) g"
  have m: "option_ord (m f s) (m g s)" for s
    using monotoneD [OF assms(1) [of s], of f g] fg by simp
  have c: "option_ord (c f x s) (c g x s)" for x s
    using monotoneD [OF assms(2) [of x s], of f g] fg by simp
  show "option_ord (wz_bind (m f) (c f) s) (wz_bind (m g) (c g) s)"
  proof (cases "m f s = m g s")
    case True
    consider "m g s = None" | e s' where "m g s = Some (Inl e, s')" | x s' where "m g s = Some (Inr x, s')"
      by (metis option.exhaust prod.collapse sum.exhaust)
    then show ?thesis
      using True c by cases (simp_all add: wz_bind_def flat_ord_def)
  next
    case False
    then have "m f s = None" using m [of s] by (simp add: flat_ord_def)
    then show ?thesis by (simp add: wz_bind_def flat_ord_def)
  qed
qed

lemma wz_if_mono [partial_function_mono]:
  "mono_option (\<lambda>f. m f s) \<Longrightarrow> mono_option (\<lambda>f. m' f s) \<Longrightarrow> mono_option (\<lambda>f. (if b then m f else m' f) s)"
  by (cases b) simp_all

lemma wz_case_mono [partial_function_mono]:
  "(\<And>e. mono_option (\<lambda>f. k f e s)) \<Longrightarrow> (\<And>x. mono_option (\<lambda>f. l f x s)) \<Longrightarrow>
     mono_option (\<lambda>f. (case r of Inl e \<Rightarrow> k f e | Inr x \<Rightarrow> l f x) s)"
  by (cases r) simp_all

partial_function (option) add_bastions_loop :: "('w, 'h) cli_env \<Rightarrow> bool \<Rightarrow> bool \<Rightarrow> ('h, bool) wizard_step" where
  "add_bastions_loop ce ch added s =
     wz_bind (wz_ask (confirm_prompt True)) (\<lambda>more.
       if \<not> more then wz_return added
       else
         wz_bind (wz_ask prompt_text) (\<lambda>nm.
         wz_bind (wz_ask prompt_text) (\<lambda>hst.
         wz_bind (wz_ask (prompt_port 22)) (\<lambda>prt.
         wz_bind (wz_ask prompt_text) (\<lambda>user.
         wz_bind (wz_ask (select_index 2)) (\<lambda>i.
         wz_bind (if i = 1 then wz_bind (wz_ask prompt_text) (\<lambda>p. wz_return (Some p)) else wz_return None) (\<lambda>key_file.
         wz_bind (wz_ask prompt_optional_text) (\<lambda>fp.
         wz_bind (wz_attempt (wz_add_bastion ce ch
             \<lparr>bn_name = nm, bn_host = hst, bn_port = prt, bn_ssh_user = user, bn_key_file = key_file,
              bn_password_stdin = False,
              bn_fingerprints = (case fp of Some f \<Rightarrow> [f] | None \<Rightarrow> [])\<rparr>)) (\<lambda>r.
           add_bastions_loop ce ch (case r of Inr _ \<Rightarrow> True | Inl _ \<Rightarrow> added)))))))))) s"

partial_function (option) add_credentials_loop :: "('w, 'h) cli_env \<Rightarrow> bool \<Rightarrow> bool \<Rightarrow> ('h, bool) wizard_step" where
  "add_credentials_loop ce ch added s =
     wz_bind (wz_ask (confirm_prompt True)) (\<lambda>more.
       if \<not> more then wz_return added
       else
         wz_bind (wz_ask prompt_text) (\<lambda>nm.
         wz_bind (wz_ask prompt_text) (\<lambda>user.
         wz_bind (wz_attempt (wz_add_credential ce ch nm user)) (\<lambda>r.
           add_credentials_loop ce ch (case r of Inr _ \<Rightarrow> True | Inl _ \<Rightarrow> added))))) s"

text \<open>The name \<open>(none)\<close> cannot be picked.\<close>

definition pick_optional :: "string list \<Rightarrow> ('h, string option) wizard_step" where
  "pick_optional names =
     (if names = [] then wz_return None
      else wz_bind (wz_ask (select_owned (''(none)'' # names))) (\<lambda>pick.
             wz_return (if pick = ''(none)'' then None else Some pick)))"

definition prompt_env_input :: "string list \<Rightarrow> string list \<Rightarrow> ('h, env_input) wizard_step" where
  "prompt_env_input creds bastion_list =
     wz_bind (wz_ask prompt_text) (\<lambda>nm.
     wz_bind (wz_ask prompt_text) (\<lambda>hst.
     wz_bind (wz_ask (select_index 2)) (\<lambda>eng.
     wz_bind (wz_ask prompt_optional_port) (\<lambda>prt.
     wz_bind (wz_ask prompt_optional_text) (\<lambda>database.
     wz_bind (pick_optional bastion_list) (\<lambda>bst.
     wz_bind (wz_ask (select_owned creds)) (\<lambda>cred.
     wz_bind (wz_ask (select_index 2)) (\<lambda>pol.
       wz_return \<lparr>en_name = nm, en_backend_host = hst, en_backend_port = prt,
         en_engine = (if eng = 1 then Postgres else MySql), en_database = database, en_bastion = bst,
         en_credential = cred, en_policy = (if pol = 1 then ReadWrite else ReadOnly),
         en_listen_port = None, en_max_pool = None\<rparr>))))))))"

definition BAD_FINGERPRINT :: string where
  "BAD_FINGERPRINT = ''fingerprint must be <algo>:<sha256_b64>''"

definition ensure_bastion_pinned :: "('w, 'h) cli_env \<Rightarrow> bool \<Rightarrow> name option \<Rightarrow> ('h, unit) wizard_step" where
  "ensure_bastion_pinned ce ch bst =
     (case bst of
        None \<Rightarrow> wz_return ()
      | Some nm \<Rightarrow>
          wz_bind (bastion_infos ce ch) (\<lambda>infos.
            case find (\<lambda>i. bf_name i = nm) infos of
              None \<Rightarrow> wz_return ()
            | Some info \<Rightarrow>
                if bf_pinned info > 0 then wz_return ()
                else wz_bind (wz_ask prompt_optional_text) (\<lambda>answer.
                       case answer of
                         None \<Rightarrow> wz_return ()
                       | Some t \<Rightarrow>
                           (case parse_fingerprint t of
                              None \<Rightarrow> wz_fail BAD_FINGERPRINT
                            | Some fp \<Rightarrow> wz_set_fingerprint ce ch nm fp))))"

text \<open>Add, check, and on a failed connection keep, edit and try again, or discard.\<close>

definition failed_reason :: "validation \<Rightarrow> string option" where
  "failed_reason v = (case v of ValidFailed r \<Rightarrow> Some r | _ \<Rightarrow> None)"

partial_function (option) env_retry ::
  "('w, 'h) cli_env \<Rightarrow> bool \<Rightarrow> string list \<Rightarrow> string list \<Rightarrow> env_input \<Rightarrow> ('h, bool) wizard_step" where
  "env_retry ce ch creds bastion_list pending s =
     wz_bind (wz_attempt (wz_add_env ce ch pending)) (\<lambda>r.
       case r of
         Inl e \<Rightarrow> wz_return False
       | Inr out \<Rightarrow>
           wz_bind (wz_validate ce ch (en_name pending)) (\<lambda>v.
             if failed_reason v = None
             then wz_bind (wz_show (en_name pending) out) (\<lambda>_. wz_return True)
             else
               wz_bind (wz_ask (select_index 3)) (\<lambda>i.
                 if i = 0 then wz_bind (wz_show (en_name pending) out) (\<lambda>_. wz_return True)
                 else
                   wz_bind (wz_rm_env ce ch (en_name pending)) (\<lambda>_.
                     if i = 1
                     then
                       wz_bind (prompt_env_input creds bastion_list) (\<lambda>again.
                       wz_bind (ensure_bastion_pinned ce ch (en_bastion again)) (\<lambda>_.
                         env_retry ce ch creds bastion_list again))
                     else wz_return False)))) s"

partial_function (option) add_envs_until ::
  "('w, 'h) cli_env \<Rightarrow> bool \<Rightarrow> string list \<Rightarrow> string list \<Rightarrow> bool \<Rightarrow> ('h, bool) wizard_step" where
  "add_envs_until ce ch creds bastion_list added s =
     wz_bind (wz_ask (confirm_prompt True)) (\<lambda>more.
       if \<not> more \<or> creds = [] then wz_return added
       else
         wz_bind (prompt_env_input creds bastion_list) (\<lambda>pending.
         wz_bind (env_retry ce ch creds bastion_list pending) (\<lambda>one.
           add_envs_until ce ch creds bastion_list (added \<or> one)))) s"

definition add_envs_loop :: "('w, 'h) cli_env \<Rightarrow> bool \<Rightarrow> ('h, bool) wizard_step" where
  "add_envs_loop ce ch =
     wz_bind (cred_names ce ch) (\<lambda>creds.
     wz_bind (bastion_infos ce ch) (\<lambda>infos.
       add_envs_until ce ch creds (map bf_name infos) False))"

definition run_config_backend :: "('w, 'h) cli_env \<Rightarrow> bool \<Rightarrow> ('h, bool) wizard_step" where
  "run_config_backend ce ch =
     wz_bind (add_bastions_loop ce ch False) (\<lambda>b.
     wz_bind (add_credentials_loop ce ch False) (\<lambda>c.
     wz_bind (add_envs_loop ce ch) (\<lambda>e.
       wz_return (b \<or> c \<or> e))))"

section \<open>The wizard\<close>

definition show_current :: "('w, 'h) cli_env \<Rightarrow> bool \<Rightarrow> ('h, unit) wizard_step" where
  "show_current ce ch =
     (let rows = (\<lambda>req. wz_call (\<lambda>k st. expect_rows ce k req st))
      in if ch
         then wz_bind (rows ListBastions) (\<lambda>_. wz_bind (rows ListCreds) (\<lambda>_.
                wz_bind (rows ListEnvs) (\<lambda>_. wz_return ())))
         else wz_call (\<lambda>k st. (direct_read ce k (\<lambda>c. ()) st, st)))"

text \<open>\<open>True\<close>: go on adding; \<open>False\<close>: quit.\<close>

partial_function (option) existing_config_action :: "('w, 'h) cli_env \<Rightarrow> bool \<Rightarrow> ('h, bool) wizard_step" where
  "existing_config_action ce ch s =
     wz_bind (wz_ask (select_index 3)) (\<lambda>i.
       if i = 1 then wz_bind (show_current ce ch) (\<lambda>_. existing_config_action ce ch)
       else wz_return (i \<noteq> 2)) s"

definition NEEDS_TERMINAL :: string where
  "NEEDS_TERMINAL = ''the wizard is interactive and needs a terminal. Run it in a TTY, '' @
     ''or configure with the individual `mwsqlctl` commands.''"

text \<open>\<open>run_inner\<close> behind the service-name check; the result is whether anything was added.\<close>

definition wizard_session :: "('w, 'h) cli_env \<Rightarrow> bool \<Rightarrow> ('h, bool) wizard_step" where
  "wizard_session ce ch =
     wz_bind (existing_config_action ce ch) (\<lambda>add_more.
       if add_more then run_config_backend ce ch else wz_return False)"

definition run_wizard ::
  "target_env \<Rightarrow> ('w, 'h) cli_env \<Rightarrow> cli_flags \<Rightarrow> string \<Rightarrow> ('h, bool) wizard_step" where
  "run_wizard te ce fl service_name s =
     (if \<not> tm_is_terminal (wz_term s) then wz_fail NEEDS_TERMINAL s
      else
        (let target = resolve_cli_target te (cf_state_dir fl) (cf_user fl) (cf_file_keystore fl);
             ch = (decide_mode (cf_user fl) False (cf_state_dir fl) (fst target) (system_dir te) = Channel);
             ce' = at_target target ce
         in case (if ch then validate_service_name service_name else Inr ()) of
              Inl e \<Rightarrow> wz_fail e s
            | Inr _ \<Rightarrow>
                if ch
                then wz_bind (wz_call (\<lambda>k. expect_any ce' k ListEnvs)) (\<lambda>_. wizard_session ce' True) s
                else if fs_files (sv_disk (wz_server s)) (sealed_path (sv_state (ce_server ce'))) = None
                then wz_fail (''no config at '' @ fst target @ '': run `mwsqlctl --user init` first'') s
                else wizard_session ce' False s))"

end
