(* ===== verification/Wizard_Session.thy ===== *)
theory Wizard_Session
  imports Wizard
begin

text \<open>
  What the wizard promises: it ends with the operator's input, and it leaves what was configured before
  alone. Both are proved by rules for its steps, one set for termination and one for invariants.
\<close>

named_theorems ends and holds

section \<open>The wizard ends\<close>

definition lines_left :: "'h wizard \<Rightarrow> nat" where
  "lines_left s = length (tm_lines (wz_term s))"

definition ends_within :: "nat \<Rightarrow> ('h, 'a) wizard_step \<Rightarrow> bool" where
  "ends_within n m \<longleftrightarrow>
     (\<forall>s. lines_left s \<le> n \<longrightarrow> (\<exists>r s'. m s = Some (r, s') \<and> lines_left s' \<le> lines_left s))"

definition takes_line :: "('h, 'a) wizard_step \<Rightarrow> bool" where
  "takes_line m \<longleftrightarrow> (\<forall>s x s'. m s = Some (Inr x, s') \<longrightarrow> lines_left s' < lines_left s)"

lemma ends_bind [ends]:
  fixes m :: "('h, 'a) wizard_step"
  assumes "ends_within n m" and "\<And>x. ends_within n (f x)"
  shows "ends_within n (wz_bind m f)"
  unfolding ends_within_def
proof (intro allI impI)
  fix s :: "'h wizard"
  assume s: "lines_left s \<le> n"
  then obtain r s' where m: "m s = Some (r, s')" "lines_left s' \<le> lines_left s"
    using assms(1) by (auto simp: ends_within_def)
  show "\<exists>r s'. wz_bind m f s = Some (r, s') \<and> lines_left s' \<le> lines_left s"
  proof (cases r)
    case (Inr x)
    have "lines_left s' \<le> n" using s m(2) by simp
    then obtain r' s'' where "f x s' = Some (r', s'')" "lines_left s'' \<le> lines_left s'"
      using assms(2) [of x] unfolding ends_within_def by blast
    then show ?thesis using m Inr by (auto simp: wz_bind_def)
  qed (use m in \<open>simp add: wz_bind_def\<close>)
qed

text \<open>The rule for a loop: what follows a step that took a line has less input left.\<close>

lemma ends_bind_after:
  fixes m :: "('h, 'a) wizard_step"
  assumes "ends_within n m" and "takes_line m" and "\<And>x k. k < n \<Longrightarrow> ends_within k (f x)"
  shows "ends_within n (wz_bind m f)"
  unfolding ends_within_def
proof (intro allI impI)
  fix s :: "'h wizard"
  assume s: "lines_left s \<le> n"
  then obtain r s' where m: "m s = Some (r, s')" "lines_left s' \<le> lines_left s"
    using assms(1) by (auto simp: ends_within_def)
  show "\<exists>r s'. wz_bind m f s = Some (r, s') \<and> lines_left s' \<le> lines_left s"
  proof (cases r)
    case (Inr x)
    then have "lines_left s' < lines_left s" using assms(2) m(1) by (auto simp: takes_line_def)
    moreover from this have "lines_left s' < n" using s by simp
    then obtain r' s'' where "f x s' = Some (r', s'')" "lines_left s'' \<le> lines_left s'"
      using assms(3) [of "lines_left s'" x] unfolding ends_within_def by blast
    ultimately show ?thesis using m Inr by (auto simp: wz_bind_def)
  qed (use m in \<open>simp add: wz_bind_def\<close>)
qed

lemma ends_eq: "(\<And>s. m s = m' s) \<Longrightarrow> ends_within n m' \<Longrightarrow> ends_within n m"
  by (simp add: ends_within_def)

lemma ends_step [ends]:
  "ends_within n (wz_return x)"
  "ends_within n (wz_fail e)"
  "ends_within n (wz_show nm out)"
  "ends_within n (wz_call g)"
  by (auto simp: ends_within_def wz_return_def wz_fail_def wz_show_def wz_call_def lines_left_def
      split: prod.splits)

lemma ends_attempt [ends]: "ends_within n m \<Longrightarrow> ends_within n (wz_attempt m)"
  by (fastforce simp: ends_within_def wz_attempt_def)

lemma ends_ask [ends]:
  assumes "\<And>tm. reads_on tm (snd (p tm))"
  shows "ends_within n (wz_ask p)"
proof -
  have "length (tm_lines t') \<le> length (tm_lines t)" if "p t = (r, t')" for t r t'
    using assms [of t] that by (simp add: reads_on_def)
  then show ?thesis by (auto simp: ends_within_def wz_ask_def lines_left_def split: prod.splits)
qed

lemma ends_cases [ends]:
  "(b \<Longrightarrow> ends_within n m) \<Longrightarrow> (\<not> b \<Longrightarrow> ends_within n m') \<Longrightarrow> ends_within n (if b then m else m')"
  "(\<And>e. ends_within n (k e)) \<Longrightarrow> (\<And>x. ends_within n (l x)) \<Longrightarrow>
     ends_within n (case q of Inl e \<Rightarrow> k e | Inr x \<Rightarrow> l x)"
  "ends_within n m \<Longrightarrow> (\<And>x. ends_within n (j x)) \<Longrightarrow>
     ends_within n (case w of None \<Rightarrow> m | Some x \<Rightarrow> j x)"
  by (simp_all split: sum.split option.split)

lemma select_owned_reads: "reads_on tm (snd (select_owned options tm))"
  using prompt_until_reads(1) [of tm "chosen (length options)"]
  by (auto simp: select_owned_def select_index_def split: prod.splits sum.splits)

lemma prompts_read [ends]:
  "reads_on tm (snd (prompt_text tm))" "reads_on tm (snd (prompt_optional_text tm))"
  "reads_on tm (snd (confirm_prompt b tm))" "reads_on tm (snd (select_index k tm))"
  "reads_on tm (snd (prompt_port p tm))" "reads_on tm (snd (prompt_optional_port tm))"
  "reads_on tm (snd (select_owned options tm))" "reads_on tm (snd (read_secret from_stdin tm))"
  "reads_on tm (snd (resolve_bastion_auth inp tm))"
  by (simp_all add: prompt_text_def prompt_optional_text_def confirm_prompt_def select_index_def prompt_port_def
      prompt_optional_port_def prompt_until_reads select_owned_reads read_secret_reads resolve_auth_reads)

lemma takes_line_ask: "takes_line (wz_ask (prompt_until accept))"
  using prompt_until_reads(2)
  by (fastforce simp: takes_line_def wz_ask_def lines_left_def split: prod.splits)

lemma takes_line_prompts:
  "takes_line (wz_ask (confirm_prompt b))" "takes_line (wz_ask (select_index k))"
  by (simp_all add: confirm_prompt_def select_index_def takes_line_ask)

lemma ends_backend [ends]:
  "ends_within n (wz_change ce ch req m)"
  "ends_within n (bastion_infos ce ch)" "ends_within n (cred_names ce ch)"
  "ends_within n (wz_add_env ce ch inp)" "ends_within n (wz_validate ce ch nm)"
  by (simp_all add: wz_change_def bastion_infos_def cred_names_def wz_add_env_def wz_validate_def ends_step)

lemma ends_changes [ends]:
  "ends_within n (wz_rm_env ce ch nm)" "ends_within n (wz_set_fingerprint ce ch nm fp)"
  by (simp_all add: wz_rm_env_def wz_set_fingerprint_def ends_backend)

lemma ends_prompted [ends]:
  "ends_within n (wz_add_bastion ce ch inp)" "ends_within n (wz_add_credential ce ch nm user)"
  "ends_within n (pick_optional names)" "ends_within n (prompt_env_input creds bs)"
  "ends_within n (ensure_bastion_pinned ce ch b)" "ends_within n (show_current ce ch)"
  unfolding wz_add_bastion_def wz_add_credential_def pick_optional_def prompt_env_input_def
    ensure_bastion_pinned_def show_current_def Let_def
  by (intro ends)+

lemma add_bastions_ends: "ends_within n (add_bastions_loop ce ch added)"
proof (induction n arbitrary: added rule: less_induct)
  case (less n)
  show ?case
    by (rule ends_eq [OF add_bastions_loop.simps], rule ends_bind_after) (intro ends takes_line_prompts less.IH | assumption)+
qed

lemma add_credentials_ends: "ends_within n (add_credentials_loop ce ch added)"
proof (induction n arbitrary: added rule: less_induct)
  case (less n)
  show ?case
    by (rule ends_eq [OF add_credentials_loop.simps], rule ends_bind_after)
      (intro ends takes_line_prompts less.IH | assumption)+
qed

lemma env_retry_ends: "ends_within n (env_retry ce ch creds bs pending)"
proof (induction n arbitrary: pending rule: less_induct)
  case (less n)
  have choice: "ends_within n (wz_bind (wz_ask (select_index 3)) f)"
    if "\<And>i k. k < n \<Longrightarrow> ends_within k (f i)" for f :: "nat \<Rightarrow> ('a, bool) wizard_step"
    by (rule ends_bind_after) (intro ends takes_line_prompts that | assumption)+
  show ?case
    by (rule ends_eq [OF env_retry.simps], rule ends_bind, intro ends, rule ends_cases(2), intro ends,
        rule ends_bind, intro ends, rule ends_cases(1), intro ends, rule choice)
      (intro ends less.IH | assumption)+
qed

lemma add_envs_ends: "ends_within n (add_envs_until ce ch creds bs added)"
proof (induction n arbitrary: added rule: less_induct)
  case (less n)
  show ?case
    by (rule ends_eq [OF add_envs_until.simps], rule ends_bind_after)
      (intro ends env_retry_ends takes_line_prompts less.IH | assumption)+
qed

lemma existing_config_ends: "ends_within n (existing_config_action ce ch)"
proof (induction n rule: less_induct)
  case (less n)
  show ?case
    by (rule ends_eq [OF existing_config_action.simps], rule ends_bind_after)
      (intro ends takes_line_prompts less.IH | assumption)+
qed

lemma session_ends: "ends_within n (wizard_session ce ch)"
  unfolding wizard_session_def run_config_backend_def add_envs_loop_def
  by (intro ends existing_config_ends add_bastions_ends add_credentials_ends add_envs_ends)

text \<open>
  C39 (the wizard ends). However the operator answers and whatever the service replies, the wizard comes to
  an end, with the input at the latest: no loop of it, retrying a failed environment included, asks on
  without taking a line, and it never gives lines back.
\<close>

theorem wizard_ends:
  "\<exists>r s'. run_wizard te ce fl service_name s = Some (r, s') \<and>
     length (tm_lines (wz_term s')) \<le> length (tm_lines (wz_term s))"
proof -
  have session: "ends_within (lines_left s) (wizard_session c ch)" for c ch by (rule session_ends)
  have channel: "ends_within (lines_left s)
      (wz_bind (wz_call (\<lambda>k. expect_any c k ListEnvs)) (\<lambda>_. wizard_session c True))" for c
    by (intro ends session)
  show ?thesis
    using session channel
    by (fastforce simp: run_wizard_def Let_def wz_fail_def ends_within_def lines_left_def split: sum.split)
qed

section \<open>The wizard keeps what was configured\<close>

text \<open>Everything configured before is still there, the same but for the pinned keys of a bastion.\<close>

definition keeps :: "config \<Rightarrow> config \<Rightarrow> bool" where
  "keeps c c' \<longleftrightarrow>
     (\<forall>nm e. bt_get (envs c) nm = Some e \<longrightarrow> bt_get (envs c') nm = Some e) \<and>
     (\<forall>nm x. bt_get (credentials c) nm = Some x \<longrightarrow> bt_get (credentials c') nm = Some x) \<and>
     (\<forall>nm b. bt_get (bastions c) nm = Some b \<longrightarrow>
        (\<exists>fps. bt_get (bastions c') nm = Some (b\<lparr>pinned_host_keys := fps\<rparr>)))"

lemma keeps_refl [simp]: "keeps c c"
proof -
  have "\<exists>fps. (b :: bastion) = b\<lparr>pinned_host_keys := fps\<rparr>" for b
    by (intro exI [of _ "pinned_host_keys b"]) simp
  then show ?thesis by (auto simp: keeps_def)
qed

lemma keeps_changes:
  "keeps c0 c \<Longrightarrow> add_bastion args c = Inr c' \<Longrightarrow> keeps c0 c'"
  "keeps c0 c \<Longrightarrow> add_cred nm user pw c = Inr c' \<Longrightarrow> keeps c0 c'"
  "keeps c0 c \<Longrightarrow> set_fingerprint nm fp c = Inr c' \<Longrightarrow> keeps c0 c'"
  "keeps c0 c \<Longrightarrow> bt_get (envs c0) nm = None \<Longrightarrow> rm_env nm c = Inr c' \<Longrightarrow> keeps c0 c'"
  by (fastforce simp: keeps_def add_bastion_def add_cred_def set_fingerprint_def rm_env_def bt_contains_def
      split: if_splits option.splits)+

lemma keeps_add_env:
  assumes "keeps c0 c" and "add_env sha1 sha256 raw args c = Inr (out, c')"
  shows "keeps c0 c'" and "bt_get (envs c0) (ea_name args) = None"
proof -
  obtain e where "bt_get (envs c) (ea_name args) = None"
    and "c' = c\<lparr>envs := bt_insert (ea_name args) e (envs c)\<rparr>"
    using assms(2) by (rule add_env_cases) (simp add: bt_contains_def)
  then show "keeps c0 c'" "bt_get (envs c0) (ea_name args) = None"
    using assms(1) by (fastforce simp: keeps_def, cases "bt_get (envs c0) (ea_name args)")
      (auto simp: keeps_def)
qed

definition kept :: "('w, 'h) cli_env \<Rightarrow> config \<Rightarrow> 'h server \<Rightarrow> bool" where
  "kept ce c0 st \<longleftrightarrow> (\<forall>c. loads (sv_state (ce_server ce)) (sv_disk st) c \<longrightarrow> keeps c0 c)"

text \<open>A step keeps them, and its result satisfies \<open>Q\<close>.\<close>

definition holds_for ::
  "('w, 'h) cli_env \<Rightarrow> config \<Rightarrow> ('h, 'a) wizard_step \<Rightarrow> ('a \<Rightarrow> bool) \<Rightarrow> bool" where
  "holds_for ce c0 m Q \<longleftrightarrow>
     (\<forall>s r s'. kept ce c0 (wz_server s) \<longrightarrow> m s = Some (r, s') \<longrightarrow>
        kept ce c0 (wz_server s') \<and> (\<forall>x. r = Inr x \<longrightarrow> Q x))"

abbreviation anything :: "'a \<Rightarrow> bool" where "anything x \<equiv> True"

lemma holds_bind:
  assumes "holds_for ce c0 m Q" and "\<And>x. Q x \<Longrightarrow> holds_for ce c0 (f x) R"
  shows "holds_for ce c0 (wz_bind m f) R"
  unfolding holds_for_def
proof (intro allI impI)
  fix s r s'
  assume k: "kept ce c0 (wz_server s)" and b: "wz_bind m f s = Some (r, s')"
  then obtain r1 s1 where m: "m s = Some (r1, s1)" by (auto simp: wz_bind_def split: option.splits)
  then have k1: "kept ce c0 (wz_server s1)" and q: "\<And>x. r1 = Inr x \<Longrightarrow> Q x"
    using assms(1) k unfolding holds_for_def by blast+
  show "kept ce c0 (wz_server s') \<and> (\<forall>x. r = Inr x \<longrightarrow> R x)"
  proof (cases r1)
    case (Inr x)
    then have "f x s1 = Some (r, s')" using b m by (simp add: wz_bind_def)
    then show ?thesis using assms(2) [OF q [OF Inr]] k1 unfolding holds_for_def by blast
  qed (use b m k1 in \<open>auto simp: wz_bind_def\<close>)
qed

lemma holds_then [holds]:
  "holds_for ce c0 m anything \<Longrightarrow> (\<And>x. holds_for ce c0 (f x) R) \<Longrightarrow> holds_for ce c0 (wz_bind m f) R"
  by (rule holds_bind)

lemma holds_step [holds]:
  "holds_for ce c0 (wz_return x) anything" "holds_for ce c0 (wz_fail e) R"
  "holds_for ce c0 (wz_show nm out) anything" "holds_for ce c0 (wz_ask p) anything"
  by (auto simp: holds_for_def wz_return_def wz_fail_def wz_show_def wz_ask_def split: prod.splits)

lemma holds_attempt:
  "holds_for ce c0 m Q \<Longrightarrow> holds_for ce c0 (wz_attempt m) (\<lambda>r. \<forall>x. r = Inr x \<longrightarrow> Q x)"
  by (auto simp: holds_for_def wz_attempt_def split: option.splits)

lemma holds_attempt_any [holds]:
  "holds_for ce c0 m anything \<Longrightarrow> holds_for ce c0 (wz_attempt m) anything"
  using holds_attempt by fastforce

lemma holds_cases [holds]:
  "(b \<Longrightarrow> holds_for ce c0 m R) \<Longrightarrow> (\<not> b \<Longrightarrow> holds_for ce c0 m' R) \<Longrightarrow> holds_for ce c0 (if b then m else m') R"
  "(\<And>e. q = Inl e \<Longrightarrow> holds_for ce c0 (k e) R) \<Longrightarrow> (\<And>x. q = Inr x \<Longrightarrow> holds_for ce c0 (l x) R) \<Longrightarrow>
     holds_for ce c0 (case q of Inl e \<Rightarrow> k e | Inr x \<Rightarrow> l x) R"
  "holds_for ce c0 m R \<Longrightarrow> (\<And>x. holds_for ce c0 (j x) R) \<Longrightarrow>
     holds_for ce c0 (case w of None \<Rightarrow> m | Some x \<Rightarrow> j x) R"
  by (simp_all split: sum.split option.split)

lemma holds_call:
  assumes "\<And>k st. kept ce c0 st \<Longrightarrow> kept ce c0 (snd (g k st))"
    and "\<And>k st x. kept ce c0 st \<Longrightarrow> fst (g k st) = Inr x \<Longrightarrow> Q x"
  shows "holds_for ce c0 (wz_call g) Q"
  unfolding holds_for_def
proof (intro allI impI)
  fix s r s'
  assume k: "kept ce c0 (wz_server s)" and c: "wz_call g s = Some (r, s')"
  obtain r1 st1 where g: "g (wz_calls s) (wz_server s) = (r1, st1)" by fastforce
  then have "r = r1" "wz_server s' = st1" using c by (auto simp: wz_call_def)
  then show "kept ce c0 (wz_server s') \<and> (\<forall>x. r = Inr x \<longrightarrow> Q x)" using assms k g by (metis fst_conv snd_conv)
qed

text \<open>The changes of both backends have the effect of one saved mutation.\<close>

definition steady :: "('w, 'h) cli_env \<Rightarrow> peer_identity \<Rightarrow> bool" where
  "steady ce peer \<longleftrightarrow>
     answered ce peer \<and> state_env_ok (sv_state (ce_server ce)) \<and> (\<forall>k. turn_ok (ce_turn ce k))"

lemma kept_disk:
  assumes "steady ce peer" and "kept ce c0 st"
    and d: "sv_disk st' = disk_after (ce_server ce) (ce_turn ce k) m st"
    and "\<And>c out c'. keeps c0 c \<Longrightarrow> m c = Inr (out, c') \<Longrightarrow> keeps c0 c'"
  shows "kept ce c0 st'"
  unfolding kept_def
proof (intro allI impI)
  fix c'
  assume c': "loads (sv_state (ce_server ce)) (sv_disk st') c'"
  obtain r st1 where p: "persist (ce_server ce) (ce_turn ce k) m st = (r, st1)" by fastforce
  have "sv_disk st' = sv_disk st1" using d p by (simp add: disk_after_def)
  then have l: "loads (sv_state (ce_server ce)) (sv_disk st1) c'" using c' by simp
  have "state_env_ok (sv_state (ce_server ce))" "turn_ok (ce_turn ce k)" using assms(1) by (simp_all add: steady_def)
  from persist_cases [OF this p] l show "keeps c0 c'"
    using assms(2,4) by (cases r) (fastforce simp: kept_def)+
qed

lemma kept_same_disk: "kept ce c0 st \<Longrightarrow> sv_disk st' = sv_disk st \<Longrightarrow> kept ce c0 st'"
  by (simp add: kept_def)

lemma holds_change:
  assumes "steady ce peer"
    and "\<And>k st. sv_disk (snd (dispatch (ce_server ce) (ce_turn ce k) peer req st)) =
      disk_after (ce_server ce) (ce_turn ce k) (\<lambda>c. unit_result (m c)) st"
    and "\<And>c c'. keeps c0 c \<Longrightarrow> m c = Inr c' \<Longrightarrow> keeps c0 c'"
  shows "holds_for ce c0 (wz_change ce ch req m) anything"
  unfolding wz_change_def
proof (rule holds_call)
  fix k st
  assume k: "kept ce c0 st"
  have "answered ce peer" using assms(1) by (simp add: steady_def)
  then have "sv_disk (snd (if ch then expect_any ce k req st else direct ce k (\<lambda>c. unit_result (m c)) st)) =
      disk_after (ce_server ce) (ce_turn ce k) (\<lambda>c. unit_result (m c)) st"
    using assms(2) by (simp add: expect_any_def call_state direct_disk)
  then show "kept ce c0 (snd (if ch then expect_any ce k req st else direct ce k (\<lambda>c. unit_result (m c)) st))"
    by (rule kept_disk [OF assms(1) k]) (auto simp: unit_result_def split: sum.splits intro: assms(3))
qed simp

lemma holds_reads:
  assumes "steady ce peer"
  shows "holds_for ce c0 (bastion_infos ce ch) anything" "holds_for ce c0 (cred_names ce ch) anything"
    "holds_for ce c0 (wz_validate ce ch nm) anything"
    "req \<in> {ListBastions, ListCreds, ListEnvs} \<Longrightarrow>
      holds_for ce c0 (wz_call (\<lambda>k st. expect_rows ce k req st)) anything"
    "holds_for ce c0 (wz_call (\<lambda>k st. (direct_read ce k g st, st))) anything"
proof -
  have a: "answered ce peer" using assms by (simp add: steady_def)
  have rows: "expect_rows ce k req st = (r, st') \<Longrightarrow> req \<in> {ListBastions, ListCreds, ListEnvs} \<Longrightarrow>
      sv_disk st' = sv_disk st" for k req st r st'
    using read_calls(3-5) [OF a, of k st] by (metis insertE empty_iff snd_conv)
  have probe: "ce_call ce k (Probe (Some nm) False) st = (r, st') \<Longrightarrow> sv_disk st' = sv_disk st" for k st r st'
  proof -
    have "sv_disk (snd (ce_call ce k (Probe (Some nm) False) st)) = sv_disk st"
      using a by (simp add: answered_def case_prod_beta Let_def)
    then show "ce_call ce k (Probe (Some nm) False) st = (r, st') \<Longrightarrow> sv_disk st' = sv_disk st" by simp
  qed
  show "holds_for ce c0 (bastion_infos ce ch) anything" "holds_for ce c0 (cred_names ce ch) anything"
    "holds_for ce c0 (wz_validate ce ch nm) anything"
    unfolding bastion_infos_def cred_names_def wz_validate_def
    by (rule holds_call; use rows probe in \<open>auto split: sum.splits prod.splits elim!: kept_same_disk\<close>)+
  show "req \<in> {ListBastions, ListCreds, ListEnvs} \<Longrightarrow>
      holds_for ce c0 (wz_call (\<lambda>k st. expect_rows ce k req st)) anything"
    by (rule holds_call; use rows in \<open>metis kept_same_disk prod.collapse\<close>)
  show "holds_for ce c0 (wz_call (\<lambda>k st. (direct_read ce k g st, st))) anything"
    by (rule holds_call) simp_all
qed

lemma minted_persisted:
  assumes "answered ce peer"
    and "fst (minted ce ch k (AddEnv dto)
      (add_env (sv_sha1 (ce_server ce)) (sv_sha256 (ce_server ce)) (tn_raw (ce_turn ce k)) (env_add_args_of dto))
      st) = Inr d"
  shows "persisted (ce_server ce) (ce_turn ce k)
    (add_env (sv_sha1 (ce_server ce)) (sv_sha256 (ce_server ce)) (tn_raw (ce_turn ce k)) (env_add_args_of dto)) st"
proof (cases ch)
  case True
  obtain resp st' where r: "dispatch (ce_server ce) (ce_turn ce k) peer (AddEnv dto) st = (resp, st')" by fastforce
  then have "\<exists>d. resp = RToken d"
    using assms True
    by (cases resp) (auto simp: minted_def expect_token_def expect_response_def answered_def finish_def checked_def)
  then have "reported (fst (add_env_req (ce_server ce) (ce_turn ce k) peer dto st))" using r by auto
  then show ?thesis by (rule handlers_reported(4))
next
  case False
  then show ?thesis
    using assms(2) direct_done by (fastforce simp: minted_def split: prod.splits sum.splits)
qed

lemma holds_add_env:
  assumes "steady ce peer"
  shows "holds_for ce c0 (wz_add_env ce ch inp) (\<lambda>_. bt_get (envs c0) (en_name inp) = None)"
  unfolding wz_add_env_def
proof (rule holds_call)
  fix k st
  let ?m = "add_env (sv_sha1 (ce_server ce)) (sv_sha256 (ce_server ce)) (tn_raw (ce_turn ce k))
      (env_add_args_of (env_dto inp))"
  have a: "answered ce peer" "state_env_ok (sv_state (ce_server ce))" "turn_ok (ce_turn ce k)"
    using assms by (simp_all add: steady_def)
  assume k: "kept ce c0 st"
  have "sv_disk (snd (minted ce ch k (AddEnv (env_dto inp)) ?m st)) = disk_after (ce_server ce) (ce_turn ce k) ?m st"
    by (rule minted_disk [OF a(1)]) (simp add: handlers_disk)
  then show "kept ce c0 (snd (minted ce ch k (AddEnv (env_dto inp)) ?m st))"
    by (rule kept_disk [OF assms k]) (rule keeps_add_env(1))
  fix d
  assume "fst (minted ce ch k (AddEnv (env_dto inp)) ?m st) = Inr d"
  then have "persisted (ce_server ce) (ce_turn ce k) ?m st" by (rule minted_persisted [OF a(1)])
  then obtain out st1 where "persist (ce_server ce) (ce_turn ce k) ?m st = (Inr out, st1)"
    by (metis persisted_def prod.collapse)
  from persist_cases [OF a(2,3) this] obtain c c' where
    "loads (sv_state (ce_server ce)) (sv_disk st) c" "?m c = Inr (out, c')" by auto
  then show "bt_get (envs c0) (en_name inp) = None"
    using k keeps_add_env(2) [of c0 c] by (fastforce simp: kept_def env_add_args_of_def env_dto_def)
qed

section \<open>Its loops keep it too\<close>

lemma holds_prompted:
  assumes "steady ce peer"
  shows "holds_for ce c0 (wz_add_bastion ce ch inp) anything"
    "holds_for ce c0 (wz_add_credential ce ch nm user) anything"
    "holds_for ce c0 (pick_optional names) anything" "holds_for ce c0 (prompt_env_input creds bs) anything"
    "holds_for ce c0 (ensure_bastion_pinned ce ch b) anything" "holds_for ce c0 (show_current ce ch) anything"
    "bt_get (envs c0) nm = None \<Longrightarrow> holds_for ce c0 (wz_rm_env ce ch nm) anything"
proof -
  have bastion: "holds_for ce c0 (wz_change ce ch (AddBastion dto)
      (add_bastion \<lparr>ba_name = bi_name dto, ba_host = bi_host dto, ba_port = bi_port dto,
         ba_ssh_user = bi_ssh_user dto, ba_auth = bi_auth dto, ba_fingerprint = bi_fingerprint dto\<rparr>)) anything" for dto
    by (rule holds_change [OF assms])
      (simp_all add: add_bastion_req_def simple_mutation_disk keeps_changes(1))
  have cred: "holds_for ce c0 (wz_change ce ch (add_cred_request nm user pw) (add_cred nm user pw)) anything" for nm user pw
    by (rule holds_change [OF assms]) (simp_all add: add_cred_request_def simple_mutation_disk keeps_changes(2))
  have pin: "holds_for ce c0 (wz_set_fingerprint ce ch nm fp) anything" for nm fp
    unfolding wz_set_fingerprint_def
    by (rule holds_change [OF assms]) (simp_all add: handlers_disk keeps_changes(3))
  show "bt_get (envs c0) nm = None \<Longrightarrow> holds_for ce c0 (wz_rm_env ce ch nm) anything"
    unfolding wz_rm_env_def
    by (rule holds_change [OF assms]) (simp_all add: handlers_disk keeps_changes(4))
  show "holds_for ce c0 (wz_add_bastion ce ch inp) anything"
    "holds_for ce c0 (wz_add_credential ce ch nm user) anything"
    "holds_for ce c0 (pick_optional names) anything" "holds_for ce c0 (prompt_env_input creds bs) anything"
    "holds_for ce c0 (ensure_bastion_pinned ce ch b) anything" "holds_for ce c0 (show_current ce ch) anything"
    unfolding wz_add_bastion_def wz_add_credential_def pick_optional_def prompt_env_input_def
      ensure_bastion_pinned_def show_current_def Let_def
    by (intro holds bastion cred pin holds_reads [OF assms]; simp)+
qed

lemma holds_forD: "holds_for ce c0 m anything \<Longrightarrow> m s = Some y \<Longrightarrow> kept ce c0 (wz_server s) \<Longrightarrow> kept ce c0 (wz_server (snd y))"
  unfolding holds_for_def by (metis prod.collapse)

lemma holds_forI: "(\<And>s y. m s = Some y \<Longrightarrow> kept ce c0 (wz_server s) \<Longrightarrow> kept ce c0 (wz_server (snd y))) \<Longrightarrow>
    holds_for ce c0 m anything"
  unfolding holds_for_def by fastforce

lemma add_bastions_kept:
  assumes "add_bastions_loop ce ch added s = Some y" and "steady ce peer" and "kept ce c0 (wz_server s)"
  shows "kept ce c0 (wz_server (snd y))"
  using assms
proof (induction ce ch added s y rule: add_bastions_loop.raw_induct [rotated, consumes 1])
  case (1 loop ce ch added s y)
  have more: "holds_for ce c0 (loop ce ch b) anything" for b by (rule holds_forI) (erule 1(1) [OF _ 1(3)], assumption)
  show ?case
    by (rule holds_forD [rotated], rule 1(2), rule 1(4)) (intro holds holds_prompted [OF 1(3)] more; simp)
qed

lemma add_credentials_kept:
  assumes "add_credentials_loop ce ch added s = Some y" and "steady ce peer" and "kept ce c0 (wz_server s)"
  shows "kept ce c0 (wz_server (snd y))"
  using assms
proof (induction ce ch added s y rule: add_credentials_loop.raw_induct [rotated, consumes 1])
  case (1 loop ce ch added s y)
  have more: "holds_for ce c0 (loop ce ch b) anything" for b by (rule holds_forI) (erule 1(1) [OF _ 1(3)], assumption)
  show ?case
    by (rule holds_forD [rotated], rule 1(2), rule 1(4)) (intro holds holds_prompted [OF 1(3)] more; simp)
qed

text \<open>The environment a retry removes is the one it has just added.\<close>

lemma env_retry_kept:
  assumes "env_retry ce ch creds bs pending s = Some y" and "steady ce peer" and "kept ce c0 (wz_server s)"
  shows "kept ce c0 (wz_server (snd y))"
  using assms
proof (induction ce ch creds bs pending s y rule: env_retry.raw_induct [rotated, consumes 1])
  case (1 loop ce ch creds bs pending s y)
  have more: "holds_for ce c0 (loop ce ch creds bs p) anything" for p
    by (rule holds_forI) (erule 1(1) [OF _ 1(3)], assumption)
  note added = holds_bind [OF holds_attempt [OF holds_add_env [OF 1(3)]]]
  show ?case
    by (rule holds_forD [rotated], rule 1(2), rule 1(4), rule added)
      (intro holds holds_prompted [OF 1(3)] holds_reads [OF 1(3)] more; simp)
qed

lemma add_envs_kept:
  assumes "add_envs_until ce ch creds bs added s = Some y" and "steady ce peer" and "kept ce c0 (wz_server s)"
  shows "kept ce c0 (wz_server (snd y))"
  using assms
proof (induction ce ch creds bs added s y rule: add_envs_until.raw_induct [rotated, consumes 1])
  case (1 loop ce ch creds bs added s y)
  have more: "holds_for ce c0 (loop ce ch creds bs b) anything" for b
    by (rule holds_forI) (erule 1(1) [OF _ 1(3)], assumption)
  have one: "holds_for ce c0 (env_retry ce ch creds bs p) anything" for p
    by (rule holds_forI) (erule env_retry_kept [OF _ 1(3)], assumption)
  show ?case
    by (rule holds_forD [rotated], rule 1(2), rule 1(4)) (intro holds holds_prompted [OF 1(3)] one more; simp)
qed

lemma existing_config_kept:
  assumes "existing_config_action ce ch s = Some y" and "steady ce peer" and "kept ce c0 (wz_server s)"
  shows "kept ce c0 (wz_server (snd y))"
  using assms
proof (induction ce ch s y rule: existing_config_action.raw_induct [rotated, consumes 1])
  case (1 loop ce ch s y)
  have more: "holds_for ce c0 (loop ce ch) anything" by (rule holds_forI) (erule 1(1) [OF _ 1(3)], assumption)
  show ?case
    by (rule holds_forD [rotated], rule 1(2), rule 1(4)) (intro holds holds_prompted [OF 1(3)] more; simp)
qed

lemma run_config_holds:
  assumes "steady ce peer"
  shows "holds_for ce c (run_config_backend ce ch) anything"
proof -
  have bastions: "holds_for ce c (add_bastions_loop ce ch b) anything" for b
    by (rule holds_forI) (erule add_bastions_kept [OF _ assms], assumption)
  have creds: "holds_for ce c (add_credentials_loop ce ch b) anything" for b
    by (rule holds_forI) (erule add_credentials_kept [OF _ assms], assumption)
  have envs: "holds_for ce c (add_envs_until ce ch cr bs b) anything" for cr bs b
    by (rule holds_forI) (erule add_envs_kept [OF _ assms], assumption)
  show ?thesis
    unfolding run_config_backend_def add_envs_loop_def
    by (intro holds holds_reads [OF assms] bastions creds envs)
qed

lemma run_config_kept:
  assumes "steady ce peer" and "kept ce c (wz_server s)"
  shows "\<exists>r s'. run_config_backend ce ch s = Some (r, s') \<and> kept ce c (wz_server s')"
proof -
  have "ends_within (lines_left s) (run_config_backend ce ch)"
    unfolding run_config_backend_def add_envs_loop_def
    by (intro ends add_bastions_ends add_credentials_ends add_envs_ends)
  then obtain r s' where w: "run_config_backend ce ch s = Some (r, s')" unfolding ends_within_def by blast
  then show ?thesis using holds_forD [OF run_config_holds [OF assms(1)] w assms(2)] by auto
qed


lemma demo_steady: "steady demo_cli demo_peer"
  using demo_state_ok demo_turn_ok demo_answered by (simp add: steady_def) (simp add: demo_cli_def)


end
