(* ===== verification/Deploy.thy ===== *)
theory Deploy
  imports Installer Wizard_Session
begin

text \<open>
  Setting a deployment up and taking it down: \<open>init\<close> and the service installation
  (\<open>crates/mwsqlctl/src/init.rs\<close>, \<open>service.rs\<close>, \<open>wizard.rs\<close>) and
  \<open>uninstall\<close> (\<open>uninstall.rs\<close>). A directory that is removed may go only in part when the
  removal fails. The reader of the elevated child's arguments is a specification.
\<close>

section \<open>Elevation\<close>

definition PIPED_ELEVATION :: string where
  "PIPED_ELEVATION = ''administrator privileges are required, and stdin is piped/redirected so input can'' @
     [QUOTE] @ ''t reach the elevated child. Re-run this command from an elevated terminal '' @
     ''(Run as administrator), or pass --user for a per-user setup that needs no elevation.''"

definition NO_TTY_ELEVATION :: "string \<Rightarrow> string" where
  "NO_TTY_ELEVATION subcommand = ''cannot elevate for `'' @ subcommand @
     ''`: root is required but stdin is not a terminal to confirm the sudo re-exec. '' @
     ''Nothing was changed '' @ EM_DASH @ '' run the printed command under sudo.''"

definition NO_EXECUTABLE :: "string \<Rightarrow> string \<Rightarrow> string" where
  "NO_EXECUTABLE me subcommand = ''cannot locate own executable ('' @ me @ '') to re-run under sudo; '' @
     ''run: sudo <abs-path-to-mwsqlctl> '' @ subcommand"

text \<open>The elevated child is another process: what it does is its own run of the program.\<close>

definition elevate_for_service :: "process \<Rightarrow> string \<Rightarrow> string list \<Rightarrow> elevation action" where
  "elevate_for_service pr subcommand forward m =
     (if pr_platform pr = Windows
      then (if tm_is_terminal (mc_term m) then (Inr (ReExecuted (relaunch_args subcommand forward)), m)
            else (Inl PIPED_ELEVATION, m))
      else (case pr_exe pr of
              Inl e \<Rightarrow> (Inl (''resolve current exe: '' @ e), m)
            | Inr me \<Rightarrow>
                (case elevate_or_print me (exists_path m me) (mc_term m) subcommand forward of
                   NoOwnExecutable \<Rightarrow> (Inl (NO_EXECUTABLE me subcommand), m)
                 | NoTerminal \<Rightarrow> (Inl (NO_TTY_ELEVATION subcommand), m)
                 | e \<Rightarrow> (Inr e, m))))"

section \<open>Installing the service\<close>

text \<open>The group an installation creates is the one the daemon asks for.\<close>

lemma installer_group_agrees: "INSTALLER_ADMIN_GROUP = ADMIN_GROUP"
  by (simp add: INSTALLER_ADMIN_GROUP_def ADMIN_GROUP_def)

definition run_powershell :: "process \<Rightarrow> string \<Rightarrow> unit action" where
  "run_powershell pr script =
     run_checked pr {0} (windows_powershell_path (pr_system_root pr))
       [''-NoProfile'', ''-NonInteractive'', ''-EncodedCommand'', pr_encode pr script]
       (\<lambda>_. ''service install failed'')"

definition register_windows_service :: "process \<Rightarrow> string \<Rightarrow> string \<Rightarrow> unit action" where
  "register_windows_service pr script nm =
     after (succeeds pr ''sc.exe'' [''query'', nm]) (\<lambda>there.
       if there then run_anyway pr ''sc.exe'' [''start'', nm]
       else after (run_powershell pr script) (\<lambda>_. run_cmd pr ''sc.exe'' [''start'', nm]))"

definition install_and_enable_service ::
  "process \<Rightarrow> string \<Rightarrow> string option \<Rightarrow> string \<Rightarrow> unit action" where
  "install_and_enable_service pr nm exec_path dir =
     (case (case exec_path of Some p \<Rightarrow> Inr p | None \<Rightarrow> default_daemon_path pr) of
        Inl e \<Rightarrow> give_up e
      | Inr exe \<Rightarrow>
     (case build_service_artifact (pr_platform pr)
             \<lparr>ip_service_name = nm, ip_exec_path = exe, ip_state_dir = dir\<rparr> True of
        Inl e \<Rightarrow> give_up e
      | Inr art \<Rightarrow>
          if pr_platform pr = Linux \<and> is_root pr
          then after (write_service_artifact pr (unit_file nm) (sa_artifact art) True) (\<lambda>_.
               after (run_cmd pr ''systemctl'' [''daemon-reload'']) (\<lambda>_.
               run_cmd pr ''systemctl'' [''enable'', ''--now'', nm]))
          else if is_admin pr then register_windows_service pr (sa_artifact art) nm
          else done_with ()))"

definition finalize_service_config :: "process \<Rightarrow> string \<Rightarrow> string \<Rightarrow> bool \<Rightarrow> unit action" where
  "finalize_service_config pr nm dir changed =
     (if pr_platform pr = Linux \<and> is_root pr
      then after (chown_state_dir pr dir nm) (\<lambda>_. if changed then restart_service pr nm else done_with ())
      else if is_admin pr then (if changed then restart_service pr nm else done_with ())
      else done_with ())"

section \<open>init\<close>

record init_opts =
  io_state_dir :: "string option"
  io_user :: bool
  io_file_keystore :: bool
  io_service_name :: string
  io_exec_path :: "string option"
  io_uac :: bool

definition init_forwarded_args :: "init_opts \<Rightarrow> string list" where
  "init_forwarded_args o' =
     (case io_state_dir o' of Some d \<Rightarrow> [''--state-dir'', d] | None \<Rightarrow> []) @
     (if io_file_keystore o' then [''--file-keystore''] else []) @
     [''--service-name'', io_service_name o'] @
     (case io_exec_path o' of Some p \<Rightarrow> [''--exec-path'', p] | None \<Rightarrow> [])"

text \<open>What init uses beside the process: the sealing and the fault pattern of the store, the fresh
  master key, the login of who called sudo, and the wizard's environment.\<close>

record ('w, 'h) init_env =
  ie_target :: target_env
  ie_cli :: "('w, 'h) cli_env"
  ie_server :: "'h server"
  ie_fault :: fault
  ie_key :: bytes
  ie_sudo_user :: "string option"

definition is_initialized :: "string \<Rightarrow> machine \<Rightarrow> bool" where
  "is_initialized dir m \<longleftrightarrow> exists_path m (path_join dir CONFIG_FILE_NAME)"

definition state_at :: "('w, 'h) init_env \<Rightarrow> string \<times> keystore_choice \<Rightarrow> state_env" where
  "state_at ie target = sv_state (ce_server (at_target target (ie_cli ie)))"

definition SEED_FAILED :: string where "SEED_FAILED = ''seed the sealed config''"

definition seed_if_needed :: "('w, 'h) init_env \<Rightarrow> string \<times> keystore_choice \<Rightarrow> unit action" where
  "seed_if_needed ie target m =
     (if is_initialized (fst target) m then (Inr (), m)
      else (case (init_state (state_at ie target) (ie_fault ie) (ie_key ie) (mc_disk m)
                   :: (mutate_error state_error + unit) \<times> disk) of
              (Inl e, d) \<Rightarrow> (Inl SEED_FAILED, m\<lparr>mc_disk := d\<rparr>)
            | (Inr _, d) \<Rightarrow> (Inr (), m\<lparr>mc_disk := d\<rparr>)))"

text \<open>The wizard over the machine's terminal and disk, on the file; \<open>None\<close>: it does not end.\<close>

definition run_config ::
  "('w, 'h) init_env \<Rightarrow> string \<times> keystore_choice \<Rightarrow> machine \<Rightarrow> ((string + bool) \<times> machine) option" where
  "run_config ie target m =
     map_option (\<lambda>(r, s'). (r, m\<lparr>mc_disk := sv_disk (wz_server s'), mc_term := wz_term s'\<rparr>))
       (run_config_backend (at_target target (ie_cli ie)) False
          \<lparr>wz_term = mc_term m, wz_calls = 0, wz_server = (ie_server ie)\<lparr>sv_disk := mc_disk m\<rparr>, wz_shown = []\<rparr>)"

definition offer_configure ::
  "process \<Rightarrow> ('w, 'h) init_env \<Rightarrow> string \<times> keystore_choice \<Rightarrow> string \<Rightarrow> bool \<Rightarrow> machine
     \<Rightarrow> ((string + unit) \<times> machine) option" where
  "offer_configure pr ie target nm interactive m =
     (case (if interactive then on_terminal (confirm_prompt True) m else (Inr False, m)) of
        (Inl e, m1) \<Rightarrow> Some (Inl e, m1)
      | (Inr False, m1) \<Rightarrow> Some (Inr (), m1)
      | (Inr True, m1) \<Rightarrow>
          (case run_config ie target m1 of
             None \<Rightarrow> None
           | Some (Inl e, m2) \<Rightarrow> Some (Inl e, m2)
           | Some (Inr changed, m2) \<Rightarrow> Some (finalize_service_config pr nm (fst target) changed m2)))"

definition sudo_operator :: "string option \<Rightarrow> string option" where
  "sudo_operator u = (case u of Some s \<Rightarrow> if s \<noteq> [] \<and> s \<noteq> ''root'' then Some s else None | None \<Rightarrow> None)"

definition prepare_accounts :: "process \<Rightarrow> string \<Rightarrow> string option \<Rightarrow> unit action" where
  "prepare_accounts pr nm sudo_user =
     (if pr_platform pr = Linux \<and> is_root pr
      then after (ensure_service_user pr nm) (\<lambda>_.
           after (ensure_admins_group pr) (\<lambda>_.
           add_operator_to_admins pr (sudo_operator sudo_user)))
      else done_with ())"

text \<open>The part of init that installs, up to the offer to configure.\<close>

definition install_deployment ::
  "process \<Rightarrow> ('w, 'h) init_env \<Rightarrow> init_opts \<Rightarrow> string \<times> keystore_choice \<Rightarrow> unit action" where
  "install_deployment pr ie o' target =
     after (prepare_accounts pr (io_service_name o') (ie_sudo_user ie)) (\<lambda>_.
     after (seed_if_needed ie target) (\<lambda>_.
     after (if pr_platform pr = Linux \<and> is_root pr
            then chown_state_dir pr (fst target) (io_service_name o') else done_with ()) (\<lambda>_.
     install_and_enable_service pr (io_service_name o') (io_exec_path o') (fst target))))"

datatype init_outcome = HandedOver elevation | Seeded | Installed

definition run_init ::
  "process \<Rightarrow> ('w, 'h) init_env \<Rightarrow> init_opts \<Rightarrow> machine \<Rightarrow> ((string + init_outcome) \<times> machine) option" where
  "run_init pr ie o' m =
     (case (if io_user o' then Inr () else validate_service_name (io_service_name o')) of
        Inl e \<Rightarrow> Some (Inl e, m)
      | Inr _ \<Rightarrow>
     if \<not> io_user o' \<and> needs_service_elevation pr (io_uac o')
     then Some (after (elevate_for_service pr ''init'' (init_forwarded_args o')) (\<lambda>e. done_with (HandedOver e)) m)
     else
       (let target = resolve_service_install_target (ie_target ie) (io_state_dir o') (io_user o') (io_file_keystore o')
        in if io_user o' then Some (after (seed_if_needed ie target) (\<lambda>_. done_with Seeded) m)
           else (case install_deployment pr ie o' target m of
                   (Inl e, m1) \<Rightarrow> Some (Inl e, m1)
                 | (Inr _, m1) \<Rightarrow>
                     map_option (\<lambda>(r, m2). (map_sum (\<lambda>e. e) (\<lambda>_. Installed) r, m2))
                       (offer_configure pr ie target (io_service_name o')
                          (tm_is_terminal (mc_term m1) \<and> \<not> (pr_platform pr = Windows \<and> io_uac o')) m1))))"

section \<open>Removing the state directory\<close>

definition under :: "string \<Rightarrow> string \<Rightarrow> bool" where
  "under p q \<longleftrightarrow> q = p \<or> starts_with (p @ ''/'') q"

definition erase :: "(string \<Rightarrow> bool) \<Rightarrow> string \<Rightarrow> machine \<Rightarrow> machine" where
  "erase gone p m =
     m\<lparr>mc_disk := (mc_disk m)\<lparr>fs_files := (\<lambda>q. if under p q \<and> gone q then None else fs_files (mc_disk m) q)\<rparr>,
       mc_dirs := (\<lambda>q. mc_dirs m q \<and> \<not> (under p q \<and> gone q))\<rparr>"

definition remove_dir_all :: "process \<Rightarrow> string \<Rightarrow> unit action" where
  "remove_dir_all pr p m =
     (case pr_remove pr p of
        None \<Rightarrow> (Inr (), erase (\<lambda>_. True) p m)
      | Some (e, gone) \<Rightarrow> (Inl (''remove '' @ p @ '': '' @ e), erase gone p m))"

definition remove_file :: "process \<Rightarrow> string \<Rightarrow> unit action" where
  "remove_file pr p m =
     (case pr_remove pr p of
        None \<Rightarrow> (Inr (), m\<lparr>mc_disk := (mc_disk m)\<lparr>fs_files := (fs_files (mc_disk m))(p := None)\<rparr>\<rparr>)
      | Some (e, _) \<Rightarrow> (Inl (''remove '' @ p @ '': '' @ e), m))"

definition AUDIT_DIR :: string where "AUDIT_DIR = ''audit''"

fun remove_entries :: "process \<Rightarrow> string \<Rightarrow> (string + string) list \<Rightarrow> unit action" where
  "remove_entries pr dir [] m = (Inr (), m)"
| "remove_entries pr dir (Inl e # es) m = (Inl e, m)"
| "remove_entries pr dir (Inr nm # es) m =
     (let p = path_join dir nm
      in if p = path_join dir AUDIT_DIR then remove_entries pr dir es m
         else after (if mc_dirs m p then remove_dir_all pr p else remove_file pr p)
                (\<lambda>_. remove_entries pr dir es) m)"

datatype removal = Absent | Full | PreservedAudit

definition remove_state_dir :: "process \<Rightarrow> string \<Rightarrow> bool \<Rightarrow> removal action" where
  "remove_state_dir pr dir purge_audit m =
     (if \<not> exists_path m dir then (Inr Absent, m)
      else if purge_audit \<or> \<not> exists_path m (path_join dir AUDIT_DIR)
      then after (remove_dir_all pr dir) (\<lambda>_. done_with Full) m
      else (case pr_entries pr m dir of
              Inl e \<Rightarrow> (Inl (''read '' @ dir @ '': '' @ e), m)
            | Inr es \<Rightarrow> after (remove_entries pr dir es) (\<lambda>_. done_with PreservedAudit) m))"

section \<open>uninstall\<close>

record uninstall_opts =
  uo_state_dir :: "string option"
  uo_user :: bool
  uo_file_keystore :: bool
  uo_service_name :: string
  uo_yes :: bool
  uo_purge_audit :: bool
  uo_uac :: bool

definition is_system_state_dir :: "string \<Rightarrow> string \<Rightarrow> string \<Rightarrow> bool" where
  "is_system_state_dir state_dir system user \<longleftrightarrow> \<not> (user \<noteq> system \<and> state_dir = user)"

definition is_system_service :: "target_env \<Rightarrow> bool \<Rightarrow> string \<Rightarrow> keystore_choice \<Rightarrow> bool" where
  "is_system_service te user state_dir ks \<longleftrightarrow>
     \<not> user \<and> (case ks of OsKeystore _ _ \<Rightarrow> False | FileKeystore _ \<Rightarrow> True) \<and>
     is_system_state_dir state_dir (system_dir te) (legacy_dir te)"

definition uninstall_forwarded_args :: "uninstall_opts \<Rightarrow> bool \<Rightarrow> string \<Rightarrow> keystore_choice \<Rightarrow> string list" where
  "uninstall_forwarded_args o' yes dir ks =
     [''--state-dir'', dir] @
     (case ks of FileKeystore _ \<Rightarrow> [''--file-keystore''] | OsKeystore _ _ \<Rightarrow> []) @
     [''--service-name'', uo_service_name o'] @
     (if yes then [''--yes''] else []) @
     (if uo_purge_audit o' then [''--purge-audit''] else [])"

definition NOT_CONFIRMED :: string where
  "NOT_CONFIRMED = ''refusing to uninstall without confirmation; pass --yes''"

datatype uninstalled = Aborted | GivenToChild elevation | Removed removal

definition delete_key :: "keystore_choice \<Rightarrow> unit action" where
  "delete_key ks m =
     (case keystore_delete ks (mc_disk m) of
        (Inl _, d) \<Rightarrow> (Inl ''delete the master key'', m\<lparr>mc_disk := d\<rparr>)
      | (Inr _, d) \<Rightarrow> (Inr (), m\<lparr>mc_disk := d\<rparr>))"

text \<open>What is done once the operator has confirmed, in the process that has the privilege.\<close>

definition tear_down :: "process \<Rightarrow> string \<Rightarrow> bool \<Rightarrow> bool \<Rightarrow> string \<times> keystore_choice \<Rightarrow> removal action" where
  "tear_down pr nm system_service purge_audit target =
     after (if system_service then uninstall_service pr nm else done_with ()) (\<lambda>_.
     after (remove_state_dir pr (fst target) purge_audit) (\<lambda>removed.
     after (delete_key (snd target)) (\<lambda>_. done_with removed)))"

definition run_uninstall :: "process \<Rightarrow> target_env \<Rightarrow> uninstall_opts \<Rightarrow> uninstalled action" where
  "run_uninstall pr te o' m =
     (case (if uo_user o' then Inr () else validate_service_name (uo_service_name o')) of
        Inl e \<Rightarrow> (Inl e, m)
      | Inr _ \<Rightarrow>
     (let target = resolve_cli_target te (uo_state_dir o') (uo_user o') (uo_file_keystore o');
          system_service = is_system_service te (uo_user o') (fst target) (snd target)
      in after (if uo_yes o' then done_with True
                else if \<not> tm_is_terminal (mc_term m) then give_up NOT_CONFIRMED
                else on_terminal (confirm_prompt False)) (\<lambda>confirmed.
           if \<not> confirmed then done_with Aborted
           else if system_service \<and> needs_service_elevation pr (uo_uac o')
           then after (elevate_for_service pr ''uninstall''
                        (uninstall_forwarded_args o' True (fst target) (snd target)))
                  (\<lambda>e. done_with (GivenToChild e))
           else after (tear_down pr (uo_service_name o') system_service (uo_purge_audit o') target)
                  (\<lambda>r. done_with (Removed r))) m))"

section \<open>What a step leaves alone\<close>

text \<open>A relation between the machine before a step and after it, that no command and no prompt breaks.\<close>

definition framed :: "(machine \<Rightarrow> machine \<Rightarrow> bool) \<Rightarrow> 'a action \<Rightarrow> bool" where
  "framed R a \<longleftrightarrow> (\<forall>m r m'. a m = (r, m') \<longrightarrow> R m m')"

lemma framedD: "framed R a \<Longrightarrow> a m = (r, m') \<Longrightarrow> R m m'"
  by (simp add: framed_def)

lemma afterE:
  assumes "after a f m = (r, m')"
  obtains e where "a m = (Inl e, m')" and "r = Inl e"
  | x m1 where "a m = (Inr x, m1)" and "f x m1 = (r, m')"
  using assms by (auto simp: after_def split: prod.splits sum.splits)

locale frame =
  fixes R :: "machine \<Rightarrow> machine \<Rightarrow> bool"
  assumes same: "R m m"
    and step: "R m m1 \<Longrightarrow> R m1 m2 \<Longrightarrow> R m m2"
    and ran: "R m (m\<lparr>mc_ran := l\<rparr>)"
    and asked: "R m (m\<lparr>mc_term := tm\<rparr>)"
begin

lemma after: "framed R a \<Longrightarrow> (\<And>x. framed R (f x)) \<Longrightarrow> framed R (after a f)"
  unfolding framed_def by (blast elim: afterE intro: step)

lemma simple: "framed R (done_with x)" "framed R (give_up e)" "framed R (on_terminal p)"
  by (auto simp: framed_def done_with_def give_up_def on_terminal_def same asked split: prod.splits)

lemma command:
  "framed R (succeeds pr program args)" "framed R (run_anyway pr program args)"
  "framed R (run_checked pr ok_codes program args complaint)" "framed R (run_cmd pr program args)"
  by (auto simp: framed_def succeeds_def run_anyway_def run_checked_def run_cmd_def run_status_def ran
      split: sum.splits if_splits)

lemma choice:
  "(b \<Longrightarrow> framed R a) \<Longrightarrow> (\<not> b \<Longrightarrow> framed R a') \<Longrightarrow> framed R (if b then a else a')"
  "framed R k \<Longrightarrow> (\<And>x. framed R (j x)) \<Longrightarrow> framed R (case w of None \<Rightarrow> k | Some x \<Rightarrow> j x)"
  "(\<And>e. framed R (h e)) \<Longrightarrow> (\<And>x. q = Inr x \<Longrightarrow> framed R (l x)) \<Longrightarrow>
    framed R (case q of Inl e \<Rightarrow> h e | Inr x \<Rightarrow> l x)"
  by (simp_all split: option.split sum.split)

lemma polled: "framed R (poll_stopped pr nm k)"
proof (induction k)
  case (Suc k)
  then show ?case
    unfolding framed_def by (auto simp: run_output_def Let_def ran split: if_splits intro: step [OF ran])
qed (simp add: framed_def same)

lemmas steps = after simple command choice polled

lemma service:
  "framed R (restart_service pr nm)" "framed R (prepare_accounts pr nm sudo_user)"
  "framed R (chown_state_dir pr dir nm)" "framed R (finalize_service_config pr nm dir changed)"
  "framed R (register_windows_service pr script nm)"
  unfolding restart_service_def prepare_accounts_def chown_state_dir_def finalize_service_config_def
    register_windows_service_def run_powershell_def ensure_service_user_def ensure_admins_group_def
    add_operator_to_admins_def wait_for_service_stopped_def
  by (intro steps)+

lemma elevating: "framed R (elevate_for_service pr subcommand forward)"
  by (auto simp: framed_def elevate_for_service_def same split: if_splits sum.splits elevation.splits)

lemma uninstalled:
  assumes "framed R (remove_unit pr (unit_file nm))"
  shows "framed R (uninstall_service pr nm)"
  unfolding uninstall_service_def wait_for_service_stopped_def by (intro steps assms)

end

text \<open>Three such relations: nothing below a path changes, files only disappear, the machine's state
  stays.\<close>

definition same_below :: "string \<Rightarrow> machine \<Rightarrow> machine \<Rightarrow> bool" where
  "same_below p m m' \<longleftrightarrow>
     (\<forall>q. under p q \<longrightarrow> fs_files (mc_disk m') q = fs_files (mc_disk m) q \<and> mc_dirs m' q = mc_dirs m q)"

definition only_gone :: "machine \<Rightarrow> machine \<Rightarrow> bool" where
  "only_gone m m' \<longleftrightarrow>
     (\<forall>q. fs_files (mc_disk m') q = None \<or> fs_files (mc_disk m') q = fs_files (mc_disk m) q) \<and>
     (\<forall>q. mc_dirs m' q \<longrightarrow> mc_dirs m q)"

definition same_keychain :: "machine \<Rightarrow> machine \<Rightarrow> bool" where
  "same_keychain m m' \<longleftrightarrow> keychain (mc_disk m') = keychain (mc_disk m)"

interpretation below: frame "same_below p" for p
  by unfold_locales (auto simp: same_below_def)

interpretation gone: frame only_gone
  by unfold_locales (simp_all add: only_gone_def, metis)

interpretation chain: frame same_keychain
  by unfold_locales (auto simp: same_keychain_def)

end
