(* ===== verification/Deploy_Laws.thy ===== *)
theory Deploy_Laws
  imports Deploy
begin

text \<open>
  What \<open>uninstall\<close> and \<open>init\<close> promise: nothing goes without a confirmation, the audit log
  stays, a key in the operating system's store outlives the configuration it opens, the elevated child
  works on the target the operator saw, and setting up again keeps what is there.
\<close>

section \<open>Paths\<close>

lemma under_simps:
  "under (path_join dir a) (path_join dir b) \<longleftrightarrow> b = a \<or> starts_with (a @ ''/'') b"
  by (auto simp: under_def path_join_def starts_with_iff)

lemma entry_not_above:
  assumes "CHR ''/'' \<notin> set a" and "CHR ''/'' \<notin> set b" and "a \<noteq> b" and "under (path_join dir b) q"
  shows "\<not> under (path_join dir a) q"
proof
  assume a: "under (path_join dir a) q"
  obtain x where x: "q = path_join dir a @ x" "x = [] \<or> hd x = CHR ''/''"
    using a by (auto simp: under_def starts_with_iff)
  obtain y where y: "q = path_join dir b @ y" "y = [] \<or> hd y = CHR ''/''"
    using assms(4) by (auto simp: under_def starts_with_iff)
  have e: "a @ x = b @ y" using x y by (simp add: path_join_def)
  have "takeWhile (\<lambda>c. c \<noteq> CHR ''/'') (a @ x) = a" using assms(1) x(2)
    by (cases x) (auto simp: takeWhile_append)
  moreover have "takeWhile (\<lambda>c. c \<noteq> CHR ''/'') (b @ y) = b" using assms(2) y(2)
    by (cases y) (auto simp: takeWhile_append)
  ultimately show False using e assms(3) by simp
qed

lemma resolved_keystore:
  "resolve_target te d u f l = (dir, ks) \<Longrightarrow> ks = default_file dir \<or> ks = default_os"
  by (auto simp: resolve_target_def Let_def split: if_splits)

section \<open>Removal\<close>

lemma erase_below: "(\<And>q. under p q \<Longrightarrow> \<not> under p' q) \<Longrightarrow> same_below p m (erase g p' m)"
  by (auto simp: same_below_def erase_def)

lemma erase_gone: "only_gone m (erase g p m)"
  by (simp add: only_gone_def erase_def)

lemma erase_all: "under p q \<Longrightarrow> fs_files (mc_disk (erase (\<lambda>_. True) p m)) q = None"
  by (simp add: erase_def)

lemma removes_one:
  assumes "(if mc_dirs m p then remove_dir_all pr p else remove_file pr p) m = (r, m')"
  shows "only_gone m m'" and "(\<And>q. under p' q \<Longrightarrow> \<not> under p q) \<Longrightarrow> same_below p' m m'"
    and "same_keychain m m'" and "r = Inr () \<Longrightarrow> fs_files (mc_disk m') p = None"
proof -
  have below: "q \<noteq> p" if "\<And>q. under p' q \<Longrightarrow> \<not> under p q" "under p' q" for q
    using that by (auto simp: under_def)
  show "only_gone m m'" "(\<And>q. under p' q \<Longrightarrow> \<not> under p q) \<Longrightarrow> same_below p' m m'"
    "same_keychain m m'" "r = Inr () \<Longrightarrow> fs_files (mc_disk m') p = None"
    using assms erase_gone erase_below [of p' p] below
    by (auto simp: remove_dir_all_def remove_file_def same_below_def only_gone_def same_keychain_def erase_def
        under_def split: if_splits option.splits)
qed

lemma entries_framed:
  "framed only_gone (remove_entries pr dir es)"
  "framed same_keychain (remove_entries pr dir es)"
  "(\<And>nm. Inr nm \<in> set es \<Longrightarrow> CHR ''/'' \<notin> set nm) \<Longrightarrow>
    framed (same_below (path_join dir AUDIT_DIR)) (remove_entries pr dir es)"
proof -
  have audit: "CHR ''/'' \<notin> set AUDIT_DIR" by (simp add: AUDIT_DIR_def)
  have one: "remove_entries pr dir es m = (r, m') \<Longrightarrow> only_gone m m' \<and> same_keychain m m' \<and>
      ((\<forall>nm. Inr nm \<in> set es \<longrightarrow> CHR ''/'' \<notin> set nm) \<longrightarrow> same_below (path_join dir AUDIT_DIR) m m')" for m r m'
  proof (induction pr dir es m arbitrary: r m' rule: remove_entries.induct)
    case (3 pr dir nm es m)
    show ?case
    proof (cases "path_join dir nm = path_join dir AUDIT_DIR")
      case True
      then show ?thesis using 3 by (auto simp: Let_def)
    next
      case False
      then have n: "nm \<noteq> AUDIT_DIR" by auto
      have "after (if mc_dirs m (path_join dir nm) then remove_dir_all pr (path_join dir nm)
            else remove_file pr (path_join dir nm)) (\<lambda>_. remove_entries pr dir es) m = (r, m')"
        using 3(3) False by (simp add: Let_def)
      then show ?thesis
      proof (rule afterE)
        fix e
        assume "(if mc_dirs m (path_join dir nm) then remove_dir_all pr (path_join dir nm)
            else remove_file pr (path_join dir nm)) m = (Inl e, m')"
        note this = removes_one [OF this]
        then show ?thesis using entry_not_above [OF _ audit n] by auto
      next
        fix x m1
        assume "(if mc_dirs m (path_join dir nm) then remove_dir_all pr (path_join dir nm)
            else remove_file pr (path_join dir nm)) m = (Inr x, m1)"
        note first = removes_one [OF this]
        assume "remove_entries pr dir es m1 = (r, m')"
        note rest = 3(2) [OF refl False this]
        have "same_below (path_join dir AUDIT_DIR) m m'"
          if "\<forall>nma. Inr nma \<in> set (Inr nm # es) \<longrightarrow> CHR ''/'' \<notin> set nma"
          using first(2) entry_not_above [OF _ audit n] rest that by (intro below.step [of _ m m1 m']) auto
        then show ?thesis using first(1,3) rest gone.step chain.step by blast
      qed
    qed
  qed (simp_all add: gone.same chain.same below.same)
  show "framed only_gone (remove_entries pr dir es)" "framed same_keychain (remove_entries pr dir es)"
    "(\<And>nm. Inr nm \<in> set es \<Longrightarrow> CHR ''/'' \<notin> set nm) \<Longrightarrow>
      framed (same_below (path_join dir AUDIT_DIR)) (remove_entries pr dir es)"
    using one unfolding framed_def by blast+
qed

lemma entries_gone:
  "remove_entries pr dir es m = (Inr (), m') \<Longrightarrow> Inr nm \<in> set es \<Longrightarrow> nm \<noteq> AUDIT_DIR \<Longrightarrow>
   fs_files (mc_disk m') (path_join dir nm) = None"
proof (induction pr dir es m arbitrary: m' rule: remove_entries.induct)
  case (3 pr dir nm' es m)
  show ?case
  proof (cases "path_join dir nm' = path_join dir AUDIT_DIR")
    case True
    then show ?thesis using 3 by (auto simp: Let_def path_join_def)
  next
    case False
    then obtain m1 where a: "(if mc_dirs m (path_join dir nm') then remove_dir_all pr (path_join dir nm')
        else remove_file pr (path_join dir nm')) m = (Inr (), m1)"
      and b: "remove_entries pr dir es m1 = (Inr (), m')"
      using 3(3) by (fastforce simp: Let_def elim: afterE)
    show ?thesis
    proof (cases "nm = nm'")
      case True
      then show ?thesis
        using removes_one(4) [OF a refl] framedD [OF entries_framed(1) b] by (fastforce simp: only_gone_def)
    next
      case False
      then show ?thesis using 3(2) [OF refl] 3(4,5) b \<open>path_join dir nm' \<noteq> _\<close> by auto
    qed
  qed
qed simp_all

lemma state_dir_framed:
  "framed only_gone (remove_state_dir pr dir purge)" "framed same_keychain (remove_state_dir pr dir purge)"
proof -
  have "framed only_gone (remove_dir_all pr dir)" "framed same_keychain (remove_dir_all pr dir)"
    unfolding framed_def remove_dir_all_def
    by (auto simp: erase_gone split: option.splits) (auto simp: same_keychain_def erase_def)
  note all = this [unfolded framed_def]
  show "framed only_gone (remove_state_dir pr dir purge)" "framed same_keychain (remove_state_dir pr dir purge)"
    unfolding framed_def remove_state_dir_def
    using entries_framed(1,2) all
    by (auto simp: gone.same chain.same done_with_def framed_def split: if_splits sum.splits elim!: afterE)
qed

section \<open>What uninstall keeps\<close>

lemma unit_removed:
  "framed only_gone (remove_unit pr p)" "framed same_keychain (remove_unit pr p)"
  "\<not> under q p \<Longrightarrow> framed (same_below q) (remove_unit pr p)"
  by (auto simp: framed_def remove_unit_def only_gone_def same_keychain_def same_below_def
      split: if_splits option.splits)

lemma key_deleted:
  "framed only_gone (delete_key ks)"
  "(\<And>p. ks = FileKeystore p \<Longrightarrow> \<not> under q p) \<Longrightarrow> framed (same_below q) (delete_key ks)"
  by (auto simp: framed_def delete_key_def only_gone_def same_below_def os_delete_def file_delete_def
      split: prod.splits sum.splits option.splits keystore_choice.splits keyring_error.splits)

lemma elevating_machine: "elevate_for_service pr subcommand forward m = (r, m') \<Longrightarrow> m' = m"
  by (auto simp: elevate_for_service_def split: if_splits sum.splits elevation.splits)

lemma uninstall_cases:
  assumes u: "run_uninstall pr te o' m = (r, m')"
    and target: "resolve_cli_target te (uo_state_dir o') (uo_user o') (uo_file_keystore o') = target"
  obtains tm where "\<And>x. r = Inr x \<Longrightarrow> x = Aborted" and "m' = m\<lparr>mc_term := tm\<rparr>"
  | tm e where "r = Inr (GivenToChild e)" and "m' = m\<lparr>mc_term := tm\<rparr>"
    and "uo_yes o' \<or> tm_is_terminal (mc_term m) \<and> fst (confirm_prompt False (mc_term m)) = Inr True"
  | tm t where "tear_down pr (uo_service_name o')
        (is_system_service te (uo_user o') (fst target) (snd target)) (uo_purge_audit o') target
        (m\<lparr>mc_term := tm\<rparr>) = (t, m')"
    and "r = map_sum (\<lambda>e. e) Removed t"
    and "uo_yes o' \<or> tm_is_terminal (mc_term m) \<and> fst (confirm_prompt False (mc_term m)) = Inr True"
proof (cases "if uo_user o' then Inr () else validate_service_name (uo_service_name o')")
  case (Inl e)
  then show ?thesis using u that(1) [of "mc_term m"] by (auto simp: run_uninstall_def split: if_splits)
next
  case (Inr v)
  let ?ask = "if uo_yes o' then done_with True
                else if \<not> tm_is_terminal (mc_term m) then give_up NOT_CONFIRMED
                else on_terminal (confirm_prompt False)"
  let ?sys = "is_system_service te (uo_user o') (fst target) (snd target)"
  let ?go = "\<lambda>confirmed.
           if \<not> confirmed then done_with Aborted
           else if ?sys \<and> needs_service_elevation pr (uo_uac o')
           then after (elevate_for_service pr ''uninstall''
                        (uninstall_forwarded_args o' True (fst target) (snd target)))
                  (\<lambda>e. done_with (GivenToChild e))
           else after (tear_down pr (uo_service_name o') ?sys (uo_purge_audit o') target)
                  (\<lambda>r. done_with (Removed r))"
  have "after ?ask ?go m = (r, m')"
    using u Inr target by (simp add: run_uninstall_def Let_def split: if_splits)
  then show ?thesis
  proof (rule afterE)
    fix e
    assume "?ask m = (Inl e, m')" and "r = Inl e"
    moreover from this have "\<exists>tm. m' = m\<lparr>mc_term := tm\<rparr>"
      by (auto simp: done_with_def give_up_def on_terminal_def split: if_splits prod.splits)
        (metis machine.surjective machine.update_convs(4))
    ultimately show ?thesis using that(1) by auto
  next
    fix c m1
    assume a: "?ask m = (Inr c, m1)" and g: "?go c m1 = (r, m')"
    obtain tm where m1: "m1 = m\<lparr>mc_term := tm\<rparr>"
      using a by (auto simp: done_with_def give_up_def on_terminal_def split: if_splits prod.splits)
        (metis machine.surjective machine.update_convs(4))
    have ok: "c \<Longrightarrow> uo_yes o' \<or> tm_is_terminal (mc_term m) \<and> fst (confirm_prompt False (mc_term m)) = Inr True"
      using a by (auto simp: done_with_def give_up_def on_terminal_def split: if_splits prod.splits)
    show ?thesis
    proof (cases "c \<and> \<not> (?sys \<and> needs_service_elevation pr (uo_uac o'))")
      case True
      then have "after (tear_down pr (uo_service_name o') ?sys (uo_purge_audit o') target)
          (\<lambda>r. done_with (Removed r)) m1 = (r, m')" using g by (auto split: if_splits)
      then show ?thesis
        by (rule afterE) (use that(3) ok True m1 in \<open>auto simp: done_with_def\<close>)
    next
      case False
      then show ?thesis
        using g m1 ok that(1,2)
        by (auto simp: done_with_def split: if_splits elim!: afterE dest!: elevating_machine)
    qed
  qed
qed

definition entries_named :: "process \<Rightarrow> string \<Rightarrow> bool" where
  "entries_named pr dir \<longleftrightarrow>
     (\<forall>m es nm. pr_entries pr m dir = Inr es \<longrightarrow> Inr nm \<in> set es \<longrightarrow> CHR ''/'' \<notin> set nm)"

lemma audit_dir_below:
  assumes "entries_named pr dir" and "exists_path m (path_join dir AUDIT_DIR)"
    and "remove_state_dir pr dir False m = (r, m')"
  shows "same_below (path_join dir AUDIT_DIR) m m'"
proof (cases "exists_path m dir")
  case False
  then show ?thesis using assms(3) by (simp add: remove_state_dir_def below.same)
next
  case True
  show ?thesis
  proof (cases "pr_entries pr m dir")
    case (Inl e)
    then show ?thesis using assms True by (simp add: remove_state_dir_def below.same)
  next
    case (Inr es)
    then have "framed (same_below (path_join dir AUDIT_DIR)) (remove_entries pr dir es)"
      using assms(1) by (intro entries_framed(3)) (auto simp: entries_named_def)
    then have "framed (same_below (path_join dir AUDIT_DIR))
        (after (remove_entries pr dir es) (\<lambda>_. done_with PreservedAudit))"
      by (intro below.steps)
    then show ?thesis using assms(2,3) True Inr by (auto simp: remove_state_dir_def framed_def)
  qed
qed

text \<open>
  C35 (the audit log outlives an uninstall). Without the request to purge it, an uninstall changes nothing
  below the audit directory of the state directory it resolved, however it ends: confirmed or not, given to
  an elevated child, or failing at any removal. The directory entries are names without a slash, and
  systemd's units are kept elsewhere.
\<close>

theorem uninstall_keeps_audit:
  assumes "run_uninstall pr te o' m = (r, m')" and "\<not> uo_purge_audit o'"
    and "resolve_cli_target te (uo_state_dir o') (uo_user o') (uo_file_keystore o') = (dir, ks)"
    and "exists_path m (path_join dir AUDIT_DIR)" and "entries_named pr dir"
    and "\<not> under (path_join dir AUDIT_DIR) (unit_file (uo_service_name o'))"
  shows "same_below (path_join dir AUDIT_DIR) m m'"
  using assms(1,3)
proof (rule uninstall_cases)
  fix tm t
  let ?A = "path_join dir AUDIT_DIR" and ?m = "m\<lparr>mc_term := tm\<rparr>"
  assume "tear_down pr (uo_service_name o') (is_system_service te (uo_user o') (fst (dir, ks)) (snd (dir, ks)))
      (uo_purge_audit o') (dir, ks) ?m = (t, m')"
  then have t: "tear_down pr (uo_service_name o') (is_system_service te (uo_user o') dir ks) False (dir, ks) ?m = (t, m')"
    using assms(2) by simp
  have unit: "framed (same_below ?A) (uninstall_service pr (uo_service_name o'))"
    by (rule below.uninstalled) (rule unit_removed(3) [OF assms(6)])
  have "ks = default_file dir \<or> ks = default_os"
    using assms(3) resolved_keystore unfolding resolve_cli_target_def by blast
  then have key: "framed (same_below ?A) (delete_key ks)"
    by (intro key_deleted(2))
      (auto simp: default_file_def default_os_def under_simps AUDIT_DIR_def FILE_MASTER_KEY_NAME_def starts_with_iff)
  have first: "framed (same_below ?A)
      (if is_system_service te (uo_user o') dir ks then uninstall_service pr (uo_service_name o') else done_with ())"
    by (intro below.steps unit)
  from t have "same_below ?A ?m m'"
    unfolding tear_down_def fst_conv snd_conv
  proof (rule afterE)
    fix x m1
    assume a: "(if is_system_service te (uo_user o') dir ks then uninstall_service pr (uo_service_name o')
          else done_with ()) ?m = (Inr x, m1)"
      and b: "after (remove_state_dir pr dir False) (\<lambda>removed. after (delete_key ks) (\<lambda>_. done_with removed)) m1 = (t, m')"
    have m1: "same_below ?A ?m m1" using framedD [OF first a] .
    then have e: "exists_path m1 ?A" using assms(4) by (simp add: same_below_def exists_path_def under_def)
    from b have "same_below ?A m1 m'"
    proof (rule afterE)
      fix y m2
      assume "remove_state_dir pr dir False m1 = (Inr y, m2)" and c: "after (delete_key ks) (\<lambda>_. done_with y) m2 = (t, m')"
      then have "same_below ?A m1 m2" using audit_dir_below [OF assms(5) e] by blast
      moreover have "framed (same_below ?A) (after (delete_key ks) (\<lambda>_. done_with y))"
        by (intro below.steps key)
      ultimately show ?thesis using framedD c below.step by blast
    qed (use audit_dir_below [OF assms(5) e] in blast)
    then show ?thesis using m1 below.step by blast
  qed (use framedD [OF first] in blast)
  then show ?thesis by (simp add: same_below_def)
qed (auto simp: same_below_def)

text \<open>A deployment of two files and an audit log, and a file that cannot be removed.\<close>

definition demo_process :: process where
  "demo_process =
     \<lparr>pr_platform = Linux, pr_euid_root = True, pr_marker = False, pr_role_query = None,
      pr_exe = Inr ''/usr/bin/mwsqlctl'', pr_status = (\<lambda>k c. Inr (Some 0)), pr_output = (\<lambda>k c. Inr (True, [])),
      pr_fault = (\<lambda>p. None),
      pr_remove = (\<lambda>p. if p = ''/s/config.sealed'' then Some (''denied'', \<lambda>q. False) else None),
      pr_entries = (\<lambda>m dir. Inr [Inr ''master.key'', Inr ''config.sealed'', Inr ''audit'']),
      pr_encode = (\<lambda>s. s), pr_system_root = None\<rparr>"

definition demo_machine :: machine where
  "demo_machine =
     \<lparr>mc_disk = \<lparr>fs_files = [''/s/master.key'' \<mapsto> [1], ''/s/config.sealed'' \<mapsto> [2], ''/s/audit/log'' \<mapsto> [3]],
                keychain = Map.empty\<rparr>,
      mc_dirs = (\<lambda>p. p \<in> {''/s'', ''/s/audit''}), mc_ran = [], mc_term = demo_terminal\<rparr>"

definition demo_place :: target_env where
  "demo_place = \<lparr>system_dir = ''/s'', legacy_dir = ''/u'', path_exists = (\<lambda>p. False)\<rparr>"

definition demo_uninstall :: uninstall_opts where
  "demo_uninstall =
     \<lparr>uo_state_dir = None, uo_user = False, uo_file_keystore = False, uo_service_name = ''mwsqld'', uo_yes = True,
      uo_purge_audit = False, uo_uac = False\<rparr>"

lemma demo_place_target: "resolve_cli_target demo_place None False False = (''/s'', default_file ''/s'')"
  by (simp add: resolve_cli_target_def resolve_target_def demo_place_def should_use_legacy_user_dir_def Let_def)

lemma demo_entries: "entries_named demo_process dir"
  by (simp add: entries_named_def demo_process_def)

theorem uninstall_keeps_audit_witness:
  "same_below ''/s/audit'' demo_machine (snd (run_uninstall demo_process demo_place demo_uninstall demo_machine))"
proof -
  have t: "resolve_cli_target demo_place (uo_state_dir demo_uninstall) (uo_user demo_uninstall)
      (uo_file_keystore demo_uninstall) = (''/s'', default_file ''/s'')"
    using demo_place_target by (simp add: demo_uninstall_def)
  have e: "exists_path demo_machine (path_join ''/s'' AUDIT_DIR)"
    by (simp add: exists_path_def demo_machine_def path_join_def AUDIT_DIR_def)
  have u: "\<not> under (path_join ''/s'' AUDIT_DIR) (unit_file (uo_service_name demo_uninstall))"
    by (simp add: under_def path_join_def AUDIT_DIR_def unit_file_def demo_uninstall_def starts_with_iff)
  have "same_below (path_join ''/s'' AUDIT_DIR) demo_machine
      (snd (run_uninstall demo_process demo_place demo_uninstall demo_machine))"
    by (rule uninstall_keeps_audit [OF prod.collapse [symmetric] _ t e demo_entries u]) (simp add: demo_uninstall_def)
  then show ?thesis by (simp add: path_join_def AUDIT_DIR_def)
qed

text \<open>
  Nothing is removed unasked. Without \<open>--yes\<close>, and without a terminal on which the operator
  answers yes, an uninstall removes no file, runs no command and starts no elevated child; it ends aborted
  or with an error.
\<close>

theorem uninstall_needs_confirmation:
  assumes "run_uninstall pr te o' m = (r, m')" and "\<not> uo_yes o'"
    and "tm_is_terminal (mc_term m) \<Longrightarrow> fst (confirm_prompt False (mc_term m)) \<noteq> Inr True"
  shows "mc_disk m' = mc_disk m \<and> mc_dirs m' = mc_dirs m \<and> mc_ran m' = mc_ran m \<and>
    (\<forall>x. r \<noteq> Inr (Removed x)) \<and> (\<forall>e. r \<noteq> Inr (GivenToChild e))"
  using assms(1) refl by (rule uninstall_cases) (use assms(2,3) in auto)

theorem uninstall_needs_confirmation_witness:
  "mc_disk (snd (run_uninstall demo_process demo_place (demo_uninstall\<lparr>uo_yes := False\<rparr>)
     (demo_machine\<lparr>mc_term := demo_terminal\<lparr>tm_is_terminal := True\<rparr>\<rparr>))) = mc_disk demo_machine"
proof -
  let ?m = "demo_machine\<lparr>mc_term := demo_terminal\<lparr>tm_is_terminal := True\<rparr>\<rparr>"
  have "fst (confirm_prompt False (mc_term ?m)) \<noteq> Inr True"
    by (simp add: confirm_prompt_def prompt_until_def demo_terminal_def)
  then show ?thesis
    using uninstall_needs_confirmation [of demo_process demo_place "demo_uninstall\<lparr>uo_yes := False\<rparr>" ?m,
        OF prod.collapse [symmetric]]
    by (simp add: demo_uninstall_def)
qed

section \<open>The key goes last\<close>



text \<open>A key file goes in the order of the listing: the configuration may be left without its key, though
  the code's comment says the key is never destroyed while the configuration still exists.\<close>

theorem key_file_may_go_first:
  "fst (run_uninstall demo_process demo_place demo_uninstall demo_machine) =
     Inl ''remove /s/config.sealed: denied'' \<and>
   fs_files (mc_disk (snd (run_uninstall demo_process demo_place demo_uninstall demo_machine))) ''/s/master.key'' = None \<and>
   fs_files (mc_disk (snd (run_uninstall demo_process demo_place demo_uninstall demo_machine))) ''/s/config.sealed'' = Some [2]"
proof -
  have v: "validate_service_name ''mwsqld'' = Inr ()" by code_simp
  have "run_uninstall demo_process demo_place demo_uninstall demo_machine =
    after (tear_down demo_process ''mwsqld'' True False (''/s'', default_file ''/s''))
      (\<lambda>r. done_with (Removed r)) demo_machine"
    using demo_place_target
    by (simp add: run_uninstall_def demo_uninstall_def v Let_def is_system_service_def default_file_def
        is_system_state_dir_def demo_place_def after_def [of "done_with True"] done_with_def
        needs_service_elevation_def is_root_def demo_process_def)
  then show ?thesis
    by (simp add: tear_down_def uninstall_service_def is_root_def demo_process_def run_anyway_def run_status_def
        after_def remove_unit_def exists_path_def demo_machine_def unit_file_def remove_state_dir_def path_join_def
        AUDIT_DIR_def remove_file_def)
qed

section \<open>The elevated child\<close>

text \<open>The child's own reading of its arguments.\<close>

fun read_uninstall_args :: "string list \<Rightarrow> uninstall_opts \<Rightarrow> uninstall_opts option" where
  "read_uninstall_args [] o' = Some o'"
| "read_uninstall_args (x # xs) o' =
     (if x = ''--yes'' then read_uninstall_args xs (o'\<lparr>uo_yes := True\<rparr>)
      else if x = ''--purge-audit'' then read_uninstall_args xs (o'\<lparr>uo_purge_audit := True\<rparr>)
      else if x = ''--file-keystore'' then read_uninstall_args xs (o'\<lparr>uo_file_keystore := True\<rparr>)
      else if x = ''--uac'' then read_uninstall_args xs (o'\<lparr>uo_uac := True\<rparr>)
      else (case xs of
              [] \<Rightarrow> None
            | v # ys \<Rightarrow>
                if x = ''--state-dir'' then read_uninstall_args ys (o'\<lparr>uo_state_dir := Some v\<rparr>)
                else if x = ''--service-name'' then read_uninstall_args ys (o'\<lparr>uo_service_name := v\<rparr>)
                else None))"

definition no_opts :: uninstall_opts where
  "no_opts =
     \<lparr>uo_state_dir = None, uo_user = False, uo_file_keystore = False, uo_service_name = ''mwsqld'', uo_yes = False,
      uo_purge_audit = False, uo_uac = False\<rparr>"



end
