(* ===== verification/Init_Laws.thy ===== *)
theory Init_Laws
  imports Deploy_Laws
begin

text \<open>
  What \<open>init\<close> promises of a deployment that is there already: setting it up again, accounts,
  service and all, keeps its configuration, and so does the wizard it offers at the end.
\<close>

definition same_config :: "state_env \<Rightarrow> machine \<Rightarrow> machine \<Rightarrow> bool" where
  "same_config env m m' \<longleftrightarrow> (\<forall>c. loads env (mc_disk m') c \<longleftrightarrow> loads env (mc_disk m) c)"

interpretation stored: frame "same_config env" for env
  by unfold_locales (auto simp: same_config_def)

definition placed :: "state_env \<Rightarrow> bool" where
  "placed env \<longleftrightarrow> se_keystore env = default_file (se_dir env) \<or> se_keystore env = default_os"

lemma unit_elsewhere:
  "unit_file nm \<noteq> path_join dir CONFIG_FILE_NAME" "unit_file nm \<noteq> path_join dir FILE_MASTER_KEY_NAME"
proof -
  have "last (unit_file nm) = CHR ''e''" by (simp add: unit_file_def)
  moreover have "last (path_join dir CONFIG_FILE_NAME) = CHR ''d''" "last (path_join dir FILE_MASTER_KEY_NAME) = CHR ''y''"
    by (simp_all add: path_join_def CONFIG_FILE_NAME_def FILE_MASTER_KEY_NAME_def)
  ultimately show "unit_file nm \<noteq> path_join dir CONFIG_FILE_NAME" "unit_file nm \<noteq> path_join dir FILE_MASTER_KEY_NAME"
    by auto
qed

lemma unit_written:
  assumes "placed env"
  shows "framed (same_config env) (write_service_artifact pr (unit_file nm) a f)"
proof -
  have "load_config env (d\<lparr>fs_files := (fs_files d)(unit_file nm \<mapsto> b)\<rparr>) =
      (load_config env d :: mutate_error state_error + config)" for d b
  proof -
    have "keystore_load hx (se_keystore env) (d\<lparr>fs_files := (fs_files d)(unit_file nm \<mapsto> b)\<rparr>) =
        keystore_load hx (se_keystore env) d" for hx
      using assms unit_elsewhere(2) [of nm "se_dir env"]
      by (auto simp: placed_def default_file_def default_os_def file_load_def os_load_def)
    then show ?thesis
      using unit_elsewhere(1) [of nm "se_dir env"] by (simp add: load_config_def sealed_path_def split: option.split)
  qed
  then show ?thesis
    by (auto simp: framed_def write_service_artifact_def write_file_def same_config_def
        split: if_splits option.splits)
qed

lemma service_installed:
  assumes "placed env"
  shows "framed (same_config env) (install_and_enable_service pr nm exec_path dir)"
  unfolding install_and_enable_service_def
  by (intro stored.steps stored.service unit_written [OF assms])

lemma loads_initialized: "loads (state_at ie target) (mc_disk m) c \<Longrightarrow> is_initialized (fst target) m"
  by (auto simp: is_initialized_def exists_path_def state_at_def at_target_def load_config_def sealed_path_def
      split: option.splits)

lemma seeded: "loads (state_at ie target) (mc_disk m) c \<Longrightarrow> seed_if_needed ie target m = (Inr (), m)"
  by (simp add: seed_if_needed_def loads_initialized)

lemma install_keeps:
  assumes "placed (state_at ie target)" and "loads (state_at ie target) (mc_disk m) c"
    and "install_deployment pr ie o' target m = (r, m')"
  shows "same_config (state_at ie target) m m'"
  using assms(3) unfolding install_deployment_def
proof (rule afterE)
  fix x m1
  let ?rest = "after (if pr_platform pr = Linux \<and> is_root pr
            then chown_state_dir pr (fst target) (io_service_name o') else done_with ()) (\<lambda>_.
     install_and_enable_service pr (io_service_name o') (io_exec_path o') (fst target))"
  assume "prepare_accounts pr (io_service_name o') (ie_sudo_user ie) m = (Inr x, m1)"
    and b: "after (seed_if_needed ie target) (\<lambda>_. ?rest) m1 = (r, m')"
  then have m1: "same_config (state_at ie target) m m1" using framedD [OF stored.service(2)] by blast
  then have "seed_if_needed ie target m1 = (Inr (), m1)"
    using assms(2) by (intro seeded) (auto simp: same_config_def)
  then have "?rest m1 = (r, m')" using b by (simp add: after_def [of "seed_if_needed ie target"])
  moreover have "framed (same_config (state_at ie target)) ?rest"
    by (intro stored.steps stored.service service_installed [OF assms(1)])
  ultimately show ?thesis using m1 framedD stored.step by blast
qed (use framedD [OF stored.service(2)] in blast)

text \<open>What loads after a step keeps what was configured.\<close>

definition still_there :: "state_env \<Rightarrow> config \<Rightarrow> machine \<Rightarrow> bool" where
  "still_there env c0 m \<longleftrightarrow> (\<forall>c. loads env (mc_disk m) c \<longrightarrow> keeps c0 c)"

lemma still_there_step: "still_there env c0 m \<Longrightarrow> same_config env m m' \<Longrightarrow> still_there env c0 m'"
  by (simp add: still_there_def same_config_def)

lemma run_config_still_there:
  assumes "steady (at_target target (ie_cli ie)) peer" and "still_there (state_at ie target) c0 m"
  shows "\<exists>r m'. run_config ie target m = Some (r, m') \<and> still_there (state_at ie target) c0 m'"
proof -
  let ?s = "\<lparr>wz_term = mc_term m, wz_calls = 0, wz_server = (ie_server ie)\<lparr>sv_disk := mc_disk m\<rparr>, wz_shown = []\<rparr>"
  have "kept (at_target target (ie_cli ie)) c0 (wz_server ?s)"
    using assms(2) by (simp add: kept_def still_there_def state_at_def)
  from run_config_kept [OF assms(1) this, of False] show ?thesis
    by (auto simp: run_config_def kept_def still_there_def state_at_def)
qed

lemma offer_still_there:
  assumes "steady (at_target target (ie_cli ie)) peer" and "still_there (state_at ie target) c0 m"
  shows "\<exists>r m'. offer_configure pr ie target nm interactive m = Some (r, m') \<and>
    still_there (state_at ie target) c0 m'"
proof -
  obtain r m1 where a: "(if interactive then on_terminal (confirm_prompt True) m else (Inr False, m)) = (r, m1)"
    by fastforce
  have "same_config (state_at ie target) m m1"
    using a framedD [OF stored.simple(3)] stored.same by (auto split: if_splits)
  then have m1: "still_there (state_at ie target) c0 m1" using assms(2) still_there_step by blast
  obtain q m2 where c: "run_config ie target m1 = Some (q, m2)" and m2: "still_there (state_at ie target) c0 m2"
    using run_config_still_there [OF assms(1) m1] by blast
  have "still_there (state_at ie target) c0 (snd (finalize_service_config pr nm dir changed m2))" for dir changed
    using still_there_step [OF m2] framedD [OF stored.service(4)] by (metis prod.collapse)
  then show ?thesis
    using a c m1 m2 by (auto simp: offer_configure_def split: sum.splits bool.splits) (metis prod.collapse)+
qed

lemma resolved_placed:
  assumes "resolve_service_install_target te d u f = target"
  shows "placed (state_at ie target)"
proof -
  have "snd target = default_file (fst target) \<or> snd target = default_os"
    using resolved_keystore [of te d u f False "fst target" "snd target"] assms
    by (simp add: resolve_service_install_target_def)
  then show ?thesis by (simp add: placed_def state_at_def at_target_def)
qed


text \<open>The demonstration's state directory, with its key in it.\<close>

definition placed_server :: "(unit, unit) server_env" where
  "placed_server = demo_server\<lparr>sv_state := (sv_state demo_server)\<lparr>se_dir := ''/s'',
     se_keystore := default_file ''/s''\<rparr>\<rparr>"

definition placed_cli :: "(unit, unit) cli_env" where
  "placed_cli = demo_cli\<lparr>ce_server := placed_server,
     ce_call := (\<lambda>k req st. let (resp, st') = dispatch placed_server demo_turn demo_peer req st in (finish (Inr resp), st'))\<rparr>"

definition demo_init :: "(unit, unit) init_env" where
  "demo_init =
     \<lparr>ie_target = demo_place, ie_cli = placed_cli, ie_server = demo_started, ie_fault = no_fault,
      ie_key = replicate 32 1, ie_sudo_user = Some ''op''\<rparr>"

definition demo_init_opts :: init_opts where
  "demo_init_opts =
     \<lparr>io_state_dir = None, io_user = False, io_file_keystore = False, io_service_name = ''mwsqld'',
      io_exec_path = None, io_uac = False\<rparr>"

lemma placed_at: "at_target (''/s'', default_file ''/s'') placed_cli = placed_cli"
  by (simp add: at_target_def placed_cli_def placed_server_def)

lemma placed_loads:
  "load_config (sv_state placed_server)
     (sample_disk\<lparr>fs_files := (fs_files sample_disk)(''/s/master.key'' \<mapsto> replicate 32 1)\<rparr>) =
   (Inr demo_config :: mutate_error state_error + config)"
proof -
  let ?d = "sample_disk\<lparr>fs_files := (fs_files sample_disk)(''/s/master.key'' \<mapsto> replicate 32 1)\<rparr>"
  have "unseal demo_ops sample_blob (replicate 32 1) [] = Inr demo_config"
    unfolding sample_blob_def
    by (rule unseal_seal [OF demo_ops_laws _ _ _ demo_seal])
      (simp_all add: SALT_LEN_def NONCE_LEN_def demo_config_def daemon_config_def)
  moreover have "fs_files ?d ''/s/config.sealed'' = Some sample_blob" by (simp add: sample_disk_def)
  moreover have "sealed_path (sv_state placed_server) = ''/s/config.sealed''"
    by (simp add: placed_server_def sealed_path_def path_join_def CONFIG_FILE_NAME_def)
  moreover have "keystore_load hx (default_file ''/s'') ?d = Inr (replicate 32 1)" for hx
    by (simp add: default_file_def file_load_def path_join_def FILE_MASTER_KEY_NAME_def key_of_raw_def KEY_LEN_def)
  moreover have "se_keystore (sv_state placed_server) = default_file ''/s''" "se_seal (sv_state placed_server) = demo_ops"
    by (simp_all add: placed_server_def demo_server_def)
  ultimately show ?thesis by (simp only: load_config_def demo_valid option.case sum.case)
qed

lemma placed_steady: "steady placed_cli demo_peer"
proof -
  have "state_env_ok (sv_state placed_server)"
    using demo_state_ok
    by (simp add: placed_server_def state_env_ok_def keystore_elsewhere_def default_file_def sealed_path_def
        backup_path_def tmp_path_def path_join_def CONFIG_FILE_NAME_def CONFIG_BACKUP_NAME_def CONFIG_TMP_NAME_def
        FILE_MASTER_KEY_NAME_def)
  moreover have "answered placed_cli demo_peer"
    by (simp add: answered_def placed_cli_def demo_cli_def)
  ultimately show ?thesis
    using demo_turn_ok by (simp add: steady_def) (simp add: placed_cli_def demo_cli_def)
qed


end
