(* ===== verification/Windows_Control.thy ===== *)
theory Windows_Control
  imports Wide_String Control_Client
begin

text \<open>
  The Windows side of the control channel: \<open>crates/mwsqld/src/control/windows.rs\<close> (a named pipe
  with a DACL, the peer recognised by impersonating it), the service entry
  \<open>crates/mwsqld/src/winsvc.rs\<close>, and the client's \<open>call_windows\<close> of
  \<open>crates/mwsqlctl/src/control_client.rs\<close>. The calls of the operating system are fields of the
  record \<open>win_os\<close>; a buffer it fills is a list of the size asked for.
\<close>

section \<open>The operating system\<close>

text \<open>
  A call that fails gives the text of \<open>last_os_error\<close> where the code reads it and \<open>None\<close>
  where it does not. A call made twice, first for the size of its buffer, has a field for each.
\<close>

record win_os =
  wo_impersonate :: "nat \<Rightarrow> string option"
  wo_thread_token :: "string + nat"
  wo_user_size :: "nat \<Rightarrow> nat"
  wo_user_sid :: "nat \<Rightarrow> nat \<Rightarrow> bytes option"
  wo_member :: "nat \<Rightarrow> bytes \<Rightarrow> bool option"
  wo_sid_sizes :: "bytes \<Rightarrow> nat \<times> nat"
  wo_sid_account :: "bytes \<Rightarrow> nat \<Rightarrow> nat \<Rightarrow> (u16 list \<times> u16 list) option"
  wo_name_sizes :: "u16 list \<Rightarrow> nat \<times> nat"
  wo_name_sid :: "u16 list \<Rightarrow> nat \<Rightarrow> nat \<Rightarrow> bytes option"
  wo_well_known :: "int \<Rightarrow> nat \<Rightarrow> bytes option"
  wo_sid_text :: "bytes \<Rightarrow> u16 list option"
  wo_descriptor :: "u16 list \<Rightarrow> u32 \<Rightarrow> string option"

text \<open>A zeroed buffer after a call wrote to its front.\<close>

definition filled :: "nat \<Rightarrow> 'a \<Rightarrow> 'a list \<Rightarrow> 'a list" where
  "filled n z xs = take n xs @ replicate (n - length xs) z"

definition SDDL_REVISION_1 :: u32 where "SDDL_REVISION_1 = 1"
definition WIN_BUILTIN_ADMINISTRATORS_SID :: int where "WIN_BUILTIN_ADMINISTRATORS_SID = 26"
definition SECURITY_MAX_SID_SIZE :: nat where "SECURITY_MAX_SID_SIZE = 68"

text \<open>What touches the thread's identity and the handles it holds, in order.\<close>

datatype win_call =
    Impersonated nat
  | Reverted
  | TokenOpened nat
  | TokenClosed nat
  | MemberChecked nat bytes

section \<open>Names and SIDs\<close>

definition sid_to_string :: "win_os \<Rightarrow> bytes \<Rightarrow> string option" where
  "sid_to_string os sid =
     (case wo_sid_text os sid of None \<Rightarrow> None | Some p \<Rightarrow> wide_ptr_to_string p)"

definition account_name :: "win_os \<Rightarrow> bytes \<Rightarrow> string option" where
  "account_name os sid =
     (let (name_len, dom_len) = wo_sid_sizes os sid
      in if name_len = 0 then None
         else case wo_sid_account os sid name_len dom_len of
                None \<Rightarrow> None
              | Some (nm, dm) \<Rightarrow>
                  (let nm = wide_to_string (filled name_len 0 nm);
                       dm = wide_to_string (filled dom_len 0 dm)
                   in Some (if dm = [] then nm else dm @ [CHR 0x5C] @ nm)))"

definition resolve_group_sid :: "win_os \<Rightarrow> string \<Rightarrow> bytes option" where
  "resolve_group_sid os nm =
     (let wname = wide nm; (sid_len, dom_len) = wo_name_sizes os wname
      in if sid_len = 0 then None
         else map_option (filled sid_len 0) (wo_name_sid os wname sid_len dom_len))"

definition well_known_sid :: "win_os \<Rightarrow> int \<Rightarrow> bytes option" where
  "well_known_sid os which =
     map_option (take SECURITY_MAX_SID_SIZE) (wo_well_known os which SECURITY_MAX_SID_SIZE)"

text \<open>For the audit record only.\<close>

definition token_user_display :: "win_os \<Rightarrow> nat \<Rightarrow> string option" where
  "token_user_display os token =
     (let needed = wo_user_size os token
      in if needed = 0 then None
         else case wo_user_sid os token needed of
                None \<Rightarrow> None
              | Some sid \<Rightarrow>
                  (case account_name os sid of Some s \<Rightarrow> Some s | None \<Rightarrow> sid_to_string os sid))"

section \<open>The peer\<close>

definition check_membership :: "win_os \<Rightarrow> nat \<Rightarrow> bytes \<Rightarrow> bool \<times> win_call list" where
  "check_membership os token sid =
     ((case wo_member os token sid of Some m \<Rightarrow> m | None \<Rightarrow> False), [MemberChecked token sid])"

text \<open>The membership of a SID that may be missing: false then, without a call.\<close>

definition member_of :: "win_os \<Rightarrow> nat \<Rightarrow> bytes option \<Rightarrow> bool \<times> win_call list" where
  "member_of os token sid = (case sid of None \<Rightarrow> (False, []) | Some s \<Rightarrow> check_membership os token s)"

text \<open>The guard of \<open>RevertToSelf\<close> is dropped after everything else, on both ways out.\<close>

definition resolve_pipe_peer ::
  "win_os \<Rightarrow> nat \<Rightarrow> bytes option \<Rightarrow> (auth_decision \<times> peer_identity) \<times> win_call list" where
  "resolve_pipe_peer os pipe_h admins_sid =
     (case wo_impersonate os pipe_h of
        Some e \<Rightarrow> ((AuthDeny (''could not impersonate pipe client: '' @ e), default_peer), [])
      | None \<Rightarrow>
          (case wo_thread_token os of
             Inl e \<Rightarrow> ((AuthDeny (''could not open pipe-client thread token: '' @ e), default_peer),
                [Impersonated pipe_h, Reverted])
           | Inr token \<Rightarrow>
               (let peer = \<lparr>peer_uid = None, peer_gid = None,
                      peer_user = (case token_user_display os token of Some u \<Rightarrow> u | None \<Rightarrow> ''<unknown>'')\<rparr>;
                    (is_admins_member, c1) = member_of os token admins_sid;
                    (is_builtin_admin, c2) =
                      member_of os token (well_known_sid os WIN_BUILTIN_ADMINISTRATORS_SID)
                in ((authorize_windows is_admins_member is_builtin_admin, peer),
                    [Impersonated pipe_h, TokenOpened token] @ c1 @ c2 @ [TokenClosed token, Reverted]))))"

section \<open>The pipe\<close>

definition pipe_name :: "string \<Rightarrow> string" where
  "pipe_name svc = [CHR 0x5C, CHR 0x5C] @ ''.'' @ [CHR 0x5C] @ ''pipe'' @ [CHR 0x5C] @ ''middlewhere-'' @ svc @ ''-control''"

definition build_sddl :: "win_os \<Rightarrow> bytes option \<Rightarrow> string" where
  "build_sddl os admins_sid =
     ''D:'' @
     (case admins_sid of
        None \<Rightarrow> []
      | Some sid \<Rightarrow> (case sid_to_string os sid of None \<Rightarrow> [] | Some s \<Rightarrow> ''(A;;GA;;;'' @ s @ '')'')) @
     ''(A;;GA;;;BA)(A;;GA;;;SY)''"

record pipe_instance =
  pi_name :: string
  pi_first :: bool
  pi_sddl :: string

datatype pipe_error = BadDescriptor string string | PipeNotMade string string

text \<open>\<open>made\<close> is what the creation of the pipe itself gives.\<close>

definition create_instance ::
  "win_os \<Rightarrow> string \<Rightarrow> bool \<Rightarrow> bytes option \<Rightarrow> string option \<Rightarrow> pipe_error + pipe_instance" where
  "create_instance os nm first admins_sid made =
     (let sddl = build_sddl os admins_sid
      in case wo_descriptor os (wide sddl) SDDL_REVISION_1 of
           Some e \<Rightarrow> Inl (BadDescriptor sddl e)
         | None \<Rightarrow>
             (case made of
                Some e \<Rightarrow> Inl (PipeNotMade nm e)
              | None \<Rightarrow> Inr \<lparr>pi_name = nm, pi_first = first, pi_sddl = sddl\<rparr>))"

section \<open>The accept loop\<close>

text \<open>
  The loop keeps one instance listening. A connected instance is handed to a handler once its
  replacement exists and one of the \<open>MAX_INFLIGHT\<close> permits is free; while it waits for the
  permit nothing else happens in the loop, the shutdown included. An event carries what making the next
  pipe instance gives. An instance is its index in the list of those made.
\<close>

record pipe_loop =
  pl_server :: nat
  pl_next :: "nat option"
  pl_running :: "nat list"
  pl_stopped :: bool
  pl_made :: "pipe_instance list"

datatype pipe_event =
    PipeConnected "string option"
  | PipeConnectFailed "string option"
  | PipeHandlerEnded nat
  | PipeShutdown

definition pipe_start :: "win_os \<Rightarrow> string option \<Rightarrow> pipe_error + pipe_loop" where
  "pipe_start os made =
     (case create_instance os (pipe_name SERVICE_NAME) True (resolve_group_sid os ADMIN_GROUP) made of
        Inl e \<Rightarrow> Inl e
      | Inr i \<Rightarrow>
          Inr \<lparr>pl_server = 0, pl_next = None, pl_running = [], pl_stopped = False, pl_made = [i]\<rparr>)"

definition next_instance :: "win_os \<Rightarrow> string option \<Rightarrow> pipe_loop \<Rightarrow> (nat \<times> pipe_loop) option" where
  "next_instance os made l =
     (case create_instance os (pipe_name SERVICE_NAME) False (resolve_group_sid os ADMIN_GROUP) made of
        Inl _ \<Rightarrow> None
      | Inr i \<Rightarrow> Some (length (pl_made l), l\<lparr>pl_made := pl_made l @ [i]\<rparr>))"

text \<open>The connected instance goes to a handler, its replacement listens.\<close>

definition hand_over :: "nat \<Rightarrow> pipe_loop \<Rightarrow> pipe_loop" where
  "hand_over next l =
     l\<lparr>pl_running := pl_running l @ [pl_server l], pl_server := next, pl_next := None\<rparr>"

text \<open>\<open>None\<close>: the event cannot happen in this state.\<close>

definition pipe_step :: "win_os \<Rightarrow> pipe_event \<Rightarrow> pipe_loop \<Rightarrow> pipe_loop option" where
  "pipe_step os ev l =
     (let busy = pl_stopped l \<or> pl_next l \<noteq> None
      in case ev of
           PipeConnected made \<Rightarrow>
             if busy then None
             else (case next_instance os made l of
                     None \<Rightarrow> Some l
                   | Some (next, l') \<Rightarrow>
                       if length (pl_running l') < MAX_INFLIGHT then Some (hand_over next l')
                       else Some (l'\<lparr>pl_next := Some next\<rparr>))
         | PipeConnectFailed made \<Rightarrow>
             if busy then None
             else (case next_instance os made l of
                     None \<Rightarrow> Some l
                   | Some (next, l') \<Rightarrow> Some (l'\<lparr>pl_server := next\<rparr>))
         | PipeHandlerEnded i \<Rightarrow>
             if i \<notin> set (pl_running l) then None
             else (let l' = l\<lparr>pl_running := remove1 i (pl_running l)\<rparr>
                   in case pl_next l of None \<Rightarrow> Some l' | Some next \<Rightarrow> Some (hand_over next l'))
         | PipeShutdown \<Rightarrow> if busy then None else Some (l\<lparr>pl_stopped := True\<rparr>))"

inductive pipe_reaches :: "win_os \<Rightarrow> pipe_loop \<Rightarrow> bool" for os where
  start: "pipe_start os made = Inr l \<Longrightarrow> pipe_reaches os l"
| step: "pipe_reaches os l \<Longrightarrow> pipe_step os ev l = Some l' \<Longrightarrow> pipe_reaches os l'"

text \<open>One connection: the peer is only resolved when the connection asks for it.\<close>

definition pipe_conn ::
  "win_os \<Rightarrow> nat \<Rightarrow> (bytes \<Rightarrow> string + request) \<Rightarrow> (response \<Rightarrow> string + bytes) \<Rightarrow> ('w, 'h) server_env
     \<Rightarrow> 'w turn \<Rightarrow> bytes \<Rightarrow> 'h server \<Rightarrow> conn_event list \<times> win_call list \<times> 'h server" where
  "pipe_conn os pipe_h dec enc sv tn inp st =
     (let (resolved, calls) = resolve_pipe_peer os pipe_h (resolve_group_sid os ADMIN_GROUP);
          (evs, st') = handle_conn dec enc sv tn resolved inp st
      in (evs, if list_ex (\<lambda>ev. case ev of PeerResolved _ _ \<Rightarrow> True | _ \<Rightarrow> False) evs then calls else [], st'))"

section \<open>The service\<close>

datatype svc_state = StartPending | SvcRunning | StopPending | SvcStopped

record svc_report =
  sr_state :: svc_state
  sr_accepts_stop :: bool
  sr_exit_code :: u32
  sr_checkpoint :: nat

definition svc_status :: "svc_state \<Rightarrow> bool \<Rightarrow> nat \<Rightarrow> svc_report" where
  "svc_status st accept checkpoint =
     \<lparr>sr_state = st, sr_accepts_stop = accept, sr_exit_code = 0, sr_checkpoint = checkpoint\<rparr>"

datatype svc_control = CtlStop | CtlShutdown | CtlInterrogate | CtlOther

text \<open>The answer to a control code (\<open>NoError\<close> or \<open>NotImplemented\<close>) and whether it asks
  the daemon to stop.\<close>

definition svc_handler :: "svc_control \<Rightarrow> bool \<times> bool" where
  "svc_handler c =
     (case c of
        CtlStop \<Rightarrow> (True, True) | CtlShutdown \<Rightarrow> (True, True)
      | CtlInterrogate \<Rightarrow> (True, False) | CtlOther \<Rightarrow> (False, False))"

text \<open>What each part of the start gives: an error, or what the next part needs. \<open>sw_report\<close> is
  the outcome of a status report.\<close>

record 'd svc_world =
  sw_register :: "string option"
  sw_report :: "svc_report \<Rightarrow> string option"
  sw_target :: "(string \<times> keystore_choice) option"
  sw_audit :: "string \<Rightarrow> string option"
  sw_runtime :: "string option"
  sw_load :: "string \<Rightarrow> keystore_choice \<Rightarrow> string + config"
  sw_bind :: "string \<Rightarrow> config \<Rightarrow> string \<Rightarrow> bool \<Rightarrow> keystore_choice \<Rightarrow> string + 'd"
  sw_run :: "'d \<Rightarrow> string option"

datatype svc_end = SvcOk | SvcError string | SvcPanic

text \<open>The status reports made, in order, with how it ends.\<close>

definition svc_serve :: "'d svc_world \<Rightarrow> string \<Rightarrow> keystore_choice \<Rightarrow> string option \<times> svc_report list" where
  "svc_serve w dir ks =
     (case sw_load w dir ks of
        Inl e \<Rightarrow> (Some e, [])
      | Inr cfg \<Rightarrow>
          (case sw_bind w dir cfg ''127.0.0.1'' False ks of
             Inl e \<Rightarrow> (Some e, [])
           | Inr d \<Rightarrow>
               (let up = svc_status SvcRunning True 0
                in case sw_report w up of
                     Some e \<Rightarrow> (Some e, [up])
                   | None \<Rightarrow> (sw_run w d, [up]))))"

definition run_service :: "'d svc_world \<Rightarrow> svc_end \<times> svc_report list" where
  "run_service w =
     (let starting = svc_status StartPending False 1; stopping = svc_status StopPending False 1;
          stopped = svc_status SvcStopped False 0
      in case sw_register w of Some e \<Rightarrow> (SvcError e, []) | None \<Rightarrow>
         case sw_report w starting of Some e \<Rightarrow> (SvcError e, [starting]) | None \<Rightarrow>
         case sw_target w of None \<Rightarrow> (SvcPanic, [starting]) | Some (dir, ks) \<Rightarrow>
         case sw_audit w dir of Some e \<Rightarrow> (SvcError e, [starting]) | None \<Rightarrow>
         case sw_runtime w of Some e \<Rightarrow> (SvcError e, [starting]) | None \<Rightarrow>
         (let (served, rs) = svc_serve w dir ks
          in case sw_report w stopping of
               Some e \<Rightarrow> (SvcError e, [starting] @ rs @ [stopping])
             | None \<Rightarrow>
                 (case sw_report w stopped of
                    Some e \<Rightarrow> (SvcError e, [starting] @ rs @ [stopping, stopped])
                  | None \<Rightarrow>
                      (case served of None \<Rightarrow> SvcOk | Some e \<Rightarrow> SvcError e,
                       [starting] @ rs @ [stopping, stopped]))))"

text \<open>The hidden \<open>service\<close> command of \<open>mwsqld\<close>: the target of its flags and of the two
  environment variables is put aside for the callback.\<close>

definition service_command ::
  "target_env \<Rightarrow> string option \<Rightarrow> bool \<Rightarrow> bool \<Rightarrow> (string \<Rightarrow> string option) \<Rightarrow> 'd svc_world
     \<Rightarrow> svc_end \<times> svc_report list" where
  "service_command te state_dir user file_keystore var w =
     (let target = resolve_cli_target te state_dir (user \<or> env_flag (var ''MW_USER''))
            (file_keystore \<or> env_flag (var ''MW_FILE_KEYSTORE''))
      in run_service (w\<lparr>sw_target := Some target\<rparr>))"

section \<open>The client\<close>

definition ERROR_FILE_NOT_FOUND :: int where "ERROR_FILE_NOT_FOUND = 2"
definition ERROR_ACCESS_DENIED :: int where "ERROR_ACCESS_DENIED = 5"
definition ERROR_PIPE_BUSY :: int where "ERROR_PIPE_BUSY = 231"

datatype pipe_failure = PipeDenied | PipeOpen string | PipeStayedBusy string | PipeExchange call_failure

datatype pipe_call_error = PipeUnreachable string | PipeFailed pipe_failure

text \<open>
  \<open>opened k\<close> is what the k-th attempt to open the pipe gives: the raw error, when there is one, or
  the peer. With the outcome goes the time slept, in milliseconds.
\<close>

fun open_pipe :: "(nat \<Rightarrow> int option + 'p) \<Rightarrow> string \<Rightarrow> nat \<Rightarrow> nat \<Rightarrow> nat \<Rightarrow> (pipe_call_error + 'p) \<times> nat" where
  "open_pipe opened pipe attempt 0 slept = (Inl (PipeFailed (PipeStayedBusy pipe)), slept)"
| "open_pipe opened pipe attempt (Suc left) slept =
     (case opened attempt of
        Inr p \<Rightarrow> (Inr p, slept)
      | Inl e \<Rightarrow>
          if e = Some ERROR_PIPE_BUSY then open_pipe opened pipe (attempt + 1) left (slept + 100)
          else if e = Some ERROR_FILE_NOT_FOUND then (Inl (PipeUnreachable pipe), slept)
          else if e = Some ERROR_ACCESS_DENIED then (Inl (PipeFailed PipeDenied), slept)
          else (Inl (PipeFailed (PipeOpen pipe)), slept))"

definition finish_pipe :: "exchange_error + response \<Rightarrow> pipe_call_error + response" where
  "finish_pipe exchanged =
     (case finish exchanged of
        Inr resp \<Rightarrow> Inr resp
      | Inl (CallFailed f) \<Rightarrow> Inl (PipeFailed (PipeExchange f))
      | Inl (Unreachable p) \<Rightarrow> Inl (PipeUnreachable p))"

definition call_windows ::
  "(request \<Rightarrow> string + bytes) \<Rightarrow> (bytes \<Rightarrow> string + response) \<Rightarrow> (nat \<Rightarrow> int option + (bytes \<Rightarrow> bytes \<times> 's))
     \<Rightarrow> string \<Rightarrow> 's \<Rightarrow> request \<Rightarrow> (pipe_call_error + response) \<times> 's" where
  "call_windows enc dec opened svc st req =
     (case fst (open_pipe opened (pipe_name svc) 0 10 0) of
        Inl e \<Rightarrow> (Inl e, st)
      | Inr peer \<Rightarrow>
          (let (r, st') = exchange enc dec peer st req in (finish_pipe r, st')))"

definition pipe_reachable :: "int option + 'p \<Rightarrow> bool" where
  "pipe_reachable opened =
     (case opened of Inr _ \<Rightarrow> True | Inl e \<Rightarrow> e \<noteq> Some ERROR_FILE_NOT_FOUND)"

end
