(* ===== verification/Windows_Laws.thy ===== *)
theory Windows_Laws
  imports Windows_Control
begin

text \<open>
  What the Windows control channel guarantees: who reaches the handlers and with what left of the
  impersonation, whom the pipe admits, that the loop keeps exactly one instance listening, that a call
  over the pipe is the handler's answer; and what the service reports when the daemon could not serve.
\<close>

section \<open>The peer\<close>

text \<open>A client the operating system vouches for.\<close>

definition pipe_admin :: "win_os \<Rightarrow> nat \<Rightarrow> bytes option \<Rightarrow> bool" where
  "pipe_admin os pipe_h admins_sid \<longleftrightarrow>
     wo_impersonate os pipe_h = None \<and>
     (\<exists>token. wo_thread_token os = Inr token \<and>
        (\<exists>sid. (admins_sid = Some sid \<or> well_known_sid os WIN_BUILTIN_ADMINISTRATORS_SID = Some sid) \<and>
           wo_member os token sid = Some True))"

lemma member_of_iff: "fst (member_of os token sid) \<longleftrightarrow> (\<exists>s. sid = Some s \<and> wo_member os token s = Some True)"
  by (simp add: member_of_def check_membership_def split: option.splits)

lemma pipe_peer_fail_closed:
  "fst (fst (resolve_pipe_peer os pipe_h admins_sid)) = AuthAllow \<longleftrightarrow> pipe_admin os pipe_h admins_sid"
  by (auto simp: resolve_pipe_peer_def pipe_admin_def Let_def authorize_windows_def member_of_iff
      split: option.splits sum.splits prod.splits)
    (metis fst_conv member_of_iff)+

text \<open>The identity of the thread, and the tokens it holds open, after some calls.\<close>

fun thread_after :: "win_call list \<Rightarrow> bool \<times> nat set \<Rightarrow> bool \<times> nat set" where
  "thread_after [] t = t"
| "thread_after (Impersonated _ # cs) (_, ts) = thread_after cs (True, ts)"
| "thread_after (Reverted # cs) (_, ts) = thread_after cs (False, ts)"
| "thread_after (TokenOpened k # cs) (b, ts) = thread_after cs (b, insert k ts)"
| "thread_after (TokenClosed k # cs) (b, ts) = thread_after cs (b, ts - {k})"
| "thread_after (MemberChecked _ _ # cs) (b, ts) = thread_after cs (b, ts)"

lemma thread_after_append: "thread_after (cs @ ds) t = thread_after ds (thread_after cs t)"
  by (induction cs t rule: thread_after.induct) auto

lemma thread_after_member: "thread_after (snd (member_of os token sid)) t = t"
  by (cases t) (simp add: member_of_def check_membership_def split: option.splits)

text \<open>However the peer is resolved, the thread is itself again and holds no token.\<close>

lemma pipe_peer_reverted:
  "thread_after (snd (resolve_pipe_peer os pipe_h admins_sid)) (False, {}) = (False, {})"
proof -
  have m: "thread_after cs t = t" if "member_of os token sid = (b, cs)" for cs t token sid b
    using thread_after_member [of os token sid t] that by simp
  show ?thesis
    by (auto simp: resolve_pipe_peer_def Let_def thread_after_append m split: option.splits sum.splits prod.splits)
qed


text \<open>A connection on the pipe is a step of the server, or none.\<close>

lemma pipe_conn_served:
  assumes "served sv st" and "turn_ok tn"
  shows "served sv (snd (snd (pipe_conn os pipe_h dec enc sv tn inp st)))"
  using handle_conn_served [OF assms, of dec enc _ inp]
  by (auto simp: pipe_conn_def Let_def split: prod.splits) (metis snd_conv)

section \<open>Whom the pipe admits\<close>

text \<open>The access-control entries of a DACL, each with its fields.\<close>

definition read_dacl :: "string \<Rightarrow> string list list option" where
  "read_dacl s =
     (case strip_prefix ''D:'' s of
        None \<Rightarrow> None
      | Some b \<Rightarrow> Some (map (\<lambda>p. split_on (CHR '';'') (drop 1 p)) (butlast (split_on (CHR '')'') b))))"

definition full_access :: "string \<Rightarrow> string list" where
  "full_access trustee = [''A'', [], ''GA'', [], [], trustee]"

definition admin_sid_text :: "win_os \<Rightarrow> bytes option \<Rightarrow> string option" where
  "admin_sid_text os admins_sid = (case admins_sid of None \<Rightarrow> None | Some sid \<Rightarrow> sid_to_string os sid)"

text \<open>
  Whom the pipe admits. Its DACL, read back, grants full access to the admins group when its SID could
  be resolved and written, to the built-in administrators and to the system, and has no other entry, for
  SIDs written as Windows documents them, without a parenthesis or a semicolon.
\<close>

theorem pipe_admits_only_admins:
  assumes "\<And>sid s. sid_to_string os sid = Some s \<Longrightarrow> CHR '')'' \<notin> set s \<and> CHR '';'' \<notin> set s"
  shows "read_dacl (build_sddl os admins_sid) =
    Some (map full_access
      ((case admin_sid_text os admins_sid of None \<Rightarrow> [] | Some s \<Rightarrow> [s]) @ [''BA'', ''SY'']))"
proof (cases "admin_sid_text os admins_sid")
  case None
  then have "build_sddl os admins_sid = ''D:'' @ ''(A;;GA;;;BA)(A;;GA;;;SY)''"
    by (auto simp: build_sddl_def admin_sid_text_def split: option.splits)
  then show ?thesis using None by (simp add: read_dacl_def full_access_def strip_prefix_def)
next
  case (Some s)
  then obtain sid where s: "sid_to_string os sid = Some s" "admins_sid = Some sid"
    by (auto simp: admin_sid_text_def split: option.splits)
  note clean = assms [OF s(1)]
  have b: "build_sddl os admins_sid =
      ''D:'' @ (''(A;;GA;;;'' @ s) @ CHR '')'' # ''(A;;GA;;;BA'' @ CHR '')'' # ''(A;;GA;;;SY'' @ CHR '')'' # []"
    using s by (simp add: build_sddl_def)
  have p: "split_on (CHR '';'') (''A;;GA;;;'' @ s) = full_access s"
    using split_on_plain [of "CHR '';''" s] clean by (simp add: full_access_def)
  have q: "split_on (CHR '')'') ((''(A;;GA;;;'' @ s) @ CHR '')'' # rest) =
      (''(A;;GA;;;'' @ s) # split_on (CHR '')'') rest" for rest
    by (rule split_on_append) (use clean in simp)
  show ?thesis
    unfolding read_dacl_def b strip_prefix_append option.case q using p Some by (simp add: full_access_def)
qed

section \<open>The loop\<close>

text \<open>The instances the loop holds: the one listening or being handed over, its replacement, and those
  of the handlers.\<close>

definition held :: "pipe_loop \<Rightarrow> nat list" where
  "held l = pl_server l # (case pl_next l of None \<Rightarrow> [] | Some n \<Rightarrow> [n]) @ pl_running l"

text \<open>A made instance has the name of the service's pipe and its DACL; only the very first was made as
  the first of its name.\<close>

definition instance_ok :: "win_os \<Rightarrow> nat \<Rightarrow> pipe_instance \<Rightarrow> bool" where
  "instance_ok os k i \<longleftrightarrow> pi_name i = pipe_name SERVICE_NAME \<and> pi_first i = (k = 0) \<and>
     pi_sddl i = build_sddl os (resolve_group_sid os ADMIN_GROUP)"

definition pipe_inv :: "win_os \<Rightarrow> pipe_loop \<Rightarrow> bool" where
  "pipe_inv os l \<longleftrightarrow>
     distinct (held l) \<and> (\<forall>i\<in>set (held l). i < length (pl_made l)) \<and>
     length (pl_running l) \<le> MAX_INFLIGHT \<and>
     (pl_next l \<noteq> None \<longrightarrow> length (pl_running l) = MAX_INFLIGHT \<and> \<not> pl_stopped l) \<and>
     (\<forall>k < length (pl_made l). instance_ok os k (pl_made l ! k))"

lemma create_instance_ok:
  assumes "create_instance os (pipe_name SERVICE_NAME) first (resolve_group_sid os ADMIN_GROUP) made = Inr i"
    and "first = (k = 0)"
  shows "instance_ok os k i"
  using assms by (auto simp: create_instance_def instance_ok_def Let_def split: option.splits)

lemma next_instance_cases:
  assumes "next_instance os made l = Some (n, l')"
  obtains i where "n = length (pl_made l)" "l' = l\<lparr>pl_made := pl_made l @ [i]\<rparr>" "instance_ok os (Suc k) i"
proof -
  from assms obtain i where
      c: "create_instance os (pipe_name SERVICE_NAME) False (resolve_group_sid os ADMIN_GROUP) made = Inr i"
    and "n = length (pl_made l)" "l' = l\<lparr>pl_made := pl_made l @ [i]\<rparr>"
    by (auto simp: next_instance_def split: sum.splits)
  then show thesis using that create_instance_ok [OF c, of "Suc k"] by simp
qed

lemma made_append_ok:
  assumes "\<forall>k < length made. instance_ok os k (made ! k)" and "instance_ok os (Suc k) i" and "made \<noteq> []"
  shows "\<forall>k < length (made @ [i]). instance_ok os k ((made @ [i]) ! k)"
  using assms by (auto simp: nth_append less_Suc_eq instance_ok_def)

lemma pipe_start_inv: "pipe_start os made = Inr l \<Longrightarrow> pipe_inv os l"
  using create_instance_ok [where k = 0 and first = True]
  by (auto simp: pipe_start_def pipe_inv_def held_def MAX_INFLIGHT_def split: sum.splits)

lemma pipe_step_inv:
  assumes "pipe_inv os l" and "pipe_step os ev l = Some l'"
  shows "pipe_inv os l'"
proof (cases ev)
  case (PipeConnected made)
  show ?thesis
  proof (cases "next_instance os made l")
    case None
    then show ?thesis using assms PipeConnected by (auto simp: pipe_step_def Let_def split: if_splits)
  next
    case (Some p)
    obtain i where i: "p = (length (pl_made l), l\<lparr>pl_made := pl_made l @ [i]\<rparr>)" "instance_ok os (Suc 0) i"
      using next_instance_cases [of os made l] Some by (metis surj_pair)
    have "pl_made l \<noteq> []" using assms(1) by (auto simp: pipe_inv_def held_def)
    then show ?thesis
      using assms PipeConnected Some i made_append_ok [of "pl_made l" os 0 i]
      by (auto simp: pipe_step_def Let_def pipe_inv_def held_def hand_over_def less_Suc_eq split: if_splits)
  qed
next
  case (PipeConnectFailed made)
  show ?thesis
  proof (cases "next_instance os made l")
    case None
    then show ?thesis using assms PipeConnectFailed by (auto simp: pipe_step_def Let_def split: if_splits)
  next
    case (Some p)
    obtain i where i: "p = (length (pl_made l), l\<lparr>pl_made := pl_made l @ [i]\<rparr>)" "instance_ok os (Suc 0) i"
      using next_instance_cases [of os made l] Some by (metis surj_pair)
    have "pl_made l \<noteq> []" using assms(1) by (auto simp: pipe_inv_def held_def)
    then show ?thesis
      using assms PipeConnectFailed Some i made_append_ok [of "pl_made l" os 0 i]
      by (auto simp: pipe_step_def Let_def pipe_inv_def held_def less_Suc_eq split: if_splits)
  qed
next
  case (PipeHandlerEnded i)
  then show ?thesis
    using assms
    by (auto simp: pipe_step_def Let_def pipe_inv_def held_def hand_over_def length_remove1 MAX_INFLIGHT_def
        dest: notin_set_remove1 split: if_splits option.splits)
next
  case PipeShutdown
  then show ?thesis using assms by (auto simp: pipe_step_def pipe_inv_def held_def Let_def split: if_splits)
qed

lemma pipe_reaches_inv: "pipe_reaches os l \<Longrightarrow> pipe_inv os l"
  by (induction rule: pipe_reaches.induct) (auto intro: pipe_start_inv pipe_step_inv)

text \<open>
  C26 (the pipe keeps listening). In every state the loop can reach, whatever connections and failures came
  before: unless it was told to stop, an instance that no handler holds is there for the next client;
  every instance has the admins-only DACL and the first was made with the flag that refuses a squatted
  name; at most sixteen handlers run, a connection waits only when all of them do, and the end of any of
  them lets it in.
\<close>

theorem pipe_keeps_listening:
  assumes "pipe_reaches os l"
  shows "(\<exists>n. n \<in> set (held l) - set (pl_running l) \<and> n < length (pl_made l)) \<and>
    (\<forall>k < length (pl_made l). instance_ok os k (pl_made l ! k)) \<and>
    length (pl_running l) \<le> MAX_INFLIGHT \<and>
    (\<forall>n i. pl_next l = Some n \<and> i \<in> set (pl_running l) \<longrightarrow>
       length (pl_running l) = MAX_INFLIGHT \<and>
       (\<exists>l'. pipe_step os (PipeHandlerEnded i) l = Some l' \<and> pl_server l' = n \<and> pl_next l' = None \<and>
          pl_server l \<in> set (pl_running l')))"
  using pipe_reaches_inv [OF assms]
  by (auto simp: pipe_inv_def held_def pipe_step_def hand_over_def Let_def split: option.splits)

text \<open>Only a shutdown ends the loop: no failure of a connection or of a new instance does.\<close>

lemma pipe_stops_only_on_shutdown:
  "pipe_step os ev l = Some l' \<Longrightarrow> pl_stopped l' \<Longrightarrow> pl_stopped l \<or> ev = PipeShutdown"
  by (cases ev) (auto simp: pipe_step_def next_instance_def hand_over_def Let_def
      split: if_splits option.splits sum.splits)

section \<open>The service's status\<close>

text \<open>
  A failed start looks like a clean stop. Every report carries the exit code 0, and when the configuration
  does not load, the daemon does not bind or serving ends in an error, the last thing the service manager
  hears is a regular stop with that code: the recovery actions the installer sets, which only a service
  that ends without reporting a stop triggers, do not run.
\<close>

theorem failed_service_reports_clean_stop:
  assumes "sw_register w = None" and "\<And>r. sw_report w r = None" and "sw_target w = Some (dir, ks)"
    and "sw_audit w dir = None" and "sw_runtime w = None"
  shows "fst (run_service w) = (case fst (svc_serve w dir ks) of None \<Rightarrow> SvcOk | Some e \<Rightarrow> SvcError e) \<and>
    last (snd (run_service w)) = svc_status SvcStopped False 0 \<and>
    sr_exit_code (last (snd (run_service w))) = 0"
  using assms by (simp add: run_service_def Let_def svc_status_def split: prod.splits)

text \<open>A failure before the daemon is reached leaves the service as starting, with no further report.\<close>

lemma early_failure_left_pending:
  assumes "sw_register w = None" and "\<And>r. sw_report w r = None" and "sw_target w = Some (dir, ks)"
    and "sw_audit w dir = Some e"
  shows "run_service w = (SvcError e, [svc_status StartPending False 1])"
  using assms by (simp add: run_service_def Let_def)

lemma svc_reports_zero: "list_all (\<lambda>r. sr_exit_code r = 0) (snd (run_service w))"
  by (simp add: run_service_def svc_serve_def svc_status_def Let_def split: option.splits sum.splits prod.splits)

text \<open>With the flags the installer bakes into the service's command line, the service reads the directory
  that was seeded and its file keystore, whatever the environment of the process says.\<close>

lemma service_reads_seeded_target:
  "service_command te (Some dir) False True var w =
     run_service (w\<lparr>sw_target := Some (dir, default_file dir)\<rparr>)"
  by (simp add: service_command_def resolve_cli_target_def resolve_target_def Let_def)

section \<open>The client\<close>

lemma open_pipe_busy:
  "\<forall>k < m. opened (a + k) = Inl (Some ERROR_PIPE_BUSY) \<Longrightarrow>
   open_pipe opened pipe a (m + left) slept = open_pipe opened pipe (a + m) left (slept + 100 * m)"
proof (induction m arbitrary: a slept)
  case (Suc m)
  then have "opened a = Inl (Some ERROR_PIPE_BUSY)" "\<forall>k < m. opened (Suc a + k) = Inl (Some ERROR_PIPE_BUSY)"
    by (force, auto)
  then show ?case using Suc.IH [of "Suc a" "slept + 100"] by (simp add: add.assoc)
qed simp

lemma open_pipe_stays_busy:
  assumes "\<forall>k < 10. opened k = Inl (Some ERROR_PIPE_BUSY)"
  shows "open_pipe opened pipe 0 10 0 = (Inl (PipeFailed (PipeStayedBusy pipe)), 1000)"
  using open_pipe_busy [of 10 opened 0 pipe 0 0] assms by simp

text \<open>What opening the pipe ends in: the first attempt that does not find it busy decides.\<close>

lemma open_pipe_decided:
  assumes "k < left" and "\<forall>j < k. opened (a + j) = Inl (Some ERROR_PIPE_BUSY)"
    and "opened (a + k) \<noteq> Inl (Some ERROR_PIPE_BUSY)"
  shows "fst (open_pipe opened pipe a left slept) =
    (case opened (a + k) of
       Inr p \<Rightarrow> Inr p
     | Inl e \<Rightarrow> Inl (if e = Some ERROR_FILE_NOT_FOUND then PipeUnreachable pipe
                  else if e = Some ERROR_ACCESS_DENIED then PipeFailed PipeDenied
                  else PipeFailed (PipeOpen pipe)))"
proof -
  obtain m where m: "left = k + Suc m" using assms(1) less_iff_Suc_add by auto
  show ?thesis
    unfolding m open_pipe_busy [OF assms(2)] using assms(3) by (simp split: sum.splits)
qed

text \<open>The cheap probe and the call agree: with the pipe missing at the first attempt both say the daemon
  is not there, and a probe that finds it is followed by a call that does.\<close>

lemma probe_agrees_with_call:
  assumes "opened 0 \<noteq> Inl (Some ERROR_PIPE_BUSY)"
  shows "pipe_reachable (opened 0) \<longleftrightarrow> fst (open_pipe opened pipe 0 10 0) \<noteq> Inl (PipeUnreachable pipe)"
  using open_pipe_decided [of 0 10 opened 0 pipe 0] assms
  by (auto simp: pipe_reachable_def ERROR_FILE_NOT_FOUND_def ERROR_ACCESS_DENIED_def split: sum.splits)

text \<open>
  A call over the pipe is the handler's answer: once an attempt opens the pipe, the tool gets what the
  handler returns and the daemon is in the state the handler leaves, when the answer fits in a frame.
\<close>

theorem pipe_call_is_dispatch:
  assumes "cbor_roundtrip enc_q dec_q" and "cbor_roundtrip enc_r dec_r"
    and "write_frame enc_q (Hello PROTOCOL_VERSION) = Inr hello" and "write_frame enc_q req = Inr body"
    and "dispatch sv tn peer req st = (resp, st')" and "write_frame enc_r resp = Inr out"
    and "fst (resolve_pipe_peer os pipe_h (resolve_group_sid os ADMIN_GROUP)) = (AuthAllow, peer)"
    and "k < 10" and "\<forall>j < k. opened j = Inl (Some ERROR_PIPE_BUSY)"
    and "opened k = Inr (\<lambda>inp. let (evs, _, st') = pipe_conn os pipe_h dec_q enc_r sv tn inp st
                              in (response_bytes evs, st'))"
  shows "call_windows enc_q dec_r opened svc st req = (finish_pipe (Inr resp), st')"
proof -
  obtain calls where r: "resolve_pipe_peer os pipe_h (resolve_group_sid os ADMIN_GROUP) = ((AuthAllow, peer), calls)"
    using assms(7) by (metis prod.collapse)
  have peer: "(\<lambda>inp. let (evs, _, st') = pipe_conn os pipe_h dec_q enc_r sv tn inp st in (response_bytes evs, st')) =
      daemon_peer dec_q enc_r sv tn (AuthAllow, peer) st"
    by (simp add: fun_eq_iff pipe_conn_def daemon_peer_def r split: prod.splits)
  have "fst (open_pipe opened (pipe_name svc) 0 10 0) = Inr (daemon_peer dec_q enc_r sv tn (AuthAllow, peer) st)"
    using open_pipe_decided [of k 10 opened 0 "pipe_name svc" 0] assms(8,9) assms(10) [unfolded peer] by simp
  then show ?thesis
    using exchange_is_dispatch [OF assms(1-5)] by (simp add: call_windows_def assms(6))
qed

section \<open>An instance\<close>

text \<open>A system where the admins group and the built-in administrators have SIDs of one byte.\<close>

definition demo_win :: win_os where
  "demo_win = \<lparr>wo_impersonate = (\<lambda>_. None), wo_thread_token = Inr 5, wo_user_size = (\<lambda>_. 1),
     wo_user_sid = (\<lambda>_ _. Some [9]), wo_member = (\<lambda>_ sid. Some (sid = [7])),
     wo_sid_sizes = (\<lambda>_. (0, 0)), wo_sid_account = (\<lambda>_ _ _. None),
     wo_name_sizes = (\<lambda>_. (1, 1)), wo_name_sid = (\<lambda>_ _ _. Some [7]),
     wo_well_known = (\<lambda>_ _. Some [8]), wo_sid_text = (\<lambda>_. Some [0x53, 0x2D, 0x31, 0]),
     wo_descriptor = (\<lambda>_ _. None)\<rparr>"

lemma demo_peer:
  "resolve_pipe_peer demo_win 3 (resolve_group_sid demo_win ADMIN_GROUP) =
     ((AuthAllow, \<lparr>peer_uid = None, peer_gid = None, peer_user = ''S-1''\<rparr>),
      [Impersonated 3, TokenOpened 5, MemberChecked 5 [7], MemberChecked 5 [8], TokenClosed 5, Reverted])"
  by (simp add: resolve_pipe_peer_def demo_win_def resolve_group_sid_def filled_def Let_def member_of_def
      check_membership_def well_known_sid_def SECURITY_MAX_SID_SIZE_def authorize_windows_def
      token_user_display_def account_name_def sid_to_string_def wide_ptr_to_string_def from_utf16_lossy_def
      low_surrogate_def high_surrogate_def utf8_char_def byte_char_def char_of_def bit_0)

text \<open>One client served, its handler still running, and a listener for the next.\<close>

theorem pipe_keeps_listening_witness:
  "\<exists>l. pipe_reaches demo_win l \<and> pl_running l = [0] \<and> held l = [1, 0] \<and>
     (\<exists>n. n \<in> set (held l) - set (pl_running l) \<and> n < length (pl_made l)) \<and>
     (\<forall>k < length (pl_made l). instance_ok demo_win k (pl_made l ! k))"
proof -
  obtain i j where i: "create_instance demo_win (pipe_name SERVICE_NAME) True (resolve_group_sid demo_win ADMIN_GROUP) None = Inr i"
    and j: "create_instance demo_win (pipe_name SERVICE_NAME) False (resolve_group_sid demo_win ADMIN_GROUP) None = Inr j"
    by (simp add: create_instance_def demo_win_def)
  define l where "l = \<lparr>pl_server = 1, pl_next = None, pl_running = [0], pl_stopped = False, pl_made = [i, j]\<rparr>"
  have "pipe_step demo_win (PipeConnected None)
      \<lparr>pl_server = 0, pl_next = None, pl_running = [], pl_stopped = False, pl_made = [i]\<rparr> = Some l"
    by (simp add: pipe_step_def next_instance_def j hand_over_def MAX_INFLIGHT_def l_def)
  then have r: "pipe_reaches demo_win l"
    by (rule pipe_reaches.step [rotated]) (rule pipe_reaches.start [where made = None], simp add: pipe_start_def i)
  have "pl_running l = [0]" "held l = [1, 0]" by (simp_all add: l_def held_def)
  then show ?thesis using pipe_keeps_listening [OF r] r by blast
qed

end
