(* ===== verification/Unix_Accounts.thy ===== *)
theory Unix_Accounts
  imports Control_Conn Utf8
begin

text \<open>
  The system's side of \<open>crates/mwsqld/src/control/unix.rs\<close>: how the credentials of a peer, its
  user and the admins group are read from the C library, and the life of the control socket. The
  answers of the C calls are arguments; a C string is the memory its pointer leads to.
\<close>

section \<open>Lookups with a growing buffer\<close>

text \<open>One call of \<open>getpwuid_r\<close> or \<open>getgrnam_r\<close>: the return code 0, with an entry or
  without, \<open>ERANGE\<close>, or any other code.\<close>

datatype 'a lookup_answer = LookupDone "'a option" | LookupRange | LookupFailed

definition LOOKUP_BUFFER :: nat where "LOOKUP_BUFFER = 4096"
definition LOOKUP_LIMIT :: nat where "LOOKUP_LIMIT = 2 ^ 20"

text \<open>The buffer after so many doublings.\<close>

definition buffer_after :: "nat \<Rightarrow> nat" where
  "buffer_after k = LOOKUP_BUFFER * 2 ^ k"

lemma buffer_after_limit: "buffer_after k < LOOKUP_LIMIT \<longleftrightarrow> k < 8"
proof -
  have "buffer_after k = 2 ^ (12 + k)" by (simp add: buffer_after_def LOOKUP_BUFFER_def power_add)
  then have "buffer_after k < LOOKUP_LIMIT \<longleftrightarrow> 12 + k < (20 :: nat)"
    by (simp only: LOOKUP_LIMIT_def power_strict_increasing_iff)
  then show ?thesis by simp
qed

function lookup_from :: "(nat \<Rightarrow> 'a lookup_answer) \<Rightarrow> nat \<Rightarrow> 'a option" where
  "lookup_from ask k =
     (case ask (buffer_after k) of
        LookupDone r \<Rightarrow> r
      | LookupRange \<Rightarrow> if buffer_after k < LOOKUP_LIMIT then lookup_from ask (Suc k) else None
      | LookupFailed \<Rightarrow> None)"
  by pat_completeness auto
termination
  by (relation "measure (\<lambda>(ask, k). 8 - k)") (auto simp: buffer_after_limit)

declare lookup_from.simps [simp del]

definition grown_lookup :: "(nat \<Rightarrow> 'a lookup_answer) \<Rightarrow> 'a option" where
  "grown_lookup ask = lookup_from ask 0"

lemma lookup_from_iff:
  "lookup_from ask k = Some r \<longleftrightarrow>
     (\<exists>n \<ge> k. (n = k \<or> n \<le> 8) \<and> (\<forall>j. k \<le> j \<and> j < n \<longrightarrow> ask (buffer_after j) = LookupRange) \<and>
        ask (buffer_after n) = LookupDone (Some r))"
proof (induction ask k rule: lookup_from.induct)
  case (1 ask k)
  have first: "n = k" if "ask (buffer_after k) \<noteq> LookupRange" "k \<le> n"
      "\<forall>j. k \<le> j \<and> j < n \<longrightarrow> ask (buffer_after j) = LookupRange" for n
    using that by (metis le_neq_implies_less order_refl)
  note unfold = lookup_from.simps [of ask k]
  show ?case
  proof (cases "ask (buffer_after k) = LookupRange")
    case False
    then have "lookup_from ask k = Some r \<longleftrightarrow> ask (buffer_after k) = LookupDone (Some r)"
      by (subst unfold) (auto split: lookup_answer.splits)
    then show ?thesis using first [OF False] by fastforce
  next
    case range: True
    show ?thesis
    proof (cases "k < 8")
      case True
      have step: "lookup_from ask k = lookup_from ask (Suc k)"
        using range True by (subst unfold) (simp add: buffer_after_limit)
      have ih: "lookup_from ask (Suc k) = Some r \<longleftrightarrow>
          (\<exists>n \<ge> Suc k. (n = Suc k \<or> n \<le> 8) \<and> (\<forall>j. Suc k \<le> j \<and> j < n \<longrightarrow> ask (buffer_after j) = LookupRange) \<and>
             ask (buffer_after n) = LookupDone (Some r))"
        using "1.IH" [OF range] True by (simp add: buffer_after_limit)
      have less: "k \<le> n \<and> n \<noteq> k \<longleftrightarrow> Suc k \<le> n" for n by auto
      have all: "(\<forall>j. k \<le> j \<and> j < n \<longrightarrow> ask (buffer_after j) = LookupRange) \<longleftrightarrow>
          (\<forall>j. Suc k \<le> j \<and> j < n \<longrightarrow> ask (buffer_after j) = LookupRange)" for n
        using range by (metis Suc_leI le_neq_implies_less Suc_leD)
      show ?thesis
        unfolding step ih all using range True less
        by (intro iff_exI) (metis lookup_answer.distinct(1) Suc_leI order_refl)
    next
      case False
      have "lookup_from ask k = None" using range False by (subst unfold) (simp add: buffer_after_limit)
      moreover have "n = k" if "k \<le> n" "n = k \<or> n \<le> 8" for n using that False by auto
      ultimately show ?thesis using range by (metis lookup_answer.distinct(1) option.distinct(1))
    qed
  qed
qed

text \<open>
  A lookup ends. It asks with 4 KiB and doubles up to 1 MiB, nine times at most, and finds an entry
  exactly when every smaller buffer was too small and the first that was not gave it.
\<close>

theorem grown_lookup_iff:
  "grown_lookup ask = Some r \<longleftrightarrow>
     (\<exists>n \<le> 8. (\<forall>j < n. ask (buffer_after j) = LookupRange) \<and> ask (buffer_after n) = LookupDone (Some r))"
  unfolding grown_lookup_def lookup_from_iff by auto

section \<open>Users and groups\<close>

text \<open>A pointer to a C string: null, or the memory it leads to.\<close>

definition cstr_to_string :: "bytes option \<Rightarrow> string option" where
  "cstr_to_string p = map_option (\<lambda>mem. from_utf8_lossy (takeWhile (\<lambda>b. b \<noteq> 0) mem)) p"

text \<open>\<open>CString::new\<close>: refused when there is a zero inside.\<close>

definition cstring :: "string \<Rightarrow> bytes option" where
  "cstring s = (if 0 \<in> set (as_bytes s) then None else Some (as_bytes s @ [0]))"

record passwd =
  pw_name :: "bytes option"
  pw_gid :: u32

text \<open>\<open>gr_mem\<close> is null, or an array of pointers that a null one ends.\<close>

record group_entry =
  gr_gid :: u32
  gr_mem :: "bytes option list option"

record unix_calls =
  uc_peer_creds :: "string \<Rightarrow> int \<times> u32 \<times> u32"
  uc_getpwuid :: "u32 \<Rightarrow> nat \<Rightarrow> passwd lookup_answer"
  uc_getgrnam :: "bytes \<Rightarrow> nat \<Rightarrow> group_entry lookup_answer"

text \<open>\<open>getsockopt\<close> on Linux and \<open>getpeereid\<close> on macOS: the return code and what was
  written; no other system is known.\<close>

definition peer_creds :: "unix_calls \<Rightarrow> string \<Rightarrow> (u32 \<times> u32) option" where
  "peer_creds uc os =
     (if os = ''linux'' \<or> os = ''macos''
      then (let (rc, uid, gid) = uc_peer_creds uc os in if rc \<noteq> 0 then None else Some (uid, gid))
      else None)"

definition resolve_user :: "unix_calls \<Rightarrow> u32 \<Rightarrow> (string \<times> u32) option" where
  "resolve_user uc uid =
     (case grown_lookup (uc_getpwuid uc uid) of
        None \<Rightarrow> None
      | Some pw \<Rightarrow>
          (case cstr_to_string (pw_name pw) of None \<Rightarrow> None | Some nm \<Rightarrow> Some (nm, pw_gid pw)))"

definition member_names :: "bytes option list option \<Rightarrow> string list" where
  "member_names mem =
     (case mem of
        None \<Rightarrow> []
      | Some ps \<Rightarrow> List.map_filter cstr_to_string (takeWhile (\<lambda>p. p \<noteq> None) ps))"

definition resolve_group :: "unix_calls \<Rightarrow> string \<Rightarrow> group_info option" where
  "resolve_group uc nm =
     (case cstring nm of
        None \<Rightarrow> None
      | Some cname \<Rightarrow>
          (case grown_lookup (uc_getgrnam uc cname) of
             None \<Rightarrow> None
           | Some g \<Rightarrow> Some \<lparr>grp_gid = gr_gid g, grp_members = member_names (gr_mem g)\<rparr>))"

text \<open>What \<open>resolve_peer\<close> asks, answered by the C library.\<close>

definition facts_of :: "unix_calls \<Rightarrow> string \<Rightarrow> unix_facts" where
  "facts_of uc os =
     \<lparr>uf_creds = peer_creds uc os, uf_user = resolve_user uc, uf_group = resolve_group uc\<rparr>"

section \<open>Who is an administrator\<close>

text \<open>The name at a pointer, as bytes.\<close>

definition c_name :: "bytes \<Rightarrow> bytes" where
  "c_name mem = takeWhile (\<lambda>b. b \<noteq> 0) mem"

lemma cstr_some: "cstr_to_string (Some mem) = Some (from_utf8_lossy (c_name mem))"
  by (simp add: cstr_to_string_def c_name_def)

lemma member_names_iff:
  "nm \<in> set (member_names (Some ps)) \<longleftrightarrow>
     (\<exists>mem. Some mem \<in> set (takeWhile (\<lambda>p. p \<noteq> None) ps) \<and> nm = from_utf8_lossy (c_name mem))"
proof -
  have "set (member_names (Some ps)) = {s. \<exists>p\<in>set (takeWhile (\<lambda>p. p \<noteq> None) ps). cstr_to_string p = Some s}"
    by (auto simp: member_names_def map_filter_def) (force)+
  then show ?thesis
    by (auto simp: cstr_to_string_def c_name_def)
qed

text \<open>Among UTF-8 names a member is found by exactly its own name.\<close>

lemma member_by_name:
  assumes "valid_utf8 nm" and "\<And>mem. Some mem \<in> set ps \<Longrightarrow> valid_utf8 (c_name mem)"
  shows "from_utf8_lossy nm \<in> set (member_names (Some ps)) \<longleftrightarrow>
    (\<exists>mem. Some mem \<in> set (takeWhile (\<lambda>p. p \<noteq> None) ps) \<and> nm = c_name mem)"
proof -
  have inj: "from_utf8_lossy nm = from_utf8_lossy (c_name mem) \<longleftrightarrow> nm = c_name mem" if "Some mem \<in> set ps" for mem
    using assms(1) assms(2) [OF that]
    by (metis as_bytes_of_bytes from_utf8_lossy_def utf8_lossy_valid)
  show ?thesis unfolding member_names_iff using inj set_takeWhileD by fast
qed

lemma admin_by_accounts:
  "is_admin (facts_of uc os) \<longleftrightarrow>
     (\<exists>uid gid nm pgid g. peer_creds uc os = Some (uid, gid) \<and> resolve_user uc uid = Some (nm, pgid) \<and>
        resolve_group uc ADMIN_GROUP = Some g \<and>
        (uid = 0 \<or> pgid = grp_gid g \<or> nm \<in> set (grp_members g)))"
  by (auto simp: is_admin_def facts_of_def)

text \<open>
  Names are compared after a lossy decoding. Two user names that are not UTF-8 read as the same text, so
  a user with the one passes for the member with the other.
\<close>

definition demo_calls :: unix_calls where
  "demo_calls = \<lparr>uc_peer_creds = (\<lambda>_. (0, 1000, 1000)),
     uc_getpwuid = (\<lambda>_ _. LookupDone (Some \<lparr>pw_name = Some [0xFF, 0], pw_gid = 1000\<rparr>)),
     uc_getgrnam = (\<lambda>_ n. if n < 8000 then LookupRange
        else LookupDone (Some \<lparr>gr_gid = 7, gr_mem = Some [Some [0xFE, 0], None]\<rparr>))\<rparr>"

lemma lossy_byte: "utf8_step [b] = (False, 1) \<Longrightarrow> from_utf8_lossy [b] = of_bytes replacement"
  by (simp add: from_utf8_lossy_def utf8_lossy.simps)

theorem lossy_name_passes_for_member:
  "is_admin (facts_of demo_calls ''linux'') \<and> c_name [0xFF, 0] \<noteq> c_name [0xFE, 0]"
proof -
  have l: "from_utf8_lossy [0xFF] = of_bytes replacement" "from_utf8_lossy [0xFE] = of_bytes replacement"
    by (rule lossy_byte; simp add: utf8_step_def safe_get_def byte_in_def Let_def)+
  have u: "grown_lookup (uc_getpwuid demo_calls 1000) = Some \<lparr>pw_name = Some [0xFF, 0], pw_gid = 1000\<rparr>"
    unfolding grown_lookup_iff by (rule exI [of _ 0]) (simp add: demo_calls_def)
  have g: "grown_lookup (uc_getgrnam demo_calls c) = Some \<lparr>gr_gid = 7, gr_mem = Some [Some [0xFE, 0], None]\<rparr>" for c
    unfolding grown_lookup_iff
    by (rule exI [of _ 1]) (simp add: demo_calls_def buffer_after_def LOOKUP_BUFFER_def)
  have c: "cstring ADMIN_GROUP = Some (as_bytes ADMIN_GROUP @ [0])"
    by (simp add: cstring_def ADMIN_GROUP_def char_byte_def)
  have "resolve_user demo_calls 1000 = Some (of_bytes replacement, 1000)"
    by (simp add: resolve_user_def u cstr_some c_name_def l)
  moreover have "resolve_group demo_calls ADMIN_GROUP = Some \<lparr>grp_gid = 7, grp_members = [of_bytes replacement]\<rparr>"
    by (simp add: resolve_group_def c g member_names_def map_filter_def cstr_some c_name_def l)
  moreover have "peer_creds demo_calls ''linux'' = Some (1000, 1000)"
    by (simp add: peer_creds_def demo_calls_def)
  ultimately show ?thesis by (simp add: admin_by_accounts c_name_def)
qed

section \<open>The life of the socket\<close>

text \<open>\<open>serve_loop\<close> of the Unix side: the directory is secured, the socket bound, connections are
  taken until the shutdown, and the socket is removed. \<open>None\<close> of the loop: the events cannot
  happen in that order.\<close>

definition serve_socket ::
  "socket_facts \<Rightarrow> string \<Rightarrow> (string \<Rightarrow> bool) \<Rightarrow> string \<Rightarrow> loop_event list
     \<Rightarrow> ((socket_error + control_loop option) \<times> perm_op list)" where
  "serve_socket sf os usable state_dir evs =
     (let (path, runtime) = resolve_socket os usable state_dir SERVICE_NAME;
          pre = (case runtime of None \<Rightarrow> [] | Some d \<Rightarrow> secure_runtime_dir sf d)
      in case bind_control_socket sf path of
           (Inl e, ops) \<Rightarrow> (Inl e, pre @ ops)
         | (Inr _, ops) \<Rightarrow>
             (let l = loop_run evs loop_start
              in (Inr l, pre @ ops @
                  (case l of Some l' \<Rightarrow> if cl_stopped l' then [Unlink path] else [] | None \<Rightarrow> []))))"

text \<open>A socket that was bound is removed when the loop is told to stop, as the last thing.\<close>

lemma socket_removed_at_the_end:
  assumes "serve_socket sf os usable state_dir evs = (Inr (Some l), ops)" and "cl_stopped l"
  shows "last ops = Unlink (fst (resolve_socket os usable state_dir SERVICE_NAME))"
  using assms by (auto simp: serve_socket_def Let_def split: prod.splits sum.splits option.splits)

end
