(* ===== verification/Cli_Output.thy ===== *)
theory Cli_Output
  imports Host Installer Cli Import_Poc
begin

text \<open>
  What the administration tool prints when a token was minted, \<open>print_token_block\<close>,
  \<open>render_new_env\<close> and \<open>render_token_note\<close> of \<open>crates/mwsqlctl/src/lib.rs\<close>, and the
  report of an import, \<open>print_import_report\<close> of \<open>main.rs\<close>: the lines on the standard
  error and on the standard output.
\<close>

record printed =
  pr_err :: "string list"
  pr_out :: "string list"

definition then_print :: "printed \<Rightarrow> printed \<Rightarrow> printed" where
  "then_print a b = \<lparr>pr_err = pr_err a @ pr_err b, pr_out = pr_out a @ pr_out b\<rparr>"

definition BAR :: string where "BAR = replicate 70 (CHR ''='')"

definition WARNING_SIGN :: string where "WARNING_SIGN = [CHR 0xE2, CHR 0x9A, CHR 0xA0]"

definition print_token_block ::
  "string \<Rightarrow> u16 \<Rightarrow> string \<Rightarrow> engine_kind \<Rightarrow> string option \<Rightarrow> printed" where
  "print_token_block env_name p token eng db_name =
     \<lparr>pr_err =
        [[], BAR,
         ''  CLIENT TOKEN  '' @ EM_DASH @ ''  SAVE NOW (shown only once)'',
         BAR,
         ''  env:     '' @ env_name,
         ''  token:   '' @ token,
         ''  connect: mwsql login '' @ env_name @ '' --port '' @ show_nat (unat p),
         [],
         ''  DBeaver / any SQL client '' @ EM_DASH @ '' enter these fields:'',
         ''    Host:      127.0.0.1'',
         ''    Port:      '' @ show_nat (unat p),
         ''    Database:  '' @ (case db_name of
            Some db \<Rightarrow> db | None \<Rightarrow> ''(none '' @ EM_DASH @ '' pick in client)''),
         ''    Username:  '' @ env_name,
         ''    Password:  '' @ token,
         ''    SSL:       off / disable''] @
        (case engine_uri eng env_name token p db_name of
           None \<Rightarrow> []
         | Some uri \<Rightarrow>
             [[],
              ''  paste-ready URL (embeds the token '' @ EM_DASH @ '' treat it like the password):'',
              ''    '' @ uri]) @
        [BAR, []],
      pr_out = [token]\<rparr>"

definition render_token_note :: "string option \<Rightarrow> printed" where
  "render_token_note note_text =
     \<lparr>pr_err = (case note_text of None \<Rightarrow> [] | Some n \<Rightarrow> [WARNING_SIGN @ '' '' @ n]), pr_out = []\<rparr>"

definition render_new_env :: "string \<Rightarrow> new_env_output_dto \<Rightarrow> printed" where
  "render_new_env env_name out =
     then_print
       (print_token_block env_name (dto_listen_port out) (dto_token out) (dto_engine out) (dto_database out))
       (render_token_note (dto_note out))"

definition is_privileged :: "process \<Rightarrow> bool" where
  "is_privileged pr \<longleftrightarrow> is_root pr \<or> Host.is_admin pr"

definition decommission_checklist :: "string list" where
  "decommission_checklist =
     [''# Source decommission checklist'',
      ''1. Verify each env: mwsqlctl env list'',
      ''2. Mint + distribute client tokens:  mwsqlctl grant <env>   (per env)'',
      ''3. Smoke test through the daemon before retiring the old source.'',
      ''4. Shred the old plaintext secrets:  the old secrets/*_password files are'',
      ''   now superseded '' @ EM_DASH @ '' securely delete the entire old secrets/ directory.'',
      ''5. Pin any UNPINNED bastion host keys (see warnings above).'',
      ''6. Remove the old .env (it still contains host/topology metadata).'']"

definition print_import_report :: "import_report \<Rightarrow> printed" where
  "print_import_report report =
     \<lparr>pr_err =
        [''imported '' @ show_nat (length (ir_bastions report)) @ '' bastion(s), '' @
           show_nat (length (ir_credentials report)) @ '' credential(s), '' @
           show_nat (length (ir_envs report)) @ '' env(s):''] @
        map (\<lambda>(nm, p). ''  env '' @ nm @ '' -> 127.0.0.1:'' @ show_nat (unat p)) (ir_envs report) @
        (if ir_warnings report = [] then []
         else [[], ''warnings:''] @ map (\<lambda>w. ''  ! '' @ w) (ir_warnings report)) @
        [[]] @ decommission_checklist,
      pr_out = []\<rparr>"

section \<open>What a script captures\<close>

text \<open>
  The token is captured alone: whatever the environment, the engine and the note of the daemon, the
  standard output of a minted token is one line, the bare token, as the commands' model has it; and no
  command that mints one prints it elsewhere on the standard output.
\<close>

theorem token_captured_alone:
  "pr_out (render_new_env env_name out) = fst (print_token (Inr out, st)) \<and>
   pr_out (render_new_env env_name out) = [dto_token out]"
  by (simp add: render_new_env_def then_print_def print_token_block_def render_token_note_def print_token_def)

text \<open>The warning that an environment is saved but not served is the last line of the standard error.\<close>

lemma note_is_last:
  "dto_note out = Some n \<Longrightarrow> last (pr_err (render_new_env env_name out)) = WARNING_SIGN @ '' '' @ n"
  by (simp add: render_new_env_def then_print_def render_token_note_def)

text \<open>Every imported environment is named with its port, and every warning repeated.\<close>

lemma import_report_complete:
  "(nm, p) \<in> set (ir_envs r) \<Longrightarrow>
     ''  env '' @ nm @ '' -> 127.0.0.1:'' @ show_nat (unat p) \<in> set (pr_err (print_import_report r))"
  "w \<in> set (ir_warnings r) \<Longrightarrow> ''  ! '' @ w \<in> set (pr_err (print_import_report r))"
  by (auto simp: print_import_report_def)

end
