(* ===== verification/Default_Dirs.thy ===== *)
theory Default_Dirs
  imports State_Dir Installer Peer_Auth
begin

text \<open>
  Where the state lives when no directory is named: \<open>default_state_dir\<close>,
  \<open>default_user_state_dir\<close> and \<open>create_dir_secure\<close> of
  \<open>crates/mw-core/src/state.rs\<close>, per operating system. The environment variables are an argument,
  so is what creating and locking the directory gives.
\<close>

section \<open>Paths\<close>

definition BACKSLASH_CHAR :: char where "BACKSLASH_CHAR = CHR 0x5C"

definition is_windows :: "string \<Rightarrow> bool" where
  "is_windows os \<longleftrightarrow> os = ''windows''"

definition is_separator :: "string \<Rightarrow> char \<Rightarrow> bool" where
  "is_separator os c \<longleftrightarrow> c = CHR ''/'' \<or> is_windows os \<and> c = BACKSLASH_CHAR"

text \<open>\<open>Path::join\<close> with a relative name: no separator after one, after nothing, or after a bare
  drive.\<close>

definition join_dir :: "string \<Rightarrow> string \<Rightarrow> string \<Rightarrow> string" where
  "join_dir os dir nm =
     (if dir = [] \<or> is_separator os (last dir) \<or> is_windows os \<and> length dir = 2 \<and> dir ! 1 = CHR '':''
      then dir @ nm
      else dir @ [if is_windows os then BACKSLASH_CHAR else CHR ''/''] @ nm)"

text \<open>\<open>Path::is_absolute\<close> on the systems with slashes.\<close>

definition rooted :: "string \<Rightarrow> bool" where
  "rooted p \<longleftrightarrow> (case p of c # _ \<Rightarrow> c = CHR ''/'' | [] \<Rightarrow> False)"

section \<open>The default directories\<close>

type_synonym environment = "string \<Rightarrow> string option"

definition default_state_dir :: "string \<Rightarrow> environment \<Rightarrow> string" where
  "default_state_dir os var =
     (if is_windows os
      then (let pd = (case var ''ProgramData'' of
                        Some d \<Rightarrow> d | None \<Rightarrow> ''C:'' @ [BACKSLASH_CHAR] @ ''ProgramData'')
            in join_dir os pd ''middlewhere'')
      else if os = ''macos'' then ''/Library/Application Support/middlewhere''
      else ''/var/lib/middlewhere'')"

definition env_dir :: "environment \<Rightarrow> string \<Rightarrow> string option" where
  "env_dir var key = (case var key of Some v \<Rightarrow> if v = [] then None else Some v | None \<Rightarrow> None)"

definition default_user_state_dir :: "string \<Rightarrow> environment \<Rightarrow> string" where
  "default_user_state_dir os var =
     (if is_windows os
      then (case env_dir var ''LOCALAPPDATA'' of
              Some local_dir \<Rightarrow> join_dir os local_dir ''middlewhere''
            | None \<Rightarrow> default_state_dir os var)
      else if os = ''macos''
      then (case env_dir var ''HOME'' of
              Some home \<Rightarrow> join_dir os home ''Library/Application Support/middlewhere''
            | None \<Rightarrow> default_state_dir os var)
      else (case env_dir var ''XDG_STATE_HOME'' of
              Some state \<Rightarrow> join_dir os state ''middlewhere''
            | None \<Rightarrow>
                (case env_dir var ''HOME'' of
                   Some home \<Rightarrow> join_dir os home ''.local/state/middlewhere''
                 | None \<Rightarrow> default_state_dir os var)))"

text \<open>The choice of the target, in a given environment.\<close>

definition target_env_of :: "string \<Rightarrow> environment \<Rightarrow> (string \<Rightarrow> bool) \<Rightarrow> target_env" where
  "target_env_of os var exists =
     \<lparr>system_dir = default_state_dir os var, legacy_dir = default_user_state_dir os var,
      path_exists = exists\<rparr>"

section \<open>Creating a directory\<close>

datatype mkdir_result = MkdirOk | MkdirDenied | MkdirFailed

text \<open>The mode 0700 is 448; there is no change of permissions on Windows.\<close>

definition create_dir_secure :: "string \<Rightarrow> mkdir_result \<Rightarrow> bool \<Rightarrow> string \<Rightarrow> (string + unit) \<times> perm_op list" where
  "create_dir_secure os made chmod_ok dir =
     (case made of
        MkdirDenied \<Rightarrow>
          (Inl (''permission denied creating '' @ dir @ '': re-run with sudo, or pass '' @
             ''--state-dir <a path you own> (e.g. ~/.middlewhere)''), [])
      | MkdirFailed \<Rightarrow> (Inl (''create '' @ dir), [])
      | MkdirOk \<Rightarrow>
          if is_windows os then (Inr (), [])
          else if chmod_ok then (Inr (), [SetMode dir 448])
          else (Inl (''lock '' @ dir @ '' to 0700''), []))"

lemma created_dir_is_private:
  assumes "create_dir_secure os made chmod_ok dir = (Inr u, ops)" and "\<not> is_windows os"
  shows "ops = [SetMode dir 448]"
  using assms by (auto simp: create_dir_secure_def split: mkdir_result.splits if_splits)

section \<open>What the choice gives\<close>

text \<open>The variable the per-user directory is taken from, on the systems with slashes.\<close>

definition home_of :: "string \<Rightarrow> environment \<Rightarrow> string option" where
  "home_of os var =
     (if os = ''macos'' then env_dir var ''HOME''
      else (case env_dir var ''XDG_STATE_HOME'' of Some d \<Rightarrow> Some d | None \<Rightarrow> env_dir var ''HOME''))"

lemma env_dir_nonempty: "env_dir var key = Some d \<Longrightarrow> d \<noteq> []"
  by (auto simp: env_dir_def split: option.splits if_splits)

lemma rooted_join: "dir \<noteq> [] \<Longrightarrow> rooted (join_dir os dir nm) = rooted dir"
  by (auto simp: rooted_def join_dir_def split: list.splits)

text \<open>
  A relative variable makes a relative state. An empty variable counts as unset, as the comment asks; but
  the per-user directory is absolute only when the variable it comes from is: with a relative one the state
  lands under the working directory of whoever runs the command.
\<close>

theorem user_dir_absolute_iff:
  assumes "\<not> is_windows os"
  shows "rooted (default_user_state_dir os var) \<longleftrightarrow>
    (case home_of os var of Some d \<Rightarrow> rooted d | None \<Rightarrow> True)"
proof -
  have s: "rooted (default_state_dir os var)" using assms by (simp add: default_state_dir_def rooted_def)
  show ?thesis
    using assms s rooted_join env_dir_nonempty [of var]
    by (auto simp: default_user_state_dir_def home_of_def split: option.splits)
qed

theorem user_dir_absolute_iff_witness:
  "\<not> rooted (default_user_state_dir ''linux'' [''XDG_STATE_HOME'' \<mapsto> ''state'', ''HOME'' \<mapsto> ''/home/me''])"
  using user_dir_absolute_iff [of "''linux''" "[''XDG_STATE_HOME'' \<mapsto> ''state'', ''HOME'' \<mapsto> ''/home/me'']"]
  by (simp add: is_windows_def home_of_def env_dir_def rooted_def)

text \<open>The system directory of Windows does not treat an empty variable as unset.\<close>

lemma empty_program_data: "default_state_dir ''windows'' [''ProgramData'' \<mapsto> []] = ''middlewhere''"
  by (simp add: default_state_dir_def is_windows_def join_dir_def)

text \<open>Without a home the per-user choice is the system directory, with the keystore of the user.\<close>

lemma user_target_without_home:
  assumes "env_dir var ''XDG_STATE_HOME'' = None" and "env_dir var ''HOME'' = None"
    and "env_dir var ''LOCALAPPDATA'' = None"
  shows "resolve_cli_target (target_env_of os var exists) None True False = (default_state_dir os var, default_os) \<and>
    resolve_cli_target (target_env_of os var exists) None False False =
      (default_state_dir os var, default_file (default_state_dir os var))"
  using assms
  by (simp add: resolve_cli_target_def resolve_target_def target_env_of_def default_user_state_dir_def
      should_use_legacy_user_dir_def Let_def)

section \<open>The default directory in the installer's texts\<close>

text \<open>The words of a shell command line without quotes.\<close>

definition shell_words :: "string \<Rightarrow> string list" where
  "shell_words line = filter (\<lambda>w. w \<noteq> []) (split_on (CHR '' '') line)"

text \<open>
  The default directory of macOS has a space, and the operator's steps do not quote it: the line that
  creates the state directory names two others, and so do those that own and lock it.
\<close>

theorem macos_default_dir_splits:
  assumes "ip_state_dir p = default_state_dir ''macos'' var"
  shows "(\<exists>before after. macos_account_steps p =
      before @ (''sudo mkdir -p '' @ ip_state_dir p) @ [CHR 0x0A] @
        (''sudo chown -R _middlewhere '' @ ip_state_dir p) @ [CHR 0x0A] @ after) \<and>
    shell_words (''sudo mkdir -p '' @ ip_state_dir p) =
      [''sudo'', ''mkdir'', ''-p'', ''/Library/Application'', ''Support/middlewhere'']"
proof
  let ?pre = "unlines
     [''# macOS '' @ EM_DASH @ '' run as root. Create the dedicated daemon user (one time):'',
      ''MAXID=$(dscl . -list /Users UniqueID | awk '' @ [QUOTE] @ ''{print $2}'' @ [QUOTE] @
        '' | sort -n | tail -1)'',
      ''NEWID=$((MAXID+1))'',
      ''sudo dscl . -create /Users/_middlewhere'',
      ''sudo dscl . -create /Users/_middlewhere UserShell /usr/bin/false'',
      ''sudo dscl . -create /Users/_middlewhere RealName '' @ [DQUOTE] @ ''middleWHERE daemon'' @ [DQUOTE],
      ''sudo dscl . -create /Users/_middlewhere UniqueID $NEWID'',
      ''sudo dscl . -create /Users/_middlewhere PrimaryGroupID 1'',
      ''sudo dscl . -create /Users/_middlewhere NFSHomeDirectory /var/empty'',
      ''# Admin group whose members reach the control socket without sudo (one time):'',
      ''GMAXID=$(dscl . -list /Groups PrimaryGroupID | awk '' @ [QUOTE] @ ''{print $2}'' @ [QUOTE] @
        '' | sort -n | tail -1)'',
      ''GNEWID=$((GMAXID+1))'',
      ''sudo dscl . -create /Groups/'' @ INSTALLER_ADMIN_GROUP,
      ''sudo dscl . -create /Groups/'' @ INSTALLER_ADMIN_GROUP @ '' PrimaryGroupID $GNEWID'',
      ''sudo dscl . -append /Groups/'' @ INSTALLER_ADMIN_GROUP @ '' GroupMembership $(whoami)   # re-login to apply'']"
  show "\<exists>before after. macos_account_steps p =
      before @ (''sudo mkdir -p '' @ ip_state_dir p) @ [CHR 0x0A] @
        (''sudo chown -R _middlewhere '' @ ip_state_dir p) @ [CHR 0x0A] @ after"
    by (rule exI [of _ ?pre]) (simp add: macos_account_steps_def unlines_def)
  show "shell_words (''sudo mkdir -p '' @ ip_state_dir p) =
      [''sudo'', ''mkdir'', ''-p'', ''/Library/Application'', ''Support/middlewhere'']"
    by (simp add: assms default_state_dir_def is_windows_def shell_words_def)
qed

end
