(* ===== verification/Relaunch.thy ===== *)
theory Relaunch
  imports Deploy Default_Dirs
begin

text \<open>
  The relaunch of \<open>mwsqlctl\<close> with administrator rights on Windows, \<open>relaunch_elevated_and_wait\<close>
  and the encoding of its scripts in \<open>crates/mwsqlctl/src/service.rs\<close>: the child's command line, the
  two files its output goes through, and what is mirrored of it. The base64 coder, PowerShell and the file
  system are arguments.
\<close>

section \<open>The encoded script\<close>

definition encode_powershell_command :: "(bytes \<Rightarrow> string) \<Rightarrow> string \<Rightarrow> string" where
  "encode_powershell_command base64 script = base64 (concat (map le16 (encode_utf16 script)))"

text \<open>What PowerShell does with \<open>-EncodedCommand\<close>.\<close>

definition read_encoded_command :: "(string \<Rightarrow> bytes option) \<Rightarrow> string \<Rightarrow> string option" where
  "read_encoded_command unbase64 arg = map_option (\<lambda>b. from_utf16_lossy (le_units b)) (unbase64 arg)"

lemma encoded_command_read_back:
  assumes "utf8_text script" and "\<And>b. unbase64 (base64 b) = Some b"
  shows "read_encoded_command unbase64 (encode_powershell_command base64 script) = Some script"
  using assms by (simp add: read_encoded_command_def encode_powershell_command_def le_units_le16
      from_utf16_lossy_encode)

section \<open>The files of the child's output\<close>

text \<open>\<open>Path::with_extension\<close> on the last component.\<close>

definition with_extension :: "string \<Rightarrow> string \<Rightarrow> string" where
  "with_extension p ext =
     (let last_part = rev (takeWhile (\<lambda>c. \<not> is_separator ''windows'' c) (rev p));
          before = take (length p - length last_part) p
      in before @
         (case rsplit_once (CHR ''.'') last_part of
            Some (stem, _) \<Rightarrow> if stem = [] then last_part else stem
          | None \<Rightarrow> last_part) @ CHR ''.'' # ext)"

definition relaunch_base :: "string \<Rightarrow> bytes \<Rightarrow> string" where
  "relaunch_base temp nonce = join_dir ''windows'' temp (''mwsqlctl-elev-'' @ concat (map hex2 nonce))"

section \<open>The relaunch\<close>

text \<open>
  The process: its terminal, its executable, the directory of temporary files, the random bytes drawn,
  what PowerShell answers (it could not be started, or its exit code, none after a signal), and what
  reading a file gives then.
\<close>

record relaunch_env =
  rl_stdin_tty :: bool
  rl_exe :: "string + string"
  rl_nonce :: bytes
  rl_temp :: string
  rl_system_root :: "string option"
  rl_base64 :: "bytes \<Rightarrow> string"
  rl_powershell :: "string \<times> string list \<Rightarrow> string + int option"
  rl_read :: "string \<Rightarrow> string + bytes"

datatype relaunch_end =
    InputNotATerminal
  | ExecutableUnknown string
  | ShellNotRun string
  | ElevationCancelled
  | MirroredExit int

record relaunch_run =
  rr_end :: relaunch_end
  rr_ran :: "(string \<times> string list) list"
  rr_removed :: "string list"
  rr_stdout :: bytes
  rr_stderr :: bytes

definition nothing_run :: "relaunch_end \<Rightarrow> relaunch_run" where
  "nothing_run e = \<lparr>rr_end = e, rr_ran = [], rr_removed = [], rr_stdout = [], rr_stderr = []\<rparr>"

definition can_relaunch_elevated :: "bool \<Rightarrow> bool" where
  "can_relaunch_elevated stdin_tty = stdin_tty"

definition powershell_call :: "relaunch_env \<Rightarrow> string \<Rightarrow> string \<times> string list" where
  "powershell_call rl script =
     (windows_powershell_path (rl_system_root rl),
      [''-NoProfile'', ''-NonInteractive'', ''-EncodedCommand'', encode_powershell_command (rl_base64 rl) script])"

definition relaunch_script :: "relaunch_env \<Rightarrow> string \<Rightarrow> string list \<Rightarrow> string" where
  "relaunch_script rl me args =
     (let base = relaunch_base (rl_temp rl) (rl_nonce rl);
          inner = build_inner_script me args (with_extension base ''out'') (with_extension base ''err'')
      in build_outer_script (rl_system_root rl) (encode_powershell_command (rl_base64 rl) inner))"

definition child_text :: "relaunch_env \<Rightarrow> string \<Rightarrow> bytes" where
  "child_text rl p = (case rl_read rl p of Inl _ \<Rightarrow> [] | Inr b \<Rightarrow> decode_child_output b)"

text \<open>What the parent prints before it asks: the line goes to its standard output.\<close>

definition REQUESTING :: string where
  "REQUESTING = ''Requesting administrator privileges (a UAC prompt will appear)'' @
     of_bytes [0xE2, 0x80, 0xA6] @ [CHR 0x0A]"

definition relaunch_elevated_and_wait :: "relaunch_env \<Rightarrow> string list \<Rightarrow> relaunch_run" where
  "relaunch_elevated_and_wait rl args =
     (if \<not> can_relaunch_elevated (rl_stdin_tty rl) then nothing_run InputNotATerminal
      else (case rl_exe rl of
              Inl e \<Rightarrow> nothing_run (ExecutableUnknown e)
            | Inr me \<Rightarrow>
                (let base = relaunch_base (rl_temp rl) (rl_nonce rl);
                     out_tmp = with_extension base ''out''; err_tmp = with_extension base ''err'';
                     call = powershell_call rl (relaunch_script rl me args)
                 in case rl_powershell rl call of
                      Inl e \<Rightarrow> (nothing_run (ShellNotRun e))\<lparr>rr_ran := [call], rr_stdout := as_bytes REQUESTING\<rparr>
                    | Inr status \<Rightarrow>
                        (let code = (case status of Some c \<Rightarrow> c | None \<Rightarrow> 1);
                             ended = \<lparr>rr_end = ElevationCancelled, rr_ran = [call], rr_removed = [out_tmp, err_tmp],
                                      rr_stdout = as_bytes REQUESTING, rr_stderr = []\<rparr>
                         in if code = int ELEVATION_CANCELLED then ended
                            else ended\<lparr>rr_end := MirroredExit code, rr_stdout := as_bytes REQUESTING @ child_text rl out_tmp,
                                       rr_stderr := child_text rl err_tmp\<rparr>))))"

definition relaunch_elevated_windows :: "relaunch_env \<Rightarrow> string \<Rightarrow> string list \<Rightarrow> relaunch_run" where
  "relaunch_elevated_windows rl subcommand forward =
     relaunch_elevated_and_wait rl (relaunch_args subcommand forward)"

section \<open>Texts\<close>

text \<open>Rust's strings are UTF-8: the scripts built from such strings are. The rules below take a text
  apart from its front.\<close>

lemma valid_utf8_prefix: "valid_utf8 a \<Longrightarrow> valid_utf8 (a @ b) \<longleftrightarrow> valid_utf8 b"
proof (induction a rule: valid_utf8.induct)
  case (1 a)
  show ?case
  proof (cases "a = []")
    case False
    obtain n where st: "utf8_step a = (True, n)" and v: "valid_utf8 (drop n a)"
      using "1.prems" [unfolded valid_utf8.simps [of a]] False by (auto split: prod.splits if_splits)
    have "valid_utf8 (a @ b) \<longleftrightarrow> valid_utf8 (drop n a @ b)"
      using False utf8_step_append(1) [OF st False, of b] utf8_step_append(2) [OF st False]
      by (subst valid_utf8.simps) simp
    then show ?thesis using "1.IH" [OF False st [symmetric] TrueI v] by simp
  qed simp
qed

lemma utf8_text_prefix [simp]: "utf8_text a \<Longrightarrow> utf8_text (a @ b) \<longleftrightarrow> utf8_text b"
  by (simp add: utf8_text_def valid_utf8_prefix)

lemma utf8_text_Nil [simp]: "utf8_text []"
  by (simp add: utf8_text_def)

lemma utf8_text_Cons [simp]: "of_char c < (0x80 :: nat) \<Longrightarrow> utf8_text (c # s) \<longleftrightarrow> utf8_text s"
  using utf8_text_prefix [OF utf8_text_ascii [of "[c]"], of s] by simp

lemma utf8_text_show_nat [simp]: "utf8_text (show_nat n)"
  by (rule utf8_text_ascii)
    (auto dest!: show_nat_digits simp: is_digit_def char_between_def less_eq_char_def)

lemma utf8_text_concat: "(\<And>s. s \<in> set ss \<Longrightarrow> utf8_text s) \<Longrightarrow> utf8_text (concat ss)"
  by (induction ss) simp_all

lemma ps_invoke_text:
  assumes "utf8_text exe" and "\<And>a. a \<in> set args \<Longrightarrow> utf8_text a"
  shows "utf8_text (ps_invoke exe args)"
  using assms by (auto simp: ps_invoke_def ps_single_quote_text intro!: utf8_text_concat)

lemma build_inner_script_text:
  assumes "utf8_text exe" and "\<And>a. a \<in> set args \<Longrightarrow> utf8_text a" and "utf8_text out" and "utf8_text err"
  shows "utf8_text (build_inner_script exe args out err)"
  using assms by (simp add: build_inner_script_def Let_def open_new_def ps_invoke_text ps_single_quote_text)

lemma windows_powershell_path_text:
  "(\<And>r. root = Some r \<Longrightarrow> utf8_text r) \<Longrightarrow> utf8_text (windows_powershell_path root)"
  by (cases root) (simp_all add: windows_powershell_path_def)

lemma build_outer_script_text:
  assumes "\<And>r. root = Some r \<Longrightarrow> utf8_text r" and "utf8_text b"
  shows "utf8_text (build_outer_script root b)"
  using assms windows_powershell_path_text [of root]
  by (simp add: build_outer_script_def ELEVATION_CANCELLED_def ps_single_quote_text)

section \<open>The names of the files\<close>

lemma hex2_chars: "c \<in> set (hex2 b) \<Longrightarrow> c \<in> set ''0123456789abcdef''"
proof -
  have n: "unat b < 256" using unsigned_less [of b, where 'a = nat] by simp
  then have "unat b div 16 < 16" "unat b mod 16 < 16" by auto
  then have "hex_digit (unat b div 16) \<in> set ''0123456789abcdef''" "hex_digit (unat b mod 16) \<in> set ''0123456789abcdef''"
    unfolding hex_digit_def by (intro nth_mem; simp)+
  then show "c \<in> set (hex2 b) \<Longrightarrow> c \<in> set ''0123456789abcdef''" by (auto simp: hex2_def)
qed

definition relaunch_name :: "bytes \<Rightarrow> string" where
  "relaunch_name nonce = ''mwsqlctl-elev-'' @ concat (map hex2 nonce)"

lemma relaunch_name_plain:
  assumes "c \<in> set (relaunch_name nonce)"
  shows "\<not> is_separator ''windows'' c" and "c \<noteq> CHR ''.''" and "of_char c < (0x80 :: nat)"
  using assms
  by (auto simp: relaunch_name_def is_separator_def is_windows_def BACKSLASH_CHAR_def dest!: hex2_chars)

lemma with_extension_plain:
  assumes "\<And>c. c \<in> set nm \<Longrightarrow> \<not> is_separator ''windows'' c \<and> c \<noteq> CHR ''.''"
    and "d = [] \<or> is_separator ''windows'' (last d) \<or> length d = 2 \<and> d ! 1 = CHR '':''"
  shows "with_extension (d @ nm) ext = d @ nm @ CHR ''.'' # ext"
proof -
  define own where "own = rev (takeWhile (\<lambda>c. \<not> is_separator ''windows'' c) (rev d))"
  have last_part: "rev (takeWhile (\<lambda>c. \<not> is_separator ''windows'' c) (rev (d @ nm))) = own @ nm"
    unfolding own_def rev_append by (subst takeWhile_append2) (use assms(1) in auto)
  have own: "\<exists>before. d = before @ own"
    by (metis own_def rev_append rev_rev_ident takeWhile_dropWhile_id)
  then obtain before where d: "d = before @ own" by blast
  have "own = [] \<or> own = [CHR '':''] \<or> (\<exists>x. own = [x, CHR '':''])"
  proof -
    consider "d = []" | "d \<noteq> []" "is_separator ''windows'' (last d)" | x where "d = [x, CHR '':'']"
      using assms(2) by (auto simp: length_Suc_conv numeral_2_eq_2)
    then show ?thesis
    proof cases
      case 2
      then have "takeWhile (\<lambda>c. \<not> is_separator ''windows'' c) (rev d) = []"
        by (cases d rule: rev_cases) auto
      then show ?thesis by (simp add: own_def)
    qed (simp_all add: own_def)
  qed
  moreover have absent: "rsplit_once (CHR ''.'') nm = None"
    using assms(1) by (auto simp: rsplit_once_None)
  ultimately have "(case rsplit_once (CHR ''.'') (own @ nm) of
        Some (stem, _) \<Rightarrow> if stem = [] then own @ nm else stem | None \<Rightarrow> own @ nm) = own @ nm"
  proof (elim disjE exE)
    fix x
    assume o: "own = [x, CHR '':'']"
    show ?thesis using o by (simp add: absent)
  qed (simp_all add: absent)
  then show ?thesis unfolding with_extension_def last_part by (simp add: d Let_def)
qed

lemma with_extension_base:
  "with_extension (relaunch_base temp nonce) ext = relaunch_base temp nonce @ CHR ''.'' # ext"
proof -
  let ?d = "if temp = [] \<or> is_separator ''windows'' (last temp) \<or> length temp = 2 \<and> temp ! 1 = CHR '':''
    then temp else temp @ [BACKSLASH_CHAR]"
  have b: "relaunch_base temp nonce = ?d @ relaunch_name nonce"
    by (simp add: relaunch_base_def relaunch_name_def join_dir_def is_windows_def)
  show ?thesis
    unfolding b
    using with_extension_plain [of "relaunch_name nonce" ?d ext] relaunch_name_plain [of _ nonce]
    by (auto simp: is_separator_def is_windows_def)
qed

lemma relaunch_base_text:
  assumes "utf8_text temp"
  shows "utf8_text (relaunch_base temp nonce)"
proof -
  have "utf8_text (relaunch_name nonce)" using relaunch_name_plain(3) by (blast intro: utf8_text_ascii)
  then show ?thesis
    using assms by (simp add: relaunch_base_def join_dir_def relaunch_name_def BACKSLASH_CHAR_def)
qed

section \<open>What the child runs\<close>

lemma ascii_no_curly: "\<forall>c \<in> set s. of_char c < (0x80 :: nat) \<Longrightarrow> no_curly s"
  by (induction s rule: no_curly.induct) (auto simp: CURLY_def)

text \<open>
  The child runs what was asked. The argument of the shell decodes to a script that holds one literal with
  the argument of the elevated shell; that literal reads back, and decodes to a script that runs the program
  with exactly the arguments, each a literal of its own. This needs texts without typographic quotes and a
  base64 coder that gives ASCII and can be undone.
\<close>

theorem relaunch_hands_arguments_over:
  assumes "utf8_text me" and "\<And>a. a \<in> set args \<Longrightarrow> utf8_text a" and "utf8_text (rl_temp rl)"
    and "\<And>r. rl_system_root rl = Some r \<Longrightarrow> utf8_text r"
    and "list_all no_curly (me # args)"
    and "\<And>b. unbase64 (rl_base64 rl b) = Some b"
    and "\<And>b c. c \<in> set (rl_base64 rl b) \<Longrightarrow> of_char c < (0x80 :: nat)"
  shows "\<exists>before arg rest pre inv post redirected.
    read_encoded_command unbase64 (last (snd (powershell_call rl (relaunch_script rl me args)))) =
      Some (before @ ps_single_quote arg @ rest) \<and>
    read_ps_literal (ps_single_quote arg @ rest) = Some (arg, rest) \<and>
    read_encoded_command unbase64 arg = Some (pre @ ''&'' @ inv @ post) \<and>
    read_ps_arguments (Suc (length args)) inv = Some (me # args, redirected)"
proof -
  let ?base = "relaunch_base (rl_temp rl) (rl_nonce rl)"
  let ?out = "with_extension ?base ''out''" and ?err = "with_extension ?base ''err''"
  let ?inner = "build_inner_script me args ?out ?err"
  let ?arg = "encode_powershell_command (rl_base64 rl) ?inner"
  have files: "utf8_text ?out" "utf8_text ?err"
    using relaunch_base_text [OF assms(3), of "rl_nonce rl"] by (simp_all add: with_extension_base)
  have inner: "utf8_text ?inner" by (rule build_inner_script_text [OF assms(1,2) files])
  have arg: "\<forall>c \<in> set ?arg. of_char c < (0x80 :: nat)"
    using assms(7) by (simp add: encode_powershell_command_def)
  have outer: "utf8_text (relaunch_script rl me args)"
    unfolding relaunch_script_def Let_def
    by (rule build_outer_script_text [OF assms(4)]) (use utf8_text_ascii [OF arg] in simp_all)
  obtain inv where inv: "ps_invoke me args @ '' 1> '' @ ps_single_quote ?out = ''&'' @ inv"
    "read_ps_arguments (Suc (length args)) inv = Some (me # args, '' 1> '' @ ps_single_quote ?out)"
    using elevated_arguments_read_back [OF assms(5)] by blast
  obtain before rest where o: "relaunch_script rl me args = before @ ps_single_quote ?arg @ rest" "quote_len rest = 0"
  proof
    show "relaunch_script rl me args =
      (''$ErrorActionPreference = '' @ ps_single_quote ''Stop'' @ ''; try { $p = Start-Process '' @
       ps_single_quote (windows_powershell_path (rl_system_root rl)) @
       '' -Verb RunAs -Wait -PassThru -ArgumentList '' @ ps_single_quote ''-NoProfile'' @ '','' @
       ps_single_quote ''-NonInteractive'' @ '','' @ ps_single_quote ''-EncodedCommand'' @ '','') @
      ps_single_quote ?arg @
      (''; $code = $p.ExitCode; if ($null -eq $code) { $code = 1 }; exit $code } catch { exit '' @
       show_nat ELEVATION_CANCELLED @ '' }'')"
      by (simp add: relaunch_script_def build_outer_script_def Let_def)
    show "quote_len (''; $code = $p.ExitCode; if ($null -eq $code) { $code = 1 }; exit $code } catch { exit '' @
       show_nat ELEVATION_CANCELLED @ '' }'') = 0"
      by (simp add: quote_len_def QUOTE_def CURLY_def)
  qed
  obtain pre post where i: "?inner = pre @ (ps_invoke me args @ '' 1> '' @ ps_single_quote ?out) @ post"
  proof
    show "?inner = (''$code = 1; try { '' @ open_new (ps_single_quote ?out) @ ''; '' @ open_new (ps_single_quote ?err) @
        '' } catch { exit 1 }; try { '') @ (ps_invoke me args @ '' 1> '' @ ps_single_quote ?out) @
      ('' 2> '' @ ps_single_quote ?err @
       ''; $code = $LASTEXITCODE } catch { [System.IO.File]::AppendAllText('' @ ps_single_quote ?err @
       '', ($_ | Out-String)); $code = 1 }; if ($null -eq $code) { $code = 1 }; exit $code'')"
      by (simp add: build_inner_script_def Let_def)
  qed
  have decode: "read_encoded_command unbase64 (encode_powershell_command (rl_base64 rl) s) = Some s"
    if "utf8_text s" for s
    by (rule encoded_command_read_back [OF that]) (rule assms(6))
  have "read_encoded_command unbase64 (last (snd (powershell_call rl (relaunch_script rl me args)))) =
      Some (before @ ps_single_quote ?arg @ rest)"
    using decode [OF outer] o(1)
    by (simp add: powershell_call_def)
  moreover have "read_ps_literal (ps_single_quote ?arg @ rest) = Some (?arg, rest)"
    by (rule read_ps_single_quote [OF ascii_no_curly [OF arg] o(2)])
  moreover have "read_encoded_command unbase64 ?arg = Some (pre @ ''&'' @ inv @ post)"
    using decode [OF inner] i inv(1) by simp
  ultimately show ?thesis using inv(2) by blast
qed

section \<open>What comes back\<close>

text \<open>
  The child's output is mirrored. When the child ran and left its output as either PowerShell writes it,
  the parent prints what the child printed, on the same streams, exits with its code, and both files are
  removed: a token minted by the elevated child is not lost, whatever its text. On standard output it comes
  after the line that announces the prompt, so a shell that captures the output captures that line as well.
  The one code that is not mirrored is the one that stands for a declined prompt.
\<close>

theorem relaunch_mirrors_child:
  assumes "rl_stdin_tty rl" and "rl_exe rl = Inr me"
    and "rl_powershell rl (powershell_call rl (relaunch_script rl me args)) = Inr (Some code)"
    and "code \<noteq> int ELEVATION_CANCELLED"
    and "out_tmp = with_extension (relaunch_base (rl_temp rl) (rl_nonce rl)) ''out''"
    and "err_tmp = with_extension (relaunch_base (rl_temp rl) (rl_nonce rl)) ''err''"
    and "rl_read rl out_tmp = Inr ([0xFF, 0xFE] @ concat (map le16 (crlf_units (encode_utf16 out))))"
    and "rl_read rl err_tmp = Inr (lf_to_crlf (as_bytes err))"
    and "utf8_text out" and "CHR 0x0D \<notin> set out" and "utf8_text err" and "CHR 0x0D \<notin> set err"
    and "take 3 (lf_to_crlf (as_bytes err)) \<noteq> [0xEF, 0xBB, 0xBF]"
  shows "relaunch_elevated_and_wait rl args =
    \<lparr>rr_end = MirroredExit code, rr_ran = [powershell_call rl (relaunch_script rl me args)],
     rr_removed = [out_tmp, err_tmp], rr_stdout = as_bytes (REQUESTING @ out), rr_stderr = as_bytes err\<rparr>"
proof -
  have cr: "0x0D \<notin> set (as_bytes s)" if "CHR 0x0D \<notin> set s" for s
  proof -
    have e: "char_byte (CHR 0x0D) = 0x0D" by (simp add: char_byte_def)
    show ?thesis
    proof
      assume "0x0D \<in> set (as_bytes s)"
      then obtain c where "c \<in> set s" "char_byte c = char_byte (CHR 0x0D)"
        unfolding as_bytes_def set_map e by fastforce
      with that show False using char_byte_inject [of c "CHR 0x0D"] by blast
    qed
  qed
  have "child_text rl out_tmp = as_bytes out"
    using child_output_utf16 [OF assms(9) cr [OF assms(10)]] by (simp add: child_text_def assms(7))
  moreover have "child_text rl err_tmp = as_bytes err"
    using child_output_utf8(1) [OF assms(11) cr [OF assms(12)] assms(13)] by (simp add: child_text_def assms(8))
  ultimately show ?thesis
    by (simp add: relaunch_elevated_and_wait_def can_relaunch_elevated_def Let_def assms(1-4)
        assms(5,6) [symmetric])
qed

text \<open>Once PowerShell ran, both files are removed, whatever happened; without a terminal nothing runs.\<close>

lemma relaunch_leaves_no_files:
  "rl_powershell rl (powershell_call rl (relaunch_script rl me args)) = Inr status \<Longrightarrow>
   rl_stdin_tty rl \<Longrightarrow> rl_exe rl = Inr me \<Longrightarrow>
   length (rr_removed (relaunch_elevated_and_wait rl args)) = 2"
  by (simp add: relaunch_elevated_and_wait_def can_relaunch_elevated_def Let_def)

lemma relaunch_needs_terminal:
  "\<not> rl_stdin_tty rl \<Longrightarrow> rr_ran (relaunch_elevated_and_wait rl args) = []"
  by (simp add: relaunch_elevated_and_wait_def can_relaunch_elevated_def nothing_run_def)

text \<open>A child that ends with the reserved code is taken for a declined prompt: what it printed is lost.\<close>

lemma reserved_code_loses_output:
  "rl_stdin_tty rl \<Longrightarrow> rl_exe rl = Inr me \<Longrightarrow>
   rl_powershell rl (powershell_call rl (relaunch_script rl me args)) = Inr (Some 1223) \<Longrightarrow>
   rr_end (relaunch_elevated_and_wait rl args) = ElevationCancelled \<and>
   rr_stdout (relaunch_elevated_and_wait rl args) = as_bytes REQUESTING"
  by (simp add: relaunch_elevated_and_wait_def can_relaunch_elevated_def Let_def ELEVATION_CANCELLED_def)


section \<open>Elevation with sudo\<close>

text \<open>What the process is replaced by on Unix, with the variable that marks it, and the command printed when
  it is left to the operator.\<close>

definition ELEVATED_MARKER :: string where "ELEVATED_MARKER = ''MW_ELEVATED''"

definition re_exec_under_sudo :: "string \<Rightarrow> string \<Rightarrow> string list \<Rightarrow> string \<times> string list \<times> (string \<times> string)" where
  "re_exec_under_sudo me subcommand forward =
     (''sudo'', build_sudo_argv me subcommand forward, (ELEVATED_MARKER, ''1''))"

definition print_manual :: "string \<Rightarrow> string \<Rightarrow> string list \<Rightarrow> string list" where
  "print_manual me subcommand forward =
     [[], ''No changes made. Run it yourself when ready:'',
      ''  sudo '' @ me @ '' '' @ subcommand @ concat (map (\<lambda>a. '' '' @ a) forward)]"

definition one_word :: "string \<Rightarrow> bool" where
  "one_word w \<longleftrightarrow> w \<noteq> [] \<and> CHR '' '' \<notin> set w"

lemma shell_words_cons: "CHR '' '' \<notin> set w \<Longrightarrow> shell_words (w @ '' '' @ s) = filter (\<lambda>w. w \<noteq> []) [w] @ shell_words s"
  by (simp add: shell_words_def split_on_append)

lemma shell_words_joined:
  "CHR '' '' \<notin> set w \<Longrightarrow> \<forall>a \<in> set ws. one_word a \<Longrightarrow>
     shell_words (w @ concat (map (\<lambda>a. '' '' @ a) ws)) = filter (\<lambda>w. w \<noteq> []) [w] @ ws"
proof (induction ws arbitrary: w)
  case Nil
  then have "split_on (CHR '' '') w = [w]" by (induction w) auto
  then show ?case by (simp add: shell_words_def)
next
  case (Cons a ws)
  then show ?case
    using shell_words_cons [of w "a @ concat (map (\<lambda>a. '' '' @ a) ws)"] by (simp add: one_word_def)
qed

text \<open>The printed command is the one that would have been run when its words have no space; nothing quotes
  them, so a path with a space is two words of it.\<close>

lemma manual_command_words:
  assumes "one_word me" and "one_word subcommand" and "\<forall>a \<in> set forward. one_word a"
  shows "shell_words (last (print_manual me subcommand forward)) = ''sudo'' # me # subcommand # forward"
proof -
  have "last (print_manual me subcommand forward) =
      [] @ '' '' @ [] @ '' '' @ ''sudo'' @ concat (map (\<lambda>a. '' '' @ a) (me # subcommand # forward))"
    by (simp add: print_manual_def)
  moreover have "shell_words (''sudo'' @ concat (map (\<lambda>a. '' '' @ a) (me # subcommand # forward))) =
      ''sudo'' # me # subcommand # forward"
    using shell_words_joined [of "''sudo''" "me # subcommand # forward"] assms by simp
  ultimately show ?thesis
    using shell_words_cons [of "[]"] by simp
qed

lemma spaced_path_splits:
  "shell_words (last (print_manual ''/opt/mw'' ''init'' [''--state-dir'', ''/srv/my state''])) =
     [''sudo'', ''/opt/mw'', ''init'', ''--state-dir'', ''/srv/my'', ''state'']"
  by (simp add: print_manual_def shell_words_def)

end
