(* ===== verification/Secret.thy ===== *)
theory Secret
  imports Config Utf8 Net_Addr
begin

text \<open>
  \<open>crates/mw-core/src/secret.rs\<close>: the wrappers of secret text and bytes, with what they print, how
  they are serialised and read back, and the memory they leave behind; and the byte-array adapters of
  \<open>crates/mw-core/src/config.rs\<close> for the verifiers. A serialisation format is what it hands a visitor.
\<close>

section \<open>Reading serialised values\<close>

datatype serde_error =
    InvalidType string string
  | InvalidLength nat string
  | InvalidUtf8 bytes
  | ElementFailed string

text \<open>What a format hands to a visitor: text, borrowed or owned bytes, a sequence whose elements may fail
  to be bytes, or something else.\<close>

datatype visit =
    VisitStr string
  | VisitBytes bytes
  | VisitByteBuf bytes
  | VisitSeq "(serde_error + u8) list"
  | VisitOther string

text \<open>What the wrappers hand to a format.\<close>

datatype serialized = SerStr string | SerBytes bytes

fun unexpected :: "visit \<Rightarrow> string" where
  "unexpected (VisitStr _) = ''string''"
| "unexpected (VisitBytes _) = ''byte array''"
| "unexpected (VisitByteBuf _) = ''byte array''"
| "unexpected (VisitSeq _) = ''sequence''"
| "unexpected (VisitOther k) = k"

definition secret_str_serialize :: "string \<Rightarrow> serialized" where
  "secret_str_serialize s = SerStr s"

text \<open>\<open>String\<close>'s own visitor takes text, and bytes that are UTF-8.\<close>

definition secret_str_deserialize :: "visit \<Rightarrow> serde_error + string" where
  "secret_str_deserialize v =
     (case v of
        VisitStr s \<Rightarrow> Inr s
      | VisitBytes b \<Rightarrow> if valid_utf8 b then Inr (of_bytes b) else Inl (InvalidUtf8 b)
      | VisitByteBuf b \<Rightarrow> if valid_utf8 b then Inr (of_bytes b) else Inl (InvalidUtf8 b)
      | _ \<Rightarrow> Inl (InvalidType (unexpected v) ''a string''))"

definition secret_bytes_serialize :: "bytes \<Rightarrow> serialized" where
  "secret_bytes_serialize b = SerBytes b"

fun seq_bytes :: "(serde_error + u8) list \<Rightarrow> serde_error + bytes" where
  "seq_bytes [] = Inr []"
| "seq_bytes (Inl e # es) = Inl e"
| "seq_bytes (Inr b # es) = (case seq_bytes es of Inl e \<Rightarrow> Inl e | Inr bs \<Rightarrow> Inr (b # bs))"

definition secret_bytes_deserialize :: "visit \<Rightarrow> serde_error + bytes" where
  "secret_bytes_deserialize v =
     (case v of
        VisitBytes b \<Rightarrow> Inr b
      | VisitByteBuf b \<Rightarrow> Inr b
      | VisitSeq es \<Rightarrow> seq_bytes es
      | _ \<Rightarrow> Inl (InvalidType (unexpected v) ''byte sequence''))"

section \<open>The verifiers\<close>

text \<open>The adapters of the two verifiers, for their lengths: the slots of the array are filled one by one,
  and what the sequence has beyond them is not asked for.\<close>

fun fill_slots :: "nat \<Rightarrow> string \<Rightarrow> nat \<Rightarrow> (serde_error + u8) list \<Rightarrow> serde_error + bytes" where
  "fill_slots len expecting 0 es = Inr []"
| "fill_slots len expecting (Suc n) [] = Inl (InvalidLength len expecting)"
| "fill_slots len expecting (Suc n) (Inl e # es) = Inl e"
| "fill_slots len expecting (Suc n) (Inr b # es) =
     (case fill_slots len expecting n es of Inl e \<Rightarrow> Inl e | Inr bs \<Rightarrow> Inr (b # bs))"

definition array_deserialize :: "nat \<Rightarrow> string \<Rightarrow> visit \<Rightarrow> serde_error + bytes" where
  "array_deserialize len expecting v =
     (case v of
        VisitBytes b \<Rightarrow> if length b = len then Inr b else Inl (InvalidLength (length b) expecting)
      | VisitByteBuf b \<Rightarrow> if length b = len then Inr b else Inl (InvalidLength (length b) expecting)
      | VisitSeq es \<Rightarrow> fill_slots len expecting len es
      | _ \<Rightarrow> Inl (InvalidType (unexpected v) expecting))"

definition arr20_deserialize :: "visit \<Rightarrow> serde_error + bytes" where
  "arr20_deserialize = array_deserialize 20 ''20 raw bytes''"

definition arr32_deserialize :: "visit \<Rightarrow> serde_error + bytes" where
  "arr32_deserialize = array_deserialize 32 ''32 raw bytes''"

definition arr20_serialize :: "bytes \<Rightarrow> serialized" where
  "arr20_serialize v = SerBytes v"

definition arr32_serialize :: "bytes \<Rightarrow> serialized" where
  "arr32_serialize v = SerBytes v"

text \<open>What a format may hand back for what it was given: text as text or as its bytes, bytes as bytes or,
  in a format that has none, as a sequence of numbers.\<close>

inductive gives_back :: "serialized \<Rightarrow> visit \<Rightarrow> bool" where
  back_str: "gives_back (SerStr s) (VisitStr s)"
| back_str_bytes: "gives_back (SerStr s) (VisitBytes (as_bytes s))"
| back_bytes: "gives_back (SerBytes b) (VisitBytes b)"
| back_byte_buf: "gives_back (SerBytes b) (VisitByteBuf b)"
| back_seq: "gives_back (SerBytes b) (VisitSeq (map Inr b))"

inductive_cases gives_back_str: "gives_back (SerStr s) v"
inductive_cases gives_back_bytes: "gives_back (SerBytes b) v"

lemma seq_bytes_map [simp]: "seq_bytes (map Inr b) = Inr b"
  by (induction b) simp_all

lemma fill_slots_map: "fill_slots len x n (map Inr b) = (if n \<le> length b then Inr (take n b) else Inl (InvalidLength len x))"
  by (induction len x n "map Inr b :: (serde_error + u8) list" arbitrary: b rule: fill_slots.induct)
    (auto simp: Cons_eq_map_conv split: sum.splits)

lemma fill_slots_length: "fill_slots len x n es = Inr bs \<Longrightarrow> length bs = n"
  by (induction len x n es arbitrary: bs rule: fill_slots.induct) (auto split: sum.splits)

text \<open>Whatever the format hands back, the value is read as it was written; and a verifier read from any
  input at all has its length, the one its engine compares.\<close>

theorem secrets_read_back:
  "utf8_text s \<Longrightarrow> gives_back (secret_str_serialize s) v \<Longrightarrow> secret_str_deserialize v = Inr s"
  "gives_back (secret_bytes_serialize b) v \<Longrightarrow> secret_bytes_deserialize v = Inr b"
  "length a = 20 \<Longrightarrow> gives_back (arr20_serialize a) v \<Longrightarrow> arr20_deserialize v = Inr a"
  "length a = 32 \<Longrightarrow> gives_back (arr32_serialize a) v \<Longrightarrow> arr32_deserialize v = Inr a"
  by (auto simp: secret_str_serialize_def secret_str_deserialize_def secret_bytes_serialize_def
      secret_bytes_deserialize_def arr20_serialize_def arr20_deserialize_def arr32_serialize_def
      arr32_deserialize_def array_deserialize_def fill_slots_map utf8_text_def
      elim!: gives_back_str gives_back_bytes)

theorem verifier_length:
  "arr20_deserialize v = Inr a \<Longrightarrow> length a = 20"
  "arr32_deserialize v = Inr a \<Longrightarrow> length a = 32"
  by (auto simp: arr20_deserialize_def arr32_deserialize_def array_deserialize_def fill_slots_length
      split: visit.splits if_splits)

text \<open>A verifier that is too long is refused as bytes and cut as a sequence.\<close>

lemma long_verifier_cut:
  "length a = 21 \<Longrightarrow> arr20_deserialize (VisitBytes a) = Inl (InvalidLength 21 ''20 raw bytes'') \<and>
     arr20_deserialize (VisitSeq (map Inr a)) = Inr (take 20 a)"
  by (simp add: arr20_deserialize_def array_deserialize_def fill_slots_map)


section \<open>What is printed\<close>

definition secret_str_debug :: "string \<Rightarrow> string" where
  "secret_str_debug s = ''SecretStr(<redacted>)''"

definition secret_bytes_debug :: "bytes \<Rightarrow> string" where
  "secret_bytes_debug b = ''SecretBytes(<redacted, '' @ show_nat (length b) @ '' bytes>)''"

text \<open>The derived printing of the configuration, as the tree of names and values it prints; text other
  than a secret is printed as it is, numbers in decimal.\<close>

datatype debug_tree =
    DebugText string
  | DebugString string
  | DebugStruct string "(string \<times> debug_tree) list"
  | DebugSome debug_tree
  | DebugNone
  | DebugList "debug_tree list"
  | DebugMap "(string \<times> debug_tree) list"

definition debug_option :: "('a \<Rightarrow> debug_tree) \<Rightarrow> 'a option \<Rightarrow> debug_tree" where
  "debug_option f v = (case v of None \<Rightarrow> DebugNone | Some x \<Rightarrow> DebugSome (f x))"

definition debug_number :: "nat \<Rightarrow> debug_tree" where
  "debug_number n = DebugText (show_nat n)"

definition debug_bool :: "bool \<Rightarrow> debug_tree" where
  "debug_bool b = DebugText (if b then ''true'' else ''false'')"

definition debug_byte_array :: "bytes \<Rightarrow> debug_tree" where
  "debug_byte_array b = DebugList (map (\<lambda>x. debug_number (unat x)) b)"

fun debug_bastion_auth :: "bastion_auth \<Rightarrow> debug_tree" where
  "debug_bastion_auth (PasswordAuth p) = DebugStruct ''Password'' [(''password'', DebugText (secret_str_debug p))]"
| "debug_bastion_auth (KeyAuth k p) =
     DebugStruct ''Key'' [(''private_key_pem'', DebugText (secret_bytes_debug k)),
       (''passphrase'', debug_option (\<lambda>s. DebugText (secret_str_debug s)) p)]"

definition debug_fingerprint :: "host_key_fingerprint \<Rightarrow> debug_tree" where
  "debug_fingerprint f = DebugStruct ''HostKeyFingerprint''
     [(''algo'', DebugString (algo f)), (''sha256_b64'', DebugString (sha256_b64 f))]"

definition debug_bastion :: "bastion \<Rightarrow> debug_tree" where
  "debug_bastion b = DebugStruct ''Bastion''
     [(''host'', DebugString (host b)), (''port'', debug_number (unat (port b))),
      (''ssh_user'', DebugString (ssh_user b)), (''auth'', debug_bastion_auth (auth b)),
      (''pinned_host_keys'', DebugList (map debug_fingerprint (pinned_host_keys b)))]"

definition debug_credential :: "credential \<Rightarrow> debug_tree" where
  "debug_credential c = DebugStruct ''Credential''
     [(''backend_user'', DebugString (backend_user c)),
      (''backend_password'', DebugText (secret_str_debug (backend_password c)))]"

fun debug_engine :: "engine_kind \<Rightarrow> debug_tree" where
  "debug_engine MySql = DebugText ''MySql''"
| "debug_engine Postgres = DebugText ''Postgres''"
| "debug_engine MsSql = DebugText ''MsSql''"

fun debug_policy :: "policy \<Rightarrow> debug_tree" where
  "debug_policy ReadOnly = DebugText ''ReadOnly''"
| "debug_policy ReadWrite = DebugText ''ReadWrite''"
| "debug_policy (Custom d l a) = DebugStruct ''Custom''
     [(''allow_dml'', debug_bool d), (''allow_ddl'', debug_bool l), (''allow_admin'', debug_bool a)]"

fun debug_client_auth :: "client_auth_kind \<Rightarrow> debug_tree" where
  "debug_client_auth (NativePassword v) = DebugStruct ''NativePassword'' [(''double_sha1'', debug_byte_array v)]"
| "debug_client_auth (PgCleartext v) = DebugStruct ''PgCleartext'' [(''sha256'', debug_byte_array v)]"

definition debug_pool :: "pool_settings \<Rightarrow> debug_tree" where
  "debug_pool p = DebugStruct ''PoolSettings''
     [(''max_size'', debug_number (unat (max_size p))), (''idle_timeout_secs'', debug_number (unat (idle_timeout_secs p)))]"

definition debug_env :: "env \<Rightarrow> debug_tree" where
  "debug_env e = DebugStruct ''Env''
     [(''backend_host'', DebugString (backend_host e)), (''backend_port'', debug_number (unat (backend_port e))),
      (''default_database'', debug_option DebugString (default_database e)),
      (''bastion'', debug_option DebugString (env_bastion e)), (''credential'', DebugString (env_credential e)),
      (''policy'', debug_policy (env_policy e)), (''client_auth'', debug_client_auth (client_auth e)),
      (''listen_port'', debug_number (unat (listen_port e))), (''pool'', debug_pool (pool e)),
      (''engine'', debug_engine (engine e))]"

definition debug_config :: "config \<Rightarrow> debug_tree" where
  "debug_config c = DebugStruct ''Config''
     [(''schema_version'', debug_number (unat (schema_version c))),
      (''bastions'', DebugMap (map (\<lambda>(n, b). (n, debug_bastion b)) (bt_entries (bastions c)))),
      (''credentials'', DebugMap (map (\<lambda>(n, r). (n, debug_credential r)) (bt_entries (credentials c)))),
      (''envs'', DebugMap (map (\<lambda>(n, e). (n, debug_env e)) (bt_entries (envs c))))]"

text \<open>The configuration with every secret blotted out, keys to their length.\<close>

fun blot_auth :: "bastion_auth \<Rightarrow> bastion_auth" where
  "blot_auth (PasswordAuth p) = PasswordAuth []"
| "blot_auth (KeyAuth k p) = KeyAuth (replicate (length k) 0) (map_option (\<lambda>_. []) p)"

definition blot_config :: "config \<Rightarrow> config" where
  "blot_config c =
     c\<lparr>bastions := bt_map_values (\<lambda>b. b\<lparr>auth := blot_auth (auth b)\<rparr>) (bastions c),
       credentials := bt_map_values (\<lambda>r. r\<lparr>backend_password := []\<rparr>) (credentials c)\<rparr>"

lemma debug_blot_auth [simp]: "debug_bastion_auth (blot_auth a) = debug_bastion_auth a"
  by (cases a) (simp_all add: secret_str_debug_def secret_bytes_debug_def debug_option_def split: option.splits)

lemma debug_blot_bastion: "debug_bastion (b\<lparr>auth := blot_auth (auth b)\<rparr>) = debug_bastion b"
  by (simp add: debug_bastion_def)

lemma debug_blot_credential: "debug_credential (r\<lparr>backend_password := []\<rparr>) = debug_credential r"
  by (simp add: debug_credential_def secret_str_debug_def)

lemma debug_blot_config: "debug_config (blot_config c) = debug_config c"
proof -
  have "map (\<lambda>(n, b). (n, debug_bastion b)) (bt_entries (bastions (blot_config c))) =
      map (\<lambda>(n, b). (n, debug_bastion b)) (bt_entries (bastions c))"
    by (auto simp: blot_config_def debug_blot_bastion)
  moreover have "map (\<lambda>(n, r). (n, debug_credential r)) (bt_entries (credentials (blot_config c))) =
      map (\<lambda>(n, r). (n, debug_credential r)) (bt_entries (credentials c))"
    by (auto simp: blot_config_def debug_blot_credential)
  ultimately show ?thesis by (simp add: debug_config_def) (simp add: blot_config_def)
qed

text \<open>
  Printing a configuration tells nothing of its secrets but the length of the private keys: two
  configurations that agree where the secrets are blotted out print the same.
\<close>

theorem debug_tells_no_secret:
  assumes "blot_config c = blot_config d"
  shows "debug_config c = debug_config d"
  using assms debug_blot_config [of c] debug_blot_config [of d] by simp

text \<open>The verifiers are no secrets for it: they are printed.\<close>

lemma debug_shows_verifier:
  "debug_client_auth (PgCleartext v) = debug_client_auth (PgCleartext w) \<longleftrightarrow> v = w"
proof -
  have "inj (\<lambda>x :: u8. debug_number (unat x))"
  proof (rule injI)
    fix x y :: u8
    assume "debug_number (unat x) = debug_number (unat y)"
    then have "unat x = unat y"
      using span_digits_show_nat [of "unat x"] span_digits_show_nat [of "unat y"] by (auto simp: debug_number_def)
    then show "x = y" by (simp add: word_unat_eq_iff)
  qed
  then show ?thesis by (simp add: debug_byte_array_def inj_map_eq_map)
qed


section \<open>What stays in memory\<close>

text \<open>
  The allocations made for secrets: their bytes and whether a wrapper still owns them. A wrapper around an
  owned buffer takes it over, a clone copies, a drop overwrites the buffer before it is freed. A secret read
  from a sequence is pushed byte by byte into a vector of the announced capacity; when that is too small the
  vector moves to a larger allocation, and what it leaves is freed as it is.
\<close>

record cell =
  cl_bytes :: bytes
  cl_owned :: bool

type_synonym memory = "cell list"

datatype secret_op =
    Take bytes
  | CloneOf nat
  | DropOf nat
  | PushAll nat bytes

definition zeroize :: "cell \<Rightarrow> cell" where
  "zeroize cl = \<lparr>cl_bytes = replicate (length (cl_bytes cl)) 0, cl_owned = False\<rparr>"

text \<open>The capacity after a push to a full vector of bytes, and the buffers left behind by pushing the
  bytes into a vector of capacity \<open>cap\<close> that holds \<open>done\<close>.\<close>

definition grown :: "nat \<Rightarrow> nat" where
  "grown cap = max 8 (2 * cap)"

fun pushed :: "nat \<Rightarrow> bytes \<Rightarrow> bytes \<Rightarrow> memory" where
  "pushed cap done [] = [\<lparr>cl_bytes = done, cl_owned = True\<rparr>]"
| "pushed cap done (b # bs) =
     (if length done < cap then pushed cap (done @ [b]) bs
      else \<lparr>cl_bytes = done, cl_owned = False\<rparr> # pushed (grown cap) (done @ [b]) bs)"

fun secret_step :: "secret_op \<Rightarrow> memory \<Rightarrow> memory" where
  "secret_step (Take b) m = m @ [\<lparr>cl_bytes = b, cl_owned = True\<rparr>]"
| "secret_step (CloneOf i) m =
     (if i < length m \<and> cl_owned (m ! i) then m @ [\<lparr>cl_bytes = cl_bytes (m ! i), cl_owned = True\<rparr>] else m)"
| "secret_step (DropOf i) m =
     (if i < length m \<and> cl_owned (m ! i) then m[i := zeroize (m ! i)] else m)"
| "secret_step (PushAll hint b) m = m @ pushed hint [] b"

definition blank :: "cell \<Rightarrow> bool" where
  "blank cl \<longleftrightarrow> set (cl_bytes cl) \<subseteq> {0}"

text \<open>A size hint that covers the sequence, as a format gives it that knows the length.\<close>

definition well_hinted :: "secret_op \<Rightarrow> bool" where
  "well_hinted op' \<longleftrightarrow> (case op' of PushAll hint b \<Rightarrow> length b \<le> hint | _ \<Rightarrow> True)"

lemma pushed_fits: "length done + length b \<le> cap \<Longrightarrow> pushed cap done b = [\<lparr>cl_bytes = done @ b, cl_owned = True\<rparr>]"
  by (induction b arbitrary: "done") simp_all

lemma blank_zeroize [simp]: "blank (zeroize cl)" "\<not> cl_owned (zeroize cl)"
  by (auto simp: blank_def zeroize_def)

text \<open>What nobody owns any more has been overwritten; so once every secret is dropped, clones included, no
  byte of one is left in memory.\<close>

theorem dropped_secrets_blank:
  assumes "\<forall>op' \<in> set ops. well_hinted op'" and "cl \<in> set (fold secret_step ops [])" and "\<not> cl_owned cl"
  shows "blank cl"
proof -
  have "\<forall>cl \<in> set (fold secret_step ops m). \<not> cl_owned cl \<longrightarrow> blank cl"
    if "\<forall>cl \<in> set m. \<not> cl_owned cl \<longrightarrow> blank cl" for m
    using assms(1) that
  proof (induction ops arbitrary: m)
    case (Cons op' ops)
    have "\<forall>cl \<in> set (secret_step op' m). \<not> cl_owned cl \<longrightarrow> blank cl"
    proof (cases op')
      case (DropOf i)
      then show ?thesis using Cons.prems(2) by (auto dest!: set_update_subset_insert [THEN subsetD])
    next
      case (PushAll hint b)
      then have "pushed hint [] b = [\<lparr>cl_bytes = b, cl_owned = True\<rparr>]"
        using Cons.prems(1) pushed_fits [of "[]" b hint] by (simp add: well_hinted_def)
      then show ?thesis using Cons.prems(2) PushAll by auto
    qed (use Cons.prems(2) in auto)
    then show ?case using Cons by simp
  qed simp
  from this [of "[]"] show ?thesis using assms(2,3) by simp
qed

text \<open>A clone is a secret of its own: dropping the original leaves it whole.\<close>

lemma clone_outlives_original:
  assumes "i < length m" and "cl_owned (m ! i)"
  shows "secret_step (DropOf i) (secret_step (CloneOf i) m) ! length m =
    \<lparr>cl_bytes = cl_bytes (m ! i), cl_owned = True\<rparr>"
  using assms by (simp add: nth_append)

text \<open>A hint that is too small leaves the front of the secret in a freed buffer, which no drop reaches.\<close>

lemma short_hint_leaves_secret:
  assumes "0 < hint" and "hint < length b"
  shows "\<lparr>cl_bytes = take hint b, cl_owned = False\<rparr> \<in> set (secret_step (PushAll hint b) m)"
proof -
  have "\<lparr>cl_bytes = done @ take (cap - length done) b, cl_owned = False\<rparr> \<in> set (pushed cap done b)"
    if "length done \<le> cap" "cap < length done + length b" for "done" cap b
    using that
  proof (induction b arbitrary: "done")
    case (Cons x b)
    then show ?case
    proof (cases "length done < cap")
      case True
      then have "cap - length done = Suc (cap - length (done @ [x]))" by simp
      then show ?thesis using Cons.IH [of "done @ [x]"] Cons.prems True by simp
    qed simp
  qed simp
  from this [of "[]" hint b] show ?thesis using assms by simp
qed

end
