(* ===== verification/Query_Client.thy ===== *)
theory Query_Client
  imports Terminal Utf8
begin

text \<open>
  The client wrapper (\<open>crates/mwsql/src/lib.rs\<close> and \<open>main.rs\<close>): a token per environment in the
  client's own store, a statement sent as it is, and the table printed. The JSON of a stored credential, the
  connection and the text of floating-point numbers are arguments.
\<close>

record stored_cred =
  sc_token :: string
  sc_host :: string
  sc_port :: u16

record cred_codec =
  cc_write :: "stored_cred \<Rightarrow> string"
  cc_read :: "string \<Rightarrow> string + stored_cred"

text \<open>serde's derived codec reads back what it writes.\<close>

definition codec_laws :: "cred_codec \<Rightarrow> bool" where
  "codec_laws cc \<longleftrightarrow> (\<forall>c. cc_read cc (cc_write cc c) = Inr c)"

section \<open>Token stores\<close>

definition CLIENT_SERVICE :: string where "CLIENT_SERVICE = ''middlewhere-client''"

definition no_credentials :: "string \<Rightarrow> string" where
  "no_credentials e = ''no credentials for env '' @ e @ ''; run: mwsql login '' @ e @ '' --port <p>''"

definition decode_stored :: "cred_codec \<Rightarrow> string \<Rightarrow> string + stored_cred" where
  "decode_stored cc s =
     (case cc_read cc s of Inl e \<Rightarrow> Inl (''decode stored credential: '' @ e) | Inr c \<Rightarrow> Inr c)"

definition os_save :: "cred_codec \<Rightarrow> string \<Rightarrow> stored_cred \<Rightarrow> disk \<Rightarrow> disk" where
  "os_save cc e c d = d\<lparr>keychain := (keychain d)((CLIENT_SERVICE, e) \<mapsto> cc_write cc c)\<rparr>"

definition os_load_cred :: "cred_codec \<Rightarrow> string \<Rightarrow> disk \<Rightarrow> string + stored_cred" where
  "os_load_cred cc e d =
     (case keychain d (CLIENT_SERVICE, e) of None \<Rightarrow> Inl (no_credentials e) | Some s \<Rightarrow> decode_stored cc s)"

definition os_delete_cred :: "string \<Rightarrow> disk \<Rightarrow> disk" where
  "os_delete_cred e d = d\<lparr>keychain := (keychain d)((CLIENT_SERVICE, e) := None)\<rparr>"

definition cred_path :: "string \<Rightarrow> string \<Rightarrow> string" where
  "cred_path dir e = path_join dir (e @ ''.json'')"

definition file_save :: "cred_codec \<Rightarrow> string \<Rightarrow> string \<Rightarrow> stored_cred \<Rightarrow> disk \<Rightarrow> disk" where
  "file_save cc dir e c d = d\<lparr>fs_files := (fs_files d)(cred_path dir e \<mapsto> as_bytes (cc_write cc c))\<rparr>"

definition file_load_cred :: "cred_codec \<Rightarrow> string \<Rightarrow> string \<Rightarrow> disk \<Rightarrow> string + stored_cred" where
  "file_load_cred cc dir e d =
     (case fs_files d (cred_path dir e) of
        None \<Rightarrow> Inl (no_credentials e)
      | Some b \<Rightarrow>
          if valid_utf8 b then decode_stored cc (of_bytes b)
          else Inl (''read '' @ cred_path dir e @ '': stream did not contain valid UTF-8''))"

definition file_delete_cred :: "string \<Rightarrow> string \<Rightarrow> disk \<Rightarrow> disk" where
  "file_delete_cred dir e d = d\<lparr>fs_files := (fs_files d)(cred_path dir e := None)\<rparr>"

text \<open>What the client relies on, for either store.\<close>

locale token_store =
  fixes ok :: "'w \<Rightarrow> bool"
    and save :: "'w \<Rightarrow> string \<Rightarrow> stored_cred \<Rightarrow> disk \<Rightarrow> disk"
    and load :: "'w \<Rightarrow> string \<Rightarrow> disk \<Rightarrow> string + stored_cred"
    and delete :: "'w \<Rightarrow> string \<Rightarrow> disk \<Rightarrow> disk"
  assumes load_saved: "ok w \<Longrightarrow> load w e (save w e c d) = Inr c"
    and load_other: "e' \<noteq> e \<Longrightarrow> load w e' (save w e c d) = load w e' d"
    and load_deleted: "load w e (delete w e d) = Inl (no_credentials e)"
    and delete_other: "e' \<noteq> e \<Longrightarrow> load w e' (delete w e d) = load w e' d"
begin

lemma relogin: "ok w \<Longrightarrow> load w e (save w e c' (save w e c d)) = Inr c'"
  by (rule load_saved)

lemma logout_twice: "load w e (delete w e (delete w e d)) = Inl (no_credentials e)"
  by (rule load_deleted)

lemma logout_keeps: "ok w \<Longrightarrow> e' \<noteq> e \<Longrightarrow> load w e' (delete w e (save w e' c d)) = Inr c"
  by (simp add: delete_other load_saved)

end

interpretation os_tokens: token_store codec_laws os_save os_load_cred "\<lambda>cc. os_delete_cred"
  by unfold_locales
    (auto simp: codec_laws_def os_save_def os_load_cred_def os_delete_cred_def decode_stored_def)

interpretation file_tokens: token_store
  "\<lambda>(cc, dir). codec_laws cc \<and> (\<forall>c. valid_utf8 (as_bytes (cc_write cc c)))"
  "\<lambda>(cc, dir). file_save cc dir" "\<lambda>(cc, dir). file_load_cred cc dir" "\<lambda>(cc, dir). file_delete_cred dir"
  by unfold_locales
    (auto simp: codec_laws_def file_save_def file_load_cred_def file_delete_cred_def decode_stored_def cred_path_def
      path_join_def split: prod.splits)

section \<open>The table\<close>

fun render_value :: "('f \<Rightarrow> string) \<Rightarrow> 'f sql_value \<Rightarrow> string" where
  "render_value float_text VNull = ''NULL''"
| "render_value float_text (VBytes b) = from_utf8_lossy b"
| "render_value float_text (VInt n) = show_int (sint n)"
| "render_value float_text (VUInt n) = show_nat (unat n)"
| "render_value float_text (VFloat f) = float_text f"
| "render_value float_text (VDouble f) = float_text f"
| "render_value float_text (VDate y mo d h mi s us) =
     zpad 4 (unat y) @ ''-'' @ zpad 2 (unat mo) @ ''-'' @ zpad 2 (unat d) @ '' '' @
     zpad 2 (unat h) @ '':'' @ zpad 2 (unat mi) @ '':'' @ zpad 2 (unat s)"
| "render_value float_text (VTime neg d h mi s us) =
     (if neg then ''-'' else []) @ show_nat (unat d) @ '':'' @ zpad 2 (unat h) @ '':'' @
     zpad 2 (unat mi) @ '':'' @ zpad 2 (unat s)"

text \<open>Widths are counted in bytes, the padding of \<open>{:<w}\<close> in characters.\<close>

fun widen :: "nat list \<Rightarrow> string list \<Rightarrow> nat list" where
  "widen (w # ws) (c # cs) = max w (length c) # widen ws cs"
| "widen ws _ = ws"

definition column_widths :: "string list \<Rightarrow> string list list \<Rightarrow> nat list" where
  "column_widths headers rows = fold (\<lambda>r ws. widen ws r) rows (map length headers)"

definition char_count :: "string \<Rightarrow> nat" where
  "char_count s = length (filter (\<lambda>c. \<not> is_cont_char c) s)"

definition pad_right :: "nat \<Rightarrow> string \<Rightarrow> string" where
  "pad_right w s = s @ replicate (w - char_count s) (CHR '' '')"

fun pad_cells :: "nat list \<Rightarrow> string list \<Rightarrow> string list" where
  "pad_cells ws [] = []"
| "pad_cells [] (c # cs) = pad_right 0 c # pad_cells [] cs"
| "pad_cells (w # ws) (c # cs) = pad_right w c # pad_cells ws cs"

definition table_line :: "nat list \<Rightarrow> string list \<Rightarrow> string" where
  "table_line ws cells = join_with ''  '' (pad_cells ws cells)"

definition rule_line :: "nat list \<Rightarrow> string" where
  "rule_line ws = replicate (sum_list ws + 2 * (length ws - 1)) (CHR ''-'')"

definition table_lines :: "string list \<Rightarrow> string list list \<Rightarrow> string list" where
  "table_lines headers rows =
     (let ws = column_widths headers rows
      in table_line ws headers # rule_line ws # map (table_line ws) rows)"

definition render_table :: "string list \<Rightarrow> string list list \<Rightarrow> string" where
  "render_table headers rows =
     join_with [CHR 0x0A] (table_lines headers rows) @
     [CHR 0x0A] @ ''('' @ show_nat (length rows) @ '' row'' @ (if length rows = 1 then [] else ''s'') @ '')''"

section \<open>Running a statement\<close>

text \<open>What the connection answers: it fails, the query is refused, or columns and rows, of which a
  later one may fail to arrive.\<close>

datatype 'f reply =
    NoConnection string
  | Refused string
  | Answer "string list option" "(string + 'f sql_value list) list"

fun received :: "(string + 'a) list \<Rightarrow> string + 'a list" where
  "received [] = Inr []"
| "received (Inl e # rs) = Inl e"
| "received (Inr r # rs) = map_sum (\<lambda>e. e) (\<lambda>xs. r # xs) (received rs)"

record connect_as =
  cn_host :: string
  cn_port :: u16
  cn_user :: string
  cn_pass :: string
  cn_database :: "string option"

definition run_sql_as ::
  "(connect_as \<Rightarrow> string \<Rightarrow> 'f reply) \<Rightarrow> ('f \<Rightarrow> string) \<Rightarrow> string \<Rightarrow> stored_cred \<Rightarrow> string option \<Rightarrow> string
     \<Rightarrow> string + string" where
  "run_sql_as ask_server float_text e c db sql =
     (case ask_server \<lparr>cn_host = sc_host c, cn_port = sc_port c, cn_user = e, cn_pass = sc_token c, cn_database = db\<rparr> sql of
        NoConnection m \<Rightarrow> Inl (''connect to proxy: '' @ m)
      | Refused m \<Rightarrow> Inl (''query rejected: '' @ m)
      | Answer (Some headers) rows \<Rightarrow>
          if headers = [] then Inr ''OK''
          else map_sum (\<lambda>m. m) (\<lambda>rs. render_table headers (map (map (render_value float_text)) rs)) (received rows)
      | Answer None rows \<Rightarrow> Inr ''OK'')"

section \<open>The commands\<close>

datatype client_cmd =
    Login string u16 string bool
  | Logout string
  | RunSql string "string option" "string option"

definition default_to_run :: "string list \<Rightarrow> string list" where
  "default_to_run argv =
     (case argv of
        a # first # rest \<Rightarrow>
          if \<not> starts_with ''-'' first \<and> first \<notin> {''login'', ''logout'', ''run'', ''help''}
          then a # ''run'' # first # rest else argv
      | _ \<Rightarrow> argv)"

definition client_secret :: "bool \<Rightarrow> string prompt" where
  "client_secret token_stdin tm =
     (if token_stdin
      then (case tm_piped tm of Inl m \<Rightarrow> (Inl m, tm) | Inr s \<Rightarrow> (Inr (trim_line_end s), tm))
      else if tm_is_terminal tm then prompt_password tm
      else (Inl ''stdin is not a terminal; pass --token-stdin'', tm))"

fun run_client ::
  "cred_codec \<Rightarrow> (connect_as \<Rightarrow> string \<Rightarrow> 'f reply) \<Rightarrow> ('f \<Rightarrow> string) \<Rightarrow> client_cmd \<Rightarrow> terminal \<Rightarrow> disk
     \<Rightarrow> (string + string) \<times> disk" where
  "run_client cc ask_server float_text (Login e prt hst token_stdin) tm d =
     (case fst (client_secret token_stdin tm) of
        Inl m \<Rightarrow> (Inl m, d)
      | Inr token \<Rightarrow>
          if token = [] then (Inl ''empty token'', d)
          else (Inr [], os_save cc e \<lparr>sc_token = token, sc_host = hst, sc_port = prt\<rparr> d))"
| "run_client cc ask_server float_text (Logout e) tm d = (Inr [], os_delete_cred e d)"
| "run_client cc ask_server float_text (RunSql e db execute) tm d =
     (case os_load_cred cc e d of
        Inl m \<Rightarrow> (Inl m, d)
      | Inr c \<Rightarrow>
     (case (case execute of Some s \<Rightarrow> Inr s | None \<Rightarrow> map_sum (\<lambda>m. m) trim (tm_piped tm)) of
        Inl m \<Rightarrow> (Inl m, d)
      | Inr sql \<Rightarrow>
          if sql = [] then (Inl ''no SQL given'', d)
          else (run_sql_as ask_server float_text e c db sql, d)))"

section \<open>What the client shows\<close>

lemma char_count_simps [simp]:
  "char_count [] = 0" "char_count (a @ b) = char_count a + char_count b"
  "char_count (replicate n (CHR '' '')) = n" "char_count (replicate n (CHR ''-'')) = n" "char_count (CHR '' '' # s) = Suc (char_count s)"
  by (simp_all add: char_count_def is_cont_char_def cont_def char_byte_def)

lemma char_count_pad: "char_count s \<le> w \<Longrightarrow> char_count (pad_right w s) = w"
  by (simp add: pad_right_def)

lemma char_count_length: "char_count s \<le> length s"
  by (simp add: char_count_def)

lemma char_count_join:
  "char_count (join_with ''  '' xs) = sum_list (map char_count xs) + 2 * (length xs - 1)"
  by (induction "''  ''" xs rule: join_with.induct) simp_all

definition fits :: "nat list \<Rightarrow> string list \<Rightarrow> bool" where
  "fits ws cells \<longleftrightarrow> list_all2 (\<lambda>w c. length c \<le> w) ws cells"

lemma fits_line:
  assumes "fits ws cells"
  shows "char_count (table_line ws cells) = char_count (rule_line ws)"
proof -
  have "map char_count (pad_cells ws cells) = ws"
    using assms unfolding fits_def
    by (induction rule: list_all2_induct) (auto intro: char_count_pad order_trans [OF char_count_length])
  then show ?thesis
    by (simp add: table_line_def rule_line_def char_count_join) (metis length_map)
qed

lemma widen_fits: "length ws = length cells \<Longrightarrow> fits (widen ws cells) cells"
  unfolding fits_def by (induction ws cells rule: widen.induct) auto

lemma widen_length [simp]: "length (widen ws cells) = length ws"
  by (induction ws cells rule: widen.induct) auto

lemma widen_keeps: "fits ws cells \<Longrightarrow> fits (widen ws others) cells"
  unfolding fits_def by (induction ws others arbitrary: cells rule: widen.induct) (auto simp: list_all2_Cons1)

lemma fold_keeps: "fits ws cells \<Longrightarrow> fits (fold (\<lambda>r ws. widen ws r) rows ws) cells"
  by (induction rows arbitrary: ws) (simp_all add: widen_keeps)

lemma fold_fits:
  "r \<in> set rows \<Longrightarrow> \<forall>r \<in> set rows. length r = length ws \<Longrightarrow> fits (fold (\<lambda>r ws. widen ws r) rows ws) r"
  by (induction rows arbitrary: ws) (auto simp: widen_fits fold_keeps)

text \<open>
  The table is aligned. When every row has as many cells as there are columns, all lines of the table
  are as wide as the rule under the headers, counted in characters, whatever characters the headers and
  the cells have.
\<close>

theorem table_aligned:
  assumes "\<forall>r \<in> set rows. length r = length headers" and "l \<in> set (table_lines headers rows)"
  shows "char_count l = char_count (rule_line (column_widths headers rows))"
proof -
  have "fits (map length headers) headers" by (simp add: fits_def list_all2_conv_all_nth)
  then have "fits (column_widths headers rows) headers" by (simp add: column_widths_def fold_keeps)
  moreover have "fits (column_widths headers rows) r" if "r \<in> set rows" for r
    using fold_fits [OF that] assms(1) by (simp add: column_widths_def)
  ultimately show ?thesis using assms(2) fits_line by (auto simp: table_lines_def Let_def)
qed

theorem table_aligned_witness:
  "char_count (table_line (column_widths [''id'', ''name''] [[''1'', ''alice'']]) [''id'', ''name'']) =
   char_count (rule_line (column_widths [''id'', ''name''] [[''1'', ''alice'']]))"
  by (rule table_aligned) (simp_all add: table_lines_def Let_def)


text \<open>A codec with the law, in unary: the port, the length of the host, then both texts.\<close>

definition demo_codec :: cred_codec where
  "demo_codec =
     \<lparr>cc_write = (\<lambda>c. replicate (unat (sc_port c)) (CHR ''p'') @ ''.'' @
        replicate (length (sc_host c)) (CHR ''h'') @ ''.'' @ sc_host c @ sc_token c),
      cc_read = (\<lambda>s. let p = takeWhile (\<lambda>x. x = CHR ''p'') s; s1 = drop (length p + 1) s;
                       h = takeWhile (\<lambda>x. x = CHR ''h'') s1; s2 = drop (length h + 1) s1
        in Inr \<lparr>sc_token = drop (length h) s2, sc_host = take (length h) s2, sc_port = word_of_nat (length p)\<rparr>)\<rparr>"

definition no_store :: disk where "no_store = \<lparr>fs_files = Map.empty, keychain = Map.empty\<rparr>"

definition piping :: terminal where
  "piping = \<lparr>tm_is_terminal = False, tm_lines = [], tm_piped = Inr (generate_token (replicate 32 7) @ [CHR 0x0A]),
     tm_file = (\<lambda>p. Inl ''no file'')\<rparr>"

lemma demo_codec_laws: "codec_laws demo_codec"
  by (simp add: codec_laws_def demo_codec_def takeWhile_append Let_def)


end
