(* ===== verification/Private_File.thy ===== *)
theory Private_File
  imports Query_Client
begin

text \<open>
  Files with permissions: \<open>write_secret_file\<close> of \<open>crates/mw-core/src/keyring.rs\<close> (the master key)
  and \<open>write_private\<close> of \<open>crates/mwsql/src/lib.rs\<close> (a client's token) on Unix, where a mode is
  given to \<open>open\<close> and takes effect on a new file only, and the permission check of the key that is
  loaded. The room left on the device is an argument: a write may stop half way.
\<close>

unbundle bit_operations_syntax

section \<open>Opening and writing\<close>

record private_file =
  pf_mode :: u32
  pf_owner :: nat
  pf_data :: bytes

type_synonym private_files = "string \<Rightarrow> private_file option"

record process_user =
  pu_uid :: nat
  pu_umask :: u32

datatype write_error = WriteDenied | NoSpace

text \<open>Who may open a file for writing: root, its owner by the owner's bit, others by theirs.\<close>

definition may_write :: "process_user \<Rightarrow> private_file \<Rightarrow> bool" where
  "may_write u f \<longleftrightarrow>
     pu_uid u = 0 \<or>
     (if pf_owner f = pu_uid u then pf_mode f AND 0x80 \<noteq> 0 else pf_mode f AND 0x02 \<noteq> 0)"

text \<open>\<open>open\<close> to write, creating and truncating, with a mode.\<close>

definition open_truncate :: "process_user \<Rightarrow> u32 \<Rightarrow> string \<Rightarrow> private_files \<Rightarrow> write_error + private_file" where
  "open_truncate u mode p fs =
     (case fs p of
        None \<Rightarrow> Inr \<lparr>pf_mode = mode AND NOT (pu_umask u), pf_owner = pu_uid u, pf_data = []\<rparr>
      | Some f \<Rightarrow> if may_write u f then Inr (f\<lparr>pf_data := []\<rparr>) else Inl WriteDenied)"

definition write_with_mode ::
  "process_user \<Rightarrow> u32 \<Rightarrow> nat \<Rightarrow> string \<Rightarrow> bytes \<Rightarrow> private_files \<Rightarrow> (write_error + unit) \<times> private_files" where
  "write_with_mode u mode room p b fs =
     (case open_truncate u mode p fs of
        Inl e \<Rightarrow> (Inl e, fs)
      | Inr f \<Rightarrow>
          (if length b \<le> room then Inr () else Inl NoSpace, fs(p \<mapsto> f\<lparr>pf_data := take room b\<rparr>)))"

definition KEY_MODE :: u32 where "KEY_MODE = 0x100"
definition TOKEN_MODE :: u32 where "TOKEN_MODE = 0x180"

definition write_secret_file ::
  "process_user \<Rightarrow> nat \<Rightarrow> string \<Rightarrow> bytes \<Rightarrow> private_files \<Rightarrow> (write_error + unit) \<times> private_files" where
  "write_secret_file u room p b fs = write_with_mode u KEY_MODE room p b fs"

definition write_private ::
  "process_user \<Rightarrow> nat \<Rightarrow> string \<Rightarrow> bytes \<Rightarrow> private_files \<Rightarrow> (write_error + unit) \<times> private_files" where
  "write_private u room p b fs = write_with_mode u TOKEN_MODE room p b fs"

text \<open>The check made when the master key is loaded: a mode that lets the group or others in is reported.\<close>

definition key_file_wide :: "private_file \<Rightarrow> bool" where
  "key_file_wide f \<longleftrightarrow> pf_mode f AND 0x3F \<noteq> 0"

text \<open>The contents alone, as the key stores are modelled on.\<close>

definition contents :: "private_files \<Rightarrow> files" where
  "contents fs p = map_option pf_data (fs p)"

section \<open>Laws\<close>

lemma write_with_mode_data:
  "write_with_mode u mode room p b fs = (Inr (), fs') \<Longrightarrow> \<exists>f. fs' = fs(p \<mapsto> f) \<and> pf_data f = b"
  by (auto simp: write_with_mode_def split: sum.splits if_splits)

text \<open>Storing the key and saving a token are, on the contents, the operations of the two stores.\<close>

theorem private_writes_refine:
  assumes "contents fs = fs_files d"
  shows "write_secret_file u room p k fs = (Inr (), fs') \<Longrightarrow> contents fs' = fs_files (file_store p k d)"
    and "write_private u room (cred_path dir n) (as_bytes (cc_write cc c)) fs = (Inr (), fs') \<Longrightarrow>
      contents fs' = fs_files (file_save cc dir n c d)"
  using assms
  by (auto simp: write_secret_file_def write_private_def contents_def file_store_def file_save_def fun_eq_iff
      dest!: write_with_mode_data)

text \<open>A new file is closed to the group and to others, whatever the mask of the process.\<close>

theorem new_secret_is_private:
  assumes "fs p = None"
  shows "write_secret_file u room p b fs = (r, fs') \<Longrightarrow> \<exists>f. fs' p = Some f \<and> pf_owner f = pu_uid u \<and> \<not> key_file_wide f"
    and "write_private u room p b fs = (r, fs') \<Longrightarrow> \<exists>f. fs' p = Some f \<and> pf_owner f = pu_uid u \<and> \<not> key_file_wide f"
proof -
  have k: "(KEY_MODE AND NOT m) AND 0x3F = 0" and t: "(TOKEN_MODE AND NOT m) AND 0x3F = 0" for m
  proof -
    have "(KEY_MODE AND NOT m) AND 0x3F = (KEY_MODE AND 0x3F) AND NOT m" by (simp only: ac_simps)
    then show "(KEY_MODE AND NOT m) AND 0x3F = 0" by (simp add: KEY_MODE_def)
    have "(TOKEN_MODE AND NOT m) AND 0x3F = (TOKEN_MODE AND 0x3F) AND NOT m" by (simp only: ac_simps)
    then show "(TOKEN_MODE AND NOT m) AND 0x3F = 0" by (simp add: TOKEN_MODE_def)
  qed
  show "write_secret_file u room p b fs = (r, fs') \<Longrightarrow> \<exists>f. fs' p = Some f \<and> pf_owner f = pu_uid u \<and> \<not> key_file_wide f"
    using assms k by (auto simp: write_secret_file_def write_with_mode_def open_truncate_def key_file_wide_def)
  show "write_private u room p b fs = (r, fs') \<Longrightarrow> \<exists>f. fs' p = Some f \<and> pf_owner f = pu_uid u \<and> \<not> key_file_wide f"
    using assms t by (auto simp: write_private_def write_with_mode_def open_truncate_def key_file_wide_def)
qed

text \<open>A file that is there keeps its mode and its owner: a token or a key written over one that others can
  read can be read by them.\<close>

theorem existing_file_keeps_mode:
  assumes "fs p = Some f"
  shows "write_private u room p b fs = (Inr (), fs') \<Longrightarrow> fs' p = Some (f\<lparr>pf_data := b\<rparr>)"
    and "write_secret_file u room p b fs = (Inr (), fs') \<Longrightarrow> fs' p = Some (f\<lparr>pf_data := b\<rparr>)"
  using assms
  by (auto simp: write_private_def write_secret_file_def write_with_mode_def open_truncate_def split: if_splits)

text \<open>A key that a user other than root has stored cannot be stored over by the same user: the set-up that
  stored a key and failed after it cannot be run again until the key file is removed.\<close>

theorem key_not_stored_twice:
  assumes "fs p = None" and "pu_uid u \<noteq> 0" and "write_secret_file u room p k fs = (r, fs')"
  shows "write_secret_file u room' p k' fs' = (Inl WriteDenied, fs')"
proof -
  have "(KEY_MODE AND NOT m) AND 0x80 = 0" for m
  proof -
    have "(KEY_MODE AND NOT m) AND 0x80 = (KEY_MODE AND 0x80) AND NOT m" by (simp only: ac_simps)
    then show ?thesis by (simp add: KEY_MODE_def)
  qed
  then show ?thesis
    using assms by (auto simp: write_secret_file_def write_with_mode_def open_truncate_def may_write_def)
qed

text \<open>A device that is full when a secret is replaced costs the old one: it was truncated first.\<close>

lemma full_device_loses_secret:
  assumes "fs p = Some f" and "may_write u f" and "b \<noteq> []"
  shows "write_private u 0 p b fs = (Inl NoSpace, fs(p \<mapsto> f\<lparr>pf_data := []\<rparr>))"
  using assms by (simp add: write_private_def write_with_mode_def open_truncate_def)

end
