(* ===== verification/Audit_Emit.thy ===== *)
theory Audit_Emit
  imports Handlers "HOL-Library.Sublist"
begin

text \<open>
  What becomes of an audit record: its JSON form (the serde attributes of \<open>AuditEvent\<close> and
  \<open>AdminEvent\<close>), \<open>emit\<close>, the two layers \<open>install_subscriber\<close> sets up in
  \<open>crates/mw-core/src/audit.rs\<close>, and the lines that reach the file. The JSON coder is an argument;
  the background writer is what its library documents: a queue that drops lines when it is full.
\<close>

section \<open>The JSON form of the records\<close>

datatype json_value = JString string | JNumber nat

type_synonym json_fields = "(string \<times> json_value) list"

definition opt_field :: "string \<Rightarrow> ('a \<Rightarrow> json_value) \<Rightarrow> 'a option \<Rightarrow> json_fields" where
  "opt_field k f v = (case v of None \<Rightarrow> [] | Some x \<Rightarrow> [(k, f x)])"

fun decision_text :: "audit_decision \<Rightarrow> string" where
  "decision_text AuditAllow = ''allow''"
| "decision_text AuditDeny = ''deny''"
| "decision_text AuditError = ''error''"

definition audit_event_fields :: "audit_event \<Rightarrow> json_fields" where
  "audit_event_fields e =
     [(''ts'', JString (ae_ts e)), (''env'', JString (ae_env e)),
      (''client_user'', JString (ae_client_user e)), (''stmt_hash'', JString (ae_stmt_hash e)),
      (''stmt_first_64'', JString (ae_stmt_first_64 e)),
      (''decision'', JString (decision_text (ae_decision e)))] @
     opt_field ''deny_reason'' JString (ae_deny_reason e) @
     opt_field ''rows'' (\<lambda>n. JNumber (unat n)) (ae_rows e) @
     [(''duration_ms'', JNumber (unat (ae_duration_ms e)))]"

definition admin_event_fields :: "admin_event \<Rightarrow> json_fields" where
  "admin_event_fields e =
     [(''ts'', JString (ad_ts e)), (''kind'', JString (ad_kind e)), (''action'', JString (ad_action e)),
      (''target'', JString (ad_target e))] @
     opt_field ''peer_uid'' (\<lambda>n. JNumber (unat n)) (ad_peer_uid e) @
     opt_field ''peer_gid'' (\<lambda>n. JNumber (unat n)) (ad_peer_gid e) @
     [(''peer_user'', JString (ad_peer_user e)), (''decision'', JString (decision_text (ad_decision e)))] @
     opt_field ''error'' JString (ad_error e)"

section \<open>Emitting\<close>

datatype log_level = LvError | LvWarn | LvInfo | LvDebug | LvTrace

fun verbosity :: "log_level \<Rightarrow> nat" where
  "verbosity LvError = 1"
| "verbosity LvWarn = 2"
| "verbosity LvInfo = 3"
| "verbosity LvDebug = 4"
| "verbosity LvTrace = 5"

record log_event =
  lg_target :: string
  lg_level :: log_level
  lg_text :: string

definition AUDIT_TARGET :: string where "AUDIT_TARGET = ''middlewhere::audit''"

type_synonym json_coder = "json_fields \<Rightarrow> string + string"

definition audit_emit :: "json_coder \<Rightarrow> audit_event \<Rightarrow> log_event" where
  "audit_emit js e =
     (case js (audit_event_fields e) of
        Inr line \<Rightarrow> \<lparr>lg_target = AUDIT_TARGET, lg_level = LvInfo, lg_text = line\<rparr>
      | Inl er \<Rightarrow> \<lparr>lg_target = AUDIT_TARGET, lg_level = LvWarn,
                   lg_text = ''failed to serialize audit event err='' @ er\<rparr>)"

definition admin_emit :: "json_coder \<Rightarrow> admin_event \<Rightarrow> log_event" where
  "admin_emit js e =
     (case js (admin_event_fields e) of
        Inr line \<Rightarrow> \<lparr>lg_target = AUDIT_TARGET, lg_level = LvInfo, lg_text = line\<rparr>
      | Inl er \<Rightarrow> \<lparr>lg_target = AUDIT_TARGET, lg_level = LvWarn,
                   lg_text = ''failed to serialize admin event err='' @ er\<rparr>)"

section \<open>The subscriber\<close>

text \<open>The filters of the two layers: a target stands for itself and what starts with it.\<close>

definition audit_layer_takes :: "log_event \<Rightarrow> bool" where
  "audit_layer_takes e \<longleftrightarrow> starts_with AUDIT_TARGET (lg_target e) \<and> verbosity (lg_level e) \<le> verbosity LvInfo"

definition console_layer_takes :: "log_event \<Rightarrow> bool" where
  "console_layer_takes e \<longleftrightarrow> \<not> starts_with AUDIT_TARGET (lg_target e) \<and> verbosity (lg_level e) \<le> verbosity LvInfo"

text \<open>The process has one subscriber: the first one that was set. Whoever comes later gets the guard of a
  writer that nothing is sent to.\<close>

record log_process =
  lp_audit_dir :: "string option"
  lp_writers :: "string list"

definition install_subscriber ::
  "(string \<Rightarrow> string + unit) \<Rightarrow> string \<Rightarrow> log_process \<Rightarrow> (string + unit) \<times> log_process" where
  "install_subscriber create_dir_all state_dir p =
     (let audit_dir = path_join state_dir ''audit''
      in case create_dir_all audit_dir of
           Inl e \<Rightarrow> (Inl e, p)
         | Inr _ \<Rightarrow>
             (Inr (), p\<lparr>lp_writers := lp_writers p @ [audit_dir],
                        lp_audit_dir := (case lp_audit_dir p of None \<Rightarrow> Some audit_dir | Some d \<Rightarrow> Some d)\<rparr>))"

section \<open>The writer\<close>

text \<open>
  The queue of the background writer, the lines it has written and what went to the console. A logged event
  is a step of the program, a line taken from the queue one of the writer; dropping the guard writes the rest.
\<close>

record log_pipe =
  pi_queue :: "string list"
  pi_file :: "string list"
  pi_console :: "log_event list"

datatype log_step = Logged log_event | WriterTurn

fun pipe_log :: "nat \<Rightarrow> log_step \<Rightarrow> log_pipe \<Rightarrow> log_pipe" where
  "pipe_log limit (Logged e) p =
     p\<lparr>pi_queue := (if audit_layer_takes e \<and> length (pi_queue p) < limit then pi_queue p @ [lg_text e]
                    else pi_queue p),
       pi_console := (if console_layer_takes e then pi_console p @ [e] else pi_console p)\<rparr>"
| "pipe_log limit WriterTurn p =
     (case pi_queue p of [] \<Rightarrow> p | l # ls \<Rightarrow> p\<lparr>pi_queue := ls, pi_file := pi_file p @ [l]\<rparr>)"

definition pipe_run :: "nat \<Rightarrow> log_step list \<Rightarrow> log_pipe" where
  "pipe_run limit steps = fold (pipe_log limit) steps \<lparr>pi_queue = [], pi_file = [], pi_console = []\<rparr>"

definition pipe_lines :: "log_pipe \<Rightarrow> string list" where
  "pipe_lines p = pi_file p @ pi_queue p"

definition guard_dropped :: "log_pipe \<Rightarrow> string" where
  "guard_dropped p = concat (map (\<lambda>l. l @ [CHR 0x0A]) (pipe_lines p))"

text \<open>The limit the code leaves at the default of the writer.\<close>

definition QUEUE_LIMIT :: nat where "QUEUE_LIMIT = 128000"

section \<open>Reading the records back\<close>

datatype audit_record = QueryRecord audit_event | AdminRecord admin_event

fun record_emit :: "json_coder \<Rightarrow> audit_record \<Rightarrow> log_event" where
  "record_emit js (QueryRecord e) = audit_emit js e"
| "record_emit js (AdminRecord e) = admin_emit js e"

definition read_decision :: "string \<Rightarrow> audit_decision option" where
  "read_decision s =
     (if s = ''allow'' then Some AuditAllow else if s = ''deny'' then Some AuditDeny
      else if s = ''error'' then Some AuditError else None)"

fun text_of :: "json_value \<Rightarrow> string" where
  "text_of (JString s) = s"
| "text_of (JNumber n) = show_nat n"

fun number_of :: "json_value \<Rightarrow> nat" where
  "number_of (JNumber n) = n"
| "number_of (JString s) = 0"

definition text_at :: "json_fields \<Rightarrow> string \<Rightarrow> string" where
  "text_at fs k = (case map_of fs k of Some v \<Rightarrow> text_of v | None \<Rightarrow> [])"

text \<open>What a reader of the log makes of a line: a line with a kind is an administrative record.\<close>

definition read_record :: "json_fields \<Rightarrow> audit_record option" where
  "read_record fs =
     (case read_decision (text_at fs ''decision'') of
        None \<Rightarrow> None
      | Some d \<Rightarrow>
          Some (if map_of fs ''kind'' = None
                then QueryRecord
                  \<lparr>ae_ts = text_at fs ''ts'', ae_env = text_at fs ''env'', ae_client_user = text_at fs ''client_user'',
                   ae_stmt_hash = text_at fs ''stmt_hash'', ae_stmt_first_64 = text_at fs ''stmt_first_64'',
                   ae_decision = d, ae_deny_reason = map_option text_of (map_of fs ''deny_reason''),
                   ae_rows = map_option (\<lambda>v. of_nat (number_of v)) (map_of fs ''rows''),
                   ae_duration_ms = (case map_of fs ''duration_ms'' of Some v \<Rightarrow> of_nat (number_of v) | None \<Rightarrow> 0)\<rparr>
                else AdminRecord
                  \<lparr>ad_ts = text_at fs ''ts'', ad_kind = text_at fs ''kind'', ad_action = text_at fs ''action'',
                   ad_target = text_at fs ''target'',
                   ad_peer_uid = map_option (\<lambda>v. of_nat (number_of v)) (map_of fs ''peer_uid''),
                   ad_peer_gid = map_option (\<lambda>v. of_nat (number_of v)) (map_of fs ''peer_gid''),
                   ad_peer_user = text_at fs ''peer_user'', ad_decision = d,
                   ad_error = map_option text_of (map_of fs ''error'')\<rparr>))"

lemma read_decision_text [simp]: "read_decision (decision_text d) = Some d"
  by (cases d) (simp_all add: read_decision_def)

lemma read_audit_event: "read_record (audit_event_fields e) = Some (QueryRecord e)"
  by (cases e; cases "ae_deny_reason e"; cases "ae_rows e")
    (simp_all add: read_record_def audit_event_fields_def opt_field_def text_at_def)

lemma read_admin_event: "read_record (admin_event_fields e) = Some (AdminRecord e)"
  by (cases e; cases "ad_peer_uid e"; cases "ad_peer_gid e"; cases "ad_error e")
    (simp_all add: read_record_def admin_event_fields_def opt_field_def text_at_def)


section \<open>What the file holds\<close>

text \<open>What the JSON coder does: it writes every object on one line that reads back.\<close>

definition json_laws :: "json_coder \<Rightarrow> (string \<Rightarrow> json_fields option) \<Rightarrow> bool" where
  "json_laws js parse \<longleftrightarrow>
     (\<forall>fs. \<exists>line. js fs = Inr line \<and> parse line = Some fs \<and> CHR 0x0A \<notin> set line \<and> line \<noteq> [] \<and> last line \<noteq> CHR 0x0D)"

text \<open>A run of the daemon: audit records, events of other targets, and turns of the writer.\<close>

datatype log_input = Recorded audit_record | Unrelated log_event | Turned

fun log_step_of :: "json_coder \<Rightarrow> log_input \<Rightarrow> log_step" where
  "log_step_of js (Recorded r) = Logged (record_emit js r)"
| "log_step_of js (Unrelated e) = Logged e"
| "log_step_of js Turned = WriterTurn"

fun records_of :: "log_input list \<Rightarrow> audit_record list" where
  "records_of [] = []"
| "records_of (Recorded r # is) = r # records_of is"
| "records_of (_ # is) = records_of is"

definition unrelated :: "log_input \<Rightarrow> bool" where
  "unrelated i \<longleftrightarrow> (case i of Unrelated e \<Rightarrow> \<not> starts_with AUDIT_TARGET (lg_target e) | _ \<Rightarrow> True)"

definition log_text :: "json_coder \<Rightarrow> nat \<Rightarrow> log_input list \<Rightarrow> string" where
  "log_text js limit is = guard_dropped (pipe_run limit (map (log_step_of js) is))"

definition read_line_record :: "(string \<Rightarrow> json_fields option) \<Rightarrow> string \<Rightarrow> audit_record option" where
  "read_line_record parse l = Option.bind (parse l) read_record"

lemma record_emit_line:
  assumes "json_laws js parse"
  shows "audit_layer_takes (record_emit js r)"
    and "\<not> console_layer_takes (record_emit js r)"
    and "read_line_record parse (lg_text (record_emit js r)) = Some r"
    and "CHR 0x0A \<notin> set (lg_text (record_emit js r))"
    and "lg_text (record_emit js r) \<noteq> []" and "last (lg_text (record_emit js r)) \<noteq> CHR 0x0D"
proof -
  obtain line where l: "js (case r of QueryRecord e \<Rightarrow> audit_event_fields e | AdminRecord e \<Rightarrow> admin_event_fields e) = Inr line"
    "parse line = Some (case r of QueryRecord e \<Rightarrow> audit_event_fields e | AdminRecord e \<Rightarrow> admin_event_fields e)"
    "CHR 0x0A \<notin> set line" "line \<noteq> []" "last line \<noteq> CHR 0x0D"
    using assms unfolding json_laws_def by blast
  have e: "record_emit js r = \<lparr>lg_target = AUDIT_TARGET, lg_level = LvInfo, lg_text = line\<rparr>"
    using l(1) by (cases r) (simp_all add: audit_emit_def admin_emit_def)
  show "read_line_record parse (lg_text (record_emit js r)) = Some r"
    unfolding e using l(2) by (cases r) (simp_all add: read_line_record_def read_audit_event read_admin_event)
  show "CHR 0x0A \<notin> set (lg_text (record_emit js r))" "lg_text (record_emit js r) \<noteq> []"
    "last (lg_text (record_emit js r)) \<noteq> CHR 0x0D"
    unfolding e using l(3-5) by simp_all
  show "audit_layer_takes (record_emit js r)" "\<not> console_layer_takes (record_emit js r)"
    unfolding e by (simp_all add: audit_layer_takes_def console_layer_takes_def starts_with_iff)
qed

text \<open>One input: a record is kept when the queue has room, nothing else is.\<close>

lemma input_step:
  assumes "json_laws js parse" and "unrelated i"
  shows "pipe_lines (pipe_log limit (log_step_of js i) p) = pipe_lines p @
      (case i of Recorded r \<Rightarrow> if length (pi_queue p) < limit then [lg_text (record_emit js r)] else [] | _ \<Rightarrow> [])"
    and "length (pi_queue (pipe_log limit (log_step_of js i) p)) \<le>
      length (pi_queue p) + length (records_of [i])"
  using assms record_emit_line(1) [OF assms(1)]
  by (cases i; simp add: pipe_lines_def unrelated_def audit_layer_takes_def split: list.splits)+

text \<open>The lines written or waiting are those of some of the records, in their order; of all of them as
  long as the queue has room.\<close>

lemma pipe_run_records:
  assumes laws: "json_laws js parse" and "\<forall>i \<in> set is. unrelated i"
  shows "\<exists>rs. subseq rs (records_of is) \<and>
    pipe_lines (fold (pipe_log limit) (map (log_step_of js) is) p) =
      pipe_lines p @ map (\<lambda>r. lg_text (record_emit js r)) rs \<and>
    (length (pi_queue p) + length (records_of is) \<le> limit \<longrightarrow> rs = records_of is)"
  using assms(2)
proof (induction "is" arbitrary: p)
  case (Cons i "is")
  let ?q = "pipe_log limit (log_step_of js i) p"
  have u: "unrelated i" "\<forall>i \<in> set is. unrelated i" using Cons.prems by simp_all
  obtain rs where IH: "subseq rs (records_of is)"
    "pipe_lines (fold (pipe_log limit) (map (log_step_of js) is) ?q) =
       pipe_lines ?q @ map (\<lambda>r. lg_text (record_emit js r)) rs"
    "length (pi_queue ?q) + length (records_of is) \<le> limit \<longrightarrow> rs = records_of is"
    using Cons.IH [OF u(2), of ?q] by blast
  note step = input_step [OF laws u(1), of limit p]
  show ?case
  proof (cases i)
    case (Recorded r)
    let ?rs = "if length (pi_queue p) < limit then r # rs else rs"
    show ?thesis
      using IH step unfolding Recorded by (intro exI [of _ ?rs]) auto
  next
    case (Unrelated e)
    then show ?thesis using IH step by (intro exI [of _ rs]) auto
  next
    case Turned
    then show ?thesis using IH step by (intro exI [of _ rs]) auto
  qed
qed simp


lemma text_lines_log:
  assumes "json_laws js parse" and "\<forall>i \<in> set is. unrelated i"
  shows "\<exists>rs. subseq rs (records_of is) \<and>
    text_lines (log_text js limit is) = map (\<lambda>r. lg_text (record_emit js r)) rs \<and>
    (length (records_of is) \<le> limit \<longrightarrow> rs = records_of is)"
proof -
  let ?start = "\<lparr>pi_queue = [], pi_file = [], pi_console = []\<rparr>"
  obtain rs where rs: "subseq rs (records_of is)"
    "pipe_lines (fold (pipe_log limit) (map (log_step_of js) is) ?start) = map (\<lambda>r. lg_text (record_emit js r)) rs"
    "length (records_of is) \<le> limit \<longrightarrow> rs = records_of is"
    using pipe_run_records [OF assms, of limit ?start] by (auto simp: pipe_lines_def)
  have "log_text js limit is = concat (map (\<lambda>l. l @ [CHR 0x0A]) (map (\<lambda>r. lg_text (record_emit js r)) rs))"
    unfolding log_text_def guard_dropped_def pipe_run_def rs(2) ..
  also have "text_lines \<dots> = map (\<lambda>r. lg_text (record_emit js r)) rs"
    by (rule text_lines_concat) (use record_emit_line(4,6) [OF assms(1)] in auto)
  finally show ?thesis using rs(1,3) by blast
qed


text \<open>The tail that the daemon and the command line show of it: its last records.\<close>

lemma tail_shows_last_records:
  assumes "json_laws js parse" and "\<forall>i \<in> set is. unrelated i" and "length (records_of is) \<le> limit"
  shows "map (read_line_record parse) (tail_lines n (log_text js limit is)) =
    map Some (drop (length (records_of is) - n) (records_of is))"
proof -
  have t: "text_lines (log_text js limit is) = map (\<lambda>r. lg_text (record_emit js r)) (records_of is)"
    using text_lines_log [OF assms(1,2)] assms(3) by blast
  have "filter (\<lambda>l. l \<noteq> []) (text_lines (log_text js limit is)) = text_lines (log_text js limit is)"
    unfolding t using record_emit_line(5) [OF assms(1)] by (simp add: filter_id_conv)
  then show ?thesis
    using record_emit_line(3) [OF assms(1)] by (simp add: tail_lines_def Let_def t drop_map)
qed

text \<open>A writer that does not keep up loses records without a word: what comes in while the queue is full.\<close>

lemma busy_writer_loses_records:
  assumes "json_laws js parse" and "\<forall>i \<in> set is. unrelated i" and "Turned \<notin> set is"
  shows "length (text_lines (log_text js limit is)) \<le> limit"
proof -
  have kept: "pi_file (fold (pipe_log limit) (map (log_step_of js) is) p) = pi_file p \<and>
      length (pi_queue (fold (pipe_log limit) (map (log_step_of js) is) p)) \<le> limit"
    if "length (pi_queue p) \<le> limit" "Turned \<notin> set is" for p "is"
    using that
  proof (induction "is" arbitrary: p)
    case (Cons i "is")
    have "pi_file (pipe_log limit (log_step_of js i) p) = pi_file p \<and>
        length (pi_queue (pipe_log limit (log_step_of js i) p)) \<le> limit"
      using Cons.prems by (cases i) auto
    then show ?case using Cons.IH [of "pipe_log limit (log_step_of js i) p"] Cons.prems(2) by simp
  qed simp
  obtain rs where rs: "text_lines (log_text js limit is) = map (\<lambda>r. lg_text (record_emit js r)) rs"
    using text_lines_log [OF assms(1,2)] by blast
  let ?p = "\<lparr>pi_queue = [], pi_file = [], pi_console = []\<rparr>"
  obtain rs' where rs': "pipe_lines (fold (pipe_log limit) (map (log_step_of js) is) ?p) =
      map (\<lambda>r. lg_text (record_emit js r)) rs'"
    using pipe_run_records [OF assms(1,2), of limit ?p] by (auto simp: pipe_lines_def)
  have "text_lines (log_text js limit is) = pipe_lines (fold (pipe_log limit) (map (log_step_of js) is) ?p)"
    unfolding log_text_def guard_dropped_def pipe_run_def rs'
    by (rule text_lines_concat) (use record_emit_line(4,6) [OF assms(1)] in auto)
  then show ?thesis using kept [OF _ assms(3), of ?p] by (simp add: pipe_lines_def)
qed

text \<open>The record of a statement of at most 64 bytes holds all of it, with the values written in it.\<close>

lemma short_statement_in_full: "length sql \<le> 64 \<Longrightarrow> ae_stmt_first_64 (audit_event_new au env user sql dec reason rows) = sql"
proof -
  have "take_chars n s = s" if "length s \<le> n" for n s
    using that
  proof (induction n s rule: take_chars.induct)
    case (3 n c s)
    have "length (dropWhile is_cont_char s) \<le> n" using 3(2) length_dropWhile_le [of is_cont_char s] by simp
    then show ?case using 3(1) by simp
  qed simp_all
  then show "length sql \<le> 64 \<Longrightarrow> ?thesis" by (simp add: audit_event_new_def first_64_def)
qed

text \<open>A second subscriber changes nothing but the writers: its directory gets no record.\<close>

lemma second_subscriber_unused:
  "lp_audit_dir p = Some d \<Longrightarrow> lp_audit_dir (snd (install_subscriber mkdir state_dir p)) = Some d"
  by (simp add: install_subscriber_def Let_def split: sum.splits)

section \<open>A JSON coder\<close>

text \<open>The laws hold of the usual text: fields in order, without spaces, control characters escaped.\<close>

definition QUOTATION :: char where "QUOTATION = CHR 0x22"

definition json_text_char :: "char \<Rightarrow> string" where
  "json_text_char c =
     (if c = QUOTATION \<or> c = CHR 0x5C then [CHR 0x5C, c]
      else if of_char c < (0x20 :: nat)
      then [CHR 0x5C, CHR ''u'', CHR ''0'', CHR ''0'', hex_digit (of_char c div 16), hex_digit (of_char c mod 16)]
      else [c])"

definition json_string :: "string \<Rightarrow> string" where
  "json_string s = [QUOTATION] @ concat (map json_text_char s) @ [QUOTATION]"

fun json_value_text :: "json_value \<Rightarrow> string" where
  "json_value_text (JString s) = json_string s"
| "json_value_text (JNumber n) = show_nat n"


definition json_field_text :: "string \<times> json_value \<Rightarrow> string" where
  "json_field_text f = json_string (fst f) @ [CHR '':''] @ json_value_text (snd f)"

fun json_rest :: "json_fields \<Rightarrow> string" where
  "json_rest [] = [CHR 0x7D]"
| "json_rest (f # fs) = CHR '','' # json_field_text f @ json_rest fs"

definition json_text :: json_coder where
  "json_text fs = Inr (CHR 0x7B # (case fs of [] \<Rightarrow> [CHR 0x7D] | f # fs' \<Rightarrow> json_field_text f @ json_rest fs'))"

text \<open>Its reader: the characters of a string, a value, a field, the fields.\<close>

definition hex_val :: "char \<Rightarrow> nat" where
  "hex_val c = (case digit_val 16 c of Some n \<Rightarrow> n | None \<Rightarrow> 0)"

fun read_chars :: "string \<Rightarrow> (string \<times> string) option" where
  "read_chars [] = None"
| "read_chars (c # s) =
     (if c = QUOTATION then Some ([], s)
      else if c = CHR 0x5C
      then (case s of
              [] \<Rightarrow> None
            | d # t \<Rightarrow>
                if d = CHR ''u''
                then (case t of
                        _ # _ # h # l # r \<Rightarrow>
                          map_option (\<lambda>(x, y). (char_of (16 * hex_val h + hex_val l) # x, y)) (read_chars r)
                      | _ \<Rightarrow> None)
                else map_option (\<lambda>(x, y). (d # x, y)) (read_chars t))
      else map_option (\<lambda>(x, y). (c # x, y)) (read_chars s))"

definition read_value :: "string \<Rightarrow> (json_value \<times> string) option" where
  "read_value s =
     (case s of
        [] \<Rightarrow> None
      | c # r \<Rightarrow>
          if c = QUOTATION then map_option (\<lambda>(x, y). (JString x, y)) (read_chars r)
          else Some (JNumber (digits_value 10 (fst (span_digits 10 (takeWhile is_digit s)))), dropWhile is_digit s))"

definition read_field :: "string \<Rightarrow> ((string \<times> json_value) \<times> string) option" where
  "read_field s =
     (case s of
        [] \<Rightarrow> None
      | _ # r \<Rightarrow>
          (case read_chars r of
             Some (k, _ # t) \<Rightarrow> map_option (\<lambda>(v, u). ((k, v), u)) (read_value t)
           | _ \<Rightarrow> None))"

fun read_rest :: "nat \<Rightarrow> string \<Rightarrow> json_fields option" where
  "read_rest 0 s = None"
| "read_rest (Suc n) [] = None"
| "read_rest (Suc n) (c # s) =
     (if c = CHR 0x7D then Some []
      else (case read_field s of None \<Rightarrow> None | Some (f, t) \<Rightarrow> map_option (\<lambda>fs. f # fs) (read_rest n t)))"

definition json_parse :: "string \<Rightarrow> json_fields option" where
  "json_parse s = (case s of _ # c # r \<Rightarrow> if c = CHR 0x7D then Some [] else read_rest (length s) (CHR '','' # c # r) | _ \<Rightarrow> None)"

lemma hex_val_digit: "n < 16 \<Longrightarrow> hex_val (hex_digit n) = n"
proof -
  have "\<forall>n \<in> set [0..<16]. hex_val (hex_digit n) = n"
    by (simp add: upt_rec hex_val_def hex_digit_def digit_val_def is_digit_def char_between_def less_eq_char_def)
  then show "n < 16 \<Longrightarrow> ?thesis" by simp
qed

lemma read_chars_string: "read_chars (concat (map json_text_char s) @ QUOTATION # r) = Some (s, r)"
proof (induction s)
  case (Cons c s)
  show ?case
  proof (cases "of_char c < (0x20 :: nat)")
    case True
    let ?n = "of_char c :: nat"
    have "?n div 16 < 16" "?n mod 16 < 16" using True by auto
    then have "hex_val (hex_digit (?n div 16)) = ?n div 16" "hex_val (hex_digit (?n mod 16)) = ?n mod 16"
      by (simp_all add: hex_val_digit)
    moreover have "char_of (16 * (?n div 16) + ?n mod 16) = c" by simp
    ultimately show ?thesis using Cons True by (auto simp: json_text_char_def QUOTATION_def)
  qed (use Cons in \<open>auto simp: json_text_char_def QUOTATION_def\<close>)
qed (simp add: QUOTATION_def)


lemma read_value_text:
  assumes "\<not> is_digit d"
  shows "read_value (json_value_text v @ d # r) = Some (v, d # r)"
proof (cases v)
  case (JString s)
  then show ?thesis using read_chars_string [of s "d # r"] by (simp add: read_value_def json_string_def)
next
  case (JNumber n)
  obtain c s where cs: "show_nat n = c # s" by (cases "show_nat n") auto
  then have "is_digit c" using show_nat_digits [of c n] by simp
  then have "c \<noteq> QUOTATION" by (auto simp: QUOTATION_def is_digit_def char_between_def less_eq_char_def)
  moreover have all: "\<forall>x \<in> set (show_nat n). is_digit x" using show_nat_digits by blast
  moreover have "takeWhile is_digit (show_nat n @ d # r) = show_nat n" "dropWhile is_digit (show_nat n @ d # r) = d # r"
    using assms all by (simp_all add: takeWhile_append2 dropWhile_append2)
  ultimately show ?thesis using span_digits_show_nat [of n] cs JNumber by (auto simp: read_value_def)
qed

lemma read_field_text:
  assumes "\<not> is_digit d"
  shows "read_field (json_field_text f @ d # r) = Some (f, d # r)"
  using read_chars_string [of "fst f" "CHR '':'' # json_value_text (snd f) @ d # r"] read_value_text [OF assms]
  by (simp add: read_field_def json_field_text_def json_string_def)

lemma json_rest_hd: "\<exists>d r. json_rest fs = d # r \<and> \<not> is_digit d"
  by (cases fs) (simp_all add: is_digit_def char_between_def less_eq_char_def)

lemma read_rest_json: "length fs < n \<Longrightarrow> read_rest n (json_rest fs) = Some fs"
proof (induction fs arbitrary: n)
  case Nil
  then show ?case by (cases n) simp_all
next
  case (Cons f fs)
  obtain m where n: "n = Suc m" "length fs < m" using Cons.prems by (cases n) auto
  obtain d r where "json_rest fs = d # r" "\<not> is_digit d" using json_rest_hd by blast
  then show ?case using Cons.IH [OF n(2)] n(1) read_field_text [of d f r] by simp
qed

lemma json_chars:
  "c \<in> set (json_string s) \<Longrightarrow> (0x20 :: nat) \<le> of_char c"
  "c \<in> set (json_value_text v) \<Longrightarrow> (0x20 :: nat) \<le> of_char c"
  "c \<in> set (json_rest fs) \<Longrightarrow> (0x20 :: nat) \<le> of_char c"
proof -
  have h: "(0x20 :: nat) \<le> of_char (hex_digit n)" if "n < 16" for n
  proof -
    have "\<forall>n \<in> set [0..<16]. (0x20 :: nat) \<le> of_char (hex_digit n)" by (simp add: upt_rec hex_digit_def)
    then show ?thesis using that by simp
  qed
  have e: "(0x20 :: nat) \<le> of_char c" if "c \<in> set (json_text_char x)" for c x
  proof (cases "of_char x < (0x20 :: nat)")
    case True
    then have "of_char x div 16 < (16 :: nat)" "of_char x mod 16 < (16 :: nat)" by auto
    then show ?thesis using that h by (auto simp: json_text_char_def QUOTATION_def split: if_splits)
  qed (use that in \<open>auto simp: json_text_char_def QUOTATION_def split: if_splits\<close>)
  have j: "(0x20 :: nat) \<le> of_char c" if "c \<in> set (json_string s)" for c s
    using that e by (auto simp: json_string_def QUOTATION_def)
  have v: "(0x20 :: nat) \<le> of_char c" if "c \<in> set (json_value_text v)" for c v
    using that j show_nat_digits
    by (cases v) (auto simp: is_digit_def char_between_def less_eq_char_def dest!: show_nat_digits)
  show "c \<in> set (json_string s) \<Longrightarrow> (0x20 :: nat) \<le> of_char c" by (rule j)
  show "c \<in> set (json_value_text v) \<Longrightarrow> (0x20 :: nat) \<le> of_char c" by (rule v)
  show "c \<in> set (json_rest fs) \<Longrightarrow> (0x20 :: nat) \<le> of_char c"
    by (induction fs) (use j v in \<open>auto simp: json_field_text_def\<close>)
qed

lemma last_json_rest: "last (json_rest fs) = CHR 0x7D"
proof (induction fs)
  case (Cons f fs)
  obtain d r where "json_rest fs = d # r" using json_rest_hd by blast
  then show ?case using Cons by simp
qed simp

theorem json_text_laws: "json_laws json_text json_parse"
  unfolding json_laws_def
proof
  fix fs
  let ?line = "CHR 0x7B # (case fs of [] \<Rightarrow> [CHR 0x7D] | f # fs' \<Rightarrow> json_field_text f @ json_rest fs')"
  have rest: "CHR '','' # tl ?line = json_rest fs" if "fs \<noteq> []" using that by (cases fs) simp_all
  have parse: "json_parse ?line = Some fs"
  proof (cases fs)
    case (Cons f fs')
    obtain c r where c: "tl ?line = c # r" "c = QUOTATION"
      unfolding Cons by (simp add: json_field_text_def json_string_def)
    have "length fs < length (json_rest fs)" by (induction fs) simp_all
    then have "length fs < length ?line" using rest Cons by (metis length_Cons list.sel(3) list.simps(3))
    then have "read_rest (length ?line) (json_rest fs) = Some fs" by (rule read_rest_json)
    moreover have "length (json_field_text f) + length (json_rest fs') = Suc (length r)"
      using arg_cong [OF c(1), of length] Cons by simp
    ultimately show ?thesis using rest Cons c by (simp add: json_parse_def QUOTATION_def)
  qed (simp add: json_parse_def)
  have ok: "(0x20 :: nat) \<le> of_char c" if "c \<in> set ?line" for c
  proof (cases fs)
    case (Cons f fs')
    then show ?thesis using that json_chars(3) [of c fs] rest by auto
  qed (use that in auto)
  have "last ?line = CHR 0x7D"
  proof (cases fs)
    case (Cons f fs')
    obtain d r where "json_rest fs' = d # r" using json_rest_hd by blast
    then show ?thesis using Cons last_json_rest [of fs'] by simp
  qed simp
  moreover have "CHR 0x0A \<notin> set ?line" using ok [of "CHR 0x0A"] by fastforce
  ultimately have "json_text fs = Inr ?line \<and> json_parse ?line = Some fs \<and> CHR 0x0A \<notin> set ?line \<and> ?line \<noteq> [] \<and>
      last ?line \<noteq> CHR 0x0D"
    using parse by (simp add: json_text_def)
  then show "\<exists>line. json_text fs = Inr line \<and> json_parse line = Some fs \<and> CHR 0x0A \<notin> set line \<and> line \<noteq> [] \<and>
      last line \<noteq> CHR 0x0D" by blast
qed


text \<open>A statement that carries a line of its own making is one line of the log, and reads back as what
  it is.\<close>

definition forged :: string where
  "forged = [CHR 0x0A, CHR 0x7B, QUOTATION] @ ''decision'' @ [QUOTATION, CHR '':'', QUOTATION] @ ''allow''"

definition demo_record :: audit_record where
  "demo_record = QueryRecord
     (audit_event_new \<lparr>au_sha256 = \<lambda>b. [0xAB], au_now = ''2026-01-01T00:00:00Z'', au_elapsed = 3\<rparr> ''stage''
        forged forged AuditDeny (Some forged) None)"


end
