(* ===== verification/Entry_Points.thy ===== *)
theory Entry_Points
  imports Deploy_Laws Windows_Control Audit_Emit
begin

text \<open>
  The two programs as a whole: \<open>main\<close> of \<open>crates/mwsqlctl/src/main.rs\<close>, which sends each command to
  its part, and \<open>main\<close> of \<open>crates/mwsqld/src/main.rs\<close>. The command line is taken as parsed; what the
  parsed options are, the environment adds to. The two meet where \<open>mwsqlctl\<close> starts \<open>mwsqld test\<close>.
\<close>

section \<open>mwsqlctl\<close>

text \<open>The subcommands in front of the guarded ones, with their options.\<close>

datatype ctl_cmd =
    CtlWizard (ctl_service: string)
  | CtlInit (ctl_service: string) "string option"
  | CtlUninstall (ctl_service: string) bool bool
  | CtlInstallService (ctl_service: string) "string option" "string option" bool
  | CtlCommand cmd

record ctl_args =
  ca_state_dir :: "string option"
  ca_user :: bool
  ca_file_keystore :: bool
  ca_uac :: bool
  ca_offline :: bool

type_synonym variables = "string \<Rightarrow> string option"

text \<open>The flags, with the two variables of the environment.\<close>

definition ctl_flags :: "variables \<Rightarrow> ctl_args \<Rightarrow> cli_flags" where
  "ctl_flags var a =
     \<lparr>cf_state_dir = ca_state_dir a, cf_user = (ca_user a \<or> env_flag (var ''MW_USER'')),
      cf_file_keystore = (ca_file_keystore a \<or> env_flag (var ''MW_FILE_KEYSTORE'')), cf_offline = ca_offline a\<rparr>"

definition ctl_init_opts :: "cli_flags \<Rightarrow> bool \<Rightarrow> string \<Rightarrow> string option \<Rightarrow> init_opts" where
  "ctl_init_opts fl uac service exec_path =
     \<lparr>io_state_dir = cf_state_dir fl, io_user = cf_user fl, io_file_keystore = cf_file_keystore fl,
      io_service_name = service, io_exec_path = exec_path, io_uac = uac\<rparr>"

definition ctl_uninstall_opts :: "cli_flags \<Rightarrow> bool \<Rightarrow> string \<Rightarrow> bool \<Rightarrow> bool \<Rightarrow> uninstall_opts" where
  "ctl_uninstall_opts fl uac service yes purge =
     \<lparr>uo_state_dir = cf_state_dir fl, uo_user = cf_user fl, uo_file_keystore = cf_file_keystore fl,
      uo_service_name = service, uo_yes = yes, uo_purge_audit = purge, uo_uac = uac\<rparr>"

text \<open>What a run of the program gives: the result of the part the command was sent to.\<close>

datatype 'h ctl_end =
    WizardEnd "((string + bool) \<times> 'h wizard) option"
  | InitEnd "((string + init_outcome) \<times> machine) option"
  | UninstallEnd "(string + uninstalled) \<times> machine"
  | InstallServiceEnd "(string + service_artifact) \<times> machine"
  | CommandEnd "'h cli_result"

text \<open>On Windows the refusal of a direct edit without rights is worded for Windows.\<close>

definition NEEDS_ADMINISTRATOR :: string where
  "NEEDS_ADMINISTRATOR = ''--offline edits the root/service-owned sealed config directly, which '' @
     ''needs Administrator. Re-run `mwsqlctl --offline '' @ [CHR 0xE2, CHR 0x80, CHR 0xA6] @
     ''` from an elevated terminal, or drop --offline to use the running service.''"

definition worded_for :: "platform \<Rightarrow> 'h cli_result \<Rightarrow> 'h cli_result" where
  "worded_for pf r =
     (case r of
        (out, Inl m, st) \<Rightarrow> (out, Inl (if pf = Windows \<and> m = NEEDS_ROOT then NEEDS_ADMINISTRATOR else m), st)
      | _ \<Rightarrow> r)"

definition ctl_main ::
  "process \<Rightarrow> target_env \<Rightarrow> variables \<Rightarrow> bool \<Rightarrow> (string \<Rightarrow> bool) \<Rightarrow> ('w, 'h) init_env \<Rightarrow> ctl_args \<Rightarrow> ctl_cmd
     \<Rightarrow> machine \<Rightarrow> 'h wizard \<Rightarrow> 'h ctl_end" where
  "ctl_main pr te var privileged reach ie a c m s =
     (let fl = ctl_flags var a
      in case c of
           CtlWizard service \<Rightarrow> WizardEnd (run_wizard te (ie_cli ie) fl service s)
         | CtlInit service exec_path \<Rightarrow>
             InitEnd (run_init pr (ie\<lparr>ie_target := te\<rparr>) (ctl_init_opts fl (ca_uac a) service exec_path) m)
         | CtlUninstall service yes purge \<Rightarrow>
             UninstallEnd (run_uninstall pr te (ctl_uninstall_opts fl (ca_uac a) service yes purge) m)
         | CtlInstallService service exec_path write_to force \<Rightarrow>
             InstallServiceEnd (run_install_service pr te (ca_state_dir a) service exec_path write_to force m)
         | CtlCommand cmd \<Rightarrow>
             CommandEnd (worded_for (pr_platform pr)
               (run_cli te privileged reach (ie_cli ie) fl cmd (wz_server s))))"

text \<open>A variable of the environment is a flag: it makes the program do what the flag does.\<close>

lemma variables_are_flags:
  "ctl_main pr te var privileged reach ie a c m s =
   ctl_main pr te (\<lambda>_. None) privileged reach ie
     (a\<lparr>ca_user := ca_user a \<or> env_flag (var ''MW_USER''),
        ca_file_keystore := ca_file_keystore a \<or> env_flag (var ''MW_FILE_KEYSTORE'')\<rparr>) c m s"
  by (cases c) (simp_all add: ctl_main_def ctl_flags_def env_flag_def Let_def)

text \<open>The flag that asks for a direct edit is taken by every command and heeded by the guarded ones only: the
  wizard, given it, asks the service all the same.\<close>

lemma offline_not_heeded:
  assumes "\<forall>cmd. c \<noteq> CtlCommand cmd"
  shows "ctl_main pr te var privileged reach ie (a\<lparr>ca_offline := True\<rparr>) c m s =
    ctl_main pr te var privileged reach ie (a\<lparr>ca_offline := False\<rparr>) c m s"
  using assms
  by (cases c)
    (simp_all add: ctl_main_def ctl_flags_def ctl_init_opts_def ctl_uninstall_opts_def Let_def run_wizard_def)

section \<open>mwsqld\<close>

datatype daemon_cmd =
    DaemonInit
  | DaemonRun string bool "u32 option"
  | DaemonTest "name option" bool bool bool
  | DaemonService

record daemon_args =
  da_state_dir :: "string option"
  da_user :: bool
  da_file_keystore :: bool

datatype ('h, 'd) daemon_end =
    DaemonInitEnd "(mutate_error state_error + unit) \<times> disk"
  | DaemonRunEnd "(string + 'h server) option" log_process
  | DaemonTestEnd "string + string \<times> bool"
  | DaemonServiceEnd "svc_end \<times> svc_report list"

definition daemon_target :: "target_env \<Rightarrow> variables \<Rightarrow> daemon_args \<Rightarrow> string \<times> keystore_choice" where
  "daemon_target te var a =
     resolve_cli_target te (da_state_dir a) (da_user a \<or> env_flag (var ''MW_USER''))
       (da_file_keystore a \<or> env_flag (var ''MW_FILE_KEYSTORE''))"

definition served_at :: "string \<times> keystore_choice \<Rightarrow> ('w, 'h) server_env \<Rightarrow> ('w, 'h) server_env" where
  "served_at target sv = sv\<lparr>sv_state := (sv_state sv)\<lparr>se_dir := fst target, se_keystore := snd target\<rparr>\<rparr>"

text \<open>The probe of the environments asked for: the report and whether the exit code is zero.\<close>

definition daemon_test ::
  "('w, 'h) server_env \<Rightarrow> name option \<Rightarrow> bool \<Rightarrow> bool \<Rightarrow> bool \<Rightarrow> 'w \<Rightarrow> disk \<Rightarrow> string + string \<times> bool" where
  "daemon_test sv env_name whole_set json tofu w d =
     (case test_choice env_name whole_set of
        Inl e \<Rightarrow> Inl e
      | Inr which \<Rightarrow>
          (case load_config (sv_state sv) d :: mutate_error state_error + config of
             Inl e \<Rightarrow> Inl (sv_state_text sv e)
           | Inr cfg \<Rightarrow>
               Inr (test_report json
                 (fst (test_envs (sv_net sv) (sv_daemon_text sv) (sv_missing_text sv) cfg which tofu w)))))"

text \<open>The log is opened before the configuration is loaded; what is left of a failure is that there is no
  server.\<close>

definition daemon_main ::
  "target_env \<Rightarrow> variables \<Rightarrow> (string \<Rightarrow> string + unit) \<Rightarrow> ('w, 'h) server_env \<Rightarrow> bool \<Rightarrow> fault \<Rightarrow> bytes
     \<Rightarrow> 'd svc_world \<Rightarrow> daemon_args \<Rightarrow> daemon_cmd \<Rightarrow> 'w \<Rightarrow> log_process \<Rightarrow> disk \<Rightarrow> ('h, 'd) daemon_end" where
  "daemon_main te var mkdir sv insecure fault key sw a c w lp d =
     (let target = daemon_target te var a; sv' = served_at target sv
      in case c of
           DaemonInit \<Rightarrow> DaemonInitEnd (init_state (sv_state sv') fault key d)
         | DaemonRun lhost tofu idle_flag \<Rightarrow>
             (case install_subscriber mkdir (fst target) lp of
                (Inl e, lp') \<Rightarrow> DaemonRunEnd (Some (Inl e)) lp'
              | (Inr _, lp') \<Rightarrow> DaemonRunEnd (map_option Inr (run_daemon sv' insecure idle_flag lhost tofu w d)) lp')
         | DaemonTest env_name whole_set json tofu \<Rightarrow>
             DaemonTestEnd (daemon_test sv' env_name whole_set json tofu w d)
         | DaemonService \<Rightarrow> DaemonServiceEnd (service_command te (da_state_dir a) (da_user a) (da_file_keystore a) var sw))"

text \<open>A daemon that runs has the audit log open, the first one of its directory, and is in a reachable
  state.\<close>

lemma daemon_runs_audited:
  assumes "daemon_main te var mkdir sv insecure fault key sw a (DaemonRun lhost tofu idle_flag) w lp d =
      DaemonRunEnd (Some (Inr st)) lp'" and "lp_audit_dir lp = None"
  shows "lp_audit_dir lp' = Some (path_join (fst (daemon_target te var a)) ''audit'')"
    and "served (served_at (daemon_target te var a) sv) st"
  using assms
  by (auto simp: daemon_main_def install_subscriber_def Let_def intro: served.start split: sum.splits)


section \<open>The two together\<close>

text \<open>The daemon's reading of the arguments the connectivity check starts it with: a value that looks like an
  option is not taken for one.\<close>

fun read_test_flags ::
  "string list \<Rightarrow> daemon_args \<Rightarrow> name option \<Rightarrow> bool \<Rightarrow> bool \<Rightarrow> (daemon_args \<times> daemon_cmd) option" where
  "read_test_flags [] a nm whole_set json = Some (a, DaemonTest nm whole_set json False)"
| "read_test_flags (x # xs) a nm whole_set json =
     (if x = ''--json'' then read_test_flags xs a nm whole_set True
      else if x = ''--all'' then read_test_flags xs a nm True json
      else if x = ''--user'' then read_test_flags xs (a\<lparr>da_user := True\<rparr>) nm whole_set json
      else if x = ''--file-keystore'' then read_test_flags xs (a\<lparr>da_file_keystore := True\<rparr>) nm whole_set json
      else (case xs of
              [] \<Rightarrow> None
            | v # ys \<Rightarrow>
                if starts_with ''-'' v then None
                else if x = ''--env'' then read_test_flags ys a (Some v) whole_set json
                else if x = ''--state-dir'' then read_test_flags ys (a\<lparr>da_state_dir := Some v\<rparr>) nm whole_set json
                else None))"

definition read_daemon_argv :: "string list \<Rightarrow> (daemon_args \<times> daemon_cmd) option" where
  "read_daemon_argv argv =
     (case argv of
        c # xs \<Rightarrow>
          if c = ''test''
          then read_test_flags xs \<lparr>da_state_dir = None, da_user = False, da_file_keystore = False\<rparr> None False False
          else None
      | [] \<Rightarrow> None)"

definition is_file :: "keystore_choice \<Rightarrow> bool" where
  "is_file ks = (case ks of FileKeystore _ \<Rightarrow> True | OsKeystore _ _ \<Rightarrow> False)"

lemma probe_argv_read:
  assumes "\<not> starts_with ''-'' dir" and "\<And>n. nm = Some n \<Longrightarrow> \<not> starts_with ''-'' n"
  shows "read_daemon_argv (build_probe_argv nm dir file_keystore) =
    Some (\<lparr>da_state_dir = Some dir, da_user = (\<not> file_keystore), da_file_keystore = file_keystore\<rparr>,
      DaemonTest nm (nm = None) True False)"
  using assms by (cases nm; cases file_keystore) (simp_all add: read_daemon_argv_def build_probe_argv_def)

text \<open>The child resolves the directory and the key store its parent works with, whatever the flags, the
  variables and the fallback to a legacy directory made of them.\<close>

lemma child_same_target:
  assumes "resolve_cli_target te sd u f = (dir, ks)"
    and "env_flag (var ''MW_FILE_KEYSTORE'') \<Longrightarrow> is_file ks"
  shows "daemon_target te var \<lparr>da_state_dir = Some dir, da_user = (\<not> is_file ks), da_file_keystore = is_file ks\<rparr> =
    (dir, ks)"
proof -
  have "ks = default_file dir \<or> ks = default_os"
    using resolved_keystore assms(1) unfolding resolve_cli_target_def by blast
  then show ?thesis
    using assms(2)
    by (auto simp: daemon_target_def resolve_cli_target_def resolve_target_def Let_def is_file_def default_file_def
        default_os_def)
qed

text \<open>
  The check after \<open>env add\<close> and \<open>env test\<close> says what the daemon finds. The tool that works on a
  directory with a key store starts the daemon on both; when the start gives what \<open>mwsqld test\<close> gives on
  that disk, the verdict is the one of a probe of the environment asked for, in the configuration the tool
  itself loads. This needs what the environment variable for the file key store may break, when a legacy
  directory uses the key store of the system, and values that do not look like options.
\<close>

theorem validation_probes_own_config:
  fixes sv :: "('w, 'h) server_env" and sw :: "'d svc_world" and rs :: "probe_result list"
  assumes target: "resolve_cli_target te sd u f = (dir, ks)"
    and keystore: "env_flag (var ''MW_FILE_KEYSTORE'') \<Longrightarrow> is_file ks"
    and plain: "\<not> starts_with ''-'' dir" "\<And>n. nm = Some n \<Longrightarrow> \<not> starts_with ''-'' n"
    and exe: "exists daemon_exe"
    and loads: "load_config (sv_state (served_at (dir, ks) sv)) d = (Inr cfg :: mutate_error state_error + config)"
    and rs: "rs = fst (test_envs (sv_net sv) (sv_daemon_text sv) (sv_missing_text sv) cfg
          (case nm of Some n \<Rightarrow> ProbeOne n | None \<Rightarrow> ProbeAll) False w)"
    and launch: "\<And>argv a c out ok. read_daemon_argv argv = Some (a, c) \<Longrightarrow>
        (daemon_main te var mkdir sv insecure fault key sw a c w lp d :: ('h, 'd) daemon_end) =
          DaemonTestEnd (Inr (out, ok)) \<Longrightarrow> launch daemon_exe argv = Inr (ok, out, err)"
    and reportable: "list_all reportable rs"
  shows "validate_probe (Inr daemon_exe) exists launch dir ks nm = report_verdict rs"
proof -
  let ?a = "\<lparr>da_state_dir = Some dir, da_user = (\<not> is_file ks), da_file_keystore = is_file ks\<rparr>"
  obtain out ok where report: "test_report True rs = (out, ok)" by (cases "test_report True rs")
  have t: "daemon_target te var ?a = (dir, ks)" by (rule child_same_target [OF target keystore])
  have sv': "sv_net (served_at (dir, ks) sv) = sv_net sv" "sv_daemon_text (served_at (dir, ks) sv) = sv_daemon_text sv"
    "sv_missing_text (served_at (dir, ks) sv) = sv_missing_text sv"
    by (simp_all add: served_at_def)
  have choice: "test_choice nm (nm = None) = Inr (case nm of Some n \<Rightarrow> ProbeOne n | None \<Rightarrow> ProbeAll)"
    by (simp add: test_choice_def split: option.splits)
  have "(daemon_main te var mkdir sv insecure fault key sw ?a (DaemonTest nm (nm = None) True False) w lp d
      :: ('h, 'd) daemon_end) = DaemonTestEnd (Inr (out, ok))"
    by (simp add: daemon_main_def Let_def t daemon_test_def choice sv' loads rs [symmetric] report)
  then have "launch daemon_exe (build_probe_argv nm dir (is_file ks)) = Inr (ok, out, err)"
    using launch probe_argv_read [OF plain] by blast
  then show ?thesis
    using validate_reads_report [of rs exists daemon_exe out ok launch nm dir ks err] reportable exe report
    by (simp add: is_file_def)
qed

text \<open>With the variable set and a legacy directory whose key is in the system's store, the child looks for a
  file.\<close>

lemma variable_misleads_child:
  assumes "resolve_cli_target te None False True = (dir, default_os)" and "env_flag (var ''MW_FILE_KEYSTORE'')"
  shows "daemon_target te var \<lparr>da_state_dir = Some dir, da_user = True, da_file_keystore = False\<rparr> = (dir, default_file dir)"
  using assms(2) by (simp add: daemon_target_def resolve_cli_target_def resolve_target_def Let_def)

end
