(* ===== verification/Local_Ops.thy ===== *)
theory Local_Ops
  imports Wizard
begin

text \<open>
  The direct path of the administration commands, wrapper by wrapper: \<open>bastion.rs\<close>, \<open>cred.rs\<close>,
  \<open>envs.rs\<close>, \<open>policy.rs\<close> and \<open>ops.rs\<close> of \<open>crates/mwsqlctl/src\<close>, with the rows they
  list and what the wizard prints of them. \<open>Cli\<close> models each command in both modes at once; the theorem
  here is that its direct mode is what the wrappers compose to.
\<close>

section \<open>Wrappers of the transforms\<close>

definition local_bastion_add ::
  "('w, 'h) cli_env \<Rightarrow> nat \<Rightarrow> bastion_add_args \<Rightarrow> 'h server \<Rightarrow> (string + unit) \<times> 'h server" where
  "local_bastion_add ce k args st = direct ce k (\<lambda>c. unit_result (add_bastion args c)) st"

definition local_set_fingerprint ::
  "('w, 'h) cli_env \<Rightarrow> nat \<Rightarrow> name \<Rightarrow> host_key_fingerprint \<Rightarrow> 'h server \<Rightarrow> (string + unit) \<times> 'h server" where
  "local_set_fingerprint ce k nm fp st = direct ce k (\<lambda>c. unit_result (set_fingerprint nm fp c)) st"

definition local_bastion_rm :: "('w, 'h) cli_env \<Rightarrow> nat \<Rightarrow> name \<Rightarrow> 'h server \<Rightarrow> (string + unit) \<times> 'h server" where
  "local_bastion_rm ce k nm st = direct ce k (\<lambda>c. unit_result (rm_bastion nm c)) st"

definition local_cred_add ::
  "('w, 'h) cli_env \<Rightarrow> nat \<Rightarrow> name \<Rightarrow> string \<Rightarrow> string \<Rightarrow> 'h server \<Rightarrow> (string + unit) \<times> 'h server" where
  "local_cred_add ce k nm user password st = direct ce k (\<lambda>c. unit_result (add_cred nm user password c)) st"

definition local_cred_rotate ::
  "('w, 'h) cli_env \<Rightarrow> nat \<Rightarrow> name \<Rightarrow> string \<Rightarrow> 'h server \<Rightarrow> (string + unit) \<times> 'h server" where
  "local_cred_rotate ce k nm password st = direct ce k (\<lambda>c. unit_result (rotate_cred nm password c)) st"

definition local_cred_rm :: "('w, 'h) cli_env \<Rightarrow> nat \<Rightarrow> name \<Rightarrow> 'h server \<Rightarrow> (string + unit) \<times> 'h server" where
  "local_cred_rm ce k nm st = direct ce k (\<lambda>c. unit_result (rm_cred nm c)) st"

definition local_env_add ::
  "('w, 'h) cli_env \<Rightarrow> nat \<Rightarrow> env_add_args \<Rightarrow> 'h server \<Rightarrow> (string + new_env_output) \<times> 'h server" where
  "local_env_add ce k args st =
     direct ce k (add_env (sv_sha1 (ce_server ce)) (sv_sha256 (ce_server ce)) (tn_raw (ce_turn ce k)) args) st"

definition local_env_rm :: "('w, 'h) cli_env \<Rightarrow> nat \<Rightarrow> name \<Rightarrow> 'h server \<Rightarrow> (string + unit) \<times> 'h server" where
  "local_env_rm ce k nm st = direct ce k (\<lambda>c. unit_result (rm_env nm c)) st"

definition local_env_grant ::
  "('w, 'h) cli_env \<Rightarrow> nat \<Rightarrow> name \<Rightarrow> 'h server \<Rightarrow> (string + new_env_output) \<times> 'h server" where
  "local_env_grant ce k nm st =
     direct ce k (grant_env (sv_sha1 (ce_server ce)) (sv_sha256 (ce_server ce)) (tn_raw (ce_turn ce k)) nm) st"

text \<open>The gate of \<open>policy::set\<close> comes before anything is read.\<close>

definition local_policy_set ::
  "('w, 'h) cli_env \<Rightarrow> nat \<Rightarrow> name \<Rightarrow> policy_target \<Rightarrow> bool \<Rightarrow> 'h server \<Rightarrow> (string + unit) \<times> 'h server" where
  "local_policy_set ce k nm target confirm st =
     (if target = TargetReadWrite \<and> \<not> confirm then (Inl CONFIRM_REASON, st)
      else direct ce k (\<lambda>c. unit_result (set_policy nm target c)) st)"

definition local_import :: "('w, 'h) cli_env \<Rightarrow> nat \<Rightarrow> string \<Rightarrow> 'h server \<Rightarrow> (string + unit) \<times> 'h server" where
  "local_import ce k dir st =
     (case build_from_dir (ce_import ce) dir of
        Inl e \<Rightarrow> (Inl (ce_import_text ce e), st)
      | Inr (fragment, _) \<Rightarrow> direct ce k (\<lambda>c. unit_result (merge_import c fragment)) st)"

section \<open>The operations\<close>

text \<open>\<open>ops::add_bastion\<close>: the secret is asked for first, then the fingerprint is parsed.\<close>

definition ops_add_bastion ::
  "('w, 'h) cli_env \<Rightarrow> bastion_input \<Rightarrow> 'h server \<Rightarrow> (string + unit) \<times> 'h server" where
  "ops_add_bastion ce inp st =
     (case fst (resolve_bastion_auth inp (ce_terminal ce)) of
        Inl e \<Rightarrow> (Inl e, st)
      | Inr secret \<Rightarrow>
     (case single_fingerprint (bn_fingerprints inp) of
        Inl e \<Rightarrow> (Inl (ce_fingerprint_text ce e), st)
      | Inr fp \<Rightarrow>
          local_bastion_add ce 0
            \<lparr>ba_name = bn_name inp, ba_host = bn_host inp, ba_port = bn_port inp, ba_ssh_user = bn_ssh_user inp,
             ba_auth = secret, ba_fingerprint = fp\<rparr> st))"

definition ops_add_credential ::
  "('w, 'h) cli_env \<Rightarrow> name \<Rightarrow> string \<Rightarrow> bool \<Rightarrow> 'h server \<Rightarrow> (string + unit) \<times> 'h server" where
  "ops_add_credential ce nm user from_stdin st =
     (case fst (read_secret from_stdin (ce_terminal ce)) of
        Inl e \<Rightarrow> (Inl e, st)
      | Inr pw \<Rightarrow> local_cred_add ce 0 nm user pw st)"

definition ops_rotate_credential ::
  "('w, 'h) cli_env \<Rightarrow> name \<Rightarrow> bool \<Rightarrow> 'h server \<Rightarrow> (string + unit) \<times> 'h server" where
  "ops_rotate_credential ce nm from_stdin st =
     (case fst (read_secret from_stdin (ce_terminal ce)) of
        Inl e \<Rightarrow> (Inl e, st)
      | Inr pw \<Rightarrow> local_cred_rotate ce 0 nm pw st)"

definition ops_add_env ::
  "('w, 'h) cli_env \<Rightarrow> nat \<Rightarrow> env_input \<Rightarrow> 'h server \<Rightarrow> (string + new_env_output) \<times> 'h server" where
  "ops_add_env ce k inp st =
     local_env_add ce k
       \<lparr>ea_name = en_name inp, ea_backend_host = en_backend_host inp,
        ea_backend_port = (case en_backend_port inp of Some p \<Rightarrow> p | None \<Rightarrow> default_port (en_engine inp)),
        ea_default_database = en_database inp, ea_bastion = en_bastion inp, ea_credential = en_credential inp,
        ea_policy = en_policy inp, ea_listen_port = en_listen_port inp, ea_max_pool = en_max_pool inp,
        ea_engine = en_engine inp\<rparr> st"

definition ops_grant :: "('w, 'h) cli_env \<Rightarrow> nat \<Rightarrow> name \<Rightarrow> 'h server \<Rightarrow> (string + new_env_output) \<times> 'h server" where
  "ops_grant ce k nm st = local_env_grant ce k nm st"

definition to_dto :: "(string + new_env_output) \<times> 'h server \<Rightarrow> (string + new_env_output_dto) \<times> 'h server" where
  "to_dto r = (map_sum (\<lambda>e. e) new_env_dto (fst r), snd r)"

section \<open>Rows\<close>

record bastion_row_data =
  br_name :: name
  br_host :: string
  br_port :: u16
  br_ssh_user :: string
  br_auth_kind :: string
  br_pinned :: nat

record cred_row_data =
  cr_name :: name
  cr_user :: string

record env_row_data =
  er_name :: name
  er_backend :: string
  er_bastion :: "name option"
  er_credential :: name
  er_policy :: string
  er_listen_port :: u16
  er_engine :: string

definition bastion_rows :: "config \<Rightarrow> bastion_row_data list" where
  "bastion_rows cfg = map (\<lambda>(nm, b).
     \<lparr>br_name = nm, br_host = host b, br_port = port b, br_ssh_user = ssh_user b,
      br_auth_kind = (case auth b of PasswordAuth _ \<Rightarrow> ''password'' | KeyAuth _ _ \<Rightarrow> ''key''),
      br_pinned = length (pinned_host_keys b)\<rparr>) (bt_entries (bastions cfg))"

definition cred_rows :: "config \<Rightarrow> cred_row_data list" where
  "cred_rows cfg = map (\<lambda>(nm, c). \<lparr>cr_name = nm, cr_user = backend_user c\<rparr>) (bt_entries (credentials cfg))"

definition env_rows :: "config \<Rightarrow> env_row_data list" where
  "env_rows cfg = map (\<lambda>(nm, e).
     \<lparr>er_name = nm, er_backend = backend_host e @ '':'' @ show_nat (unat (backend_port e)),
      er_bastion = env_bastion e, er_credential = env_credential e, er_policy = policy_label (env_policy e),
      er_listen_port = listen_port e, er_engine = engine_label (engine e)\<rparr>) (bt_entries (envs cfg))"

definition bastion_row_line :: "bastion_row_data \<Rightarrow> string" where
  "bastion_row_line r =
     br_name r @ TAB @ br_host r @ '':'' @ show_nat (unat (br_port r)) @ TAB @ ''user='' @ br_ssh_user r @ TAB @
     ''auth='' @ br_auth_kind r @ TAB @ ''fingerprints='' @ show_nat (br_pinned r)"

definition cred_row_line :: "cred_row_data \<Rightarrow> string" where
  "cred_row_line r = cr_name r @ TAB @ ''user='' @ cr_user r"

definition env_row_line :: "env_row_data \<Rightarrow> string" where
  "env_row_line r =
     er_name r @ TAB @ er_backend r @ TAB @ ''engine='' @ er_engine r @ TAB @
     ''bastion='' @ (case er_bastion r of Some b \<Rightarrow> b | None \<Rightarrow> ''-'') @ TAB @
     ''cred='' @ er_credential r @ TAB @ ''policy='' @ er_policy r @ TAB @ ''port='' @ show_nat (unat (er_listen_port r))"


section \<open>The direct mode\<close>

text \<open>Each command as the direct branch of \<open>main\<close> runs it.\<close>

definition direct_listing :: "('w, 'h) cli_env \<Rightarrow> (config \<Rightarrow> string list) \<Rightarrow> 'h server \<Rightarrow> 'h cli_result" where
  "direct_listing ce rows st =
     (case direct_read ce 0 rows st of Inl e \<Rightarrow> ([], Inl e, st) | Inr ls \<Rightarrow> (ls, Inr (), st))"

definition direct_env_add :: "('w, 'h) cli_env \<Rightarrow> nat \<Rightarrow> env_input \<Rightarrow> bool \<Rightarrow> 'h server \<Rightarrow> 'h cli_result" where
  "direct_env_add ce k inp no_validate st =
     (case to_dto (ops_add_env ce k inp st) of
        (Inl e, st') \<Rightarrow> ([], Inl e, st')
      | (Inr dto, st') \<Rightarrow>
          ([dto_token dto], if no_validate then Inr () else fst (validate_after_add ce False (Suc k) (en_name inp) st'), st'))"

fun direct_command :: "('w, 'h) cli_env \<Rightarrow> cmd \<Rightarrow> 'h server \<Rightarrow> 'h cli_result" where
  "direct_command ce (BastionAdd inp) st = quiet (ops_add_bastion ce inp st)"
| "direct_command ce (BastionRm nm) st = quiet (local_bastion_rm ce 0 nm st)"
| "direct_command ce BastionList st = direct_listing ce (map bastion_row_line \<circ> bastion_rows) st"
| "direct_command ce (CredAdd nm user from_stdin) st = quiet (ops_add_credential ce nm user from_stdin st)"
| "direct_command ce (CredRotate nm from_stdin) st = quiet (ops_rotate_credential ce nm from_stdin st)"
| "direct_command ce (CredRm nm) st = quiet (local_cred_rm ce 0 nm st)"
| "direct_command ce CredList st = direct_listing ce (map cred_row_line \<circ> cred_rows) st"
| "direct_command ce (EnvAdd inp no_validate) st = direct_env_add ce 0 inp no_validate st"
| "direct_command ce (EnvAddUrl a no_validate) st =
     (case parse_connection_url (ce_parse_url ce) (ce_percent_decode ce) (ua_url a) of
        Inl e \<Rightarrow> ([], Inl (ce_url_text ce e), st)
      | Inr p \<Rightarrow>
     (case (case pu_password p of
              Some pw \<Rightarrow> local_cred_add ce 0 (ua_name a) (pu_db_user p) pw st
            | None \<Rightarrow> ops_add_credential ce (ua_name a) (pu_db_user p) (ua_password_stdin a) st) of
        (Inl e, st') \<Rightarrow> ([], Inl e, st')
      | (Inr _, st') \<Rightarrow> direct_env_add ce 1 (url_env_input a p) no_validate st'))"
| "direct_command ce (EnvRm nm) st = quiet (local_env_rm ce 0 nm st)"
| "direct_command ce (EnvRotateToken nm) st = print_token (to_dto (ops_grant ce 0 nm st))"
| "direct_command ce EnvList st = direct_listing ce (map env_row_line \<circ> env_rows) st"
| "direct_command ce (EnvTest nm whole_set) st = cli_env_test ce False nm whole_set st"
| "direct_command ce (PolicyCmd nm ro rw confirm) st =
     (case policy_target_of ro rw of
        None \<Rightarrow> ([], Inl ''specify exactly one of --read-only / --read-write'', st)
      | Some target \<Rightarrow> quiet (local_policy_set ce 0 nm target confirm st))"
| "direct_command ce (AuditTailCmd n) st =
     (case tail_audit_dir (tn_audit_dir (ce_turn ce 0)) n of Inl e \<Rightarrow> ([], Inl e, st) | Inr ls \<Rightarrow> (ls, Inr (), st))"
| "direct_command ce (GrantCmd nm) st = print_token (to_dto (ops_grant ce 0 nm st))"
| "direct_command ce (ImportCmd dir) st = quiet (local_import ce 0 dir st)"

lemma row_lines:
  "map bastion_row_line (bastion_rows c) = map direct_bastion_row (bt_entries (bastions c))"
  "map cred_row_line (cred_rows c) = map direct_cred_row (bt_entries (credentials c))"
  "map env_row_line (env_rows c) = map direct_env_row (bt_entries (envs c))"
  by (auto simp: bastion_rows_def bastion_row_line_def direct_bastion_row_def cred_rows_def cred_row_line_def
      direct_cred_row_def env_rows_def env_row_line_def direct_env_row_def)

lemma direct_listing_rows: "listing ce False req rows st = direct_listing ce rows st"
  by (simp add: listing_def direct_listing_def)

lemma minted_direct: "minted ce False k req m st = to_dto (direct ce k m st)"
  by (simp add: minted_def to_dto_def split: prod.splits sum.splits)

lemma validate_after_add_direct: "snd (validate_after_add ce False k nm st) = st"
  by (simp add: validate_after_add_def Let_def split: validation.splits)

lemma add_args_direct:
  "env_add_args_of (env_dto inp) =
     \<lparr>ea_name = en_name inp, ea_backend_host = en_backend_host inp,
      ea_backend_port = (case en_backend_port inp of Some p \<Rightarrow> p | None \<Rightarrow> default_port (en_engine inp)),
      ea_default_database = en_database inp, ea_bastion = en_bastion inp, ea_credential = en_credential inp,
      ea_policy = en_policy inp, ea_listen_port = en_listen_port inp, ea_max_pool = en_max_pool inp,
      ea_engine = en_engine inp\<rparr>"
  by (cases "en_backend_port inp") (simp_all add: env_add_args_of_def env_dto_def)

lemma add_env_direct: "add_env_and_check ce False k inp no_validate st = direct_env_add ce k inp no_validate st"
proof -
  have "validate_after_add ce False (Suc k) nm s = (fst (validate_after_add ce False (Suc k) nm s), s)" for nm s
    using validate_after_add_direct [of ce "Suc k" nm s] by (metis prod.collapse)
  then show ?thesis
    by (simp add: add_env_and_check_def direct_env_add_def minted_direct ops_add_env_def local_env_add_def
        add_args_direct split: prod.splits sum.splits)
qed

lemmas local_defs = local_bastion_add_def local_bastion_rm_def local_cred_add_def local_cred_rotate_def
  local_cred_rm_def local_env_rm_def local_env_grant_def local_policy_set_def local_import_def

lemmas ops_defs = ops_add_bastion_def ops_add_credential_def ops_rotate_credential_def ops_grant_def

text \<open>The direct mode of every command is what the wrappers compose to.\<close>

theorem direct_mode_is_wrappers: "run_command ce False cmd st = direct_command ce cmd st"
proof (cases cmd)
  case (BastionAdd inp)
  then show ?thesis
    by (simp add: cli_bastion_add_def change_def quiet_def bastion_dto_def local_defs ops_defs split: sum.splits)
next
  case (CredAdd nm user from_stdin)
  then show ?thesis
    by (simp add: cli_cred_secret_def change_def quiet_def local_defs ops_defs split: sum.splits)
next
  case (CredRotate nm from_stdin)
  then show ?thesis
    by (simp add: cli_cred_secret_def change_def quiet_def local_defs ops_defs split: sum.splits)
next
  case (EnvAddUrl a no_validate)
  then show ?thesis
    by (auto simp: cli_env_add_url_def add_credential_for_url_def change_def add_env_direct local_defs ops_defs
        split: sum.splits option.splits prod.splits)
next
  case (PolicyCmd nm ro rw confirm)
  then show ?thesis by (simp add: cli_policy_def quiet_def local_defs split: option.splits)
next
  case (AuditTailCmd n)
  then show ?thesis by (simp add: cli_audit_tail_def split: sum.splits)
next
  case (ImportCmd dir)
  then show ?thesis by (simp add: cli_import_def change_def quiet_def local_defs split: sum.splits prod.splits)
qed (simp_all add: change_def local_defs ops_defs direct_listing_rows row_lines comp_def minted_direct add_env_direct)


section \<open>What the wizard prints\<close>

text \<open>The heading of a session, the rows already there, in both modes, and the warning about a bastion
  without a pinned key.\<close>

definition wizard_intro :: "bool \<Rightarrow> string \<Rightarrow> string list" where
  "wizard_intro service state_dir =
     (if service
      then [''middleWHERE '' @ em_dash @ '' configure connections (service deployment)'',
            ''State dir: '' @ state_dir @ '' (root-owned)'', []]
      else [''middleWHERE '' @ em_dash @ '' configure connections (per-user deployment)'',
            ''State dir: '' @ state_dir, []])"

definition headed :: "string \<Rightarrow> string list \<Rightarrow> string list" where
  "headed what rows = (''  '' @ what @ '' ('' @ show_nat (length rows) @ ''):'') # map (\<lambda>r. ''    '' @ r) rows"

definition current_channel :: "string list \<Rightarrow> string list \<Rightarrow> string list \<Rightarrow> string list" where
  "current_channel bs cs es = headed ''bastions'' bs @ headed ''credentials'' cs @ headed ''envs'' es"

definition current_direct :: "config \<Rightarrow> string list" where
  "current_direct cfg =
     headed ''bastions'' (map (\<lambda>b. br_name b @ '' '' @ br_host b @ '':'' @ show_nat (unat (br_port b)) @
         '' user='' @ br_ssh_user b @ '' auth='' @ br_auth_kind b) (bastion_rows cfg)) @
     headed ''credentials'' (map (\<lambda>c. cr_name c @ '' user='' @ cr_user c) (cred_rows cfg)) @
     headed ''envs'' (map (\<lambda>e. er_name e @ '' '' @ er_backend e @ '' engine='' @ er_engine e @ '' cred='' @
         er_credential e @ '' policy='' @ er_policy e @ '' port='' @ show_nat (unat (er_listen_port e)))
       (env_rows cfg))"

definition unpinned_bastion_warning :: "string \<Rightarrow> string list" where
  "unpinned_bastion_warning h =
     [''  ! no host-key fingerprint pinned. Connections through this bastion WILL be'',
      ''    refused until one is. Obtain it with:'',
      ''      ssh-keyscan '' @ h @ '' | ssh-keygen -lf -'',
      ''    then pin the SHA256 value as <algo>:<sha256_b64> (e.g. ssh-ed25519:AAAA'' @
        [CHR 0xE2, CHR 0x80, CHR 0xA6] @ '').'']"

text \<open>What is printed of the configuration, by both modes, has no secret in it: it is the same for two
  configurations that differ in passwords, keys and verifiers only.\<close>

lemma listings_tell_no_secret:
  assumes "c' = c\<lparr>bastions := bt_map_values (\<lambda>b. b\<lparr>auth := (case auth b of PasswordAuth _ \<Rightarrow> PasswordAuth []
        | KeyAuth _ p \<Rightarrow> KeyAuth [] p)\<rparr>) (bastions c),
      credentials := bt_map_values (\<lambda>r. r\<lparr>backend_password := []\<rparr>) (credentials c),
      envs := bt_map_values (\<lambda>e. e\<lparr>client_auth := NativePassword []\<rparr>) (envs c)\<rparr>"
  shows "current_direct c' = current_direct c"
    and "map bastion_row_line (bastion_rows c') = map bastion_row_line (bastion_rows c)"
    and "map cred_row_line (cred_rows c') = map cred_row_line (cred_rows c)"
    and "map env_row_line (env_rows c') = map env_row_line (env_rows c)"
proof -
  have b: "bastion_rows c' = bastion_rows c"
    by (auto simp: assms bastion_rows_def split: bastion_auth.splits)
  have r: "cred_rows c' = cred_rows c" by (auto simp: assms cred_rows_def)
  have e: "env_rows c' = env_rows c" by (auto simp: assms env_rows_def)
  show "current_direct c' = current_direct c" by (simp add: current_direct_def b r e)
  show "map bastion_row_line (bastion_rows c') = map bastion_row_line (bastion_rows c)" by (simp add: b)
  show "map cred_row_line (cred_rows c') = map cred_row_line (cred_rows c)" by (simp add: r)
  show "map env_row_line (env_rows c') = map env_row_line (env_rows c)" by (simp add: e)
qed

end
