(* ===== verification/Spec2Isabelle.thy ===== *)
theory Spec2Isabelle
  imports Init_Laws Windows_Laws Unix_Accounts Cli_Output Relaunch Secret Private_File Entry_Points Local_Ops
begin

text \<open>
  middleWHERE is a gateway between SQL clients and database servers. A daemon (\<open>mwsqld\<close>) listens
  on one local port per environment, authenticates the client with a token, checks each statement against
  the policy of the environment and runs it on the backend under credentials the client never sees, through
  an SSH bastion where one is configured. An administrator changes the configuration with \<open>mwsqlctl\<close>,
  over a control socket while the daemon runs or on the sealed file while it does not; \<open>mwsql\<close> is a
  client. This development models these programs and proves what they promise.

  \<^bold>\<open>How the parts interact.\<close> The configuration is one value. Every change is a transform of it
  (\<open>Mutate\<close>), run between a load and a save of the sealed file (\<open>State_Dir\<close> over
  \<open>Seal\<close> and \<open>Keyring\<close>). The daemon (\<open>Daemon\<close>) holds the environments it serves,
  each with a runtime (authentication, policy, engine, backend) that a live change replaces. The control
  server (\<open>Control_Conn\<close>, \<open>Handlers\<close>) authorises a peer, persists the transform and then
  applies it to the daemon; \<open>Server_State\<close> is the state of both, disk, daemon and audit log. A client
  connection runs one of the engines (\<open>Engine\<close>: \<open>Mysql_Server\<close> and \<open>Router\<close>, or
  \<open>Pg_Server\<close>) on a snapshot of a runtime. The tool (\<open>Cli\<close>, \<open>Wizard\<close>) sends requests
  (\<open>Control_Client\<close>) or runs the transforms itself (\<open>Local_Ops\<close>). \<open>Deploy\<close> installs and
  removes it all. \<open>Entry_Points\<close> is the main function of the tool and of the daemon, and how one starts
  the other to test a connection.

  \<^bold>\<open>Theories and sources\<close> (under \<open>src/crates/\<close>).

  \<^item> \<open>Prelude\<close>, \<open>Str_Ops\<close>, \<open>Num_Parse\<close>, \<open>Utf8\<close>, \<open>BTree_Map\<close>: bytes,
    strings and their searches, decimal numbers, UTF-8 as Rust decodes it, the ordered map as a sorted
    association list behind the locale \<open>ordered_map\<close>.
  \<^item> \<open>Config\<close>, \<open>Token\<close>, \<open>Policy\<close>, \<open>Mutate\<close>, \<open>Seal\<close>,
    \<open>Keyring\<close>, \<open>State_Dir\<close>, \<open>Audit_Log\<close>, \<open>Control_Frame\<close>: the modules of
    \<open>mw-core/src\<close> of the same names. \<open>Secret\<close>: the wrappers of \<open>secret.rs\<close> and the
    byte-array adapters of \<open>config.rs\<close>; \<open>Audit_Emit\<close>: the JSON form of the records and their
    way to the file (\<open>audit.rs\<close>); \<open>Private_File\<close>: files with modes, of \<open>keyring.rs\<close> and
    \<open>mwsql/src/lib.rs\<close>. A Rust struct is a record, an enum a datatype; an error is the
    left side of a sum. The stores are the locales \<open>key_store\<close> and \<open>config_store\<close>. A save
    is a list of file operations, any of which may fail.
  \<^item> \<open>Framing\<close>, \<open>Wire\<close>, \<open>Mysql_Server\<close>, \<open>Router\<close>,
    \<open>Stream_Codec\<close>: \<open>mw-net/src\<close>, MySQL. A stream is the list of bytes the peer sends.
    \<open>Pg_Proto\<close>, \<open>Pg_Params\<close>, \<open>Pg_Server\<close>: \<open>mw-net/src/engine/postgres\<close>.
    A session gives the trace of what it writes, audits and hands to the backend; \<open>Firewall_Gate\<close> is
    the locale of a session that asks the firewall, interpreted on both engines.
  \<^item> \<open>Ssh\<close>, \<open>Idle\<close>, \<open>Engine\<close>, \<open>Net_Addr\<close>: bastions and tunnels
    (\<open>ssh.rs\<close>), the idle policy (\<open>idle.rs\<close>), the engines with their pools (\<open>engine/mod.rs\<close>,
    \<open>mysql.rs\<close>, \<open>mssql.rs\<close>, \<open>postgres/mod.rs\<close>, \<open>postgres/client.rs\<close>,
    \<open>mysql_client.rs\<close>), socket addresses as the standard library parses them.
  \<^item> \<open>Daemon\<close>, \<open>Handlers\<close>, \<open>Server_State\<close>, \<open>Server_Invariant\<close>,
    \<open>Server_Reach\<close>, \<open>Peer_Auth\<close>, \<open>Control_Plane\<close>, \<open>Control_Conn\<close>:
    \<open>mwsqld/src\<close>. Reachable states are an inductive relation over requests, client connections and
    wakes of the reaper. \<open>Unix_Accounts\<close> is the C library's side of the Unix socket;
    \<open>Wide_String\<close>, \<open>Windows_Control\<close> and \<open>Windows_Laws\<close> are the Windows pipe
    (\<open>control/windows.rs\<close>), the service entry (\<open>winsvc.rs\<close>) and the client's end of it.
  \<^item> \<open>Control_Client\<close>, \<open>Conn_Url\<close>, \<open>Probe_Report\<close>, \<open>Import_Poc\<close>,
    \<open>Cli\<close>, \<open>Cli_Plane\<close>, \<open>Local_Ops\<close>, \<open>Cli_Output\<close>, \<open>Entry_Points\<close>: the configuration commands of \<open>mwsqlctl/src\<close>.
    \<open>Terminal\<close>, \<open>Wizard\<close>, \<open>Wizard_Session\<close>: its prompts and its wizard.
    \<open>Service\<close>, \<open>Host\<close>, \<open>Installer\<close>, \<open>Deploy\<close>, \<open>Deploy_Laws\<close>,
    \<open>Init_Laws\<close>, \<open>Relaunch\<close>: elevation, the relaunch on Windows, the service manager, the generated texts, init and uninstall.
    \<open>Default_Dirs\<close>: the default directories of \<open>mw-core/src/state.rs\<close> on each system.
  \<^item> \<open>Query_Client\<close>: \<open>mwsql/src\<close>. This theory: properties that span the components.

  \<^bold>\<open>What the lemmas show.\<close> \<open>Server_Reach\<close>: in every state the daemon can reach, each
  statement of a client was permitted to it by the configuration, the served environments are those of the
  sealed file, and every tunnel ends at a pinned host. \<open>Control_Plane\<close>: a request refines an abstract
  transition of the configuration, is audited once, and hands out only tokens that are live. \<open>Policy\<close>,
  \<open>Router\<close>, \<open>Pg_Server\<close>: the firewall against a predicate on statements, and that no session
  gets round it. \<open>State_Dir\<close>: changes are durable, and an interrupted save loses nothing.
  \<open>Mysql_Server\<close>, \<open>Pg_Server\<close> and this theory: who is accepted, and that a minted token is.
  \<open>Cli_Plane\<close>, \<open>Control_Client\<close>: both modes of the tool have the same effect, and a call over
  the socket is the handler. \<open>Windows_Laws\<close>: the pipe lets the same peers in, admits nobody else by its
  DACL, restores the thread's identity and always has an instance listening. \<open>Wizard_Session\<close>, \<open>Deploy_Laws\<close>, \<open>Init_Laws\<close>: the
  wizard ends and, like setting up again, keeps what was configured; an uninstall keeps the audit log and
  deletes a key last. \<open>Audit_Emit\<close>: the lines of the audit log read back as records that were
  emitted, whatever statements contain. \<open>Secret\<close>: printing tells no secret, a dropped one is overwritten.
  \<open>Relaunch\<close>: the elevated child gets exactly the arguments given, and its output comes back.
  \<open>Entry_Points\<close>: a connectivity check probes the configuration the tool works on. \<open>Local_Ops\<close>: the
  direct mode of a command is what the wrappers compose to. Round trips: frames, packets, messages, sealing, probe reports, connection URLs, stored
  tokens. Three theorems are of behaviour the code does not mean: statements and messages on which a session
  panics, and a query body that writes under the read-only policy.

  \<^bold>\<open>Bounds, loops and time.\<close> Machine integers keep their width; sequence numbers, lengths and
  capability flags are words. Loops over input are structural or have a measure (bytes left). The loops that
  ask the operator are \<open>partial_function (option)\<close>; \<open>wizard_ends\<close> shows that they return. The
  wait for a Windows service is thirty polls, the client tries a busy pipe ten times, and an account lookup
  doubles its buffer eight times at most, as in the code. No definition has fuel. Time is a number given
  with each event, a random draw is an argument.

  \<^bold>\<open>What the environment is.\<close> Code that is not in the repository is an argument, and what is relied
  on is a named hypothesis with a concrete instance: \<open>crypto_laws\<close> (sealing and CBOR open what they
  sealed), \<open>hex_laws\<close>, \<open>codec_laws\<close>, \<open>json_laws\<close>; the SQL parser (\<open>sqlparser\<close>), the digests, the
  database drivers, the SSH client, the resolver, the operating system's users and groups, and what a command
  the tool runs answers. Reading a stored file does not fail from one moment to the next: a load is a function
  of the disk. Between two calls of a handler's lock no other handler runs, as its mutex has it; what happens
  after the lock is released is a separate step.

  \<^bold>\<open>Not modelled.\<close> The parsing of arguments (clap): a command line is what it parses to, but for
  the arguments one program hands to another, which are read back. The drivers and the pool manager
  (\<open>mysql_async\<close>, \<open>tokio_postgres\<close>, \<open>deadpool\<close>): a pool is what the code configures it with, and
  the driver's answers are arguments. Log output other than audit records, and most of what the tools print
  beside tokens, listings, reports and the table of \<open>mwsql\<close>. The clock (\<open>now_iso8601\<close>). What an
  allocator does with freed memory beyond the bytes left in it. The timing of threads beyond the order of the
  steps. The memory behind a call of the C library or of Windows is the value it holds; a panic while a peer
  is impersonated is not among the outcomes. The remaining sources are tests, build scripts that embed the
  version, and re-exports.
\<close>

section \<open>Properties that span components\<close>

lemma new_env_auth:
  assumes "add_env sha1 sha256 raw args c = Inr (out, c')"
  shows "\<exists>e. bt_get (envs c') (ea_name args) = Some e \<and> engine e = ea_engine args \<and>
    client_auth e = client_auth_for sha1 sha256 (ea_engine args) (out_token out) \<and>
    out_token out = generate_token raw"
  using assms by (rule add_env_cases) (simp add: new_env_def)

lemma token_no_nul: "0 \<notin> set (as_bytes (generate_token raw))"
proof -
  have "char_byte c \<noteq> 0" if "c \<in> set ALPHABET" for c
    using that by (auto simp: ALPHABET_def char_byte_def)
  then show ?thesis using set_token_chars [of raw] by (auto simp: as_bytes_def generate_token_def)
qed

text \<open>
  C16 (a minted MySQL token opens its environment). After \<open>env add\<close> of a MySQL environment, a
  client that connects as the environment's name and answers the greeting's scramble with the token
  that was printed is accepted, whatever scramble was drawn; the stored verifier and the handshake agree.
\<close>

theorem minted_mysql_token_accepted:
  assumes "add_env sha1 sha256 raw args c = Inr (out, c')" and "ea_engine args = MySql"
    and "bt_get (envs c') (ea_name args) = Some e"
    and "\<And>x. length (sha1 x) = 20"
    and "utf8_text (ea_name args)" and "0 \<notin> set (as_bytes (ea_name args))"
    and "\<forall>d. db = Some d \<longrightarrow> 0 \<notin> set d"
    and "ar = native_response sha1 (as_bytes (out_token out)) (sanitize_scramble scr)"
    and "length (build_handshake_response (as_bytes (ea_name args)) ar db NATIVE_PLUGIN) < MAX_PAYLOAD"
  shows "\<exists>greeting. handshake sha1 scr (ea_name args) (client_auth e) tid
      (packet_bytes 1 (build_handshake_response (as_bytes (ea_name args)) ar db NATIVE_PLUGIN) @ rest)
    = (Inr \<lparr>as_env_name = ea_name args, as_client_username = ea_name args,
            as_database = map_option from_utf8_lossy db\<rparr>, greeting, rest)"
proof (rule handshake_accepts_token [OF assms(4-7) assms(9) assms(8)])
  show "client_auth e = NativePassword (double_sha1 sha1 (as_bytes (out_token out)))"
    using new_env_auth [OF assms(1)] assms(2,3) by auto
qed

lemma sample_add_env:
  "\<exists>out c' e. add_env (\<lambda>b. replicate 20 0) (\<lambda>b. b) [] (sample_args\<lparr>ea_engine := k\<rparr>)
       (sample_config []) = Inr (out, c') \<and> bt_get (envs c') ''dev'' = Some e"
  if "k \<noteq> MsSql"
proof -
  have "(6033 :: u16) \<in> word_of_nat ` {CLIENT_PORT_BASE..CLIENT_PORT_END}"
    by (rule image_eqI [of _ _ 6033]) (simp_all add: CLIENT_PORT_BASE_def CLIENT_PORT_END_def)
  moreover have "used_ports (sample_config []) = {}"
    by (auto simp: in_used_ports sample_config_def)
  ultimately have "\<exists>r. add_env (\<lambda>b. replicate 20 0) (\<lambda>b. b) [] (sample_args\<lparr>ea_engine := k\<rparr>)
      (sample_config []) = Inr r"
    unfolding add_env_Inr_iff missing_bastion_None pick_free_port_None
    using that by (auto simp: sample_args_def sample_config_def)
  then obtain out c' where r: "add_env (\<lambda>b. replicate 20 0) (\<lambda>b. b) [] (sample_args\<lparr>ea_engine := k\<rparr>)
      (sample_config []) = Inr (out, c')" by auto
  from new_env_auth [OF this] r show ?thesis by (auto simp: sample_args_def)
qed

lemma dev_text: "utf8_text ''dev''" "0 \<notin> set (as_bytes ''dev'')"
  unfolding utf8_text_def by (rule valid_utf8_ascii) (simp_all add: char_byte_def)

lemma sample_args_name [simp]: "ea_name (sample_args\<lparr>ea_engine := k\<rparr>) = ''dev''"
  by (simp add: sample_args_def)

theorem minted_mysql_token_accepted_witness:
  "\<exists>out c' e ar greeting. add_env (\<lambda>b. replicate 20 0) (\<lambda>b. b) [] (sample_args\<lparr>ea_engine := MySql\<rparr>)
       (sample_config []) = Inr (out, c') \<and> bt_get (envs c') ''dev'' = Some e \<and>
     handshake (\<lambda>b. replicate 20 0) (replicate 20 5) ''dev'' (client_auth e) 1
       (packet_bytes 1 (build_handshake_response (as_bytes ''dev'') ar None NATIVE_PLUGIN) @ [])
     = (Inr \<lparr>as_env_name = ''dev'', as_client_username = ''dev'', as_database = None\<rparr>, greeting, [])"
proof -
  let ?sha = "\<lambda>b :: bytes. replicate 20 0 :: bytes" and ?scr = "replicate 20 5 :: bytes"
  obtain out c' e where a: "add_env ?sha (\<lambda>b. b) [] (sample_args\<lparr>ea_engine := MySql\<rparr>) (sample_config [])
      = Inr (out, c')" "bt_get (envs c') ''dev'' = Some e"
    using sample_add_env [of MySql] by auto
  let ?ar = "native_response ?sha (as_bytes (out_token out)) (sanitize_scramble ?scr)"
  have len: "length (build_handshake_response (as_bytes ''dev'') ?ar None NATIVE_PLUGIN) < MAX_PAYLOAD"
    by (simp add: build_handshake_response_caps native_response_def NATIVE_PLUGIN_def MAX_PAYLOAD_def
        Let_def)
  show ?thesis
    using minted_mysql_token_accepted [OF a(1), of e None ?ar ?scr 1 "[]"] a len dev_text by auto
qed

text \<open>
  C17 (a minted PostgreSQL token opens its environment). After \<open>env add\<close> of a PostgreSQL
  environment, a client that starts up as the environment's name and sends the printed token as its
  password is accepted.
\<close>

theorem minted_pg_token_accepted:
  assumes "add_env sha1 sha256 raw args c = Inr (out, c')" and "ea_engine args = Postgres"
    and "bt_get (envs c') (ea_name args) = Some e"
    and "length raw = TOKEN_RAND_BYTES"
    and "utf8_text (ea_name args)" and "0 \<notin> set (as_bytes (ea_name args))"
    and "length (startup_bytes [(as_bytes ''user'', as_bytes (ea_name args))]) \<le> 10000"
  shows "\<exists>greeting. pg_handshake sha256 pid secret (ea_name args) (client_auth e)
      (startup_bytes [(as_bytes ''user'', as_bytes (ea_name args))] @
       msg (tag_byte (CHR ''p'')) (as_bytes (out_token out) @ [0]) @ rest)
    = (Inr \<lparr>ps_user_seen = ea_name args, ps_database = None\<rparr>, greeting, rest)"
proof (rule pg_handshake_accepts_token [OF assms(5,6) _ assms(7)])
  obtain e' where e': "bt_get (envs c') (ea_name args) = Some e'"
    "client_auth e' = client_auth_for sha1 sha256 (ea_engine args) (out_token out)"
    "out_token out = generate_token raw"
    using new_env_auth [OF assms(1)] by blast
  show "0 \<notin> set (as_bytes (out_token out))" using e'(3) token_no_nul by simp
  show "client_auth e = PgCleartext (sha256 (as_bytes (out_token out)))"
    using e' assms(2,3) by simp
  have "length (out_token out) = 43"
    using assms(4) e'(3) by (simp add: generate_token_def length_token_chars TOKEN_RAND_BYTES_def)
  then show "length (as_bytes (out_token out) @ [0]) + 4 \<le> MAX_MESSAGE"
    by (simp add: MAX_MESSAGE_def)
qed

theorem minted_pg_token_accepted_witness:
  "\<exists>out c' e greeting. add_env (\<lambda>b. replicate 20 0) (\<lambda>b. b) (replicate 32 3)
       (sample_args\<lparr>ea_engine := Postgres\<rparr>) (sample_config []) = Inr (out, c') \<and>
     bt_get (envs c') ''dev'' = Some e \<and>
     pg_handshake (\<lambda>b. b) 1 2 ''dev'' (client_auth e)
      (startup_bytes [(as_bytes ''user'', as_bytes ''dev'')] @
       msg (tag_byte (CHR ''p'')) (as_bytes (out_token out) @ [0]) @ [])
     = (Inr \<lparr>ps_user_seen = ''dev'', ps_database = None\<rparr>, greeting, [])"
proof -
  obtain out0 c0 where "add_env (\<lambda>b. replicate 20 0) (\<lambda>b. b) [] (sample_args\<lparr>ea_engine := Postgres\<rparr>)
      (sample_config []) = Inr (out0, c0)"
    using sample_add_env [of Postgres] by auto
  then have "\<exists>r. add_env (\<lambda>b. replicate 20 0) (\<lambda>b. b) (replicate 32 3)
      (sample_args\<lparr>ea_engine := Postgres\<rparr>) (sample_config []) = Inr r"
    using add_env_Inr_iff by metis
  then obtain out c' where a: "add_env (\<lambda>b. replicate 20 0) (\<lambda>b. b) (replicate 32 3)
      (sample_args\<lparr>ea_engine := Postgres\<rparr>) (sample_config []) = Inr (out, c')" by auto
  obtain e where e: "bt_get (envs c') ''dev'' = Some e" using new_env_auth [OF a] by auto
  have "length (startup_bytes [(as_bytes ''user'', as_bytes ''dev'')]) \<le> 10000"
    by (simp add: startup_bytes_def len_simps)
  then obtain greeting where "pg_handshake (\<lambda>b. b) 1 2 ''dev'' (client_auth e)
      (startup_bytes [(as_bytes ''user'', as_bytes ''dev'')] @
       msg (tag_byte (CHR ''p'')) (as_bytes (out_token out) @ [0]) @ [])
     = (Inr \<lparr>ps_user_seen = ''dev'', ps_database = None\<rparr>, greeting, [])"
    using minted_pg_token_accepted [OF a, of e 1 2 "[]"] e dev_text
    by (auto simp: TOKEN_RAND_BYTES_def simp del: as_bytes_simps)
  with a e show ?thesis by blast
qed



end
